(* ===== verification/Prelude.thy ===== *)
theory Prelude
  imports Main "HOL-Library.Word" "HOL-Library.Signed_Division" "HOL-Library.Multiset"
begin

text \<open>
  Shared vocabulary of the development: the counterparts of the C++ library idioms the sources use
  (first-match loops over a vector, erasing at an index, resizing, truncating division), the generic
  lemmas about them, and the two theorem collections the component proofs are driven by.

  \<^item> \<open>inv_intros\<close> collects the preservation lemmas of the component invariants;
  \<^item> \<open>frame_simps\<close> collects the equations that say which part of a state an operation leaves alone.
\<close>

named_theorems inv_intros "preservation lemmas of the component invariants"
named_theorems frame_simps "what an operation leaves unchanged"

section \<open>Vectors\<close>

text \<open>The loop \<^verbatim>\<open>for (i = 0; i < xs.size(); i++) if (P(xs[i])) return i;\<close>\<close>

fun find_index :: "('a \<Rightarrow> bool) \<Rightarrow> 'a list \<Rightarrow> nat option" where
  "find_index P [] = None"
| "find_index P (x # xs) = (if P x then Some 0 else map_option Suc (find_index P xs))"

lemma find_index_None_iff: "find_index P xs = None \<longleftrightarrow> (\<forall>x\<in>set xs. \<not> P x)"
  by (induction xs) auto

lemma find_index_SomeD:
  "find_index P xs = Some i \<Longrightarrow> i < length xs \<and> P (xs ! i) \<and> (\<forall>j<i. \<not> P (xs ! j))"
proof (induction xs arbitrary: i)
  case (Cons x xs)
  then show ?case
    by (cases i) (auto split: if_splits simp: nth_Cons' less_Suc_eq_0_disj)
qed simp

lemma find_index_Some_iff:
  "find_index P xs = Some i \<longleftrightarrow> i < length xs \<and> P (xs ! i) \<and> (\<forall>j<i. \<not> P (xs ! j))"
proof
  assume r: "i < length xs \<and> P (xs ! i) \<and> (\<forall>j<i. \<not> P (xs ! j))"
  then obtain k where k: "find_index P xs = Some k"
    by (metis find_index_None_iff not_None_eq nth_mem)
  with find_index_SomeD [OF k] r show "find_index P xs = Some i"
    by (metis linorder_neqE_nat)
qed (rule find_index_SomeD)

lemma find_index_ex: "x \<in> set xs \<Longrightarrow> P x \<Longrightarrow> \<exists>i. find_index P xs = Some i"
  by (cases "find_index P xs") (auto simp: find_index_None_iff)

lemma find_index_cong [fundef_cong]:
  "xs = ys \<Longrightarrow> (\<And>x. x \<in> set ys \<Longrightarrow> P x = Q x) \<Longrightarrow> find_index P xs = find_index Q ys"
  by (induction xs arbitrary: ys) auto

lemma find_index_distinct:
  "distinct xs \<Longrightarrow> i < length xs \<Longrightarrow> find_index (\<lambda>x. x = xs ! i) xs = Some i"
  by (auto simp: find_index_Some_iff nth_eq_iff_index_eq)

text \<open>\<^verbatim>\<open>v.erase(v.begin() + i)\<close>\<close>

definition remove_nth :: "nat \<Rightarrow> 'a list \<Rightarrow> 'a list" where
  "remove_nth i xs = take i xs @ drop (Suc i) xs"

lemma length_remove_nth [simp]: "i < length xs \<Longrightarrow> length (remove_nth i xs) = length xs - 1"
  by (simp add: remove_nth_def)

lemma remove_nth_split: "remove_nth (length ys) (ys @ x # zs) = ys @ zs"
  by (simp add: remove_nth_def)

lemma mset_remove_nth: "i < length xs \<Longrightarrow> mset xs = add_mset (xs ! i) (mset (remove_nth i xs))"
  by (metis id_take_nth_drop mset_append mset.simps(2) remove_nth_def union_mset_add_mset_right)

lemma remove_nth_decomp:
  "i < length xs \<Longrightarrow> \<exists>ys zs. xs = ys @ xs ! i # zs \<and> remove_nth i xs = ys @ zs"
  by (metis id_take_nth_drop remove_nth_def)

lemma set_remove_nth:
  assumes "distinct xs" and "i < length xs"
  shows "set (remove_nth i xs) = set xs - {xs ! i}"
proof -
  obtain ys zs where xs: "xs = ys @ xs ! i # zs" and r: "remove_nth i xs = ys @ zs"
    using remove_nth_decomp [OF assms(2)] by blast
  have "distinct (ys @ xs ! i # zs)" using assms(1) xs by simp
  then have "set (ys @ zs) = set (ys @ xs ! i # zs) - {xs ! i}" by auto
  with xs r show ?thesis by simp
qed

lemma distinct_remove_nth: "distinct xs \<Longrightarrow> distinct (remove_nth i xs)"
proof (cases "i < length xs")
  case True
  assume d: "distinct xs"
  from remove_nth_decomp [OF True] obtain ys zs
    where xs: "xs = ys @ xs ! i # zs" and r: "remove_nth i xs = ys @ zs" by blast
  have "distinct (ys @ xs ! i # zs)" using d xs by simp
  with r show ?thesis by simp
next
  case False
  assume "distinct xs"
  with False show ?thesis by (simp add: remove_nth_def)
qed

lemma set_remove_nth_subset: "set (remove_nth i xs) \<subseteq> set xs"
  by (auto simp: remove_nth_def dest: in_set_takeD in_set_dropD)

text \<open>\<^verbatim>\<open>v.resize(n, d)\<close>\<close>

definition resize :: "'a list \<Rightarrow> nat \<Rightarrow> 'a \<Rightarrow> 'a list" where
  "resize xs n d = take n xs @ replicate (n - length xs) d"

lemma length_resize [simp]: "length (resize xs n d) = n"
  by (simp add: resize_def)

lemma distinct_concat_nth:
  assumes "\<And>i. i < length xss \<Longrightarrow> distinct (xss ! i)"
    and "\<And>i j x. i < length xss \<Longrightarrow> j < length xss \<Longrightarrow> x \<in> set (xss ! i) \<Longrightarrow> x \<in> set (xss ! j) \<Longrightarrow> i = j"
  shows "distinct (concat xss)"
  using assms
proof (induction xss)
  case (Cons xs xss)
  have "distinct xs" using Cons.prems(1) [of 0] by simp
  moreover have "distinct (concat xss)"
  proof (rule Cons.IH)
    show "distinct (xss ! i)" if "i < length xss" for i
      using Cons.prems(1) [of "Suc i"] that by simp
    show "i = j" if "i < length xss" "j < length xss" "x \<in> set (xss ! i)" "x \<in> set (xss ! j)" for i j x
      using Cons.prems(2) [of "Suc i" "Suc j" x] that by simp
  qed
  moreover have "set xs \<inter> set ys = {}" if "ys \<in> set xss" for ys
  proof -
    from that obtain j where "j < length xss" "xss ! j = ys" by (auto simp: in_set_conv_nth)
    then show ?thesis using Cons.prems(2) [of 0 "Suc j"] by auto
  qed
  ultimately show ?case by auto
qed simp

lemma distinct_all_equal_length:
  assumes "distinct xs" and "\<And>x y. x \<in> set xs \<Longrightarrow> y \<in> set xs \<Longrightarrow> x = y"
  shows "length xs \<le> 1"
proof (cases xs)
  case (Cons x ys)
  have "ys = []"
  proof (rule ccontr)
    assume "ys \<noteq> []"
    then have "hd ys \<in> set ys" by simp
    moreover from this have "x = hd ys" using assms(2) [of x "hd ys"] Cons by auto
    ultimately show False using assms(1) Cons by auto
  qed
  with Cons show ?thesis by simp
qed simp

text \<open>Appending the elements that are not there yet, in order.\<close>

fun add_new :: "'a list \<Rightarrow> 'a list \<Rightarrow> 'a list" where
  "add_new acc [] = acc"
| "add_new acc (x # xs) = add_new (if x \<in> set acc then acc else acc @ [x]) xs"

lemma set_add_new [simp]: "set (add_new acc xs) = set acc \<union> set xs"
  by (induction xs arbitrary: acc) auto

lemma distinct_add_new: "distinct acc \<Longrightarrow> distinct (add_new acc xs)"
  by (induction xs arbitrary: acc) auto

lemma add_new_absorb: "set xs \<subseteq> set acc \<Longrightarrow> add_new acc xs = acc"
  by (induction xs arbitrary: acc) auto

lemma add_new_append: "add_new acc (xs @ ys) = add_new (add_new acc xs) ys"
  by (induction xs arbitrary: acc) auto

lemma add_new_fresh: "distinct xs \<Longrightarrow> set acc \<inter> set xs = {} \<Longrightarrow> add_new acc xs = acc @ xs"
  by (induction xs arbitrary: acc) auto

section \<open>Counting loops\<close>

text \<open>
  The loop \<^verbatim>\<open>for (i = 1; i <= n; i++) if (P(f(i))) return f(i);\<close> is a search through the images of
  \<open>[1..n]\<close>; the lemma below is its specification.
\<close>

lemma shift_least:
  assumes "\<not> Q (a :: int)" and "\<And>k. R k \<Longrightarrow> Q k"
  shows "(\<exists>k\<ge>a + 1. R k \<and> (\<forall>j. a + 1 \<le> j \<longrightarrow> j < k \<longrightarrow> \<not> Q j)) \<longleftrightarrow>
         (\<exists>k\<ge>a. R k \<and> (\<forall>j. a \<le> j \<longrightarrow> j < k \<longrightarrow> \<not> Q j))" (is "?L \<longleftrightarrow> ?R")
proof
  assume ?L
  then obtain k where k: "k \<ge> a + 1" "R k" "\<forall>j. a + 1 \<le> j \<longrightarrow> j < k \<longrightarrow> \<not> Q j" by blast
  have "\<not> Q j" if "a \<le> j" "j < k" for j
    using k(3) that assms(1) by (cases "j = a") auto
  with k show ?R by (intro exI [of _ k]) auto
next
  assume ?R
  then obtain k where k: "k \<ge> a" "R k" "\<forall>j. a \<le> j \<longrightarrow> j < k \<longrightarrow> \<not> Q j" by blast
  have "k \<noteq> a" using assms k(2) by blast
  with k show ?L by (intro exI [of _ k]) auto
qed

lemma find_map_upto_Some_iff:
  "find P (map f [a..b]) = Some x \<longleftrightarrow>
     (\<exists>k. a \<le> k \<and> k \<le> b \<and> P (f k) \<and> x = f k \<and> (\<forall>j. a \<le> j \<longrightarrow> j < k \<longrightarrow> \<not> P (f j)))"
proof (induction "nat (b + 1 - a)" arbitrary: a)
  case 0
  then have "[a..b] = []" and "b < a" by auto
  then show ?case by auto
next
  case (Suc m)
  then have ab: "a \<le> b" by linarith
  then have l: "[a..b] = a # [a + 1..b]" by (simp add: upto_rec1)
  show ?case
  proof (cases "P (f a)")
    case True
    have "k = a" if "a \<le> k" "\<forall>j. a \<le> j \<longrightarrow> j < k \<longrightarrow> \<not> P (f j)" for k
      using that True by (metis order_refl order_le_less)
    with True ab show ?thesis by (auto simp: l)
  next
    case False
    have "(\<exists>k. a + 1 \<le> k \<and> k \<le> b \<and> P (f k) \<and> x = f k \<and> (\<forall>j. a + 1 \<le> j \<longrightarrow> j < k \<longrightarrow> \<not> P (f j))) \<longleftrightarrow>
      (\<exists>k. a \<le> k \<and> k \<le> b \<and> P (f k) \<and> x = f k \<and> (\<forall>j. a \<le> j \<longrightarrow> j < k \<longrightarrow> \<not> P (f j)))"
      using False shift_least [of "\<lambda>j. P (f j)" a "\<lambda>k. k \<le> b \<and> P (f k) \<and> x = f k"] by auto
    moreover have "m = nat (b + 1 - (a + 1))" using Suc.hyps(2) by linarith
    ultimately show ?thesis using False Suc.hyps(1) [of "a + 1"] by (simp add: l)
  qed
qed

lemma find_map_upto_None_iff:
  "find P (map f [a..b]) = None \<longleftrightarrow> (\<forall>k. a \<le> k \<longrightarrow> k \<le> b \<longrightarrow> \<not> P (f k))"
  by (auto simp: find_None_iff)

lemma smod_int_nonneg: "0 \<le> a \<Longrightarrow> 0 < b \<Longrightarrow> a smod b = a mod (b :: int)"
  by (cases "a = 0") (simp_all add: signed_modulo_int_def signed_divide_int_def minus_div_mult_eq_mod)

lemma sdiv_int_nonneg: "0 \<le> a \<Longrightarrow> 0 < b \<Longrightarrow> a sdiv b = a div (b :: int)"
  by (cases "a = 0") (simp_all add: signed_divide_int_def)

end
