(* ===== verification/Domain_Types.thy ===== *)
theory Domain_Types
  imports Prelude
begin

text \<open>
  The data model of the window-manager core: identifiers and vectors
  (\<^verbatim>\<open>core/include/backend/events.hpp\<close>, \<^verbatim>\<open>support/vec.hpp\<close>), configuration types
  (\<^verbatim>\<open>config/config_types.hpp\<close>), monitors and windows (\<^verbatim>\<open>domain/monitor.hpp\<close>,
  \<^verbatim>\<open>domain/window_state.hpp\<close>), and the geometry of a monitor with reserved edges.

  \<^verbatim>\<open>WindowId\<close> is \<^verbatim>\<open>uint32_t\<close>, so a \<^typ>\<open>32 word\<close>; \<^verbatim>\<open>WorkspaceId\<close> and
  \<^verbatim>\<open>MonitorId\<close> are \<^verbatim>\<open>int\<close> with \<open>-1\<close> as the sentinel. Coordinates are C++ \<^verbatim>\<open>int\<close>, whose
  overflow is undefined; they are modelled by \<^typ>\<open>int\<close>, and where the code narrows
  (\<^verbatim>\<open>Vec2i16\<close>) or converts to \<^verbatim>\<open>uint32_t\<close> the wrap-around is written out.
\<close>

section \<open>Identifiers and vectors\<close>

type_synonym window_id = "32 word"
type_synonym workspace_id = int
type_synonym monitor_id = int
type_synonym vec2i = "int \<times> int"

definition NO_WINDOW :: window_id where
  "NO_WINDOW = 0"

definition NO_WORKSPACE :: workspace_id where
  "NO_WORKSPACE = - 1"

definition NO_MONITOR :: monitor_id where
  "NO_MONITOR = - 1"

text \<open>\<^verbatim>\<open>pos + size / 2\<close>, with C++ truncating division.\<close>

definition vec2i_center :: "vec2i \<Rightarrow> vec2i \<Rightarrow> vec2i" where
  "vec2i_center p s = (fst p + fst s sdiv 2, snd p + snd s sdiv 2)"

text \<open>The converting constructor \<^verbatim>\<open>Vec2i16(Vec2i)\<close>: \<^verbatim>\<open>static_cast<int16_t>\<close> on each component.\<close>

definition vec2i16_of :: "vec2i \<Rightarrow> vec2i" where
  "vec2i16_of p = (signed_take_bit 15 (fst p), signed_take_bit 15 (snd p))"

section \<open>Configuration types\<close>

record monitor_alias =
  ma_alias :: string
  ma_output :: string
  ma_width :: int
  ma_height :: int
  ma_rate :: int
  ma_rotation :: string
  ma_enabled :: bool

record monitor_compose_link =
  link_monitor :: string
  relative_to :: string
  link_side :: string
  link_shift :: int

record monitor_compose =
  primary :: string
  compose_layout :: "monitor_compose_link list"
  defined :: bool

record workspace_def =
  def_name :: string
  def_monitor :: string

record theme_config =
  dpi :: int
  cursor_size :: int
  cursor_theme :: string
  font :: string
  bg :: string
  fg :: string
  alt_bg :: string
  alt_fg :: string
  accent :: string
  border_thickness :: int
  border_focused :: string
  border_unfocused :: string
  gap :: int

section \<open>Monitors\<close>

datatype monitor_edge = EdgeTop | EdgeBottom | EdgeLeft | EdgeRight

record monitor =
  mon_id :: monitor_id
  mon_name :: string
  mon_pos :: vec2i
  mon_size :: vec2i
  active_ws :: workspace_id
  top_inset :: int
  bottom_inset :: int
  left_inset :: int
  right_inset :: int

definition mk_monitor :: "monitor_id \<Rightarrow> string \<Rightarrow> int \<Rightarrow> int \<Rightarrow> int \<Rightarrow> int \<Rightarrow> monitor" where
  "mk_monitor i n x y w h =
     \<lparr>mon_id = i, mon_name = n, mon_pos = (x, y), mon_size = (w, h), active_ws = NO_WORKSPACE,
      top_inset = 0, bottom_inset = 0, left_inset = 0, right_inset = 0\<rparr>"

fun inset :: "monitor \<Rightarrow> monitor_edge \<Rightarrow> int" where
  "inset m EdgeTop = top_inset m"
| "inset m EdgeBottom = bottom_inset m"
| "inset m EdgeLeft = left_inset m"
| "inset m EdgeRight = right_inset m"

definition mon_center :: "monitor \<Rightarrow> vec2i" where
  "mon_center m = vec2i_center (mon_pos m) (mon_size m)"

definition in_rect :: "vec2i \<Rightarrow> vec2i \<Rightarrow> vec2i \<Rightarrow> bool" where
  "in_rect p s q \<longleftrightarrow> fst q \<ge> fst p \<and> fst q < fst p + fst s \<and> snd q \<ge> snd p \<and> snd q < snd p + snd s"

definition contains :: "monitor \<Rightarrow> vec2i \<Rightarrow> bool" where
  "contains m q \<longleftrightarrow> in_rect (mon_pos m) (mon_size m) q"

definition physical :: "monitor \<Rightarrow> vec2i \<times> vec2i" where
  "physical m =
     (let top = max 0 (top_inset m); bot = max 0 (bottom_inset m);
          left = max 0 (left_inset m); right = max 0 (right_inset m)
      in ((fst (mon_pos m) - left, snd (mon_pos m) - top),
          (max 1 (fst (mon_size m) + left + right), max 1 (snd (mon_size m) + top + bot))))"

definition physical_contains :: "monitor \<Rightarrow> vec2i \<Rightarrow> bool" where
  "physical_contains m q = (let (pp, ps) = physical m in in_rect pp ps q)"

text \<open>The \<^verbatim>\<open>switch\<close> of \<^verbatim>\<open>WorkspaceManager::adjust_monitor_inset\<close> on one monitor.\<close>

fun adjust_inset :: "monitor_edge \<Rightarrow> int \<Rightarrow> monitor \<Rightarrow> monitor" where
  "adjust_inset EdgeTop d m =
     m\<lparr>mon_pos := (fst (mon_pos m), snd (mon_pos m) + d),
       mon_size := (fst (mon_size m), max 0 (snd (mon_size m) - d)),
       top_inset := top_inset m + d\<rparr>"
| "adjust_inset EdgeBottom d m =
     m\<lparr>mon_size := (fst (mon_size m), max 0 (snd (mon_size m) - d)),
       bottom_inset := bottom_inset m + d\<rparr>"
| "adjust_inset EdgeLeft d m =
     m\<lparr>mon_pos := (fst (mon_pos m) + d, snd (mon_pos m)),
       mon_size := (max 0 (fst (mon_size m) - d), snd (mon_size m)),
       left_inset := left_inset m + d\<rparr>"
| "adjust_inset EdgeRight d m =
     m\<lparr>mon_size := (max 0 (fst (mon_size m) - d), snd (mon_size m)),
       right_inset := right_inset m + d\<rparr>"

section \<open>Windows\<close>

datatype window_type = TNormal | TDialog | TUtility | TSplash | TModal | TDock | TDesktop

record window =
  win_id :: window_id
  mapped :: bool
  hidden_by_workspace :: bool
  hidden_explicitly :: bool
  floating :: bool
  fullscreen :: bool
  borderless :: bool
  border_before_fullscreen :: "32 word"
  pos_before_fullscreen :: vec2i
  size_before_fullscreen :: vec2i
  suppress_focus_once :: bool
  wm_instance :: string
  wm_class :: string
  title :: string
  pid :: "32 word"
  win_type :: window_type
  size_locked :: bool
  no_input_focus :: bool
  urgent :: bool
  preserve_position :: bool
  size_min :: vec2i
  size_max :: vec2i
  size_inc :: vec2i
  size_base :: vec2i
  self_managed :: bool
  promote_to_borderless :: bool
  win_pos :: vec2i
  win_size :: vec2i
  border_width :: "32 word"

text \<open>\<^verbatim>\<open>std::make_shared<swm::Window>()\<close> followed by \<^verbatim>\<open>window->id = win\<close>: the member initialisers.\<close>

definition mk_window :: "window_id \<Rightarrow> window" where
  "mk_window w =
     \<lparr>win_id = w, mapped = False, hidden_by_workspace = False, hidden_explicitly = False,
      floating = False, fullscreen = False, borderless = False, border_before_fullscreen = 0,
      pos_before_fullscreen = (0, 0), size_before_fullscreen = (0, 0), suppress_focus_once = False,
      wm_instance = [], wm_class = [], title = [], pid = 0, win_type = TNormal,
      size_locked = False, no_input_focus = False, urgent = False, preserve_position = False,
      size_min = (0, 0), size_max = (0, 0), size_inc = (0, 0), size_base = (0, 0),
      self_managed = False, promote_to_borderless = False,
      win_pos = (0, 0), win_size = (0, 0), border_width = 0\<rparr>"

definition is_visible :: "window \<Rightarrow> bool" where
  "is_visible w \<longleftrightarrow> mapped w \<and> \<not> hidden_by_workspace w \<and> \<not> hidden_explicitly w"

definition is_dialog :: "window \<Rightarrow> bool" where
  "is_dialog w \<longleftrightarrow> win_type w = TDialog \<or> win_type w = TModal"

definition is_self_managed :: "window \<Rightarrow> bool" where
  "is_self_managed w \<longleftrightarrow> self_managed w \<or> preserve_position w"

lemma win_id_mk_window [simp]: "win_id (mk_window w) = w"
  by (simp add: mk_window_def)

section \<open>Geometry of reserved edges\<close>

text \<open>
  A reservation on an edge shrinks the usable area and is undone by \<^const>\<open>physical\<close> as long as it is
  not negative and fits into what is left of the monitor.
\<close>

definition reservable :: "monitor_edge \<Rightarrow> int \<Rightarrow> monitor \<Rightarrow> bool" where
  "reservable e px m \<longleftrightarrow> 0 \<le> inset m e \<and> 0 \<le> px \<and>
     (case e of EdgeTop \<Rightarrow> px - inset m e \<le> snd (mon_size m)
        | EdgeBottom \<Rightarrow> px - inset m e \<le> snd (mon_size m)
        | EdgeLeft \<Rightarrow> px - inset m e \<le> fst (mon_size m)
        | EdgeRight \<Rightarrow> px - inset m e \<le> fst (mon_size m))"

lemma adjust_inset_sets: "inset (adjust_inset e (px - inset m e) m) e = px"
  by (cases e) auto

lemma adjust_inset_other: "e' \<noteq> e \<Longrightarrow> inset (adjust_inset e d m) e' = inset m e'"
  by (cases e; cases e') auto

lemma adjust_inset_frame [frame_simps]:
  "mon_id (adjust_inset e d m) = mon_id m" "mon_name (adjust_inset e d m) = mon_name m"
  "active_ws (adjust_inset e d m) = active_ws m"
  by (cases e; simp)+

lemma physical_adjust_inset:
  "reservable e px m \<Longrightarrow> physical (adjust_inset e (px - inset m e) m) = physical m"
  by (cases e) (auto simp: reservable_def physical_def Let_def)

end
