(* ===== verification/Workspace.thy ===== *)
theory Workspace
  imports Domain_Types
begin

text \<open>
  \<^verbatim>\<open>struct Workspace\<close> (\<^verbatim>\<open>core/include/domain/ws.hpp\<close>,
  \<^verbatim>\<open>core/src/core/workspace_manager.cpp\<close>): an ordered list of shared windows and a cursor.

  \<^verbatim>\<open>std::shared_ptr<swm::Window>\<close> is a reference \<open>wptr\<close> into a heap of window objects: the same
  object is reached from a workspace's list and from the manager's index, and a write through one is
  seen through the other. A workspace never stores a null pointer (both callers of
  \<^verbatim>\<open>Workspace::add_window\<close> test it first), so the list holds references, and the null tests of the
  loops have no counterpart.
\<close>

type_synonym wptr = nat
type_synonym heap = "wptr \<Rightarrow> window"

datatype workspace_mode = ModeNormal | ModeFullscreen

record workspace =
  ws_id :: int
  windows :: "wptr list"
  current :: int
  ws_name :: string
  ws_monitor_alias :: string
  ws_mode :: workspace_mode

definition mk_workspace :: "int \<Rightarrow> string \<Rightarrow> string \<Rightarrow> workspace" where
  "mk_workspace i n a =
     \<lparr>ws_id = i, windows = [], current = - 1, ws_name = n, ws_monitor_alias = a, ws_mode = ModeNormal\<rparr>"

definition is_fs :: "window \<Rightarrow> bool" where
  "is_fs w \<longleftrightarrow> fullscreen w \<or> borderless w"

definition has_fullscreen_window :: "heap \<Rightarrow> workspace \<Rightarrow> bool" where
  "has_fullscreen_window h ws \<longleftrightarrow> (\<exists>p\<in>set (windows ws). is_visible (h p) \<and> is_fs (h p))"

definition ws_add_window :: "wptr \<Rightarrow> workspace \<Rightarrow> workspace" where
  "ws_add_window p ws =
     ws\<lparr>windows := windows ws @ [p], current := (if current ws = - 1 then 0 else current ws)\<rparr>"

definition ws_remove_window :: "heap \<Rightarrow> window_id \<Rightarrow> workspace \<Rightarrow> bool \<times> workspace" where
  "ws_remove_window h win ws =
     (case find_index (\<lambda>p. win_id (h p) = win) (windows ws) of
        None \<Rightarrow> (False, ws)
      | Some i \<Rightarrow>
          (let ps = remove_nth i (windows ws); n = int (length ps); c = current ws in
           (True, ws\<lparr>windows := ps,
              current := (if ps = [] then - 1
                          else if c > int i then c - 1
                          else if c = int i then min (int i) (n - 1)
                          else if c \<ge> n then n - 1
                          else c)\<rparr>)))"

definition any_visible :: "heap \<Rightarrow> workspace \<Rightarrow> bool" where
  "any_visible h ws \<longleftrightarrow> (\<exists>p\<in>set (windows ws). is_visible (h p))"

text \<open>What the loops of \<^verbatim>\<open>focused\<close>, \<^verbatim>\<open>focus_next\<close> and \<^verbatim>\<open>focus_prev\<close> do not skip.\<close>

definition candidate :: "heap \<Rightarrow> workspace \<Rightarrow> wptr \<Rightarrow> bool" where
  "candidate h ws p \<longleftrightarrow> \<not> (any_visible h ws \<and> \<not> is_visible (h p))"

definition focused :: "heap \<Rightarrow> workspace \<Rightarrow> wptr option" where
  "focused h ws =
     (if 0 \<le> current ws \<and> current ws < int (length (windows ws)) \<and>
         (\<not> any_visible h ws \<or> is_visible (h (windows ws ! nat (current ws))))
      then Some (windows ws ! nat (current ws))
      else find (candidate h ws) (windows ws))"

text \<open>The two passes over the candidate positions: tiled windows first, then any window.\<close>

definition cursor_search :: "heap \<Rightarrow> workspace \<Rightarrow> int list \<Rightarrow> workspace" where
  "cursor_search h ws idxs =
     (case find (\<lambda>i. candidate h ws (windows ws ! nat i) \<and> \<not> floating (h (windows ws ! nat i))) idxs of
        Some i \<Rightarrow> ws\<lparr>current := i\<rparr>
      | None \<Rightarrow>
          (case find (\<lambda>i. candidate h ws (windows ws ! nat i)) idxs of
             Some i \<Rightarrow> ws\<lparr>current := i\<rparr>
           | None \<Rightarrow> ws))"

definition ws_focus_next :: "heap \<Rightarrow> workspace \<Rightarrow> workspace" where
  "ws_focus_next h ws =
     (let n = int (length (windows ws)) in
      if n = 0 then ws
      else cursor_search h ws (map (\<lambda>i. (current ws + i) smod n) [1..n]))"

definition ws_focus_prev :: "heap \<Rightarrow> workspace \<Rightarrow> workspace" where
  "ws_focus_prev h ws =
     (let n = int (length (windows ws)) in
      if n = 0 then ws
      else let base = (if 0 \<le> current ws \<and> current ws < n then current ws else 0)
           in cursor_search h ws (map (\<lambda>i. (base - i + n) smod n) [1..n]))"

section \<open>The cursor invariant\<close>

definition cursor_ok :: "workspace \<Rightarrow> bool" where
  "cursor_ok ws \<longleftrightarrow> (if windows ws = [] then current ws = - 1
                     else 0 \<le> current ws \<and> current ws < int (length (windows ws)))"

lemma cursor_ok_mk [simp]: "cursor_ok (mk_workspace i n a)"
  by (simp add: cursor_ok_def mk_workspace_def)

lemma cursor_ok_add [inv_intros]: "cursor_ok ws \<Longrightarrow> cursor_ok (ws_add_window p ws)"
  by (auto simp: cursor_ok_def ws_add_window_def split: if_splits)

lemma cursor_ok_remove [inv_intros]: "cursor_ok ws \<Longrightarrow> cursor_ok (snd (ws_remove_window h win ws))"
proof (cases "find_index (\<lambda>p. win_id (h p) = win) (windows ws)")
  case (Some i)
  assume ok: "cursor_ok ws"
  from find_index_SomeD [OF Some] have i: "i < length (windows ws)" by blast
  then have "windows ws \<noteq> []" by auto
  with ok i have "0 \<le> current ws" "current ws < int (length (windows ws))"
    by (auto simp: cursor_ok_def)
  with i Some show ?thesis
    by (auto simp: ws_remove_window_def cursor_ok_def Let_def
        simp flip: length_greater_0_conv length_0_conv)
qed (simp add: ws_remove_window_def)

lemma ws_remove_window_frame [frame_simps]:
  "ws_id (snd (ws_remove_window h win ws)) = ws_id ws"
  "ws_name (snd (ws_remove_window h win ws)) = ws_name ws"
  "ws_monitor_alias (snd (ws_remove_window h win ws)) = ws_monitor_alias ws"
  "ws_mode (snd (ws_remove_window h win ws)) = ws_mode ws"
  by (auto simp: ws_remove_window_def Let_def split: option.splits)

lemma ws_add_window_frame [frame_simps]:
  "ws_id (ws_add_window p ws) = ws_id ws" "ws_name (ws_add_window p ws) = ws_name ws"
  "ws_monitor_alias (ws_add_window p ws) = ws_monitor_alias ws"
  "ws_mode (ws_add_window p ws) = ws_mode ws"
  "windows (ws_add_window p ws) = windows ws @ [p]"
  by (simp_all add: ws_add_window_def)

lemma ws_remove_window_absent:
  "\<forall>p\<in>set (windows ws). win_id (h p) \<noteq> win \<Longrightarrow> ws_remove_window h win ws = (False, ws)"
  by (auto simp: ws_remove_window_def split: option.splits dest!: find_index_SomeD)

text \<open>With the ids of the listed windows distinct, removal deletes exactly the named window.\<close>

lemma ws_remove_window_windows:
  assumes d: "distinct (map (\<lambda>p. win_id (h p)) (windows ws))"
  shows "windows (snd (ws_remove_window h win ws)) = filter (\<lambda>p. win_id (h p) \<noteq> win) (windows ws)"
proof (cases "find_index (\<lambda>p. win_id (h p) = win) (windows ws)")
  case None
  then show ?thesis by (simp add: ws_remove_window_def filter_id_conv find_index_None_iff [symmetric])
next
  case (Some i)
  from find_index_SomeD [OF Some] have i: "i < length (windows ws)" "win_id (h (windows ws ! i)) = win"
    by auto
  from remove_nth_decomp [OF i(1)] obtain ys zs where
    xs: "windows ws = ys @ windows ws ! i # zs" and r: "remove_nth i (windows ws) = ys @ zs" by blast
  have "distinct (map (\<lambda>p. win_id (h p)) (ys @ windows ws ! i # zs))" using d xs by simp
  then have "\<forall>p\<in>set (ys @ zs). win_id (h p) \<noteq> win" using i(2) by (auto simp: image_iff)
  then have "filter (\<lambda>p. win_id (h p) \<noteq> win) (ys @ windows ws ! i # zs) = ys @ zs"
    using i(2) by (auto simp: filter_id_conv)
  with xs r Some show ?thesis by (simp add: ws_remove_window_def Let_def)
qed

section \<open>Focus\<close>

lemma focused_in: "focused h ws = Some p \<Longrightarrow> p \<in> set (windows ws)"
  by (auto simp: focused_def find_Some_iff split: if_splits)

lemma focused_visible: "focused h ws = Some p \<Longrightarrow> any_visible h ws \<Longrightarrow> is_visible (h p)"
  by (auto simp: focused_def find_Some_iff candidate_def split: if_splits)

lemma focused_None_iff: "focused h ws = None \<longleftrightarrow> windows ws = []"
proof (cases "any_visible h ws")
  case True
  then show ?thesis
    by (auto simp: focused_def find_None_iff candidate_def any_visible_def)
next
  case False
  then show ?thesis
    by (cases "windows ws") (auto simp: focused_def find_None_iff candidate_def)
qed

lemma focused_current:
  "0 \<le> current ws \<Longrightarrow> current ws < int (length (windows ws)) \<Longrightarrow>
   is_visible (h (windows ws ! nat (current ws))) \<Longrightarrow>
   focused h ws = Some (windows ws ! nat (current ws))"
  by (simp add: focused_def)

lemma cursor_search_frame [frame_simps]:
  "ws_id (cursor_search h ws is) = ws_id ws" "windows (cursor_search h ws is) = windows ws"
  "ws_name (cursor_search h ws is) = ws_name ws" "ws_mode (cursor_search h ws is) = ws_mode ws"
  "ws_monitor_alias (cursor_search h ws is) = ws_monitor_alias ws"
  by (auto simp: cursor_search_def split: option.splits)

lemma cursor_search_current:
  "current (cursor_search h ws is) = current ws \<or> current (cursor_search h ws is) \<in> set is"
  by (auto simp: cursor_search_def find_Some_iff split: option.splits)

lemma ws_focus_frame [frame_simps]:
  "ws_id (ws_focus_next h ws) = ws_id ws" "windows (ws_focus_next h ws) = windows ws"
  "ws_name (ws_focus_next h ws) = ws_name ws" "ws_mode (ws_focus_next h ws) = ws_mode ws"
  "ws_monitor_alias (ws_focus_next h ws) = ws_monitor_alias ws"
  "ws_id (ws_focus_prev h ws) = ws_id ws" "windows (ws_focus_prev h ws) = windows ws"
  "ws_name (ws_focus_prev h ws) = ws_name ws" "ws_mode (ws_focus_prev h ws) = ws_mode ws"
  "ws_monitor_alias (ws_focus_prev h ws) = ws_monitor_alias ws"
  by (simp_all add: ws_focus_next_def ws_focus_prev_def Let_def frame_simps)

lemma cursor_ok_search:
  assumes "cursor_ok ws" "\<forall>i\<in>set is. 0 \<le> i \<and> i < int (length (windows ws))"
  shows "cursor_ok (cursor_search h ws is)"
  using assms cursor_search_current [of h ws "is"]
  by (auto simp: cursor_ok_def frame_simps)

lemma cursor_ok_focus_next [inv_intros]: "cursor_ok ws \<Longrightarrow> cursor_ok (ws_focus_next h ws)"
  unfolding ws_focus_next_def Let_def
  by (auto intro!: cursor_ok_search) (auto simp: smod_int_nonneg cursor_ok_def split: if_splits)

lemma cursor_ok_focus_prev [inv_intros]: "cursor_ok ws \<Longrightarrow> cursor_ok (ws_focus_prev h ws)"
  unfolding ws_focus_prev_def Let_def
  by (auto intro!: cursor_ok_search) (auto simp: smod_int_nonneg cursor_ok_def split: if_splits)

text \<open>
  A tiled window that the cursor may stop at. When the cursor stands on one, \<^const>\<open>ws_focus_next\<close>
  moves to the next such window around the ring, and \<^const>\<open>ws_focus_prev\<close> takes it back.
\<close>

definition tiled_stop :: "heap \<Rightarrow> workspace \<Rightarrow> int \<Rightarrow> bool" where
  "tiled_stop h ws i \<longleftrightarrow> candidate h ws (windows ws ! nat i) \<and> \<not> floating (h (windows ws ! nat i))"

lemma candidate_current_upd [simp]:
  "candidate h (ws\<lparr>current := i\<rparr>) = candidate h ws" "any_visible h (ws\<lparr>current := i\<rparr>) = any_visible h ws"
  by (simp_all add: candidate_def any_visible_def fun_eq_iff)

lemma cursor_search_tiled:
  assumes "find (tiled_stop h ws) is = Some i"
  shows "cursor_search h ws is = ws\<lparr>current := i\<rparr>"
proof -
  have "(\<lambda>i. candidate h ws (windows ws ! nat i) \<and> \<not> floating (h (windows ws ! nat i))) = tiled_stop h ws"
    by (simp add: tiled_stop_def fun_eq_iff)
  with assms show ?thesis by (simp add: cursor_search_def)
qed

lemma focus_next_step:
  assumes ok: "cursor_ok ws" and ne: "windows ws \<noteq> []" and stop: "tiled_stop h ws (current ws)"
  defines "n \<equiv> int (length (windows ws))"
  shows "\<exists>k. 1 \<le> k \<and> k \<le> n \<and> tiled_stop h ws ((current ws + k) mod n) \<and>
     (\<forall>j. 1 \<le> j \<longrightarrow> j < k \<longrightarrow> \<not> tiled_stop h ws ((current ws + j) mod n)) \<and>
     ws_focus_next h ws = ws\<lparr>current := (current ws + k) mod n\<rparr>"
proof -
  have n: "0 < n" "0 \<le> current ws" "current ws < n"
    using ok ne by (auto simp: cursor_ok_def n_def)
  let ?f = "\<lambda>i. (current ws + i) mod n"
  have l: "map (\<lambda>i. (current ws + i) smod n) [1..n] = map ?f [1..n]"
    using n by (auto simp: smod_int_nonneg)
  have "?f n = current ws" using n by simp
  then have "find (tiled_stop h ws) (map ?f [1..n]) \<noteq> None"
    using stop n unfolding find_map_upto_None_iff by (metis int_one_le_iff_zero_less order_refl)
  then obtain i where i: "find (tiled_stop h ws) (map ?f [1..n]) = Some i" by blast
  then obtain k where "1 \<le> k" "k \<le> n" "tiled_stop h ws (?f k)" "i = ?f k"
    "\<forall>j. 1 \<le> j \<longrightarrow> j < k \<longrightarrow> \<not> tiled_stop h ws (?f j)"
    unfolding find_map_upto_Some_iff by blast
  moreover have "ws_focus_next h ws = ws\<lparr>current := i\<rparr>"
    using cursor_search_tiled [OF i] ne unfolding l [symmetric] by (simp add: ws_focus_next_def n_def)
  ultimately show ?thesis by blast
qed

lemma focus_prev_next_inverse:
  assumes ok: "cursor_ok ws" and ne: "windows ws \<noteq> []" and stop: "tiled_stop h ws (current ws)"
  shows "ws_focus_prev h (ws_focus_next h ws) = ws"
proof -
  define n where "n = int (length (windows ws))"
  define c where "c = current ws"
  obtain k where k: "1 \<le> k" "k \<le> n" "tiled_stop h ws ((c + k) mod n)"
    and least: "\<forall>j. 1 \<le> j \<longrightarrow> j < k \<longrightarrow> \<not> tiled_stop h ws ((c + j) mod n)"
    and nxt: "ws_focus_next h ws = ws\<lparr>current := (c + k) mod n\<rparr>"
    using focus_next_step [OF assms] unfolding n_def c_def by blast
  define b where "b = (c + k) mod n"
  have n: "0 < n" "0 \<le> c" "c < n"
    using ok ne by (auto simp: cursor_ok_def n_def c_def)
  then have b: "0 \<le> b" "b < n" by (auto simp: b_def)
  let ?g = "\<lambda>i. (b - i + n) mod n"
  have g: "?g i = (c + (k - i)) mod n" for i
  proof -
    have "?g i = ((c + k) mod n + (n - i)) mod n" by (simp add: b_def algebra_simps)
    also have "\<dots> = (c + k + (n - i)) mod n" by (simp only: mod_add_left_eq)
    also have "\<dots> = (c + (k - i) + n) mod n" by (simp add: algebra_simps)
    finally show ?thesis by simp
  qed
  have stop': "tiled_stop h (ws\<lparr>current := b\<rparr>) = tiled_stop h ws"
    by (simp add: tiled_stop_def fun_eq_iff)
  have "?g k = c" unfolding g using n by simp
  moreover have "\<not> tiled_stop h ws (?g i)" if "1 \<le> i" "i < k" for i
    unfolding g using least that by simp
  moreover have "tiled_stop h ws c" using stop by (simp add: c_def)
  ultimately have "find (tiled_stop h ws) (map ?g [1..n]) = Some c"
    unfolding find_map_upto_Some_iff using k by metis
  moreover have "map (\<lambda>i. (b - i + n) smod n) [1..n] = map ?g [1..n]"
    using b by (auto simp: smod_int_nonneg)
  ultimately have "find (tiled_stop h (ws\<lparr>current := b\<rparr>)) (map (\<lambda>i. (b - i + n) smod n) [1..n]) = Some c"
    unfolding stop' by (simp only:)
  from cursor_search_tiled [OF this]
  have "ws_focus_prev h (ws\<lparr>current := b\<rparr>) = ws\<lparr>current := c\<rparr>"
    using ne b by (simp add: ws_focus_prev_def n_def)
  with nxt show ?thesis by (simp add: b_def c_def)
qed

text \<open>The window the cursor stands on survives the removal of another one.\<close>

lemma remove_keeps_current:
  assumes ok: "cursor_ok ws" and ne: "windows ws \<noteq> []"
    and other: "win_id (h (windows ws ! nat (current ws))) \<noteq> win"
  defines "ws' \<equiv> snd (ws_remove_window h win ws)"
  shows "windows ws' ! nat (current ws') = windows ws ! nat (current ws)"
proof (cases "find_index (\<lambda>p. win_id (h p) = win) (windows ws)")
  case None
  then show ?thesis by (simp add: ws'_def ws_remove_window_def)
next
  case (Some i)
  let ?c = "current ws"
  from find_index_SomeD [OF Some] have i: "i < length (windows ws)" "win_id (h (windows ws ! i)) = win"
    by auto
  have c: "0 \<le> ?c" "?c < int (length (windows ws))" using ok ne by (auto simp: cursor_ok_def)
  have ci: "nat ?c \<noteq> i" using other i by auto
  have ne': "remove_nth i (windows ws) \<noteq> []"
  proof
    assume "remove_nth i (windows ws) = []"
    then have "length (windows ws) \<le> 1" using length_remove_nth [OF i(1)] by simp
    with c i(1) ci show False by linarith
  qed
  have nth: "remove_nth i (windows ws) ! j = windows ws ! (if j < i then j else Suc j)" for j
    using i(1) by (simp add: remove_nth_def nth_append)
  show ?thesis
  proof (cases "?c > int i")
    case True
    then have "nat (?c - 1) \<ge> i" "Suc (nat (?c - 1)) = nat ?c" using c by auto
    with True Some ne' show ?thesis by (simp add: ws'_def ws_remove_window_def Let_def nth)
  next
    case False
    then have "nat ?c < i" "?c \<noteq> int i" using ci c by auto
    moreover have "\<not> ?c \<ge> int (length (remove_nth i (windows ws)))"
      using i(1) \<open>nat ?c < i\<close> c by simp
    ultimately show ?thesis using False Some ne'
      by (simp add: ws'_def ws_remove_window_def Let_def nth)
  qed
qed

end
