(* ===== verification/Workspace_Manager.thy ===== *)
theory Workspace_Manager
  imports Workspace
begin

text \<open>
  \<^verbatim>\<open>class WorkspaceManager\<close> (\<^verbatim>\<open>core/include/domain/ws.hpp\<close>,
  \<^verbatim>\<open>core/src/core/workspace_manager.cpp\<close>): workspaces, monitors, the assignment of workspaces to
  monitors, the pools parked for disconnected monitors, and the window indexes. This theory holds the
  definitions, in the order of the source; \<open>Wsman_Invariant\<close> holds the invariant.

  The state is a record with the members of the class; \<open>heap\<close> and \<open>next_ptr\<close> stand for the window
  objects the shared pointers refer to. Containers of the class keep their C++ index types, so
  identifiers are \<^typ>\<open>int\<close> and a vector access \<^verbatim>\<open>v[i]\<close> is \<open>v ! nat i\<close>; the accesses the source makes
  without a test are in range under the invariant.
\<close>

section \<open>State\<close>

record wsman =
  window_factory :: "(window_id \<Rightarrow> window option) option"
  workspaces :: "workspace list"
  monitors :: "monitor list"
  ws_owner :: "int list"
  monitor_pools :: "int list list"
  monitor_active_local :: "int list"
  parked_pools :: "string \<rightharpoonup> int list"
  parked_active_ws :: "string \<rightharpoonup> int"
  window_index :: "window_id \<rightharpoonup> wptr"
  window_workspace :: "window_id \<rightharpoonup> workspace_id"
  focused_monitor :: monitor_id
  heap :: heap
  next_ptr :: wptr

definition init_wsman :: wsman where
  "init_wsman =
     \<lparr>window_factory = None, workspaces = [], monitors = [], ws_owner = [], monitor_pools = [],
      monitor_active_local = [], parked_pools = Map.empty, parked_active_ws = Map.empty,
      window_index = Map.empty, window_workspace = Map.empty, focused_monitor = 0,
      heap = (\<lambda>_. mk_window NO_WINDOW), next_ptr = 0\<rparr>"

definition is_ws_valid :: "wsman \<Rightarrow> workspace_id \<Rightarrow> bool" where
  "is_ws_valid s i \<longleftrightarrow> 0 \<le> i \<and> i < int (length (workspaces s))"

definition is_mon_valid :: "wsman \<Rightarrow> monitor_id \<Rightarrow> bool" where
  "is_mon_valid s i \<longleftrightarrow> 0 \<le> i \<and> i < int (length (monitors s))"

text \<open>Writing one element of \<^verbatim>\<open>workspaces\<close> in place.\<close>

definition upd_ws :: "workspace_id \<Rightarrow> (workspace \<Rightarrow> workspace) \<Rightarrow> wsman \<Rightarrow> wsman" where
  "upd_ws i f s = s\<lparr>workspaces := (workspaces s)[nat i := f (workspaces s ! nat i)]\<rparr>"

text \<open>Writing through a window pointer.\<close>

definition upd_win :: "wptr \<Rightarrow> (window \<Rightarrow> window) \<Rightarrow> wsman \<Rightarrow> wsman" where
  "upd_win p f s = s\<lparr>heap := (heap s)(p := f (heap s p))\<rparr>"

section \<open>Private helpers\<close>

definition monitor_index_by_name :: "wsman \<Rightarrow> string \<Rightarrow> monitor_id" where
  "monitor_index_by_name s n =
     (case find_index (\<lambda>m. mon_name m = n) (monitors s) of Some i \<Rightarrow> int i | None \<Rightarrow> NO_MONITOR)"

definition index_of_ws_in_pool :: "int list \<Rightarrow> workspace_id \<Rightarrow> int" where
  "index_of_ws_in_pool pool w = (case find_index (\<lambda>x. x = w) pool of Some i \<Rightarrow> int i | None \<Rightarrow> - 1)"

definition monitor_of :: "wsman \<Rightarrow> workspace_id \<Rightarrow> monitor_id" where
  "monitor_of s w =
     (if \<not> is_ws_valid s w \<or> w \<ge> int (length (ws_owner s)) then NO_MONITOR
      else if is_mon_valid s (ws_owner s ! nat w) then ws_owner s ! nat w
      else NO_MONITOR)"

definition local_index_of :: "wsman \<Rightarrow> monitor_id \<Rightarrow> workspace_id \<Rightarrow> int" where
  "local_index_of s m w =
     (if m < 0 \<or> m \<ge> int (length (monitor_pools s)) then - 1
      else index_of_ws_in_pool (monitor_pools s ! nat m) w)"

definition active_ws_of_monitor :: "wsman \<Rightarrow> monitor_id \<Rightarrow> workspace_id" where
  "active_ws_of_monitor s m =
     (if m < 0 \<or> m \<ge> int (length (monitor_pools s)) then NO_WORKSPACE
      else let pool = monitor_pools s ! nat m in
        if pool = [] then NO_WORKSPACE
        else let idx = (if m < int (length (monitor_active_local s))
                        then monitor_active_local s ! nat m else - 1) in
          if idx < 0 \<or> idx \<ge> int (length pool) then hd pool else pool ! nat idx)"

definition resolve_alias_monitor :: "wsman \<Rightarrow> string \<Rightarrow> monitor_alias list \<Rightarrow> monitor_id" where
  "resolve_alias_monitor s a aliases =
     (case find (\<lambda>x. ma_alias x = a) aliases of
        Some x \<Rightarrow> monitor_index_by_name s (ma_output x)
      | None \<Rightarrow> monitor_index_by_name s a)"

definition primary_monitor_index :: "wsman \<Rightarrow> monitor_alias list \<Rightarrow> monitor_compose \<Rightarrow> monitor_id" where
  "primary_monitor_index s aliases compose =
     (let mon = resolve_alias_monitor s (primary compose) aliases in
      if primary compose \<noteq> [] \<and> mon \<ge> 0 then mon
      else if monitors s = [] then NO_MONITOR else 0)"

definition sync_monitors_active_ws :: "wsman \<Rightarrow> wsman" where
  "sync_monitors_active_ws s =
     s\<lparr>monitors := map (\<lambda>i. (monitors s ! i)\<lparr>active_ws := active_ws_of_monitor s (int i)\<rparr>)
                       [0..<length (monitors s)]\<rparr>"

record focus_state =
  fs_monitor :: monitor_id
  fs_ws_id :: workspace_id
  fs_window :: window_id

definition get_focus_state :: "wsman \<Rightarrow> focus_state" where
  "get_focus_state s =
     (let w = active_ws_of_monitor s (focused_monitor s) in
      \<lparr>fs_monitor = focused_monitor s, fs_ws_id = w,
       fs_window =
         (if is_ws_valid s w then
            (case focused (heap s) (workspaces s ! nat w) of
               Some p \<Rightarrow> win_id (heap s p) | None \<Rightarrow> NO_WINDOW)
          else NO_WINDOW)\<rparr>)"

definition focused_window_id :: "wsman \<Rightarrow> window_id" where
  "focused_window_id s = fs_window (get_focus_state s)"

definition select_valid_focused_monitor :: "wsman \<Rightarrow> wsman" where
  "select_valid_focused_monitor s =
     (if monitors s = [] then s\<lparr>focused_monitor := 0\<rparr>
      else let s1 = (if is_mon_valid s (focused_monitor s) then s else s\<lparr>focused_monitor := 0\<rparr>) in
        if active_ws_of_monitor s1 (focused_monitor s1) \<ge> 0 then s1
        else (case find (\<lambda>i. active_ws_of_monitor s1 (int i) \<ge> 0) [0..<length (monitors s1)] of
                Some i \<Rightarrow> s1\<lparr>focused_monitor := int i\<rparr>
              | None \<Rightarrow> s1\<lparr>focused_monitor := 0\<rparr>))"

definition set_focused_monitor :: "monitor_id \<Rightarrow> wsman \<Rightarrow> wsman" where
  "set_focused_monitor m s = (if \<not> is_mon_valid s m then s else s\<lparr>focused_monitor := m\<rparr>)"

text \<open>
  \<^verbatim>\<open>rebuild_pools_from_owner\<close>: the state of its loops is \<open>(monitor_pools, placed)\<close>, and
  \<open>append_if_owned\<close> is the lambda of the same name.
\<close>

definition append_if_owned ::
  "wsman \<Rightarrow> int \<Rightarrow> workspace_id \<Rightarrow> int list list \<times> bool list \<Rightarrow> int list list \<times> bool list" where
  "append_if_owned s m w st =
     (let (pools, placed) = st in
      if \<not> is_mon_valid s m \<or> \<not> is_ws_valid s w then st
      else if w \<ge> int (length (ws_owner s)) then st
      else if ws_owner s ! nat w \<noteq> m then st
      else if placed ! nat w then st
      else (pools[nat m := pools ! nat m @ [w]], placed[nat w := True]))"

definition seed_appends :: "wsman \<Rightarrow> int list list \<Rightarrow> (int \<times> int) list" where
  "seed_appends s seed =
     concat (map (\<lambda>m. map (\<lambda>w. (int m, w)) (seed ! m)) [0..<min (length seed) (length (monitors s))])"

definition owner_appends :: "wsman \<Rightarrow> (int \<times> int) list" where
  "owner_appends s = map (\<lambda>w. (monitor_of s (int w), int w)) [0..<length (workspaces s)]"

definition rebuild_pools_from_owner :: "int list list \<Rightarrow> int list \<Rightarrow> wsman \<Rightarrow> wsman" where
  "rebuild_pools_from_owner seed preferred s =
     (let st0 = (replicate (length (monitors s)) [], replicate (length (workspaces s)) False);
          (pools, placed) =
            fold (\<lambda>(m, w). append_if_owned s m w) (seed_appends s seed @ owner_appends s) st0;
          local = map (\<lambda>m. let pool = pools ! m in
                        if pool = [] then - 1
                        else let pref = (if m < length preferred then preferred ! m else - 1);
                                 li = index_of_ws_in_pool pool pref
                             in if li \<ge> 0 then li else 0)
                      [0..<length pools]
      in s\<lparr>monitor_pools := pools, monitor_active_local := local\<rparr>)"

definition fallback_workspace :: workspace where
  "fallback_workspace = mk_workspace (- 1) ''[fallback]'' []"

definition index_window :: "window_id \<Rightarrow> wptr \<Rightarrow> workspace_id \<Rightarrow> wsman \<Rightarrow> wsman" where
  "index_window win p w s =
     (if win = NO_WINDOW \<or> \<not> is_ws_valid s w then s
      else s\<lparr>window_index := (window_index s)(win \<mapsto> p),
             window_workspace := (window_workspace s)(win \<mapsto> w)\<rparr>)"

definition unindex_window :: "window_id \<Rightarrow> wsman \<Rightarrow> wsman" where
  "unindex_window win s =
     s\<lparr>window_index := (window_index s)(win := None),
       window_workspace := (window_workspace s)(win := None)\<rparr>"

definition clear_window_indexes :: "wsman \<Rightarrow> wsman" where
  "clear_window_indexes s = s\<lparr>window_index := Map.empty, window_workspace := Map.empty\<rparr>"

definition rebuild_window_indexes :: "wsman \<Rightarrow> wsman" where
  "rebuild_window_indexes s =
     fold (\<lambda>ws s. fold (\<lambda>p s. index_window (win_id (heap s p)) p (ws_id ws) s) (windows ws) s)
       (workspaces s) (clear_window_indexes s)"

section \<open>Workspace definitions and their assignment to monitors\<close>

text \<open>
  \<^verbatim>\<open>update_workspace_defs\<close>. The result is \<open>None\<close> where the source reads past the end of
  \<open>defs\<close>: with no definition at all \<^verbatim>\<open>new_count\<close> is \<^verbatim>\<open>old_count\<close>, and the first loop reads
  \<^verbatim>\<open>defs[i]\<close> for every existing workspace.
\<close>

definition rename_workspaces :: "workspace_def list \<Rightarrow> wsman \<Rightarrow> wsman" where
  "rename_workspaces defs s =
     s\<lparr>workspaces := map (\<lambda>i. if i < length defs
          then (workspaces s ! i)\<lparr>ws_name := def_name (defs ! i), ws_monitor_alias := def_monitor (defs ! i)\<rparr>
          else workspaces s ! i) [0..<length (workspaces s)]\<rparr>"

definition grow_workspaces :: "workspace_def list \<Rightarrow> wsman \<Rightarrow> wsman" where
  "grow_workspaces defs s =
     (let new = [length (workspaces s)..<length defs] in
      s\<lparr>workspaces := workspaces s @
           map (\<lambda>i. mk_workspace (int i) (def_name (defs ! i)) (def_monitor (defs ! i))) new,
        ws_owner := ws_owner s @ map (\<lambda>_. - 1) new\<rparr>)"

definition fallback_for :: "nat \<Rightarrow> wsman \<Rightarrow> workspace_id \<Rightarrow> workspace_id" where
  "fallback_for new_count s w =
     (let mon = (if w < int (length (ws_owner s)) then ws_owner s ! nat w else - 1) in
      if 0 \<le> mon \<and> mon < int (length (monitor_pools s))
      then (case find (\<lambda>i. i < int new_count) (monitor_pools s ! nat mon) of Some i \<Rightarrow> i | None \<Rightarrow> 0)
      else 0)"

definition displace_window :: "workspace_id \<Rightarrow> wptr \<Rightarrow> wsman \<Rightarrow> wsman" where
  "displace_window dst p s = index_window (win_id (heap s p)) p dst (upd_ws dst (ws_add_window p) s)"

definition displace_workspace :: "nat \<Rightarrow> workspace_id \<Rightarrow> wsman \<Rightarrow> wsman" where
  "displace_workspace new_count w s =
     (let dst = fallback_for new_count s w;
          s1 = fold (displace_window dst) (windows (workspaces s ! nat w)) s
      in upd_ws w (\<lambda>ws. ws\<lparr>windows := [], current := - 1\<rparr>) s1)"

definition reactivate_monitor :: "nat \<Rightarrow> nat \<Rightarrow> wsman \<Rightarrow> wsman" where
  "reactivate_monitor new_count m s =
     (let active = active_ws_of_monitor s (int m) in
      if active \<ge> int new_count then
        (let dst = fallback_for new_count s active; pool = monitor_pools s ! m in
         case find_index (\<lambda>x. x = dst) pool of
           Some i \<Rightarrow> s\<lparr>monitor_active_local := (monitor_active_local s)[m := int i]\<rparr>
         | None \<Rightarrow> if pool \<noteq> [] then s\<lparr>monitor_active_local := (monitor_active_local s)[m := 0]\<rparr> else s)
      else s)"

definition prune_workspaces :: "nat \<Rightarrow> wsman \<Rightarrow> wsman" where
  "prune_workspaces new_count s =
     (let keep = filter (\<lambda>i. \<not> i \<ge> int new_count) in
      s\<lparr>monitor_pools := map keep (monitor_pools s),
        parked_pools := map_option keep \<circ> parked_pools s,
        parked_active_ws := map_option (\<lambda>a. if a \<ge> int new_count then 0 else a) \<circ> parked_active_ws s,
        workspaces := take new_count (workspaces s),
        ws_owner := resize (ws_owner s) new_count 0\<rparr>)"

definition shrink_workspaces :: "nat \<Rightarrow> wsman \<Rightarrow> wsman" where
  "shrink_workspaces new_count s =
     (let s1 = fold (\<lambda>w. displace_workspace new_count (int w)) [new_count..<length (workspaces s)] s;
          s2 = fold (reactivate_monitor new_count) [0..<length (monitors s1)] s1
      in prune_workspaces new_count s2)"

definition update_workspace_defs :: "workspace_def list \<Rightarrow> wsman \<Rightarrow> wsman option" where
  "update_workspace_defs defs s =
     (if defs = [] then (if workspaces s = [] then Some s else None)
      else let old_count = length (workspaces s); new_count = length defs;
               s1 = grow_workspaces defs (rename_workspaces defs s)
           in Some (if new_count < old_count then shrink_workspaces new_count s1 else s1))"

definition sanitise_owner :: "wsman \<Rightarrow> wsman" where
  "sanitise_owner s = s\<lparr>ws_owner := map (\<lambda>o'. if \<not> is_mon_valid s o' then - 1 else o') (ws_owner s)\<rparr>"

definition assign_aliases :: "monitor_alias list \<Rightarrow> wsman \<Rightarrow> wsman" where
  "assign_aliases aliases s =
     s\<lparr>ws_owner := map (\<lambda>i.
         let a = ws_monitor_alias (workspaces s ! i); o' = ws_owner s ! i;
             target = resolve_alias_monitor s a aliases
         in if a = [] then o'
            else if target \<ge> 0 then target
            else if \<not> is_mon_valid s o' then - 1
            else o') [0..<length (workspaces s)]\<rparr>"

text \<open>Round robin over the unowned workspaces, starting at monitor \<open>rr\<close>.\<close>

fun round_robin :: "int \<Rightarrow> int \<Rightarrow> int list \<Rightarrow> int list" where
  "round_robin n rr [] = []"
| "round_robin n rr (o' # os) =
     (if o' \<noteq> - 1 then o' # round_robin n rr os
      else rr # round_robin n ((rr + 1) smod n) os)"

definition assign_workspaces :: "monitor_alias list \<Rightarrow> monitor_compose \<Rightarrow> wsman \<Rightarrow> wsman" where
  "assign_workspaces aliases compose s =
     (let s0 = (if length (ws_owner s) \<noteq> length (workspaces s)
                then s\<lparr>ws_owner := replicate (length (workspaces s)) (- 1)\<rparr> else s) in
      if monitors s0 = [] then
        s0\<lparr>ws_owner := map (\<lambda>_. - 1) (ws_owner s0), monitor_pools := [], monitor_active_local := []\<rparr>
      else
        let s1 = assign_aliases aliases (sanitise_owner s0);
            rr = primary_monitor_index s1 aliases compose;
            s2 = s1\<lparr>ws_owner := round_robin (int (length (monitors s1))) (if rr < 0 then 0 else rr) (ws_owner s1)\<rparr>;
            preferred = map (\<lambda>m. active_ws_of_monitor s2 (int m)) [0..<length (monitors s2)]
        in sync_monitors_active_ws
             (select_valid_focused_monitor
               (rebuild_pools_from_owner (monitor_pools s2) preferred s2)))"

text \<open>\<^verbatim>\<open>std::to_string\<close> on a non-negative number.\<close>

fun to_string :: "nat \<Rightarrow> string" where
  "to_string n = (if n < 10 then [char_of (48 + n)] else to_string (n div 10) @ [char_of (48 + n mod 10)])"

declare to_string.simps [simp del]

definition init_from_defs ::
  "workspace_def list \<Rightarrow> monitor_alias list \<Rightarrow> monitor_compose \<Rightarrow> wsman \<Rightarrow> wsman" where
  "init_from_defs defs aliases compose s =
     (let ws = (if defs = []
                then map (\<lambda>i. mk_workspace (int i) (''['' @ to_string (i + 1) @ '']'') []) [0..<9]
                else map (\<lambda>i. mk_workspace (int i) (def_name (defs ! i)) (def_monitor (defs ! i)))
                       [0..<length defs]);
          s1 = (clear_window_indexes s)\<lparr>workspaces := ws, ws_owner := replicate (length ws) (- 1),
                 monitor_pools := replicate (length (monitors s)) [],
                 monitor_active_local := replicate (length (monitors s)) (- 1),
                 parked_pools := Map.empty, parked_active_ws := Map.empty\<rparr>
      in assign_workspaces aliases compose s1)"

section \<open>Monitor topology\<close>

text \<open>
  \<^verbatim>\<open>set_monitors\<close> in four steps: park the pools of the monitors that disappear, carry the owners over
  by monitor name, restore pools and preferred workspaces (from the old monitor of the same name, else
  from the parked pools), and rebuild. The loop over the new monitors works on
  \<open>(parked_pools, parked_active_ws, new_owner, seed_pools, preferred_active_ws)\<close>.
\<close>

definition old_active :: "wsman \<Rightarrow> workspace_id list" where
  "old_active s =
     map (\<lambda>i. if i < length (monitor_pools s) \<and> i < length (monitor_active_local s)
              then active_ws_of_monitor s (int i) else NO_WORKSPACE) [0..<length (monitors s)]"

definition park_monitor :: "wsman \<Rightarrow> monitor list \<Rightarrow> nat \<Rightarrow> wsman \<Rightarrow> wsman" where
  "park_monitor old mons i s =
     (let n = mon_name (monitors old ! i) in
      if n \<in> set (map mon_name mons) then s
      else s\<lparr>parked_pools := (parked_pools s)(n \<mapsto> (if i < length (monitor_pools old) then monitor_pools old ! i else [])),
             parked_active_ws := (parked_active_ws s)(n \<mapsto> (if i < length (old_active old) then old_active old ! i
                                                            else NO_WORKSPACE))\<rparr>)"

definition carried_owner :: "wsman \<Rightarrow> monitor list \<Rightarrow> int list" where
  "carried_owner old mons =
     map (\<lambda>w. if w \<ge> length (ws_owner old) then - 1
              else let o' = ws_owner old ! w in
                if o' < 0 \<or> o' \<ge> int (length (monitors old)) then - 1
                else (case find_index (\<lambda>m. mon_name m = mon_name (monitors old ! nat o')) mons of
                        Some i \<Rightarrow> int i | None \<Rightarrow> - 1))
       [0..<length (workspaces old)]"

text \<open>\<^verbatim>\<open>old_index[name] = i\<close> for \<open>i\<close> ascending: the last monitor of a name wins.\<close>

definition old_index :: "wsman \<Rightarrow> string \<Rightarrow> nat option" where
  "old_index old n = map_of (rev (map (\<lambda>i. (mon_name (monitors old ! i), i)) [0..<length (monitors old)])) n"

type_synonym seed_state =
  "(string \<rightharpoonup> int list) \<times> (string \<rightharpoonup> int) \<times> int list \<times> int list list \<times> int list"

definition seed_monitor :: "wsman \<Rightarrow> monitor list \<Rightarrow> nat \<Rightarrow> seed_state \<Rightarrow> seed_state" where
  "seed_monitor old mons i st =
     (let (pp, pa, own, seed, pref) = st; n = mon_name (mons ! i) in
      case old_index old n of
        Some oi \<Rightarrow>
          (pp, pa, own,
           (if oi < length (monitor_pools old) then seed[i := monitor_pools old ! oi] else seed),
           (if oi < length (old_active old) then pref[i := old_active old ! oi] else pref))
      | None \<Rightarrow>
          (case pp n of
             None \<Rightarrow> st
           | Some pool \<Rightarrow>
               (pp(n := None), pa(n := None),
                fold (\<lambda>w own. if is_ws_valid old w then own[nat w := int i] else own) pool own,
                seed[i := pool],
                pref[i := (case pa n of Some a \<Rightarrow> a | None \<Rightarrow> - 1)])))"

definition set_monitors :: "monitor list \<Rightarrow> wsman \<Rightarrow> wsman" where
  "set_monitors mons s =
     (let old_focused_name =
            (if 0 \<le> focused_monitor s \<and> focused_monitor s < int (length (monitors s))
             then mon_name (monitors s ! nat (focused_monitor s)) else []);
          s1 = fold (park_monitor s mons) [0..<length (monitors s)] s;
          (pp, pa, own, seed, pref) =
            fold (seed_monitor s mons) [0..<length mons]
              (parked_pools s1, parked_active_ws s1, carried_owner s mons,
               replicate (length mons) [], replicate (length mons) (- 1));
          s2 = rebuild_pools_from_owner seed pref
                 (s1\<lparr>monitors := mons, parked_pools := pp, parked_active_ws := pa, ws_owner := own\<rparr>);
          f = monitor_index_by_name s2 old_focused_name;
          s3 = (if f \<ge> 0 then s2\<lparr>focused_monitor := f\<rparr>
                else if focused_monitor s2 \<ge> int (length (monitors s2)) then s2\<lparr>focused_monitor := 0\<rparr>
                else s2)
      in sync_monitors_active_ws (select_valid_focused_monitor s3))"

definition adjust_monitor_inset :: "monitor_id \<Rightarrow> monitor_edge \<Rightarrow> int \<Rightarrow> wsman \<Rightarrow> wsman" where
  "adjust_monitor_inset m e delta s =
     (if m < 0 \<or> m \<ge> int (length (monitors s)) \<or> delta = 0 then s
      else s\<lparr>monitors := (monitors s)[nat m := adjust_inset e delta (monitors s ! nat m)]\<rparr>)"

section \<open>Queries\<close>

text \<open>
  \<^verbatim>\<open>current()\<close> returns a reference to an element of \<^verbatim>\<open>workspaces\<close>, or to the static fallback workspace
  when there is none: \<open>current_index\<close> is the index of the element, \<open>None\<close> the fallback.
\<close>

definition current_index :: "wsman \<Rightarrow> workspace_id option" where
  "current_index s =
     (if workspaces s = [] then None
      else let w = active_ws_of_monitor s (focused_monitor s) in
        if is_ws_valid s w then Some w
        else (case find (\<lambda>i. is_ws_valid s (active_ws_of_monitor s (int i))) [0..<length (monitors s)] of
                Some i \<Rightarrow> Some (active_ws_of_monitor s (int i))
              | None \<Rightarrow> Some 0))"

definition current_ws :: "wsman \<Rightarrow> workspace" where
  "current_ws s = (case current_index s of Some w \<Rightarrow> workspaces s ! nat w | None \<Rightarrow> fallback_workspace)"

definition workspace_of_window :: "wsman \<Rightarrow> window_id \<Rightarrow> workspace_id" where
  "workspace_of_window s win =
     (if win = NO_WINDOW then NO_WORKSPACE
      else case window_workspace s win of
             None \<Rightarrow> NO_WORKSPACE
           | Some w \<Rightarrow> if \<not> is_ws_valid s w then NO_WORKSPACE else w)"

definition window_belongs_to_workspace :: "wsman \<Rightarrow> window_id \<Rightarrow> workspace_id \<Rightarrow> bool" where
  "window_belongs_to_workspace s win w \<longleftrightarrow> window_workspace s win = Some w"

definition window_is_unique_across_workspaces :: "wsman \<Rightarrow> window_id \<Rightarrow> bool" where
  "window_is_unique_across_workspaces s win \<longleftrightarrow>
     win = NO_WINDOW \<or>
     length (filter (\<lambda>p. win_id (heap s p) = win) (concat (map windows (workspaces s)))) \<le> 1"

fun pools_unique_from :: "wsman \<Rightarrow> int list \<Rightarrow> int list \<Rightarrow> bool" where
  "pools_unique_from s seen [] = True"
| "pools_unique_from s seen (w # ws) =
     (if \<not> is_ws_valid s w then False
      else if w \<in> set seen then False
      else pools_unique_from s (w # seen) ws)"

definition monitor_workspace_pools_have_no_duplicates :: "wsman \<Rightarrow> bool" where
  "monitor_workspace_pools_have_no_duplicates s = pools_unique_from s [] (concat (monitor_pools s))"

text \<open>The condition of \<^verbatim>\<open>WS_ASSERT_CONSISTENT\<close>, which aborts a debug build when it fails.\<close>

definition indexes_consistent :: "wsman \<Rightarrow> bool" where
  "indexes_consistent s \<longleftrightarrow>
     card (dom (window_index s)) = card (dom (window_workspace s)) \<and>
     (\<forall>win p. window_index s win = Some p \<longrightarrow>
        win_id (heap s p) = win \<and>
        (\<exists>w. window_workspace s win = Some w \<and> is_ws_valid s w))"

section \<open>Switching and windows\<close>

definition switch_target ::
  "workspace_id \<Rightarrow> monitor_alias list \<Rightarrow> monitor_id \<Rightarrow> monitor_compose \<Rightarrow> wsman \<Rightarrow> monitor_id" where
  "switch_target w aliases hint compose s =
     (if is_mon_valid s hint then hint
      else
        let a = ws_monitor_alias (workspaces s ! nat w);
            t0 = (if a \<noteq> [] then resolve_alias_monitor s a aliases else monitor_of s w);
            t1 = (if is_mon_valid s t0 then t0 else primary_monitor_index s aliases compose)
        in if is_mon_valid s t1 then t1
           else if is_mon_valid s (focused_monitor s) then focused_monitor s else 0)"

definition switch_to ::
  "workspace_id \<Rightarrow> monitor_alias list \<Rightarrow> monitor_id \<Rightarrow> monitor_compose \<Rightarrow> wsman \<Rightarrow> bool \<times> wsman" where
  "switch_to w aliases hint compose s =
     (if \<not> is_ws_valid s w \<or> monitors s = [] then (False, s)
      else
        let t = (if monitor_of s w < 0 then switch_target w aliases hint compose s else monitor_of s w);
            s1 = (if monitor_of s w < 0 then s\<lparr>ws_owner := (ws_owner s)[nat w := t]\<rparr> else s);
            li0 = local_index_of s1 t w;
            s2 = (if li0 < 0
                  then s1\<lparr>monitor_pools := (monitor_pools s1)[nat t := monitor_pools s1 ! nat t @ [w]]\<rparr>
                  else s1);
            li = (if li0 < 0 then int (length (monitor_pools s2 ! nat t)) - 1 else li0)
        in (True, sync_monitors_active_ws
                    (s2\<lparr>monitor_active_local := (monitor_active_local s2)[nat t := li]\<rparr>)))"

text \<open>
  \<^verbatim>\<open>add_window\<close> on a non-null pointer. \<open>ws_take\<close> is \<^verbatim>\<open>workspaces[i].remove_window(win)\<close> with its result
  discarded.
\<close>

definition ws_take :: "workspace_id \<Rightarrow> window_id \<Rightarrow> wsman \<Rightarrow> wsman" where
  "ws_take w win s = upd_ws w (\<lambda>ws. snd (ws_remove_window (heap s) win ws)) s"

definition add_target :: "wsman \<Rightarrow> workspace_id \<Rightarrow> workspace_id" where
  "add_target s w =
     (let target = (if is_ws_valid s w then w else active_ws_of_monitor s (focused_monitor s))
      in if is_ws_valid s target then target else 0)"

definition add_window :: "wptr \<Rightarrow> workspace_id \<Rightarrow> wsman \<Rightarrow> wsman" where
  "add_window p w s =
     (if workspaces s = [] then s
      else
        let target = add_target s w;
            win = win_id (heap s p);
            put = (\<lambda>s. index_window win p target (upd_ws target (ws_add_window p) s))
        in case window_workspace s win of
             None \<Rightarrow> put s
           | Some old \<Rightarrow>
               if is_ws_valid s old \<and> old = target then s
               else put (if is_ws_valid s old then ws_take old win s else s))"

definition alloc :: "window \<Rightarrow> wsman \<Rightarrow> wptr \<times> wsman" where
  "alloc w s = (next_ptr s, s\<lparr>heap := (heap s)(next_ptr s := w), next_ptr := Suc (next_ptr s)\<rparr>)"

definition create_window :: "window_id \<Rightarrow> workspace_id \<Rightarrow> wsman \<Rightarrow> wsman" where
  "create_window win w s =
     (let made = (case window_factory s of Some f \<Rightarrow> f win | None \<Rightarrow> Some (mk_window win)) in
      case made of
        None \<Rightarrow> s
      | Some obj \<Rightarrow> let (p, s1) = alloc obj s in add_window p w s1)"

definition remove_window :: "window_id \<Rightarrow> workspace_id \<Rightarrow> wsman \<Rightarrow> wsman" where
  "remove_window win w s =
     (let rem = (\<lambda>w. if fst (ws_remove_window (heap s) win (workspaces s ! nat w))
                     then unindex_window win (ws_take w win s) else s) in
      if is_ws_valid s w then rem w
      else let a = active_ws_of_monitor s (focused_monitor s) in
           if is_ws_valid s a then rem a else s)"

definition find_window_in_all :: "wsman \<Rightarrow> window_id \<Rightarrow> wptr option" where
  "find_window_in_all s win = window_index s win"

definition find_window :: "wsman \<Rightarrow> window_id \<Rightarrow> workspace_id \<Rightarrow> wptr option" where
  "find_window s win w =
     (if win = NO_WINDOW then None
      else if is_ws_valid s w then
        (if window_workspace s win \<noteq> Some w then None
         else case window_index s win of
                Some p \<Rightarrow> Some p
              | None \<Rightarrow> find (\<lambda>p. win_id (heap s p) = win) (windows (workspaces s ! nat w)))
      else find_window_in_all s win)"

definition take_from_all :: "window_id \<Rightarrow> wsman \<Rightarrow> wsman" where
  "take_from_all win s = s\<lparr>workspaces := map (\<lambda>ws. snd (ws_remove_window (heap s) win ws)) (workspaces s)\<rparr>"

definition remove_window_from_all :: "window_id \<Rightarrow> wsman \<Rightarrow> wsman" where
  "remove_window_from_all win s =
     (case window_workspace s win of
        Some w \<Rightarrow> unindex_window win (if is_ws_valid s w then ws_take w win s else take_from_all win s)
      | None \<Rightarrow> unindex_window win (take_from_all win s))"

definition move_window_to :: "workspace_id \<Rightarrow> wptr \<Rightarrow> wsman \<Rightarrow> wsman" where
  "move_window_to w p s =
     (if \<not> is_ws_valid s w then s
      else
        let win = win_id (heap s p);
            put = (\<lambda>s. index_window win p w (upd_ws w (ws_add_window p) s))
        in case window_workspace s win of
             Some old \<Rightarrow>
               (if is_ws_valid s old then (if old = w then s else put (ws_take old win s))
                else put (take_from_all win s))
           | None \<Rightarrow> put (take_from_all win s))"

definition focus_window :: "window_id \<Rightarrow> wsman \<Rightarrow> bool \<times> wsman" where
  "focus_window win s =
     (case window_workspace s win of
        None \<Rightarrow> (False, s)
      | Some w \<Rightarrow>
          if \<not> is_ws_valid s w then (False, s)
          else
            (let ws = workspaces s ! nat w in
             case find_index (\<lambda>p. win_id (heap s p) = win) (windows ws) of
               None \<Rightarrow> (False, s)
             | Some i \<Rightarrow>
                 (let s1 = upd_win (windows ws ! i) (\<lambda>x. x\<lparr>urgent := False\<rparr>)
                             (upd_ws w (\<lambda>ws. ws\<lparr>current := int i\<rparr>) s);
                      mon = monitor_of s1 (ws_id ws)
                  in if mon \<ge> 0 then
                       (let li = local_index_of s1 mon (ws_id ws);
                            s2 = (if li \<ge> 0
                                  then s1\<lparr>monitor_active_local := (monitor_active_local s1)[nat mon := li]\<rparr>
                                  else s1)
                        in (True, sync_monitors_active_ws (s2\<lparr>focused_monitor := mon\<rparr>)))
                     else (True, s1))))"

definition upd_current_ws :: "(workspace \<Rightarrow> workspace) \<Rightarrow> wsman \<Rightarrow> wsman" where
  "upd_current_ws f s = (case current_index s of Some w \<Rightarrow> upd_ws w f s | None \<Rightarrow> s)"

definition focus_next :: "wsman \<Rightarrow> wptr option \<times> wsman" where
  "focus_next s = (let s1 = upd_current_ws (ws_focus_next (heap s)) s in (focused (heap s1) (current_ws s1), s1))"

definition focus_prev :: "wsman \<Rightarrow> wptr option \<times> wsman" where
  "focus_prev s = (let s1 = upd_current_ws (ws_focus_prev (heap s)) s in (focused (heap s1) (current_ws s1), s1))"

definition switch_local_index :: "monitor_id \<Rightarrow> int \<Rightarrow> wsman \<Rightarrow> bool \<times> wsman" where
  "switch_local_index m li s =
     (if m < 0 \<or> m \<ge> int (length (monitor_pools s)) then (False, s)
      else if li < 0 \<or> li \<ge> int (length (monitor_pools s ! nat m)) then (False, s)
      else (True, sync_monitors_active_ws
                    (s\<lparr>monitor_active_local := (monitor_active_local s)[nat m := li]\<rparr>)))"

definition workspace_for_local_index :: "wsman \<Rightarrow> monitor_id \<Rightarrow> int \<Rightarrow> workspace_id" where
  "workspace_for_local_index s m li =
     (if m < 0 \<or> m \<ge> int (length (monitor_pools s)) then NO_WORKSPACE
      else if li < 0 \<or> li \<ge> int (length (monitor_pools s ! nat m)) then NO_WORKSPACE
      else monitor_pools s ! nat m ! nat li)"

definition monitor_at_point :: "wsman \<Rightarrow> int \<Rightarrow> int \<Rightarrow> monitor_id" where
  "monitor_at_point s x y =
     (case find_index (\<lambda>m. contains m (x, y)) (monitors s) of Some i \<Rightarrow> int i | None \<Rightarrow> NO_MONITOR)"

definition monitor_at_physical_point :: "wsman \<Rightarrow> int \<Rightarrow> int \<Rightarrow> monitor_id" where
  "monitor_at_physical_point s x y =
     (case find_index (\<lambda>m. physical_contains m (x, y)) (monitors s) of Some i \<Rightarrow> int i | None \<Rightarrow> NO_MONITOR)"

definition focus_monitor_at_point :: "int \<Rightarrow> int \<Rightarrow> wsman \<Rightarrow> bool \<times> wsman" where
  "focus_monitor_at_point x y s =
     (let mon = monitor_at_physical_point s x y in
      if mon < 0 then (False, s)
      else (mon \<noteq> focused_monitor s, s\<lparr>focused_monitor := mon\<rparr>))"

definition workspace_at :: "wsman \<Rightarrow> workspace_id \<Rightarrow> workspace" where
  "workspace_at s w =
     (if workspaces s = [] \<or> w < 0 \<or> w \<ge> int (length (workspaces s)) then fallback_workspace
      else workspaces s ! nat w)"

text \<open>\<^verbatim>\<open>zoom_focused\<close>: \<open>ws_zoom\<close> is its work on the current workspace, \<open>None\<close> where it returns false.\<close>

definition tiled_idx :: "heap \<Rightarrow> workspace \<Rightarrow> nat list" where
  "tiled_idx h ws = filter (\<lambda>i. \<not> floating (h (windows ws ! i))) [0..<length (windows ws)]"

definition swap_nth :: "nat \<Rightarrow> nat \<Rightarrow> 'a list \<Rightarrow> 'a list" where
  "swap_nth i j xs = xs[i := xs ! j, j := xs ! i]"

definition ws_zoom :: "heap \<Rightarrow> workspace \<Rightarrow> workspace option" where
  "ws_zoom h ws =
     (case focused h ws of
        None \<Rightarrow> None
      | Some f \<Rightarrow>
          if floating (h f) then None
          else
            (let ti = tiled_idx h ws in
             if length ti < 2 then None
             else case find_index (\<lambda>i. windows ws ! i = f) ti of
                    None \<Rightarrow> None
                  | Some k \<Rightarrow>
                      if k = 0
                      then Some (ws\<lparr>windows := swap_nth (ti ! 0) (ti ! 1) (windows ws), current := int (ti ! 1)\<rparr>)
                      else Some (ws\<lparr>windows := swap_nth (ti ! 0) (ti ! k) (windows ws), current := int (ti ! 0)\<rparr>)))"

definition zoom_focused :: "wsman \<Rightarrow> bool \<times> wsman" where
  "zoom_focused s =
     (case ws_zoom (heap s) (current_ws s) of
        None \<Rightarrow> (False, s)
      | Some ws' \<Rightarrow> (True, upd_current_ws (\<lambda>_. ws') s))"

end
