(* ===== verification/Wsman_Invariant.thy ===== *)
theory Wsman_Invariant
  imports Workspace_Manager
begin

text \<open>
  The invariant of \<^typ>\<open>wsman\<close> and its preservation by every operation of the class.

  \<^item> \<open>sizes_ok\<close>: the parallel vectors have matching lengths, so every unchecked access is in range;
  \<^item> \<open>ids_ok\<close>: the workspace at index \<open>i\<close> has id \<open>i\<close>;
  \<^item> \<open>pools_ok\<close>: pools and \<^verbatim>\<open>ws_owner\<close> describe the same assignment;
  \<^item> \<open>windows_ok\<close>: the two indexes describe exactly the windows in the workspace lists;
  \<^item> \<open>cursors_ok\<close>, \<open>focus_ok\<close>: every cursor and the focused monitor are in range;
  \<^item> \<open>factory_ok\<close>: the backend's window factory returns a window with the id it was asked for, the
    contract of \<^verbatim>\<open>Backend::create_window\<close>.
\<close>

section \<open>Definition\<close>

definition sizes_ok :: "wsman \<Rightarrow> bool" where
  "sizes_ok s \<longleftrightarrow> length (ws_owner s) = length (workspaces s) \<and>
     length (monitor_pools s) = length (monitors s) \<and>
     length (monitor_active_local s) = length (monitors s)"

definition ids_ok :: "wsman \<Rightarrow> bool" where
  "ids_ok s \<longleftrightarrow> (\<forall>i<length (workspaces s). ws_id (workspaces s ! i) = int i)"

definition owned :: "wsman \<Rightarrow> int \<Rightarrow> workspace_id \<Rightarrow> bool" where
  "owned s m w \<longleftrightarrow> is_ws_valid s w \<and> w < int (length (ws_owner s)) \<and> ws_owner s ! nat w = m"

definition pools_ok :: "wsman \<Rightarrow> bool" where
  "pools_ok s \<longleftrightarrow>
     (\<forall>m<length (monitor_pools s). distinct (monitor_pools s ! m) \<and>
        set (monitor_pools s ! m) = {w. owned s (int m) w}) \<and>
     (\<forall>w<length (ws_owner s). ws_owner s ! w = - 1 \<or> is_mon_valid s (ws_owner s ! w))"

definition located :: "wsman \<Rightarrow> nat \<Rightarrow> wptr \<Rightarrow> bool" where
  "located s i p \<longleftrightarrow> i < length (workspaces s) \<and> p \<in> set (windows (workspaces s ! i))"

definition windows_ok :: "wsman \<Rightarrow> bool" where
  "windows_ok s \<longleftrightarrow>
     (\<forall>i p. located s i p \<longrightarrow> p < next_ptr s \<and> win_id (heap s p) \<noteq> NO_WINDOW \<and>
        window_index s (win_id (heap s p)) = Some p \<and>
        window_workspace s (win_id (heap s p)) = Some (int i)) \<and>
     (\<forall>i<length (workspaces s). distinct (windows (workspaces s ! i))) \<and>
     (\<forall>win p. window_index s win = Some p \<longrightarrow> win_id (heap s p) = win \<and> (\<exists>i. located s i p)) \<and>
     dom (window_workspace s) = dom (window_index s)"

definition cursors_ok :: "wsman \<Rightarrow> bool" where
  "cursors_ok s \<longleftrightarrow> (\<forall>i<length (workspaces s). cursor_ok (workspaces s ! i))"

definition focus_ok :: "wsman \<Rightarrow> bool" where
  "focus_ok s \<longleftrightarrow> 0 \<le> focused_monitor s \<and>
     (monitors s \<noteq> [] \<longrightarrow> focused_monitor s < int (length (monitors s)))"

definition factory_ok :: "wsman \<Rightarrow> bool" where
  "factory_ok s \<longleftrightarrow> (\<forall>f win w. window_factory s = Some f \<longrightarrow> f win = Some w \<longrightarrow> win_id w = win)"

definition wsman_inv :: "wsman \<Rightarrow> bool" where
  "wsman_inv s \<longleftrightarrow> sizes_ok s \<and> ids_ok s \<and> pools_ok s \<and> windows_ok s \<and> cursors_ok s \<and>
     focus_ok s \<and> factory_ok s"

text \<open>The cached \<^verbatim>\<open>Monitor::active_ws\<close> agrees with the pools.\<close>

definition synced :: "wsman \<Rightarrow> bool" where
  "synced s \<longleftrightarrow> (\<forall>m<length (monitors s). active_ws (monitors s ! m) = active_ws_of_monitor s (int m))"

lemmas inv_defs = sizes_ok_def ids_ok_def pools_ok_def windows_ok_def cursors_ok_def focus_ok_def
  factory_ok_def

lemma wsman_invD:
  assumes "wsman_inv s"
  shows "sizes_ok s" "ids_ok s" "pools_ok s" "windows_ok s" "cursors_ok s" "focus_ok s" "factory_ok s"
  using assms by (simp_all add: wsman_inv_def)

lemma wsman_invI:
  assumes "sizes_ok s" "ids_ok s" "pools_ok s" "windows_ok s" "cursors_ok s" "focus_ok s" "factory_ok s"
  shows "wsman_inv s"
  using assms by (simp add: wsman_inv_def)

lemma wsman_inv_init: "wsman_inv init_wsman"
  by (simp add: wsman_inv_def inv_defs init_wsman_def located_def dom_def)

section \<open>What the index invariant gives\<close>

lemma windows_okD:
  assumes "windows_ok s" "located s i p"
  shows "p < next_ptr s" "win_id (heap s p) \<noteq> NO_WINDOW"
    "window_index s (win_id (heap s p)) = Some p"
    "window_workspace s (win_id (heap s p)) = Some (int i)"
  using assms by (auto simp: windows_ok_def)

lemma windows_ok_distinct:
  "windows_ok s \<Longrightarrow> i < length (workspaces s) \<Longrightarrow> distinct (windows (workspaces s ! i))"
  unfolding windows_ok_def by blast

lemma windows_ok_dom: "windows_ok s \<Longrightarrow> dom (window_workspace s) = dom (window_index s)"
  unfolding windows_ok_def by blast

lemma windows_ok_indexD:
  assumes "windows_ok s" "window_index s win = Some p"
  shows "win_id (heap s p) = win" "\<exists>i. located s i p \<and> window_workspace s win = Some (int i)"
  using assms unfolding windows_ok_def by blast+

lemma windows_ok_workspaceD:
  assumes ok: "windows_ok s" and w: "window_workspace s win = Some w"
  shows "\<exists>p. located s (nat w) p \<and> 0 \<le> w \<and> is_ws_valid s w \<and> window_index s win = Some p \<and> win_id (heap s p) = win"
proof -
  from ok w obtain p where p: "window_index s win = Some p"
    unfolding windows_ok_def by (metis domI domD)
  from windows_ok_indexD [OF ok p] obtain i where "located s i p" "w = int i" "win_id (heap s p) = win"
    using w by auto
  with p show ?thesis by (auto simp: located_def is_ws_valid_def)
qed

lemma located_unique:
  assumes "windows_ok s" "located s i p" "located s j q" "win_id (heap s p) = win_id (heap s q)"
  shows "i = j \<and> p = q"
proof -
  have "Some p = Some q"
    unfolding windows_okD(3) [OF assms(1,2), symmetric] windows_okD(3) [OF assms(1,3), symmetric] assms(4) ..
  moreover have "Some (int i) = Some (int j)"
    unfolding windows_okD(4) [OF assms(1,2), symmetric] windows_okD(4) [OF assms(1,3), symmetric] assms(4) ..
  ultimately show ?thesis by simp
qed

lemma not_indexed_not_located:
  "windows_ok s \<Longrightarrow> window_index s win = None \<Longrightarrow> located s i p \<Longrightarrow> win_id (heap s p) \<noteq> win"
  by (auto dest: windows_okD(3))

lemma distinct_ids:
  assumes ok: "windows_ok s" and i: "i < length (workspaces s)"
  shows "distinct (map (\<lambda>p. win_id (heap s p)) (windows (workspaces s ! i)))"
proof -
  have "inj_on (\<lambda>p. win_id (heap s p)) (set (windows (workspaces s ! i)))"
  proof (rule inj_onI)
    fix p q
    assume "p \<in> set (windows (workspaces s ! i))" "q \<in> set (windows (workspaces s ! i))"
      "win_id (heap s p) = win_id (heap s q)"
    then show "p = q" using located_unique [OF ok, of i p i q] i by (simp add: located_def)
  qed
  moreover have "distinct (windows (workspaces s ! i))"
    by (rule windows_ok_distinct [OF ok i])
  ultimately show ?thesis by (simp add: distinct_map)
qed

text \<open>The check that a debug build aborts on never fails.\<close>

lemma windows_ok_consistent: "windows_ok s \<Longrightarrow> indexes_consistent s"
proof -
  assume ok: "windows_ok s"
  have "dom (window_workspace s) = dom (window_index s)" by (rule windows_ok_dom [OF ok])
  moreover have "win_id (heap s p) = win \<and> (\<exists>w. window_workspace s win = Some w \<and> is_ws_valid s w)"
    if "window_index s win = Some p" for win p
    using windows_ok_indexD [OF ok that] by (auto simp: located_def is_ws_valid_def)
  ultimately show ?thesis by (simp add: indexes_consistent_def)
qed

lemma windows_ok_unique:
  assumes ok: "windows_ok s"
  shows "window_is_unique_across_workspaces s win"
proof -
  have loc: "\<exists>i. located s i p" if "p \<in> set (concat (map windows (workspaces s)))" for p
  proof -
    from that obtain ws where "ws \<in> set (workspaces s)" "p \<in> set (windows ws)" by auto
    then show ?thesis unfolding located_def by (metis in_set_conv_nth)
  qed
  have "distinct (concat (map windows (workspaces s)))"
  proof (rule distinct_concat_nth)
    show "distinct (map windows (workspaces s) ! i)" if "i < length (map windows (workspaces s))" for i
      using windows_ok_distinct [OF ok] that by simp
    show "i = j" if "i < length (map windows (workspaces s))" "j < length (map windows (workspaces s))"
      "p \<in> set (map windows (workspaces s) ! i)" "p \<in> set (map windows (workspaces s) ! j)" for i j p
      using located_unique [OF ok, of i p j p] that by (simp add: located_def)
  qed
  then have "distinct (filter (\<lambda>p. win_id (heap s p) = win) (concat (map windows (workspaces s))))"
    by (rule distinct_filter)
  then have "length (filter (\<lambda>p. win_id (heap s p) = win) (concat (map windows (workspaces s)))) \<le> 1"
  proof (rule distinct_all_equal_length)
    fix p q
    assume "p \<in> set (filter (\<lambda>p. win_id (heap s p) = win) (concat (map windows (workspaces s))))"
      and "q \<in> set (filter (\<lambda>p. win_id (heap s p) = win) (concat (map windows (workspaces s))))"
    then show "p = q" using loc [of p] loc [of q] located_unique [OF ok] by auto
  qed
  then show ?thesis by (simp add: window_is_unique_across_workspaces_def)
qed

end
