(* ===== verification/Wsman_Windows.thy ===== *)
theory Wsman_Windows
  imports Wsman_Invariant
begin

text \<open>
  Preservation of the manager's invariant by the operations on windows and focus: writes through a
  window pointer, insertion, removal and moves between workspaces, the cursor operations and zoom.
  Insertion and removal are first shown on the two primitive steps they are made of: \<open>windows_ok_take\<close>
  (leave a workspace and the indexes) and \<open>windows_ok_put\<close> (enter both).
\<close>

section \<open>Writes that keep the structure\<close>

lemma win_id_heap_upd:
  "win_id (f (h p)) = win_id (h p) \<Longrightarrow> win_id ((h(p := f (h p))) q) = win_id (h q)"
  by simp

lemma upd_win_frame [frame_simps]:
  "workspaces (upd_win p f s) = workspaces s" "monitors (upd_win p f s) = monitors s"
  "ws_owner (upd_win p f s) = ws_owner s" "monitor_pools (upd_win p f s) = monitor_pools s"
  "monitor_active_local (upd_win p f s) = monitor_active_local s"
  "window_index (upd_win p f s) = window_index s" "window_workspace (upd_win p f s) = window_workspace s"
  "focused_monitor (upd_win p f s) = focused_monitor s" "next_ptr (upd_win p f s) = next_ptr s"
  "window_factory (upd_win p f s) = window_factory s"
  "parked_pools (upd_win p f s) = parked_pools s" "parked_active_ws (upd_win p f s) = parked_active_ws s"
  "is_ws_valid (upd_win p f s) = is_ws_valid s" "is_mon_valid (upd_win p f s) = is_mon_valid s"
  "located (upd_win p f s) = located s" "owned (upd_win p f s) = owned s"
  "active_ws_of_monitor (upd_win p f s) = active_ws_of_monitor s"
  by (simp_all add: upd_win_def is_ws_valid_def is_mon_valid_def located_def owned_def
      active_ws_of_monitor_def Let_def fun_eq_iff)

lemma heap_upd_win: "heap (upd_win p f s) = (heap s)(p := f (heap s p))"
  by (simp add: upd_win_def)

lemma windows_ok_upd_win:
  assumes "\<And>w. win_id (f w) = win_id w"
  shows "windows_ok (upd_win p f s) = windows_ok s"
proof -
  have "win_id (heap (upd_win p f s) q) = win_id (heap s q)" for q
    using assms by (simp add: upd_win_def)
  then show ?thesis unfolding windows_ok_def frame_simps by simp
qed

lemma wsman_inv_upd_win:
  "(\<And>w. win_id (f w) = win_id w) \<Longrightarrow> wsman_inv (upd_win p f s) = wsman_inv s"
  unfolding wsman_inv_def
  by (simp add: windows_ok_upd_win sizes_ok_def ids_ok_def pools_ok_def cursors_ok_def focus_ok_def
      factory_ok_def frame_simps)

lemma synced_upd_win [simp]: "synced (upd_win p f s) = synced s"
  by (simp add: synced_def frame_simps)

lemma upd_ws_frame [frame_simps]:
  "length (workspaces (upd_ws w f s)) = length (workspaces s)"
  "monitors (upd_ws w f s) = monitors s" "heap (upd_ws w f s) = heap s"
  "ws_owner (upd_ws w f s) = ws_owner s" "monitor_pools (upd_ws w f s) = monitor_pools s"
  "monitor_active_local (upd_ws w f s) = monitor_active_local s"
  "window_index (upd_ws w f s) = window_index s" "window_workspace (upd_ws w f s) = window_workspace s"
  "focused_monitor (upd_ws w f s) = focused_monitor s" "next_ptr (upd_ws w f s) = next_ptr s"
  "window_factory (upd_ws w f s) = window_factory s"
  "parked_pools (upd_ws w f s) = parked_pools s" "parked_active_ws (upd_ws w f s) = parked_active_ws s"
  "is_ws_valid (upd_ws w f s) = is_ws_valid s" "is_mon_valid (upd_ws w f s) = is_mon_valid s"
  "owned (upd_ws w f s) = owned s" "active_ws_of_monitor (upd_ws w f s) = active_ws_of_monitor s"
  by (simp_all add: upd_ws_def is_ws_valid_def is_mon_valid_def owned_def
      active_ws_of_monitor_def Let_def fun_eq_iff)

lemma nth_upd_ws:
  "i < length (workspaces s) \<Longrightarrow>
   workspaces (upd_ws w f s) ! i = (if i = nat w then f (workspaces s ! i) else workspaces s ! i)"
  by (auto simp: upd_ws_def nth_list_update)

lemma structure_upd_ws:
  assumes "\<And>ws. ws_id (f ws) = ws_id ws"
    and "\<And>i. i < length (workspaces s) \<Longrightarrow> nat w = i \<Longrightarrow> cursor_ok (workspaces s ! i) \<Longrightarrow>
           cursor_ok (f (workspaces s ! i))"
  shows "sizes_ok (upd_ws w f s) = sizes_ok s" "pools_ok (upd_ws w f s) = pools_ok s"
    "focus_ok (upd_ws w f s) = focus_ok s" "factory_ok (upd_ws w f s) = factory_ok s"
    "ids_ok s \<Longrightarrow> ids_ok (upd_ws w f s)" "cursors_ok s \<Longrightarrow> cursors_ok (upd_ws w f s)"
  using assms
  by (auto simp: sizes_ok_def pools_ok_def focus_ok_def factory_ok_def ids_ok_def cursors_ok_def
      frame_simps nth_upd_ws)

lemma windows_ok_upd_ws_same:
  assumes "\<And>ws. windows (f ws) = windows ws"
  shows "windows_ok (upd_ws w f s) = windows_ok s"
proof -
  have "windows (workspaces (upd_ws w f s) ! i) = windows (workspaces s ! i)"
    if "i < length (workspaces s)" for i
    using assms that by (simp add: nth_upd_ws)
  then have "located (upd_ws w f s) = located s"
    and "\<And>i. i < length (workspaces s) \<Longrightarrow>
      distinct (windows (workspaces (upd_ws w f s) ! i)) = distinct (windows (workspaces s ! i))"
    by (auto simp: located_def fun_eq_iff frame_simps)
  then show ?thesis unfolding windows_ok_def frame_simps by simp
qed

lemma wsman_inv_upd_ws:
  assumes "wsman_inv s" "\<And>ws. ws_id (f ws) = ws_id ws" "\<And>ws. windows (f ws) = windows ws"
    and "\<And>i. i < length (workspaces s) \<Longrightarrow> nat w = i \<Longrightarrow> cursor_ok (workspaces s ! i) \<Longrightarrow>
           cursor_ok (f (workspaces s ! i))"
  shows "wsman_inv (upd_ws w f s)"
  using assms(1) unfolding wsman_inv_def
  by (simp add: structure_upd_ws [OF assms(2,4)] windows_ok_upd_ws_same [OF assms(3)])

lemma synced_upd_ws [simp]: "synced (upd_ws w f s) = synced s"
  by (simp add: synced_def frame_simps)

section \<open>Leaving and entering a workspace\<close>

lemma ws_take_windows:
  assumes "windows_ok s" "i < length (workspaces s)"
  shows "windows (workspaces (ws_take w win s) ! i) =
    (if i = nat w then filter (\<lambda>p. win_id (heap s p) \<noteq> win) (windows (workspaces s ! i))
     else windows (workspaces s ! i))"
  using assms by (auto simp: ws_take_def nth_upd_ws ws_remove_window_windows distinct_ids)

lemma ws_take_located:
  assumes ok: "windows_ok s" and w: "window_workspace s win = Some w"
  shows "located (ws_take w win s) i p \<longleftrightarrow> located s i p \<and> win_id (heap s p) \<noteq> win"
proof -
  have "i = nat w" if "located s i p" "win_id (heap s p) = win"
    using windows_okD(4) [OF ok that(1)] w that(2) by simp
  then show ?thesis
    using ws_take_windows [OF ok, of i w win]
    by (auto simp: located_def ws_take_def frame_simps split: if_splits)
qed

lemma unindex_frame [frame_simps]:
  "workspaces (unindex_window win s) = workspaces s" "monitors (unindex_window win s) = monitors s"
  "heap (unindex_window win s) = heap s" "ws_owner (unindex_window win s) = ws_owner s"
  "monitor_pools (unindex_window win s) = monitor_pools s"
  "monitor_active_local (unindex_window win s) = monitor_active_local s"
  "focused_monitor (unindex_window win s) = focused_monitor s"
  "next_ptr (unindex_window win s) = next_ptr s" "window_factory (unindex_window win s) = window_factory s"
  "is_ws_valid (unindex_window win s) = is_ws_valid s" "is_mon_valid (unindex_window win s) = is_mon_valid s"
  "located (unindex_window win s) = located s" "owned (unindex_window win s) = owned s"
  "active_ws_of_monitor (unindex_window win s) = active_ws_of_monitor s"
  by (simp_all add: unindex_window_def is_ws_valid_def is_mon_valid_def located_def owned_def
      active_ws_of_monitor_def Let_def fun_eq_iff)

lemma unindex_lookup:
  "window_index (unindex_window win s) = (window_index s)(win := None)"
  "window_workspace (unindex_window win s) = (window_workspace s)(win := None)"
  by (simp_all add: unindex_window_def)

lemma windows_ok_intro:
  assumes "\<And>i p. located s i p \<Longrightarrow> p < next_ptr s \<and> win_id (heap s p) \<noteq> NO_WINDOW \<and>
        window_index s (win_id (heap s p)) = Some p \<and> window_workspace s (win_id (heap s p)) = Some (int i)"
    and "\<And>i. i < length (workspaces s) \<Longrightarrow> distinct (windows (workspaces s ! i))"
    and "\<And>win p. window_index s win = Some p \<Longrightarrow> win_id (heap s p) = win \<and> (\<exists>i. located s i p)"
    and "dom (window_workspace s) = dom (window_index s)"
  shows "windows_ok s"
  unfolding windows_ok_def using assms by blast

lemma ws_take_frame [frame_simps]:
  "length (workspaces (ws_take w win s)) = length (workspaces s)" "monitors (ws_take w win s) = monitors s"
  "heap (ws_take w win s) = heap s" "window_index (ws_take w win s) = window_index s"
  "window_workspace (ws_take w win s) = window_workspace s" "next_ptr (ws_take w win s) = next_ptr s"
  "is_ws_valid (ws_take w win s) = is_ws_valid s" "focused_monitor (ws_take w win s) = focused_monitor s"
  "monitor_pools (ws_take w win s) = monitor_pools s" "ws_owner (ws_take w win s) = ws_owner s"
  "active_ws_of_monitor (ws_take w win s) = active_ws_of_monitor s"
  by (simp_all add: ws_take_def frame_simps)

lemma windows_ok_take:
  assumes ok: "windows_ok s" and w: "window_workspace s win = Some w"
  shows "windows_ok (unindex_window win (ws_take w win s))"
proof (rule windows_ok_intro, unfold frame_simps unindex_lookup)
  fix i p
  assume "located (ws_take w win s) i p"
  then have "located s i p" "win_id (heap s p) \<noteq> win" by (simp_all add: ws_take_located [OF ok w])
  then show "p < next_ptr s \<and> win_id (heap s p) \<noteq> NO_WINDOW \<and>
     ((window_index s)(win := None)) (win_id (heap s p)) = Some p \<and>
     ((window_workspace s)(win := None)) (win_id (heap s p)) = Some (int i)"
    using windows_okD [OF ok] by simp
next
  fix i
  assume "i < length (workspaces s)"
  then show "distinct (windows (workspaces (ws_take w win s) ! i))"
    using ws_take_windows [OF ok] windows_ok_distinct [OF ok] by simp
next
  fix v p
  assume "((window_index s)(win := None)) v = Some p"
  then have v: "v \<noteq> win" "window_index s v = Some p" by (auto split: if_splits)
  from windows_ok_indexD [OF ok v(2)] v(1)
  show "win_id (heap s p) = v \<and> (\<exists>i. located (ws_take w win s) i p)"
    by (auto simp: ws_take_located [OF ok w])
next
  show "dom ((window_workspace s)(win := None)) = dom ((window_index s)(win := None))"
    using windows_ok_dom [OF ok] by simp
qed

lemma put_lookup:
  assumes "win \<noteq> NO_WINDOW" "is_ws_valid s w"
  shows "window_index (index_window win p w s) = (window_index s)(win \<mapsto> p)"
    "window_workspace (index_window win p w s) = (window_workspace s)(win \<mapsto> w)"
  using assms by (simp_all add: index_window_def)

lemma index_window_frame [frame_simps]:
  "workspaces (index_window win p w s) = workspaces s" "monitors (index_window win p w s) = monitors s"
  "heap (index_window win p w s) = heap s" "ws_owner (index_window win p w s) = ws_owner s"
  "monitor_pools (index_window win p w s) = monitor_pools s"
  "monitor_active_local (index_window win p w s) = monitor_active_local s"
  "focused_monitor (index_window win p w s) = focused_monitor s"
  "next_ptr (index_window win p w s) = next_ptr s" "window_factory (index_window win p w s) = window_factory s"
  "is_ws_valid (index_window win p w s) = is_ws_valid s" "is_mon_valid (index_window win p w s) = is_mon_valid s"
  "located (index_window win p w s) = located s" "owned (index_window win p w s) = owned s"
  "active_ws_of_monitor (index_window win p w s) = active_ws_of_monitor s"
  "parked_pools (index_window win p w s) = parked_pools s"
  "parked_active_ws (index_window win p w s) = parked_active_ws s"
  by (simp_all add: index_window_def is_ws_valid_def is_mon_valid_def located_def owned_def
      active_ws_of_monitor_def Let_def fun_eq_iff)

lemma located_add:
  assumes "is_ws_valid s w"
  shows "located (upd_ws w (ws_add_window p) s) i q \<longleftrightarrow> located s i q \<or> (i = nat w \<and> q = p)"
  using assms by (auto simp: located_def frame_simps nth_upd_ws is_ws_valid_def split: if_splits)

lemma windows_ok_put:
  assumes ok: "windows_ok s" and fresh: "window_index s win = None" and w: "is_ws_valid s w"
    and p: "p < next_ptr s" "win_id (heap s p) = win" "win \<noteq> NO_WINDOW"
  shows "windows_ok (index_window win p w (upd_ws w (ws_add_window p) s))"
proof -
  let ?s = "upd_ws w (ws_add_window p) s"
  have v: "is_ws_valid ?s w" using w by (simp add: frame_simps)
  note look = put_lookup [OF p(3) v]
  have new: "\<not> located s i q" if "win_id (heap s q) = win" for i q
    using not_indexed_not_located [OF ok fresh] that by blast
  have wn: "int (nat w) = w" using w by (simp add: is_ws_valid_def)
  show ?thesis
  proof (rule windows_ok_intro, unfold look frame_simps located_add [OF w])
    fix i q
    assume "located s i q \<or> (i = nat w \<and> q = p)"
    then show "q < next_ptr s \<and> win_id (heap s q) \<noteq> NO_WINDOW \<and>
       ((window_index s)(win \<mapsto> p)) (win_id (heap s q)) = Some q \<and>
       ((window_workspace s)(win \<mapsto> w)) (win_id (heap s q)) = Some (int i)"
    proof
      assume l: "located s i q"
      with new have "win_id (heap s q) \<noteq> win" by blast
      with windows_okD [OF ok l] show ?thesis by simp
    qed (use p wn in simp)
  next
    fix i
    assume i: "i < length (workspaces s)"
    have "p \<notin> set (windows (workspaces s ! i))" using new [OF p(2), of i] i by (simp add: located_def)
    then show "distinct (windows (workspaces ?s ! i))"
      using windows_ok_distinct [OF ok i] i by (auto simp: nth_upd_ws frame_simps)
  next
    fix v q
    assume "((window_index s)(win \<mapsto> p)) v = Some q"
    then show "win_id (heap s q) = v \<and> (\<exists>i. located s i q \<or> i = nat w \<and> q = p)"
      using windows_ok_indexD [OF ok, of v q] p by (auto split: if_splits)
  next
    show "dom ((window_workspace s)(win \<mapsto> w)) = dom ((window_index s)(win \<mapsto> p))"
      using windows_ok_dom [OF ok] by simp
  qed
qed

text \<open>Entering overwrites both index entries, so it does not matter whether they were cleared first.\<close>

lemma put_unindex:
  assumes "win \<noteq> NO_WINDOW" "is_ws_valid s w"
  shows "index_window win p w (upd_ws w f (unindex_window win s)) = index_window win p w (upd_ws w f s)"
  using assms by (simp add: index_window_def upd_ws_def unindex_window_def is_ws_valid_def)

section \<open>Moving windows between workspaces\<close>

definition struct_inv :: "wsman \<Rightarrow> bool" where
  "struct_inv s \<longleftrightarrow> sizes_ok s \<and> ids_ok s \<and> pools_ok s \<and> cursors_ok s \<and> focus_ok s \<and> factory_ok s"

lemma wsman_inv_split: "wsman_inv s \<longleftrightarrow> struct_inv s \<and> windows_ok s"
  by (auto simp: wsman_inv_def struct_inv_def)

lemma struct_inv_upd_ws:
  assumes "struct_inv s" "\<And>ws. ws_id (f ws) = ws_id ws"
    and "\<And>i. i < length (workspaces s) \<Longrightarrow> nat w = i \<Longrightarrow> cursor_ok (workspaces s ! i) \<Longrightarrow>
           cursor_ok (f (workspaces s ! i))"
  shows "struct_inv (upd_ws w f s)"
  using assms(1) unfolding struct_inv_def by (simp add: structure_upd_ws [OF assms(2,3)])

lemma struct_inv_index [simp]:
  "struct_inv (index_window win p w s) = struct_inv s"
  "struct_inv (unindex_window win s) = struct_inv s"
  by (simp_all add: struct_inv_def sizes_ok_def ids_ok_def pools_ok_def cursors_ok_def focus_ok_def
      factory_ok_def frame_simps)

lemma struct_inv_take: "struct_inv s \<Longrightarrow> struct_inv (ws_take w win s)"
  unfolding ws_take_def by (erule struct_inv_upd_ws) (simp_all add: frame_simps cursor_ok_remove)

lemma struct_inv_add: "struct_inv s \<Longrightarrow> struct_inv (upd_ws w (ws_add_window p) s)"
  by (erule struct_inv_upd_ws) (simp_all add: frame_simps cursor_ok_add)

lemma synced_index [simp]:
  "synced (index_window win p w s) = synced s" "synced (unindex_window win s) = synced s"
  "synced (ws_take w win s) = synced s"
  by (simp_all add: synced_def frame_simps)

lemma take_from_all_absent:
  assumes ok: "windows_ok s" and none: "window_index s win = None"
  shows "take_from_all win s = s"
proof -
  have "snd (ws_remove_window (heap s) win ws) = ws" if mem: "ws \<in> set (workspaces s)" for ws
  proof -
    from mem obtain i where "i < length (workspaces s)" "ws = workspaces s ! i"
      by (metis in_set_conv_nth)
    then have "\<forall>p\<in>set (windows ws). win_id (heap s p) \<noteq> win"
      using not_indexed_not_located [OF ok none, of i] by (simp add: located_def)
    then show ?thesis by (simp add: ws_remove_window_absent)
  qed
  then show ?thesis by (simp add: take_from_all_def map_idI)
qed

text \<open>
  \<open>relocate\<close> is what \<^const>\<open>add_window\<close> and \<^const>\<open>move_window_to\<close> amount to under the invariant: leave
  the workspace the index names, if any, and enter the target.
\<close>

definition relocate :: "workspace_id \<Rightarrow> wptr \<Rightarrow> wsman \<Rightarrow> wsman" where
  "relocate w p s =
     (let win = win_id (heap s p) in
      index_window win p w (upd_ws w (ws_add_window p)
        (case window_workspace s win of None \<Rightarrow> s | Some old \<Rightarrow> unindex_window win (ws_take old win s))))"

lemma relocate_inv:
  assumes inv: "wsman_inv s" and w: "is_ws_valid s w"
    and p: "p < next_ptr s" "win_id (heap s p) \<noteq> NO_WINDOW"
  shows "wsman_inv (relocate w p s)"
proof -
  let ?win = "win_id (heap s p)"
  from inv have st: "struct_inv s" and ok: "windows_ok s" by (simp_all add: wsman_inv_split)
  show ?thesis
  proof (cases "window_workspace s ?win")
    case None
    then have "window_index s ?win = None" using windows_ok_dom [OF ok] by (metis domIff)
    from windows_ok_put [OF ok this w p(1) refl p(2)] struct_inv_add [OF st]
    show ?thesis by (simp add: relocate_def None wsman_inv_split)
  next
    case (Some old)
    let ?s = "unindex_window ?win (ws_take old ?win s)"
    have ok': "windows_ok ?s" by (rule windows_ok_take [OF ok Some])
    have "windows_ok (index_window ?win p w (upd_ws w (ws_add_window p) ?s))"
      by (rule windows_ok_put [OF ok']) (use w p in \<open>simp_all add: frame_simps unindex_lookup\<close>)
    moreover have "struct_inv ?s" by (simp add: struct_inv_take [OF st])
    ultimately show ?thesis by (simp add: relocate_def Some wsman_inv_split struct_inv_add Let_def)
  qed
qed

lemma relocate_located:
  assumes ok: "windows_ok s" and w: "is_ws_valid s w"
  shows "located (relocate w p s) i q \<longleftrightarrow>
    (located s i q \<and> win_id (heap s q) \<noteq> win_id (heap s p)) \<or> (i = nat w \<and> q = p)"
proof (cases "window_workspace s (win_id (heap s p))")
  case None
  then have "window_index s (win_id (heap s p)) = None" using windows_ok_dom [OF ok] by (metis domIff)
  then have "win_id (heap s q) \<noteq> win_id (heap s p)" if "located s i q"
    using not_indexed_not_located [OF ok] that by blast
  with None show ?thesis by (auto simp: relocate_def frame_simps located_add [OF w])
next
  case (Some old)
  let ?s = "unindex_window (win_id (heap s p)) (ws_take old (win_id (heap s p)) s)"
  have "is_ws_valid ?s w" using w by (simp add: frame_simps)
  from located_add [OF this] Some show ?thesis
    by (simp add: relocate_def Let_def frame_simps ws_take_located [OF ok Some])
qed

lemma move_window_to_eq:
  assumes inv: "wsman_inv s" and p: "win_id (heap s p) \<noteq> NO_WINDOW"
  shows "move_window_to w p s =
    (if \<not> is_ws_valid s w \<or> window_workspace s (win_id (heap s p)) = Some w then s else relocate w p s)"
proof (cases "is_ws_valid s w")
  case w: True
  let ?win = "win_id (heap s p)"
  from inv have ok: "windows_ok s" by (simp add: wsman_inv_split)
  show ?thesis
  proof (cases "window_workspace s ?win")
    case None
    then have "window_index s ?win = None" using windows_ok_dom [OF ok] by (metis domIff)
    with None w show ?thesis
      by (simp add: move_window_to_def relocate_def take_from_all_absent [OF ok] Let_def)
  next
    case (Some old)
    then have "is_ws_valid s old" using windows_ok_workspaceD [OF ok] by blast
    moreover have "is_ws_valid (ws_take old ?win s) w" using w by (simp add: frame_simps)
    ultimately show ?thesis using Some w
      by (simp add: move_window_to_def relocate_def Let_def put_unindex [OF p])
  qed
qed (simp add: move_window_to_def)

lemma move_window_to_inv [inv_intros]:
  assumes "wsman_inv s" "p < next_ptr s" "win_id (heap s p) \<noteq> NO_WINDOW"
  shows "wsman_inv (move_window_to w p s)"
  using assms by (simp add: move_window_to_eq relocate_inv)

lemma add_window_target:
  "workspaces s \<noteq> [] \<Longrightarrow>
   is_ws_valid s (add_target s w)"
  by (simp add: Let_def is_ws_valid_def add_target_def)

lemma add_window_eq:
  assumes inv: "wsman_inv s" and p: "win_id (heap s p) \<noteq> NO_WINDOW" and ne: "workspaces s \<noteq> []"
  shows "add_window p w s =
    (if window_workspace s (win_id (heap s p)) = Some (add_target s w) then s
     else relocate (add_target s w) p s)"
proof -
  define t where "t = add_target s w"
  let ?win = "win_id (heap s p)"
  from inv have ok: "windows_ok s" by (simp add: wsman_inv_split)
  have t: "is_ws_valid s t" unfolding t_def by (rule add_window_target [OF ne])
  show ?thesis
  proof (cases "window_workspace s ?win")
    case None
    with ne show ?thesis by (simp add: add_window_def relocate_def t_def Let_def)
  next
    case (Some old)
    then have old: "is_ws_valid s old" using windows_ok_workspaceD [OF ok] by blast
    have "is_ws_valid (ws_take old ?win s) t" using t by (simp add: frame_simps)
    from put_unindex [OF p this] have
      "relocate t p s = index_window ?win p t (upd_ws t (ws_add_window p) (ws_take old ?win s))"
      using Some by (simp add: relocate_def Let_def)
    with Some old ne show ?thesis unfolding t_def by (simp add: add_window_def Let_def)
  qed
qed

lemma add_window_inv [inv_intros]:
  assumes "wsman_inv s" "p < next_ptr s" "win_id (heap s p) \<noteq> NO_WINDOW"
  shows "wsman_inv (add_window p w s)"
proof (cases "workspaces s = []")
  case False
  from add_window_eq [OF assms(1,3) False] relocate_inv [OF assms(1) add_window_target [OF False] assms(2,3)]
  show ?thesis using assms(1) by simp
qed (use assms in \<open>simp add: add_window_def\<close>)

lemma alloc_inv:
  assumes "wsman_inv s"
  shows "wsman_inv (snd (alloc obj s))"
proof -
  from assms have ok: "windows_ok s" and st: "struct_inv s" by (simp_all add: wsman_inv_split)
  have loc: "located (snd (alloc obj s)) = located s"
    by (simp add: alloc_def located_def fun_eq_iff)
  have frame: "window_index (snd (alloc obj s)) = window_index s"
    "window_workspace (snd (alloc obj s)) = window_workspace s"
    "workspaces (snd (alloc obj s)) = workspaces s" "next_ptr (snd (alloc obj s)) = Suc (next_ptr s)"
    by (simp_all add: alloc_def)
  have same: "win_id (heap (snd (alloc obj s)) q) = win_id (heap s q)" if "located s i q" for i q
    using windows_okD(1) [OF ok that] by (simp add: alloc_def)
  have "windows_ok (snd (alloc obj s))"
  proof (rule windows_ok_intro, unfold loc frame)
    fix i p
    assume l: "located s i p"
    show "p < Suc (next_ptr s) \<and> win_id (heap (snd (alloc obj s)) p) \<noteq> NO_WINDOW \<and>
      window_index s (win_id (heap (snd (alloc obj s)) p)) = Some p \<and>
      window_workspace s (win_id (heap (snd (alloc obj s)) p)) = Some (int i)"
      unfolding same [OF l] using windows_okD [OF ok l] by simp
  next
    fix win p
    assume "window_index s win = Some p"
    from windows_ok_indexD [OF ok this] same
    show "win_id (heap (snd (alloc obj s)) p) = win \<and> (\<exists>i. located s i p)" by auto
  qed (use ok windows_ok_distinct windows_ok_dom in blast)+
  moreover have "struct_inv (snd (alloc obj s))"
    using st by (simp add: struct_inv_def sizes_ok_def ids_ok_def pools_ok_def cursors_ok_def
        focus_ok_def factory_ok_def alloc_def owned_def is_ws_valid_def is_mon_valid_def)
  ultimately show ?thesis by (simp add: wsman_inv_split)
qed

lemma create_window_inv [inv_intros]:
  assumes inv: "wsman_inv s" and win: "win \<noteq> NO_WINDOW"
  shows "wsman_inv (create_window win w s)"
proof -
  have made: "win_id obj = win"
    if "(case window_factory s of Some f \<Rightarrow> f win | None \<Rightarrow> Some (mk_window win)) = Some obj" for obj
    using that wsman_invD(7) [OF inv] by (auto simp: factory_ok_def split: option.splits)
  have "wsman_inv (add_window (next_ptr s) w (snd (alloc obj s)))"
    if "(case window_factory s of Some f \<Rightarrow> f win | None \<Rightarrow> Some (mk_window win)) = Some obj" for obj
    by (rule add_window_inv [OF alloc_inv [OF inv]]) (use made [OF that] win in \<open>simp_all add: alloc_def\<close>)
  then show ?thesis
    using inv unfolding create_window_def Let_def
    by (auto split: option.splits prod.splits simp: alloc_def)
qed

lemma unindexed_take_inv:
  assumes inv: "wsman_inv s" and w: "window_workspace s win = Some w"
  shows "wsman_inv (unindex_window win (ws_take w win s))"
  using inv windows_ok_take [OF _ w] struct_inv_take by (simp add: wsman_inv_split)

lemma unindex_absent:
  assumes "windows_ok s" "window_workspace s win = None"
  shows "unindex_window win s = s"
proof -
  have "window_index s win = None" using assms windows_ok_dom by (metis domIff)
  then show ?thesis using assms(2) by (simp add: unindex_window_def fun_upd_idem)
qed

lemma remove_window_from_all_eq:
  assumes inv: "wsman_inv s"
  shows "remove_window_from_all win s =
    (case window_workspace s win of None \<Rightarrow> s | Some w \<Rightarrow> unindex_window win (ws_take w win s))"
proof -
  from inv have ok: "windows_ok s" by (simp add: wsman_inv_split)
  show ?thesis
  proof (cases "window_workspace s win")
    case None
    then have "window_index s win = None" using windows_ok_dom [OF ok] by (metis domIff)
    with None show ?thesis
      by (simp add: remove_window_from_all_def take_from_all_absent [OF ok] unindex_absent [OF ok])
  next
    case (Some w)
    then have "is_ws_valid s w" using windows_ok_workspaceD [OF ok] by blast
    with Some show ?thesis by (simp add: remove_window_from_all_def)
  qed
qed

lemma remove_window_from_all_inv [inv_intros]:
  "wsman_inv s \<Longrightarrow> wsman_inv (remove_window_from_all win s)"
  by (auto simp: remove_window_from_all_eq unindexed_take_inv split: option.splits)

lemma removed_means_indexed:
  assumes ok: "windows_ok s" and w: "is_ws_valid s w"
    and r: "fst (ws_remove_window (heap s) win (workspaces s ! nat w))"
  shows "window_workspace s win = Some w"
proof -
  from r obtain i where "find_index (\<lambda>p. win_id (heap s p) = win) (windows (workspaces s ! nat w)) = Some i"
    by (auto simp: ws_remove_window_def split: option.splits)
  from find_index_SomeD [OF this] w have "located s (nat w) (windows (workspaces s ! nat w) ! i)"
    "win_id (heap s (windows (workspaces s ! nat w) ! i)) = win"
    by (auto simp: located_def is_ws_valid_def)
  from windows_okD(4) [OF ok this(1)] this(2) w show ?thesis by (simp add: is_ws_valid_def)
qed

lemma remove_window_inv [inv_intros]: "wsman_inv s \<Longrightarrow> wsman_inv (remove_window win w s)"
  unfolding remove_window_def Let_def
  by (auto intro!: unindexed_take_inv removed_means_indexed simp: wsman_inv_split [THEN iffD1])

section \<open>Focus and cursors\<close>

lemma sync_frame [frame_simps]:
  "workspaces (sync_monitors_active_ws s) = workspaces s"
  "length (monitors (sync_monitors_active_ws s)) = length (monitors s)"
  "ws_owner (sync_monitors_active_ws s) = ws_owner s"
  "monitor_pools (sync_monitors_active_ws s) = monitor_pools s"
  "monitor_active_local (sync_monitors_active_ws s) = monitor_active_local s"
  "window_index (sync_monitors_active_ws s) = window_index s"
  "window_workspace (sync_monitors_active_ws s) = window_workspace s"
  "focused_monitor (sync_monitors_active_ws s) = focused_monitor s"
  "heap (sync_monitors_active_ws s) = heap s" "next_ptr (sync_monitors_active_ws s) = next_ptr s"
  "window_factory (sync_monitors_active_ws s) = window_factory s"
  "parked_pools (sync_monitors_active_ws s) = parked_pools s"
  "parked_active_ws (sync_monitors_active_ws s) = parked_active_ws s"
  "is_ws_valid (sync_monitors_active_ws s) = is_ws_valid s"
  "is_mon_valid (sync_monitors_active_ws s) = is_mon_valid s"
  "located (sync_monitors_active_ws s) = located s" "owned (sync_monitors_active_ws s) = owned s"
  "active_ws_of_monitor (sync_monitors_active_ws s) = active_ws_of_monitor s"
  "(monitors (sync_monitors_active_ws s) = []) = (monitors s = [])"
  by (simp_all add: sync_monitors_active_ws_def is_ws_valid_def is_mon_valid_def located_def owned_def
      active_ws_of_monitor_def Let_def fun_eq_iff)

lemma sync_nth:
  "m < length (monitors s) \<Longrightarrow>
   monitors (sync_monitors_active_ws s) ! m = (monitors s ! m)\<lparr>active_ws := active_ws_of_monitor s (int m)\<rparr>"
  by (simp add: sync_monitors_active_ws_def)

lemma wsman_inv_sync [simp]: "wsman_inv (sync_monitors_active_ws s) = wsman_inv s"
  unfolding wsman_inv_def inv_defs frame_simps ..

lemma synced_sync [simp]: "synced (sync_monitors_active_ws s)"
  by (simp add: synced_def frame_simps sync_nth)

lemma wsman_inv_focused_monitor:
  "wsman_inv s \<Longrightarrow> is_mon_valid s m \<Longrightarrow> wsman_inv (s\<lparr>focused_monitor := m\<rparr>)"
  by (simp add: wsman_inv_def inv_defs located_def owned_def is_ws_valid_def is_mon_valid_def)

lemma wsman_inv_active_local:
  "wsman_inv s \<Longrightarrow> wsman_inv (s\<lparr>monitor_active_local := (monitor_active_local s)[m := li]\<rparr>)"
  by (simp add: wsman_inv_def inv_defs located_def owned_def is_ws_valid_def is_mon_valid_def)

lemma monitor_of_valid: "monitor_of s w \<ge> 0 \<Longrightarrow> is_mon_valid s (monitor_of s w)"
  by (auto simp: monitor_of_def NO_MONITOR_def split: if_splits)

lemma focus_window_inv [inv_intros]:
  assumes inv: "wsman_inv s"
  shows "wsman_inv (snd (focus_window win s))"
proof -
  let ?s1 = "\<lambda>w i. upd_win (windows (workspaces s ! nat w) ! i) (\<lambda>x. x\<lparr>urgent := False\<rparr>)
    (upd_ws w (\<lambda>ws. ws\<lparr>current := int i\<rparr>) s)"
  have s1: "wsman_inv (?s1 w i)" if "i < length (windows (workspaces s ! nat w))" for i w
    unfolding wsman_inv_upd_win [of "\<lambda>x. x\<lparr>urgent := False\<rparr>", simplified]
    by (rule wsman_inv_upd_ws [OF inv]) (use that in \<open>auto simp: cursor_ok_def\<close>)
  have go: "wsman_inv (sync_monitors_active_ws
      ((if li \<ge> 0 then r\<lparr>monitor_active_local := (monitor_active_local r)[nat mon := li]\<rparr> else r)
        \<lparr>focused_monitor := mon\<rparr>))"
    if "wsman_inv r" "is_mon_valid r mon" for r li mon
    using that wsman_inv_active_local [OF that(1), of "nat mon" li]
    by (auto intro!: wsman_inv_focused_monitor simp: is_mon_valid_def)
  show ?thesis
  proof (cases "window_workspace s win")
    case (Some w)
    show ?thesis
    proof (cases "find_index (\<lambda>p. win_id (heap s p) = win) (windows (workspaces s ! nat w))")
      case (Some i)
      from find_index_SomeD [OF this] have "wsman_inv (?s1 w i)" by (intro s1) simp
      with go [of "?s1 w i"] monitor_of_valid [of "?s1 w i"] inv Some \<open>window_workspace s win = Some w\<close>
      show ?thesis by (simp add: focus_window_def Let_def)
    qed (use inv Some in \<open>simp add: focus_window_def\<close>)
  qed (use inv in \<open>simp add: focus_window_def\<close>)
qed

lemma focus_window_synced: "synced s \<Longrightarrow> synced (snd (focus_window win s))"
  unfolding focus_window_def Let_def by (auto split: option.splits)

lemma upd_current_ws_inv:
  assumes "wsman_inv s" "\<And>ws. ws_id (f ws) = ws_id ws" "\<And>ws. windows (f ws) = windows ws"
    and "\<And>ws. cursor_ok ws \<Longrightarrow> cursor_ok (f ws)"
  shows "wsman_inv (upd_current_ws f s)"
  using assms by (auto simp: upd_current_ws_def intro: wsman_inv_upd_ws split: option.splits)

lemma focus_cycle_inv [inv_intros]:
  "wsman_inv s \<Longrightarrow> wsman_inv (snd (focus_next s))" "wsman_inv s \<Longrightarrow> wsman_inv (snd (focus_prev s))"
  by (auto simp: focus_next_def focus_prev_def Let_def frame_simps cursor_ok_focus_next cursor_ok_focus_prev
      intro!: upd_current_ws_inv)

lemma synced_upd_current_ws [simp]: "synced (upd_current_ws f s) = synced s"
  by (simp add: upd_current_ws_def split: option.splits)

lemma focus_cycle_synced: "synced s \<Longrightarrow> synced (snd (focus_next s))" "synced s \<Longrightarrow> synced (snd (focus_prev s))"
  by (simp_all add: focus_next_def focus_prev_def Let_def)

lemma current_index_valid: "current_index s = Some w \<Longrightarrow> is_ws_valid s w"
  by (auto simp: current_index_def Let_def find_Some_iff is_ws_valid_def split: if_splits option.splits)

text \<open>Zoom only swaps two entries and puts the cursor on one of them.\<close>

lemma mset_swap_nth: "i < length xs \<Longrightarrow> j < length xs \<Longrightarrow> mset (swap_nth i j xs) = mset xs"
  by (simp add: swap_nth_def mset_swap)

lemma tiled_idx_nth:
  "k < length (tiled_idx h ws) \<Longrightarrow>
   tiled_idx h ws ! k < length (windows ws) \<and> \<not> floating (h (windows ws ! (tiled_idx h ws ! k)))"
  using nth_mem [of k "tiled_idx h ws"] by (auto simp: tiled_idx_def)

lemma ws_zoom_SomeD:
  assumes "ws_zoom h ws = Some ws'"
  shows "\<exists>f k. focused h ws = Some f \<and> \<not> floating (h f) \<and> 2 \<le> length (tiled_idx h ws) \<and>
     k < length (tiled_idx h ws) \<and> windows ws ! (tiled_idx h ws ! k) = f \<and>
     ws' = (if k = 0
       then ws\<lparr>windows := swap_nth (tiled_idx h ws ! 0) (tiled_idx h ws ! 1) (windows ws), current := int (tiled_idx h ws ! 1)\<rparr>
       else ws\<lparr>windows := swap_nth (tiled_idx h ws ! 0) (tiled_idx h ws ! k) (windows ws), current := int (tiled_idx h ws ! 0)\<rparr>)"
proof -
  let ?ti = "tiled_idx h ws"
  from assms obtain f where f: "focused h ws = Some f" "\<not> floating (h f)" "2 \<le> length ?ti"
    by (cases "focused h ws") (auto simp: ws_zoom_def Let_def split: if_splits)
  then obtain k where k: "find_index (\<lambda>i. windows ws ! i = f) ?ti = Some k"
    using assms by (cases "find_index (\<lambda>i. windows ws ! i = f) ?ti") (auto simp: ws_zoom_def Let_def)
  with f assms find_index_SomeD [OF k] show ?thesis
    by (intro exI [of _ f] exI [of _ k]) (auto simp: ws_zoom_def Let_def)
qed

lemma ws_zoom_frame:
  assumes "ws_zoom h ws = Some ws'"
  shows "ws_id ws' = ws_id ws" "mset (windows ws') = mset (windows ws)" "cursor_ok ws'"
proof -
  from ws_zoom_SomeD [OF assms] obtain f k where
    k: "2 \<le> length (tiled_idx h ws)" "k < length (tiled_idx h ws)" and
    ws': "ws' = (if k = 0
       then ws\<lparr>windows := swap_nth (tiled_idx h ws ! 0) (tiled_idx h ws ! 1) (windows ws), current := int (tiled_idx h ws ! 1)\<rparr>
       else ws\<lparr>windows := swap_nth (tiled_idx h ws ! 0) (tiled_idx h ws ! k) (windows ws), current := int (tiled_idx h ws ! 0)\<rparr>)"
    by blast
  from k have "0 < length (tiled_idx h ws)" "1 < length (tiled_idx h ws)" by linarith+
  note b = tiled_idx_nth [OF this(1), THEN conjunct1] tiled_idx_nth [OF this(2), THEN conjunct1]
    tiled_idx_nth [OF k(2), THEN conjunct1]
  show "ws_id ws' = ws_id ws" by (simp add: ws')
  show "mset (windows ws') = mset (windows ws)" using b by (simp add: ws' mset_swap_nth)
  have "windows ws' \<noteq> []" using b by (auto simp: ws' swap_nth_def)
  with b show "cursor_ok ws'" by (auto simp: ws' cursor_ok_def swap_nth_def)
qed

lemma windows_ok_upd_ws_perm:
  assumes "nat w < length (workspaces s) \<Longrightarrow> mset (windows (f (workspaces s ! nat w))) = mset (windows (workspaces s ! nat w))"
  shows "windows_ok (upd_ws w f s) = windows_ok s"
proof -
  have m: "mset (windows (workspaces (upd_ws w f s) ! i)) = mset (windows (workspaces s ! i))"
    if "i < length (workspaces s)" for i
    using assms that by (simp add: nth_upd_ws)
  then have "located (upd_ws w f s) = located s"
    by (auto simp: located_def fun_eq_iff frame_simps dest: mset_eq_setD)
  moreover have "distinct (windows (workspaces (upd_ws w f s) ! i)) = distinct (windows (workspaces s ! i))"
    if "i < length (workspaces s)" for i
    using m [OF that] by (rule mset_eq_imp_distinct_iff)
  ultimately show ?thesis unfolding windows_ok_def frame_simps by simp
qed

lemma zoom_focused_inv [inv_intros]:
  assumes inv: "wsman_inv s"
  shows "wsman_inv (snd (zoom_focused s))"
proof (cases "ws_zoom (heap s) (current_ws s)")
  case (Some ws')
  show ?thesis
  proof (cases "current_index s")
    case None
    then show ?thesis using inv Some by (simp add: zoom_focused_def upd_current_ws_def)
  next
    case (Some w)
    then have ws: "current_ws s = workspaces s ! nat w" by (simp add: current_ws_def)
    note fr = ws_zoom_frame [OF \<open>ws_zoom (heap s) (current_ws s) = Some ws'\<close>, unfolded ws]
    from inv have ok: "windows_ok s" and st: "struct_inv s" by (simp_all add: wsman_inv_split)
    have "windows_ok (upd_ws w (\<lambda>_. ws') s)" using ok fr(2) by (subst windows_ok_upd_ws_perm) auto
    moreover have "struct_inv (upd_ws w (\<lambda>_. ws') s)"
      using st fr(1,3) current_index_valid [OF Some]
      by (auto simp: struct_inv_def sizes_ok_def ids_ok_def pools_ok_def cursors_ok_def focus_ok_def
          factory_ok_def frame_simps nth_upd_ws is_ws_valid_def)
    ultimately show ?thesis
      using Some \<open>ws_zoom (heap s) (current_ws s) = Some ws'\<close>
      by (simp add: zoom_focused_def upd_current_ws_def wsman_inv_split)
  qed
qed (use inv in \<open>simp add: zoom_focused_def\<close>)

lemma zoom_focused_synced: "synced s \<Longrightarrow> synced (snd (zoom_focused s))"
  by (auto simp: zoom_focused_def split: option.splits)

lemma set_focused_monitor_inv [inv_intros]: "wsman_inv s \<Longrightarrow> wsman_inv (set_focused_monitor m s)"
  by (simp add: set_focused_monitor_def wsman_inv_focused_monitor)

lemma synced_focused_monitor [simp]: "synced (s\<lparr>focused_monitor := m\<rparr>) = synced s"
  by (simp add: synced_def active_ws_of_monitor_def Let_def)

lemma switch_local_index_inv [inv_intros]: "wsman_inv s \<Longrightarrow> wsman_inv (snd (switch_local_index m li s))"
  by (simp add: switch_local_index_def wsman_inv_active_local)

lemma switch_local_index_synced: "synced s \<Longrightarrow> synced (snd (switch_local_index m li s))"
  by (simp add: switch_local_index_def)

lemma focus_monitor_at_point_inv [inv_intros]: "wsman_inv s \<Longrightarrow> wsman_inv (snd (focus_monitor_at_point x y s))"
  unfolding focus_monitor_at_point_def monitor_at_physical_point_def Let_def
  by (auto split: option.splits dest!: find_index_SomeD intro!: wsman_inv_focused_monitor
      simp: is_mon_valid_def NO_MONITOR_def)

end
