(* ===== verification/Wsman_Monitors.thy ===== *)
theory Wsman_Monitors
  imports Wsman_Windows
begin

text \<open>
  Preservation of the manager's invariant by the operations on the assignment of workspaces to
  monitors: pool rebuilding, \<^const>\<open>assign_workspaces\<close>, \<^const>\<open>set_monitors\<close>, \<^const>\<open>switch_to\<close> and
  the reload of the workspace definitions. The pool loops are first given a closed form
  (\<open>rebuild_pool\<close>): the workspaces a monitor owns, in seed order, then the ones the seed does not
  mention, in index order.
\<close>

section \<open>Rebuilding the pools\<close>

definition pool_of :: "wsman \<Rightarrow> int list list \<Rightarrow> nat \<Rightarrow> int list" where
  "pool_of s seed m =
     add_new [] (filter (owned s (int m))
       ((if m < length seed then seed ! m else []) @ map int [0..<length (workspaces s)]))"

definition entries :: "wsman \<Rightarrow> (int \<times> int) list \<Rightarrow> nat \<Rightarrow> int list" where
  "entries s L m = map snd (filter (\<lambda>(k, w). k = int m \<and> owned s k w) L)"

lemma entries_append: "entries s (xs @ ys) m = entries s xs m @ entries s ys m"
  by (simp add: entries_def)

lemma entries_single: "entries s [(k, w)] m = (if k = int m \<and> owned s k w then [w] else [])"
  by (auto simp: entries_def)

lemma append_if_owned_fold:
  "fold (\<lambda>(m, w). append_if_owned s m w) L
     (replicate (length (monitors s)) [], replicate (length (workspaces s)) False) =
   (map (\<lambda>m. add_new [] (entries s L m)) [0..<length (monitors s)],
    map (\<lambda>w. \<exists>m<length (monitors s). int w \<in> set (entries s L m)) [0..<length (workspaces s)])"
proof (induction L rule: rev_induct)
  case Nil
  then show ?case by (simp add: entries_def map_replicate_const)
next
  case (snoc x L)
  obtain k w where x: "x = (k, w)" by (cases x)
  let ?pools = "\<lambda>L. map (\<lambda>m. add_new [] (entries s L m)) [0..<length (monitors s)]"
  let ?placed = "\<lambda>L. map (\<lambda>w. \<exists>m<length (monitors s). int w \<in> set (entries s L m)) [0..<length (workspaces s)]"
  have mem: "w \<in> set (entries s L m) \<Longrightarrow> owned s (int m) w" for m by (auto simp: entries_def)
  have "append_if_owned s k w (?pools L, ?placed L) = (?pools (L @ [(k, w)]), ?placed (L @ [(k, w)]))"
  proof (cases "is_mon_valid s k \<and> owned s k w")
    case False
    then have "entries s (L @ [(k, w)]) m = entries s L m" if "m < length (monitors s)" for m
      using that by (auto simp: entries_append entries_single is_mon_valid_def)
    moreover have "append_if_owned s k w (?pools L, ?placed L) = (?pools L, ?placed L)"
      using False by (auto simp: append_if_owned_def owned_def)
    ultimately show ?thesis by (auto cong: map_cong)
  next
    case True
    then have k: "0 \<le> k" "nat k < length (monitors s)" and w: "0 \<le> w" "nat w < length (workspaces s)"
      by (auto simp: is_mon_valid_def owned_def is_ws_valid_def)
    have placed: "?placed L ! nat w \<longleftrightarrow> w \<in> set (entries s L (nat k))"
      using True k w mem by (auto simp: owned_def)
    have e: "entries s (L @ [(k, w)]) m = (if m = nat k then entries s L m @ [w] else entries s L m)" for m
      using True k by (auto simp: entries_append entries_single)
    have p: "?placed (L @ [(k, w)]) = map (\<lambda>v. int v = w \<or> (\<exists>m<length (monitors s). int v \<in> set (entries s L m)))
      [0..<length (workspaces s)]"
      using k by (intro map_cong refl) (force simp: e)
    show ?thesis
    proof (cases "w \<in> set (entries s L (nat k))")
      case wp: True
      have "?pools (L @ [(k, w)]) = ?pools L" using wp by (auto simp: e add_new_append)
      moreover have "?placed (L @ [(k, w)]) = ?placed L" unfolding p using wp k by auto
      moreover have "append_if_owned s k w (?pools L, ?placed L) = (?pools L, ?placed L)"
        using True placed wp by (auto simp: append_if_owned_def owned_def)
      ultimately show ?thesis by simp
    next
      case wn: False
      have "append_if_owned s k w (?pools L, ?placed L) =
        ((?pools L)[nat k := ?pools L ! nat k @ [w]], (?placed L)[nat w := True])"
        using True placed wn by (auto simp: append_if_owned_def owned_def)
      moreover have "(?pools L)[nat k := ?pools L ! nat k @ [w]] = ?pools (L @ [(k, w)])"
        using wn k by (intro nth_equalityI) (auto simp: e add_new_append nth_list_update)
      moreover have "(?placed L)[nat w := True] = ?placed (L @ [(k, w)])"
        unfolding p using k w by (intro nth_equalityI) (auto simp: nth_list_update)
      ultimately show ?thesis by simp
    qed
  qed
  with snoc.IH show ?case by (simp add: x)
qed

lemma concat_map_single:
  assumes "\<And>k. k < n \<Longrightarrow> k \<noteq> m \<Longrightarrow> f k = []"
  shows "concat (map f [0..<n]) = (if m < n then f m else [])"
  using assms
proof (induction n)
  case (Suc n)
  have "concat (map f [0..<n]) = (if m < n then f m else [])" by (rule Suc.IH) (simp add: Suc.prems)
  moreover have "f n = []" if "n \<noteq> m" by (rule Suc.prems) (use that in auto)
  ultimately show ?case by (cases "n = m") auto
qed simp

lemma entries_seed:
  assumes m: "m < length (monitors s)"
  shows "entries s (seed_appends s seed) m = (if m < length seed then filter (owned s (int m)) (seed ! m) else [])"
proof -
  have 1: "map snd (filter (\<lambda>(k, w). k = int m \<and> owned s k w) (map (\<lambda>w. (int k, w)) xs)) =
    (if k = m then filter (owned s (int m)) xs else [])" for k xs
    by (auto simp: filter_map comp_def)
  have "entries s (seed_appends s seed) m =
    concat (map (\<lambda>k. if k = m then filter (owned s (int m)) (seed ! k) else [])
      [0..<min (length seed) (length (monitors s))])"
    by (simp add: entries_def seed_appends_def filter_concat map_concat comp_def 1)
  also have "\<dots> = (if m < min (length seed) (length (monitors s)) then filter (owned s (int m)) (seed ! m) else [])"
    by (subst concat_map_single [of _ m]) auto
  finally show ?thesis using m by simp
qed

lemma entries_owner:
  assumes m: "m < length (monitors s)"
  shows "entries s (owner_appends s) m = filter (owned s (int m)) (map int [0..<length (workspaces s)])"
proof -
  have "monitor_of s (int w) = int m \<and> owned s (monitor_of s (int w)) (int w) \<longleftrightarrow> owned s (int m) (int w)"
    if "w < length (workspaces s)" for w
    using m that by (auto simp: monitor_of_def owned_def is_ws_valid_def is_mon_valid_def NO_MONITOR_def)
  then have "filter (\<lambda>w. monitor_of s (int w) = int m \<and> owned s (monitor_of s (int w)) (int w)) [0..<length (workspaces s)] =
    filter (\<lambda>w. owned s (int m) (int w)) [0..<length (workspaces s)]"
    by (intro filter_cong) auto
  then show ?thesis by (simp add: entries_def owner_appends_def filter_map comp_def)
qed

definition local_of :: "int list \<Rightarrow> int list \<Rightarrow> nat \<Rightarrow> int" where
  "local_of pool preferred m =
     (if pool = [] then - 1
      else let li = index_of_ws_in_pool pool (if m < length preferred then preferred ! m else - 1)
           in if li \<ge> 0 then li else 0)"

lemma rebuild_pools_eq:
  "rebuild_pools_from_owner seed preferred s =
   s\<lparr>monitor_pools := map (pool_of s seed) [0..<length (monitors s)],
     monitor_active_local := map (\<lambda>m. local_of (pool_of s seed m) preferred m) [0..<length (monitors s)]\<rparr>"
proof -
  have "add_new [] (entries s (seed_appends s seed @ owner_appends s) m) = pool_of s seed m"
    if "m < length (monitors s)" for m
    using that by (simp add: entries_append entries_seed entries_owner pool_of_def)
  then show ?thesis
    unfolding rebuild_pools_from_owner_def Let_def append_if_owned_fold
    by (simp add: local_of_def Let_def cong: map_cong)
qed

lemma set_pool_of: "set (pool_of s seed m) = {w. owned s (int m) w}"
proof -
  have "w \<in> int ` {0..<length (workspaces s)}" if "owned s (int m) w" for w
    using that by (intro image_eqI [of _ _ "nat w"]) (auto simp: owned_def is_ws_valid_def)
  then show ?thesis by (auto simp: pool_of_def)
qed

lemma distinct_pool_of: "distinct (pool_of s seed m)"
  by (simp add: pool_of_def distinct_add_new)

section \<open>The part of the invariant that does not mention monitors\<close>

definition base_inv :: "wsman \<Rightarrow> bool" where
  "base_inv s \<longleftrightarrow> ids_ok s \<and> windows_ok s \<and> cursors_ok s \<and> factory_ok s"

definition owners_ok :: "wsman \<Rightarrow> bool" where
  "owners_ok s \<longleftrightarrow> length (ws_owner s) = length (workspaces s) \<and>
     (\<forall>w<length (ws_owner s). ws_owner s ! w = - 1 \<or> is_mon_valid s (ws_owner s ! w))"

definition assigned_inv :: "wsman \<Rightarrow> bool" where
  "assigned_inv s \<longleftrightarrow> base_inv s \<and> sizes_ok s \<and> pools_ok s"

lemma wsman_inv_assigned: "wsman_inv s \<longleftrightarrow> assigned_inv s \<and> focus_ok s"
  by (auto simp: wsman_inv_def assigned_inv_def base_inv_def)

lemma base_inv_frame [simp]:
  "base_inv (s\<lparr>monitors := a\<rparr>) = base_inv s" "base_inv (s\<lparr>ws_owner := b\<rparr>) = base_inv s"
  "base_inv (s\<lparr>monitor_pools := c\<rparr>) = base_inv s" "base_inv (s\<lparr>monitor_active_local := d\<rparr>) = base_inv s"
  "base_inv (s\<lparr>parked_pools := e\<rparr>) = base_inv s" "base_inv (s\<lparr>parked_active_ws := f\<rparr>) = base_inv s"
  "base_inv (s\<lparr>focused_monitor := g\<rparr>) = base_inv s"
  by (simp_all add: base_inv_def ids_ok_def windows_ok_def cursors_ok_def factory_ok_def located_def)

lemma wsman_inv_owners: "wsman_inv s \<Longrightarrow> base_inv s \<and> owners_ok s"
  by (simp add: wsman_inv_def base_inv_def owners_ok_def sizes_ok_def pools_ok_def)

lemma assigned_inv_focus [simp]: "assigned_inv (s\<lparr>focused_monitor := m\<rparr>) = assigned_inv s"
  by (simp add: assigned_inv_def sizes_ok_def pools_ok_def owned_def is_ws_valid_def is_mon_valid_def)

lemma rebuild_assigned:
  assumes "base_inv s" "owners_ok s"
  shows "assigned_inv (rebuild_pools_from_owner seed preferred s)"
proof -
  let ?r = "rebuild_pools_from_owner seed preferred s"
  have o: "owned ?r = owned s" "is_mon_valid ?r = is_mon_valid s"
    by (simp_all add: rebuild_pools_eq owned_def is_ws_valid_def is_mon_valid_def fun_eq_iff)
  have "pools_ok ?r"
    using assms(2) unfolding pools_ok_def o
    by (simp add: rebuild_pools_eq owners_ok_def set_pool_of distinct_pool_of)
  then show ?thesis
    using assms by (simp add: assigned_inv_def rebuild_pools_eq sizes_ok_def owners_ok_def)
qed

lemma index_of_ws_in_pool_nonneg: "index_of_ws_in_pool pool w \<ge> 0 \<longleftrightarrow> w \<in> set pool"
  by (auto simp: index_of_ws_in_pool_def find_index_None_iff dest: find_index_SomeD split: option.splits)

lemma index_of_ws_in_pool_bounds:
  "w \<in> set pool \<Longrightarrow> index_of_ws_in_pool pool w < int (length pool) \<and> pool ! nat (index_of_ws_in_pool pool w) = w"
  by (auto simp: index_of_ws_in_pool_def find_index_None_iff dest: find_index_SomeD split: option.splits)

lemma rebuild_active:
  assumes "m < length (monitors s)"
  shows "active_ws_of_monitor (rebuild_pools_from_owner seed preferred s) (int m) =
    (let pool = pool_of s seed m; pref = (if m < length preferred then preferred ! m else - 1)
     in if pool = [] then - 1 else if pref \<in> set pool then pref else hd pool)"
proof -
  let ?pool = "pool_of s seed m" and ?pref = "if m < length preferred then preferred ! m else - 1"
  have "local_of ?pool preferred m =
    (if ?pool = [] then - 1 else if ?pref \<in> set ?pool then index_of_ws_in_pool ?pool ?pref else 0)"
    using index_of_ws_in_pool_nonneg [of ?pool ?pref] by (simp add: local_of_def Let_def)
  then show ?thesis
    using assms index_of_ws_in_pool_bounds [of ?pref ?pool] index_of_ws_in_pool_nonneg [of ?pool ?pref]
    by (auto simp: active_ws_of_monitor_def rebuild_pools_eq NO_WORKSPACE_def Let_def hd_conv_nth)
qed

section \<open>Choosing the focused monitor\<close>

lemma select_eq: "\<exists>m. select_valid_focused_monitor s = s\<lparr>focused_monitor := m\<rparr>"
proof -
  have "\<exists>m. s = s\<lparr>focused_monitor := m\<rparr>" by (metis wsman.surjective wsman.update_convs(11))
  then show ?thesis by (auto simp: select_valid_focused_monitor_def Let_def split: option.splits)
qed

lemma select_focus_ok: "focus_ok (select_valid_focused_monitor s)"
  by (auto simp: select_valid_focused_monitor_def focus_ok_def is_mon_valid_def Let_def find_Some_iff
      split: option.splits)

lemma select_inv: "assigned_inv s \<Longrightarrow> wsman_inv (select_valid_focused_monitor s)"
  using select_eq [of s] select_focus_ok [of s] by (auto simp: wsman_inv_assigned)

lemma select_frame [frame_simps]:
  "monitors (select_valid_focused_monitor s) = monitors s"
  "workspaces (select_valid_focused_monitor s) = workspaces s"
  "ws_owner (select_valid_focused_monitor s) = ws_owner s"
  "monitor_pools (select_valid_focused_monitor s) = monitor_pools s"
  "monitor_active_local (select_valid_focused_monitor s) = monitor_active_local s"
  "parked_pools (select_valid_focused_monitor s) = parked_pools s"
  "parked_active_ws (select_valid_focused_monitor s) = parked_active_ws s"
  "heap (select_valid_focused_monitor s) = heap s"
  "window_index (select_valid_focused_monitor s) = window_index s"
  "window_workspace (select_valid_focused_monitor s) = window_workspace s"
  "active_ws_of_monitor (select_valid_focused_monitor s) = active_ws_of_monitor s"
  using select_eq [of s] by (auto simp: active_ws_of_monitor_def Let_def fun_eq_iff)

section \<open>Assigning workspaces to monitors\<close>

lemma length_round_robin [simp]: "length (round_robin n rr os) = length os"
  by (induction os arbitrary: rr) auto

lemma round_robin_valid:
  assumes "0 \<le> rr" "rr < n" "\<forall>o'\<in>set os. o' = - 1 \<or> (0 \<le> o' \<and> o' < n)"
  shows "\<forall>o'\<in>set (round_robin n rr os). 0 \<le> o' \<and> o' < n"
  using assms
proof (induction os arbitrary: rr)
  case (Cons o' os)
  have os: "\<forall>o'\<in>set os. o' = - 1 \<or> (0 \<le> o' \<and> o' < n)" using Cons.prems(3) by simp
  have "0 \<le> (rr + 1) smod n" "(rr + 1) smod n < n" using Cons.prems by (simp_all add: smod_int_nonneg)
  note ih = Cons.IH [OF this os] Cons.IH [OF Cons.prems(1,2) os]
  show ?case
  proof (cases "o' = - 1")
    case True
    with ih(1) Cons.prems(1,2) show ?thesis by simp
  next
    case False
    moreover from False Cons.prems(3) have "0 \<le> o' \<and> o' < n" by simp
    ultimately show ?thesis using ih(2) by simp
  qed
qed simp

lemma round_robin_keeps: "i < length os \<Longrightarrow> os ! i \<noteq> - 1 \<Longrightarrow> round_robin n rr os ! i = os ! i"
proof (induction os arbitrary: i rr)
  case (Cons o' os)
  then show ?case by (cases i) simp_all
qed simp

lemma monitor_index_by_name_valid:
  "monitor_index_by_name s n \<ge> 0 \<Longrightarrow> is_mon_valid s (monitor_index_by_name s n)"
  by (auto simp: monitor_index_by_name_def is_mon_valid_def NO_MONITOR_def dest: find_index_SomeD
      split: option.splits)

lemma resolve_alias_valid:
  "resolve_alias_monitor s a aliases \<ge> 0 \<Longrightarrow> is_mon_valid s (resolve_alias_monitor s a aliases)"
  by (auto simp: resolve_alias_monitor_def monitor_index_by_name_valid split: option.splits)

lemma primary_monitor_valid:
  "monitors s \<noteq> [] \<Longrightarrow> is_mon_valid s (primary_monitor_index s aliases compose)"
  using resolve_alias_valid [of s "primary compose" aliases]
  by (auto simp: primary_monitor_index_def Let_def is_mon_valid_def)

text \<open>The owner every workspace is given when there is a monitor.\<close>

definition assigned_owner :: "monitor_alias list \<Rightarrow> monitor_compose \<Rightarrow> wsman \<Rightarrow> int list" where
  "assigned_owner aliases compose s =
     round_robin (int (length (monitors s))) (primary_monitor_index s aliases compose)
       (map (\<lambda>i. let o' = ws_owner s ! i; a = ws_monitor_alias (workspaces s ! i);
                     t = resolve_alias_monitor s a aliases
                 in if a \<noteq> [] \<and> t \<ge> 0 then t else if is_mon_valid s o' then o' else - 1)
         [0..<length (workspaces s)])"

lemma assign_workspaces_eq:
  assumes own: "length (ws_owner s) = length (workspaces s)" and ne: "monitors s \<noteq> []"
  shows "assign_workspaces aliases compose s =
    sync_monitors_active_ws (select_valid_focused_monitor (rebuild_pools_from_owner (monitor_pools s)
      (map (\<lambda>m. active_ws_of_monitor s (int m)) [0..<length (monitors s)])
      (s\<lparr>ws_owner := assigned_owner aliases compose s\<rparr>)))"
proof -
  define s1 where "s1 = assign_aliases aliases (sanitise_owner s)"
  have res: "resolve_alias_monitor (s\<lparr>ws_owner := x\<rparr>) = resolve_alias_monitor s"
    "primary_monitor_index (s\<lparr>ws_owner := x\<rparr>) = primary_monitor_index s"
    "is_mon_valid (s\<lparr>ws_owner := x\<rparr>) = is_mon_valid s"
    "active_ws_of_monitor (s\<lparr>ws_owner := x\<rparr>) = active_ws_of_monitor s" for x
    by (simp_all add: fun_eq_iff resolve_alias_monitor_def monitor_index_by_name_def
        primary_monitor_index_def is_mon_valid_def active_ws_of_monitor_def Let_def split: option.splits)
  have "s1 = s\<lparr>ws_owner := map (\<lambda>i. let o' = ws_owner s ! i; a = ws_monitor_alias (workspaces s ! i);
                     t = resolve_alias_monitor s a aliases
                 in if a \<noteq> [] \<and> t \<ge> 0 then t else if is_mon_valid s o' then o' else - 1)
         [0..<length (workspaces s)]\<rparr>"
    using own unfolding s1_def assign_aliases_def sanitise_owner_def
    by (auto simp: res Let_def nth_map)
  then show ?thesis
    using own ne primary_monitor_valid [OF ne, of aliases compose]
    by (simp add: assign_workspaces_def s1_def [symmetric] assigned_owner_def res Let_def is_mon_valid_def)
qed

lemma assigned_owner_valid:
  assumes "monitors s \<noteq> []"
  shows "length (assigned_owner aliases compose s) = length (workspaces s)"
    and "o' \<in> set (assigned_owner aliases compose s) \<Longrightarrow> is_mon_valid s o'"
proof -
  have "\<forall>o'\<in>set (assigned_owner aliases compose s). 0 \<le> o' \<and> o' < int (length (monitors s))"
    unfolding assigned_owner_def
    by (rule round_robin_valid)
      (use primary_monitor_valid [OF assms, of aliases compose] in
        \<open>auto simp: is_mon_valid_def Let_def dest: resolve_alias_valid [unfolded is_mon_valid_def]\<close>)
  then show "o' \<in> set (assigned_owner aliases compose s) \<Longrightarrow> is_mon_valid s o'"
    by (simp add: is_mon_valid_def)
qed (simp add: assigned_owner_def)

lemma assign_workspaces_inv [inv_intros]:
  assumes inv: "wsman_inv s"
  shows "wsman_inv (assign_workspaces aliases compose s)" and "synced (assign_workspaces aliases compose s)"
proof -
  have own: "length (ws_owner s) = length (workspaces s)" using wsman_invD(1) [OF inv] by (simp add: sizes_ok_def)
  have "wsman_inv (assign_workspaces aliases compose s) \<and> synced (assign_workspaces aliases compose s)"
  proof (cases "monitors s = []")
    case True
    have "assigned_inv (s\<lparr>ws_owner := map (\<lambda>_. - 1) (ws_owner s), monitor_pools := [], monitor_active_local := []\<rparr>)"
      using wsman_inv_owners [OF inv] True own by (simp add: assigned_inv_def sizes_ok_def pools_ok_def)
    with True own inv show ?thesis
      by (simp add: assign_workspaces_def wsman_inv_assigned focus_ok_def synced_def)
  next
    case False
    let ?s = "s\<lparr>ws_owner := assigned_owner aliases compose s\<rparr>"
    have "owners_ok ?s"
      using assigned_owner_valid(1) [OF False] assigned_owner_valid(2) [OF False nth_mem]
      by (simp add: owners_ok_def is_mon_valid_def)
    moreover have "base_inv ?s" using wsman_inv_owners [OF inv] by simp
    ultimately have "wsman_inv (select_valid_focused_monitor (rebuild_pools_from_owner seed pref ?s))" for seed pref
      by (intro select_inv rebuild_assigned)
    then show ?thesis unfolding assign_workspaces_eq [OF own False] wsman_inv_sync by simp
  qed
  then show "wsman_inv (assign_workspaces aliases compose s)" and "synced (assign_workspaces aliases compose s)"
    by auto
qed

section \<open>Switching workspaces\<close>

lemma switch_target_valid: "monitors s \<noteq> [] \<Longrightarrow> is_mon_valid s (switch_target w aliases hint compose s)"
  by (auto simp: switch_target_def Let_def is_mon_valid_def)

lemma monitor_of_owned:
  assumes "sizes_ok s" "pools_ok s" "is_ws_valid s w"
  shows "monitor_of s w = ws_owner s ! nat w"
proof -
  have "nat w < length (ws_owner s)" using assms by (auto simp: sizes_ok_def is_ws_valid_def)
  then have "ws_owner s ! nat w = - 1 \<or> is_mon_valid s (ws_owner s ! nat w)"
    using assms(2) by (simp add: pools_ok_def)
  then show ?thesis
    using assms by (auto simp: monitor_of_def sizes_ok_def is_ws_valid_def is_mon_valid_def NO_MONITOR_def)
qed

lemma pool_mem_iff:
  assumes "sizes_ok s" "pools_ok s" "is_mon_valid s m"
  shows "w \<in> set (monitor_pools s ! nat m) \<longleftrightarrow> is_ws_valid s w \<and> ws_owner s ! nat w = m"
proof -
  have "nat m < length (monitor_pools s)" using assms by (auto simp: sizes_ok_def is_mon_valid_def)
  then have "set (monitor_pools s ! nat m) = {w. owned s (int (nat m)) w}"
    using assms(2) by (simp add: pools_ok_def)
  then show ?thesis using assms by (auto simp: owned_def is_mon_valid_def is_ws_valid_def sizes_ok_def)
qed

lemma local_index_nonneg:
  assumes "sizes_ok s" "pools_ok s" "is_mon_valid s m"
  shows "local_index_of s m w \<ge> 0 \<longleftrightarrow> is_ws_valid s w \<and> ws_owner s ! nat w = m"
  using assms pool_mem_iff [OF assms, of w] index_of_ws_in_pool_nonneg [of "monitor_pools s ! nat m" w]
  by (simp add: local_index_of_def sizes_ok_def is_mon_valid_def)

text \<open>Giving an unowned workspace to a monitor: owner and pool change together.\<close>

lemma adopt_workspace_inv:
  assumes inv: "wsman_inv s" and w: "is_ws_valid s w" and free: "ws_owner s ! nat w = - 1" and t: "is_mon_valid s t"
  shows "wsman_inv (s\<lparr>ws_owner := (ws_owner s)[nat w := t],
    monitor_pools := (monitor_pools s)[nat t := monitor_pools s ! nat t @ [w]]\<rparr>)" (is "wsman_inv ?s")
proof -
  from inv have sz: "sizes_ok s" and pk: "pools_ok s" and fo: "focus_ok s" by (simp_all add: wsman_inv_def)
  have lw: "nat w < length (ws_owner s)" "0 \<le> w" using w sz by (auto simp: sizes_ok_def is_ws_valid_def)
  have lt: "nat t < length (monitor_pools s)" "0 \<le> t" using t sz by (auto simp: sizes_ok_def is_mon_valid_def)
  have own: "owned ?s m v \<longleftrightarrow> (if v = w then m = t else owned s m v)" for m v
    using w lw by (auto simp: owned_def is_ws_valid_def nth_list_update)
  have mem: "set (monitor_pools s ! m) = {v. owned s (int m) v}" "distinct (monitor_pools s ! m)"
    if "m < length (monitor_pools s)" for m
    using pk that by (auto simp: pools_ok_def)
  have new: "\<not> owned s (int m) w" for m using free by (simp add: owned_def)
  have "distinct (monitor_pools ?s ! m) \<and> set (monitor_pools ?s ! m) = {v. owned ?s (int m) v}"
    if "m < length (monitor_pools s)" for m
    using mem [OF that] new lt that unfolding own by (auto simp: nth_list_update)
  moreover have "\<forall>v<length (ws_owner ?s). ws_owner ?s ! v = - 1 \<or> is_mon_valid ?s (ws_owner ?s ! v)"
    using pk t lw by (simp add: pools_ok_def nth_list_update is_mon_valid_def)
  ultimately have "pools_ok ?s" by (simp add: pools_ok_def)
  then show ?thesis
    using wsman_inv_owners [OF inv] sz fo by (simp add: wsman_inv_assigned assigned_inv_def sizes_ok_def focus_ok_def)
qed

lemma switch_to_inv [inv_intros]:
  assumes inv: "wsman_inv s"
  shows "wsman_inv (snd (switch_to w aliases hint compose s))"
proof (cases "is_ws_valid s w \<and> monitors s \<noteq> []")
  case True
  from inv have sz: "sizes_ok s" and pk: "pools_ok s" by (simp_all add: wsman_inv_def)
  have mo: "monitor_of s w = ws_owner s ! nat w" using monitor_of_owned [OF sz pk] True by simp
  show ?thesis
  proof (cases "monitor_of s w < 0")
    case neg: True
    let ?t = "switch_target w aliases hint compose s"
    have t: "is_mon_valid s ?t" using switch_target_valid True by blast
    have free: "ws_owner s ! nat w = - 1"
      using neg mo by (auto simp: monitor_of_def is_mon_valid_def NO_MONITOR_def split: if_splits)
    have li: "local_index_of (s\<lparr>ws_owner := x\<rparr>) ?t w = local_index_of s ?t w" for x
      by (simp add: local_index_of_def)
    have "local_index_of s ?t w < 0"
      using local_index_nonneg [OF sz pk t, of w] free t by (auto simp: is_mon_valid_def)
    then show ?thesis
      using True neg wsman_inv_active_local [OF adopt_workspace_inv [OF inv _ free t]]
      by (simp add: switch_to_def Let_def li)
  next
    case False
    then have "is_mon_valid s (monitor_of s w)" by (simp add: monitor_of_valid)
    with mo have "\<not> local_index_of s (monitor_of s w) w < 0"
      using local_index_nonneg [OF sz pk, of "monitor_of s w" w] True by simp
    with False True wsman_inv_active_local [OF inv] show ?thesis by (simp add: switch_to_def Let_def)
  qed
qed (use inv in \<open>auto simp: switch_to_def\<close>)

lemma switch_to_synced: "synced s \<Longrightarrow> synced (snd (switch_to w aliases hint compose s))"
  by (simp add: switch_to_def Let_def)

text \<open>After a successful switch the workspace is the active one of the monitor that owns it.\<close>

lemma switch_to_active:
  assumes inv: "wsman_inv s" and ok: "fst (switch_to w aliases hint compose s)"
  defines "s' \<equiv> snd (switch_to w aliases hint compose s)"
  shows "is_mon_valid s' (monitor_of s' w) \<and> active_ws_of_monitor s' (monitor_of s' w) = w"
proof -
  from ok have w: "is_ws_valid s w" and ne: "monitors s \<noteq> []" by (auto simp: switch_to_def split: if_splits)
  from inv have sz: "sizes_ok s" and pk: "pools_ok s" by (simp_all add: wsman_inv_def)
  have mo: "monitor_of s w = ws_owner s ! nat w" using monitor_of_owned [OF sz pk w] .
  show ?thesis
  proof (cases "monitor_of s w < 0")
    case neg: True
    let ?t = "switch_target w aliases hint compose s"
    have t: "is_mon_valid s ?t" by (rule switch_target_valid [OF ne])
    have free: "ws_owner s ! nat w = - 1"
      using neg mo by (auto simp: monitor_of_def is_mon_valid_def NO_MONITOR_def split: if_splits)
    have "local_index_of s ?t w < 0"
      using local_index_nonneg [OF sz pk t, of w] free t by (auto simp: is_mon_valid_def)
    then have "s' = sync_monitors_active_ws (s\<lparr>ws_owner := (ws_owner s)[nat w := ?t],
        monitor_pools := (monitor_pools s)[nat ?t := monitor_pools s ! nat ?t @ [w]],
        monitor_active_local := (monitor_active_local s)[nat ?t := int (length (monitor_pools s ! nat ?t))]\<rparr>)"
      using w ne neg t sz unfolding s'_def
      by (simp add: switch_to_def Let_def local_index_of_def is_mon_valid_def sizes_ok_def nat_less_iff)
    with w t sz show ?thesis
      by (auto simp: frame_simps monitor_of_def is_ws_valid_def is_mon_valid_def sizes_ok_def
          active_ws_of_monitor_def Let_def nth_append nat_less_iff)
  next
    case False
    let ?m = "monitor_of s w" and ?li = "local_index_of s (monitor_of s w) w"
    from False have m: "is_mon_valid s ?m" by (simp add: monitor_of_valid)
    with mo have li: "?li \<ge> 0" using local_index_nonneg [OF sz pk, of ?m w] w by simp
    then have mem: "w \<in> set (monitor_pools s ! nat ?m)"
      using m sz by (simp add: local_index_of_def is_mon_valid_def sizes_ok_def index_of_ws_in_pool_nonneg)
    from index_of_ws_in_pool_bounds [OF mem] m sz
    have "?li < int (length (monitor_pools s ! nat ?m))" "monitor_pools s ! nat ?m ! nat ?li = w"
      by (simp_all add: local_index_of_def is_mon_valid_def sizes_ok_def)
    moreover have "s' = sync_monitors_active_ws (s\<lparr>monitor_active_local := (monitor_active_local s)[nat ?m := ?li]\<rparr>)"
      using w ne False li unfolding s'_def by (simp add: switch_to_def Let_def)
    moreover have "monitor_of (sync_monitors_active_ws (s\<lparr>monitor_active_local := x\<rparr>)) w = monitor_of s w" for x
      by (simp add: monitor_of_def frame_simps is_ws_valid_def is_mon_valid_def)
    ultimately show ?thesis using m li sz
      by (auto simp: frame_simps is_mon_valid_def sizes_ok_def active_ws_of_monitor_def Let_def nat_less_iff)
  qed
qed

section \<open>Changing the set of monitors\<close>

lemma park_fold: "\<exists>pp pa. fold (park_monitor old mons) is s = s\<lparr>parked_pools := pp, parked_active_ws := pa\<rparr>"
proof (induction "is" rule: rev_induct)
  case Nil
  show ?case by (rule exI [of _ "parked_pools s"], rule exI [of _ "parked_active_ws s"]) simp
next
  case (snoc i "is")
  then obtain pp pa where "fold (park_monitor old mons) is s = s\<lparr>parked_pools := pp, parked_active_ws := pa\<rparr>"
    by blast
  moreover have "\<exists>pp pa. park_monitor old mons i (s\<lparr>parked_pools := a, parked_active_ws := b\<rparr>) =
    s\<lparr>parked_pools := pp, parked_active_ws := pa\<rparr>" for a b
    by (cases "mon_name (monitors old ! i) \<in> set (map mon_name mons)") (auto simp: park_monitor_def Let_def)
  ultimately show ?case by simp
qed

definition owner_list_ok :: "nat \<Rightarrow> nat \<Rightarrow> int list \<Rightarrow> bool" where
  "owner_list_ok nw nm own \<longleftrightarrow> length own = nw \<and> (\<forall>o'\<in>set own. o' = - 1 \<or> (0 \<le> o' \<and> o' < int nm))"

lemma owner_list_ok_upd:
  "owner_list_ok nw nm own \<Longrightarrow> i < nm \<Longrightarrow> owner_list_ok nw nm (own[k := int i])"
  using set_update_subset_insert [of own k "int i"] by (auto simp: owner_list_ok_def)

lemma owner_list_ok_carried: "owner_list_ok (length (workspaces s)) (length mons) (carried_owner s mons)"
  by (auto simp: owner_list_ok_def carried_owner_def Let_def dest: find_index_SomeD split: option.splits if_splits)

definition seed_owner :: "seed_state \<Rightarrow> int list" where
  "seed_owner st = fst (snd (snd st))"

lemma owner_list_ok_claim:
  assumes "owner_list_ok nw nm own" "i < nm"
  shows "owner_list_ok nw nm (fold (\<lambda>w own. if is_ws_valid s w then own[nat w := int i] else own) pool own)"
  using assms(1) by (induction pool arbitrary: own) (auto simp: owner_list_ok_upd assms(2))

lemma owner_list_ok_seed:
  assumes "owner_list_ok nw (length mons) (seed_owner st)" "i < length mons"
  shows "owner_list_ok nw (length mons) (seed_owner (seed_monitor s mons i st))"
  using assms owner_list_ok_claim [OF assms]
  by (cases st) (auto simp: seed_monitor_def seed_owner_def Let_def split: option.splits)

lemma owner_list_ok_seeds:
  assumes "owner_list_ok nw (length mons) (seed_owner st)" "\<forall>i\<in>set is. i < length mons"
  shows "owner_list_ok nw (length mons) (seed_owner (fold (seed_monitor s mons) is st))"
  using assms by (induction "is" arbitrary: st) (auto simp: owner_list_ok_seed)

text \<open>
  \<open>retopology\<close> is the state of \<^const>\<open>set_monitors\<close> before the pools are rebuilt, with the seed and the
  preferred workspaces.
\<close>

definition parked_state :: "monitor list \<Rightarrow> wsman \<Rightarrow> wsman" where
  "parked_state mons s = fold (park_monitor s mons) [0..<length (monitors s)] s"

definition seeded :: "monitor list \<Rightarrow> wsman \<Rightarrow> seed_state" where
  "seeded mons s =
     fold (seed_monitor s mons) [0..<length mons]
       (parked_pools (parked_state mons s), parked_active_ws (parked_state mons s), carried_owner s mons,
        replicate (length mons) [], replicate (length mons) (- 1))"

definition retopology :: "monitor list \<Rightarrow> wsman \<Rightarrow> wsman" where
  "retopology mons s =
     (parked_state mons s)\<lparr>monitors := mons, parked_pools := fst (seeded mons s),
        parked_active_ws := fst (snd (seeded mons s)), ws_owner := seed_owner (seeded mons s)\<rparr>"

definition seed_pools :: "monitor list \<Rightarrow> wsman \<Rightarrow> int list list" where
  "seed_pools mons s = fst (snd (snd (snd (seeded mons s))))"

definition seed_preferred :: "monitor list \<Rightarrow> wsman \<Rightarrow> int list" where
  "seed_preferred mons s = snd (snd (snd (snd (seeded mons s))))"

lemma set_monitors_eq:
  "\<exists>f. set_monitors mons s = sync_monitors_active_ws (select_valid_focused_monitor
     ((rebuild_pools_from_owner (seed_pools mons s) (seed_preferred mons s) (retopology mons s))
        \<lparr>focused_monitor := f\<rparr>))"
proof -
  let ?r = "rebuild_pools_from_owner (seed_pools mons s) (seed_preferred mons s) (retopology mons s)"
  have same: "\<exists>f. ?r = ?r\<lparr>focused_monitor := f\<rparr>" by (metis wsman.surjective wsman.update_convs(11))
  let ?f = "monitor_index_by_name ?r
    (if 0 \<le> focused_monitor s \<and> focused_monitor s < int (length (monitors s))
     then mon_name (monitors s ! nat (focused_monitor s)) else [])"
  have "set_monitors mons s = sync_monitors_active_ws (select_valid_focused_monitor
     (if ?f \<ge> 0 then ?r\<lparr>focused_monitor := ?f\<rparr>
      else if focused_monitor ?r \<ge> int (length (monitors ?r)) then ?r\<lparr>focused_monitor := 0\<rparr> else ?r))"
    by (simp only: set_monitors_def Let_def parked_state_def [symmetric] seeded_def [symmetric]
        retopology_def seed_owner_def seed_pools_def seed_preferred_def case_prod_unfold)
  moreover obtain f where "(if ?f \<ge> 0 then ?r\<lparr>focused_monitor := ?f\<rparr>
      else if focused_monitor ?r \<ge> int (length (monitors ?r)) then ?r\<lparr>focused_monitor := 0\<rparr> else ?r) =
      ?r\<lparr>focused_monitor := f\<rparr>"
    using same by (metis (mono_tags))
  ultimately show ?thesis by (intro exI [of _ f]) (simp only:)
qed

lemma retopology_inv:
  assumes "wsman_inv s"
  shows "base_inv (retopology mons s)" "owners_ok (retopology mons s)"
proof -
  obtain pp pa where p: "parked_state mons s = s\<lparr>parked_pools := pp, parked_active_ws := pa\<rparr>"
    unfolding parked_state_def using park_fold by blast
  show "base_inv (retopology mons s)" using wsman_inv_owners [OF assms] by (simp add: retopology_def p)
  have "owner_list_ok (length (workspaces s)) (length mons) (seed_owner (seeded mons s))"
    unfolding seeded_def by (rule owner_list_ok_seeds) (simp_all add: owner_list_ok_carried seed_owner_def)
  then show "owners_ok (retopology mons s)"
    by (simp add: owners_ok_def owner_list_ok_def retopology_def p is_mon_valid_def)
qed

lemma set_monitors_inv [inv_intros]:
  assumes inv: "wsman_inv s"
  shows "wsman_inv (set_monitors mons s)" and "synced (set_monitors mons s)"
proof -
  obtain f where f: "set_monitors mons s = sync_monitors_active_ws (select_valid_focused_monitor
     ((rebuild_pools_from_owner (seed_pools mons s) (seed_preferred mons s) (retopology mons s))
        \<lparr>focused_monitor := f\<rparr>))"
    using set_monitors_eq by blast
  show "wsman_inv (set_monitors mons s)"
    unfolding f wsman_inv_sync by (rule select_inv) (simp add: rebuild_assigned retopology_inv [OF inv])
  show "synced (set_monitors mons s)" unfolding f by simp
qed

section \<open>Initial workspaces\<close>

lemma fresh_workspaces_base:
  assumes "\<And>i. i < length wss \<Longrightarrow> ws_id (wss ! i) = int i \<and> windows (wss ! i) = [] \<and> current (wss ! i) = - 1"
    and "factory_ok s"
  shows "base_inv ((clear_window_indexes s)\<lparr>workspaces := wss\<rparr>)" (is "base_inv ?s")
proof -
  have "located ?s i p = False" for i p using assms(1) by (auto simp: located_def)
  then have "windows_ok ?s"
    using assms(1) by (intro windows_ok_intro) (auto simp: clear_window_indexes_def)
  then show ?thesis
    using assms by (simp add: base_inv_def ids_ok_def cursors_ok_def cursor_ok_def factory_ok_def clear_window_indexes_def)
qed

lemma init_from_defs_inv [inv_intros]:
  assumes inv: "wsman_inv s"
  shows "wsman_inv (init_from_defs defs aliases compose s)" and "synced (init_from_defs defs aliases compose s)"
proof -
  define wss where "wss = (if defs = []
                then map (\<lambda>i. mk_workspace (int i) (''['' @ to_string (i + 1) @ '']'') []) [0..<9]
                else map (\<lambda>i. mk_workspace (int i) (def_name (defs ! i)) (def_monitor (defs ! i)))
                       [0..<length defs])"
  define s1 where "s1 = (clear_window_indexes s)\<lparr>workspaces := wss, ws_owner := replicate (length wss) (- 1),
                 monitor_pools := replicate (length (monitors s)) [],
                 monitor_active_local := replicate (length (monitors s)) (- 1),
                 parked_pools := Map.empty, parked_active_ws := Map.empty\<rparr>"
  have "base_inv s1"
    unfolding s1_def using wsman_invD(7) [OF inv]
    by (simp, intro fresh_workspaces_base) (auto simp: wss_def mk_workspace_def split: if_splits)
  moreover have "sizes_ok s1" "pools_ok s1" "focus_ok s1"
    using wsman_invD(6) [OF inv]
    by (auto simp: s1_def sizes_ok_def pools_ok_def owned_def is_ws_valid_def clear_window_indexes_def focus_ok_def)
  ultimately have "wsman_inv s1" by (simp add: wsman_inv_assigned assigned_inv_def)
  moreover have "init_from_defs defs aliases compose s = assign_workspaces aliases compose s1"
    by (simp add: init_from_defs_def wss_def s1_def Let_def)
  ultimately show "wsman_inv (init_from_defs defs aliases compose s)" "synced (init_from_defs defs aliases compose s)"
    by (simp_all add: assign_workspaces_inv)
qed

lemma adjust_monitor_inset_inv [inv_intros]: "wsman_inv s \<Longrightarrow> wsman_inv (adjust_monitor_inset m e d s)"
  using wsman_inv_owners [of s]
  by (auto simp: adjust_monitor_inset_def wsman_inv_assigned assigned_inv_def sizes_ok_def pools_ok_def owned_def
      is_ws_valid_def is_mon_valid_def focus_ok_def)

lemma adjust_monitor_inset_synced: "synced s \<Longrightarrow> synced (adjust_monitor_inset m e d s)"
  by (auto simp: adjust_monitor_inset_def synced_def active_ws_of_monitor_def Let_def nth_list_update frame_simps)

end
