(* ===== verification/Wsman_Defs.thy ===== *)
theory Wsman_Defs
  imports Wsman_Monitors
begin

text \<open>
  \<^const>\<open>update_workspace_defs\<close>, the reload of the workspace definitions: it keeps the invariant, it
  succeeds on every non-empty list of definitions, and shrinking the list moves every window of a
  removed workspace to the workspace \<^const>\<open>fallback_for\<close> names, losing none.
\<close>

section \<open>Moving the windows of a removed workspace\<close>

definition append_windows :: "wptr list \<Rightarrow> workspace \<Rightarrow> workspace" where
  "append_windows ps ws = ws\<lparr>windows := windows ws @ ps,
     current := (if ps \<noteq> [] \<and> current ws = - 1 then 0 else current ws)\<rparr>"

lemma append_windows_fields [simp]:
  "ws_id (append_windows ps ws) = ws_id ws" "windows (append_windows ps ws) = windows ws @ ps"
  by (simp_all add: append_windows_def)

lemma cursor_ok_append: "cursor_ok ws \<Longrightarrow> cursor_ok (append_windows ps ws)"
  by (auto simp: cursor_ok_def append_windows_def split: if_splits)

lemma append_windows_Cons: "append_windows ps (ws_add_window p ws) = append_windows (p # ps) ws"
  by (simp add: append_windows_def ws_add_window_def)

definition retarget :: "wptr list \<Rightarrow> workspace_id \<Rightarrow> wsman \<Rightarrow> window_id \<Rightarrow> workspace_id option" where
  "retarget ps dst s win = (if win \<in> (\<lambda>p. win_id (heap s p)) ` set ps then Some dst else window_workspace s win)"

lemma displace_fold:
  assumes "is_ws_valid s dst"
    and "\<forall>p\<in>set ps. window_index s (win_id (heap s p)) = Some p \<and> win_id (heap s p) \<noteq> NO_WINDOW"
  shows "fold (displace_window dst) ps s =
    (upd_ws dst (append_windows ps) s)\<lparr>window_workspace := retarget ps dst s\<rparr>"
  using assms
proof (induction ps arbitrary: s)
  case Nil
  have "append_windows [] ws = ws" for ws by (simp add: append_windows_def)
  then show ?case by (simp add: upd_ws_def retarget_def)
next
  case (Cons p ps)
  have d: "displace_window dst p s =
    (upd_ws dst (ws_add_window p) s)\<lparr>window_workspace := (window_workspace s)(win_id (heap s p) \<mapsto> dst)\<rparr>"
    using Cons.prems by (simp add: displace_window_def index_window_def upd_ws_def fun_upd_idem is_ws_valid_def)
  have "fold (displace_window dst) ps (displace_window dst p s) =
    (upd_ws dst (append_windows ps) (displace_window dst p s))
      \<lparr>window_workspace := retarget ps dst (displace_window dst p s)\<rparr>"
    by (rule Cons.IH) (use Cons.prems in \<open>auto simp: d upd_ws_def is_ws_valid_def\<close>)
  moreover have "retarget ps dst (displace_window dst p s) = retarget (p # ps) dst s"
    by (auto simp: retarget_def d fun_eq_iff upd_ws_def)
  moreover have "nat dst < length (workspaces s)" using Cons.prems(1) by (auto simp: is_ws_valid_def)
  ultimately show ?case by (simp add: d upd_ws_def append_windows_Cons)
qed

lemma fallback_for_valid:
  assumes inv: "wsman_inv s" and n: "0 < n" "n \<le> length (workspaces s)"
  shows "0 \<le> fallback_for n s w" "fallback_for n s w < int n" "is_ws_valid s (fallback_for n s w)"
proof -
  have pool: "0 \<le> i" if "i \<in> set (monitor_pools s ! m)" "m < length (monitor_pools s)" for i m
    using that wsman_invD(3) [OF inv] by (auto simp: pools_ok_def owned_def is_ws_valid_def)
  have "0 \<le> i \<and> i < int n" if "find (\<lambda>i. i < int n) (monitor_pools s ! nat m) = Some i" "0 \<le> m"
    "m < int (length (monitor_pools s))" for i m
    using that pool [of i "nat m"] nth_mem by (fastforce simp: find_Some_iff)
  then show "0 \<le> fallback_for n s w" "fallback_for n s w < int n"
    using n(1) by (auto simp: fallback_for_def Let_def split: option.splits)
  then show "is_ws_valid s (fallback_for n s w)" using n(2) by (simp add: is_ws_valid_def)
qed

lemma displace_workspace_eq:
  assumes inv: "wsman_inv s" and n: "0 < n" "n \<le> w" and w: "w < length (workspaces s)"
  defines "dst \<equiv> fallback_for n s (int w)" and "ps \<equiv> windows (workspaces s ! w)"
  shows "displace_workspace n (int w) s =
    s\<lparr>workspaces := (workspaces s)[nat dst := append_windows ps (workspaces s ! nat dst),
         w := (workspaces s ! w)\<lparr>windows := [], current := - 1\<rparr>],
      window_workspace := retarget ps dst s\<rparr>"
proof -
  have "n \<le> length (workspaces s)" using n w by simp
  note dst = fallback_for_valid [OF inv n(1) this, of "int w", folded dst_def]
  from dst have ne: "nat dst \<noteq> w" using n by auto
  have "\<forall>p\<in>set ps. window_index s (win_id (heap s p)) = Some p \<and> win_id (heap s p) \<noteq> NO_WINDOW"
  proof
    fix p
    assume "p \<in> set ps"
    then have "located s w p" using w by (simp add: located_def ps_def)
    with windows_okD [OF wsman_invD(4) [OF inv] this]
    show "window_index s (win_id (heap s p)) = Some p \<and> win_id (heap s p) \<noteq> NO_WINDOW" by simp
  qed
  from displace_fold [OF dst(3) this] ne show ?thesis
    by (simp add: displace_workspace_def Let_def dst_def [symmetric] ps_def [symmetric] upd_ws_def)
qed

lemma displace_workspace_frame:
  assumes "wsman_inv s" "0 < n" "n \<le> w" "w < length (workspaces s)"
  shows "length (workspaces (displace_workspace n (int w) s)) = length (workspaces s)"
    "ws_owner (displace_workspace n (int w) s) = ws_owner s"
    "monitor_pools (displace_workspace n (int w) s) = monitor_pools s"
    "monitors (displace_workspace n (int w) s) = monitors s"
    "heap (displace_workspace n (int w) s) = heap s"
    "window_index (displace_workspace n (int w) s) = window_index s"
  unfolding displace_workspace_eq [OF assms] by simp_all

lemma displace_workspace_located:
  assumes inv: "wsman_inv s" and n: "0 < n" "n \<le> w" and w: "w < length (workspaces s)"
  shows "located (displace_workspace n (int w) s) i p \<longleftrightarrow>
    (located s i p \<and> i \<noteq> w) \<or> (int i = fallback_for n s (int w) \<and> located s w p)"
proof -
  have "n \<le> length (workspaces s)" using n w by simp
  note dst = fallback_for_valid [OF inv n(1) this, of "int w"]
  define d where "d = nat (fallback_for n s (int w))"
  with dst have d: "fallback_for n s (int w) = int d" "d \<noteq> w" "d < length (workspaces s)"
    using n by (auto simp: is_ws_valid_def)
  then show ?thesis
    unfolding displace_workspace_eq [OF assms] d(1) using w
    by (auto simp: located_def nth_list_update)
qed

lemma displace_workspace_inv:
  assumes inv: "wsman_inv s" and n: "0 < n" "n \<le> w" and w: "w < length (workspaces s)"
  shows "wsman_inv (displace_workspace n (int w) s)" (is "wsman_inv ?s")
proof -
  let ?ps = "windows (workspaces s ! w)"
  have "n \<le> length (workspaces s)" using n w by simp
  note dst = fallback_for_valid [OF inv n(1) this, of "int w"]
  define d where "d = nat (fallback_for n s (int w))"
  with dst have d: "fallback_for n s (int w) = int d" "d \<noteq> w" "d < length (workspaces s)"
    using n by (auto simp: is_ws_valid_def)
  from inv have ok: "windows_ok s" by (simp add: wsman_inv_def)
  have loc: "located ?s i p \<longleftrightarrow> (located s i p \<and> i \<noteq> w) \<or> (i = d \<and> located s w p)" for i p
    using displace_workspace_located [OF assms] d(1) by auto
  have eq: "?s = s\<lparr>workspaces := (workspaces s)[d := append_windows ?ps (workspaces s ! d),
         w := (workspaces s ! w)\<lparr>windows := [], current := - 1\<rparr>], window_workspace := retarget ?ps (int d) s\<rparr>"
    using displace_workspace_eq [OF assms] d(1) by simp
  have ps: "win \<in> (\<lambda>p. win_id (heap s p)) ` set ?ps \<longleftrightarrow> window_workspace s win = Some (int w)" for win
  proof
    assume "window_workspace s win = Some (int w)"
    from windows_ok_workspaceD [OF ok this] show "win \<in> (\<lambda>p. win_id (heap s p)) ` set ?ps"
      by (auto simp: located_def)
  next
    assume "win \<in> (\<lambda>p. win_id (heap s p)) ` set ?ps"
    then show "window_workspace s win = Some (int w)"
      using windows_okD(4) [OF ok, of w] w by (auto simp: located_def)
  qed
  have "windows_ok ?s"
  proof (rule windows_ok_intro)
    fix i p
    assume "located ?s i p"
    then have "(located s i p \<and> i \<noteq> w) \<or> (i = d \<and> located s w p)" by (simp add: loc)
    then show "p < next_ptr ?s \<and> win_id (heap ?s p) \<noteq> NO_WINDOW \<and>
        window_index ?s (win_id (heap ?s p)) = Some p \<and> window_workspace ?s (win_id (heap ?s p)) = Some (int i)"
    proof (elim disjE conjE)
      assume "located s i p" "i \<noteq> w"
      with windows_okD [OF ok this(1)] show ?thesis by (simp add: eq retarget_def ps)
    next
      assume "i = d" "located s w p"
      with windows_okD [OF ok this(2)] show ?thesis by (simp add: eq retarget_def ps)
    qed
  next
    fix i
    assume "i < length (workspaces ?s)"
    then have i: "i < length (workspaces s)" by (simp add: eq)
    have "set (windows (workspaces s ! d)) \<inter> set ?ps = {}"
      using located_unique [OF ok, of d _ w] d(2,3) w by (auto simp: located_def)
    then show "distinct (windows (workspaces ?s ! i))"
      using windows_ok_distinct [OF ok] i d(2,3) w by (auto simp: eq nth_list_update)
  next
    fix win p
    assume "window_index ?s win = Some p"
    then have "window_index s win = Some p" by (simp add: eq)
    from windows_ok_indexD [OF ok this] show "win_id (heap ?s p) = win \<and> (\<exists>i. located ?s i p)"
      unfolding loc by (auto simp: eq)
  next
    have "dom (retarget ?ps (int d) s) = dom (window_workspace s)" by (auto simp: retarget_def dom_def ps)
    then show "dom (window_workspace ?s) = dom (window_index ?s)" using windows_ok_dom [OF ok] by (simp add: eq)
  qed
  moreover have "struct_inv ?s"
    using inv d w by (auto simp: eq wsman_inv_split struct_inv_def sizes_ok_def ids_ok_def pools_ok_def owned_def
        is_ws_valid_def is_mon_valid_def cursors_ok_def focus_ok_def factory_ok_def nth_list_update
        cursor_ok_append) (simp_all add: cursor_ok_def)
  ultimately show ?thesis by (simp add: wsman_inv_split)
qed

section \<open>Shrinking\<close>

lemma fallback_for_cong:
  "ws_owner s = ws_owner t \<Longrightarrow> monitor_pools s = monitor_pools t \<Longrightarrow> fallback_for n s = fallback_for n t"
  by (auto simp: fallback_for_def fun_eq_iff Let_def)

lemma located_bound: "located s i p \<Longrightarrow> i < length (workspaces s)"
  by (simp add: located_def)

lemma displace_all:
  assumes inv: "wsman_inv s" and n: "0 < n" "n \<le> k" and k: "k \<le> length (workspaces s)"
  defines "s' \<equiv> fold (\<lambda>w. displace_workspace n (int w)) [n..<k] s"
  shows "wsman_inv s' \<and> length (workspaces s') = length (workspaces s) \<and> ws_owner s' = ws_owner s \<and>
    monitor_pools s' = monitor_pools s \<and> monitors s' = monitors s \<and> heap s' = heap s \<and>
    window_index s' = window_index s \<and>
    (\<forall>i p. located s' i p \<longleftrightarrow> (located s i p \<and> (i < n \<or> k \<le> i)) \<or>
       (\<exists>w. n \<le> w \<and> w < k \<and> int i = fallback_for n s (int w) \<and> located s w p))"
  using n(2) k unfolding s'_def
proof (induction k)
  case (Suc k)
  show ?case
  proof (cases "n \<le> k")
    case False
    then have "n = Suc k" using Suc.prems by simp
    then show ?thesis using inv by auto
  next
    case True
    let ?t = "fold (\<lambda>w. displace_workspace n (int w)) [n..<k] s"
    from Suc.IH True Suc.prems(2) have t: "wsman_inv ?t" "length (workspaces ?t) = length (workspaces s)"
      "ws_owner ?t = ws_owner s" "monitor_pools ?t = monitor_pools s" "monitors ?t = monitors s" "heap ?t = heap s"
      "window_index ?t = window_index s"
      and loc: "\<And>i p. located ?t i p \<longleftrightarrow> (located s i p \<and> (i < n \<or> k \<le> i)) \<or>
        (\<exists>w. n \<le> w \<and> w < k \<and> int i = fallback_for n s (int w) \<and> located s w p)" by auto
    from Suc.prems(2) t(2) have k: "k < length (workspaces ?t)" by simp
    have fb: "fallback_for n ?t = fallback_for n s" using t(3,4) by (rule fallback_for_cong)
    have lt: "fallback_for n s v < int n" for v
      using fallback_for_valid(2) [OF inv n(1)] True Suc.prems(2) by simp
    have lt': "i < n" if "int i = fallback_for n s v" for i v using lt [of v] that by simp
    have here: "located ?t k p \<longleftrightarrow> located s k p" for p
      unfolding loc using True lt' by (meson le_refl not_le)
    have k_iff: "Suc k \<le> i \<longleftrightarrow> k \<le> i \<and> i \<noteq> k" "i < Suc k \<longleftrightarrow> i < k \<or> i = k" for i by auto
    have nk: "i < n \<Longrightarrow> i \<noteq> k" for i using True by simp
    have "located (displace_workspace n (int k) ?t) i p \<longleftrightarrow> (located s i p \<and> (i < n \<or> Suc k \<le> i)) \<or>
        (\<exists>w. n \<le> w \<and> w < Suc k \<and> int i = fallback_for n s (int w) \<and> located s w p)" for i p
      unfolding displace_workspace_located [OF t(1) n(1) True k] fb here
      unfolding loc k_iff using True lt' nk by blast
    moreover have "wsman_inv (displace_workspace n (int k) ?t)" by (rule displace_workspace_inv [OF t(1) n(1) True k])
    moreover note displace_workspace_frame [OF t(1) n(1) True k] t
    moreover have "fold (\<lambda>w. displace_workspace n (int w)) [n..<Suc k] s = displace_workspace n (int k) ?t"
      using True by simp
    ultimately show ?thesis by simp
  qed
qed (use inv n in auto)

lemma reactivate_fold:
  "\<exists>al. length al = length (monitor_active_local s) \<and>
     fold (reactivate_monitor n) is s = s\<lparr>monitor_active_local := al\<rparr>"
proof (induction "is" rule: rev_induct)
  case Nil
  show ?case by (rule exI [of _ "monitor_active_local s"]) simp
next
  case (snoc i "is")
  have "\<exists>al. length al = length (monitor_active_local t) \<and> reactivate_monitor n i t = t\<lparr>monitor_active_local := al\<rparr>" for t
  proof -
    have "t = t\<lparr>monitor_active_local := monitor_active_local t\<rparr>" by simp
    then show ?thesis unfolding reactivate_monitor_def Let_def
      by (auto split: option.splits) (metis length_list_update)+
  qed
  note step = this
  from snoc.IH obtain al where al: "length al = length (monitor_active_local s)"
    "fold (reactivate_monitor n) is s = s\<lparr>monitor_active_local := al\<rparr>" by blast
  with step [of "s\<lparr>monitor_active_local := al\<rparr>"] show ?case by auto
qed

lemma prune_inv:
  assumes inv: "wsman_inv s" and n: "0 < n" "n \<le> length (workspaces s)"
    and empty: "\<And>i p. located s i p \<Longrightarrow> i < n"
  shows "wsman_inv (prune_workspaces n s)" and "located (prune_workspaces n s) = located s"
proof -
  let ?s = "prune_workspaces n s"
  show loc: "located ?s = located s"
    using n(2) empty by (auto simp: located_def prune_workspaces_def Let_def fun_eq_iff)
  from inv have ok: "windows_ok s" and sz: "sizes_ok s" and pk: "pools_ok s" by (simp_all add: wsman_inv_def)
  have fr: "heap ?s = heap s" "next_ptr ?s = next_ptr s" "window_index ?s = window_index s"
    "window_workspace ?s = window_workspace s"
    by (simp_all add: prune_workspaces_def Let_def)
  have "windows_ok ?s"
  proof (rule windows_ok_intro, unfold loc fr)
    show "distinct (windows (workspaces ?s ! i))" if "i < length (workspaces ?s)" for i
      using that windows_ok_distinct [OF ok] n(2) by (simp add: prune_workspaces_def Let_def)
  qed (use windows_okD [OF ok] windows_ok_indexD [OF ok] windows_ok_dom [OF ok] in blast)+
  moreover have "pools_ok ?s"
  proof -
    have o: "ws_owner ?s = take n (ws_owner s)" using n sz by (simp add: prune_workspaces_def Let_def resize_def sizes_ok_def)
    have "owned ?s m w \<longleftrightarrow> owned s m w \<and> w < int n" for m w
      using n sz unfolding owned_def o
      by (auto simp: prune_workspaces_def Let_def is_ws_valid_def sizes_ok_def)
    then show ?thesis using pk o unfolding pools_ok_def
      by (auto simp: prune_workspaces_def Let_def is_mon_valid_def)
  qed
  moreover have "sizes_ok ?s" "ids_ok ?s" "cursors_ok ?s" "focus_ok ?s" "factory_ok ?s"
    using inv n by (simp_all add: prune_workspaces_def Let_def wsman_inv_def sizes_ok_def ids_ok_def cursors_ok_def
        focus_ok_def factory_ok_def)
  ultimately show "wsman_inv ?s" by (simp add: wsman_inv_def)
qed

text \<open>Where the windows are after a shrink.\<close>

lemma shrink_workspaces_spec:
  assumes inv: "wsman_inv s" and n: "0 < n" "n \<le> length (workspaces s)"
  defines "s' \<equiv> shrink_workspaces n s"
  shows "wsman_inv s'" "length (workspaces s') = n" "window_index s' = window_index s" "heap s' = heap s"
    "located s' i p \<longleftrightarrow> (located s i p \<and> i < n) \<or>
       (\<exists>w. n \<le> w \<and> int i = fallback_for n s (int w) \<and> located s w p)"
    "monitors s' = monitors s"
proof -
  define t where "t = fold (\<lambda>w. displace_workspace n (int w)) [n..<length (workspaces s)] s"
  from displace_all [OF inv n order_refl]
  have t: "wsman_inv t" "length (workspaces t) = length (workspaces s)" "heap t = heap s" "window_index t = window_index s"
    "monitors t = monitors s"
    and loc: "\<And>i p. located t i p \<longleftrightarrow> (located s i p \<and> i < n) \<or>
       (\<exists>w. n \<le> w \<and> int i = fallback_for n s (int w) \<and> located s w p)"
    unfolding t_def [symmetric] using located_bound [of s] by (simp_all, meson not_le)
  obtain al where al: "length al = length (monitor_active_local t)"
    "fold (reactivate_monitor n) [0..<length (monitors t)] t = t\<lparr>monitor_active_local := al\<rparr>"
    using reactivate_fold by blast
  let ?u = "t\<lparr>monitor_active_local := al\<rparr>"
  have s': "s' = prune_workspaces n ?u" by (simp add: s'_def shrink_workspaces_def Let_def t_def [symmetric] al(2))
  have loc': "located ?u = located t" by (simp add: located_def fun_eq_iff)
  have u: "wsman_inv ?u"
    using t(1) al(1) by (simp add: wsman_inv_assigned assigned_inv_def sizes_ok_def pools_ok_def owned_def
        is_ws_valid_def is_mon_valid_def focus_ok_def)
  have "i < n" if "located ?u i p" for i p
    using that fallback_for_valid(2) [OF inv n] unfolding loc' loc by (metis of_nat_less_iff)
  from prune_inv [OF u n(1) _ this] n(2) t(2) have p: "wsman_inv (prune_workspaces n ?u)"
    "located (prune_workspaces n ?u) = located ?u" by auto
  show "wsman_inv s'" unfolding s' by (rule p)
  show "located s' i p \<longleftrightarrow> (located s i p \<and> i < n) \<or>
       (\<exists>w. n \<le> w \<and> int i = fallback_for n s (int w) \<and> located s w p)"
    unfolding s' p(2) loc' by (rule loc)
  show "length (workspaces s') = n" "window_index s' = window_index s" "heap s' = heap s" "monitors s' = monitors s"
    using t n(2) by (simp_all add: s' prune_workspaces_def Let_def)
qed

section \<open>The reload as a whole\<close>

definition grown :: "workspace_def list \<Rightarrow> wsman \<Rightarrow> wsman" where
  "grown defs s = grow_workspaces defs (rename_workspaces defs s)"

lemma grown_frame:
  "length (workspaces (grown defs s)) = max (length (workspaces s)) (length defs)"
  "monitors (grown defs s) = monitors s" "monitor_pools (grown defs s) = monitor_pools s"
  "monitor_active_local (grown defs s) = monitor_active_local s" "heap (grown defs s) = heap s"
  "next_ptr (grown defs s) = next_ptr s" "window_index (grown defs s) = window_index s"
  "window_workspace (grown defs s) = window_workspace s" "window_factory (grown defs s) = window_factory s"
  "focused_monitor (grown defs s) = focused_monitor s"
  by (simp_all add: grown_def grow_workspaces_def rename_workspaces_def Let_def)

lemma grown_nth:
  assumes "i < max (length (workspaces s)) (length defs)"
  shows "ws_id (workspaces s ! i) = int i \<or> length (workspaces s) \<le> i \<Longrightarrow> ws_id (workspaces (grown defs s) ! i) = int i"
    "windows (workspaces (grown defs s) ! i) = (if i < length (workspaces s) then windows (workspaces s ! i) else [])"
    "current (workspaces (grown defs s) ! i) = (if i < length (workspaces s) then current (workspaces s ! i) else - 1)"
    "i < length defs \<Longrightarrow> ws_name (workspaces (grown defs s) ! i) = def_name (defs ! i) \<and>
       ws_monitor_alias (workspaces (grown defs s) ! i) = def_monitor (defs ! i)"
  using assms
  by (auto simp: grown_def grow_workspaces_def rename_workspaces_def Let_def nth_append mk_workspace_def)

lemma grown_located: "located (grown defs s) = located s"
proof (intro ext)
  fix i p
  show "located (grown defs s) i p = located s i p"
    using grown_nth(2) [of i s defs] by (auto simp: located_def grown_frame)
qed

lemma grown_inv:
  assumes inv: "wsman_inv s"
  shows "wsman_inv (grown defs s)"
proof -
  from inv have ok: "windows_ok s" and sz: "sizes_ok s" and pk: "pools_ok s" by (simp_all add: wsman_inv_def)
  have own: "ws_owner (grown defs s) = ws_owner s @ replicate (length defs - length (workspaces s)) (- 1)"
    by (simp add: grown_def grow_workspaces_def rename_workspaces_def Let_def map_replicate_const)
  have o: "owned (grown defs s) (int m) w \<longleftrightarrow> owned s (int m) w" for m w
    using sz by (auto simp: owned_def own is_ws_valid_def grown_frame nth_append sizes_ok_def)
  have "windows_ok (grown defs s)"
  proof (rule windows_ok_intro, unfold grown_located grown_frame)
    show "distinct (windows (workspaces (grown defs s) ! i))" if "i < max (length (workspaces s)) (length defs)" for i
      using grown_nth(2) [OF that] windows_ok_distinct [OF ok, of i] by simp
  qed (use windows_okD [OF ok] windows_ok_indexD [OF ok] windows_ok_dom [OF ok] in blast)+
  moreover have "pools_ok (grown defs s)"
    unfolding pools_ok_def o grown_frame own
    using pk by (auto simp: pools_ok_def nth_append is_mon_valid_def grown_frame)
  moreover have "sizes_ok (grown defs s)" using sz by (simp add: sizes_ok_def grown_frame own)
  moreover have "ids_ok (grown defs s)"
    using wsman_invD(2) [OF inv] grown_nth(1) [of _ s defs] unfolding ids_ok_def grown_frame by (meson not_le)
  moreover have "cursors_ok (grown defs s)"
    unfolding cursors_ok_def grown_frame cursor_ok_def
  proof (intro allI impI)
    fix i
    assume i: "i < max (length (workspaces s)) (length defs)"
    show "if windows (workspaces (grown defs s) ! i) = [] then current (workspaces (grown defs s) ! i) = - 1
      else 0 \<le> current (workspaces (grown defs s) ! i) \<and>
        current (workspaces (grown defs s) ! i) < int (length (windows (workspaces (grown defs s) ! i)))"
      using wsman_invD(5) [OF inv] unfolding grown_nth(2,3) [OF i] by (simp add: cursors_ok_def cursor_ok_def)
  qed
  moreover have "focus_ok (grown defs s)" "factory_ok (grown defs s)"
    using inv by (simp_all add: wsman_inv_def focus_ok_def factory_ok_def grown_frame)
  ultimately show ?thesis by (simp add: wsman_inv_def)
qed

lemma update_workspace_defs_eq:
  "defs \<noteq> [] \<Longrightarrow> update_workspace_defs defs s =
     Some (if length defs < length (workspaces s) then shrink_workspaces (length defs) (grown defs s) else grown defs s)"
  by (simp add: update_workspace_defs_def Let_def grown_def)

lemma update_workspace_defs_inv [inv_intros]:
  assumes inv: "wsman_inv s" and r: "update_workspace_defs defs s = Some s'"
  shows "wsman_inv s'"
proof (cases "defs = []")
  case True
  with inv r show ?thesis by (simp add: update_workspace_defs_def split: if_splits)
next
  case False
  then have "0 < length defs" "length defs \<le> length (workspaces (grown defs s))" by (simp_all add: grown_frame)
  from shrink_workspaces_spec(1) [OF grown_inv [OF inv] this] grown_inv [OF inv] r
  show ?thesis by (auto simp: update_workspace_defs_eq [OF False] split: if_splits)
qed

lemma update_workspace_defs_windows:
  assumes inv: "wsman_inv s" and ne: "defs \<noteq> []" and r: "update_workspace_defs defs s = Some s'"
  shows "length (workspaces s') = length defs"
    and "window_index s' = window_index s"
    and "heap s' = heap s"
    and "located s' i p \<longleftrightarrow> (located s i p \<and> i < length defs) \<or>
       (\<exists>w. length defs \<le> w \<and> int i = fallback_for (length defs) s (int w) \<and> located s w p)"
proof -
  have n: "0 < length defs" "length defs \<le> length (workspaces (grown defs s))" using ne by (simp_all add: grown_frame)
  note sh = shrink_workspaces_spec [OF grown_inv [OF inv] n]
  have fb: "fallback_for (length defs) (grown defs s) (int w) = fallback_for (length defs) s (int w)"
    if "w < length (workspaces s)" for w
    using that wsman_invD(1) [OF inv]
    by (simp add: fallback_for_def grown_def grow_workspaces_def rename_workspaces_def Let_def sizes_ok_def nth_append)
  show "length (workspaces s') = length defs" "window_index s' = window_index s" "heap s' = heap s"
    using r sh(2-4) by (auto simp: update_workspace_defs_eq [OF ne] grown_frame split: if_splits)
  show "located s' i p \<longleftrightarrow> (located s i p \<and> i < length defs) \<or>
       (\<exists>w. length defs \<le> w \<and> int i = fallback_for (length defs) s (int w) \<and> located s w p)"
  proof (cases "length defs < length (workspaces s)")
    case True
    then have "s' = shrink_workspaces (length defs) (grown defs s)" using r by (simp add: update_workspace_defs_eq [OF ne])
    then show ?thesis using sh(5) [of i p] fb located_bound [of s] by (auto simp: grown_located)
  next
    case False
    then have "s' = grown defs s" using r by (simp add: update_workspace_defs_eq [OF ne])
    then show ?thesis using False located_bound [of s] by (force simp: grown_located)
  qed
qed

end
