(* ===== verification/Float32.thy ===== *)
theory Float32
  imports Prelude Complex_Main "HOL-Library.Log_Nat"
begin

text \<open>
  The \<^verbatim>\<open>float\<close> arithmetic of the layout code: IEEE 754 binary32 with rounding to nearest, ties to
  even, on finite values. A \<^verbatim>\<open>float\<close> is the rational it stands for; every operation of the source
  that produces one (a literal, \<^verbatim>\<open>int\<close> to \<^verbatim>\<open>float\<close> conversion, \<open>+\<close>, \<open>*\<close>) is the exact operation
  followed by \<open>f32_round\<close>. The model covers finite operands and results below \<open>2 ^ 128\<close>; signed zeros
  are identified, which no comparison or conversion of the source can tell apart.

  The lemmas at the end are what the layout proofs use: the exponent is the right one, and rounding a
  number between \<open>0\<close> and an integer below \<open>2 ^ 24\<close> does not leave that range.
\<close>

section \<open>Definitions\<close>

definition round_half_even :: "rat \<Rightarrow> int" where
  "round_half_even x =
     (let f = \<lfloor>x\<rfloor>; r = x - of_int f in
      if r < 1 / 2 then f else if r > 1 / 2 then f + 1 else if even f then f else f + 1)"

text \<open>The binary exponent of a positive rational: \<open>2 ^ e \<le> q < 2 ^ (e + 1)\<close>.\<close>

definition binade :: "rat \<Rightarrow> int" where
  "binade q =
     (let k = bitlen (fst (quotient_of q)) - bitlen (snd (quotient_of q))
      in if 2 powi k \<le> q then k else k - 1)"

definition f32_ulp :: "rat \<Rightarrow> rat" where
  "f32_ulp q = 2 powi (max (binade \<bar>q\<bar> - 23) (- 149))"

definition f32_round :: "rat \<Rightarrow> rat" where
  "f32_round q = (if q = 0 then 0 else of_int (round_half_even (q / f32_ulp q)) * f32_ulp q)"

definition f32_of_int :: "int \<Rightarrow> rat" where
  "f32_of_int i = f32_round (of_int i)"

definition f32_mult :: "rat \<Rightarrow> rat \<Rightarrow> rat" where
  "f32_mult a b = f32_round (a * b)"

definition f32_add :: "rat \<Rightarrow> rat \<Rightarrow> rat" where
  "f32_add a b = f32_round (a + b)"

text \<open>\<^verbatim>\<open>std::clamp(v, lo, hi)\<close> and the conversion \<^verbatim>\<open>(int)v\<close>, which truncates.\<close>

definition f32_clamp :: "rat \<Rightarrow> rat \<Rightarrow> rat \<Rightarrow> rat" where
  "f32_clamp v lo hi = (if v < lo then lo else if hi < v then hi else v)"

definition f32_to_int :: "rat \<Rightarrow> int" where
  "f32_to_int q = (if 0 \<le> q then \<lfloor>q\<rfloor> else - \<lfloor>- q\<rfloor>)"

section \<open>The exponent\<close>

lemma bitlen_powi:
  assumes "0 < (n :: int)"
  shows "2 powi (bitlen n - 1) \<le> (of_int n :: rat)" "(of_int n :: rat) < 2 powi (bitlen n)"
proof -
  have b: "0 < bitlen n" using assms bitlen_eq_zero_iff [of n] bitlen_nonneg [of n] by linarith
  from bitlen_bounds [OF assms] have "2 ^ nat (bitlen n - 1) \<le> n" "n < 2 ^ nat (bitlen n)" by auto
  then have "(of_int (2 ^ nat (bitlen n - 1)) :: rat) \<le> of_int n" "(of_int n :: rat) < of_int (2 ^ nat (bitlen n))"
    by (simp_all only: of_int_le_iff of_int_less_iff)
  with b show "2 powi (bitlen n - 1) \<le> (of_int n :: rat)" "(of_int n :: rat) < 2 powi (bitlen n)"
    by (simp_all add: power_int_def)
qed

lemma binade_bounds:
  assumes "0 < q"
  shows "2 powi binade q \<le> q" "q < 2 powi (binade q + 1)"
proof -
  obtain n d where nd: "quotient_of q = (n, d)" by (cases "quotient_of q")
  then have d: "0 < d" and q: "q = of_int n / of_int d"
    by (simp_all add: quotient_of_denom_pos quotient_of_div)
  then have n: "0 < n" using assms by (simp add: zero_less_divide_iff)
  define k where "k = bitlen n - bitlen d"
  have "2 powi k = 2 powi (bitlen n) / (2 powi (bitlen d) :: rat)" by (simp add: k_def power_int_diff)
  moreover have "2 powi (k - 1) = 2 powi (bitlen n - 1) / (2 powi (bitlen d) :: rat)"
    by (simp add: k_def power_int_diff)
  moreover have "2 powi (k + 1) = 2 powi (bitlen n) / (2 powi (bitlen d - 1) :: rat)"
    by (simp add: k_def power_int_diff power_int_add)
  ultimately have "2 powi (k - 1) \<le> q" "q < 2 powi (k + 1)"
    using bitlen_powi [OF n] bitlen_powi [OF d] d n
    by (auto simp: q intro!: frac_le frac_less)
  then show "2 powi binade q \<le> q" "q < 2 powi (binade q + 1)"
    by (auto simp: binade_def Let_def nd k_def [symmetric])
qed

section \<open>Bounds of rounding\<close>

lemma round_half_even_mono_int:
  "x \<le> of_int m \<Longrightarrow> round_half_even x \<le> m" "of_int m \<le> x \<Longrightarrow> m \<le> round_half_even x"
proof -
  have f: "of_int \<lfloor>x\<rfloor> \<le> x" "x < of_int \<lfloor>x\<rfloor> + 1" by linarith+
  show "m \<le> round_half_even x" if "of_int m \<le> x"
  proof -
    from that have "m \<le> \<lfloor>x\<rfloor>" by (simp add: le_floor_iff)
    then show ?thesis by (auto simp: round_half_even_def Let_def)
  qed
  show "round_half_even x \<le> m" if "x \<le> of_int m"
  proof (cases "x = of_int m")
    case True
    then show ?thesis by (simp add: round_half_even_def)
  next
    case False
    with that have "\<lfloor>x\<rfloor> < m" by (simp add: floor_less_iff)
    then show ?thesis by (auto simp: round_half_even_def Let_def)
  qed
qed

lemma round_half_even_of_int: "round_half_even (of_int m) = m"
  by (simp add: round_half_even_def)

lemma round_half_even_nearest: "\<bar>of_int (round_half_even x) - x\<bar> \<le> 1 / 2"
  using of_int_floor_le [of x] floor_correct [of x] by (auto simp: round_half_even_def Let_def abs_le_iff)

lemma f32_ulp_small:
  assumes "0 < q" "q < 2 ^ 24"
  shows "\<exists>k :: nat. f32_ulp q = 1 / 2 ^ k"
proof -
  have "2 powi binade q < (2 :: rat) powi 24"
    using binade_bounds(1) [OF assms(1)] assms(2) by (simp add: order.strict_trans1)
  then have "binade q < 24" by (meson not_le power_int_increasing one_le_numeral)
  then have "max (binade \<bar>q\<bar> - 23) (- 149) = - int (nat (- max (binade \<bar>q\<bar> - 23) (- 149)))"
    using assms(1) by simp
  then show ?thesis unfolding f32_ulp_def by (metis power_int_minus_divide power_int_of_nat)
qed

lemma f32_round_bounds:
  assumes "0 \<le> q" "q \<le> of_int n" "n < 2 ^ 24"
  shows "0 \<le> f32_round q" "f32_round q \<le> of_int n"
proof -
  have "0 \<le> f32_round q \<and> f32_round q \<le> of_int n"
  proof (cases "q = 0")
    case False
    with assms have q: "0 < q" by simp
    define u :: rat where "u = f32_ulp q"
    have "(of_int n :: rat) < of_int (2 ^ 24)" using assms(3) by (simp only: of_int_less_iff)
    then obtain k :: nat where k: "u = 1 / 2 ^ k"
      using f32_ulp_small [OF q] assms(2) by (auto simp: u_def)
    have "of_int n / u = of_int (n * 2 ^ k)" by (simp add: k)
    moreover have "q / u \<le> of_int n / u" using assms(2) by (simp add: k)
    ultimately have "round_half_even (q / u) \<le> n * 2 ^ k" by (metis round_half_even_mono_int(1))
    then have "(of_int (round_half_even (q / u)) :: rat) \<le> of_int (n * 2 ^ k)" by (simp only: of_int_le_iff)
    moreover have "0 \<le> round_half_even (q / u)" using round_half_even_mono_int(2) [of 0 "q / u"] q k by simp
    ultimately show ?thesis using q by (simp add: f32_round_def u_def [symmetric] k field_simps)
  qed (use assms in \<open>simp add: f32_round_def\<close>)
  then show "0 \<le> f32_round q" "f32_round q \<le> of_int n" by auto
qed

lemma f32_of_int_exact: "0 \<le> n \<Longrightarrow> n < 2 ^ 24 \<Longrightarrow> f32_of_int n = of_int n"
proof (cases "n = 0")
  case False
  assume n: "0 \<le> n" "n < 2 ^ 24"
  have "(of_int n :: rat) < of_int (2 ^ 24)" using n(2) by (simp only: of_int_less_iff)
  then obtain k :: nat where k: "f32_ulp (of_int n) = 1 / 2 ^ k"
    using f32_ulp_small [of "of_int n"] n False by auto
  have "round_half_even (of_int n * 2 ^ k) = n * 2 ^ k" using round_half_even_of_int [of "n * 2 ^ k"] by simp
  then show ?thesis using False by (simp add: f32_of_int_def f32_round_def k)
qed (simp add: f32_of_int_def f32_round_def)

lemma f32_clamp_bounds: "lo \<le> hi \<Longrightarrow> lo \<le> f32_clamp v lo hi \<and> f32_clamp v lo hi \<le> hi"
  by (simp add: f32_clamp_def)

text \<open>The product the tiling layout computes: a share of a non-negative width stays within it.\<close>

lemma f32_share_bounds:
  assumes "0 \<le> n" "n < 2 ^ 24" "0 \<le> f" "f \<le> 1"
  shows "0 \<le> f32_to_int (f32_mult (f32_of_int n) f)" "f32_to_int (f32_mult (f32_of_int n) f) \<le> n"
proof -
  have "0 \<le> of_int n * f" "of_int n * f \<le> of_int n" using assms by (simp_all add: mult_left_le)
  note b = f32_round_bounds [OF this assms(2)]
  then show "0 \<le> f32_to_int (f32_mult (f32_of_int n) f)"
    by (simp add: f32_to_int_def f32_mult_def f32_of_int_exact [OF assms(1,2)])
  from b show "f32_to_int (f32_mult (f32_of_int n) f) \<le> n"
    by (simp add: f32_to_int_def f32_mult_def f32_of_int_exact [OF assms(1,2)] floor_le_iff)
qed

end
