(* ===== verification/Layout.thy ===== *)
theory Layout
  imports Domain_Types Float32
begin

text \<open>
  The built-in layouts (\<^verbatim>\<open>core/include/domain/layout.hpp\<close>): a layout takes the tiled windows, the
  monitor and the configuration and calls a placement sink once per window. The model returns the list
  of calls in order.

  The lemmas show the contract of tiling: every window is placed exactly once and in order, inside the
  monitor's usable area, and no two windows overlap or come closer than the gap.
\<close>

record layout_config =
  master_factor :: rat
  nmaster :: int
  cfg_gap :: int
  cfg_border :: int

definition default_layout_config :: layout_config where
  "default_layout_config =
     \<lparr>master_factor = f32_round (55 / 100), nmaster = 1, cfg_gap = 4, cfg_border = 0\<rparr>"

type_synonym placement = "window_id \<times> vec2i \<times> vec2i \<times> 32 word"

text \<open>\<^verbatim>\<open>LayoutFn\<close>.\<close>

type_synonym layout_fn = "window_id list \<Rightarrow> monitor \<Rightarrow> layout_config \<Rightarrow> placement list"

text \<open>
  One column of \<^verbatim>\<open>tile\<close>: the three loops of the function (all windows in the master column, master
  column, stack column) are the same but for the rectangle and the windows they fill it with. The last
  window absorbs the rounding remainder.
\<close>

definition column_unit :: "int \<Rightarrow> int \<Rightarrow> int \<Rightarrow> int" where
  "column_unit g mh n = (mh - g * (n - 1)) sdiv n"

definition column :: "int \<Rightarrow> int \<Rightarrow> int \<Rightarrow> int \<Rightarrow> int \<Rightarrow> int \<Rightarrow> window_id list \<Rightarrow> placement list" where
  "column b g x my w mh wins =
     (let n = int (length wins); unit = column_unit g mh n in
      map (\<lambda>i. let h = (if int i = n - 1 then mh - int i * (unit + g) else unit) in
             (wins ! i, (x, my + int i * (unit + g)), (max 1 (w - b * 2), max 1 (h - b * 2)),
              word_of_int (max 0 b)))
        [0..<length wins])"

definition tile_master_w :: "int \<Rightarrow> layout_config \<Rightarrow> int" where
  "tile_master_w mw cfg = f32_to_int (f32_mult (f32_of_int mw) (master_factor cfg)) - cfg_gap cfg sdiv 2"

definition tile :: layout_fn where
  "tile wins mon cfg =
     (let n = int (length wins) in
      if n = 0 then []
      else
        let b = cfg_border cfg; g = cfg_gap cfg;
            mx = fst (mon_pos mon) + g; my = snd (mon_pos mon) + g;
            mw = fst (mon_size mon) - g * 2; mh = snd (mon_size mon) - g * 2;
            nm = min (nmaster cfg) n
        in if n \<le> nm then column b g mx my mw mh wins
           else
             let master_w = tile_master_w mw cfg;
                 stack_x = mx + master_w + g;
                 stack_w = mw - master_w - g
             in column b g mx my master_w mh (take (nat nm) wins) @
                column b g stack_x my stack_w mh (drop (nat nm) wins))"

definition monocle :: layout_fn where
  "monocle wins mon cfg =
     (let b = cfg_border cfg in
      map (\<lambda>w. (w, (fst (mon_pos mon) + b, snd (mon_pos mon) + b),
                (max 1 (fst (mon_size mon) - b * 2), max 1 (snd (mon_size mon) - b * 2)),
                word_of_int (max 0 b))) wins)"

section \<open>Rectangles\<close>

text \<open>A window of size \<open>s\<close> with border \<open>b\<close> covers \<open>s + 2 b\<close> from its position.\<close>

definition outer :: "int \<Rightarrow> placement \<Rightarrow> vec2i \<times> vec2i" where
  "outer b p = (case p of (_, pos, sz, _) \<Rightarrow> (pos, (fst sz + 2 * b, snd sz + 2 * b)))"

definition inside :: "vec2i \<times> vec2i \<Rightarrow> vec2i \<times> vec2i \<Rightarrow> bool" where
  "inside r q \<longleftrightarrow>
     fst (fst q) \<le> fst (fst r) \<and> fst (fst r) + fst (snd r) \<le> fst (fst q) + fst (snd q) \<and>
     snd (fst q) \<le> snd (fst r) \<and> snd (fst r) + snd (snd r) \<le> snd (fst q) + snd (snd q)"

text \<open>At least \<open>g\<close> pixels between the rectangles, horizontally or vertically.\<close>

definition apart :: "int \<Rightarrow> vec2i \<times> vec2i \<Rightarrow> vec2i \<times> vec2i \<Rightarrow> bool" where
  "apart g r q \<longleftrightarrow>
     fst (fst r) + fst (snd r) + g \<le> fst (fst q) \<or> fst (fst q) + fst (snd q) + g \<le> fst (fst r) \<or>
     snd (fst r) + snd (snd r) + g \<le> snd (fst q) \<or> snd (fst q) + snd (snd q) + g \<le> snd (fst r)"

lemma inside_trans: "inside r q \<Longrightarrow> inside q t \<Longrightarrow> inside r t"
  by (auto simp: inside_def)

lemma apart_no_common_point: "0 \<le> g \<Longrightarrow> apart g r q \<Longrightarrow> in_rect (fst r) (snd r) p \<Longrightarrow> \<not> in_rect (fst q) (snd q) p"
  by (auto simp: apart_def in_rect_def)

section \<open>Columns\<close>

lemma column_wins: "map fst (column b g x my w mh wins) = wins"
  by (simp add: column_def Let_def comp_def map_nth)

lemma length_column [simp]: "length (column b g x my w mh wins) = length wins"
  by (simp add: column_def Let_def)

definition column_room :: "int \<Rightarrow> int \<Rightarrow> int \<Rightarrow> int \<Rightarrow> int \<Rightarrow> bool" where
  "column_room b g w mh n \<longleftrightarrow> 1 \<le> w - b * 2 \<and> 1 \<le> column_unit g mh n - b * 2"

text \<open>The slot of the \<open>i\<close>-th window of a column, and where it ends.\<close>

lemma column_slots:
  assumes b: "0 \<le> b" and g: "0 \<le> g" and room: "column_room b g w mh (int (length wins))" and i: "i < length wins"
  defines "u \<equiv> column_unit g mh (int (length wins))"
  shows "\<exists>h. outer b (column b g x my w mh wins ! i) = ((x, my + int i * (u + g)), (w, h)) \<and> 0 < h \<and>
    my + int i * (u + g) + h \<le> my + mh \<and> (Suc i < length wins \<longrightarrow> h = u)"
proof -
  let ?n = "int (length wins)"
  define h where "h = (if int i = ?n - 1 then mh - int i * (u + g) else u)"
  have n: "0 < ?n" using i by auto
  have u1: "1 \<le> u" using room b by (simp add: column_room_def u_def)
  have pos: "0 \<le> mh - g * (?n - 1)"
  proof (rule ccontr)
    assume "\<not> ?thesis"
    then have "u \<le> 0" using n by (auto simp: u_def column_unit_def signed_divide_int_def sgn_if div_int_pos_iff)
    with u1 show False by simp
  qed
  then have "u = (mh - g * (?n - 1)) div ?n" using n by (simp add: u_def column_unit_def sdiv_int_nonneg)
  then have "?n * u + (mh - g * (?n - 1)) mod ?n = mh - g * (?n - 1)" by simp
  then have "?n * u \<le> mh - g * (?n - 1)" using pos_mod_sign [OF n, of "mh - g * (?n - 1)"] by linarith
  then have tot: "u + (?n - 1) * (u + g) \<le> mh" by (simp add: algebra_simps)
  have "int i * (u + g) \<le> (?n - 1) * (u + g)" using i u1 g by (intro mult_right_mono) auto
  then have hu: "u \<le> h" "int i * (u + g) + h \<le> mh" using tot by (auto simp: h_def)
  have "column b g x my w mh wins ! i = (wins ! i, (x, my + int i * (u + g)), (max 1 (w - b * 2), max 1 (h - b * 2)),
    word_of_int (max 0 b))"
    using i by (simp add: column_def Let_def u_def h_def)
  moreover have "1 \<le> w - b * 2" "1 \<le> h - b * 2" using room hu by (auto simp: column_room_def u_def)
  ultimately have "outer b (column b g x my w mh wins ! i) = ((x, my + int i * (u + g)), (w, h))"
    by (simp add: outer_def)
  with hu u1 show ?thesis by (intro exI [of _ h]) (auto simp: h_def)
qed

lemma column_inside:
  assumes "0 \<le> b" "0 \<le> g" "column_room b g w mh (int (length wins))" "i < length wins"
  shows "inside (outer b (column b g x my w mh wins ! i)) ((x, my), (w, mh))"
proof -
  obtain h where h: "outer b (column b g x my w mh wins ! i) =
      ((x, my + int i * (column_unit g mh (int (length wins)) + g)), (w, h))"
    "my + int i * (column_unit g mh (int (length wins)) + g) + h \<le> my + mh"
    using column_slots [OF assms] by blast
  have "0 \<le> column_unit g mh (int (length wins)) + g" using assms by (simp add: column_room_def)
  with h show ?thesis by (simp add: inside_def)
qed

lemma column_apart_less:
  assumes "0 \<le> b" "0 \<le> g" "column_room b g w mh (int (length wins))" "i < j" "j < length wins"
  shows "apart g (outer b (column b g x my w mh wins ! i)) (outer b (column b g x my w mh wins ! j))"
proof -
  let ?u = "column_unit g mh (int (length wins))"
  obtain hi where hi: "outer b (column b g x my w mh wins ! i) = ((x, my + int i * (?u + g)), (w, hi))" "hi = ?u"
    using column_slots [OF assms(1-3), of i] assms(4,5) by auto
  obtain hj where hj: "outer b (column b g x my w mh wins ! j) = ((x, my + int j * (?u + g)), (w, hj))"
    using column_slots [OF assms(1-3), of j] assms(5) by auto
  have "(int i + 1) * (?u + g) \<le> int j * (?u + g)"
    using assms by (intro mult_right_mono) (auto simp: column_room_def)
  with hi hj show ?thesis by (simp add: apart_def algebra_simps)
qed

lemma apart_sym: "apart g r q \<Longrightarrow> apart g q r"
  by (auto simp: apart_def)

lemma column_apart:
  assumes "0 \<le> b" "0 \<le> g" "column_room b g w mh (int (length wins))" "i \<noteq> j" "i < length wins" "j < length wins"
  shows "apart g (outer b (column b g x my w mh wins ! i)) (outer b (column b g x my w mh wins ! j))"
proof (cases "i < j")
  case True
  then show ?thesis by (rule column_apart_less [OF assms(1-3) _ assms(6)])
next
  case False
  with assms(4) have "j < i" by simp
  then show ?thesis by (rule apart_sym [OF column_apart_less [OF assms(1-3) _ assms(5)]])
qed

section \<open>Tiling\<close>

definition tile_area :: "monitor \<Rightarrow> layout_config \<Rightarrow> vec2i \<times> vec2i" where
  "tile_area mon cfg =
     ((fst (mon_pos mon) + cfg_gap cfg, snd (mon_pos mon) + cfg_gap cfg),
      (fst (mon_size mon) - cfg_gap cfg * 2, snd (mon_size mon) - cfg_gap cfg * 2))"

text \<open>Every slot has at least one pixel inside its border.\<close>

definition tile_room :: "nat \<Rightarrow> monitor \<Rightarrow> layout_config \<Rightarrow> bool" where
  "tile_room n mon cfg \<longleftrightarrow>
     (let b = cfg_border cfg; g = cfg_gap cfg; (mw, mh) = snd (tile_area mon cfg); mw' = tile_master_w mw cfg in
      0 \<le> b \<and> 0 \<le> g \<and> 1 \<le> nmaster cfg \<and>
      (if int n \<le> nmaster cfg then column_room b g mw mh (int n)
       else column_room b g mw' mh (nmaster cfg) \<and> column_room b g (mw - mw' - g) mh (int n - nmaster cfg)))"

lemma tile_cases:
  assumes "wins \<noteq> []" "1 \<le> nmaster cfg" "tile_area mon cfg = a" "cfg_border cfg = b" "cfg_gap cfg = g"
  shows "tile wins mon cfg =
    (if int (length wins) \<le> nmaster cfg
     then column b g (fst (fst a)) (snd (fst a)) (fst (snd a)) (snd (snd a)) wins
     else let w = tile_master_w (fst (snd a)) cfg; k = nat (nmaster cfg) in
          column b g (fst (fst a)) (snd (fst a)) w (snd (snd a)) (take k wins) @
          column b g (fst (fst a) + w + g) (snd (fst a)) (fst (snd a) - w - g) (snd (snd a)) (drop k wins))"
  using assms by (auto simp: tile_def tile_area_def Let_def min_def)

lemma tile_wins: "1 \<le> nmaster cfg \<Longrightarrow> map fst (tile wins mon cfg) = wins"
proof (cases "wins = []")
  case False
  then show "1 \<le> nmaster cfg \<Longrightarrow> ?thesis" by (simp add: tile_cases [OF _ _ refl refl refl] column_wins Let_def)
qed (simp add: tile_def)

lemma monocle_wins: "map fst (monocle wins mon cfg) = wins"
  by (simp add: monocle_def Let_def comp_def)

lemma inside_widen:
  "inside r ((x, y), (w, h)) \<Longrightarrow> x' \<le> x \<Longrightarrow> x + w \<le> x' + w' \<Longrightarrow> inside r ((x', y), (w', h))"
  by (auto simp: inside_def)

lemma tile_inside_area:
  assumes room: "tile_room (length wins) mon cfg" and p: "p \<in> set (tile wins mon cfg)"
  shows "inside (outer (cfg_border cfg) p) (tile_area mon cfg)"
proof -
  define b g where "b = cfg_border cfg" and "g = cfg_gap cfg"
  obtain mx my mw mh where a: "tile_area mon cfg = ((mx, my), (mw, mh))" by (metis prod.collapse)
  have ne: "wins \<noteq> []" using p by (auto simp: tile_def)
  have bg: "0 \<le> b" "0 \<le> g" "1 \<le> nmaster cfg" using room by (auto simp: tile_room_def Let_def b_def g_def a)
  let ?k = "nat (nmaster cfg)" and ?w = "tile_master_w mw cfg"
  have col: "inside (outer b q) ((x, my), (w, mh))"
    if "q \<in> set (column b g x my w mh ws)" "column_room b g w mh (int (length ws))" for q x w ws
    using that column_inside [OF bg(1,2) that(2)] by (auto simp: in_set_conv_nth)
  show ?thesis
  proof (cases "int (length wins) \<le> nmaster cfg")
    case True
    then have "column_room b g mw mh (int (length wins))" using room by (simp add: tile_room_def Let_def b_def g_def a)
    moreover have "p \<in> set (column b g mx my mw mh wins)"
      using p True by (simp add: tile_cases [OF ne bg(3) a b_def [symmetric] g_def [symmetric]])
    ultimately show ?thesis unfolding a b_def [symmetric] by (intro col)
  next
    case False
    then have r: "column_room b g ?w mh (int (length (take ?k wins)))"
      "column_room b g (mw - ?w - g) mh (int (length (drop ?k wins)))"
      using room bg(3) by (auto simp: tile_room_def Let_def b_def g_def a of_nat_diff min_def)
    from p False ne bg(3) have "p \<in> set (column b g mx my ?w mh (take ?k wins)) \<or>
      p \<in> set (column b g (mx + ?w + g) my (mw - ?w - g) mh (drop ?k wins))"
      by (auto simp: tile_cases [OF ne bg(3) a b_def [symmetric] g_def [symmetric]] Let_def)
    then show ?thesis
    proof
      assume "p \<in> set (column b g mx my ?w mh (take ?k wins))"
      from col [OF this r(1)] show ?thesis unfolding a b_def [symmetric]
        by (rule inside_widen) (use r(2) bg in \<open>auto simp: column_room_def\<close>)
    next
      assume "p \<in> set (column b g (mx + ?w + g) my (mw - ?w - g) mh (drop ?k wins))"
      from col [OF this r(2)] show ?thesis unfolding a b_def [symmetric]
        by (rule inside_widen) (use r(1) bg in \<open>auto simp: column_room_def\<close>)
    qed
  qed
qed

lemma apart_columns:
  assumes "inside r ((x, y), (w, h))" "inside q ((x + w + g, y'), (w', h'))"
  shows "apart g r q"
  using assms by (auto simp: inside_def apart_def)

lemma tile_apart:
  assumes room: "tile_room (length wins) mon cfg" and ij: "i \<noteq> j" "i < length wins" "j < length wins"
  shows "apart (cfg_gap cfg) (outer (cfg_border cfg) (tile wins mon cfg ! i)) (outer (cfg_border cfg) (tile wins mon cfg ! j))"
proof -
  define b g where "b = cfg_border cfg" and "g = cfg_gap cfg"
  obtain mx my mw mh where a: "tile_area mon cfg = ((mx, my), (mw, mh))" by (metis prod.collapse)
  have ne: "wins \<noteq> []" using ij by auto
  have bg: "0 \<le> b" "0 \<le> g" "1 \<le> nmaster cfg" using room by (auto simp: tile_room_def Let_def b_def g_def a)
  let ?k = "nat (nmaster cfg)" and ?w = "tile_master_w mw cfg"
  show ?thesis
  proof (cases "int (length wins) \<le> nmaster cfg")
    case True
    then have "column_room b g mw mh (int (length wins))" using room by (simp add: tile_room_def Let_def b_def g_def a)
    from column_apart [OF bg(1,2) this ij, of mx my] True show ?thesis
      unfolding b_def [symmetric] g_def [symmetric]
      by (simp add: tile_cases [OF ne bg(3) a b_def [symmetric] g_def [symmetric]])
  next
    case False
    let ?m = "column b g mx my ?w mh (take ?k wins)"
    let ?s = "column b g (mx + ?w + g) my (mw - ?w - g) mh (drop ?k wins)"
    have k: "?k < length wins" "length ?m = ?k" using False bg(3) by auto
    have r: "column_room b g ?w mh (int (length (take ?k wins)))"
      "column_room b g (mw - ?w - g) mh (int (length (drop ?k wins)))"
      using room bg(3) False by (auto simp: tile_room_def Let_def b_def g_def a of_nat_diff min_def)
    have t: "tile wins mon cfg ! l = (if l < ?k then ?m ! l else ?s ! (l - ?k))" for l
      using False ne bg(3) k by (simp add: tile_cases [OF ne bg(3) a b_def [symmetric] g_def [symmetric]] Let_def nth_append)
    have cross: "apart g (outer b (?m ! l)) (outer b (?s ! l'))" if "l < ?k" "l' < length wins - ?k" for l l'
      by (rule apart_columns [OF column_inside [OF bg(1,2) r(1)] column_inside [OF bg(1,2) r(2)]])
        (use that k in auto)
    consider "i < ?k" "j < ?k" | "i < ?k" "?k \<le> j" | "?k \<le> i" "j < ?k" | "?k \<le> i" "?k \<le> j" by linarith
    then show ?thesis unfolding b_def [symmetric] g_def [symmetric] t
    proof cases
      case 1
      with k ij show "apart g (outer b (if i < ?k then ?m ! i else ?s ! (i - ?k))) (outer b (if j < ?k then ?m ! j else ?s ! (j - ?k)))"
        by (simp add: column_apart [OF bg(1,2) r(1)])
    next
      case 2
      with ij cross [of i "j - ?k"] show "apart g (outer b (if i < ?k then ?m ! i else ?s ! (i - ?k))) (outer b (if j < ?k then ?m ! j else ?s ! (j - ?k)))"
        by simp
    next
      case 3
      with ij cross [of j "i - ?k"] show "apart g (outer b (if i < ?k then ?m ! i else ?s ! (i - ?k))) (outer b (if j < ?k then ?m ! j else ?s ! (j - ?k)))"
        by (simp add: apart_sym)
    next
      case 4
      with ij show "apart g (outer b (if i < ?k then ?m ! i else ?s ! (i - ?k))) (outer b (if j < ?k then ?m ! j else ?s ! (j - ?k)))"
        by (simp add: column_apart [OF bg(1,2) r(2)])
    qed
  qed
qed

text \<open>The width of the master column is the requested share of the usable width.\<close>

lemma tile_master_w_bounds:
  assumes "0 \<le> mw" "mw < 2 ^ 24" "0 \<le> master_factor cfg" "master_factor cfg \<le> 1" "0 \<le> cfg_gap cfg"
  shows "- (cfg_gap cfg div 2) \<le> tile_master_w mw cfg" "tile_master_w mw cfg \<le> mw - cfg_gap cfg div 2"
  using f32_share_bounds [OF assms(1-4)] assms(5) by (simp_all add: tile_master_w_def sdiv_int_nonneg)

section \<open>The interface of a layout\<close>

text \<open>
  What \<open>arrange\<close> relies on: a layout places windows it was given, each of them at most once. Every
  layout \<^verbatim>\<open>Core::init\<close> registers keeps it.
\<close>

locale layout_policy =
  fixes policy :: layout_fn
  assumes places_given: "1 \<le> nmaster cfg \<Longrightarrow> set (map fst (policy wins mon cfg)) \<subseteq> set wins"
    and places_once: "1 \<le> nmaster cfg \<Longrightarrow> distinct wins \<Longrightarrow> distinct (map fst (policy wins mon cfg))"
begin

lemma placed_window: "1 \<le> nmaster cfg \<Longrightarrow> (win, pos, sz, b) \<in> set (policy wins mon cfg) \<Longrightarrow> win \<in> set wins"
  using places_given [of cfg wins mon] by force

end

interpretation tile_layout: layout_policy tile
  by unfold_locales (simp_all add: tile_wins)

interpretation monocle_layout: layout_policy monocle
  by unfold_locales (simp_all add: monocle_wins)

interpretation unmanaged_layout: layout_policy "\<lambda>_ _ _. []"
  by unfold_locales simp_all

end
