(* ===== verification/Core_State.thy ===== *)
theory Core_State
  imports Wsman_Defs Layout
begin

text \<open>
  \<^verbatim>\<open>class Core\<close>: its state, the commands it accepts, and the internal operations the command handlers
  are made of (\<^verbatim>\<open>core/include/domain/core.hpp\<close>, \<^verbatim>\<open>core/include/backend/commands.hpp\<close>, the first half
  of \<^verbatim>\<open>core/src/core/core_dispatch.cpp\<close>).

  An operation is a function on the state record. The outputs of the core are part of the state, as in
  the source: the backend effects waiting for \<^verbatim>\<open>take_backend_effects\<close>, the per-window flush masks,
  and the events posted to the sink. The null sink drops events.

  User-supplied Lua layouts are functions of the state (\<open>lua_layouts\<close>): the placements a call of the
  script makes through \<^verbatim>\<open>siren.layout.place\<close>. Log output is left out. The payload of a custom event is a
  token.
\<close>

unbundle bit_operations_syntax

section \<open>Events, effects and flushes\<close>

datatype event =
    EvWindowMapped window_id
  | EvWindowUnmapped window_id bool
  | EvFocusChanged window_id
  | EvWorkspaceSwitched workspace_id
  | EvExposeWindow window_id
  | EvRaiseDocks
  | EvDisplayTopologyChanged
  | EvRuntimeStarted
  | EvWindowAdopted window_id bool
  | EvKeyPress "16 word" "8 word" "32 word"
  | EvButton window_id window_id vec2i vec2i "32 word" "8 word" "16 word" bool
  | EvMotion window_id vec2i "16 word"
  | EvClientMessage window_id "32 word" "8 word" "32 word list"
  | EvDestroyNotify window_id
  | EvConfigureNotify window_id vec2i vec2i
  | EvPropertyNotify window_id "32 word"
  | EvWindowAssignedToWorkspace window_id workspace_id
  | EvRuntimeStopping bool
  | EvConfigReloaded
  | EvChildExited int int
  | EvCustomEvent nat

datatype backend_effect_kind =
    EffMapWindow | EffUnmapWindow | EffFocusWindow | EffFocusRoot | EffUpdateWindow | EffWarpPointer
  | EffRaiseWindow | EffLowerWindow | EffCloseWindow

record backend_effect =
  eff_kind :: backend_effect_kind
  eff_window :: window_id
  eff_pos :: vec2i

type_synonym dirty_mask = "8 word"

definition DIRTY_X :: dirty_mask where "DIRTY_X = 1"
definition DIRTY_Y :: dirty_mask where "DIRTY_Y = 2"
definition DIRTY_WIDTH :: dirty_mask where "DIRTY_WIDTH = 4"
definition DIRTY_HEIGHT :: dirty_mask where "DIRTY_HEIGHT = 8"
definition DIRTY_BORDER_WIDTH :: dirty_mask where "DIRTY_BORDER_WIDTH = 16"
definition DIRTY_GEOMETRY :: dirty_mask where
  "DIRTY_GEOMETRY = DIRTY_X OR DIRTY_Y OR DIRTY_WIDTH OR DIRTY_HEIGHT"
definition DIRTY_POSITION :: dirty_mask where "DIRTY_POSITION = DIRTY_X OR DIRTY_Y"
definition DIRTY_SIZE :: dirty_mask where "DIRTY_SIZE = DIRTY_WIDTH OR DIRTY_HEIGHT"

lemmas dirty_defs = DIRTY_X_def DIRTY_Y_def DIRTY_WIDTH_def DIRTY_HEIGHT_def DIRTY_BORDER_WIDTH_def
  DIRTY_GEOMETRY_def DIRTY_POSITION_def DIRTY_SIZE_def

record window_flush =
  flush_window :: window_id
  dirty :: dirty_mask

definition has_config_changes :: "window_flush \<Rightarrow> bool" where
  "has_config_changes f \<longleftrightarrow> dirty f \<noteq> 0"

record fullscreen_like_decision =
  promote :: bool
  fld_pos :: vec2i
  fld_size :: vec2i

section \<open>Commands\<close>

record window_hints =
  no_decorations :: bool
  fixed_size :: bool
  never_focus :: bool
  hint_urgent :: bool
  static_gravity :: bool
  covers_monitor :: bool
  pre_fullscreen :: bool
  is_xembed :: bool
  hint_size_min :: vec2i
  hint_size_max :: vec2i
  hint_size_inc :: vec2i
  hint_size_base :: vec2i

record window_metadata =
  md_window :: window_id
  md_wm_instance :: string
  md_wm_class :: string
  md_title :: string
  md_pid :: "32 word"
  md_type :: window_type
  md_hints :: window_hints
  md_transient_for :: window_id

datatype command_atom =
    FocusWindow window_id
  | SwitchWorkspace workspace_id "monitor_id option"
  | MoveWindowToWorkspace window_id workspace_id
  | MapWindow window_id
  | UnmapWindow window_id
  | SetWindowFullscreen window_id bool bool
  | EnsureWindow window_id workspace_id
  | AssignWindowWorkspace window_id workspace_id
  | SetWindowMetadata window_metadata
  | SetWindowMapped window_id bool
  | SetWindowHiddenByWorkspace window_id bool
  | SetWindowSuppressFocusOnce window_id bool
  | SetWindowFloating window_id bool
  | SetWindowBorderless window_id bool
  | HideWindow window_id
  | ApplyMonitorTopology "monitor list"
  | ReserveMonitorArea monitor_id monitor_edge int
  | SetLayout string
  | SetMasterFactor rat
  | FocusMonitor monitor_id
  | MoveWindowToMonitor window_id monitor_id
  | ReconcileNow
  | RemoveWindowFromAllWorkspaces window_id
  | SetWindowGeometry window_id vec2i vec2i
  | SetWindowPosition window_id vec2i
  | SetWindowSize window_id vec2i
  | SetWindowBorderWidth window_id "32 word"
  | SyncWindowFromConfigureNotify window_id vec2i vec2i "32 word"
  | CloseWindow window_id

datatype command_composite =
    ToggleWindowFloating window_id
  | MoveFocusedWindowToWorkspace workspace_id
  | FocusNextWindow
  | FocusPrevWindow
  | ToggleFocusedWindowFloating
  | SwitchWorkspaceLocalIndex int
  | AdjustMasterFactor rat
  | IncMaster int
  | Zoom

section \<open>The state\<close>

text \<open>A key handler is a closure; the core stores it and hands it back, so a token stands for it.\<close>

record keybinding =
  kb_mods :: "16 word"
  kb_keysym :: "32 word"
  kb_handler :: nat

record core_settings =
  monitor_aliases :: "monitor_alias list"
  cs_monitor_compose :: monitor_compose
  workspace_defs :: "workspace_def list"
  theme :: theme_config

record core_reload_state =
  rs_settings :: core_settings
  rs_keybindings :: "keybinding list"
  rs_layout_cfg :: layout_config
  rs_active_layout :: string

record core =
  layouts :: "string \<rightharpoonup> layout_fn"
  lua_layouts :: "string \<rightharpoonup> layout_fn"
  keybindings :: "keybinding list"
  active_layout :: string
  layout_cfg :: layout_config
  wm :: wsman
  pending_backend_effects :: "backend_effect list"
  pending_window_flushes :: "window_id \<rightharpoonup> window_flush"
  sink_attached :: bool
  event_queue :: "event list"
  settings :: core_settings
  config_path :: string
  has_lua_host :: bool
  runtime_started :: bool

definition init_core :: "core_settings \<Rightarrow> core" where
  "init_core st =
     \<lparr>layouts = Map.empty, lua_layouts = Map.empty, keybindings = [], active_layout = ''tile'',
      layout_cfg = default_layout_config, wm = init_wsman, pending_backend_effects = [],
      pending_window_flushes = Map.empty, sink_attached = False, event_queue = [], settings = st,
      config_path = [], has_lua_host = False, runtime_started = False\<rparr>"

definition upd_wm :: "(wsman \<Rightarrow> wsman) \<Rightarrow> core \<Rightarrow> core" where
  "upd_wm f c = c\<lparr>wm := f (wm c)\<rparr>"

text \<open>Reading and writing through a window pointer.\<close>

definition win_at :: "core \<Rightarrow> wptr \<Rightarrow> window" where
  "win_at c p = heap (wm c) p"

definition set_win :: "wptr \<Rightarrow> (window \<Rightarrow> window) \<Rightarrow> core \<Rightarrow> core" where
  "set_win p f c = upd_wm (upd_win p f) c"

definition workspace_count :: "core \<Rightarrow> int" where
  "workspace_count c = int (length (workspaces (wm c)))"

definition is_workspace_visible :: "core \<Rightarrow> workspace_id \<Rightarrow> bool" where
  "is_workspace_visible c w \<longleftrightarrow> (\<exists>m\<in>set (monitors (wm c)). active_ws m = w)"

definition monitor_state :: "core \<Rightarrow> monitor_id \<Rightarrow> monitor option" where
  "monitor_state c m = (if is_mon_valid (wm c) m then Some (monitors (wm c) ! nat m) else None)"

definition workspace_state :: "core \<Rightarrow> workspace_id \<Rightarrow> workspace option" where
  "workspace_state c w = (if is_ws_valid (wm c) w then Some (workspaces (wm c) ! nat w) else None)"

section \<open>Inline operations of the class\<close>

definition register_layout :: "string \<Rightarrow> layout_fn \<Rightarrow> core \<Rightarrow> core" where
  "register_layout n f c = c\<lparr>layouts := (layouts c)(n \<mapsto> f)\<rparr>"

definition register_lua_layout :: "string \<Rightarrow> layout_fn \<Rightarrow> core \<Rightarrow> core" where
  "register_lua_layout n f c = c\<lparr>lua_layouts := (lua_layouts c)(n \<mapsto> f)\<rparr>"

definition register_keybinding :: "16 word \<Rightarrow> 32 word \<Rightarrow> nat \<Rightarrow> core \<Rightarrow> core" where
  "register_keybinding mods keysym fn c =
     c\<lparr>keybindings := keybindings c @ [\<lparr>kb_mods = mods, kb_keysym = keysym, kb_handler = fn\<rparr>]\<rparr>"

definition set_window_factory :: "(window_id \<Rightarrow> window option) \<Rightarrow> core \<Rightarrow> core" where
  "set_window_factory f c = upd_wm (\<lambda>s. s\<lparr>window_factory := Some f\<rparr>) c"

definition bind_lua_host :: "core \<Rightarrow> core" where
  "bind_lua_host c = c\<lparr>has_lua_host := True\<rparr>"

definition set_config_path :: "string \<Rightarrow> core \<Rightarrow> core" where
  "set_config_path p c = c\<lparr>config_path := p\<rparr>"

text \<open>\<^verbatim>\<open>apply_settings\<close>; \<open>None\<close> where \<^const>\<open>update_workspace_defs\<close> reads out of bounds.\<close>

definition apply_settings :: "core_settings \<Rightarrow> core \<Rightarrow> core option" where
  "apply_settings next c =
     (case update_workspace_defs (workspace_defs next) (wm c) of
        None \<Rightarrow> None
      | Some s \<Rightarrow>
          Some (c\<lparr>settings := next,
                  wm := (if runtime_started c
                         then assign_workspaces (monitor_aliases next) (cs_monitor_compose next) s else s)\<rparr>))"

definition mark_runtime_started :: "bool \<Rightarrow> core \<Rightarrow> core" where
  "mark_runtime_started b c = c\<lparr>runtime_started := b\<rparr>"

definition monitor_inset :: "core \<Rightarrow> monitor_edge \<Rightarrow> monitor_id \<Rightarrow> int" where
  "monitor_inset c e m =
     (if is_mon_valid (wm c) m then inset (monitors (wm c) ! nat m) e
      else fold (\<lambda>mon acc. max acc (inset mon e)) (monitors (wm c)) 0)"

definition clear_reloadable_runtime_state :: "core \<Rightarrow> core" where
  "clear_reloadable_runtime_state c = c\<lparr>keybindings := [], lua_layouts := Map.empty\<rparr>"

definition focused_window_state :: "core \<Rightarrow> wptr option" where
  "focused_window_state c =
     (let w = fs_window (get_focus_state (wm c)) in
      if w = NO_WINDOW then None else find_window_in_all (wm c) w)"

definition active_workspace_at_point :: "core \<Rightarrow> int \<Rightarrow> int \<Rightarrow> workspace_id" where
  "active_workspace_at_point c x y =
     (let mon = monitor_at_physical_point (wm c) x y in
      if mon \<ge> 0 then active_ws_of_monitor (wm c) mon else NO_WORKSPACE)"

definition take_backend_effects :: "core \<Rightarrow> backend_effect list \<times> core" where
  "take_backend_effects c = (pending_backend_effects c, c\<lparr>pending_backend_effects := []\<rparr>)"

definition set_event_sink :: "bool \<Rightarrow> core \<Rightarrow> core" where
  "set_event_sink attached c = c\<lparr>sink_attached := attached\<rparr>"

definition monitor_has_visible_covering_window :: "core \<Rightarrow> monitor_id \<Rightarrow> bool" where
  "monitor_has_visible_covering_window c m =
     (case monitor_state c m of
        None \<Rightarrow> False
      | Some mon \<Rightarrow>
          (case workspace_state c (active_ws mon) of
             None \<Rightarrow> False
           | Some ws \<Rightarrow> \<exists>p\<in>set (windows ws). is_visible (win_at c p) \<and> is_fs (win_at c p)))"

definition post :: "event \<Rightarrow> core \<Rightarrow> core" where
  "post e c = (if sink_attached c then c\<lparr>event_queue := event_queue c @ [e]\<rparr> else c)"

section \<open>Size hints\<close>

text \<open>
  One dimension of \<^verbatim>\<open>apply_size_hints\<close>; the function treats \<open>x\<close> and \<open>y\<close> alike and independently.
\<close>

definition apply_hint :: "int \<Rightarrow> int \<Rightarrow> int \<Rightarrow> int \<Rightarrow> int \<Rightarrow> int" where
  "apply_hint mn mx inc base0 req =
     (let r1 = (if mn > 0 then max req mn else req);
          r2 = (if mx > 0 then min r1 mx else r1)
      in if inc > 1 then
           (let base = (if base0 > 0 then base0 else if mn > 0 then mn else 0);
                n = (r2 - base) sdiv inc;
                r3 = base + n * inc
            in if mn > 0 then max r3 mn else r3)
         else r2)"

definition apply_size_hints :: "window \<Rightarrow> vec2i \<Rightarrow> vec2i" where
  "apply_size_hints w req =
     (apply_hint (fst (size_min w)) (fst (size_max w)) (fst (size_inc w)) (fst (size_base w)) (fst req),
      apply_hint (snd (size_min w)) (snd (size_max w)) (snd (size_inc w)) (snd (size_base w)) (snd req))"

section \<open>Outputs\<close>

definition take_window_flush :: "window_id \<Rightarrow> core \<Rightarrow> window_flush option \<times> core" where
  "take_window_flush win c =
     (case pending_window_flushes c win of
        None \<Rightarrow> (None, c)
      | Some out \<Rightarrow>
          (if has_config_changes out then Some out else None,
           c\<lparr>pending_window_flushes := (pending_window_flushes c)(win := None)\<rparr>))"

definition emit_backend_effect :: "backend_effect_kind \<Rightarrow> window_id \<Rightarrow> core \<Rightarrow> core" where
  "emit_backend_effect k win c =
     c\<lparr>pending_backend_effects := pending_backend_effects c @
          [\<lparr>eff_kind = k, eff_window = win, eff_pos = (0, 0)\<rparr>]\<rparr>"

definition emit_warp_pointer :: "vec2i \<Rightarrow> core \<Rightarrow> core" where
  "emit_warp_pointer pos c =
     c\<lparr>pending_backend_effects := pending_backend_effects c @
          [\<lparr>eff_kind = EffWarpPointer, eff_window = NO_WINDOW, eff_pos = pos\<rparr>]\<rparr>"

definition ensure_window_flush :: "window_id \<Rightarrow> core \<Rightarrow> window_flush" where
  "ensure_window_flush win c =
     (case pending_window_flushes c win of
        Some f \<Rightarrow> f\<lparr>flush_window := win\<rparr> | None \<Rightarrow> \<lparr>flush_window = win, dirty = 0\<rparr>)"

definition mark_window_dirty :: "window_id \<Rightarrow> dirty_mask \<Rightarrow> core \<Rightarrow> core" where
  "mark_window_dirty win bits c =
     emit_backend_effect EffUpdateWindow win
       (c\<lparr>pending_window_flushes := (pending_window_flushes c)
            (win \<mapsto> (ensure_window_flush win c)\<lparr>dirty := dirty (ensure_window_flush win c) OR bits\<rparr>)\<rparr>)"

section \<open>Visibility\<close>

text \<open>
  The body of the two loops of \<^verbatim>\<open>sync_workspace_visibility\<close> for one window: \<open>v\<close> says whether its
  workspace is the active one of some monitor.
\<close>

definition sync_window_visibility :: "bool \<Rightarrow> wptr \<Rightarrow> core \<Rightarrow> core" where
  "sync_window_visibility v p c =
     (let w = win_at c p in
      if \<not> v then
        (let c1 = set_win p (\<lambda>x. x\<lparr>hidden_by_workspace := True\<rparr>) c in
         if \<not> hidden_by_workspace w \<and> \<not> hidden_explicitly w \<and> mapped w
         then emit_backend_effect EffUnmapWindow (win_id w) c1 else c1)
      else if hidden_by_workspace w then
        (let c1 = set_win p (\<lambda>x. x\<lparr>hidden_by_workspace := False\<rparr>) c in
         if \<not> hidden_explicitly w
         then emit_backend_effect EffMapWindow (win_id w) (set_win p (\<lambda>x. x\<lparr>mapped := True\<rparr>) c1) else c1)
      else c)"

definition active_somewhere :: "core \<Rightarrow> nat \<Rightarrow> bool" where
  "active_somewhere c i \<longleftrightarrow> (\<exists>m\<in>set (monitors (wm c)). active_ws m = int i)"

definition sync_workspace_visibility :: "core \<Rightarrow> core" where
  "sync_workspace_visibility c =
     fold (\<lambda>i c'. fold (sync_window_visibility (active_somewhere c i)) (windows (workspaces (wm c) ! i)) c')
       [0..<length (workspaces (wm c))] c"

end
