(* ===== verification/Core_Dispatch.thy ===== *)
theory Core_Dispatch
  imports Core_State
begin

text \<open>
  The rest of \<^verbatim>\<open>core/src/core/core_dispatch.cpp\<close>: focus, fullscreen stacking, arranging, and one
  definition per command handler. A handler returns the \<^verbatim>\<open>bool\<close> of its C++ counterpart with the new
  state; \<open>dispatch_atom\<close> and \<open>dispatch_composite\<close> are the two reducer entry points.
\<close>

section \<open>Fullscreen stacking and focus\<close>

definition pin_fullscreen_to_monitor :: "wptr \<Rightarrow> workspace_id \<Rightarrow> core \<Rightarrow> core" where
  "pin_fullscreen_to_monitor p w c =
     (let m = monitor_of (wm c) w in
      if m < 0 then c
      else if m \<ge> int (length (monitors (wm c))) then c
      else
        let (phy_pos, phy_size) = physical (monitors (wm c) ! nat m) in
        if \<not> is_self_managed (win_at c p)
        then mark_window_dirty (win_id (win_at c p)) DIRTY_GEOMETRY
               (set_win p (\<lambda>x. x\<lparr>win_pos := phy_pos, win_size := phy_size\<rparr>) c)
        else c)"

definition set_ws_mode :: "workspace_id \<Rightarrow> workspace_mode \<Rightarrow> core \<Rightarrow> core" where
  "set_ws_mode w m c = upd_wm (upd_ws w (\<lambda>ws. ws\<lparr>ws_mode := m\<rparr>)) c"

definition update_ws_mode :: "workspace_id \<Rightarrow> core \<Rightarrow> core" where
  "update_ws_mode w c =
     (let ws = workspaces (wm c) ! nat w; has_fs = has_fullscreen_window (heap (wm c)) ws in
      if has_fs \<and> ws_mode ws \<noteq> ModeFullscreen then post EvRaiseDocks (set_ws_mode w ModeFullscreen c)
      else if \<not> has_fs \<and> ws_mode ws = ModeFullscreen then post EvRaiseDocks (set_ws_mode w ModeNormal c)
      else c)"

definition lower_fullscreen :: "window_id \<Rightarrow> wptr \<Rightarrow> core \<Rightarrow> core" where
  "lower_fullscreen focused_id p c =
     (let w = win_at c p in
      if is_visible w \<and> is_fs w \<and> win_id w \<noteq> focused_id
      then emit_backend_effect EffLowerWindow (win_id w) c else c)"

definition evaluate_workspace_fullscreen :: "workspace_id \<Rightarrow> core \<Rightarrow> core" where
  "evaluate_workspace_fullscreen w c =
     (if w < 0 \<or> w \<ge> workspace_count c then c
      else
        let c1 = update_ws_mode w c; ws = workspaces (wm c1) ! nat w in
        if ws_mode ws \<noteq> ModeFullscreen then c1
        else case focused (heap (wm c1)) ws of
               None \<Rightarrow> c1
             | Some p \<Rightarrow>
                 if \<not> is_visible (win_at c1 p) then c1
                 else if is_fs (win_at c1 p)
                 then emit_backend_effect EffRaiseWindow (win_id (win_at c1 p)) (pin_fullscreen_to_monitor p w c1)
                 else fold (lower_fullscreen (win_id (win_at c1 p))) (windows ws)
                        (emit_backend_effect EffRaiseWindow (win_id (win_at c1 p)) c1))"

definition emit_focus_changed :: "window_id \<Rightarrow> core \<Rightarrow> core" where
  "emit_focus_changed win c =
     (let c1 = post (EvFocusChanged win) c in
      if win \<noteq> NO_WINDOW then
        (let w = workspace_of_window (wm c1) win in
         if w \<ge> 0 then evaluate_workspace_fullscreen w c1 else c1)
      else c1)"

text \<open>
  \<^verbatim>\<open>Core::focus\<close>: \<open>focus_candidate\<close> resolves \<open>NO_WINDOW\<close> to the best visible window of the current
  workspace, \<open>focus_target\<close> drops a target that is unknown or not visible.
\<close>

definition focus_candidate :: "core \<Rightarrow> window_id \<Rightarrow> window_id" where
  "focus_candidate c win =
     (if win = NO_WINDOW then
        (case focused (heap (wm c)) (current_ws (wm c)) of
           Some p \<Rightarrow> if is_visible (win_at c p) then win_id (win_at c p) else NO_WINDOW
         | None \<Rightarrow> NO_WINDOW)
      else win)"

definition focus_target :: "core \<Rightarrow> window_id \<Rightarrow> window_id" where
  "focus_target c win =
     (let w1 = focus_candidate c win in
      if w1 \<noteq> NO_WINDOW then
        (case find_window (wm c) w1 NO_WORKSPACE of
           None \<Rightarrow> NO_WINDOW
         | Some p \<Rightarrow> if \<not> is_visible (win_at c p) then NO_WINDOW else w1)
      else w1)"

definition focus :: "window_id \<Rightarrow> core \<Rightarrow> core" where
  "focus win c =
     (let t = focus_target c win;
          (ok, s') = (if t \<noteq> NO_WINDOW then focus_window t (wm c) else (False, wm c));
          c1 = c\<lparr>wm := s'\<rparr>
      in if t \<noteq> NO_WINDOW \<and> ok
         then emit_focus_changed t (emit_backend_effect EffFocusWindow t c1)
         else emit_focus_changed NO_WINDOW (emit_backend_effect EffFocusRoot NO_WINDOW c1))"

definition core_focus_monitor_at_point :: "int \<Rightarrow> int \<Rightarrow> core \<Rightarrow> bool \<times> core" where
  "core_focus_monitor_at_point x y c =
     (let (changed, s') = focus_monitor_at_point x y (wm c) in
      if \<not> changed then (False, c\<lparr>wm := s'\<rparr>) else (True, focus NO_WINDOW (c\<lparr>wm := s'\<rparr>)))"

section \<open>Geometry commands\<close>

definition with_window :: "window_id \<Rightarrow> (wptr \<Rightarrow> core \<Rightarrow> core) \<Rightarrow> core \<Rightarrow> bool \<times> core" where
  "with_window win f c =
     (case find_window_in_all (wm c) win of None \<Rightarrow> (False, c) | Some p \<Rightarrow> (True, f p c))"

definition set_window_geometry :: "window_id \<Rightarrow> vec2i \<Rightarrow> vec2i \<Rightarrow> core \<Rightarrow> bool \<times> core" where
  "set_window_geometry win pos sz =
     with_window win (\<lambda>p c. mark_window_dirty win DIRTY_GEOMETRY
       (set_win p (\<lambda>x. x\<lparr>win_pos := pos, win_size := (if floating x then apply_size_hints x sz else sz)\<rparr>) c))"

definition set_window_position :: "window_id \<Rightarrow> vec2i \<Rightarrow> core \<Rightarrow> bool \<times> core" where
  "set_window_position win pos =
     with_window win (\<lambda>p c. mark_window_dirty win DIRTY_POSITION (set_win p (\<lambda>x. x\<lparr>win_pos := pos\<rparr>) c))"

definition set_window_size :: "window_id \<Rightarrow> vec2i \<Rightarrow> core \<Rightarrow> bool \<times> core" where
  "set_window_size win sz =
     with_window win (\<lambda>p c. mark_window_dirty win DIRTY_SIZE
       (set_win p (\<lambda>x. x\<lparr>win_size := (if floating x \<or> borderless x then apply_size_hints x sz else sz)\<rparr>) c))"

definition set_window_border_width :: "window_id \<Rightarrow> 32 word \<Rightarrow> core \<Rightarrow> bool \<times> core" where
  "set_window_border_width win b =
     with_window win (\<lambda>p c. mark_window_dirty win DIRTY_BORDER_WIDTH (set_win p (\<lambda>x. x\<lparr>border_width := b\<rparr>) c))"

text \<open>A field of the notification is taken over unless a change of it is still waiting to be flushed.\<close>

definition field_free :: "dirty_mask \<Rightarrow> window_id \<Rightarrow> core \<Rightarrow> bool" where
  "field_free fld win c \<longleftrightarrow>
     (case pending_window_flushes c win of None \<Rightarrow> True | Some f \<Rightarrow> dirty f AND fld = 0)"

definition sync_window_from_configure_notify ::
  "window_id \<Rightarrow> vec2i \<Rightarrow> vec2i \<Rightarrow> 32 word \<Rightarrow> core \<Rightarrow> bool \<times> core" where
  "sync_window_from_configure_notify win pos sz b =
     with_window win (\<lambda>p c. set_win p (\<lambda>x. x\<lparr>
       win_pos := (if field_free DIRTY_X win c then fst pos else fst (win_pos x),
                   if field_free DIRTY_Y win c then snd pos else snd (win_pos x)),
       win_size := (if field_free DIRTY_WIDTH win c then fst sz else fst (win_size x),
                    if field_free DIRTY_HEIGHT win c then snd sz else snd (win_size x)),
       border_width := (if field_free DIRTY_BORDER_WIDTH win c then b else border_width x)\<rparr>) c)"

section \<open>Arranging\<close>

text \<open>The placement sink of \<^verbatim>\<open>arrange\<close>.\<close>

definition place :: "placement \<Rightarrow> core \<Rightarrow> core" where
  "place pl c =
     (let (win, pos, sz, b) = pl;
          sz' = (case find_window_in_all (wm c) win of
                   Some p \<Rightarrow>
                     (let w = win_at c p in
                      if size_locked w \<and> fst (win_size w) > 0 \<and> snd (win_size w) > 0 then win_size w else sz)
                 | None \<Rightarrow> sz);
          c1 = snd (set_window_geometry win pos sz' c);
          c2 = snd (set_window_border_width win b c1)
      in emit_backend_effect EffUpdateWindow win c2)"

definition tiled_windows :: "core \<Rightarrow> workspace \<Rightarrow> window_id list" where
  "tiled_windows c ws =
     map (\<lambda>p. win_id (win_at c p))
       (filter (\<lambda>p. let w = win_at c p in
          is_visible w \<and> \<not> floating w \<and> \<not> fullscreen w \<and> \<not> borderless w \<and> \<not> is_self_managed w) (windows ws))"

definition theme_border :: "core \<Rightarrow> 32 word" where
  "theme_border c = word_of_int (border_thickness (theme (settings c)))"

definition border_floating :: "wptr \<Rightarrow> core \<Rightarrow> core" where
  "border_floating p c =
     (let w = win_at c p in
      if \<not> is_visible w \<or> \<not> floating w \<or> fullscreen w \<or> borderless w then c
      else if border_width w = theme_border c then c
      else emit_backend_effect EffUpdateWindow (win_id w) (snd (set_window_border_width (win_id w) (theme_border c) c)))"

definition arrange_config :: "core \<Rightarrow> layout_config" where
  "arrange_config c =
     (layout_cfg c)\<lparr>cfg_border := border_thickness (theme (settings c)), cfg_gap := gap (theme (settings c))\<rparr>"

text \<open>
  One monitor. A Lua layout without a Lua host leaves the monitor alone, floating borders included
  (the source \<^verbatim>\<open>continue\<close>s).
\<close>

definition arrange_monitor :: "monitor \<Rightarrow> core \<Rightarrow> core" where
  "arrange_monitor mon c =
     (if active_ws mon < 0 then c
      else
        let ws = workspace_at (wm c) (active_ws mon);
            tiled = tiled_windows c ws;
            finish = (\<lambda>pls. fold border_floating (windows ws) (fold place pls c))
        in case layouts c (active_layout c) of
             Some f \<Rightarrow> finish (f tiled mon (arrange_config c))
           | None \<Rightarrow>
               if \<not> has_lua_host c then c
               else case lua_layouts c (active_layout c) of
                      None \<Rightarrow> c
                    | Some f \<Rightarrow> finish (f tiled mon (arrange_config c)))"

definition arrange :: "core \<Rightarrow> core" where
  "arrange c =
     (if layouts c (active_layout c) = None \<and> lua_layouts c (active_layout c) = None then c
      else fold arrange_monitor (monitors (wm c)) c)"

definition reconcile :: "core \<Rightarrow> core" where
  "reconcile c = focus NO_WINDOW (arrange (sync_workspace_visibility c))"

definition core_init :: "monitor list \<Rightarrow> core \<Rightarrow> core" where
  "core_init mons c =
     (let c1 = register_layout ''unmanaged'' (\<lambda>_ _ _. []) (register_layout ''monocle'' monocle (register_layout ''tile'' tile c));
          c2 = (if mons \<noteq> [] then upd_wm (set_monitors mons) c1 else c1)
      in upd_wm (init_from_defs (workspace_defs (settings c2)) (monitor_aliases (settings c2))
                   (cs_monitor_compose (settings c2))) c2)"

section \<open>Command handlers\<close>

definition dispatch_FocusWindow :: "window_id \<Rightarrow> core \<Rightarrow> bool \<times> core" where
  "dispatch_FocusWindow win = with_window win (\<lambda>_. focus win)"

definition dispatch_SwitchWorkspace :: "workspace_id \<Rightarrow> monitor_id option \<Rightarrow> core \<Rightarrow> bool \<times> core" where
  "dispatch_SwitchWorkspace w mi c =
     (let t0 = (case mi of Some m \<Rightarrow> m | None \<Rightarrow> monitor_of (wm c) w);
          target_mon = (if t0 < 0 then focused_monitor (wm c) else t0);
          (switched, s') = switch_to w (monitor_aliases (settings c))
                             (case mi of Some m \<Rightarrow> m | None \<Rightarrow> NO_MONITOR) (cs_monitor_compose (settings c)) (wm c);
          c1 = c\<lparr>wm := s'\<rparr>
      in if \<not> switched then (False, c1)
         else
           let c2 = arrange (sync_workspace_visibility c1);
               c3 = (if target_mon = focused_monitor (wm c2) then focus NO_WINDOW c2 else c2)
           in (True, post (EvWorkspaceSwitched w) (evaluate_workspace_fullscreen w c3)))"

definition dispatch_MoveWindowToWorkspace :: "window_id \<Rightarrow> workspace_id \<Rightarrow> core \<Rightarrow> bool \<times> core" where
  "dispatch_MoveWindowToWorkspace win w c =
     (if w < 0 \<or> w \<ge> workspace_count c then (False, c)
      else case find_window_in_all (wm c) win of
             None \<Rightarrow> (False, c)
           | Some p \<Rightarrow>
               (let src = workspace_of_window (wm c) win;
                    was_fs = (borderless (win_at c p) \<or> fullscreen (win_at c p));
                    c1 = post (EvWindowAssignedToWorkspace win w) (upd_wm (move_window_to w p) c);
                    c2 = arrange (sync_workspace_visibility c1);
                    c3 = (if was_fs
                          then evaluate_workspace_fullscreen w (evaluate_workspace_fullscreen src
                                 (pin_fullscreen_to_monitor p w c2))
                          else c2);
                    x = win_at c3 p;
                    focus_moved = (is_workspace_visible c3 w \<and> is_visible x \<and> \<not> suppress_focus_once x)
                in (True, focus (if focus_moved then win_id x else NO_WINDOW) c3)))"

definition dispatch_MoveFocusedWindowToWorkspace :: "workspace_id \<Rightarrow> core \<Rightarrow> bool \<times> core" where
  "dispatch_MoveFocusedWindowToWorkspace w c =
     (case focused (heap (wm c)) (current_ws (wm c)) of
        None \<Rightarrow> (False, c)
      | Some p \<Rightarrow> dispatch_MoveWindowToWorkspace (win_id (win_at c p)) w c)"

definition dispatch_MapWindow :: "window_id \<Rightarrow> core \<Rightarrow> bool \<times> core" where
  "dispatch_MapWindow win =
     with_window win (\<lambda>p c.
       if \<not> mapped (win_at c p) then
         (let c1 = set_win p (\<lambda>x. x\<lparr>mapped := True\<rparr>) c in
          if is_visible (win_at c1 p) then emit_backend_effect EffMapWindow (win_id (win_at c1 p)) c1 else c1)
       else c)"

definition dispatch_UnmapWindow :: "window_id \<Rightarrow> core \<Rightarrow> bool \<times> core" where
  "dispatch_UnmapWindow win =
     with_window win (\<lambda>p c.
       if mapped (win_at c p)
       then emit_backend_effect EffUnmapWindow (win_id (win_at c p)) (set_win p (\<lambda>x. x\<lparr>mapped := False\<rparr>) c)
       else c)"

definition fullscreen_monitor :: "core \<Rightarrow> workspace_id \<Rightarrow> monitor option" where
  "fullscreen_monitor c w =
     (case find (\<lambda>m. active_ws m = w) (monitors (wm c)) of
        Some m \<Rightarrow> Some m
      | None \<Rightarrow>
          (let owner = monitor_of (wm c) w in
           if 0 \<le> owner \<and> owner < int (length (monitors (wm c))) then Some (monitors (wm c) ! nat owner)
           else case monitors (wm c) of [] \<Rightarrow> None | m # _ \<Rightarrow> Some m))"

definition enter_fullscreen :: "window \<Rightarrow> window" where
  "enter_fullscreen x =
     (let y = (if \<not> fullscreen x
               then x\<lparr>border_before_fullscreen := border_width x, pos_before_fullscreen := win_pos x,
                      size_before_fullscreen := win_size x\<rparr>
               else x)
      in y\<lparr>fullscreen := True, border_width := 0\<rparr>)"

definition dispatch_SetWindowFullscreen :: "window_id \<Rightarrow> bool \<Rightarrow> bool \<Rightarrow> core \<Rightarrow> bool \<times> core" where
  "dispatch_SetWindowFullscreen win enabled preserve_geometry =
     with_window win (\<lambda>p c.
       let w = workspace_of_window (wm c) win; mon = fullscreen_monitor c w in
       if enabled then
         (let c1 = mark_window_dirty win DIRTY_BORDER_WIDTH (set_win p enter_fullscreen c);
              c2 = (case mon of
                      Some m \<Rightarrow>
                        if \<not> preserve_geometry
                        then mark_window_dirty win DIRTY_GEOMETRY
                               (set_win p (\<lambda>x. x\<lparr>win_pos := fst (physical m), win_size := snd (physical m)\<rparr>) c1)
                        else c1
                    | None \<Rightarrow> c1);
              c3 = post EvRaiseDocks (arrange c2)
          in if w \<ge> 0 \<and> is_workspace_visible c3 w \<and> is_visible (win_at c3 p) then focus win c3
             else if w \<ge> 0 then evaluate_workspace_fullscreen w c3 else c3)
       else if \<not> fullscreen (win_at c p) then c
       else
         (let c1 = mark_window_dirty win DIRTY_BORDER_WIDTH
                     (set_win p (\<lambda>x. x\<lparr>fullscreen := False, border_width := border_before_fullscreen x\<rparr>) c);
              c2 = (if floating (win_at c1 p)
                    then mark_window_dirty win DIRTY_GEOMETRY
                           (set_win p (\<lambda>x. x\<lparr>win_pos := pos_before_fullscreen x, win_size := size_before_fullscreen x\<rparr>) c1)
                    else c1);
              c3 = arrange c2;
              c4 = (if w \<ge> 0 then evaluate_workspace_fullscreen w c3 else c3)
          in post EvRaiseDocks c4))"

definition dispatch_EnsureWindow :: "window_id \<Rightarrow> workspace_id \<Rightarrow> core \<Rightarrow> bool \<times> core" where
  "dispatch_EnsureWindow win w c =
     (if win = NO_WINDOW then (False, c)
      else case find_window_in_all (wm c) win of
             None \<Rightarrow> (True, upd_wm (create_window win w) c)
           | Some p \<Rightarrow>
               (True, if 0 \<le> w \<and> w < workspace_count c then upd_wm (move_window_to w p) c else c))"

definition dispatch_AssignWindowWorkspace :: "window_id \<Rightarrow> workspace_id \<Rightarrow> core \<Rightarrow> bool \<times> core" where
  "dispatch_AssignWindowWorkspace win w =
     with_window win (\<lambda>p c. post (EvWindowAssignedToWorkspace win w) (upd_wm (move_window_to w p) c))"

definition dispatch_SetWindowMapped :: "window_id \<Rightarrow> bool \<Rightarrow> core \<Rightarrow> bool \<times> core" where
  "dispatch_SetWindowMapped win b = with_window win (\<lambda>p. set_win p (\<lambda>x. x\<lparr>mapped := b\<rparr>))"

definition dispatch_SetWindowHiddenByWorkspace :: "window_id \<Rightarrow> bool \<Rightarrow> core \<Rightarrow> bool \<times> core" where
  "dispatch_SetWindowHiddenByWorkspace win b = with_window win (\<lambda>p. set_win p (\<lambda>x. x\<lparr>hidden_by_workspace := b\<rparr>))"

definition dispatch_SetWindowSuppressFocusOnce :: "window_id \<Rightarrow> bool \<Rightarrow> core \<Rightarrow> bool \<times> core" where
  "dispatch_SetWindowSuppressFocusOnce win b = with_window win (\<lambda>p. set_win p (\<lambda>x. x\<lparr>suppress_focus_once := b\<rparr>))"

definition dispatch_SetWindowFloating :: "window_id \<Rightarrow> bool \<Rightarrow> core \<Rightarrow> bool \<times> core" where
  "dispatch_SetWindowFloating win b = with_window win (\<lambda>p. set_win p (\<lambda>x. x\<lparr>floating := b\<rparr>))"

text \<open>The classification \<^verbatim>\<open>SetWindowMetadata\<close> makes from the backend's hints.\<close>

definition hints_self_managed :: "window_hints \<Rightarrow> bool" where
  "hints_self_managed h \<longleftrightarrow> pre_fullscreen h \<and> \<not> is_xembed h \<and> covers_monitor h"

definition hints_borderless :: "window_hints \<Rightarrow> bool" where
  "hints_borderless h \<longleftrightarrow>
     hints_self_managed h \<or> (\<not> hints_self_managed h \<and> covers_monitor h \<and> fixed_size h)"

definition apply_metadata :: "window_metadata \<Rightarrow> window \<Rightarrow> window" where
  "apply_metadata md x =
     (let h = md_hints md in
      x\<lparr>wm_instance := md_wm_instance md, wm_class := md_wm_class md, title := md_title md, pid := md_pid md,
        win_type := md_type md, size_locked := fixed_size h, no_input_focus := never_focus h,
        urgent := hint_urgent h, preserve_position := static_gravity h, size_min := hint_size_min h,
        size_max := hint_size_max h, size_inc := hint_size_inc h, size_base := hint_size_base h,
        self_managed := hints_self_managed h, promote_to_borderless := hints_borderless h\<rparr>)"

definition route_transient :: "window_id \<Rightarrow> window_id \<Rightarrow> wptr \<Rightarrow> core \<Rightarrow> core" where
  "route_transient win parent p c =
     (if parent \<noteq> NO_WINDOW then
        (let parent_ws = workspace_of_window (wm c) parent;
             c1 = (if parent_ws \<ge> 0
                   then snd (dispatch_AssignWindowWorkspace win parent_ws (snd (dispatch_SetWindowSuppressFocusOnce win True c)))
                   else c)
         in if \<not> floating (win_at c1 p) then snd (dispatch_SetWindowFloating win True c1) else c1)
      else c)"

definition dispatch_SetWindowMetadata :: "window_metadata \<Rightarrow> core \<Rightarrow> bool \<times> core" where
  "dispatch_SetWindowMetadata md =
     with_window (md_window md) (\<lambda>p c.
       let win = md_window md;
           c1 = route_transient win (md_transient_for md) p (set_win p (apply_metadata md) c);
           x1 = win_at c1 p;
           c2 = (if \<not> floating x1 \<and> (is_dialog x1 \<or> win_type x1 = TUtility \<or> win_type x1 = TSplash \<or>
                     md_transient_for md \<noteq> NO_WINDOW)
                 then snd (dispatch_SetWindowFloating win True c1) else c1);
           x2 = win_at c2 p
       in if \<not> floating x2 \<and> \<not> borderless x2 \<and> size_locked x2 \<and> \<not> hints_borderless (md_hints md)
          then snd (dispatch_SetWindowFloating win True c2) else c2)"

definition dispatch_SetWindowBorderless :: "window_id \<Rightarrow> bool \<Rightarrow> core \<Rightarrow> bool \<times> core" where
  "dispatch_SetWindowBorderless win b =
     with_window win (\<lambda>p c.
       let c1 = set_win p (\<lambda>x. x\<lparr>borderless := b, promote_to_borderless := False\<rparr>) c;
           x = win_at c1 p;
           c2 = (if b \<and> border_width x \<noteq> 0 \<and> \<not> is_self_managed x
                 then emit_backend_effect EffUpdateWindow (win_id x) (set_win p (\<lambda>x. x\<lparr>border_width := 0\<rparr>) c1)
                 else c1);
           w = workspace_of_window (wm c2) win
       in if w \<ge> 0 then evaluate_workspace_fullscreen w c2 else c2)"

definition dispatch_ToggleWindowFloating :: "window_id \<Rightarrow> core \<Rightarrow> bool \<times> core" where
  "dispatch_ToggleWindowFloating win = with_window win (\<lambda>p. set_win p (\<lambda>x. x\<lparr>floating := \<not> floating x\<rparr>))"

definition evaluate_fullscreen_like_request :: "core \<Rightarrow> window_id \<Rightarrow> vec2i \<Rightarrow> bool \<Rightarrow> fullscreen_like_decision" where
  "evaluate_fullscreen_like_request c win requested has_size =
     (let no = \<lparr>promote = False, fld_pos = (0, 0), fld_size = (0, 0)\<rparr> in
      if \<not> has_size then no
      else case find_window_in_all (wm c) win of
             None \<Rightarrow> no
           | Some p \<Rightarrow>
               (let w = win_at c p in
                if floating w \<or> borderless w \<or> preserve_position w then no
                else if \<not> size_locked w then no
                else
                  let m = monitor_of (wm c) (workspace_of_window (wm c) win) in
                  if m < 0 \<or> m \<ge> int (length (monitors (wm c))) then no
                  else
                    let mon = monitors (wm c) ! nat m;
                        usable_h = snd (mon_size mon) - max 0 (top_inset mon) - max 0 (bottom_inset mon)
                    in if fst requested \<ge> fst (mon_size mon) \<and> snd requested \<ge> usable_h
                       then \<lparr>promote = True, fld_pos = mon_pos mon, fld_size = mon_size mon\<rparr> else no))"

definition focus_result :: "wptr option \<times> wsman \<Rightarrow> core \<Rightarrow> bool \<times> core" where
  "focus_result r c =
     (let c1 = c\<lparr>wm := snd r\<rparr> in
      (True, focus (case fst r of
                      Some p \<Rightarrow> if is_visible (win_at c1 p) then win_id (win_at c1 p) else NO_WINDOW
                    | None \<Rightarrow> NO_WINDOW) c1))"

definition dispatch_FocusNextWindow :: "core \<Rightarrow> bool \<times> core" where
  "dispatch_FocusNextWindow c = focus_result (focus_next (wm c)) c"

definition dispatch_FocusPrevWindow :: "core \<Rightarrow> bool \<times> core" where
  "dispatch_FocusPrevWindow c = focus_result (focus_prev (wm c)) c"

definition dispatch_FocusMonitor :: "monitor_id \<Rightarrow> core \<Rightarrow> bool \<times> core" where
  "dispatch_FocusMonitor n c =
     (case monitor_state c n of
        None \<Rightarrow> (False, c)
      | Some mon \<Rightarrow>
          if active_ws mon < 0 then (False, c)
          else
            let c1 = (if n \<noteq> focused_monitor (wm c)
                      then focus NO_WINDOW (upd_wm (set_focused_monitor n) c) else c)
            in (True, emit_warp_pointer (vec2i16_of (mon_center mon)) c1))"

definition dispatch_MoveWindowToMonitor :: "window_id \<Rightarrow> monitor_id \<Rightarrow> core \<Rightarrow> bool \<times> core" where
  "dispatch_MoveWindowToMonitor win0 n c =
     (case monitor_state c n of
        None \<Rightarrow> (False, c)
      | Some mon \<Rightarrow>
          if active_ws mon < 0 then (False, c)
          else if win0 = NO_WINDOW then
            (case focused (heap (wm c)) (current_ws (wm c)) of
               None \<Rightarrow> (False, c)
             | Some p \<Rightarrow> dispatch_MoveWindowToWorkspace (win_id (win_at c p)) (active_ws mon) c)
          else dispatch_MoveWindowToWorkspace win0 (active_ws mon) c)"

definition dispatch_ToggleFocusedWindowFloating :: "core \<Rightarrow> bool \<times> core" where
  "dispatch_ToggleFocusedWindowFloating c =
     (case focused (heap (wm c)) (current_ws (wm c)) of
        None \<Rightarrow> (False, c)
      | Some p \<Rightarrow> (True, arrange (snd (dispatch_ToggleWindowFloating (win_id (win_at c p)) c))))"

definition dispatch_SwitchWorkspaceLocalIndex :: "int \<Rightarrow> core \<Rightarrow> bool \<times> core" where
  "dispatch_SwitchWorkspaceLocalIndex li c =
     (let mon = focused_monitor (wm c); (ok, s') = switch_local_index mon li (wm c); c1 = c\<lparr>wm := s'\<rparr> in
      if \<not> ok then (False, c1)
      else
        let w = active_ws_of_monitor (wm c1) mon; c2 = reconcile c1
        in (True, if w \<ge> 0 then post (EvWorkspaceSwitched w) c2 else c2))"

definition dispatch_HideWindow :: "window_id \<Rightarrow> core \<Rightarrow> bool \<times> core" where
  "dispatch_HideWindow win =
     with_window win (\<lambda>p c.
       let c1 = set_win p (\<lambda>x. x\<lparr>hidden_explicitly := True\<rparr>) c in
       if is_visible (win_at c p) then emit_backend_effect EffUnmapWindow (win_id (win_at c p)) c1 else c1)"

definition dispatch_ApplyMonitorTopology :: "monitor list \<Rightarrow> core \<Rightarrow> bool \<times> core" where
  "dispatch_ApplyMonitorTopology mons c =
     (True, reconcile (upd_wm (assign_workspaces (monitor_aliases (settings c)) (cs_monitor_compose (settings c)))
                        (upd_wm (set_monitors mons) c)))"

definition reserve_one :: "monitor_edge \<Rightarrow> int \<Rightarrow> nat \<Rightarrow> core \<Rightarrow> core" where
  "reserve_one e px i c =
     (let delta = px - inset (monitors (wm c) ! i) e in
      if delta \<noteq> 0 then upd_wm (adjust_monitor_inset (int i) e delta) c else c)"

definition dispatch_ReserveMonitorArea :: "monitor_id \<Rightarrow> monitor_edge \<Rightarrow> int \<Rightarrow> core \<Rightarrow> bool \<times> core" where
  "dispatch_ReserveMonitorArea m e px c =
     (True,
      if m < 0 then fold (reserve_one e px) [0..<length (monitors (wm c))] c
      else if m < int (length (monitors (wm c))) then reserve_one e px (nat m) c
      else c)"

definition dispatch_SetLayout :: "string \<Rightarrow> core \<Rightarrow> bool \<times> core" where
  "dispatch_SetLayout n c =
     (if layouts c n = None then (False, c) else (True, arrange (c\<lparr>active_layout := n\<rparr>)))"

definition f32_lo :: rat where "f32_lo = f32_round (1 / 10)"
definition f32_hi :: rat where "f32_hi = f32_round (9 / 10)"

definition set_master_factor :: "rat \<Rightarrow> core \<Rightarrow> core" where
  "set_master_factor v c = c\<lparr>layout_cfg := (layout_cfg c)\<lparr>master_factor := f32_clamp v f32_lo f32_hi\<rparr>\<rparr>"

definition dispatch_SetMasterFactor :: "rat \<Rightarrow> core \<Rightarrow> bool \<times> core" where
  "dispatch_SetMasterFactor v c = (True, arrange (set_master_factor v c))"

definition dispatch_AdjustMasterFactor :: "rat \<Rightarrow> core \<Rightarrow> bool \<times> core" where
  "dispatch_AdjustMasterFactor d c =
     (True, arrange (set_master_factor (f32_add (master_factor (layout_cfg c)) d) c))"

definition dispatch_IncMaster :: "int \<Rightarrow> core \<Rightarrow> bool \<times> core" where
  "dispatch_IncMaster d c =
     (True, arrange (c\<lparr>layout_cfg := (layout_cfg c)\<lparr>nmaster := max 1 (nmaster (layout_cfg c) + d)\<rparr>\<rparr>))"

definition dispatch_Zoom :: "core \<Rightarrow> bool \<times> core" where
  "dispatch_Zoom c =
     (let (ok, s') = zoom_focused (wm c); c1 = c\<lparr>wm := s'\<rparr> in
      if \<not> ok then (False, c1) else (True, arrange c1))"

definition dispatch_ReconcileNow :: "core \<Rightarrow> bool \<times> core" where
  "dispatch_ReconcileNow c = (True, arrange c)"

definition dispatch_RemoveWindowFromAllWorkspaces :: "window_id \<Rightarrow> core \<Rightarrow> bool \<times> core" where
  "dispatch_RemoveWindowFromAllWorkspaces win c =
     (let w = workspace_of_window (wm c) win;
          c1 = upd_wm (remove_window_from_all win) c;
          c2 = c1\<lparr>pending_window_flushes := (pending_window_flushes c1)(win := None)\<rparr>
      in (True, if w \<ge> 0 then evaluate_workspace_fullscreen w c2 else c2))"

definition dispatch_CloseWindow :: "window_id \<Rightarrow> core \<Rightarrow> bool \<times> core" where
  "dispatch_CloseWindow win = with_window win (\<lambda>_. emit_backend_effect EffCloseWindow win)"

section \<open>The reducer\<close>

fun dispatch_atom :: "command_atom \<Rightarrow> core \<Rightarrow> bool \<times> core" where
  "dispatch_atom (FocusWindow win) = dispatch_FocusWindow win"
| "dispatch_atom (SwitchWorkspace w m) = dispatch_SwitchWorkspace w m"
| "dispatch_atom (MoveWindowToWorkspace win w) = dispatch_MoveWindowToWorkspace win w"
| "dispatch_atom (MapWindow win) = dispatch_MapWindow win"
| "dispatch_atom (UnmapWindow win) = dispatch_UnmapWindow win"
| "dispatch_atom (SetWindowFullscreen win e g) = dispatch_SetWindowFullscreen win e g"
| "dispatch_atom (EnsureWindow win w) = dispatch_EnsureWindow win w"
| "dispatch_atom (AssignWindowWorkspace win w) = dispatch_AssignWindowWorkspace win w"
| "dispatch_atom (SetWindowMetadata md) = dispatch_SetWindowMetadata md"
| "dispatch_atom (SetWindowMapped win b) = dispatch_SetWindowMapped win b"
| "dispatch_atom (SetWindowHiddenByWorkspace win b) = dispatch_SetWindowHiddenByWorkspace win b"
| "dispatch_atom (SetWindowSuppressFocusOnce win b) = dispatch_SetWindowSuppressFocusOnce win b"
| "dispatch_atom (SetWindowFloating win b) = dispatch_SetWindowFloating win b"
| "dispatch_atom (SetWindowBorderless win b) = dispatch_SetWindowBorderless win b"
| "dispatch_atom (HideWindow win) = dispatch_HideWindow win"
| "dispatch_atom (ApplyMonitorTopology ms) = dispatch_ApplyMonitorTopology ms"
| "dispatch_atom (ReserveMonitorArea m e px) = dispatch_ReserveMonitorArea m e px"
| "dispatch_atom (SetLayout n) = dispatch_SetLayout n"
| "dispatch_atom (SetMasterFactor v) = dispatch_SetMasterFactor v"
| "dispatch_atom (FocusMonitor m) = dispatch_FocusMonitor m"
| "dispatch_atom (MoveWindowToMonitor win m) = dispatch_MoveWindowToMonitor win m"
| "dispatch_atom ReconcileNow = dispatch_ReconcileNow"
| "dispatch_atom (RemoveWindowFromAllWorkspaces win) = dispatch_RemoveWindowFromAllWorkspaces win"
| "dispatch_atom (SetWindowGeometry win p s) = set_window_geometry win p s"
| "dispatch_atom (SetWindowPosition win p) = set_window_position win p"
| "dispatch_atom (SetWindowSize win s) = set_window_size win s"
| "dispatch_atom (SetWindowBorderWidth win b) = set_window_border_width win b"
| "dispatch_atom (SyncWindowFromConfigureNotify win p s b) = sync_window_from_configure_notify win p s b"
| "dispatch_atom (CloseWindow win) = dispatch_CloseWindow win"

fun dispatch_composite :: "command_composite \<Rightarrow> core \<Rightarrow> bool \<times> core" where
  "dispatch_composite (ToggleWindowFloating win) = dispatch_ToggleWindowFloating win"
| "dispatch_composite (MoveFocusedWindowToWorkspace w) = dispatch_MoveFocusedWindowToWorkspace w"
| "dispatch_composite FocusNextWindow = dispatch_FocusNextWindow"
| "dispatch_composite FocusPrevWindow = dispatch_FocusPrevWindow"
| "dispatch_composite ToggleFocusedWindowFloating = dispatch_ToggleFocusedWindowFloating"
| "dispatch_composite (SwitchWorkspaceLocalIndex li) = dispatch_SwitchWorkspaceLocalIndex li"
| "dispatch_composite (AdjustMasterFactor d) = dispatch_AdjustMasterFactor d"
| "dispatch_composite (IncMaster d) = dispatch_IncMaster d"
| "dispatch_composite Zoom = dispatch_Zoom"

section \<open>Reload state and queries\<close>

definition snapshot_reload_state :: "core \<Rightarrow> core_reload_state" where
  "snapshot_reload_state c =
     \<lparr>rs_settings = settings c, rs_keybindings = keybindings c, rs_layout_cfg = layout_cfg c,
      rs_active_layout = active_layout c\<rparr>"

definition restore_reload_state :: "core_reload_state \<Rightarrow> core \<Rightarrow> core" where
  "restore_reload_state r c =
     c\<lparr>settings := rs_settings r, keybindings := rs_keybindings r, layout_cfg := rs_layout_cfg r,
       active_layout := rs_active_layout r\<rparr>"

definition all_window_ids :: "core \<Rightarrow> window_id list" where
  "all_window_ids c = map (\<lambda>p. win_id (win_at c p)) (concat (map windows (workspaces (wm c))))"

definition visible_window_ids :: "core \<Rightarrow> window_id list" where
  "visible_window_ids c =
     map (\<lambda>p. win_id (win_at c p))
       (filter (\<lambda>p. is_visible (win_at c p)) (concat (map windows (workspaces (wm c)))))"

definition consume_window_suppress_focus_once :: "window_id \<Rightarrow> core \<Rightarrow> bool \<times> core" where
  "consume_window_suppress_focus_once win c =
     (case find_window_in_all (wm c) win of
        None \<Rightarrow> (False, c)
      | Some p \<Rightarrow> (suppress_focus_once (win_at c p), set_win p (\<lambda>x. x\<lparr>suppress_focus_once := False\<rparr>) c))"

definition update_window :: "window_id \<Rightarrow> core \<Rightarrow> core" where
  "update_window win c =
     (case find_window_in_all (wm c) win of
        None \<Rightarrow> c
      | Some p \<Rightarrow> emit_backend_effect EffUpdateWindow (win_id (win_at c p)) c)"

end
