(* ===== verification/Core_Invariant.thy ===== *)
theory Core_Invariant
  imports Core_Dispatch
begin

text \<open>
  The invariant of the core and its preservation by every command.

  Most operations of the core change attributes of windows, cursors, modes and outputs but not which
  windows are managed and where they are. \<open>steady c c'\<close> says that of a step from \<open>c\<close> to \<open>c'\<close>, together
  with the preservation of the state invariant; it is reflexive and transitive, so an operation is
  steady because its parts are. The commands that create, remove or move windows, or change monitors
  and settings, are treated one by one on top of it.
\<close>

section \<open>Definitions\<close>

text \<open>A flush entry names its window, and the window is managed.\<close>

definition flush_ok :: "core \<Rightarrow> bool" where
  "flush_ok c \<longleftrightarrow> (\<forall>win f. pending_window_flushes c win = Some f \<longrightarrow>
     flush_window f = win \<and> window_index (wm c) win \<noteq> None)"

definition core_ok :: "core \<Rightarrow> bool" where
  "core_ok c \<longleftrightarrow> wsman_inv (wm c) \<and> synced (wm c) \<and> flush_ok c"

definition config_ok :: "core \<Rightarrow> bool" where
  "config_ok c \<longleftrightarrow> 1 \<le> nmaster (layout_cfg c) \<and>
     f32_lo \<le> master_factor (layout_cfg c) \<and> master_factor (layout_cfg c) \<le> f32_hi \<and>
     layouts c (active_layout c) \<noteq> None"

definition core_inv :: "core \<Rightarrow> bool" where
  "core_inv c \<longleftrightarrow> core_ok c \<and> config_ok c"

definition same_config :: "core \<Rightarrow> core \<Rightarrow> bool" where
  "same_config c c' \<longleftrightarrow> layouts c' = layouts c \<and> lua_layouts c' = lua_layouts c \<and> keybindings c' = keybindings c \<and>
     active_layout c' = active_layout c \<and> layout_cfg c' = layout_cfg c \<and> settings c' = settings c \<and>
     has_lua_host c' = has_lua_host c \<and> sink_attached c' = sink_attached c \<and> runtime_started c' = runtime_started c"

definition same_windows :: "wsman \<Rightarrow> wsman \<Rightarrow> bool" where
  "same_windows s s' \<longleftrightarrow> window_index s' = window_index s \<and> window_workspace s' = window_workspace s \<and>
     map windows (workspaces s') = map windows (workspaces s) \<and> (\<forall>p. win_id (heap s' p) = win_id (heap s p))"

definition steady :: "core \<Rightarrow> core \<Rightarrow> bool" where
  "steady c c' \<longleftrightarrow> same_config c c' \<and> same_windows (wm c) (wm c') \<and> (core_ok c \<longrightarrow> core_ok c')"

lemma steady_refl [simp, intro]: "steady c c"
  by (simp add: steady_def same_config_def same_windows_def)

lemma steady_trans: "steady c c' \<Longrightarrow> steady c' c'' \<Longrightarrow> steady c c''"
  unfolding steady_def same_config_def same_windows_def by metis

lemma steady_core_ok: "steady c c' \<Longrightarrow> core_ok c \<Longrightarrow> core_ok c'"
  by (simp add: steady_def)

lemma steady_core_inv: "steady c c' \<Longrightarrow> core_inv c \<Longrightarrow> core_inv c'"
  by (simp add: steady_def core_inv_def config_ok_def same_config_def)

lemma steady_fold: "(\<And>x c. steady c (f x c)) \<Longrightarrow> steady c (fold f xs c)"
proof (induction xs arbitrary: c)
  case (Cons x xs)
  from Cons.prems [of c x] Cons.IH [OF Cons.prems, of "f x c"] show ?case by (auto intro: steady_trans)
qed simp

section \<open>Primitive steps\<close>

lemma core_fields [simp]:
  "wm (emit_backend_effect k win c) = wm c" "wm (emit_warp_pointer pos c) = wm c" "wm (post e c) = wm c"
  "wm (mark_window_dirty win bits c) = wm c" "wm (upd_wm g c) = g (wm c)" "wm (set_win p f c) = upd_win p f (wm c)"
  by (simp_all add: emit_backend_effect_def emit_warp_pointer_def post_def mark_window_dirty_def upd_wm_def set_win_def)

lemma same_config_prims [simp]:
  "same_config c (emit_backend_effect k win c)" "same_config c (emit_warp_pointer pos c)" "same_config c (post e c)"
  "same_config c (mark_window_dirty win bits c)" "same_config c (upd_wm g c)" "same_config c (set_win p f c)"
  "same_config c (c\<lparr>wm := s\<rparr>)"
  by (simp_all add: same_config_def emit_backend_effect_def emit_warp_pointer_def post_def mark_window_dirty_def
      upd_wm_def set_win_def)

lemma flushes_prims [simp]:
  "pending_window_flushes (emit_backend_effect k win c) = pending_window_flushes c"
  "pending_window_flushes (emit_warp_pointer pos c) = pending_window_flushes c"
  "pending_window_flushes (post e c) = pending_window_flushes c"
  "pending_window_flushes (upd_wm g c) = pending_window_flushes c"
  "pending_window_flushes (set_win p f c) = pending_window_flushes c"
  by (simp_all add: emit_backend_effect_def emit_warp_pointer_def post_def upd_wm_def set_win_def)

lemma same_windows_refl [simp]: "same_windows s s"
  by (simp add: same_windows_def)

lemma steady_emit [simp, intro]: "steady c (emit_backend_effect k win c)" "steady c (emit_warp_pointer pos c)" "steady c (post e c)"
  by (simp_all add: steady_def core_ok_def flush_ok_def)

lemma steady_wm:
  assumes "same_windows (wm c) s" "wsman_inv (wm c) \<Longrightarrow> wsman_inv s" "synced (wm c) \<Longrightarrow> synced s"
  shows "steady c (c\<lparr>wm := s\<rparr>)"
  using assms by (simp add: steady_def core_ok_def flush_ok_def same_windows_def)

lemma upd_wm_eq: "upd_wm g c = c\<lparr>wm := g (wm c)\<rparr>"
  by (simp add: upd_wm_def)

lemma same_windows_upd_win: "(\<And>x. win_id (f x) = win_id x) \<Longrightarrow> same_windows s (upd_win p f s)"
  by (simp add: same_windows_def upd_win_def)

lemma steady_set_win [intro]:
  assumes "\<And>x. win_id (f x) = win_id x"
  shows "steady c (set_win p f c)"
  unfolding set_win_def upd_wm_eq
  by (rule steady_wm) (simp_all add: same_windows_upd_win assms wsman_inv_upd_win)

lemma map_windows_upd_ws: "(\<And>ws. windows (f ws) = windows ws) \<Longrightarrow> map windows (workspaces (upd_ws w f s)) = map windows (workspaces s)"
  by (rule nth_equalityI) (auto simp: frame_simps nth_upd_ws)

lemma steady_mark:
  assumes "core_ok c \<Longrightarrow> window_index (wm c) win \<noteq> None"
  shows "steady c (mark_window_dirty win bits c)"
proof -
  have "core_ok (mark_window_dirty win bits c)" if "core_ok c"
    using that assms [OF that]
    by (auto simp: core_ok_def flush_ok_def mark_window_dirty_def emit_backend_effect_def ensure_window_flush_def
        split: option.splits if_splits)
  then show ?thesis by (simp add: steady_def)
qed

lemma steady_set_ws_mode [intro]: "steady c (set_ws_mode w m c)"
  unfolding set_ws_mode_def upd_wm_eq
  by (rule steady_wm)
    (auto simp: same_windows_def frame_simps map_windows_upd_ws intro!: wsman_inv_upd_ws simp: cursor_ok_def)

lemma listed_indexed:
  assumes "core_ok c" "p \<in> set (windows (workspaces (wm c) ! i))" "i < length (workspaces (wm c))"
  shows "window_index (wm c) (win_id (win_at c p)) = Some p"
proof -
  have "located (wm c) i p" using assms by (simp add: located_def)
  then show ?thesis using windows_okD(3) assms(1) by (simp add: core_ok_def wsman_inv_def win_at_def)
qed

section \<open>Compound operations\<close>

lemma steady_pin:
  assumes "core_ok c \<Longrightarrow> window_index (wm c) (win_id (win_at c p)) \<noteq> None"
  shows "steady c (pin_fullscreen_to_monitor p w c)"
proof -
  let ?c = "\<lambda>a b. set_win p (\<lambda>x. x\<lparr>win_pos := a, win_size := b\<rparr>) c"
  have "steady c (mark_window_dirty (win_id (win_at c p)) DIRTY_GEOMETRY (?c a b))" for a b
  proof (rule steady_trans)
    show s: "steady c (?c a b)" by (rule steady_set_win) simp
    show "steady (?c a b) (mark_window_dirty (win_id (win_at c p)) DIRTY_GEOMETRY (?c a b))"
    proof (rule steady_mark)
      assume "core_ok (?c a b)"
      then have "core_ok c" by (simp add: core_ok_def flush_ok_def wsman_inv_upd_win frame_simps)
      with assms show "window_index (wm (?c a b)) (win_id (win_at c p)) \<noteq> None" by (simp add: frame_simps)
    qed
  qed
  then show ?thesis by (auto simp: pin_fullscreen_to_monitor_def Let_def split: prod.splits)
qed

lemma steady_update_ws_mode [intro]: "steady c (update_ws_mode w c)"
  unfolding update_ws_mode_def Let_def by (auto intro: steady_trans [OF steady_set_ws_mode])

lemma steady_lower [intro]: "steady c (lower_fullscreen f p c)"
  by (simp add: lower_fullscreen_def Let_def)

lemma steady_evaluate [intro]: "steady c (evaluate_workspace_fullscreen w c)"
proof (cases "w < 0 \<or> w \<ge> workspace_count c")
  case False
  let ?c1 = "update_ws_mode w c"
  let ?ws = "workspaces (wm ?c1) ! nat w"
  have s1: "steady c ?c1" by (rule steady_update_ws_mode)
  then have "length (map windows (workspaces (wm ?c1))) = length (map windows (workspaces (wm c)))"
    by (simp add: steady_def same_windows_def)
  with False have w: "nat w < length (workspaces (wm ?c1))" by (auto simp: workspace_count_def)
  show ?thesis
  proof (cases "focused (heap (wm ?c1)) ?ws")
    case None
    with s1 False show ?thesis by (simp add: evaluate_workspace_fullscreen_def Let_def)
  next
    case (Some p)
    have "steady ?c1 (pin_fullscreen_to_monitor p w ?c1)"
      by (rule steady_pin) (simp add: listed_indexed [OF _ focused_in [OF Some] w])
    moreover have "steady ?c1 (fold (lower_fullscreen f) (windows ?ws) (emit_backend_effect k win ?c1))" for f k win
      by (rule steady_trans [OF steady_emit(1) steady_fold]) auto
    ultimately show ?thesis using s1 False Some
      by (auto simp: evaluate_workspace_fullscreen_def Let_def intro: steady_trans)
  qed
qed (simp add: evaluate_workspace_fullscreen_def)

lemma steady_emit_focus_changed [intro]: "steady c (emit_focus_changed win c)"
  by (auto simp: emit_focus_changed_def Let_def intro: steady_trans [OF steady_emit(3)])

lemma same_windows_upd_ws: "(\<And>ws. windows (f ws) = windows ws) \<Longrightarrow> same_windows s (upd_ws w f s)"
  by (simp add: same_windows_def frame_simps map_windows_upd_ws)

lemma same_windows_trans: "same_windows s s' \<Longrightarrow> same_windows s' s'' \<Longrightarrow> same_windows s s''"
  unfolding same_windows_def by metis

lemma same_windows_sync [simp]: "same_windows s (sync_monitors_active_ws s)"
  by (simp add: same_windows_def frame_simps)

lemma same_windows_fields [simp]:
  "same_windows s (t\<lparr>focused_monitor := m\<rparr>) = same_windows s t"
  "same_windows s (t\<lparr>monitor_active_local := al\<rparr>) = same_windows s t"
  "same_windows s (t\<lparr>ws_owner := ow\<rparr>) = same_windows s t"
  "same_windows s (t\<lparr>monitor_pools := po\<rparr>) = same_windows s t"
  "same_windows s (t\<lparr>monitors := ms\<rparr>) = same_windows s t"
  "same_windows s (t\<lparr>parked_pools := pp\<rparr>) = same_windows s t"
  "same_windows s (t\<lparr>parked_active_ws := pa\<rparr>) = same_windows s t"
  "same_windows s (sync_monitors_active_ws t) = same_windows s t"
  by (simp_all add: same_windows_def frame_simps)

lemma same_windows_focus_window: "same_windows s (snd (focus_window win s))"
proof -
  have "same_windows s (upd_win p (\<lambda>x. x\<lparr>urgent := False\<rparr>) (upd_ws w (\<lambda>ws. ws\<lparr>current := i\<rparr>) s))" for p w i
    by (rule same_windows_trans [OF same_windows_upd_ws same_windows_upd_win]) simp_all
  then show ?thesis by (auto simp: focus_window_def Let_def split: option.splits)
qed

lemma steady_focus_window: "steady c (c\<lparr>wm := snd (focus_window win (wm c))\<rparr>)"
  by (rule steady_wm) (simp_all add: same_windows_focus_window focus_window_inv focus_window_synced)

lemma steady_focus [intro]: "steady c (focus win c)"
proof -
  have "steady c (c\<lparr>wm := wm c\<rparr>)" by simp
  then have "steady c (emit_focus_changed v (emit_backend_effect k u (c\<lparr>wm := s\<rparr>)))"
    if "steady c (c\<lparr>wm := s\<rparr>)" for v k u s
    using that by (meson steady_trans steady_emit(1) steady_emit_focus_changed)
  then show ?thesis using steady_focus_window [of c]
    by (auto simp: focus_def Let_def case_prod_unfold)
qed

section \<open>Arranging\<close>

lemma steady_with_window:
  assumes "\<And>p. core_ok c \<Longrightarrow> window_index (wm c) win = Some p \<Longrightarrow> steady c (f p c)"
    and "\<And>p. \<not> core_ok c \<Longrightarrow> steady c (f p c)"
  shows "steady c (snd (with_window win f c))"
  using assms by (auto simp: with_window_def find_window_in_all_def split: option.splits)

lemma steady_with_window':
  "(\<And>p. window_index (wm c) win = Some p \<Longrightarrow> steady c (f p c)) \<Longrightarrow> steady c (snd (with_window win f c))"
  by (auto simp: with_window_def find_window_in_all_def split: option.splits)

lemma steady_set_mark:
  assumes "\<And>x. win_id (f x) = win_id x" "window_index (wm c) win = Some q"
  shows "steady c (mark_window_dirty win bits (set_win p f c))"
proof (rule steady_trans [OF steady_set_win])
  show "steady (set_win p f c) (mark_window_dirty win bits (set_win p f c))"
    by (rule steady_mark) (simp add: frame_simps assms(2))
qed (rule assms(1))

lemma steady_geometry [intro]:
  "steady c (snd (set_window_geometry win pos sz c))" "steady c (snd (set_window_position win pos c))"
  "steady c (snd (set_window_size win sz c))" "steady c (snd (set_window_border_width win b c))"
  unfolding set_window_geometry_def set_window_position_def set_window_size_def set_window_border_width_def
  by (rule steady_with_window', rule steady_set_mark, simp, assumption)+

lemma steady_configure_notify [intro]: "steady c (snd (sync_window_from_configure_notify win pos sz b c))"
  unfolding sync_window_from_configure_notify_def by (rule steady_with_window', rule steady_set_win) simp

text \<open>One more step of each kind at the end of a steady sequence.\<close>

lemmas steady_more = steady_trans [OF _ steady_emit(1)] steady_trans [OF _ steady_emit(2)]
  steady_trans [OF _ steady_emit(3)] steady_trans [OF _ steady_set_win]
  steady_trans [OF _ steady_geometry(1)] steady_trans [OF _ steady_geometry(4)]
  steady_trans [OF _ steady_focus] steady_trans [OF _ steady_evaluate]

lemma steady_place [intro]: "steady c (place pl c)"
  unfolding place_def Let_def by (cases pl) (auto intro!: steady_more)

lemma steady_border_floating [intro]: "steady c (border_floating p c)"
  unfolding border_floating_def Let_def by (auto intro!: steady_more)

lemma steady_arrange_monitor [intro]: "steady c (arrange_monitor mon c)"
proof -
  have "steady c (fold border_floating ps (fold place pls c))" for ps pls
    by (rule steady_trans [OF steady_fold steady_fold]) auto
  then show ?thesis by (auto simp: arrange_monitor_def Let_def split: option.splits)
qed

lemma steady_arrange [intro]: "steady c (arrange c)"
  unfolding arrange_def by (auto intro: steady_fold)

lemma steady_sync_window [intro]: "steady c (sync_window_visibility v p c)"
  unfolding sync_window_visibility_def Let_def
  by (auto intro!: steady_more)

lemma steady_sync_workspace_visibility [intro]: "steady c (sync_workspace_visibility c)"
  unfolding sync_workspace_visibility_def by (intro steady_fold) auto

lemma steady_reconcile [intro]: "steady c (reconcile c)"
  unfolding reconcile_def by (meson steady_trans steady_focus steady_arrange steady_sync_workspace_visibility)

end
