(* ===== verification/Core_Commands.thy ===== *)
theory Core_Commands
  imports Core_Invariant
begin

text \<open>
  Every command preserves the invariant of the core: the handlers one by one, then the reducer. The
  interface \<open>reducer\<close> states what a command loop needs of a reducer and its invariant; the core is an
  instance of it.
\<close>

section \<open>Moving, creating and removing windows\<close>

lemma synced_take_from_all [simp]: "synced (take_from_all win s) = synced s"
  by (simp add: take_from_all_def synced_def active_ws_of_monitor_def Let_def)

lemma synced_alloc [simp]: "synced (s\<lparr>heap := h, next_ptr := n\<rparr>) = synced s"
  by (simp add: synced_def active_ws_of_monitor_def Let_def)

lemma synced_window_ops:
  "synced s \<Longrightarrow> synced (move_window_to w p s)" "synced s \<Longrightarrow> synced (add_window p w s)"
  "synced s \<Longrightarrow> synced (create_window win w s)" "synced s \<Longrightarrow> synced (remove_window_from_all win s)"
proof -
  show m: "synced s \<Longrightarrow> synced (move_window_to w p s)"
    by (auto simp: move_window_to_def Let_def split: option.splits)
  show a: "synced s \<Longrightarrow> synced (add_window p w s)" for s p
    by (auto simp: add_window_def Let_def split: option.splits)
  show "synced s \<Longrightarrow> synced (create_window win w s)"
    by (auto simp: create_window_def alloc_def Let_def intro!: a split: option.splits)
  show "synced s \<Longrightarrow> synced (remove_window_from_all win s)"
    by (auto simp: remove_window_from_all_def split: option.splits)
qed

lemma relocate_index:
  assumes "is_ws_valid s w" "win_id (heap s p) \<noteq> NO_WINDOW"
  shows "window_index (relocate w p s) = (window_index s)(win_id (heap s p) \<mapsto> p)"
    and "window_workspace (relocate w p s) = (window_workspace s)(win_id (heap s p) \<mapsto> w)"
  using assms
  by (auto simp: relocate_def Let_def index_window_def frame_simps unindex_lookup fun_eq_iff split: option.splits)

lemma indexed_pointer:
  assumes "wsman_inv s" "window_index s win = Some p"
  shows "p < next_ptr s" "win_id (heap s p) = win" "win \<noteq> NO_WINDOW"
proof -
  from assms(1) have ok: "windows_ok s" by (simp add: wsman_inv_def)
  from windows_ok_indexD [OF ok assms(2)] obtain i where "located s i p" "win_id (heap s p) = win" by blast
  with windows_okD [OF ok this(1)] show "p < next_ptr s" "win_id (heap s p) = win" "win \<noteq> NO_WINDOW" by auto
qed

lemma move_window_to_index:
  assumes "wsman_inv s" "window_index s win = Some p"
  shows "window_index (move_window_to w p s) = window_index s"
  using indexed_pointer [OF assms] assms relocate_index(1) [of s w p]
  by (auto simp: move_window_to_eq)

lemma core_ok_move:
  assumes ok: "core_ok c" and p: "window_index (wm c) win = Some p"
  shows "core_ok (upd_wm (move_window_to w p) c)"
proof -
  from ok have inv: "wsman_inv (wm c)" by (simp add: core_ok_def)
  note ip = indexed_pointer [OF inv p]
  have "wsman_inv (move_window_to w p (wm c))" by (rule move_window_to_inv [OF inv]) (use ip in simp_all)
  with ok show ?thesis
    by (simp add: core_ok_def flush_ok_def synced_window_ops move_window_to_index [OF inv p])
qed

lemma add_window_index:
  assumes "wsman_inv s" "win_id (heap s p) \<noteq> NO_WINDOW"
  shows "dom (window_index s) \<subseteq> dom (window_index (add_window p w s))"
proof (cases "workspaces s = []")
  case False
  with add_window_eq [OF assms False] relocate_index(1) [OF add_window_target [OF False] assms(2)]
  show ?thesis by auto
qed (simp add: add_window_def)

lemma create_window_index:
  assumes inv: "wsman_inv s" and win: "win \<noteq> NO_WINDOW"
  shows "dom (window_index s) \<subseteq> dom (window_index (create_window win w s))"
proof -
  have "dom (window_index s) \<subseteq> dom (window_index (add_window (next_ptr s) w (snd (alloc obj s))))"
    if "(case window_factory s of Some f \<Rightarrow> f win | None \<Rightarrow> Some (mk_window win)) = Some obj" for obj
  proof -
    have "win_id obj = win"
      using that wsman_invD(7) [OF inv] by (auto simp: factory_ok_def split: option.splits)
    with add_window_index [OF alloc_inv [OF inv, of obj], of "next_ptr s" w] win
    show ?thesis by (simp add: alloc_def)
  qed
  then show ?thesis by (auto simp: create_window_def alloc_def Let_def split: option.splits)
qed

lemma core_ok_create:
  assumes "core_ok c" "win \<noteq> NO_WINDOW"
  shows "core_ok (upd_wm (create_window win w) c)"
proof -
  from assms(1) have inv: "wsman_inv (wm c)" by (simp add: core_ok_def)
  have "window_index (create_window win w (wm c)) v \<noteq> None" if "window_index (wm c) v \<noteq> None" for v
    using create_window_index [OF inv assms(2)] that by (metis domIff subsetD)
  with assms show ?thesis by (simp add: core_ok_def flush_ok_def create_window_inv synced_window_ops)
qed

lemma remove_window_from_all_index:
  "wsman_inv s \<Longrightarrow> window_index (remove_window_from_all win s) = (window_index s)(win := None)"
proof -
  assume inv: "wsman_inv s"
  then have ok: "windows_ok s" by (simp add: wsman_inv_def)
  have "window_workspace s win = None \<Longrightarrow> window_index s win = None" using windows_ok_dom [OF ok] by (metis domIff)
  then show ?thesis
    by (auto simp: remove_window_from_all_eq [OF inv] unindex_lookup frame_simps fun_upd_idem split: option.splits)
qed

lemma remove_window_from_all_workspace:
  "wsman_inv s \<Longrightarrow> window_workspace (remove_window_from_all win s) = (window_workspace s)(win := None)"
  by (auto simp: remove_window_from_all_eq unindex_lookup frame_simps fun_upd_idem split: option.splits)

lemma core_ok_remove:
  assumes "core_ok c"
  shows "core_ok ((upd_wm (remove_window_from_all win) c)
    \<lparr>pending_window_flushes := (pending_window_flushes (upd_wm (remove_window_from_all win) c))(win := None)\<rparr>)"
  using assms
  by (auto simp: core_ok_def flush_ok_def remove_window_from_all_inv synced_window_ops remove_window_from_all_index)

section \<open>Handlers\<close>

lemma same_windows_switch_to: "same_windows s (snd (switch_to w al h co s))"
  by (auto simp: switch_to_def Let_def)

lemma steady_upd_wm:
  "same_windows (wm c) (g (wm c)) \<Longrightarrow> (wsman_inv (wm c) \<Longrightarrow> wsman_inv (g (wm c))) \<Longrightarrow>
   (wsman_inv (wm c) \<Longrightarrow> synced (wm c) \<Longrightarrow> synced (g (wm c))) \<Longrightarrow> steady c (upd_wm g c)"
  by (simp add: steady_def core_ok_def flush_ok_def same_windows_def)

lemma steady_switch_to: "steady c (c\<lparr>wm := snd (switch_to w al h co (wm c))\<rparr>)"
  by (rule steady_wm) (simp_all add: same_windows_switch_to switch_to_inv switch_to_synced)

lemmas steady_further = steady_more steady_trans [OF _ steady_arrange] steady_trans [OF _ steady_sync_workspace_visibility]
  steady_trans [OF _ steady_reconcile]

lemma steady_SwitchWorkspace: "steady c (snd (dispatch_SwitchWorkspace w m c))"
  using steady_switch_to [of c w]
  by (auto simp: dispatch_SwitchWorkspace_def Let_def case_prod_unfold intro!: steady_further)

lemma steady_simple_commands:
  "steady c (snd (dispatch_FocusWindow win c))" "steady c (snd (dispatch_MapWindow win c))"
  "steady c (snd (dispatch_UnmapWindow win c))" "steady c (snd (dispatch_SetWindowMapped win b c))"
  "steady c (snd (dispatch_SetWindowHiddenByWorkspace win b c))"
  "steady c (snd (dispatch_SetWindowSuppressFocusOnce win b c))"
  "steady c (snd (dispatch_SetWindowFloating win b c))" "steady c (snd (dispatch_SetWindowBorderless win b c))"
  "steady c (snd (dispatch_HideWindow win c))" "steady c (snd (dispatch_CloseWindow win c))"
  "steady c (snd (dispatch_ToggleWindowFloating win c))"
  unfolding dispatch_FocusWindow_def dispatch_MapWindow_def dispatch_UnmapWindow_def dispatch_SetWindowMapped_def
    dispatch_SetWindowHiddenByWorkspace_def dispatch_SetWindowSuppressFocusOnce_def dispatch_SetWindowFloating_def
    dispatch_SetWindowBorderless_def dispatch_HideWindow_def dispatch_CloseWindow_def dispatch_ToggleWindowFloating_def Let_def
  by (rule steady_with_window'; auto intro!: steady_more)+

lemma steady_SetWindowFullscreen: "steady c (snd (dispatch_SetWindowFullscreen win e g c))"
  unfolding dispatch_SetWindowFullscreen_def
proof (rule steady_with_window')
  fix p
  assume p: "window_index (wm c) win = Some p"
  have mark: "steady c (mark_window_dirty win bits (set_win p f d))"
    if "steady c d" "\<And>x. win_id (f x) = win_id x" for bits f d
    using that p by (intro steady_trans [OF that(1) steady_set_mark]) (auto simp: steady_def same_windows_def)
  have "win_id (enter_fullscreen x) = win_id x" for x by (simp add: enter_fullscreen_def Let_def)
  then show "steady c (let w = workspace_of_window (wm c) win; mon = fullscreen_monitor c w in
       if e then
         (let c1 = mark_window_dirty win DIRTY_BORDER_WIDTH (set_win p enter_fullscreen c);
              c2 = (case mon of
                      Some m \<Rightarrow>
                        if \<not> g
                        then mark_window_dirty win DIRTY_GEOMETRY
                               (set_win p (\<lambda>x. x\<lparr>win_pos := fst (physical m), win_size := snd (physical m)\<rparr>) c1)
                        else c1
                    | None \<Rightarrow> c1);
              c3 = post EvRaiseDocks (arrange c2)
          in if w \<ge> 0 \<and> is_workspace_visible c3 w \<and> is_visible (win_at c3 p) then focus win c3
             else if w \<ge> 0 then evaluate_workspace_fullscreen w c3 else c3)
       else if \<not> fullscreen (win_at c p) then c
       else
         (let c1 = mark_window_dirty win DIRTY_BORDER_WIDTH
                     (set_win p (\<lambda>x. x\<lparr>fullscreen := False, border_width := border_before_fullscreen x\<rparr>) c);
              c2 = (if floating (win_at c1 p)
                    then mark_window_dirty win DIRTY_GEOMETRY
                           (set_win p (\<lambda>x. x\<lparr>win_pos := pos_before_fullscreen x, win_size := size_before_fullscreen x\<rparr>) c1)
                    else c1);
              c3 = arrange c2;
              c4 = (if w \<ge> 0 then evaluate_workspace_fullscreen w c3 else c3)
          in post EvRaiseDocks c4))"
    unfolding Let_def by (auto intro!: steady_further mark split: option.splits)
qed

lemma steady_focus_next: "steady c (snd (dispatch_FocusNextWindow c))" "steady c (snd (dispatch_FocusPrevWindow c))"
proof -
  have "same_windows s (snd (focus_next s))" "same_windows s (snd (focus_prev s))" for s
    by (auto simp: focus_next_def focus_prev_def Let_def upd_current_ws_def same_windows_upd_ws frame_simps split: option.splits)
  then have "steady c (c\<lparr>wm := snd (focus_next (wm c))\<rparr>)" "steady c (c\<lparr>wm := snd (focus_prev (wm c))\<rparr>)"
    by (auto intro!: steady_wm focus_cycle_inv focus_cycle_synced)
  then show "steady c (snd (dispatch_FocusNextWindow c))" "steady c (snd (dispatch_FocusPrevWindow c))"
    by (auto simp: dispatch_FocusNextWindow_def dispatch_FocusPrevWindow_def focus_result_def Let_def intro!: steady_further)
qed

lemma steady_FocusMonitor: "steady c (snd (dispatch_FocusMonitor n c))"
proof -
  have "steady c (upd_wm (set_focused_monitor n) c)"
    by (rule steady_upd_wm) (auto simp: set_focused_monitor_inv, auto simp: set_focused_monitor_def)
  then show ?thesis by (auto simp: dispatch_FocusMonitor_def Let_def intro!: steady_further split: option.splits)
qed

lemma steady_toggle_focused: "steady c (snd (dispatch_ToggleFocusedWindowFloating c))"
  by (auto simp: dispatch_ToggleFocusedWindowFloating_def intro!: steady_further steady_simple_commands split: option.splits)

lemma steady_local_index: "steady c (c\<lparr>wm := snd (switch_local_index m li (wm c))\<rparr>)"
proof -
  have "same_windows s (snd (switch_local_index m li s))" for s by (simp add: switch_local_index_def)
  then show ?thesis by (intro steady_wm) (simp_all add: switch_local_index_inv switch_local_index_synced)
qed

lemma steady_switch_local: "steady c (snd (dispatch_SwitchWorkspaceLocalIndex li c))"
  using steady_local_index [of c]
  by (auto simp: dispatch_SwitchWorkspaceLocalIndex_def Let_def case_prod_unfold intro!: steady_further)

lemma steady_reserve_one [intro]: "steady c (reserve_one e px i c)"
proof -
  have "steady c (upd_wm (adjust_monitor_inset m e d) c)" for m d
    by (rule steady_upd_wm)
      (auto simp: adjust_monitor_inset_inv adjust_monitor_inset_synced, auto simp: adjust_monitor_inset_def)
  then show ?thesis by (simp add: reserve_one_def Let_def)
qed

lemma steady_ReserveMonitorArea: "steady c (snd (dispatch_ReserveMonitorArea m e px c))"
  by (auto simp: dispatch_ReserveMonitorArea_def intro: steady_fold)

lemma same_windows_rebuild [simp]: "same_windows s (rebuild_pools_from_owner seed pref t) = same_windows s t"
  by (simp add: rebuild_pools_eq)

lemma same_windows_select [simp]: "same_windows s (select_valid_focused_monitor t) = same_windows s t"
  using select_eq [of t] by auto

lemma same_windows_set_monitors: "same_windows s (set_monitors mons s)"
proof -
  obtain pp pa where "parked_state mons s = s\<lparr>parked_pools := pp, parked_active_ws := pa\<rparr>"
    unfolding parked_state_def using park_fold by blast
  then have "same_windows s (retopology mons s)" by (simp add: retopology_def)
  with set_monitors_eq [of mons s] show ?thesis by auto
qed

lemma same_windows_assign:
  "wsman_inv s \<Longrightarrow> same_windows s (assign_workspaces al co s)"
proof -
  assume "wsman_inv s"
  then have own: "length (ws_owner s) = length (workspaces s)" by (simp add: wsman_inv_def sizes_ok_def)
  then show ?thesis
    by (cases "monitors s = []") (simp_all add: assign_workspaces_eq, simp add: assign_workspaces_def)
qed

lemma core_ok_wm:
  assumes "core_ok c" "same_windows (wm c) s" "wsman_inv s" "synced s"
  shows "core_ok (c\<lparr>wm := s\<rparr>)"
  using assms by (simp add: core_ok_def flush_ok_def same_windows_def)

lemma core_ok_topology:
  assumes ok: "core_ok c"
  shows "core_ok (c\<lparr>wm := assign_workspaces al co (set_monitors mons (wm c))\<rparr>)"
proof -
  from ok have "wsman_inv (wm c)" by (simp add: core_ok_def)
  then have inv: "wsman_inv (set_monitors mons (wm c))" by (rule set_monitors_inv)
  show ?thesis
    by (rule core_ok_wm [OF ok same_windows_trans [OF same_windows_set_monitors same_windows_assign [OF inv]]])
      (simp_all add: assign_workspaces_inv [OF inv])
qed

lemma core_ok_ApplyMonitorTopology:
  assumes ok: "core_ok c"
  shows "core_ok (snd (dispatch_ApplyMonitorTopology mons c))"
  using core_ok_topology [OF ok]
  by (simp add: dispatch_ApplyMonitorTopology_def upd_wm_eq steady_core_ok [OF steady_reconcile])

text \<open>What the commands that move windows or change the configuration have in common.\<close>

lemma same_config_trans: "same_config c c' \<Longrightarrow> same_config c' c'' \<Longrightarrow> same_config c c''"
  unfolding same_config_def by metis

lemma steady_same_config: "steady c c' \<Longrightarrow> same_config c c'"
  by (simp add: steady_def)

lemma same_config_core_inv: "core_inv c \<Longrightarrow> same_config c c' \<Longrightarrow> core_ok c' \<Longrightarrow> core_inv c'"
  by (simp add: core_inv_def config_ok_def same_config_def)

lemma move_then_steady:
  assumes "window_index (wm c) win = Some p" "steady (post e (upd_wm (move_window_to w p) c)) c'"
  shows "same_config c c'" and "core_ok c \<Longrightarrow> core_ok c'"
    and "core_ok c \<Longrightarrow> window_index (wm c') = window_index (wm c)"
proof -
  let ?c1 = "post e (upd_wm (move_window_to w p) c)"
  have "same_config c ?c1" by (rule same_config_trans [OF same_config_prims(5) same_config_prims(3)])
  then show "same_config c c'" using steady_same_config [OF assms(2)] by (rule same_config_trans)
  show "core_ok c'" if "core_ok c"
    using steady_core_ok [OF assms(2)] steady_core_ok [OF steady_emit(3) core_ok_move [OF that assms(1)]] by blast
  show "window_index (wm c') = window_index (wm c)" if "core_ok c"
    using assms(2) that move_window_to_index [OF _ assms(1), of w]
    by (simp add: steady_def same_windows_def core_ok_def)
qed

lemma core_inv_Assign:
  assumes "core_inv c"
  shows "core_inv (snd (dispatch_AssignWindowWorkspace win w c))"
proof (cases "window_index (wm c) win")
  case (Some p)
  note m = move_then_steady [OF Some steady_refl]
  from m(1) m(2) assms show ?thesis
    by (auto simp: dispatch_AssignWindowWorkspace_def with_window_def find_window_in_all_def Some core_inv_def
        config_ok_def same_config_def)
qed (use assms in \<open>simp add: dispatch_AssignWindowWorkspace_def with_window_def find_window_in_all_def\<close>)

lemma core_inv_MoveWindowToWorkspace:
  assumes inv: "core_inv c"
  shows "core_inv (snd (dispatch_MoveWindowToWorkspace win w c))"
proof (cases "window_index (wm c) win")
  case (Some p)
  from inv have ok: "core_ok c" by (simp add: core_inv_def)
  then have "wsman_inv (wm c)" by (simp add: core_ok_def)
  note ip = indexed_pointer [OF this Some]
  let ?c1 = "post (EvWindowAssignedToWorkspace win w) (upd_wm (move_window_to w p) c)"
  let ?c2 = "arrange (sync_workspace_visibility ?c1)"
  have s2: "steady ?c1 ?c2" by (meson steady_trans steady_arrange steady_sync_workspace_visibility)
  note m = move_then_steady [OF Some s2]
  have h1: "win_id (heap (wm ?c1) p) = win"
    using ip by (simp add: move_window_to_eq [OF \<open>wsman_inv (wm c)\<close>] relocate_def Let_def frame_simps split: option.splits)
  then have "win_id (win_at ?c2 p) = win" using s2 by (simp add: steady_def same_windows_def win_at_def)
  then have pin: "steady ?c2 (pin_fullscreen_to_monitor p w ?c2)"
    by (intro steady_pin) (simp add: m(3) [OF ok] Some)
  have "same_config c (pin_fullscreen_to_monitor p w ?c2)"
    by (rule same_config_trans [OF m(1) steady_same_config [OF pin]])
  then have fin: "core_inv ?c2" "core_inv (pin_fullscreen_to_monitor p w ?c2)"
    using m(1) m(2) [OF ok] steady_core_ok [OF pin] same_config_core_inv [OF inv] by blast+
  have "core_inv (focus v (evaluate_workspace_fullscreen w (evaluate_workspace_fullscreen u d)))"
    "core_inv (focus v d)" if "core_inv d" for u v d
    using that by (blast intro: steady_core_inv steady_focus steady_evaluate)+
  with fin inv show ?thesis
    by (simp add: dispatch_MoveWindowToWorkspace_def find_window_in_all_def Some Let_def)
qed (use inv in \<open>simp add: dispatch_MoveWindowToWorkspace_def find_window_in_all_def\<close>)

lemma core_inv_EnsureWindow:
  assumes inv: "core_inv c"
  shows "core_inv (snd (dispatch_EnsureWindow win w c))"
proof -
  from inv have ok: "core_ok c" by (simp add: core_inv_def)
  have "core_inv (upd_wm (create_window win w) c)" if "win \<noteq> NO_WINDOW"
    by (rule same_config_core_inv [OF inv same_config_prims(5) core_ok_create [OF ok that]])
  moreover have "core_inv (upd_wm (move_window_to w p) c)" if "window_index (wm c) win = Some p" for p
    by (rule same_config_core_inv [OF inv same_config_prims(5) core_ok_move [OF ok that]])
  ultimately show ?thesis
    using inv by (auto simp: dispatch_EnsureWindow_def find_window_in_all_def split: option.splits)
qed

lemma core_inv_SetWindowMetadata:
  assumes inv: "core_inv c"
  shows "core_inv (snd (dispatch_SetWindowMetadata md c))"
proof -
  have meta: "core_inv (set_win p (apply_metadata md) d)" if "core_inv d" for p d
    by (rule steady_core_inv [OF steady_set_win that]) (simp add: apply_metadata_def Let_def)
  have fl: "core_inv (snd (dispatch_SetWindowFloating win b d))" if "core_inv d" for win b d
    by (rule steady_core_inv [OF steady_simple_commands(7) that])
  have "core_inv (snd (dispatch_SetWindowSuppressFocusOnce win b d))" if "core_inv d" for win b d
    by (rule steady_core_inv [OF steady_simple_commands(6) that])
  with fl core_inv_Assign have "core_inv (route_transient win parent p d)" if "core_inv d" for win parent p d
    using that by (simp add: route_transient_def Let_def)
  with meta fl inv show ?thesis
    by (auto simp: dispatch_SetWindowMetadata_def with_window_def Let_def split: option.splits)
qed

lemma core_inv_Remove:
  assumes inv: "core_inv c"
  shows "core_inv (snd (dispatch_RemoveWindowFromAllWorkspaces win c))"
proof -
  let ?c1 = "upd_wm (remove_window_from_all win) c"
  let ?c2 = "?c1\<lparr>pending_window_flushes := (pending_window_flushes ?c1)(win := None)\<rparr>"
  have "same_config c ?c2" by (simp add: same_config_def upd_wm_def)
  then have "core_inv ?c2" using core_ok_remove inv by (blast intro: same_config_core_inv core_inv_def [THEN iffD1, THEN conjunct1])
  then show ?thesis
    by (auto simp: dispatch_RemoveWindowFromAllWorkspaces_def Let_def intro: steady_core_inv)
qed

lemma core_inv_Zoom:
  assumes inv: "core_inv c"
  shows "core_inv (snd (dispatch_Zoom c))"
proof -
  have "window_index (snd (zoom_focused s)) = window_index s" for s
    by (auto simp: zoom_focused_def upd_current_ws_def frame_simps split: option.splits)
  then have "core_ok (c\<lparr>wm := snd (zoom_focused (wm c))\<rparr>)"
    using inv by (simp add: core_inv_def core_ok_def flush_ok_def zoom_focused_inv zoom_focused_synced)
  then have "core_inv (c\<lparr>wm := snd (zoom_focused (wm c))\<rparr>)"
    by (rule same_config_core_inv [OF inv same_config_prims(7)])
  then show ?thesis by (auto simp: dispatch_Zoom_def Let_def case_prod_unfold intro: steady_core_inv)
qed

lemma f32_literals:
  "f32_lo = 13421773 / 134217728" "f32_hi = 7549747 / 8388608"
  "master_factor default_layout_config = 9227469 / 16777216"
  by code_simp+

lemma f32_lo_le_hi: "f32_lo \<le> f32_hi"
  by (simp add: f32_literals)

lemma core_inv_layout_commands:
  assumes inv: "core_inv c"
  shows "core_inv (snd (dispatch_SetLayout n c))" "core_inv (snd (dispatch_SetMasterFactor v c))"
    "core_inv (snd (dispatch_AdjustMasterFactor d c))" "core_inv (snd (dispatch_IncMaster k c))"
proof -
  have ok: "core_ok (c\<lparr>active_layout := n\<rparr>)" "core_ok (c\<lparr>layout_cfg := l\<rparr>)" for l
    using inv by (simp_all add: core_inv_def core_ok_def flush_ok_def)
  show "core_inv (snd (dispatch_SetLayout n c))"
  proof (cases "layouts c n")
    case (Some f)
    then have "core_inv (c\<lparr>active_layout := n\<rparr>)" using inv ok(1) by (simp add: core_inv_def config_ok_def)
    then show ?thesis using Some by (auto simp: dispatch_SetLayout_def intro: steady_core_inv)
  qed (use inv in \<open>simp add: dispatch_SetLayout_def\<close>)
  have f: "core_inv (set_master_factor x c)" for x
    using inv ok f32_clamp_bounds [OF f32_lo_le_hi] by (simp add: set_master_factor_def core_inv_def config_ok_def)
  then show "core_inv (snd (dispatch_SetMasterFactor v c))" "core_inv (snd (dispatch_AdjustMasterFactor d c))"
    by (auto simp: dispatch_SetMasterFactor_def dispatch_AdjustMasterFactor_def intro: steady_core_inv)
  have "core_inv (c\<lparr>layout_cfg := (layout_cfg c)\<lparr>nmaster := max 1 (nmaster (layout_cfg c) + k)\<rparr>\<rparr>)"
    using inv ok by (simp add: core_inv_def config_ok_def)
  then show "core_inv (snd (dispatch_IncMaster k c))" by (auto simp: dispatch_IncMaster_def intro: steady_core_inv)
qed

section \<open>The reducer\<close>

lemma core_inv_atom [inv_intros]:
  assumes inv: "core_inv c"
  shows "core_inv (snd (dispatch_atom cmd c))"
proof (cases cmd)
  case (ApplyMonitorTopology ms)
  have "same_config c (snd (dispatch_ApplyMonitorTopology ms c))"
    by (simp add: dispatch_ApplyMonitorTopology_def)
      (meson same_config_prims(5) same_config_trans steady_same_config steady_reconcile)
  with inv core_ok_ApplyMonitorTopology [of c ms] show ?thesis
    unfolding ApplyMonitorTopology dispatch_atom.simps by (intro same_config_core_inv [OF inv]) (simp_all add: core_inv_def)
next
  case (MoveWindowToMonitor win n)
  with inv show ?thesis
    by (auto simp: dispatch_MoveWindowToMonitor_def core_inv_MoveWindowToWorkspace split: option.splits)
qed (use inv in \<open>auto simp: dispatch_ReconcileNow_def
      intro: core_inv_MoveWindowToWorkspace core_inv_EnsureWindow core_inv_Assign core_inv_SetWindowMetadata core_inv_Remove
        core_inv_layout_commands steady_core_inv [OF steady_SwitchWorkspace] steady_core_inv [OF steady_SetWindowFullscreen]
        steady_core_inv [OF steady_FocusMonitor] steady_core_inv [OF steady_ReserveMonitorArea]
        steady_simple_commands [THEN steady_core_inv] steady_geometry [THEN steady_core_inv]
        steady_core_inv [OF steady_configure_notify] steady_core_inv [OF steady_arrange]\<close>)

lemma core_inv_composite [inv_intros]:
  assumes inv: "core_inv c"
  shows "core_inv (snd (dispatch_composite cmd c))"
proof (cases cmd)
  case (MoveFocusedWindowToWorkspace w)
  with inv show ?thesis
    by (auto simp: dispatch_MoveFocusedWindowToWorkspace_def core_inv_MoveWindowToWorkspace split: option.splits)
qed (use inv in \<open>auto intro: core_inv_layout_commands core_inv_Zoom steady_simple_commands [THEN steady_core_inv]
       steady_focus_next [THEN steady_core_inv] steady_core_inv [OF steady_toggle_focused] steady_core_inv [OF steady_switch_local]\<close>)

end
