(* ===== verification/Core_Reachable.thy ===== *)
theory Core_Reachable
  imports Core_Commands
begin

text \<open>
  The core as a transition system: \<open>core_step\<close> has one rule per public entry point of \<^verbatim>\<open>class Core\<close>
  that changes state while the runtime is started, and one for the runtime, which posts to and drains the
  event queue; \<open>core_run\<close> closes it under sequences and under the
  failed reload (a snapshot, any steps the configuration script makes, and the restore), and
  \<open>core_reachable\<close> starts from \<^const>\<open>core_init\<close> on a fresh core. Every reachable state satisfies
  \<^const>\<open>core_inv\<close>.

  Two interfaces carry the generic part: \<open>invariant_system\<close> (a step relation with a preserved
  predicate) and \<open>reducer\<close> (a dispatch function with a preserved predicate), the second an instance of
  the first.
\<close>

section \<open>Interfaces\<close>

locale invariant_system =
  fixes step :: "'s \<Rightarrow> 's \<Rightarrow> bool"
    and inv :: "'s \<Rightarrow> bool"
  assumes step_inv: "step s t \<Longrightarrow> inv s \<Longrightarrow> inv t"
begin

lemma steps_inv: "step\<^sup>*\<^sup>* s t \<Longrightarrow> inv s \<Longrightarrow> inv t"
  by (induction rule: rtranclp_induct) (auto intro: step_inv)

end

locale reducer =
  fixes dispatch :: "'c \<Rightarrow> 's \<Rightarrow> bool \<times> 's"
    and inv :: "'s \<Rightarrow> bool"
  assumes dispatch_inv: "inv s \<Longrightarrow> inv (snd (dispatch c s))"
begin

definition run :: "'c list \<Rightarrow> 's \<Rightarrow> 's" where
  "run cs s = fold (\<lambda>c s. snd (dispatch c s)) cs s"

lemma run_append: "run (xs @ ys) s = run ys (run xs s)"
  by (simp add: run_def)

lemma run_inv: "inv s \<Longrightarrow> inv (run cs s)"
  by (induction cs arbitrary: s) (simp_all add: run_def dispatch_inv)

end

sublocale reducer \<subseteq> transition: invariant_system "\<lambda>s t. \<exists>c. t = snd (dispatch c s)" inv
  by unfold_locales (auto intro: dispatch_inv)

interpretation atoms: reducer dispatch_atom core_inv
  by unfold_locales (rule core_inv_atom)

interpretation composites: reducer dispatch_composite core_inv
  by unfold_locales (rule core_inv_composite)

section \<open>Steps of the started core\<close>

definition factory_contract :: "(window_id \<Rightarrow> window option) \<Rightarrow> bool" where
  "factory_contract f \<longleftrightarrow> (\<forall>win w. f win = Some w \<longrightarrow> win_id w = win)"

inductive core_step :: "core \<Rightarrow> core \<Rightarrow> bool" where
  atom: "core_step c (snd (dispatch_atom cmd c))"
| composite: "core_step c (snd (dispatch_composite cmp c))"
| pointer: "core_step c (snd (core_focus_monitor_at_point x y c))"
| refocus: "core_step c (focus win c)"
| take_flush: "core_step c (snd (take_window_flush win c))"
| take_effects: "core_step c (snd (take_backend_effects c))"
| consume: "core_step c (snd (consume_window_suppress_focus_once win c))"
| upd: "core_step c (update_window win c)"
| sink: "core_step c (set_event_sink attached c)"
| factory: "factory_contract f \<Longrightarrow> core_step c (set_window_factory f c)"
| lua_layout: "core_step c (register_lua_layout n fn c)"
| cxx_layout: "core_step c (register_layout n fn c)"
| key: "core_step c (register_keybinding mods keysym h c)"
| host: "core_step c (bind_lua_host c)"
| path: "core_step c (set_config_path cp c)"
| clear: "core_step c (clear_reloadable_runtime_state c)"
| started: "core_step c (mark_runtime_started True c)"
| events: "core_step c (c\<lparr>event_queue := q\<rparr>)"
| apply_cfg: "runtime_started c \<Longrightarrow> apply_settings st c = Some c' \<Longrightarrow> core_step c c'"

inductive core_run :: "core \<Rightarrow> core \<Rightarrow> bool" where
  run_refl: "core_run c c"
| run_step: "core_run c d \<Longrightarrow> core_step d e \<Longrightarrow> core_run c e"
| run_rollback: "core_run c d \<Longrightarrow> core_run d e \<Longrightarrow> core_run c (restore_reload_state (snapshot_reload_state d) e)"

text \<open>
  Start-up: the configuration script registers keys and layouts on a fresh core, the settings are
  applied (there is no monitor and no workspace yet), and \<^const>\<open>core_init\<close> follows.
\<close>

definition core_boot :: "core_settings \<Rightarrow> monitor list \<Rightarrow> core option" where
  "core_boot st mons = map_option (core_init mons) (apply_settings st (init_core st))"

definition core_reachable :: "core \<Rightarrow> bool" where
  "core_reachable c \<longleftrightarrow> (\<exists>st mons c0. core_boot st mons = Some c0 \<and> core_run c0 c)"

section \<open>Preservation\<close>

lemma config_only_inv:
  assumes "core_inv c" "wm c' = wm c" "pending_window_flushes c' = pending_window_flushes c"
    "layout_cfg c' = layout_cfg c" "layouts c (active_layout c) \<noteq> None \<Longrightarrow> layouts c' (active_layout c') \<noteq> None"
  shows "core_inv c'"
  using assms by (simp add: core_inv_def core_ok_def flush_ok_def config_ok_def)

lemma wsman_inv_factory: "wsman_inv s \<Longrightarrow> factory_contract f \<Longrightarrow> wsman_inv (s\<lparr>window_factory := Some f\<rparr>)"
proof -
  assume inv: "wsman_inv s" and f: "factory_contract f"
  have "windows_ok (s\<lparr>window_factory := Some f\<rparr>) = windows_ok s"
    by (simp add: windows_ok_def located_def)
  with inv f show ?thesis
    by (simp add: wsman_inv_def sizes_ok_def ids_ok_def pools_ok_def cursors_ok_def focus_ok_def factory_ok_def
        factory_contract_def owned_def is_ws_valid_def is_mon_valid_def)
qed

lemma synced_factory [simp]: "synced (s\<lparr>window_factory := f\<rparr>) = synced s"
  by (simp add: synced_def active_ws_of_monitor_def Let_def)

lemma steady_pointer: "steady c (snd (core_focus_monitor_at_point x y c))"
proof -
  have "same_windows s (snd (focus_monitor_at_point x y s))" "synced s \<Longrightarrow> synced (snd (focus_monitor_at_point x y s))" for s
    by (simp_all add: focus_monitor_at_point_def Let_def)
  then have "steady c (c\<lparr>wm := snd (focus_monitor_at_point x y (wm c))\<rparr>)"
    by (intro steady_wm) (simp_all add: focus_monitor_at_point_inv)
  then show ?thesis by (auto simp: core_focus_monitor_at_point_def Let_def case_prod_unfold intro!: steady_further)
qed

lemma core_inv_apply_settings:
  assumes inv: "core_inv c" and st: "runtime_started c" and r: "apply_settings next c = Some c'"
  shows "core_inv c'"
proof -
  from inv have wi: "wsman_inv (wm c)" and fl: "flush_ok c" by (simp_all add: core_inv_def core_ok_def)
  from r obtain s where s: "update_workspace_defs (workspace_defs next) (wm c) = Some s"
    and c': "c' = c\<lparr>settings := next, wm := assign_workspaces (monitor_aliases next) (cs_monitor_compose next) s\<rparr>"
    using st by (auto simp: apply_settings_def split: option.splits)
  have si: "wsman_inv s" by (rule update_workspace_defs_inv [OF wi s])
  have "window_index s = window_index (wm c)"
  proof (cases "workspace_defs next = []")
    case True
    with s show ?thesis by (auto simp: update_workspace_defs_def split: if_splits)
  qed (use update_workspace_defs_windows(2) [OF wi _ s] in simp)
  moreover have "window_index (assign_workspaces al co s) = window_index s" for al co
    using same_windows_assign [OF si] by (simp add: same_windows_def)
  ultimately show ?thesis
    using inv fl si by (simp add: c' core_inv_def core_ok_def flush_ok_def config_ok_def assign_workspaces_inv)
qed

lemma core_step_inv:
  assumes "core_step c c'" "core_inv c"
  shows "core_inv c'"
  using assms
proof (induction rule: core_step.induct)
  case (take_flush c win)
  then show ?case
    by (auto simp: take_window_flush_def core_inv_def core_ok_def flush_ok_def config_ok_def split: option.splits)
next
  case (consume c win)
  then show ?case
    by (auto simp: consume_window_suppress_focus_once_def intro!: steady_core_inv [OF steady_set_win] split: option.splits)
next
  case (upd c win)
  then show ?case by (auto simp: update_window_def intro: steady_core_inv split: option.splits)
next
  case (factory f c)
  then show ?case
    by (auto simp: core_inv_def core_ok_def flush_ok_def config_ok_def set_window_factory_def upd_wm_def wsman_inv_factory)
next
  case (apply_cfg c st c')
  then show ?case by (simp add: core_inv_apply_settings)
next
  case (atom c cmd)
  then show ?case by (rule core_inv_atom)
next
  case (composite c cmp)
  then show ?case by (rule core_inv_composite)
next
  case (pointer c x y)
  then show ?case by (rule steady_core_inv [OF steady_pointer])
next
  case (refocus c win)
  then show ?case by (rule steady_core_inv [OF steady_focus])
qed (auto elim!: config_only_inv simp: take_backend_effects_def set_event_sink_def register_lua_layout_def register_layout_def
      register_keybinding_def bind_lua_host_def set_config_path_def clear_reloadable_runtime_state_def mark_runtime_started_def)

interpretation core_system: invariant_system core_step core_inv
  by unfold_locales (rule core_step_inv)

text \<open>No entry point unregisters a built-in layout.\<close>

lemma same_config_refl [simp]: "same_config c c"
  by (simp add: same_config_def)

lemmas same_config_more = same_config_trans [OF _ same_config_prims(1)] same_config_trans [OF _ same_config_prims(3)]
  same_config_trans [OF _ same_config_prims(4)] same_config_trans [OF _ same_config_prims(5)]
  same_config_trans [OF _ same_config_prims(6)] same_config_trans [OF _ same_config_prims(7)]
  same_config_trans [OF _ steady_same_config [OF steady_focus]]
  same_config_trans [OF _ steady_same_config [OF steady_evaluate]]
  same_config_trans [OF _ steady_same_config [OF steady_arrange]]
  same_config_trans [OF _ steady_same_config [OF steady_sync_workspace_visibility]]
  same_config_trans [OF _ steady_same_config [OF steady_reconcile]]
  same_config_trans [OF _ steady_same_config [OF steady_simple_commands(6)]]
  same_config_trans [OF _ steady_same_config [OF steady_simple_commands(7)]]

lemma same_config_pin: "same_config c (pin_fullscreen_to_monitor p w c)"
  by (auto simp: pin_fullscreen_to_monitor_def Let_def split: prod.splits intro!: same_config_more)

lemma same_config_assign: "same_config c (snd (dispatch_AssignWindowWorkspace win w c))"
  by (auto simp: dispatch_AssignWindowWorkspace_def with_window_def split: option.splits intro!: same_config_more)

lemma same_config_moves:
  "same_config c (snd (dispatch_MoveWindowToWorkspace win w c))"
  "same_config c (snd (dispatch_EnsureWindow win w c))"
  "same_config c (snd (dispatch_SetWindowMetadata md c))"
  "same_config c (snd (dispatch_RemoveWindowFromAllWorkspaces win c))"
  "same_config c (snd (dispatch_ApplyMonitorTopology mons c))"
  "same_config c (snd (dispatch_Zoom c))"
proof -
  show "same_config c (snd (dispatch_MoveWindowToWorkspace win w c))"
    by (auto simp: dispatch_MoveWindowToWorkspace_def Let_def split: option.splits
        intro!: same_config_more same_config_trans [OF _ same_config_pin])
  have "same_config c (route_transient win' parent p d)" if "same_config c d" for win' parent p d
    using that by (auto simp: route_transient_def Let_def
        intro!: same_config_more same_config_trans [OF _ same_config_assign])
  then show "same_config c (snd (dispatch_SetWindowMetadata md c))"
    by (auto simp: dispatch_SetWindowMetadata_def with_window_def Let_def split: option.splits intro!: same_config_more)
  have "same_config c (d\<lparr>pending_window_flushes := fl\<rparr>)" if "same_config c d" for d fl
    using that by (simp add: same_config_def)
  then show "same_config c (snd (dispatch_RemoveWindowFromAllWorkspaces win c))"
    by (auto simp: dispatch_RemoveWindowFromAllWorkspaces_def Let_def intro!: same_config_more)
  show "same_config c (snd (dispatch_EnsureWindow win w c))"
    by (auto simp: dispatch_EnsureWindow_def split: option.splits)
  show "same_config c (snd (dispatch_ApplyMonitorTopology mons c))"
    by (auto simp: dispatch_ApplyMonitorTopology_def intro!: same_config_more)
  show "same_config c (snd (dispatch_Zoom c))"
    by (auto simp: dispatch_Zoom_def Let_def case_prod_unfold intro!: same_config_more)
qed

definition static :: "core \<Rightarrow> core \<Rightarrow> bool" where
  "static c c' \<longleftrightarrow> layouts c' = layouts c \<and> runtime_started c' = runtime_started c"

lemma static_refl [simp]: "static c c"
  by (simp add: static_def)

lemma steady_static: "steady c c' \<Longrightarrow> static c c'"
  by (simp add: steady_def same_config_def static_def)

lemma same_config_static: "same_config c c' \<Longrightarrow> static c c'"
  by (simp add: same_config_def static_def)

lemma static_layout_commands:
  "static c (snd (dispatch_SetLayout n c))" "static c (snd (dispatch_SetMasterFactor v c))"
  "static c (snd (dispatch_AdjustMasterFactor d c))" "static c (snd (dispatch_IncMaster k c))"
proof -
  have "static c (arrange c')" if "static c c'" for c'
    using that steady_static [OF steady_arrange, of c'] by (simp add: static_def)
  then show "static c (snd (dispatch_SetLayout n c))" "static c (snd (dispatch_SetMasterFactor v c))"
    "static c (snd (dispatch_AdjustMasterFactor d c))" "static c (snd (dispatch_IncMaster k c))"
    by (simp_all add: dispatch_SetLayout_def dispatch_SetMasterFactor_def dispatch_AdjustMasterFactor_def
        dispatch_IncMaster_def set_master_factor_def static_def)
qed

lemma static_atom: "static c (snd (dispatch_atom cmd c))"
proof (cases cmd)
  case (MoveWindowToMonitor win n)
  then show ?thesis
    by (auto simp: dispatch_MoveWindowToMonitor_def same_config_static [OF same_config_moves(1)] split: option.splits)
qed (simp_all add: dispatch_ReconcileNow_def static_layout_commands steady_static [OF steady_arrange]
    same_config_moves [THEN same_config_static] same_config_static [OF same_config_assign]
    steady_SwitchWorkspace [THEN steady_static] steady_SetWindowFullscreen [THEN steady_static]
    steady_FocusMonitor [THEN steady_static] steady_ReserveMonitorArea [THEN steady_static]
    steady_simple_commands [THEN steady_static] steady_geometry [THEN steady_static]
    steady_configure_notify [THEN steady_static])

lemma static_composite: "static c (snd (dispatch_composite cmd c))"
proof (cases cmd)
  case (MoveFocusedWindowToWorkspace w)
  then show ?thesis
    by (auto simp: dispatch_MoveFocusedWindowToWorkspace_def same_config_static [OF same_config_moves(1)]
        split: option.splits)
qed (simp_all add: static_layout_commands same_config_moves [THEN same_config_static]
    steady_simple_commands [THEN steady_static] steady_focus_next [THEN steady_static]
    steady_toggle_focused [THEN steady_static] steady_switch_local [THEN steady_static])

lemma core_step_static: "core_step c c' \<Longrightarrow> dom (layouts c) \<subseteq> dom (layouts c') \<and> (runtime_started c \<longrightarrow> runtime_started c')"
proof (induction rule: core_step.induct)
  case (consume c win)
  then show ?case
    by (auto simp: consume_window_suppress_focus_once_def set_win_def upd_wm_def split: option.splits)
next
  case (atom c cmd)
  then show ?case using static_atom [of c cmd] by (simp add: static_def)
next
  case (composite c cmp)
  then show ?case using static_composite [of c cmp] by (simp add: static_def)
next
  case (pointer c x y)
  then show ?case using steady_static [OF steady_pointer, of c x y] by (simp add: static_def)
next
  case (refocus c win)
  then show ?case using steady_static [OF steady_focus [of c win]] by (simp add: static_def)
qed (auto simp: take_window_flush_def
    take_backend_effects_def update_window_def emit_backend_effect_def set_event_sink_def set_window_factory_def upd_wm_def
    register_lua_layout_def register_layout_def register_keybinding_def bind_lua_host_def set_config_path_def
    clear_reloadable_runtime_state_def mark_runtime_started_def apply_settings_def split: option.splits)

lemmas core_step_layouts = core_step_static [THEN conjunct1]

lemma core_run_started: "core_run c d \<Longrightarrow> runtime_started c \<Longrightarrow> runtime_started d"
  by (induction rule: core_run.induct) (auto dest: core_step_static simp: restore_reload_state_def)

lemma core_run_trans: "core_run d e \<Longrightarrow> core_run c d \<Longrightarrow> core_run c e"
proof (induction rule: core_run.induct)
  case (run_step d1 d e)
  then show ?case by (blast intro: core_run.run_step)
next
  case (run_rollback d1 d e)
  then show ?case by (blast intro: core_run.run_rollback)
qed simp

lemma core_run_inv:
  "core_run c d \<Longrightarrow> core_inv c \<Longrightarrow> core_inv d \<and> dom (layouts c) \<subseteq> dom (layouts d)"
proof (induction rule: core_run.induct)
  case (run_step c d e)
  then show ?case using core_step_inv [of d e] core_step_layouts [of d e] by blast
next
  case (run_rollback c d e)
  then have d: "core_inv d" "dom (layouts c) \<subseteq> dom (layouts d)" and e: "core_inv e" "dom (layouts d) \<subseteq> dom (layouts e)"
    by blast+
  have "active_layout d \<in> dom (layouts e)" using d(1) e(2) by (auto simp: core_inv_def config_ok_def)
  with d(1) e(1) have "core_inv (restore_reload_state (snapshot_reload_state d) e)"
    by (auto simp: core_inv_def core_ok_def flush_ok_def config_ok_def restore_reload_state_def snapshot_reload_state_def)
  with d(2) e(2) show ?case by (simp add: restore_reload_state_def)
qed simp

lemma core_init_inv:
  assumes "wsman_inv (wm c)" "pending_window_flushes c = Map.empty" "layout_cfg c = default_layout_config"
    "active_layout c = ''tile''"
  shows "core_inv (core_init mons c)"
proof -
  let ?s = "if mons \<noteq> [] then set_monitors mons (wm c) else wm c"
  have "wsman_inv ?s" using assms(1) set_monitors_inv by simp
  note i = init_from_defs_inv [OF this]
  have "wm (core_init mons c) = init_from_defs (workspace_defs (settings c)) (monitor_aliases (settings c))
     (cs_monitor_compose (settings c)) ?s"
    by (simp add: core_init_def upd_wm_def register_layout_def Let_def)
  then have "wsman_inv (wm (core_init mons c))" "synced (wm (core_init mons c))" using i by simp_all
  moreover have "pending_window_flushes (core_init mons c) = Map.empty" "layout_cfg (core_init mons c) = default_layout_config"
    "layouts (core_init mons c) (active_layout (core_init mons c)) \<noteq> None"
    using assms by (simp_all add: core_init_def Let_def upd_wm_def register_layout_def)
  moreover have "nmaster default_layout_config = 1" by (simp add: default_layout_config_def)
  ultimately show ?thesis
    by (simp add: core_inv_def core_ok_def flush_ok_def config_ok_def f32_literals)
qed

lemma core_boot_inv:
  assumes "core_boot st mons = Some c"
  shows "core_inv c"
proof -
  from assms obtain c0 where c0: "apply_settings st (init_core st) = Some c0" and c: "c = core_init mons c0"
    by (auto simp: core_boot_def)
  from c0 obtain s where "update_workspace_defs (workspace_defs st) init_wsman = Some s"
    and "c0 = (init_core st)\<lparr>settings := st, wm := s\<rparr>"
    by (auto simp: apply_settings_def init_core_def split: option.splits)
  with update_workspace_defs_inv [OF wsman_inv_init] show ?thesis
    unfolding c by (intro core_init_inv) (simp_all add: init_core_def)
qed

lemma core_reachable_run: "core_reachable c \<Longrightarrow> core_run c d \<Longrightarrow> core_reachable d"
  unfolding core_reachable_def using core_run_trans by blast

lemma core_reachable_inv: "core_reachable c \<Longrightarrow> core_inv c"
  unfolding core_reachable_def using core_boot_inv core_run_inv by blast

end
