(* ===== verification/Wsman_Hotplug.thy ===== *)
theory Wsman_Hotplug
  imports Wsman_Monitors
begin

text \<open>
  What \<^const>\<open>set_monitors\<close> parks and restores: unplugging a monitor and plugging it in again, with
  the workspaces redistributed in between, gives it back its pool in the old order and its active
  workspace.
\<close>

section \<open>Parking\<close>

lemma park_monitor_known: "mon_name (monitors s ! i) \<in> set (map mon_name mons) \<Longrightarrow> park_monitor s mons i t = t"
  by (simp add: park_monitor_def Let_def)

lemma park_known:
  "\<forall>i\<in>set is. mon_name (monitors s ! i) \<in> set (map mon_name mons) \<Longrightarrow> fold (park_monitor s mons) is t = t"
  by (induction "is" arbitrary: t) (simp_all add: park_monitor_known)

lemma parked_state_known:
  "set (map mon_name (monitors s)) \<subseteq> set (map mon_name mons) \<Longrightarrow> parked_state mons s = s"
  unfolding parked_state_def by (rule park_known) (auto simp: image_subset_iff)

lemma upt_split: "k < n \<Longrightarrow> [0..<n] = [0..<k] @ k # [Suc k..<n]"
  by (metis le_add_same_cancel1 less_imp_le_nat upt_add_eq_append upt_conv_Cons add_0 less_imp_add_positive zero_le)

text \<open>Exactly the monitor \<open>k\<close> disappears.\<close>

lemma parked_state_one:
  assumes k: "k < length (monitors s)" and gone: "mon_name (monitors s ! k) \<notin> set (map mon_name mons)"
    and stay: "\<And>i. i < length (monitors s) \<Longrightarrow> i \<noteq> k \<Longrightarrow> mon_name (monitors s ! i) \<in> set (map mon_name mons)"
  shows "parked_state mons s = park_monitor s mons k s"
proof -
  have "fold (park_monitor s mons) [0..<k] t = t" "fold (park_monitor s mons) [Suc k..<length (monitors s)] t = t" for t
    by (rule park_known; use k stay in force)+
  then show ?thesis unfolding parked_state_def upt_split [OF k] by simp
qed

section \<open>Seeding\<close>

lemma old_index_None_iff: "old_index s n = None \<longleftrightarrow> n \<notin> set (map mon_name (monitors s))"
proof -
  have "fst ` set (rev (map (\<lambda>i. (mon_name (monitors s ! i), i)) [0..<length (monitors s)])) =
    set (map (\<lambda>i. mon_name (monitors s ! i)) [0..<length (monitors s)])" by force
  also have "map (\<lambda>i. mon_name (monitors s ! i)) [0..<length (monitors s)] = map mon_name (monitors s)"
    by (rule nth_equalityI) simp_all
  finally show ?thesis unfolding old_index_def map_of_eq_None_iff by simp
qed

definition seed_other :: "nat \<Rightarrow> seed_state \<Rightarrow> int list \<times> int \<times> nat \<times> nat" where
  "seed_other k st = (fst (snd (snd (snd st))) ! k, snd (snd (snd (snd st))) ! k,
     length (fst (snd (snd (snd st)))), length (snd (snd (snd (snd st)))))"

text \<open>A monitor that was connected before changes only its own seed entry.\<close>

lemma seed_monitor_known:
  assumes "mon_name (mons ! i) \<in> set (map mon_name (monitors s))"
  shows "fst (seed_monitor s mons i st) = fst st" "fst (snd (seed_monitor s mons i st)) = fst (snd st)"
    "seed_owner (seed_monitor s mons i st) = seed_owner st"
    "i \<noteq> k \<Longrightarrow> seed_other k (seed_monitor s mons i st) = seed_other k st"
proof -
  obtain oi where "old_index s (mon_name (mons ! i)) = Some oi"
    using assms old_index_None_iff [of s "mon_name (mons ! i)"] by blast
  then show "fst (seed_monitor s mons i st) = fst st" "fst (snd (seed_monitor s mons i st)) = fst (snd st)"
    "seed_owner (seed_monitor s mons i st) = seed_owner st"
    "i \<noteq> k \<Longrightarrow> seed_other k (seed_monitor s mons i st) = seed_other k st"
    by (cases st; simp add: seed_monitor_def Let_def seed_owner_def seed_other_def)+
qed

lemma seed_known:
  assumes "\<forall>i\<in>set is. mon_name (mons ! i) \<in> set (map mon_name (monitors s)) \<and> i \<noteq> k"
  shows "fst (fold (seed_monitor s mons) is st) = fst st" "fst (snd (fold (seed_monitor s mons) is st)) = fst (snd st)"
    "seed_owner (fold (seed_monitor s mons) is st) = seed_owner st"
    "seed_other k (fold (seed_monitor s mons) is st) = seed_other k st"
  using assms by (induction "is" arbitrary: st) (simp_all add: seed_monitor_known)

lemma seeded_known:
  assumes "set (map mon_name mons) \<subseteq> set (map mon_name (monitors s))"
  shows "fst (seeded mons s) = parked_pools (parked_state mons s)"
    "fst (snd (seeded mons s)) = parked_active_ws (parked_state mons s)"
proof -
  have "\<forall>i\<in>set [0..<length mons]. mon_name (mons ! i) \<in> set (map mon_name (monitors s)) \<and> i \<noteq> length mons"
    using assms by (auto simp: image_subset_iff)
  from seed_known [OF this] show "fst (seeded mons s) = parked_pools (parked_state mons s)"
    "fst (snd (seeded mons s)) = parked_active_ws (parked_state mons s)"
    unfolding seeded_def by simp_all
qed

lemma set_monitors_fields:
  "monitor_pools (set_monitors mons s) = map (pool_of (retopology mons s) (seed_pools mons s)) [0..<length mons]"
  "parked_pools (set_monitors mons s) = fst (seeded mons s)"
  "parked_active_ws (set_monitors mons s) = fst (snd (seeded mons s))"
  "workspaces (set_monitors mons s) = workspaces s" "map mon_name (monitors (set_monitors mons s)) = map mon_name mons"
  "active_ws_of_monitor (set_monitors mons s) =
     active_ws_of_monitor (rebuild_pools_from_owner (seed_pools mons s) (seed_preferred mons s) (retopology mons s))"
  "ws_owner (set_monitors mons s) = ws_owner (retopology mons s)"
proof -
  obtain f where f: "set_monitors mons s = sync_monitors_active_ws (select_valid_focused_monitor
     ((rebuild_pools_from_owner (seed_pools mons s) (seed_preferred mons s) (retopology mons s))
        \<lparr>focused_monitor := f\<rparr>))"
    using set_monitors_eq by blast
  obtain pp pa where p: "parked_state mons s = s\<lparr>parked_pools := pp, parked_active_ws := pa\<rparr>"
    unfolding parked_state_def using park_fold by blast
  have m: "monitors (retopology mons s) = mons" "workspaces (retopology mons s) = workspaces s"
    by (simp_all add: retopology_def p)
  have a: "active_ws_of_monitor (t\<lparr>focused_monitor := f\<rparr>) = active_ws_of_monitor t" for t
    by (simp add: active_ws_of_monitor_def fun_eq_iff Let_def)
  have names: "map mon_name (monitors (sync_monitors_active_ws t)) = map mon_name (monitors t)" for t
    by (rule nth_equalityI) (simp_all add: frame_simps sync_nth)
  show "monitor_pools (set_monitors mons s) = map (pool_of (retopology mons s) (seed_pools mons s)) [0..<length mons]"
    "parked_pools (set_monitors mons s) = fst (seeded mons s)"
    "parked_active_ws (set_monitors mons s) = fst (snd (seeded mons s))"
    "workspaces (set_monitors mons s) = workspaces s" "map mon_name (monitors (set_monitors mons s)) = map mon_name mons"
    "active_ws_of_monitor (set_monitors mons s) =
     active_ws_of_monitor (rebuild_pools_from_owner (seed_pools mons s) (seed_preferred mons s) (retopology mons s))"
    "ws_owner (set_monitors mons s) = ws_owner (retopology mons s)"
    unfolding f names by (simp_all add: frame_simps rebuild_pools_eq m a)
      (simp_all add: retopology_def)
qed

section \<open>Replugging\<close>

lemma claim_nth:
  assumes "w < length own" "\<forall>v\<in>set pool. is_ws_valid s v \<and> 0 \<le> v"
  shows "fold (\<lambda>w own. if is_ws_valid s w then own[nat w := int i] else own) pool own ! w =
    (if int w \<in> set pool then int i else own ! w)"
  using assms by (induction pool arbitrary: own) (auto simp: nth_list_update)

lemma carried_not_new:
  assumes "mon_name (mons ! k) \<notin> set (map mon_name (monitors s))" "w < length (workspaces s)"
    "distinct (map mon_name mons)" "k < length mons"
  shows "carried_owner s mons ! w \<noteq> int k"
proof
  assume r: "carried_owner s mons ! w = int k"
  define o' where "o' = ws_owner s ! w"
  from r assms(2) have "0 \<le> o'" "o' < int (length (monitors s))"
    "find_index (\<lambda>m. mon_name m = mon_name (monitors s ! nat o')) mons = Some k"
    by (auto simp: carried_owner_def Let_def o'_def split: if_splits option.splits)
  from find_index_SomeD [OF this(3)] have "mon_name (mons ! k) = mon_name (monitors s ! nat o')" by simp
  moreover have "monitors s ! nat o' \<in> set (monitors s)" using \<open>0 \<le> o'\<close> \<open>o' < _\<close> by (simp add: nat_less_iff)
  ultimately show False using assms(1) by simp
qed

text \<open>
  One new monitor, whose pool was parked: it gets that pool and, if it was not empty, the workspace
  that was active on it.
\<close>

lemma replug:
  assumes names: "distinct (map mon_name mons)" and k: "k < length mons"
    and new: "mon_name (mons ! k) \<notin> set (map mon_name (monitors s))"
    and old: "\<And>i. i < length mons \<Longrightarrow> i \<noteq> k \<Longrightarrow> mon_name (mons ! i) \<in> set (map mon_name (monitors s))"
    and stay: "set (map mon_name (monitors s)) \<subseteq> set (map mon_name mons)"
    and parked: "parked_pools s (mon_name (mons ! k)) = Some pool" "parked_active_ws s (mon_name (mons ! k)) = Some act"
    and pool: "distinct pool" "\<forall>v\<in>set pool. is_ws_valid s v" "pool \<noteq> [] \<Longrightarrow> act \<in> set pool"
  shows "monitor_pools (set_monitors mons s) ! k = pool"
    and "active_ws_of_monitor (set_monitors mons s) (int k) = (if pool = [] then - 1 else act)"
    and "w < length (workspaces s) \<Longrightarrow> int w \<notin> set pool \<Longrightarrow> ws_owner (set_monitors mons s) ! w = carried_owner s mons ! w"
proof -
  let ?n = "mon_name (mons ! k)"
  let ?st0 = "(parked_pools s, parked_active_ws s, carried_owner s mons, replicate (length mons) [], replicate (length mons) (- 1))
    :: seed_state"
  define st1 where "st1 = fold (seed_monitor s mons) [0..<k] ?st0"
  define st2 where "st2 = seed_monitor s mons k st1"
  have kn: "\<forall>i\<in>set [0..<k]. mon_name (mons ! i) \<in> set (map mon_name (monitors s)) \<and> i \<noteq> k"
    "\<forall>i\<in>set [Suc k..<length mons]. mon_name (mons ! i) \<in> set (map mon_name (monitors s)) \<and> i \<noteq> k"
    using old k by auto
  have st: "seeded mons s = fold (seed_monitor s mons) [Suc k..<length mons] st2"
    by (simp add: seeded_def parked_state_known [OF stay] upt_split [OF k] st1_def st2_def)
  note s1 = seed_known [OF kn(1), of ?st0, folded st1_def]
  obtain seed1 pref1 where st1: "st1 = (parked_pools s, parked_active_ws s, carried_owner s mons, seed1, pref1)"
    using s1(1-3) by (cases st1) (auto simp: seed_owner_def)
  have len: "length seed1 = length mons" "length pref1 = length mons"
    using s1(4) by (simp_all add: st1 seed_other_def)
  have oi: "old_index s ?n = None" using new by (simp add: old_index_None_iff)
  have own2: "seed_owner st2 = fold (\<lambda>w own. if is_ws_valid s w then own[nat w := int k] else own) pool (carried_owner s mons)"
    and other2: "seed_other k st2 = (pool, act, length mons, length mons)"
    using parked len k by (simp_all add: st2_def st1 seed_monitor_def oi Let_def seed_owner_def seed_other_def)
  note s3 = seed_known [OF kn(2), of st2, folded st]
  have own: "seed_owner (seeded mons s) = seed_owner st2" by (rule s3(3))
  have sp: "seed_pools mons s ! k = pool" "seed_preferred mons s ! k = act" "length (seed_pools mons s) = length mons"
    "length (seed_preferred mons s) = length mons"
    using s3(4) other2 by (simp_all add: seed_other_def seed_pools_def seed_preferred_def)
  let ?r = "retopology mons s"
  have r: "ws_owner ?r = seed_owner st2" "workspaces ?r = workspaces s" "monitors ?r = mons"
    by (simp_all add: retopology_def own parked_state_known [OF stay])
  have lc: "length (carried_owner s mons) = length (workspaces s)" by (simp add: carried_owner_def)
  have l2: "length (seed_owner st2) = length (workspaces s)"
  proof -
    have "length (fold (\<lambda>w own. if is_ws_valid s w then own[nat w := int k] else own) ws own) = length own" for ws own
      by (induction ws arbitrary: own) auto
    then show ?thesis by (simp add: own2 lc)
  qed
  have o: "owned ?r (int k) w \<longleftrightarrow> w \<in> set pool" for w
  proof -
    have "seed_owner st2 ! nat w = int k \<longleftrightarrow> w \<in> set pool" if "is_ws_valid s w"
    proof -
      have w: "nat w < length (workspaces s)" "int (nat w) = w" using that by (auto simp: is_ws_valid_def)
      have "\<forall>v\<in>set pool. is_ws_valid s v \<and> 0 \<le> v" using pool(2) by (auto simp: is_ws_valid_def)
      from claim_nth [OF _ this, of "nat w" "carried_owner s mons" k] w lc carried_not_new [OF new w(1) names k]
      show ?thesis by (simp add: own2)
    qed
    then show ?thesis using pool(2) l2 by (auto simp: owned_def r is_ws_valid_def)
  qed
  have "set (filter (owned ?r (int k)) xs) \<subseteq> set pool" for xs using o by auto
  note absorb = add_new_absorb [OF this]
  have "filter (owned ?r (int k)) pool = pool" using o by (simp add: filter_id_conv)
  then have p: "pool_of ?r (seed_pools mons s) k = pool"
    using k add_new_fresh [OF pool(1), of "[]"] by (simp add: pool_of_def sp add_new_append absorb)
  then show "monitor_pools (set_monitors mons s) ! k = pool" using k by (simp add: set_monitors_fields)
  show "active_ws_of_monitor (set_monitors mons s) (int k) = (if pool = [] then - 1 else act)"
    unfolding set_monitors_fields using k p sp pool(3) by (simp add: rebuild_active r Let_def)
  have "\<forall>v\<in>set pool. is_ws_valid s v \<and> 0 \<le> v" using pool(2) by (auto simp: is_ws_valid_def)
  then show "w < length (workspaces s) \<Longrightarrow> int w \<notin> set pool \<Longrightarrow> ws_owner (set_monitors mons s) ! w = carried_owner s mons ! w"
    using claim_nth [of w "carried_owner s mons" pool s k] by (simp add: set_monitors_fields r own2 lc)
qed

text \<open>Unplugging monitor \<open>k\<close> parks its pool and its active workspace, and nothing else.\<close>

lemma unplug:
  assumes names: "distinct (map mon_name (monitors s))" and k: "k < length (monitors s)"
    and sz: "sizes_ok s" and mons: "mons = remove_nth k (monitors s)"
  shows "parked_pools (set_monitors mons s) = (parked_pools s)(mon_name (monitors s ! k) \<mapsto> monitor_pools s ! k)"
    and "parked_active_ws (set_monitors mons s) =
      (parked_active_ws s)(mon_name (monitors s ! k) \<mapsto> active_ws_of_monitor s (int k))"
    and "set (map mon_name mons) = set (map mon_name (monitors s)) - {mon_name (monitors s ! k)}"
proof -
  have "map mon_name mons = remove_nth k (map mon_name (monitors s))"
    by (simp add: mons remove_nth_def take_map drop_map)
  then show ns: "set (map mon_name mons) = set (map mon_name (monitors s)) - {mon_name (monitors s ! k)}"
    using set_remove_nth [OF names, of k] k by simp
  have "mon_name (monitors s ! i) \<noteq> mon_name (monitors s ! k)" if "i < length (monitors s)" "i \<noteq> k" for i
    using names that k by (auto simp: distinct_conv_nth)
  then have "parked_state mons s = park_monitor s mons k s"
    by (intro parked_state_one [OF k]) (simp_all only: ns, auto)
  moreover have "mon_name (monitors s ! k) \<notin> set (map mon_name mons)" by (simp only: ns) simp
  moreover have "set (map mon_name mons) \<subseteq> set (map mon_name (monitors s))" unfolding ns by blast
  ultimately show "parked_pools (set_monitors mons s) = (parked_pools s)(mon_name (monitors s ! k) \<mapsto> monitor_pools s ! k)"
    "parked_active_ws (set_monitors mons s) =
      (parked_active_ws s)(mon_name (monitors s ! k) \<mapsto> active_ws_of_monitor s (int k))"
    using k sz by (simp_all add: set_monitors_fields seeded_known park_monitor_def Let_def old_active_def sizes_ok_def)
qed

lemma assign_frame:
  assumes "wsman_inv s"
  shows "parked_pools (assign_workspaces al co s) = parked_pools s"
    "parked_active_ws (assign_workspaces al co s) = parked_active_ws s"
    "map mon_name (monitors (assign_workspaces al co s)) = map mon_name (monitors s)"
    "workspaces (assign_workspaces al co s) = workspaces s"
proof -
  have own: "length (ws_owner s) = length (workspaces s)" using assms by (simp add: wsman_inv_def sizes_ok_def)
  have names: "map mon_name (monitors (sync_monitors_active_ws t)) = map mon_name (monitors t)" for t
    by (rule nth_equalityI) (simp_all add: frame_simps sync_nth)
  show "parked_pools (assign_workspaces al co s) = parked_pools s"
    "parked_active_ws (assign_workspaces al co s) = parked_active_ws s"
    "map mon_name (monitors (assign_workspaces al co s)) = map mon_name (monitors s)"
    "workspaces (assign_workspaces al co s) = workspaces s"
    using own
    by (cases "monitors s = []";
        simp add: assign_workspaces_eq names frame_simps rebuild_pools_eq; simp add: assign_workspaces_def)+
qed

lemma active_in_pool:
  assumes "m < length (monitor_pools s)" "monitor_pools s ! m \<noteq> []"
  shows "active_ws_of_monitor s (int m) \<in> set (monitor_pools s ! m)"
  using assms by (auto simp: active_ws_of_monitor_def Let_def)

lemma active_empty_pool: "monitor_pools s ! m = [] \<Longrightarrow> active_ws_of_monitor s (int m) = - 1"
  by (simp add: active_ws_of_monitor_def Let_def NO_WORKSPACE_def)

lemma unplug_replug:
  assumes inv: "wsman_inv s" and names: "distinct (map mon_name (monitors s))" and k: "k < length (monitors s)"
    and again: "map mon_name mons = map mon_name (monitors s)"
    and s1: "s1 = assign_workspaces al co (set_monitors (remove_nth k (monitors s)) s)"
  shows "monitor_pools (set_monitors mons s1) ! k = monitor_pools s ! k"
    and "active_ws_of_monitor (set_monitors mons s1) (int k) = active_ws_of_monitor s (int k)"
    and "w < length (workspaces s) \<Longrightarrow> int w \<notin> set (monitor_pools s ! k) \<Longrightarrow>
      ws_owner (set_monitors mons s1) ! w = carried_owner s1 mons ! w"
proof -
  let ?m = "remove_nth k (monitors s)" and ?n = "mon_name (monitors s ! k)"
  from inv have sz: "sizes_ok s" and pk: "pools_ok s" by (simp_all add: wsman_inv_def)
  note up = unplug [OF names k sz refl]
  have inv0: "wsman_inv (set_monitors ?m s)" by (rule set_monitors_inv [OF inv])
  note af = assign_frame [OF inv0, of al co, folded s1]
  have n1: "set (map mon_name (monitors s1)) = set (map mon_name (monitors s)) - {?n}"
    using af(3) set_monitors_fields(5) [of ?m s] up(3) by simp
  have kn: "mon_name (mons ! k) = ?n" "k < length mons"
    using again k by (metis nth_map length_map)+
  have nth: "mon_name (mons ! i) = mon_name (monitors s ! i)" if "i < length mons" for i
    using again that by (metis nth_map length_map)
  have ne: "mon_name (mons ! i) \<noteq> ?n" if "i < length mons" "i \<noteq> k" for i
    using names again that kn by (metis distinct_conv_nth length_map nth_map)
  have kp: "k < length (monitor_pools s)" using k sz by (simp add: sizes_ok_def)
  have pool: "distinct (monitor_pools s ! k)" "\<forall>v\<in>set (monitor_pools s ! k). is_ws_valid s1 v"
    using pk kp af(4) set_monitors_fields(4) [of ?m s] by (auto simp: pools_ok_def owned_def is_ws_valid_def)
  note rp = replug [of mons k s1 "monitor_pools s ! k" "active_ws_of_monitor s (int k)"]
  have old: "mon_name (mons ! i) \<in> set (map mon_name (monitors s1))" if "i < length mons" "i \<noteq> k" for i
    unfolding n1 using ne [OF that] nth [OF that(1)] that(1) again by (metis Diff_iff length_map nth_map nth_mem singletonD)
  have "monitor_pools (set_monitors mons s1) ! k = monitor_pools s ! k \<and>
    active_ws_of_monitor (set_monitors mons s1) (int k) = (if monitor_pools s ! k = [] then - 1 else active_ws_of_monitor s (int k))"
    by (intro conjI rp)
      (use names again kn old n1 pool af(1,2) up(1,2) active_in_pool [OF kp] in \<open>auto simp: kn\<close>)
  then show "monitor_pools (set_monitors mons s1) ! k = monitor_pools s ! k"
    "active_ws_of_monitor (set_monitors mons s1) (int k) = active_ws_of_monitor s (int k)"
    using kp by (auto simp: active_ws_of_monitor_def Let_def NO_WORKSPACE_def)
  show "ws_owner (set_monitors mons s1) ! w = carried_owner s1 mons ! w"
    if "w < length (workspaces s)" "int w \<notin> set (monitor_pools s ! k)"
    by (rule rp(3))
      (use that names again kn old n1 pool af(1,2,4) up(1,2) active_in_pool [OF kp] set_monitors_fields(4) [of ?m s] in \<open>auto simp: kn\<close>)
qed

section \<open>The assignment that follows\<close>

text \<open>
  What every assignment of workspaces establishes: each workspace is on a connected monitor, and on the one it is bound
  to if that is connected.
\<close>

definition as_configured :: "monitor_alias list \<Rightarrow> wsman \<Rightarrow> bool" where
  "as_configured al s \<longleftrightarrow>
     (\<forall>w<length (workspaces s).
        let a = ws_monitor_alias (workspaces s ! w); t = resolve_alias_monitor s a al
        in is_mon_valid s (ws_owner s ! w) \<and> (a \<noteq> [] \<and> t \<ge> 0 \<longrightarrow> ws_owner s ! w = t))"

lemma find_index_names: "map mon_name ms = map mon_name ms' \<Longrightarrow> find_index (\<lambda>m. mon_name m = n) ms = find_index (\<lambda>m. mon_name m = n) ms'"
  by (induction ms arbitrary: ms') auto

lemma resolve_alias_names:
  "map mon_name (monitors s) = map mon_name (monitors s') \<Longrightarrow> resolve_alias_monitor s = resolve_alias_monitor s'"
  using find_index_names [of "monitors s" "monitors s'"]
  by (auto simp: fun_eq_iff resolve_alias_monitor_def monitor_index_by_name_def split: option.splits)

lemma assigned_owner_nth:
  assumes "w < length (workspaces s)"
  shows "let a = ws_monitor_alias (workspaces s ! w); t = resolve_alias_monitor s a al in
    (a \<noteq> [] \<and> t \<ge> 0 \<longrightarrow> assigned_owner al co s ! w = t) \<and>
    (\<not> (a \<noteq> [] \<and> t \<ge> 0) \<and> is_mon_valid s (ws_owner s ! w) \<longrightarrow> assigned_owner al co s ! w = ws_owner s ! w)"
proof -
  define os where "os = map (\<lambda>i. let o' = ws_owner s ! i; a = ws_monitor_alias (workspaces s ! i);
       t = resolve_alias_monitor s a al
     in if a \<noteq> [] \<and> t \<ge> 0 then t else if is_mon_valid s o' then o' else - 1) [0..<length (workspaces s)]"
  have "assigned_owner al co s ! w = os ! w" if "os ! w \<noteq> - 1"
    unfolding assigned_owner_def os_def [symmetric] by (rule round_robin_keeps) (use that assms in \<open>simp_all add: os_def\<close>)
  then show ?thesis using assms by (auto simp: os_def Let_def is_mon_valid_def)
qed

text \<open>An assignment that gives monitor \<open>k\<close> nothing new and takes nothing away leaves its pool and its active workspace.\<close>

lemma assign_keeps_pool:
  assumes inv: "wsman_inv s" and k: "k < length (monitors s)"
    and same: "\<And>w. w < length (workspaces s) \<Longrightarrow> assigned_owner al co s ! w = int k \<longleftrightarrow> ws_owner s ! w = int k"
  shows "monitor_pools (assign_workspaces al co s) ! k = monitor_pools s ! k"
    and "active_ws_of_monitor (assign_workspaces al co s) (int k) = active_ws_of_monitor s (int k)"
proof -
  let ?t = "s\<lparr>ws_owner := assigned_owner al co s\<rparr>"
  let ?pref = "map (\<lambda>m. active_ws_of_monitor s (int m)) [0..<length (monitors s)]"
  have ne: "monitors s \<noteq> []" using k by auto
  have sz: "sizes_ok s" and pk: "pools_ok s" using inv by (simp_all add: wsman_inv_def)
  have own: "length (ws_owner s) = length (workspaces s)" and kp: "k < length (monitor_pools s)"
    using sz k by (simp_all add: sizes_ok_def)
  note eq = assign_workspaces_eq [OF own ne, of al co]
  have o: "owned ?t (int k) w \<longleftrightarrow> w \<in> set (monitor_pools s ! k)" for w
    using pk kp same [of "nat w"] own assigned_owner_valid(1) [OF ne, of al co]
    by (auto simp: pools_ok_def owned_def is_ws_valid_def)
  have "set (filter (owned ?t (int k)) xs) \<subseteq> set (monitor_pools s ! k)" for xs using o by auto
  note absorb = add_new_absorb [OF this]
  have "filter (owned ?t (int k)) (monitor_pools s ! k) = monitor_pools s ! k" using o by (simp add: filter_id_conv)
  then have p: "pool_of ?t (monitor_pools s) k = monitor_pools s ! k"
    using kp pk add_new_fresh [of "monitor_pools s ! k" "[]"] by (simp add: pool_of_def add_new_append absorb pools_ok_def)
  then show "monitor_pools (assign_workspaces al co s) ! k = monitor_pools s ! k"
    using k by (simp add: eq frame_simps rebuild_pools_eq)
  have "active_ws_of_monitor (assign_workspaces al co s) = active_ws_of_monitor (rebuild_pools_from_owner (monitor_pools s) ?pref ?t)"
    unfolding eq by (simp add: fun_eq_iff active_ws_of_monitor_def frame_simps)
  then show "active_ws_of_monitor (assign_workspaces al co s) (int k) = active_ws_of_monitor s (int k)"
    using k p active_in_pool [OF kp] active_empty_pool by (simp add: rebuild_active Let_def)
qed

lemma replugged_owner_valid:
  assumes inv: "wsman_inv s" and names: "distinct (map mon_name (monitors s))" and k: "k < length (monitors s)"
    and again: "map mon_name mons = map mon_name (monitors s)"
    and s1: "s1 = assign_workspaces al co (set_monitors (remove_nth k (monitors s)) s)"
    and w: "w < length (workspaces s)" "int w \<notin> set (monitor_pools s ! k)"
    and own: "is_mon_valid s (ws_owner s ! w)" "ws_owner s ! w \<noteq> int k"
  shows "is_mon_valid (set_monitors mons s1) (ws_owner (set_monitors mons s1) ! w)"
proof -
  let ?m = "remove_nth k (monitors s)" and ?s0 = "set_monitors (remove_nth k (monitors s)) s"
  have inv0: "wsman_inv ?s0" by (rule set_monitors_inv [OF inv])
  have own0: "length (ws_owner ?s0) = length (workspaces ?s0)" using inv0 by (simp add: wsman_inv_def sizes_ok_def)
  have "length (monitors s) > 1" using own k by (auto simp: is_mon_valid_def)
  then have "length ?m > 0" using k by (simp add: remove_nth_def)
  then have ne: "monitors ?s0 \<noteq> []" using set_monitors_fields(5) [of ?m s] by (metis length_greater_0_conv length_map)
  have o1: "ws_owner s1 = assigned_owner al co ?s0" "map mon_name (monitors s1) = map mon_name ?m" "workspaces s1 = workspaces s"
    using assign_frame(3,4) [OF inv0, of al co] set_monitors_fields(4,5) [of ?m s]
    by (simp_all add: s1 assign_workspaces_eq [OF own0 ne] frame_simps rebuild_pools_eq)
  have l1: "length (monitors s1) = length ?m" using o1(2) by (metis length_map)
  have l0: "length (monitors ?s0) = length ?m" using set_monitors_fields(5) [of ?m s] by (metis length_map)
  have "is_mon_valid ?s0 (ws_owner s1 ! w)"
    unfolding o1(1) by (rule assigned_owner_valid(2) [OF ne nth_mem]) (use w assigned_owner_valid(1) [OF ne] set_monitors_fields(4) [of ?m s] in simp)
  then have v: "0 \<le> ws_owner s1 ! w" "ws_owner s1 ! w < int (length (monitors s1))" by (simp_all add: is_mon_valid_def l0 l1)
  let ?n = "mon_name (monitors s1 ! nat (ws_owner s1 ! w))"
  have "?n \<in> set (map mon_name (monitors s1))" using v by (metis length_map nat_less_iff nth_map nth_mem)
  also have "\<dots> \<subseteq> set (map mon_name mons)" unfolding o1(2) again by (auto simp: remove_nth_def dest: in_set_takeD in_set_dropD)
  finally obtain i where i: "find_index (\<lambda>m. mon_name m = ?n) mons = Some i"
    using find_index_ex [of _ mons "\<lambda>m. mon_name m = ?n"] by (metis (mono_tags, lifting) imageE list.set_map)
  then have "i < length mons" by (auto dest: find_index_SomeD)
  moreover have "length (ws_owner s1) = length (workspaces s1)"
    using assign_workspaces_inv(1) [OF inv0, of al co] by (simp add: s1 wsman_inv_def sizes_ok_def)
  ultimately have "carried_owner s1 mons ! w = int i" using w v i by (simp add: carried_owner_def Let_def o1(3))
  moreover have "length (monitors (set_monitors mons s1)) = length mons" using set_monitors_fields(5) [of mons s1] by (metis length_map)
  ultimately show ?thesis
    using unplug_replug(3) [OF inv names k again s1 w] \<open>i < length mons\<close> by (simp add: is_mon_valid_def)
qed

end
