(* ===== verification/Examples.thy ===== *)
theory Examples
  imports Core_Reachable Wsman_Hotplug
begin

text \<open>
  Concrete states the witnesses of the properties are evaluated on: a session with two monitors and
  four workspaces, and the same session with windows. The states are what the operations of the model
  compute; their normal forms are proved once and used as code equations.
\<close>

section \<open>Workspace manager\<close>

definition ex_defs :: "workspace_def list" where
  "ex_defs = [\<lparr>def_name = ''w'', def_monitor = []\<rparr>, \<lparr>def_name = ''c'', def_monitor = ''s''\<rparr>,
     \<lparr>def_name = ''d'', def_monitor = ''A''\<rparr>, \<lparr>def_name = ''m'', def_monitor = []\<rparr>]"

definition ex_aliases :: "monitor_alias list" where
  "ex_aliases = [\<lparr>ma_alias = ''s'', ma_output = ''B'', ma_width = 1280, ma_height = 1024,
     ma_rate = 60, ma_rotation = ''normal'', ma_enabled = True\<rparr>]"

definition ex_compose :: monitor_compose where
  "ex_compose = \<lparr>primary = ''A'', compose_layout = [], defined = True\<rparr>"

definition ex_monitors :: "monitor list" where
  "ex_monitors = [mk_monitor 0 ''A'' 0 0 1920 1080, mk_monitor 1 ''B'' 1920 0 1280 1024]"

definition ex_wsman :: wsman where
  "ex_wsman = init_from_defs ex_defs ex_aliases ex_compose (set_monitors ex_monitors (grown ex_defs init_wsman))"

lemma ex_wsman_lists:
  "workspaces ex_wsman = [mk_workspace 0 ''w'' [], mk_workspace 1 ''c'' ''s'', mk_workspace 2 ''d'' ''A'', mk_workspace 3 ''m'' []] \<and>
   monitors ex_wsman = [(mk_monitor 0 ''A'' 0 0 1920 1080)\<lparr>active_ws := 0\<rparr>, (mk_monitor 1 ''B'' 1920 0 1280 1024)\<lparr>active_ws := 1\<rparr>] \<and>
   ws_owner ex_wsman = [0, 1, 0, 1] \<and> monitor_pools ex_wsman = [[0, 2], [1, 3]] \<and>
   monitor_active_local ex_wsman = [0, 0] \<and> focused_monitor ex_wsman = 0 \<and> next_ptr ex_wsman = 0"
  by code_simp

lemma ex_wsman_inv: "wsman_inv ex_wsman" "synced ex_wsman"
  unfolding ex_wsman_def by (intro init_from_defs_inv set_monitors_inv grown_inv wsman_inv_init)+

text \<open>The fields the monitor operations do not touch.\<close>

lemma heap_rebuild [simp]:
  "heap (rebuild_pools_from_owner seed pref s) = heap s" "window_factory (rebuild_pools_from_owner seed pref s) = window_factory s"
  by (simp_all add: rebuild_pools_eq)

lemma factory_select [simp]: "window_factory (select_valid_focused_monitor s) = window_factory s"
  using select_eq [of s] by auto

lemma set_monitors_heap: "heap (set_monitors mons s) = heap s" "window_factory (set_monitors mons s) = window_factory s"
proof -
  obtain pp pa where p: "parked_state mons s = s\<lparr>parked_pools := pp, parked_active_ws := pa\<rparr>"
    unfolding parked_state_def using park_fold by blast
  obtain f where f: "set_monitors mons s = sync_monitors_active_ws (select_valid_focused_monitor
     ((rebuild_pools_from_owner (seed_pools mons s) (seed_preferred mons s) (retopology mons s))\<lparr>focused_monitor := f\<rparr>))"
    using set_monitors_eq by blast
  show "heap (set_monitors mons s) = heap s" "window_factory (set_monitors mons s) = window_factory s"
    by (simp_all add: f frame_simps retopology_def p)
qed

lemma assign_heap:
  "length (ws_owner s) = length (workspaces s) \<Longrightarrow> monitors s \<noteq> [] \<Longrightarrow>
   heap (assign_workspaces al co s) = heap s \<and> window_factory (assign_workspaces al co s) = window_factory s \<and>
   parked_pools (assign_workspaces al co s) = parked_pools s \<and> parked_active_ws (assign_workspaces al co s) = parked_active_ws s \<and>
   window_index (assign_workspaces al co s) = window_index s \<and> window_workspace (assign_workspaces al co s) = window_workspace s"
  by (simp add: assign_workspaces_eq frame_simps rebuild_pools_eq)

lemma init_from_defs_heap:
  assumes "monitors s \<noteq> []"
  shows "heap (init_from_defs defs al co s) = heap s \<and> window_factory (init_from_defs defs al co s) = window_factory s \<and>
    parked_pools (init_from_defs defs al co s) = Map.empty \<and> parked_active_ws (init_from_defs defs al co s) = Map.empty \<and>
    window_index (init_from_defs defs al co s) = Map.empty \<and> window_workspace (init_from_defs defs al co s) = Map.empty"
proof -
  obtain wss where r: "init_from_defs defs al co s = assign_workspaces al co
    ((clear_window_indexes s)\<lparr>workspaces := wss, ws_owner := replicate (length wss) (- 1),
       monitor_pools := replicate (length (monitors s)) [], monitor_active_local := replicate (length (monitors s)) (- 1),
       parked_pools := Map.empty, parked_active_ws := Map.empty\<rparr>)" (is "_ = assign_workspaces al co ?s")
    unfolding init_from_defs_def Let_def by blast
  have "heap ?s = heap s \<and> window_factory ?s = window_factory s \<and> window_index ?s = Map.empty \<and> window_workspace ?s = Map.empty"
    by (simp add: clear_window_indexes_def)
  moreover have "length (ws_owner ?s) = length (workspaces ?s)" "monitors ?s \<noteq> []"
    using assms by (simp_all add: clear_window_indexes_def)
  ultimately show ?thesis unfolding r using assign_heap [of ?s al co] by simp
qed

lemma ex_wsman_code [code]:
  "ex_wsman = \<lparr>window_factory = None,
     workspaces = [mk_workspace 0 ''w'' [], mk_workspace 1 ''c'' ''s'', mk_workspace 2 ''d'' ''A'', mk_workspace 3 ''m'' []],
     monitors = [(mk_monitor 0 ''A'' 0 0 1920 1080)\<lparr>active_ws := 0\<rparr>, (mk_monitor 1 ''B'' 1920 0 1280 1024)\<lparr>active_ws := 1\<rparr>],
     ws_owner = [0, 1, 0, 1], monitor_pools = [[0, 2], [1, 3]], monitor_active_local = [0, 0],
     parked_pools = Map.empty, parked_active_ws = Map.empty, window_index = Map.empty, window_workspace = Map.empty,
     focused_monitor = 0, heap = (\<lambda>_. mk_window NO_WINDOW), next_ptr = 0\<rparr>"
proof -
  have "monitors (set_monitors ex_monitors (grown ex_defs init_wsman)) \<noteq> []"
    using set_monitors_fields(5) [of ex_monitors "grown ex_defs init_wsman"] by (auto simp: ex_monitors_def)
  from init_from_defs_heap [OF this, of ex_defs ex_aliases ex_compose]
  have "heap ex_wsman = (\<lambda>_. mk_window NO_WINDOW) \<and> window_factory ex_wsman = None \<and> parked_pools ex_wsman = Map.empty \<and>
    parked_active_ws ex_wsman = Map.empty \<and> window_index ex_wsman = Map.empty \<and> window_workspace ex_wsman = Map.empty"
    by (simp add: ex_wsman_def set_monitors_heap grown_frame) (simp add: init_wsman_def)
  with ex_wsman_lists show ?thesis by (intro wsman.equality) simp_all
qed

text \<open>Three windows, two of them on the first workspace.\<close>

definition ex_windows :: wsman where
  "ex_windows = upd_win 2 (\<lambda>x. x\<lparr>mapped := True\<rparr>) (upd_win 1 (\<lambda>x. x\<lparr>mapped := True\<rparr>) (upd_win 0 (\<lambda>x. x\<lparr>mapped := True\<rparr>)
     (create_window 103 1 (create_window 102 0 (create_window 101 0 ex_wsman)))))"

lemma ex_windows_inv: "wsman_inv ex_windows" "synced ex_windows"
proof -
  have "(101 :: window_id) \<noteq> NO_WINDOW" "(102 :: window_id) \<noteq> NO_WINDOW" "(103 :: window_id) \<noteq> NO_WINDOW"
    by (simp_all add: NO_WINDOW_def)
  then show "wsman_inv ex_windows" "synced ex_windows"
    unfolding ex_windows_def by (simp_all add: wsman_inv_upd_win create_window_inv ex_wsman_inv synced_window_ops)
qed

section \<open>Core\<close>

definition ex_theme :: theme_config where
  "ex_theme = \<lparr>dpi = 96, cursor_size = 24, cursor_theme = [], font = ''f'', bg = ''b'', fg = ''f'',
     alt_bg = ''c'', alt_fg = ''g'', accent = ''a'', border_thickness = 2,
     border_focused = [], border_unfocused = [], gap = 4\<rparr>"

definition ex_settings :: core_settings where
  "ex_settings = \<lparr>monitor_aliases = ex_aliases, cs_monitor_compose = ex_compose, workspace_defs = ex_defs, theme = ex_theme\<rparr>"

text \<open>
  The core after start-up, with its event sink attached, and after three windows were mapped on it.
\<close>

definition ex_boot :: core where
  "ex_boot = set_event_sink True (mark_runtime_started True (the (core_boot ex_settings ex_monitors)))"

definition ex_commands :: "command_atom list" where
  "ex_commands = [EnsureWindow 101 0, EnsureWindow 102 0, EnsureWindow 103 1, SetWindowMapped 101 True, SetWindowMapped 102 True,
     SetWindowMapped 103 True]"

definition ex_core :: core where
  "ex_core = fold (\<lambda>cmd c. snd (dispatch_atom cmd c)) ex_commands ex_boot"

lemma ex_boot_Some: "core_boot ex_settings ex_monitors = Some (the (core_boot ex_settings ex_monitors))"
proof -
  have "workspace_defs ex_settings \<noteq> []" by (simp add: ex_settings_def ex_defs_def)
  then have "core_boot ex_settings ex_monitors \<noteq> None"
    by (simp add: core_boot_def apply_settings_def update_workspace_defs_eq)
  then show ?thesis by simp
qed

lemma core_run_atoms: "core_run c d \<Longrightarrow> core_run c (atoms.run cs d)"
proof (induction cs arbitrary: d)
  case (Cons x xs)
  from Cons.prems have "core_run c (snd (dispatch_atom x d))" by (rule run_step) (rule core_step.atom)
  from Cons.IH [OF this] show ?case by (simp add: atoms.run_def)
qed (simp add: atoms.run_def)

lemma ex_reachable: "core_reachable ex_boot" "core_reachable ex_core"
proof -
  let ?b = "the (core_boot ex_settings ex_monitors)"
  have r: "core_run ?b ex_boot" unfolding ex_boot_def
    by (rule run_step [OF run_step [OF run_refl core_step.started] core_step.sink])
  then show "core_reachable ex_boot" unfolding core_reachable_def using ex_boot_Some by blast
  from core_run_atoms [OF r] show "core_reachable ex_core"
    unfolding core_reachable_def ex_core_def atoms.run_def [symmetric] using ex_boot_Some by blast
qed

lemma ex_inv: "core_inv ex_boot" "core_inv ex_core"
  using ex_reachable core_reachable_inv by auto

text \<open>Normal forms.\<close>

lemma ex_boot_code [code]:
  "ex_boot = \<lparr>layouts = [''tile'' \<mapsto> tile, ''monocle'' \<mapsto> monocle, ''unmanaged'' \<mapsto> (\<lambda>_ _ _. [])], lua_layouts = Map.empty,
     keybindings = [], active_layout = ''tile'',
     layout_cfg = \<lparr>master_factor = 9227469 / 16777216, nmaster = 1, cfg_gap = 4, cfg_border = 0\<rparr>, wm = ex_wsman,
     pending_backend_effects = [], pending_window_flushes = Map.empty, sink_attached = True, event_queue = [],
     settings = ex_settings, config_path = [], has_lua_host = False, runtime_started = True\<rparr>"
proof -
  have d: "ex_defs \<noteq> []" "ex_monitors \<noteq> []" by (simp_all add: ex_defs_def ex_monitors_def)
  have "default_layout_config = \<lparr>master_factor = 9227469 / 16777216, nmaster = 1, cfg_gap = 4, cfg_border = 0\<rparr>"
    using f32_literals(3) by (simp add: default_layout_config_def)
  moreover have "update_workspace_defs ex_defs init_wsman = Some (grown ex_defs init_wsman)"
    using d by (simp add: update_workspace_defs_eq) (simp add: init_wsman_def)
  ultimately show ?thesis
    using d by (simp add: ex_boot_def core_boot_def apply_settings_def init_core_def ex_settings_def core_init_def
        Let_def register_layout_def upd_wm_def mark_runtime_started_def set_event_sink_def ex_wsman_def)
qed

lemma ex_index:
  "window_index ex_wsman 101 = None \<and> window_index (create_window 101 0 ex_wsman) 102 = None \<and>
   window_index (create_window 102 0 (create_window 101 0 ex_wsman)) 103 = None \<and>
   map (window_index (create_window 103 1 (create_window 102 0 (create_window 101 0 ex_wsman)))) [101, 102, 103] =
     [Some 0, Some 1, Some 2]"
  by code_simp

lemma ex_core_code [code]: "ex_core = ex_boot\<lparr>wm := ex_windows\<rparr>"
proof -
  have w: "wm ex_boot = ex_wsman" by (simp add: ex_boot_code)
  have n: "(101 :: window_id) \<noteq> NO_WINDOW" "(102 :: window_id) \<noteq> NO_WINDOW" "(103 :: window_id) \<noteq> NO_WINDOW"
    by (simp_all add: NO_WINDOW_def)
  show ?thesis
    using ex_index
    by (simp add: ex_core_def ex_commands_def ex_windows_def dispatch_EnsureWindow_def dispatch_SetWindowMapped_def with_window_def
        find_window_in_all_def upd_wm_def set_win_def w n frame_simps)
qed

end
