(* ===== verification/Wsman_Properties.thy ===== *)
theory Wsman_Properties
  imports Examples
begin

text \<open>
  The properties of the workspace manager: what its operations do to the assignment of windows,
  workspaces and monitors, stated over the definitions of \<open>Workspace\<close> and \<open>Workspace_Manager\<close>.
\<close>

section \<open>Pools\<close>

lemma pools_unique_from_iff:
  "pools_unique_from s seen ws \<longleftrightarrow> (\<forall>w\<in>set ws. is_ws_valid s w) \<and> distinct ws \<and> set ws \<inter> set seen = {}"
  by (induction ws arbitrary: seen) auto

lemma pools_no_duplicates:
  assumes inv: "wsman_inv s"
  shows "monitor_workspace_pools_have_no_duplicates s"
proof -
  from inv have sz: "sizes_ok s" and pk: "pools_ok s" by (simp_all add: wsman_inv_def)
  have mem: "owned s (int i) w" if "i < length (monitor_pools s)" "w \<in> set (monitor_pools s ! i)" for i w
    using pk that by (auto simp: pools_ok_def)
  have "distinct (concat (monitor_pools s))"
  proof (rule distinct_concat_nth)
    show "distinct (monitor_pools s ! i)" if "i < length (monitor_pools s)" for i
      using pk that by (simp add: pools_ok_def)
    show "i = j" if "i < length (monitor_pools s)" "j < length (monitor_pools s)"
      "w \<in> set (monitor_pools s ! i)" "w \<in> set (monitor_pools s ! j)" for i j w
      using mem [OF that(1,3)] mem [OF that(2,4)] by (simp add: owned_def)
  qed
  moreover have "is_ws_valid s w" if "w \<in> set (concat (monitor_pools s))" for w
  proof -
    from that obtain i where "i < length (monitor_pools s)" "w \<in> set (monitor_pools s ! i)"
      by (auto simp: in_set_conv_nth [of _ "monitor_pools s"])
    from mem [OF this] show ?thesis by (simp add: owned_def)
  qed
  ultimately show ?thesis by (simp add: monitor_workspace_pools_have_no_duplicates_def pools_unique_from_iff)
qed

section \<open>Windows and workspaces\<close>

text \<open>
  Moving a managed window to an existing workspace makes that workspace the window's one: both
  indexes and the lists say so, no other window is touched, and no window object is created or lost.
\<close>

theorem move_window_relocates:
  assumes inv: "wsman_inv s" and win: "window_index s win = Some p" and w: "is_ws_valid s w"
  shows "window_workspace (move_window_to w p s) = (window_workspace s)(win \<mapsto> w) \<and>
    window_index (move_window_to w p s) = window_index s \<and>
    (\<forall>i q. located (move_window_to w p s) i q \<longleftrightarrow> (located s i q \<and> q \<noteq> p) \<or> (i = nat w \<and> q = p))"
proof -
  from inv have ok: "windows_ok s" by (simp add: wsman_inv_def)
  note ip = indexed_pointer [OF inv win]
  have only: "win_id (heap s q) = win \<longleftrightarrow> q = p" if "located s i q" for i q
  proof
    assume "win_id (heap s q) = win"
    with windows_okD(3) [OF ok that] win show "q = p" by simp
  qed (simp add: ip(2))
  show ?thesis
  proof (cases "window_workspace s win = Some w")
    case True
    obtain p' where "located s (nat w) p'" "window_index s win = Some p'" using windows_ok_workspaceD [OF ok True] by blast
    then have "located s (nat w) p" using win by simp
    moreover have "i = nat w" if "located s i p" for i
      using windows_okD(4) [OF ok that] True ip(2) by simp
    ultimately have l: "\<forall>i q. located s i q \<longleftrightarrow> (located s i q \<and> q \<noteq> p) \<or> (i = nat w \<and> q = p)" by blast
    have e: "move_window_to w p s = s" using True ip by (simp add: move_window_to_eq [OF inv])
    have "window_workspace s = (window_workspace s)(win \<mapsto> w)" using True by (simp add: fun_upd_idem)
    with l show ?thesis unfolding e by blast
  next
    case False
    then have e: "move_window_to w p s = relocate w p s" using ip w by (simp add: move_window_to_eq [OF inv])
    have "\<forall>i q. located (relocate w p s) i q \<longleftrightarrow> (located s i q \<and> q \<noteq> p) \<or> (i = nat w \<and> q = p)"
      unfolding relocate_located [OF ok w] ip(2) using only by blast
    moreover have "window_index (relocate w p s) = window_index s"
      "window_workspace (relocate w p s) = (window_workspace s)(win \<mapsto> w)"
      using relocate_index [OF w, of p] ip win by (simp_all add: fun_upd_idem)
    ultimately show ?thesis unfolding e by blast
  qed
qed

theorem move_window_relocates_witness:
  "window_workspace (move_window_to 2 0 ex_windows) = (window_workspace ex_windows)(101 \<mapsto> 2)"
proof -
  note ex_windows_inv(1)
  moreover have "window_index ex_windows 101 = Some 0" "is_ws_valid ex_windows 2" by code_simp+
  ultimately show ?thesis using move_window_relocates [of ex_windows 101 0 2] by blast
qed

text \<open>
  C5. Reloading a non-empty list of workspace definitions never loses a window: the reload succeeds,
  the set of managed windows and their objects stay, a window on a workspace that survives stays there,
  and the windows of a removed workspace go to the workspace \<open>fallback_for\<close> names.
\<close>

theorem reload_defs_keeps_windows:
  assumes inv: "wsman_inv s" and ne: "defs \<noteq> []"
  shows "\<exists>s'. update_workspace_defs defs s = Some s' \<and> wsman_inv s' \<and> length (workspaces s') = length defs \<and>
    window_index s' = window_index s \<and> heap s' = heap s \<and>
    (\<forall>i p. located s' i p \<longleftrightarrow> (located s i p \<and> i < length defs) \<or>
       (\<exists>w. length defs \<le> w \<and> int i = fallback_for (length defs) s (int w) \<and> located s w p))"
proof -
  obtain s' where r: "update_workspace_defs defs s = Some s'" by (simp add: update_workspace_defs_eq [OF ne])
  show ?thesis
    using r update_workspace_defs_inv [OF inv r] update_workspace_defs_windows [OF inv ne r] by blast
qed

theorem reload_defs_keeps_windows_witness:
  "\<exists>s'. update_workspace_defs [\<lparr>def_name = ''one'', def_monitor = []\<rparr>] ex_windows = Some s' \<and>
     length (workspaces s') = 1 \<and> window_index s' = window_index ex_windows"
proof -
  note ex_windows_inv(1)
  with reload_defs_keeps_windows [of ex_windows "[\<lparr>def_name = ''one'', def_monitor = []\<rparr>]"]
  show ?thesis by auto
qed

section \<open>Monitors\<close>

lemma assign_as_configured:
  assumes "wsman_inv s" "monitors s \<noteq> []"
  shows "as_configured al (assign_workspaces al co s)"
proof -
  let ?s = "assign_workspaces al co s"
  have own: "length (ws_owner s) = length (workspaces s)" using assms(1) by (simp add: wsman_inv_def sizes_ok_def)
  have f: "ws_owner ?s = assigned_owner al co s" "length (monitors ?s) = length (monitors s)" "workspaces ?s = workspaces s"
    by (simp_all add: assign_workspaces_eq [OF own assms(2)] frame_simps rebuild_pools_eq)
  have r: "resolve_alias_monitor ?s = resolve_alias_monitor s"
    by (rule resolve_alias_names) (rule assign_frame(3) [OF assms(1)])
  have v: "is_mon_valid ?s = is_mon_valid s" by (simp add: fun_eq_iff is_mon_valid_def f)
  show ?thesis
    using assigned_owner_nth [of _ s al co] assigned_owner_valid(1) [OF assms(2), of al co]
      assigned_owner_valid(2) [OF assms(2) nth_mem, of _ al co]
    by (auto simp: as_configured_def f r v Let_def)
qed

text \<open>
  C3. A monitor that is unplugged and plugged in again (the same output names in the same order) is as it was. Each of the
  two changes is what the topology command does to the workspace manager: the monitors are exchanged and the workspaces
  are assigned anew. When before every workspace was on a connected monitor, and on the one it is bound to if that was
  connected, which every assignment of workspaces establishes, the monitor ends with the same pool in the same order and
  the same active workspace.
\<close>

theorem hotplug_round_trip:
  assumes inv: "wsman_inv s" and names: "distinct (map mon_name (monitors s))" and k: "k < length (monitors s)"
    and conf: "as_configured al s" and again: "map mon_name mons = map mon_name (monitors s)"
    and unplugged: "s1 = assign_workspaces al co (set_monitors (remove_nth k (monitors s)) s)"
    and replugged: "s2 = assign_workspaces al co (set_monitors mons s1)"
  shows "monitor_pools s2 ! k = monitor_pools s ! k \<and> active_ws_of_monitor s2 (int k) = active_ws_of_monitor s (int k)"
proof -
  let ?m = "remove_nth k (monitors s)" and ?r = "set_monitors mons s1"
  note up = unplug_replug [OF inv names k again unplugged]
  have inv0: "wsman_inv (set_monitors ?m s)" and inv1: "wsman_inv s1" and inv2: "wsman_inv ?r"
    by (auto simp: unplugged intro: set_monitors_inv assign_workspaces_inv inv)
  have ws: "workspaces s1 = workspaces s" "workspaces ?r = workspaces s"
    using assign_frame(4) [OF inv0, of al co] by (simp_all add: unplugged set_monitors_fields)
  have mr: "map mon_name (monitors ?r) = map mon_name (monitors s)" using again by (simp add: set_monitors_fields)
  then have lr: "length (monitors ?r) = length (monitors s)" by (metis length_map)
  have res: "resolve_alias_monitor ?r = resolve_alias_monitor s" by (rule resolve_alias_names [OF mr])
  have pool: "int w \<in> set (monitor_pools s ! k) \<longleftrightarrow> ws_owner s ! w = int k" if "w < length (workspaces s)" for w
    using inv k that by (auto simp: wsman_inv_def pools_ok_def sizes_ok_def owned_def is_ws_valid_def)
  have poolr: "int w \<in> set (monitor_pools s ! k) \<longleftrightarrow> ws_owner ?r ! w = int k" if "w < length (workspaces s)" for w
    using inv2 k that up(1) lr ws(2) by (auto simp: wsman_inv_def pools_ok_def sizes_ok_def owned_def is_ws_valid_def)
  have valid: "is_mon_valid ?r (ws_owner ?r ! w)" if w: "w < length (workspaces s)" "int w \<notin> set (monitor_pools s ! k)" for w
    by (rule replugged_owner_valid [OF inv names k again unplugged w]) (use conf w pool in \<open>auto simp: as_configured_def Let_def\<close>)
  have same: "assigned_owner al co ?r ! w = int k \<longleftrightarrow> ws_owner ?r ! w = int k" if w: "w < length (workspaces ?r)" for w
  proof (cases "int w \<in> set (monitor_pools s ! k)")
    case True
    then show ?thesis
      using w conf pool [of w] poolr [of w] assigned_owner_nth [OF w, of al co] lr k
      by (auto simp: ws res as_configured_def Let_def is_mon_valid_def)
  next
    case False
    then show ?thesis
      using w conf pool [of w] poolr [of w] valid [of w] assigned_owner_nth [OF w, of al co]
      by (auto simp: ws res as_configured_def Let_def)
  qed
  show ?thesis
    using assign_keeps_pool [where k = k, OF inv2 _ same] k lr up(1,2) by (simp add: replugged)
qed

theorem hotplug_round_trip_witness:
  "let s1 = assign_workspaces ex_aliases ex_compose (set_monitors (remove_nth 1 (monitors ex_wsman)) ex_wsman)
   in monitor_pools (assign_workspaces ex_aliases ex_compose (set_monitors ex_monitors s1)) ! 1 = [1, 3]"
proof -
  have "distinct (map mon_name (monitors ex_wsman)) \<and> 1 < length (monitors ex_wsman) \<and> as_configured ex_aliases ex_wsman \<and>
    map mon_name ex_monitors = map mon_name (monitors ex_wsman) \<and> monitor_pools ex_wsman ! 1 = [1, 3]" by code_simp
  then show ?thesis
    using hotplug_round_trip [OF ex_wsman_inv(1) _ _ _ _ refl refl, of 1 ex_aliases ex_monitors ex_compose] by (simp add: Let_def)
qed

text \<open>
  When there is a monitor, assigning workspaces leaves none without one. A workspace whose alias
  resolves to a connected monitor goes there; any other workspace stays on the monitor it had if that is
  still connected.
\<close>

theorem assign_workspaces_complete:
  assumes inv: "wsman_inv s" and ne: "monitors s \<noteq> []" and w: "is_ws_valid s w"
  shows "let target = resolve_alias_monitor s (ws_monitor_alias (workspaces s ! nat w)) aliases;
      m = monitor_of (assign_workspaces aliases compose s) w in
    is_mon_valid (assign_workspaces aliases compose s) m \<and>
    (ws_monitor_alias (workspaces s ! nat w) \<noteq> [] \<and> target \<ge> 0 \<longrightarrow> m = target) \<and>
    (\<not> (ws_monitor_alias (workspaces s ! nat w) \<noteq> [] \<and> target \<ge> 0) \<and> monitor_of s w \<ge> 0 \<longrightarrow> m = monitor_of s w)"
proof -
  define target where "target = resolve_alias_monitor s (ws_monitor_alias (workspaces s ! nat w)) aliases"
  define m where "m = monitor_of (assign_workspaces aliases compose s) w"
  let ?s = "assign_workspaces aliases compose s" and ?o = "assigned_owner aliases compose s"
  from inv have sz: "sizes_ok s" and pk: "pools_ok s" by (simp_all add: wsman_inv_def)
  have own: "length (ws_owner s) = length (workspaces s)" using sz by (simp add: sizes_ok_def)
  have i: "nat w < length (workspaces s)" using w by (auto simp: is_ws_valid_def)
  have f: "ws_owner ?s = ?o" "length (monitors ?s) = length (monitors s)" "workspaces ?s = workspaces s"
    by (simp_all add: assign_workspaces_eq [OF own ne] frame_simps rebuild_pools_eq)
  have v: "is_mon_valid s (?o ! nat w)"
    by (rule assigned_owner_valid(2) [OF ne nth_mem]) (use i assigned_owner_valid(1) [OF ne] in simp)
  then have m: "m = ?o ! nat w" "is_mon_valid ?s m"
    using w f assigned_owner_valid(1) [OF ne] by (auto simp: m_def monitor_of_def is_ws_valid_def is_mon_valid_def)
  have mo: "monitor_of s w = ws_owner s ! nat w" by (rule monitor_of_owned [OF sz pk w])
  have keep: "is_mon_valid s (ws_owner s ! nat w)" if "monitor_of s w \<ge> 0" using monitor_of_valid [OF that] mo by simp
  show ?thesis unfolding Let_def target_def [symmetric] m_def [symmetric]
    using m assigned_owner_nth [OF i, of aliases compose] keep by (auto simp: target_def mo Let_def)
qed

theorem assign_workspaces_complete_witness:
  "monitor_of (assign_workspaces ex_aliases ex_compose ex_wsman) 1 = 1"
proof -
  note inv = ex_wsman_inv(1)
  have "monitors ex_wsman \<noteq> []" "is_ws_valid ex_wsman 1"
    "ws_monitor_alias (workspaces ex_wsman ! 1) = ''s''"
    "resolve_alias_monitor ex_wsman ''s'' ex_aliases = 1" by code_simp+
  with assign_workspaces_complete [OF inv this(1,2), of ex_aliases ex_compose]
  show ?thesis by (simp add: Let_def)
qed

text \<open>
  A successful switch makes the workspace the active one of the monitor that owns it, and keeps the
  invariant.
\<close>

theorem switch_to_activates:
  assumes "wsman_inv s" "switch_to w aliases hint compose s = (True, s')"
  shows "wsman_inv s' \<and> is_mon_valid s' (monitor_of s' w) \<and> active_ws_of_monitor s' (monitor_of s' w) = w"
  using switch_to_inv [OF assms(1), of w aliases hint compose] switch_to_active [OF assms(1), of w aliases hint compose] assms(2)
  by simp

theorem switch_to_activates_witness:
  "active_ws_of_monitor (snd (switch_to 3 [] (- 1) ex_compose ex_wsman)) 1 = 3"
proof -
  let ?r = "switch_to 3 [] (- 1) ex_compose ex_wsman"
  note inv = ex_wsman_inv(1)
  have "fst ?r" "monitor_of (snd ?r) 3 = 1" by code_simp+
  with switch_to_activates [OF inv, of 3 "[]" "- 1" ex_compose "snd ?r"]
  show ?thesis by (metis (full_types) prod.collapse)
qed

text \<open>
  C20. The pool loops of \<open>rebuild_pools_from_owner\<close> compute, for every monitor, the workspaces it owns,
  first in seed order and without repetition, then the remaining ones in index order; and the active
  workspace is the preferred one when the monitor owns it, the first of the pool otherwise.
\<close>

theorem rebuild_pools_closed_form:
  assumes "m < length (monitors s)"
  shows "monitor_pools (rebuild_pools_from_owner seed pref s) ! m =
      add_new [] (filter (owned s (int m)) ((if m < length seed then seed ! m else []) @ map int [0..<length (workspaces s)])) \<and>
    active_ws_of_monitor (rebuild_pools_from_owner seed pref s) (int m) =
      (let pool = monitor_pools (rebuild_pools_from_owner seed pref s) ! m; p = (if m < length pref then pref ! m else - 1)
       in if pool = [] then - 1 else if p \<in> set pool then p else hd pool)"
  using assms rebuild_active [OF assms, of seed pref] by (simp add: rebuild_pools_eq pool_of_def)

theorem rebuild_pools_closed_form_witness:
  "monitor_pools (rebuild_pools_from_owner [[2]] [0] ex_wsman) ! 0 = [2, 0]"
proof -
  have "0 < length (monitors ex_wsman)" by code_simp
  from rebuild_pools_closed_form [OF this, of "[[2]]" "[0]"] show ?thesis by (simp, code_simp)
qed

section \<open>Cursors\<close>

text \<open>
  Starting from a tiled window, focusing the next window and then the previous one returns to it:
  the workspace is as before.
\<close>

theorem focus_prev_undoes_next:
  assumes "cursor_ok ws" "windows ws \<noteq> []" "tiled_stop h ws (current ws)"
  shows "ws_focus_prev h (ws_focus_next h ws) = ws"
  by (rule focus_prev_next_inverse [OF assms])

theorem focus_prev_undoes_next_witness:
  "ws_focus_prev (heap ex_windows) (ws_focus_next (heap ex_windows) (workspaces ex_windows ! 0)) = workspaces ex_windows ! 0"
proof -
  have "cursor_ok (workspaces ex_windows ! 0)" "windows (workspaces ex_windows ! 0) \<noteq> []"
    "tiled_stop (heap ex_windows) (workspaces ex_windows ! 0) (current (workspaces ex_windows ! 0))" by code_simp+
  then show ?thesis by (rule focus_prev_undoes_next)
qed

text \<open>
  Removing a window other than the one under the cursor leaves the cursor on the same window, and
  the cursor stays in range.
\<close>

theorem remove_keeps_cursor_window:
  assumes "cursor_ok ws" "windows ws \<noteq> []" "win_id (h (windows ws ! nat (current ws))) \<noteq> win"
  shows "cursor_ok (snd (ws_remove_window h win ws)) \<and>
    windows (snd (ws_remove_window h win ws)) ! nat (current (snd (ws_remove_window h win ws))) = windows ws ! nat (current ws)"
  using cursor_ok_remove [OF assms(1)] remove_keeps_current [of ws h win] assms by blast

theorem remove_keeps_cursor_window_witness:
  "windows (snd (ws_remove_window (heap ex_windows) 102 (workspaces ex_windows ! 0))) ! 0 = 0"
proof -
  let ?ws = "workspaces ex_windows ! 0" and ?h = "heap ex_windows"
  have "cursor_ok ?ws" "windows ?ws \<noteq> []" "win_id (?h (windows ?ws ! nat (current ?ws))) \<noteq> 102" by code_simp+
  with remove_keeps_cursor_window [of ?ws ?h 102]
  have "windows (snd (ws_remove_window ?h 102 ?ws)) ! nat (current (snd (ws_remove_window ?h 102 ?ws))) = windows ?ws ! nat (current ?ws)"
    by blast
  moreover have "current (snd (ws_remove_window ?h 102 ?ws)) = 0" "windows ?ws ! nat (current ?ws) = 0" by code_simp+
  ultimately show ?thesis by simp
qed

text \<open>
  Zoom swaps two windows of the current workspace: it adds and loses none, leaves every other
  workspace alone, and the cursor ends on the window that was focused.
\<close>

theorem zoom_permutes:
  assumes inv: "wsman_inv s" and z: "zoom_focused s = (True, s')"
  shows "\<exists>w f. current_index s = Some w \<and> focused (heap s) (workspaces s ! nat w) = Some f \<and>
    mset (windows (workspaces s' ! nat w)) = mset (windows (workspaces s ! nat w)) \<and>
    windows (workspaces s' ! nat w) ! nat (current (workspaces s' ! nat w)) = f \<and>
    (\<forall>i<length (workspaces s). i \<noteq> nat w \<longrightarrow> workspaces s' ! i = workspaces s ! i)"
proof -
  from z obtain ws' where z': "ws_zoom (heap s) (current_ws s) = Some ws'" and s': "s' = upd_current_ws (\<lambda>_. ws') s"
    by (auto simp: zoom_focused_def split: option.splits)
  from ws_zoom_SomeD [OF z'] obtain f k where f: "focused (heap s) (current_ws s) = Some f"
    and k: "2 \<le> length (tiled_idx (heap s) (current_ws s))" "k < length (tiled_idx (heap s) (current_ws s))"
      "windows (current_ws s) ! (tiled_idx (heap s) (current_ws s) ! k) = f"
    and ws': "ws' = (let ws = current_ws s; ti = tiled_idx (heap s) ws in if k = 0
       then ws\<lparr>windows := swap_nth (ti ! 0) (ti ! 1) (windows ws), current := int (ti ! 1)\<rparr>
       else ws\<lparr>windows := swap_nth (ti ! 0) (ti ! k) (windows ws), current := int (ti ! 0)\<rparr>)"
    unfolding Let_def by blast
  have "current_index s \<noteq> None"
  proof
    assume "current_index s = None"
    then have "current_ws s = fallback_workspace" by (simp add: current_ws_def)
    with f show False using focused_in by (force simp: fallback_workspace_def mk_workspace_def)
  qed
  then obtain w where w: "current_index s = Some w" by blast
  have cw: "current_ws s = workspaces s ! nat w" by (simp add: current_ws_def w)
  have v: "nat w < length (workspaces s)" using current_index_valid [OF w] by (auto simp: is_ws_valid_def)
  let ?ti = "tiled_idx (heap s) (current_ws s)"
  have l: "0 < length ?ti" "1 < length ?ti" using k(1) by linarith+
  note b = tiled_idx_nth [OF l(1), THEN conjunct1] tiled_idx_nth [OF l(2), THEN conjunct1] tiled_idx_nth [OF k(2), THEN conjunct1]
  have cur: "windows ws' ! nat (current ws') = f"
    using b k(3) by (auto simp: ws' Let_def swap_nth_def nth_list_update)
  have at: "workspaces s' ! nat w = ws'" and rest: "\<forall>i<length (workspaces s). i \<noteq> nat w \<longrightarrow> workspaces s' ! i = workspaces s ! i"
    using v by (simp_all add: s' upd_current_ws_def w nth_upd_ws)
  show ?thesis
    using w f ws_zoom_frame(2) [OF z'] cur at rest unfolding cw by blast
qed

theorem zoom_permutes_witness:
  "mset (windows (workspaces (snd (zoom_focused ex_windows)) ! 0)) = {#0, 1#}"
proof -
  note inv = ex_windows_inv(1)
  have e: "fst (zoom_focused ex_windows)" "current_index ex_windows = Some 0"
    "windows (workspaces ex_windows ! 0) = [0, 1]" by code_simp+
  then have "zoom_focused ex_windows = (True, snd (zoom_focused ex_windows))" by (metis (full_types) prod.collapse)
  from zoom_permutes [OF inv this] e(2,3) show ?thesis by auto
qed

section \<open>Deviations\<close>

definition ex_unplugged :: wsman where
  "ex_unplugged = snd (switch_to 1 [] (- 1) ex_compose
     (assign_workspaces [] ex_compose (set_monitors [hd ex_monitors] ex_wsman)))"

text \<open>
  Reloading fewer workspaces can change the active workspace of a monitor although that workspace
  survives. With the second monitor unplugged the pool of the first is \<open>[0, 2, 1, 3]\<close>; with workspace 1
  active, a reload with two workspaces leaves the local index 2 pointing past the pruned pool
  \<open>[0, 1]\<close>, and workspace 0 becomes active.
\<close>

theorem reload_can_change_active:
  "monitor_pools ex_unplugged = [[0, 2, 1, 3]] \<and> active_ws_of_monitor ex_unplugged 0 = 1 \<and>
   map_option (\<lambda>s. (monitor_pools s, active_ws_of_monitor s 0))
     (update_workspace_defs [\<lparr>def_name = ''web'', def_monitor = []\<rparr>, \<lparr>def_name = ''chat'', def_monitor = []\<rparr>] ex_unplugged) =
   Some ([[0, 1]], 0)"
  by code_simp

end
