(* ===== verification/Core_Effects.thy ===== *)
theory Core_Effects
  imports Core_Commands
begin

text \<open>
  What the compound operations of the core do, beyond keeping the invariant: which part of the state
  decides the focus and is left alone by stacking and arranging (\<open>same_view\<close>), what is appended to the
  outputs, and the pointwise effect of \<^const>\<open>sync_workspace_visibility\<close> on the windows.
\<close>

section \<open>The part of the state that decides focus\<close>

text \<open>A window up to its geometry, border and urgency: what stacking, arranging and focusing leave alone.\<close>

definition settled :: "window \<Rightarrow> window" where
  "settled w = w\<lparr>win_pos := (0, 0), win_size := (0, 0), border_width := 0, urgent := False\<rparr>"

lemma settled_upd [simp]:
  "settled (w\<lparr>win_pos := a\<rparr>) = settled w" "settled (w\<lparr>win_size := a\<rparr>) = settled w"
  "settled (w\<lparr>border_width := b\<rparr>) = settled w" "settled (w\<lparr>urgent := u\<rparr>) = settled w"
  by (simp_all add: settled_def)

lemma settled_fields:
  assumes "settled w' = settled w"
  shows "win_id w' = win_id w" "mapped w' = mapped w" "hidden_by_workspace w' = hidden_by_workspace w"
    "hidden_explicitly w' = hidden_explicitly w" "floating w' = floating w" "fullscreen w' = fullscreen w"
    "borderless w' = borderless w" "suppress_focus_once w' = suppress_focus_once w" "is_self_managed w' = is_self_managed w"
    "border_before_fullscreen w' = border_before_fullscreen w" "pos_before_fullscreen w' = pos_before_fullscreen w"
    "size_before_fullscreen w' = size_before_fullscreen w" "is_visible w' = is_visible w" "is_fs w' = is_fs w"
proof -
  from assms have "win_id (settled w') = win_id (settled w)" "mapped (settled w') = mapped (settled w)"
    "hidden_by_workspace (settled w') = hidden_by_workspace (settled w)"
    "hidden_explicitly (settled w') = hidden_explicitly (settled w)" "floating (settled w') = floating (settled w)"
    "fullscreen (settled w') = fullscreen (settled w)" "borderless (settled w') = borderless (settled w)"
    "suppress_focus_once (settled w') = suppress_focus_once (settled w)" "self_managed (settled w') = self_managed (settled w)"
    "preserve_position (settled w') = preserve_position (settled w)"
    "border_before_fullscreen (settled w') = border_before_fullscreen (settled w)"
    "pos_before_fullscreen (settled w') = pos_before_fullscreen (settled w)"
    "size_before_fullscreen (settled w') = size_before_fullscreen (settled w)" by simp_all
  then show "win_id w' = win_id w" "mapped w' = mapped w" "hidden_by_workspace w' = hidden_by_workspace w"
    "hidden_explicitly w' = hidden_explicitly w" "floating w' = floating w" "fullscreen w' = fullscreen w"
    "borderless w' = borderless w" "suppress_focus_once w' = suppress_focus_once w" "is_self_managed w' = is_self_managed w"
    "border_before_fullscreen w' = border_before_fullscreen w" "pos_before_fullscreen w' = pos_before_fullscreen w"
    "size_before_fullscreen w' = size_before_fullscreen w" "is_visible w' = is_visible w" "is_fs w' = is_fs w"
    by (simp_all add: settled_def is_visible_def is_fs_def is_self_managed_def)
qed

definition same_view :: "wsman \<Rightarrow> wsman \<Rightarrow> bool" where
  "same_view s s' \<longleftrightarrow> monitors s' = monitors s \<and> monitor_pools s' = monitor_pools s \<and> ws_owner s' = ws_owner s \<and>
     monitor_active_local s' = monitor_active_local s \<and> focused_monitor s' = focused_monitor s \<and>
     map (\<lambda>ws. (windows ws, current ws, ws_id ws)) (workspaces s') = map (\<lambda>ws. (windows ws, current ws, ws_id ws)) (workspaces s) \<and>
     (\<forall>p. settled (heap s' p) = settled (heap s p))"

lemma same_view_refl [simp]: "same_view s s"
  by (simp add: same_view_def)

lemma same_view_trans: "same_view s s' \<Longrightarrow> same_view s' s'' \<Longrightarrow> same_view s s''"
  unfolding same_view_def by metis

definition calm :: "core \<Rightarrow> core \<Rightarrow> bool" where
  "calm c c' \<longleftrightarrow> same_view (wm c) (wm c')"

lemma calm_refl [simp, intro]: "calm c c"
  by (simp add: calm_def)

lemma calm_trans: "calm c c' \<Longrightarrow> calm c' c'' \<Longrightarrow> calm c c''"
  unfolding calm_def by (rule same_view_trans)

lemma calm_emit [simp, intro]: "calm c (emit_backend_effect k win c)" "calm c (emit_warp_pointer pos c)" "calm c (post e c)"
  "calm c (mark_window_dirty win bits c)"
  by (simp_all add: calm_def)

lemma calm_set_win:
  assumes "\<And>x. settled (f x) = settled x"
  shows "calm c (set_win p f c)"
  using assms by (simp add: calm_def same_view_def upd_win_def)

lemma calm_set_ws_mode: "calm c (set_ws_mode w m c)"
proof -
  have "map (\<lambda>ws. (windows ws, current ws, ws_id ws)) (workspaces (upd_ws w (\<lambda>ws. ws\<lparr>ws_mode := m\<rparr>) s)) =
    map (\<lambda>ws. (windows ws, current ws, ws_id ws)) (workspaces s)" for s
    by (rule nth_equalityI) (auto simp: frame_simps nth_upd_ws)
  then show ?thesis by (simp add: calm_def same_view_def set_ws_mode_def frame_simps)
qed

lemma calm_fold: "(\<And>x c. calm c (f x c)) \<Longrightarrow> calm c (fold f xs c)"
proof (induction xs arbitrary: c)
  case (Cons x xs)
  from Cons.prems [of c x] Cons.IH [OF Cons.prems, of "f x c"] show ?case by (auto intro: calm_trans)
qed simp

lemmas calm_more = calm_trans [OF _ calm_emit(1)] calm_trans [OF _ calm_emit(2)] calm_trans [OF _ calm_emit(3)]
  calm_trans [OF _ calm_emit(4)] calm_trans [OF _ calm_set_win] calm_trans [OF _ calm_set_ws_mode]

lemma calm_pin [intro]: "calm c (pin_fullscreen_to_monitor p w c)"
  by (auto simp: pin_fullscreen_to_monitor_def Let_def split: prod.splits intro!: calm_more)

lemma calm_evaluate [intro]: "calm c (evaluate_workspace_fullscreen w c)"
proof -
  have u: "calm c (update_ws_mode w c)" by (auto simp: update_ws_mode_def Let_def intro!: calm_more)
  have l: "calm d (fold (lower_fullscreen f) ps d)" for d f ps
    by (rule calm_fold) (simp add: lower_fullscreen_def Let_def)
  show ?thesis
    unfolding evaluate_workspace_fullscreen_def Let_def
    by (auto split: option.splits
        intro!: u calm_trans [OF u calm_trans [OF calm_pin calm_emit(1)]] calm_trans [OF u calm_trans [OF calm_emit(1) l]])
qed

lemma calm_geometry:
  "calm c (snd (set_window_geometry win pos sz c))" "calm c (snd (set_window_border_width win b c))"
  by (auto simp: set_window_geometry_def set_window_border_width_def with_window_def split: option.splits
      intro!: calm_more)

lemma calm_arrange_monitor [intro]: "calm c (arrange_monitor mon c)"
proof -
  have p: "calm c (place pl c)" for pl c
    unfolding place_def Let_def by (cases pl) (auto intro!: calm_more calm_trans [OF calm_geometry(1) calm_geometry(2)])
  have b: "calm c (border_floating q c)" for q c
    unfolding border_floating_def Let_def by (auto intro!: calm_more calm_geometry)
  have "calm c (fold border_floating ps (fold place pls c))" for ps pls c
    by (rule calm_trans [OF calm_fold calm_fold]) (rule p b)+
  then show ?thesis by (auto simp: arrange_monitor_def Let_def split: option.splits)
qed

lemma calm_arrange [intro]: "calm c (arrange c)"
  by (auto simp: arrange_def intro!: calm_fold)

text \<open>Queries that depend on the view only.\<close>

lemma same_view_nth:
  assumes "same_view s s'"
  shows "length (workspaces s') = length (workspaces s)"
    "i < length (workspaces s) \<Longrightarrow> windows (workspaces s' ! i) = windows (workspaces s ! i)"
    "i < length (workspaces s) \<Longrightarrow> current (workspaces s' ! i) = current (workspaces s ! i)"
    "i < length (workspaces s) \<Longrightarrow> ws_id (workspaces s' ! i) = ws_id (workspaces s ! i)"
proof -
  define f :: "workspace \<Rightarrow> _" where "f = (\<lambda>ws. (windows ws, current ws, ws_id ws))"
  from assms have m: "map f (workspaces s') = map f (workspaces s)" by (simp add: same_view_def f_def)
  then show l: "length (workspaces s') = length (workspaces s)" by (metis length_map)
  have "f (workspaces s' ! i) = f (workspaces s ! i)" if "i < length (workspaces s)" using m l that by (metis nth_map)
  then show "i < length (workspaces s) \<Longrightarrow> windows (workspaces s' ! i) = windows (workspaces s ! i)"
    "i < length (workspaces s) \<Longrightarrow> current (workspaces s' ! i) = current (workspaces s ! i)"
    "i < length (workspaces s) \<Longrightarrow> ws_id (workspaces s' ! i) = ws_id (workspaces s ! i)" by (simp_all add: f_def)
qed

lemma same_view_active: "same_view s s' \<Longrightarrow> active_ws_of_monitor s' = active_ws_of_monitor s"
  by (simp add: same_view_def active_ws_of_monitor_def fun_eq_iff Let_def)

lemma same_view_valid: "same_view s s' \<Longrightarrow> is_ws_valid s' = is_ws_valid s \<and> is_mon_valid s' = is_mon_valid s"
  using same_view_nth(1) [of s s'] by (simp add: same_view_def is_ws_valid_def is_mon_valid_def fun_eq_iff)

lemma focused_view:
  assumes "windows ws' = windows ws" "current ws' = current ws" "\<And>p. is_visible (h' p) = is_visible (h p)"
  shows "focused h' ws' = focused h ws"
proof -
  have "any_visible h' ws' = any_visible h ws" using assms by (simp add: any_visible_def)
  moreover from this have "candidate h' ws' = candidate h ws" using assms by (simp add: candidate_def fun_eq_iff)
  ultimately show ?thesis using assms by (auto simp: focused_def)
qed

lemma same_view_focus_state:
  assumes v: "same_view s s'"
  shows "get_focus_state s' = get_focus_state s"
proof -
  let ?w = "active_ws_of_monitor s (focused_monitor s)"
  from v have f: "focused_monitor s' = focused_monitor s" and se: "\<And>p. settled (heap s' p) = settled (heap s p)"
    by (simp_all add: same_view_def)
  note id = settled_fields(1) [OF se] and vis = settled_fields(13) [OF se]
  show ?thesis
  proof (cases "is_ws_valid s ?w")
    case True
    then have n: "nat ?w < length (workspaces s)" by (auto simp: is_ws_valid_def)
    have "focused (heap s') (workspaces s' ! nat ?w) = focused (heap s) (workspaces s ! nat ?w)"
      by (rule focused_view) (use same_view_nth [OF v] n vis in simp_all)
    then show ?thesis
      by (simp add: get_focus_state_def Let_def f id same_view_active [OF v] same_view_valid [OF v] cong: option.case_cong)
  next
    case False
    then show ?thesis by (simp add: get_focus_state_def Let_def f same_view_active [OF v] same_view_valid [OF v])
  qed
qed

section \<open>Outputs of stacking and focus\<close>

definition stacking_kind :: "backend_effect \<Rightarrow> bool" where
  "stacking_kind e \<longleftrightarrow> eff_kind e \<in> {EffUpdateWindow, EffRaiseWindow, EffLowerWindow}"

text \<open>Only dock raising is posted, only stacking effects are emitted.\<close>

definition stacks :: "core \<Rightarrow> core \<Rightarrow> bool" where
  "stacks c c' \<longleftrightarrow> sink_attached c' = sink_attached c \<and>
     (\<exists>ev ef. event_queue c' = event_queue c @ ev \<and> pending_backend_effects c' = pending_backend_effects c @ ef \<and>
        set ev \<subseteq> {EvRaiseDocks} \<and> (\<forall>e\<in>set ef. stacking_kind e))"

lemma stacks_refl [simp, intro]: "stacks c c"
  by (simp add: stacks_def)

lemma stacks_trans: "stacks c c' \<Longrightarrow> stacks c' c'' \<Longrightarrow> stacks c c''"
  unfolding stacks_def by (elim conjE exE) (simp, blast)

lemma stacks_emit:
  "k \<in> {EffUpdateWindow, EffRaiseWindow, EffLowerWindow} \<Longrightarrow> stacks c (emit_backend_effect k win c)"
  by (simp add: stacks_def emit_backend_effect_def stacking_kind_def)

lemma stacks_prims: "stacks c (set_win p f c)" "stacks c (set_ws_mode w m c)" "stacks c (post EvRaiseDocks c)"
  "stacks c (mark_window_dirty win bits c)"
  by (auto simp: stacks_def set_win_def upd_wm_def set_ws_mode_def post_def mark_window_dirty_def emit_backend_effect_def
      stacking_kind_def)

lemma stacks_fold: "(\<And>x c. stacks c (f x c)) \<Longrightarrow> stacks c (fold f xs c)"
proof (induction xs arbitrary: c)
  case (Cons x xs)
  from Cons.prems [of c x] Cons.IH [OF Cons.prems, of "f x c"] show ?case by (auto intro: stacks_trans)
qed simp

lemma stacks_evaluate: "stacks c (evaluate_workspace_fullscreen w c)"
proof -
  have u: "stacks c (update_ws_mode w c)"
    by (auto simp: update_ws_mode_def Let_def intro!: stacks_trans [OF stacks_prims(2) stacks_prims(3)])
  have pin: "stacks d (pin_fullscreen_to_monitor p w d)" for d p
    by (auto simp: pin_fullscreen_to_monitor_def Let_def split: prod.splits intro!: stacks_trans [OF stacks_prims(1) stacks_prims(4)])
  have l: "stacks d (fold (lower_fullscreen f) ps d)" for d f ps
    by (rule stacks_fold) (auto simp: lower_fullscreen_def Let_def intro!: stacks_emit)
  show ?thesis
    unfolding evaluate_workspace_fullscreen_def Let_def
    by (auto split: option.splits
        intro!: u stacks_trans [OF u stacks_trans [OF pin stacks_emit]] stacks_trans [OF u stacks_trans [OF stacks_emit l]])
qed

lemma stacks_focus_changed:
  "stacks (post (EvFocusChanged win) c) (emit_focus_changed win c)"
  by (auto simp: emit_focus_changed_def Let_def intro!: stacks_evaluate)

end
