(* ===== verification/Core_Visibility.thy ===== *)
theory Core_Visibility
  imports Core_Effects
begin

text \<open>
  The pointwise meaning of \<^const>\<open>sync_workspace_visibility\<close>: what becomes of each window
  (\<open>vis_window\<close>) and which map and unmap requests are emitted for it (\<open>vis_effects\<close>).
\<close>

section \<open>One window\<close>

definition vis_window :: "bool \<Rightarrow> window \<Rightarrow> window" where
  "vis_window v w =
     (if \<not> v then w\<lparr>hidden_by_workspace := True\<rparr>
      else if hidden_by_workspace w
      then w\<lparr>hidden_by_workspace := False, mapped := (mapped w \<or> \<not> hidden_explicitly w)\<rparr>
      else w)"

definition vis_effects :: "bool \<Rightarrow> window \<Rightarrow> backend_effect list" where
  "vis_effects v w =
     (if \<not> v \<and> is_visible w then [\<lparr>eff_kind = EffUnmapWindow, eff_window = win_id w, eff_pos = (0, 0)\<rparr>]
      else if v \<and> hidden_by_workspace w \<and> \<not> hidden_explicitly w
      then [\<lparr>eff_kind = EffMapWindow, eff_window = win_id w, eff_pos = (0, 0)\<rparr>]
      else [])"

lemma heap_update_id: "s\<lparr>heap := heap s\<rparr> = (s :: wsman)"
  by simp

lemma sync_window_visibility_eq:
  "sync_window_visibility v p c =
     c\<lparr>wm := upd_win p (vis_window v) (wm c), pending_backend_effects := pending_backend_effects c @ vis_effects v (win_at c p)\<rparr>"
proof -
  have f: "(\<lambda>x. x\<lparr>hidden_by_workspace := True\<rparr>) = vis_window False" by (simp add: vis_window_def fun_eq_iff)
  show ?thesis
  proof (cases v)
    case False
    then show ?thesis
      unfolding sync_window_visibility_def Let_def f
      by (auto simp: set_win_def upd_wm_def emit_backend_effect_def vis_effects_def is_visible_def)
  next
    case True
    have "upd_win p (vis_window True) (wm c) = wm c" if "\<not> hidden_by_workspace (win_at c p)"
      using that by (simp add: upd_win_def vis_window_def win_at_def fun_upd_idem)
    with True show ?thesis
      unfolding sync_window_visibility_def Let_def
      by (auto simp: set_win_def upd_wm_def emit_backend_effect_def vis_effects_def)
        (auto simp: upd_win_def vis_window_def win_at_def)
  qed
qed

lemma vis_window_simps [simp]:
  "win_id (vis_window v w) = win_id w" "hidden_by_workspace (vis_window v w) = (\<not> v)"
  "hidden_explicitly (vis_window v w) = hidden_explicitly w" "vis_window v (vis_window v w) = vis_window v w"
  by (auto simp: vis_window_def)

lemma vis_effects_settled [simp]: "vis_effects v (vis_window v w) = []"
  by (auto simp: vis_effects_def is_visible_def)

section \<open>All windows\<close>

text \<open>Every window with the visibility of its workspace, in the order the loops visit them.\<close>

definition placed :: "core \<Rightarrow> (bool \<times> wptr) list" where
  "placed c = concat (map (\<lambda>i. map (Pair (active_somewhere c i)) (windows (workspaces (wm c) ! i)))
                        [0..<length (workspaces (wm c))])"

lemma placed_mem: "(v, p) \<in> set (placed c) \<longleftrightarrow> (\<exists>i. located (wm c) i p \<and> v = active_somewhere c i)"
  by (auto simp: placed_def located_def)

lemma fold_concat_map: "fold f (concat (map g xs)) c = fold (\<lambda>x. fold f (g x)) xs c"
  by (induction xs arbitrary: c) simp_all

lemma sync_as_fold: "sync_workspace_visibility c = fold (\<lambda>(v, p). sync_window_visibility v p) (placed c) c"
  by (simp add: sync_workspace_visibility_def placed_def fold_concat_map fold_map comp_def)

lemma distinct_concat_disjoint:
  assumes "\<And>i. i < n \<Longrightarrow> distinct (f i)" "\<And>i j. i < n \<Longrightarrow> j < n \<Longrightarrow> i \<noteq> j \<Longrightarrow> set (f i) \<inter> set (f j) = {}"
  shows "distinct (concat (map f [0..<n]))"
  using assms
proof (induction n)
  case (Suc n)
  then have "distinct (concat (map f [0..<n]))" by simp
  moreover have "set (f i) \<inter> set (f n) = {}" if "i < n" for i using Suc.prems(2) [of i n] that by simp
  ultimately show ?case using Suc.prems(1) by fastforce
qed simp

lemma distinct_pointers:
  assumes "windows_ok s"
  shows "distinct (concat (map (\<lambda>i. windows (workspaces s ! i)) [0..<length (workspaces s)]))"
proof (rule distinct_concat_disjoint)
  fix i assume "i < length (workspaces s)"
  with assms show "distinct (windows (workspaces s ! i))" by (rule windows_ok_distinct)
next
  fix i j assume ij: "i < length (workspaces s)" "j < length (workspaces s)" "i \<noteq> j"
  have False if "p \<in> set (windows (workspaces s ! i))" "p \<in> set (windows (workspaces s ! j))" for p
    using located_unique [OF assms, of i p j p] that ij by (simp add: located_def)
  then show "set (windows (workspaces s ! i)) \<inter> set (windows (workspaces s ! j)) = {}" by blast
qed

lemma placed_distinct: "windows_ok (wm c) \<Longrightarrow> distinct (map snd (placed c))"
  using distinct_pointers [of "wm c"] by (simp add: placed_def map_concat comp_def)

definition vis_heap :: "(bool \<times> wptr) list \<Rightarrow> heap \<Rightarrow> heap" where
  "vis_heap xs h p = (case map_of (map (\<lambda>(v, q). (q, v)) xs) p of None \<Rightarrow> h p | Some v \<Rightarrow> vis_window v (h p))"

lemma fold_sync_window:
  assumes "distinct (map snd xs)"
  shows "fold (\<lambda>(v, p). sync_window_visibility v p) xs c =
    c\<lparr>wm := (wm c)\<lparr>heap := vis_heap xs (heap (wm c))\<rparr>,
      pending_backend_effects := pending_backend_effects c @ concat (map (\<lambda>(v, p). vis_effects v (win_at c p)) xs)\<rparr>"
  using assms
proof (induction xs arbitrary: c)
  case Nil
  then show ?case by (simp add: vis_heap_def)
next
  case (Cons x xs)
  obtain v p where x: "x = (v, p)" by (cases x)
  let ?c1 = "sync_window_visibility v p c"
  from Cons.prems x have np: "p \<notin> snd ` set xs" and d: "distinct (map snd xs)" by auto
  then have n: "map_of (map (\<lambda>(v, q). (q, v)) xs) p = None"
    by (auto simp: map_of_eq_None_iff image_image case_prod_unfold)
  have h: "vis_heap xs (heap (wm ?c1)) = vis_heap (x # xs) (heap (wm c))"
    using n by (auto simp: sync_window_visibility_eq vis_heap_def fun_eq_iff upd_win_def x split: option.splits)
  have e: "map (\<lambda>(v, q). vis_effects v (win_at ?c1 q)) xs = map (\<lambda>(v, q). vis_effects v (win_at c q)) xs"
    using np by (force simp: sync_window_visibility_eq win_at_def upd_win_def)
  have "fold (\<lambda>(v, p). sync_window_visibility v p) (x # xs) c = fold (\<lambda>(v, p). sync_window_visibility v p) xs ?c1"
    by (simp add: x)
  also note Cons.IH [OF d, of ?c1]
  also note h
  also note e
  finally show ?case by (simp add: x) (simp add: sync_window_visibility_eq upd_win_def)
qed

lemma sync_eq:
  assumes "windows_ok (wm c)"
  shows "sync_workspace_visibility c =
    c\<lparr>wm := (wm c)\<lparr>heap := vis_heap (placed c) (heap (wm c))\<rparr>,
      pending_backend_effects := pending_backend_effects c @ concat (map (\<lambda>(v, p). vis_effects v (win_at c p)) (placed c))\<rparr>"
  unfolding sync_as_fold by (rule fold_sync_window [OF placed_distinct [OF assms]])

lemma vis_heap_placed:
  assumes "windows_ok (wm c)" "located (wm c) i p"
  shows "vis_heap (placed c) h p = vis_window (active_somewhere c i) (h p)"
proof -
  have "distinct (map fst (map (\<lambda>(v, q). (q, v)) (placed c)))"
    using placed_distinct [OF assms(1)] by (simp add: case_prod_unfold comp_def)
  moreover have "(p, active_somewhere c i) \<in> set (map (\<lambda>(v, q). (q, v)) (placed c))"
    using assms(2) placed_mem by force
  ultimately have "map_of (map (\<lambda>(v, q). (q, v)) (placed c)) p = Some (active_somewhere c i)" by (rule map_of_is_SomeI)
  then show ?thesis by (simp add: vis_heap_def)
qed

lemma vis_heap_other: "(\<And>i. \<not> located (wm c) i p) \<Longrightarrow> vis_heap (placed c) h p = h p"
proof -
  assume "\<And>i. \<not> located (wm c) i p"
  then have "map_of (map (\<lambda>(v, q). (q, v)) (placed c)) p = None"
    by (auto simp: map_of_eq_None_iff placed_mem)
  then show ?thesis by (simp add: vis_heap_def)
qed

text \<open>A second pass changes nothing and asks the backend for nothing.\<close>

lemma sync_idempotent:
  assumes ok: "windows_ok (wm c)"
  shows "sync_workspace_visibility (sync_workspace_visibility c) = sync_workspace_visibility c"
proof -
  let ?c1 = "sync_workspace_visibility c"
  have e1: "wm ?c1 = (wm c)\<lparr>heap := vis_heap (placed c) (heap (wm c))\<rparr>" by (simp add: sync_eq [OF ok])
  have pl: "placed ?c1 = placed c" by (simp add: placed_def active_somewhere_def e1)
  have idem: "vis_heap (placed c) (vis_heap (placed c) h) = vis_heap (placed c) h" for h
    by (auto simp: vis_heap_def fun_eq_iff split: option.splits)
  have none: "vis_effects v (win_at ?c1 p) = []" if "(v, p) \<in> set (placed c)" for v p
    using that vis_heap_placed [OF ok] by (auto simp: placed_mem win_at_def e1)
  have "sync_workspace_visibility ?c1 = fold (\<lambda>(v, p). sync_window_visibility v p) (placed c) ?c1"
    by (simp add: sync_as_fold [of ?c1] pl)
  also have "\<dots> = ?c1\<lparr>wm := (wm ?c1)\<lparr>heap := vis_heap (placed c) (heap (wm ?c1))\<rparr>,
      pending_backend_effects := pending_backend_effects ?c1 @ concat (map (\<lambda>(v, p). vis_effects v (win_at ?c1 p)) (placed c))\<rparr>"
    by (rule fold_sync_window [OF placed_distinct [OF ok]])
  also have "concat (map (\<lambda>(v, p). vis_effects v (win_at ?c1 p)) (placed c)) = []"
    using none by (auto simp: concat_eq_Nil_conv)
  also have "(wm ?c1)\<lparr>heap := vis_heap (placed c) (heap (wm ?c1))\<rparr> = wm ?c1" by (simp add: e1 idem)
  finally show ?thesis by simp
qed

end
