(* ===== verification/Core_Focus.thy ===== *)
theory Core_Focus
  imports Core_Visibility Wsman_Hotplug
begin

text \<open>
  What \<^const>\<open>focus\<close> does: the target is \<open>NO_WINDOW\<close> or a managed visible window, the derived focus state
  of the workspace manager becomes the target, and exactly one focus request and one focus event are
  put out.
\<close>

section \<open>The focus cursor of the workspace manager\<close>

lemma focus_window_cursor:
  assumes inv: "wsman_inv s" and p: "window_index s win = Some p"
  obtains w i where "window_workspace s win = Some w" "is_ws_valid s w" "i < length (windows (workspaces s ! nat w))"
    "windows (workspaces s ! nat w) ! i = p" "find_index (\<lambda>q. win_id (heap s q) = win) (windows (workspaces s ! nat w)) = Some i"
    "ws_id (workspaces s ! nat w) = w"
proof -
  from inv have ok: "windows_ok s" and ids: "ids_ok s" by (simp_all add: wsman_inv_def)
  from windows_ok_indexD [OF ok p] obtain k where k: "located s k p" "window_workspace s win = Some (int k)"
    and id: "win_id (heap s p) = win" by blast
  then have "p \<in> set (windows (workspaces s ! k))" by (simp add: located_def)
  then have "find_index (\<lambda>q. win_id (heap s q) = win) (windows (workspaces s ! k)) \<noteq> None"
    using id by (auto simp: find_index_None_iff)
  then obtain i where i: "find_index (\<lambda>q. win_id (heap s q) = win) (windows (workspaces s ! k)) = Some i" by blast
  from find_index_SomeD [OF i] have il: "i < length (windows (workspaces s ! k))"
    and iw: "win_id (heap s (windows (workspaces s ! k) ! i)) = win" by auto
  then have "located s k (windows (workspaces s ! k) ! i)" using k by (simp add: located_def)
  then have "windows (workspaces s ! k) ! i = p" using located_unique [OF ok _ k(1)] id iw by blast
  moreover have "is_ws_valid s (int k)" "ws_id (workspaces s ! k) = int k"
    using k(1) ids by (auto simp: located_def is_ws_valid_def ids_ok_def)
  ultimately show thesis using that [of "int k" i] k il i by simp
qed

lemma focus_window_ok:
  assumes "wsman_inv s" "window_index s win = Some p"
  shows "fst (focus_window win s)"
proof -
  from focus_window_cursor [OF assms] obtain w i where "window_workspace s win = Some w" "is_ws_valid s w"
    "find_index (\<lambda>q. win_id (heap s q) = win) (windows (workspaces s ! nat w)) = Some i" by metis
  then show ?thesis by (simp add: focus_window_def Let_def)
qed

lemma cursor_moved:
  fixes s :: wsman and p :: wptr
  assumes "is_ws_valid s w" "i < length (windows (workspaces s ! nat w))"
  defines "s1 \<equiv> upd_win p (\<lambda>x. x\<lparr>urgent := False\<rparr>) (upd_ws w (\<lambda>ws. ws\<lparr>current := int i\<rparr>) s)"
  shows "workspaces s1 ! nat w = (workspaces s ! nat w)\<lparr>current := int i\<rparr>"
    "is_visible (heap s1 q) = is_visible (heap s q)" "win_id (heap s1 q) = win_id (heap s q)"
  using assms(1) by (auto simp: s1_def frame_simps nth_upd_ws upd_win_def is_visible_def is_ws_valid_def)

lemma active_after_local:
  assumes "sizes_ok s" "pools_ok s" "is_mon_valid s m" "is_ws_valid s w" "ws_owner s ! nat w = m"
  shows "active_ws_of_monitor (s\<lparr>monitor_active_local := (monitor_active_local s)[nat m := local_index_of s m w]\<rparr>) m = w"
proof -
  have mem: "w \<in> set (monitor_pools s ! nat m)" using pool_mem_iff [OF assms(1-3)] assms(4,5) by blast
  then have ne: "monitor_pools s ! nat m \<noteq> []" by auto
  have ml: "nat m < length (monitor_active_local s)" using assms(1,3) by (auto simp: sizes_ok_def is_mon_valid_def)
  show ?thesis
    using assms(1,3) ne ml index_of_ws_in_pool_nonneg [of "monitor_pools s ! nat m" w] index_of_ws_in_pool_bounds [OF mem] mem
    by (simp add: active_ws_of_monitor_def local_index_of_def sizes_ok_def is_mon_valid_def Let_def)
qed

lemma active_pools_cong:
  "monitor_pools s = monitor_pools t \<Longrightarrow> monitor_active_local s = monitor_active_local t \<Longrightarrow>
   active_ws_of_monitor s = active_ws_of_monitor t"
  by (simp add: active_ws_of_monitor_def fun_eq_iff Let_def)

lemma active_sync [simp]: "active_ws_of_monitor (sync_monitors_active_ws s) = active_ws_of_monitor s"
  by (simp add: active_ws_of_monitor_def fun_eq_iff Let_def frame_simps)

lemma focus_window_state:
  assumes inv: "wsman_inv s" and p: "window_index s win = Some p" and vis: "is_visible (heap s p)"
    and w: "window_workspace s win = Some w" and mon: "monitor_of s w \<ge> 0"
  shows "get_focus_state (snd (focus_window win s)) = \<lparr>fs_monitor = monitor_of s w, fs_ws_id = w, fs_window = win\<rparr>"
proof -
  from focus_window_cursor [OF inv p] w obtain i where v: "is_ws_valid s w" and il: "i < length (windows (workspaces s ! nat w))"
    and ip: "windows (workspaces s ! nat w) ! i = p" and fi: "find_index (\<lambda>q. win_id (heap s q) = win) (windows (workspaces s ! nat w)) = Some i"
    and id: "ws_id (workspaces s ! nat w) = w" by (metis option.inject)
  let ?s1 = "upd_win p (\<lambda>x. x\<lparr>urgent := False\<rparr>) (upd_ws w (\<lambda>ws. ws\<lparr>current := int i\<rparr>) s)"
  let ?m = "monitor_of s w"
  from inv have sz: "sizes_ok s" and pk: "pools_ok s" and wo: "windows_ok s" by (simp_all add: wsman_inv_def)
  have m: "ws_owner s ! nat w = ?m" using monitor_of_owned [OF sz pk v] by simp
  have mv: "is_mon_valid s ?m" using mon by (auto simp: monitor_of_def NO_MONITOR_def split: if_splits)
  have e: "monitor_of ?s1 w = ?m" "local_index_of ?s1 ?m w = local_index_of s ?m w"
    by (simp_all add: monitor_of_def local_index_of_def frame_simps is_ws_valid_def is_mon_valid_def)
  have li: "local_index_of s ?m w \<ge> 0" using local_index_nonneg [OF sz pk mv] v m by simp
  define s2 where "s2 = ?s1\<lparr>monitor_active_local := (monitor_active_local ?s1)[nat ?m := local_index_of s ?m w], focused_monitor := ?m\<rparr>"
  have fw: "snd (focus_window win s) = sync_monitors_active_ws s2"
    using w v fi li mon by (simp add: focus_window_def Let_def ip id e s2_def)
  have act: "active_ws_of_monitor s2 ?m = w"
    using active_after_local [OF sz pk mv v m]
      active_pools_cong [of s2 "s\<lparr>monitor_active_local := (monitor_active_local s)[nat ?m := local_index_of s ?m w]\<rparr>"]
    by (simp add: frame_simps s2_def)
  have s2: "focused_monitor s2 = ?m" "heap s2 = heap ?s1" "workspaces s2 = workspaces ?s1" "is_ws_valid s2 w"
    using v by (simp_all add: s2_def is_ws_valid_def frame_simps)
  have win: "win_id (heap s p) = win" using windows_ok_indexD(1) [OF wo p] .
  have "focused (heap ?s1) (workspaces ?s1 ! nat w) = Some p"
    using focused_current [of "workspaces ?s1 ! nat w" "heap ?s1"] vis il ip by (simp add: cursor_moved [OF v il])
  then have "focused (heap s2) (workspaces s2 ! nat w) = Some p" by (simp only: s2)
  moreover have "win_id (heap s2 p) = win" using win by (simp add: s2 cursor_moved [OF v il])
  ultimately show ?thesis
    using s2(1,4) unfolding fw by (simp add: get_focus_state_def Let_def act frame_simps is_ws_valid_def)
qed

section \<open>Focus of the core\<close>

lemma focus_target_cases:
  assumes "core_ok c"
  shows "focus_target c win = NO_WINDOW \<or>
    (\<exists>p. window_index (wm c) (focus_target c win) = Some p \<and> is_visible (win_at c p))"
  by (auto simp: focus_target_def Let_def find_window_def find_window_in_all_def is_ws_valid_def NO_WORKSPACE_def split: option.splits)

lemma focus_target_visible:
  assumes "win \<noteq> NO_WINDOW" "window_index (wm c) win = Some p" "is_visible (win_at c p)"
  shows "focus_target c win = win"
  using assms by (simp add: focus_target_def focus_candidate_def Let_def find_window_def find_window_in_all_def is_ws_valid_def NO_WORKSPACE_def)

definition focus_request :: "window_id \<Rightarrow> backend_effect" where
  "focus_request t = \<lparr>eff_kind = (if t = NO_WINDOW then EffFocusRoot else EffFocusWindow), eff_window = t, eff_pos = (0, 0)\<rparr>"

text \<open>The state after the cursor moved, before focus is announced.\<close>

definition focus_moved :: "window_id \<Rightarrow> core \<Rightarrow> core" where
  "focus_moved t c =
     c\<lparr>wm := (if t \<noteq> NO_WINDOW then snd (focus_window t (wm c)) else wm c),
       pending_backend_effects := pending_backend_effects c @ [focus_request t]\<rparr>"

lemma focus_eq:
  assumes ok: "core_ok c"
  shows "focus win c = emit_focus_changed (focus_target c win) (focus_moved (focus_target c win) c)"
proof (cases "focus_target c win = NO_WINDOW")
  case True
  then show ?thesis by (simp add: focus_def Let_def focus_moved_def focus_request_def emit_backend_effect_def)
next
  case False
  with focus_target_cases [OF ok] obtain p where "window_index (wm c) (focus_target c win) = Some p" by blast
  then have "fst (focus_window (focus_target c win) (wm c))" using focus_window_ok ok by (simp add: core_ok_def)
  with False show ?thesis
    by (auto simp: focus_def Let_def focus_moved_def focus_request_def emit_backend_effect_def case_prod_unfold)
qed

lemma calm_focus_changed: "calm c (emit_focus_changed t c)"
  by (auto simp: emit_focus_changed_def Let_def intro: calm_trans [OF calm_emit(3)])

lemma focus_view:
  assumes "core_ok c"
  shows "same_view (if focus_target c win = NO_WINDOW then wm c else snd (focus_window (focus_target c win) (wm c))) (wm (focus win c))"
  using calm_focus_changed [of "focus_moved (focus_target c win) c" "focus_target c win"]
  by (auto simp: focus_eq [OF assms] calm_def focus_moved_def)

lemma focus_outputs:
  assumes "core_ok c"
  shows "\<exists>ev ef. event_queue (focus win c) = event_queue (post (EvFocusChanged (focus_target c win)) c) @ ev \<and>
    pending_backend_effects (focus win c) = pending_backend_effects c @ focus_request (focus_target c win) # ef \<and>
    set ev \<subseteq> {EvRaiseDocks} \<and> (\<forall>e\<in>set ef. stacking_kind e)"
proof -
  let ?t = "focus_target c win"
  from stacks_focus_changed [of ?t "focus_moved ?t c"] obtain ev ef where
    "event_queue (focus win c) = event_queue (post (EvFocusChanged ?t) (focus_moved ?t c)) @ ev"
    "pending_backend_effects (focus win c) = pending_backend_effects (post (EvFocusChanged ?t) (focus_moved ?t c)) @ ef"
    "set ev \<subseteq> {EvRaiseDocks}" "\<forall>e\<in>set ef. stacking_kind e"
    unfolding stacks_def focus_eq [OF assms] by blast
  then show ?thesis by (intro exI [of _ ev] exI [of _ ef]) (simp add: post_def focus_moved_def)
qed

lemma focus_takes:
  assumes inv: "core_ok c" and p: "window_index (wm c) win = Some p" "is_visible (win_at c p)"
    and w: "window_workspace (wm c) win = Some w" "monitor_of (wm c) w \<ge> 0"
  shows "get_focus_state (wm (focus win c)) = \<lparr>fs_monitor = monitor_of (wm c) w, fs_ws_id = w, fs_window = win\<rparr>"
proof -
  from inv have wi: "wsman_inv (wm c)" and wo: "windows_ok (wm c)" by (simp_all add: core_ok_def wsman_inv_def)
  from windows_ok_indexD [OF wo p(1)] windows_okD(2) [OF wo] have ne: "win \<noteq> NO_WINDOW" by blast
  have t: "focus_target c win = win" by (rule focus_target_visible [OF ne p])
  have "same_view (snd (focus_window win (wm c))) (wm (focus win c))" using focus_view [OF inv, of win] ne t by simp
  then show ?thesis
    using same_view_focus_state focus_window_state [OF wi p(1) _ w] p(2) by (simp add: win_at_def)
qed

section \<open>What is on screen\<close>

text \<open>
  The same workspaces on the monitors, the same windows on the workspaces, the same visibility.
  Focusing a window that is on screen, or whatever is current, keeps it.
\<close>

definition same_shown :: "wsman \<Rightarrow> wsman \<Rightarrow> bool" where
  "same_shown s s' \<longleftrightarrow> map active_ws (monitors s') = map active_ws (monitors s) \<and>
     map windows (workspaces s') = map windows (workspaces s) \<and> (\<forall>p. settled (heap s' p) = settled (heap s p))"

lemma same_shown_refl [simp]: "same_shown s s"
  by (simp add: same_shown_def)

lemma same_shown_trans: "same_shown s s' \<Longrightarrow> same_shown s' s'' \<Longrightarrow> same_shown s s''"
  unfolding same_shown_def by metis

lemma same_view_shown:
  assumes "same_view s s'"
  shows "same_shown s s'"
proof -
  have "map windows (workspaces s') = map windows (workspaces s)"
    by (rule nth_equalityI) (use same_view_nth(1,2) [OF assms] in simp_all)
  then show ?thesis using assms by (simp add: same_shown_def same_view_def)
qed

lemma active_in_valid_pool:
  assumes "sizes_ok s" "is_mon_valid s m" "monitor_pools s ! nat m \<noteq> []"
  shows "active_ws_of_monitor s m \<in> set (monitor_pools s ! nat m)"
proof -
  have "nat m < length (monitor_pools s)" "int (nat m) = m" using assms(1,2) by (auto simp: sizes_ok_def is_mon_valid_def)
  with active_in_pool [of "nat m" s] assms(3) show ?thesis by simp
qed

lemma active_owner:
  assumes inv: "wsman_inv s" and a: "active_ws_of_monitor s m = w" and v: "is_ws_valid s w"
  shows "monitor_of s w = m \<and> is_mon_valid s m"
proof -
  from inv have sz: "sizes_ok s" and pk: "pools_ok s" by (simp_all add: wsman_inv_def)
  from a v have m: "is_mon_valid s m" and ne: "monitor_pools s ! nat m \<noteq> []"
    using sz by (auto simp: active_ws_of_monitor_def is_ws_valid_def is_mon_valid_def NO_WORKSPACE_def sizes_ok_def Let_def split: if_splits)
  with active_in_valid_pool [OF sz m ne] a have "w \<in> set (monitor_pools s ! nat m)" by simp
  then have "ws_owner s ! nat w = m" using pool_mem_iff [OF sz pk m, of w] by simp
  then show ?thesis using monitor_of_owned [OF sz pk v] m by simp
qed

lemma synced_active:
  "synced s \<Longrightarrow> map active_ws (monitors s) = map (\<lambda>m. active_ws_of_monitor s (int m)) [0..<length (monitors s)]"
  by (rule nth_equalityI) (simp_all add: synced_def)

lemma shown_active:
  assumes "synced s" "synced s'" "length (monitors s') = length (monitors s)"
    "\<And>m. active_ws_of_monitor s' m = active_ws_of_monitor s m"
  shows "map active_ws (monitors s') = map active_ws (monitors s)"
  by (simp add: synced_active [OF assms(1)] synced_active [OF assms(2)] assms(3,4))

lemma focus_window_shown:
  assumes inv: "wsman_inv s" and sy: "synced s" and p: "window_index s win = Some p" and w: "window_workspace s win = Some w"
    and on: "monitor_of s w < 0 \<or> active_ws_of_monitor s (monitor_of s w) = w"
  shows "same_shown s (snd (focus_window win s))"
proof -
  from focus_window_cursor [OF inv p] w obtain i where v: "is_ws_valid s w" and il: "i < length (windows (workspaces s ! nat w))"
    and ip: "windows (workspaces s ! nat w) ! i = p" and fi: "find_index (\<lambda>q. win_id (heap s q) = win) (windows (workspaces s ! nat w)) = Some i"
    and id: "ws_id (workspaces s ! nat w) = w" by (metis option.inject)
  let ?s' = "snd (focus_window win s)" and ?m = "monitor_of s w"
  let ?s1 = "upd_win p (\<lambda>x. x\<lparr>urgent := False\<rparr>) (upd_ws w (\<lambda>ws. ws\<lparr>current := int i\<rparr>) s)"
  let ?s2 = "?s1\<lparr>monitor_active_local := (monitor_active_local ?s1)[nat ?m := local_index_of s ?m w]\<rparr>"
  from inv have sz: "sizes_ok s" and pk: "pools_ok s" by (simp_all add: wsman_inv_def)
  have e: "monitor_of ?s1 w = ?m" "local_index_of ?s1 ?m w = local_index_of s ?m w"
    by (simp_all add: monitor_of_def local_index_of_def frame_simps is_ws_valid_def is_mon_valid_def)
  have mv: "is_mon_valid s ?m" if "?m \<ge> 0" using that by (auto simp: monitor_of_def NO_MONITOR_def split: if_splits)
  have li: "local_index_of s ?m w \<ge> 0" if "?m \<ge> 0"
    using local_index_nonneg [OF sz pk mv [OF that]] v monitor_of_owned [OF sz pk v] by simp
  have fw: "?s' = (if ?m \<ge> 0 then sync_monitors_active_ws (?s2\<lparr>focused_monitor := ?m\<rparr>) else ?s1)"
    using w v fi li by (simp add: focus_window_def Let_def ip id e)
  have "settled (heap ?s' q) = settled (heap s q)" for q by (simp add: fw frame_simps heap_upd_win)
  moreover have "map windows (workspaces ?s') = map windows (workspaces s)"
    by (simp add: fw frame_simps map_windows_upd_ws)
  moreover have "active_ws_of_monitor ?s' m = active_ws_of_monitor s m" for m
  proof (cases "?m \<ge> 0")
    case True
    let ?t = "s\<lparr>monitor_active_local := (monitor_active_local s)[nat ?m := local_index_of s ?m w]\<rparr>"
    have "active_ws_of_monitor ?s' = active_ws_of_monitor ?t"
      using True by (subst fw, simp, intro active_pools_cong) (simp_all add: frame_simps)
    moreover have "active_ws_of_monitor ?t ?m = w"
      by (rule active_after_local [OF sz pk mv [OF True] v]) (use monitor_of_owned [OF sz pk v] in simp)
    moreover have "active_ws_of_monitor ?t m = active_ws_of_monitor s m" if "m \<noteq> ?m"
      using that True by (auto simp: active_ws_of_monitor_def Let_def)
    ultimately show ?thesis using on True by (cases "m = ?m") auto
  next
    case False
    then have "active_ws_of_monitor ?s' = active_ws_of_monitor s" by (intro active_pools_cong) (simp_all add: fw frame_simps)
    then show ?thesis by simp
  qed
  then have "map active_ws (monitors ?s') = map active_ws (monitors s)"
    by (intro shown_active [OF sy focus_window_synced [OF sy]]) (simp_all add: fw frame_simps)
  ultimately show ?thesis by (simp add: same_shown_def)
qed

lemma visible_active:
  assumes "core_ok c" "is_workspace_visible c w" "is_ws_valid (wm c) w"
  shows "active_ws_of_monitor (wm c) (monitor_of (wm c) w) = w"
proof -
  from assms(2) obtain k where "k < length (monitors (wm c))" "active_ws (monitors (wm c) ! k) = w"
    by (auto simp: is_workspace_visible_def in_set_conv_nth)
  then have "active_ws_of_monitor (wm c) (int k) = w" using assms(1) by (simp add: core_ok_def synced_def)
  then show ?thesis using active_owner [OF _ _ assms(3)] assms(1) by (metis core_ok_def)
qed

lemma current_shown:
  assumes inv: "wsman_inv s" and cur: "current_index s = Some w"
  shows "is_ws_valid s w \<and> (monitor_of s w < 0 \<or> active_ws_of_monitor s (monitor_of s w) = w)"
proof (cases "\<exists>m. active_ws_of_monitor s m = w \<and> is_ws_valid s w")
  case True
  then obtain m where "active_ws_of_monitor s m = w" and v: "is_ws_valid s w" by blast
  with active_owner [OF inv] have "monitor_of s w = m" by blast
  with \<open>active_ws_of_monitor s m = w\<close> v show ?thesis by simp
next
  case False
  from inv have sz: "sizes_ok s" and pk: "pools_ok s" by (simp_all add: wsman_inv_def)
  from cur False have w: "w = 0" and ne: "workspaces s \<noteq> []"
    and none: "\<forall>i<length (monitors s). \<not> is_ws_valid s (active_ws_of_monitor s (int i))"
    by (auto simp: current_index_def Let_def find_None_iff find_Some_iff split: if_splits option.splits)
  have v: "is_ws_valid s w" using ne w by (simp add: is_ws_valid_def)
  have "monitor_of s w < 0"
  proof (rule ccontr)
    assume "\<not> monitor_of s w < 0"
    then have m: "is_mon_valid s (monitor_of s w)" by (auto simp: monitor_of_def NO_MONITOR_def split: if_splits)
    then have mem: "w \<in> set (monitor_pools s ! nat (monitor_of s w))"
      using pool_mem_iff [OF sz pk m] v monitor_of_owned [OF sz pk v] by simp
    let ?a = "active_ws_of_monitor s (monitor_of s w)"
    have "?a \<in> set (monitor_pools s ! nat (monitor_of s w))"
      by (rule active_in_valid_pool [OF sz m]) (use mem in auto)
    then have "is_ws_valid s ?a" using pool_mem_iff [OF sz pk m] by blast
    then show False using none m by (auto simp: is_mon_valid_def dest: spec [of _ "nat (monitor_of s w)"])
  qed
  with v show ?thesis by simp
qed

lemma focus_shown:
  assumes ok: "core_ok c" and on: "win = NO_WINDOW \<or> is_workspace_visible c (workspace_of_window (wm c) win)"
  shows "same_shown (wm c) (wm (focus win c))"
proof -
  let ?t = "focus_target c win" and ?s = "wm c"
  from ok have inv: "wsman_inv ?s" and sy: "synced ?s" and wo: "windows_ok ?s" by (simp_all add: core_ok_def wsman_inv_def)
  have "same_shown ?s (if ?t = NO_WINDOW then ?s else snd (focus_window ?t ?s))"
  proof (cases "?t = NO_WINDOW")
    case False
    with focus_target_cases [OF ok] obtain p where p: "window_index ?s ?t = Some p" by blast
    from windows_ok_indexD(2) [OF wo p] obtain i where li: "located ?s i p" and w: "window_workspace ?s ?t = Some (int i)" by blast
    have v: "is_ws_valid ?s (int i)" using li by (simp add: located_def is_ws_valid_def)
    have "monitor_of ?s (int i) < 0 \<or> active_ws_of_monitor ?s (monitor_of ?s (int i)) = int i"
    proof (cases "win = NO_WINDOW")
      case True
      with False obtain q where q: "focused (heap ?s) (current_ws ?s) = Some q" and t: "?t = win_id (heap ?s q)"
        by (auto simp: focus_target_def focus_candidate_def Let_def win_at_def split: option.splits if_splits)
      from focused_in [OF q] obtain k where k: "current_index ?s = Some k" "q \<in> set (windows (workspaces ?s ! nat k))"
        by (auto simp: current_ws_def fallback_workspace_def mk_workspace_def split: option.splits)
      from current_shown [OF inv k(1)] have kv: "is_ws_valid ?s k"
        and sh: "monitor_of ?s k < 0 \<or> active_ws_of_monitor ?s (monitor_of ?s k) = k" by auto
      have "located ?s (nat k) q" using kv k(2) by (auto simp: located_def is_ws_valid_def)
      from windows_okD(4) [OF wo this] w t have "k = int i" using kv by (simp add: is_ws_valid_def)
      with sh show ?thesis by simp
    next
      case False
      then have "?t = win" using \<open>?t \<noteq> NO_WINDOW\<close>
        by (auto simp: focus_target_def focus_candidate_def Let_def split: option.splits if_splits)
      with on False w v have "is_workspace_visible c (int i)" by (simp add: workspace_of_window_def)
      from visible_active [OF ok this v] show ?thesis by simp
    qed
    then show ?thesis using focus_window_shown [OF inv sy p w] False by simp
  qed simp
  then show ?thesis using focus_view [OF ok, of win] by (blast intro: same_shown_trans same_view_shown)
qed

end
