(* ===== verification/Core_Handlers.thy ===== *)
theory Core_Handlers
  imports Core_Focus Core_Reachable
begin

text \<open>
  The functional behaviour of the command handlers that move windows and workspaces: where the windows
  are afterwards, and that the hidden flag of every window agrees with its workspace (\<open>hiding_ok\<close>).
\<close>

section \<open>Visibility after a command\<close>

definition hiding_ok :: "core \<Rightarrow> bool" where
  "hiding_ok c \<longleftrightarrow> (\<forall>i<length (workspaces (wm c)). \<forall>p\<in>set (windows (workspaces (wm c) ! i)).
     hidden_by_workspace (win_at c p) = (\<not> is_workspace_visible c (int i)))"

lemma sync_frame_core [simp]:
  assumes "windows_ok (wm c)"
  shows "monitors (wm (sync_workspace_visibility c)) = monitors (wm c)"
    "workspaces (wm (sync_workspace_visibility c)) = workspaces (wm c)"
    "event_queue (sync_workspace_visibility c) = event_queue c"
    "sink_attached (sync_workspace_visibility c) = sink_attached c"
  by (simp_all add: sync_eq [OF assms])

lemma visible_iff_active: "is_workspace_visible c (int i) = active_somewhere c i"
  by (simp add: is_workspace_visible_def active_somewhere_def)

lemma sync_hiding_ok:
  assumes "windows_ok (wm c)"
  shows "hiding_ok (sync_workspace_visibility c)"
  unfolding hiding_ok_def
proof (intro allI impI ballI)
  fix i p
  let ?c = "sync_workspace_visibility c"
  assume i: "i < length (workspaces (wm ?c))" and p: "p \<in> set (windows (workspaces (wm ?c) ! i))"
  then have "located (wm c) i p" using assms by (simp add: located_def)
  then have "win_at ?c p = vis_window (active_somewhere c i) (win_at c p)"
    using vis_heap_placed [OF assms] by (simp add: win_at_def sync_eq [OF assms])
  then show "hidden_by_workspace (win_at ?c p) = (\<not> is_workspace_visible ?c (int i))"
    using assms by (simp add: is_workspace_visible_def active_somewhere_def)
qed

lemma same_shown_visible:
  assumes "same_shown (wm c) (wm c')"
  shows "is_workspace_visible c' w = is_workspace_visible c w"
proof -
  from assms have "set (map active_ws (monitors (wm c'))) = set (map active_ws (monitors (wm c)))"
    unfolding same_shown_def by metis
  then have "w \<in> active_ws ` set (monitors (wm c')) \<longleftrightarrow> w \<in> active_ws ` set (monitors (wm c))" by simp
  then show ?thesis by (auto simp: is_workspace_visible_def image_iff)
qed

lemma same_shown_hiding_ok:
  assumes s: "same_shown (wm c) (wm c')" and ok: "hiding_ok c"
  shows "hiding_ok c'"
  unfolding hiding_ok_def
proof (intro allI impI ballI)
  fix i p
  assume i: "i < length (workspaces (wm c'))" and p: "p \<in> set (windows (workspaces (wm c') ! i))"
  from s have m: "map windows (workspaces (wm c')) = map windows (workspaces (wm c))" by (simp add: same_shown_def)
  then have l: "length (workspaces (wm c')) = length (workspaces (wm c))" by (metis length_map)
  with m i have "windows (workspaces (wm c') ! i) = windows (workspaces (wm c) ! i)" by (metis nth_map)
  with ok i l p have "hidden_by_workspace (win_at c p) = (\<not> is_workspace_visible c (int i))" by (simp add: hiding_ok_def)
  moreover have "settled (win_at c' p) = settled (win_at c p)" using s by (simp add: same_shown_def win_at_def)
  ultimately show "hidden_by_workspace (win_at c' p) = (\<not> is_workspace_visible c' (int i))"
    using settled_fields(3) same_shown_visible [OF s] by metis
qed

definition shown_step :: "core \<Rightarrow> core \<Rightarrow> bool" where
  "shown_step c c' \<longleftrightarrow> same_shown (wm c) (wm c')"

lemma shown_step_trans: "shown_step c c' \<Longrightarrow> shown_step c' c'' \<Longrightarrow> shown_step c c''"
  unfolding shown_step_def by (rule same_shown_trans)

lemma calm_shown: "calm c c' \<Longrightarrow> shown_step c c'"
  by (simp add: calm_def shown_step_def same_view_shown)

lemma shown_hiding_ok: "shown_step c c' \<Longrightarrow> hiding_ok c \<Longrightarrow> hiding_ok c'"
  unfolding shown_step_def by (rule same_shown_hiding_ok)

lemma core_ok_windows: "core_ok c \<Longrightarrow> windows_ok (wm c)"
  by (simp add: core_ok_def wsman_inv_def)

lemma arrange_sync_hiding:
  assumes "core_ok c"
  shows "hiding_ok (arrange (sync_workspace_visibility c))" "core_ok (arrange (sync_workspace_visibility c))"
    "steady c (arrange (sync_workspace_visibility c))"
    "is_workspace_visible (arrange (sync_workspace_visibility c)) w = is_workspace_visible c w"
proof -
  let ?d = "sync_workspace_visibility c"
  have sh: "shown_step ?d (arrange ?d)" by (rule calm_shown [OF calm_arrange])
  then show "hiding_ok (arrange ?d)" by (rule shown_hiding_ok) (rule sync_hiding_ok [OF core_ok_windows [OF assms]])
  show st: "steady c (arrange ?d)" by (meson steady_trans steady_arrange steady_sync_workspace_visibility)
  from steady_core_ok [OF st assms] show "core_ok (arrange ?d)" .
  have "is_workspace_visible ?d w = is_workspace_visible c w"
    by (simp add: is_workspace_visible_def sync_frame_core [OF core_ok_windows [OF assms]])
  with same_shown_visible sh show "is_workspace_visible (arrange ?d) w = is_workspace_visible c w"
    unfolding shown_step_def by blast
qed

lemma reconcile_hiding:
  assumes "core_ok c"
  shows "hiding_ok (reconcile c)" "is_workspace_visible (reconcile c) w = is_workspace_visible c w"
proof -
  note a = arrange_sync_hiding [OF assms]
  have sh: "same_shown (wm (arrange (sync_workspace_visibility c))) (wm (reconcile c))"
    unfolding reconcile_def by (rule focus_shown [OF a(2)]) simp
  from same_shown_hiding_ok [OF this a(1)] show "hiding_ok (reconcile c)" .
  from same_shown_visible [OF sh] a(4) show "is_workspace_visible (reconcile c) w = is_workspace_visible c w" by simp
qed

section \<open>Switching\<close>

lemma switch_shows:
  assumes ok: "core_ok c" and sw: "fst (switch_to w al h co (wm c))"
  shows "is_workspace_visible (c\<lparr>wm := snd (switch_to w al h co (wm c))\<rparr>) w"
proof -
  let ?s = "snd (switch_to w al h co (wm c))"
  from ok have inv: "wsman_inv (wm c)" and sy: "synced (wm c)" by (simp_all add: core_ok_def)
  from switch_to_active [OF inv sw] have m: "is_mon_valid ?s (monitor_of ?s w)"
    and a: "active_ws_of_monitor ?s (monitor_of ?s w) = w" by auto
  have "synced ?s" by (rule switch_to_synced [OF sy])
  then have "active_ws (monitors ?s ! nat (monitor_of ?s w)) = w"
    using m a by (auto simp: synced_def is_mon_valid_def dest!: spec [of _ "nat (monitor_of ?s w)"])
  then show ?thesis using m by (auto simp: is_workspace_visible_def is_mon_valid_def intro!: bexI nth_mem)
qed

lemma SwitchWorkspace_split:
  assumes "fst (dispatch_SwitchWorkspace w mi c)"
  obtains al h co b where "fst (switch_to w al h co (wm c))"
    "snd (dispatch_SwitchWorkspace w mi c) = post (EvWorkspaceSwitched w) (evaluate_workspace_fullscreen w
       (if b then focus NO_WINDOW (arrange (sync_workspace_visibility (c\<lparr>wm := snd (switch_to w al h co (wm c))\<rparr>)))
        else arrange (sync_workspace_visibility (c\<lparr>wm := snd (switch_to w al h co (wm c))\<rparr>))))"
proof -
  let ?al = "monitor_aliases (settings c)" and ?h = "case mi of Some m \<Rightarrow> m | None \<Rightarrow> NO_MONITOR" and ?co = "cs_monitor_compose (settings c)"
  obtain ok s where sw: "switch_to w ?al ?h ?co (wm c) = (ok, s)" by fastforce
  with assms have ok: ok by (simp add: dispatch_SwitchWorkspace_def Let_def split: if_splits)
  let ?t = "case mi of Some m \<Rightarrow> m | None \<Rightarrow> monitor_of (wm c) w" and ?d = "arrange (sync_workspace_visibility (c\<lparr>wm := s\<rparr>))"
  let ?b = "(if ?t < 0 then focused_monitor (wm c) else ?t) = focused_monitor (wm ?d)"
  have "snd (dispatch_SwitchWorkspace w mi c) = post (EvWorkspaceSwitched w) (evaluate_workspace_fullscreen w
    (if ?b then focus NO_WINDOW ?d else ?d))"
    by (simp add: dispatch_SwitchWorkspace_def Let_def sw ok)
  then show thesis by (intro that [of ?al ?h ?co ?b]) (simp_all only: sw ok fst_conv snd_conv)
qed

lemma SwitchWorkspace_shows:
  assumes ok: "core_ok c" and sw: "fst (dispatch_SwitchWorkspace w mi c)"
  shows "is_workspace_visible (snd (dispatch_SwitchWorkspace w mi c)) w" "hiding_ok (snd (dispatch_SwitchWorkspace w mi c))"
    "sink_attached c \<Longrightarrow> last (event_queue (snd (dispatch_SwitchWorkspace w mi c))) = EvWorkspaceSwitched w"
proof -
  from SwitchWorkspace_split [OF sw] obtain al h co b where fr: "fst (switch_to w al h co (wm c))"
    and r: "snd (dispatch_SwitchWorkspace w mi c) = post (EvWorkspaceSwitched w) (evaluate_workspace_fullscreen w
      (if b then focus NO_WINDOW (arrange (sync_workspace_visibility (c\<lparr>wm := snd (switch_to w al h co (wm c))\<rparr>)))
       else arrange (sync_workspace_visibility (c\<lparr>wm := snd (switch_to w al h co (wm c))\<rparr>))))" .
  define c1 where "c1 = c\<lparr>wm := snd (switch_to w al h co (wm c))\<rparr>"
  define c2 where "c2 = arrange (sync_workspace_visibility c1)"
  define d where "d = (if b then focus NO_WINDOW c2 else c2)"
  note r = r [folded c1_def, folded c2_def, folded d_def]
  have st: "steady c c1" unfolding c1_def by (rule steady_switch_to)
  note a = arrange_sync_hiding [OF steady_core_ok [OF st ok], folded c2_def]
  have "shown_step c2 d" using focus_shown [OF a(2), of NO_WINDOW] by (simp add: shown_step_def d_def)
  moreover have "shown_step d (post e (evaluate_workspace_fullscreen w d))" for e
    by (rule calm_shown [OF calm_trans [OF calm_evaluate calm_emit(3)]])
  ultimately have sh: "shown_step c2 (snd (dispatch_SwitchWorkspace w mi c))" unfolding r by (rule shown_step_trans)
  from shown_hiding_ok [OF this a(1)] show "hiding_ok (snd (dispatch_SwitchWorkspace w mi c))" .
  from switch_shows [OF ok fr, folded c1_def] a(4) have "is_workspace_visible c2 w" by simp
  with sh show "is_workspace_visible (snd (dispatch_SwitchWorkspace w mi c)) w"
    unfolding shown_step_def by (simp only: same_shown_visible)
  show "last (event_queue (snd (dispatch_SwitchWorkspace w mi c))) = EvWorkspaceSwitched w" if "sink_attached c"
  proof -
    have "steady c c2" by (rule steady_trans [OF st a(3)])
    then have "steady c d" by (auto simp: d_def intro: steady_trans steady_focus)
    then have "steady c (evaluate_workspace_fullscreen w d)" by (rule steady_trans) (rule steady_evaluate)
    then have "sink_attached (evaluate_workspace_fullscreen w d)" using that by (simp add: steady_def same_config_def)
    then show ?thesis unfolding r by (simp add: post_def)
  qed
qed

section \<open>Moving a window\<close>

lemma move_window_to_workspace:
  assumes "wsman_inv s" "window_index s win = Some p" "is_ws_valid s w"
  shows "window_workspace (move_window_to w p s) = (window_workspace s)(win \<mapsto> w)"
    "win_id (heap (move_window_to w p s) p) = win"
proof -
  note ip = indexed_pointer [OF assms(1,2)]
  show "window_workspace (move_window_to w p s) = (window_workspace s)(win \<mapsto> w)"
    using ip assms relocate_index(2) [OF assms(3), of p] by (auto simp: move_window_to_eq)
  show "win_id (heap (move_window_to w p s) p) = win"
    using ip by (simp add: move_window_to_eq [OF assms(1)] relocate_def Let_def frame_simps split: option.splits)
qed

text \<open>The part of the handler between the move and the final focus: steady, and it keeps what is shown.\<close>

definition moved_fullscreen :: "wptr \<Rightarrow> workspace_id \<Rightarrow> workspace_id \<Rightarrow> bool \<Rightarrow> core \<Rightarrow> core" where
  "moved_fullscreen p src w fs c =
     (if fs then evaluate_workspace_fullscreen w (evaluate_workspace_fullscreen src (pin_fullscreen_to_monitor p w c)) else c)"

lemma moved_fullscreen_calm: "calm c (moved_fullscreen p src w fs c)"
  by (auto simp: moved_fullscreen_def intro: calm_trans [OF calm_trans [OF calm_pin calm_evaluate] calm_evaluate])

lemma moved_fullscreen_steady:
  assumes "core_ok c \<Longrightarrow> window_index (wm c) (win_id (win_at c p)) \<noteq> None"
  shows "steady c (moved_fullscreen p src w fs c)"
  using steady_trans [OF steady_trans [OF steady_pin [OF assms] steady_evaluate] steady_evaluate]
  by (simp add: moved_fullscreen_def)

lemma MoveWindowToWorkspace_eq:
  assumes "find_window_in_all (wm c) win = Some p" "is_ws_valid (wm c) w"
    and c1: "c1 = post (EvWindowAssignedToWorkspace win w) (upd_wm (move_window_to w p) c)"
    and c3: "c3 = moved_fullscreen p (workspace_of_window (wm c) win) w (borderless (win_at c p) \<or> fullscreen (win_at c p))
      (arrange (sync_workspace_visibility c1))"
  shows "dispatch_MoveWindowToWorkspace win w c =
    (True, focus (if is_workspace_visible c3 w \<and> is_visible (win_at c3 p) \<and> \<not> suppress_focus_once (win_at c3 p)
                  then win_id (win_at c3 p) else NO_WINDOW) c3)"
  using assms(1,2) unfolding c3 c1 moved_fullscreen_def
  by (simp add: dispatch_MoveWindowToWorkspace_def Let_def workspace_count_def is_ws_valid_def split del: if_split)

lemma MoveWindowToWorkspace_spec:
  assumes ok: "core_ok c" and p: "window_index (wm c) win = Some p" and w: "is_ws_valid (wm c) w"
    and r: "dispatch_MoveWindowToWorkspace win w c = (res, c')"
  shows "res" "window_workspace (wm c') = (window_workspace (wm c))(win \<mapsto> w)" "window_index (wm c') = window_index (wm c)" "hiding_ok c'"
proof -
  from ok have inv: "wsman_inv (wm c)" by (simp add: core_ok_def)
  define c1 where "c1 = post (EvWindowAssignedToWorkspace win w) (upd_wm (move_window_to w p) c)"
  define c2 where "c2 = arrange (sync_workspace_visibility c1)"
  define c3 where "c3 = moved_fullscreen p (workspace_of_window (wm c) win) w (borderless (win_at c p) \<or> fullscreen (win_at c p)) c2"
  define v where "v = (if is_workspace_visible c3 w \<and> is_visible (win_at c3 p) \<and> \<not> suppress_focus_once (win_at c3 p)
                  then win_id (win_at c3 p) else NO_WINDOW)"
  have "dispatch_MoveWindowToWorkspace win w c = (True, focus v c3)"
    using MoveWindowToWorkspace_eq [OF _ w c1_def, of c3] p by (simp add: find_window_in_all_def c3_def c2_def v_def)
  with r have res and c': "c' = focus v c3" by simp_all
  then show res by simp
  have w1: "window_workspace (wm c1) = (window_workspace (wm c))(win \<mapsto> w)" and i1: "window_index (wm c1) = window_index (wm c)"
    and id1: "win_id (win_at c1 p) = win"
    using move_window_to_workspace [OF inv p w] move_window_to_index [OF inv p] by (simp_all add: c1_def win_at_def)
  have ok1: "core_ok c1" unfolding c1_def by (rule steady_core_ok [OF steady_emit(3) core_ok_move [OF ok p]])
  note a = arrange_sync_hiding [OF ok1, folded c2_def]
  have id2: "win_id (win_at c2 p) = win" and i2: "window_index (wm c2) = window_index (wm c)"
    using a(3) id1 i1 by (simp_all add: steady_def same_windows_def win_at_def)
  have st3: "steady c2 c3" unfolding c3_def by (rule moved_fullscreen_steady) (simp add: id2 i2 p)
  have st: "steady c1 c3" by (rule steady_trans [OF a(3) st3])
  have ok3: "core_ok c3" by (rule steady_core_ok [OF st ok1])
  have h3: "hiding_ok c3"
    unfolding c3_def by (rule shown_hiding_ok [OF calm_shown [OF moved_fullscreen_calm] a(1)])
  have st': "steady c1 c'" unfolding c' by (rule steady_trans [OF st steady_focus])
  then show "window_workspace (wm c') = (window_workspace (wm c))(win \<mapsto> w)" "window_index (wm c') = window_index (wm c)"
    using w1 i1 by (simp_all add: steady_def same_windows_def)
  have "win_id (win_at c3 p) = win" and ww: "window_workspace (wm c3) = (window_workspace (wm c))(win \<mapsto> w)"
    using st id1 w1 by (simp_all add: steady_def same_windows_def win_at_def)
  then have "is_workspace_visible c3 (workspace_of_window (wm c3) v)" if "v \<noteq> NO_WINDOW"
  proof -
    from that have vis: "is_workspace_visible c3 w" and v: "v = win"
      using \<open>win_id (win_at c3 p) = win\<close> by (auto simp: v_def split: if_splits)
    have "window_workspace (wm c3) win = Some w" by (simp add: ww)
    from windows_ok_workspaceD [OF core_ok_windows [OF ok3] this] have "is_ws_valid (wm c3) w" by blast
    with vis ww indexed_pointer(3) [OF inv p] show ?thesis by (simp add: workspace_of_window_def v)
  qed
  then have "v = NO_WINDOW \<or> is_workspace_visible c3 (workspace_of_window (wm c3) v)" by blast
  from same_shown_hiding_ok [OF focus_shown [OF ok3 this] h3] show "hiding_ok c'" unfolding c' .
qed

section \<open>Monitors\<close>

lemma ApplyMonitorTopology_hiding:
  assumes "core_ok c"
  shows "hiding_ok (snd (dispatch_ApplyMonitorTopology mons c))"
  using reconcile_hiding(1) [OF core_ok_topology [OF assms]] by (simp add: dispatch_ApplyMonitorTopology_def upd_wm_eq)

lemma post_hiding [simp]: "hiding_ok (post e c) = hiding_ok c"
  by (simp add: hiding_ok_def is_workspace_visible_def win_at_def)

lemma SwitchWorkspaceLocalIndex_hiding:
  assumes ok: "core_ok c" and sw: "fst (dispatch_SwitchWorkspaceLocalIndex li c)"
  shows "hiding_ok (snd (dispatch_SwitchWorkspaceLocalIndex li c))"
proof -
  let ?c = "c\<lparr>wm := snd (switch_local_index (focused_monitor (wm c)) li (wm c))\<rparr>"
  have "hiding_ok (reconcile ?c)" by (rule reconcile_hiding(1) [OF steady_core_ok [OF steady_local_index ok]])
  then show ?thesis using sw
    by (simp add: dispatch_SwitchWorkspaceLocalIndex_def Let_def case_prod_unfold split: if_splits)
qed

end
