(* ===== verification/Core_Fullscreen.thy ===== *)
theory Core_Fullscreen
  imports Core_Handlers
begin

text \<open>
  Fullscreen: the mode of a workspace follows its windows, and leaving fullscreen gives a floating
  window back the place it had. The second fact rests on the layout interface: arranging touches only
  the windows it hands to the layout, so a floating window keeps its geometry.
\<close>

section \<open>The workspace mode\<close>

lemma evaluate_mode:
  assumes "is_ws_valid (wm c) w"
  shows "ws_mode (workspaces (wm (evaluate_workspace_fullscreen w c)) ! nat w) = ModeFullscreen \<longleftrightarrow>
    has_fullscreen_window (heap (wm c)) (workspaces (wm c) ! nat w)"
proof -
  let ?u = "update_ws_mode w c"
  have n: "nat w < length (workspaces (wm c))" "0 \<le> w" using assms by (auto simp: is_ws_valid_def)
  have mode: "ws_mode (workspaces (wm (set_ws_mode w m c)) ! nat w) = m" for m
    using n by (simp add: set_ws_mode_def nth_upd_ws)
  have u: "ws_mode (workspaces (wm ?u) ! nat w) = ModeFullscreen \<longleftrightarrow>
    has_fullscreen_window (heap (wm c)) (workspaces (wm c) ! nat w)"
    by (cases "ws_mode (workspaces (wm c) ! nat w)") (auto simp: update_ws_mode_def Let_def mode)
  have pin: "workspaces (wm (pin_fullscreen_to_monitor p w d)) = workspaces (wm d)" for p d
    by (auto simp: pin_fullscreen_to_monitor_def Let_def frame_simps split: prod.splits)
  have low: "wm (fold (lower_fullscreen f) ps d) = wm d" for f ps d
    by (induction ps arbitrary: d) (simp_all add: lower_fullscreen_def Let_def)
  have "workspaces (wm (evaluate_workspace_fullscreen w c)) = workspaces (wm ?u)"
    using n by (auto simp: evaluate_workspace_fullscreen_def workspace_count_def Let_def pin low split: option.splits)
  with u show ?thesis by simp
qed

section \<open>Who keeps the geometry of a window\<close>

definition geometry :: "core \<Rightarrow> wptr \<Rightarrow> vec2i \<times> vec2i" where
  "geometry c p = (win_pos (win_at c p), win_size (win_at c p))"

lemma geometry_outputs [simp]:
  "geometry (emit_backend_effect k win c) p = geometry c p" "geometry (post e c) p = geometry c p"
  "geometry (mark_window_dirty win bits c) p = geometry c p"
  by (simp_all add: geometry_def win_at_def)

lemma geometry_set_win [simp]: "q \<noteq> p \<Longrightarrow> geometry (set_win q f c) p = geometry c p"
  by (simp add: geometry_def win_at_def upd_win_def)

lemma geometry_border [simp]: "geometry (snd (set_window_border_width win b c)) p = geometry c p"
  by (auto simp: set_window_border_width_def with_window_def split: option.splits)
    (simp add: geometry_def win_at_def upd_win_def)

text \<open>Pointers and ids match; every steady step keeps it.\<close>

definition ids_indexed :: "core \<Rightarrow> bool" where
  "ids_indexed c \<longleftrightarrow> (\<forall>win q. window_index (wm c) win = Some q \<longrightarrow> win_id (win_at c q) = win)"

lemma core_ok_ids: "core_ok c \<Longrightarrow> ids_indexed c"
  using windows_ok_indexD(1) by (auto simp: ids_indexed_def win_at_def core_ok_def wsman_inv_def)

lemma steady_ids: "steady c c' \<Longrightarrow> ids_indexed c \<Longrightarrow> ids_indexed c'"
  by (simp add: steady_def same_windows_def ids_indexed_def win_at_def)

lemma place_geometry:
  assumes "ids_indexed c" "fst pl \<noteq> win_id (win_at c p)"
  shows "geometry (place pl c) p = geometry c p"
proof -
  obtain win pos sz b where pl: "pl = (win, pos, sz, b)" by (cases pl)
  have "geometry (snd (set_window_geometry win pos sz' c)) p = geometry c p" for sz'
  proof (cases "window_index (wm c) win")
    case (Some q)
    with assms have "q \<noteq> p" by (auto simp: pl ids_indexed_def)
    with Some show ?thesis by (simp add: set_window_geometry_def with_window_def find_window_in_all_def)
  qed (simp add: set_window_geometry_def with_window_def find_window_in_all_def)
  then show ?thesis by (simp add: place_def pl Let_def)
qed

lemma places_geometry:
  assumes "ids_indexed c" "win_id (win_at c p) \<notin> set (map fst pls)"
  shows "geometry (fold place pls c) p = geometry c p"
  using assms
proof (induction pls arbitrary: c)
  case (Cons pl pls)
  have st: "steady c (place pl c)" by (rule steady_place)
  then have "win_id (win_at (place pl c) p) = win_id (win_at c p)" by (simp add: steady_def same_windows_def win_at_def)
  moreover have "fst pl \<noteq> win_id (win_at c p)" using Cons.prems(2) by auto
  ultimately show ?case
    using Cons.IH [OF steady_ids [OF st Cons.prems(1)]] place_geometry [OF Cons.prems(1), of pl p] Cons.prems(2) by simp
qed simp

lemma border_floating_geometry [simp]: "geometry (border_floating q c) p = geometry c p"
  by (simp add: border_floating_def Let_def)

lemma borders_geometry [simp]: "geometry (fold border_floating qs c) p = geometry c p"
  by (induction qs arbitrary: c) simp_all

lemma floating_not_tiled:
  assumes ok: "windows_ok (wm c)" and p: "located (wm c) i p" and fl: "floating (win_at c p)"
    and w: "is_ws_valid (wm c) w"
  shows "win_id (win_at c p) \<notin> set (tiled_windows c (workspaces (wm c) ! nat w))"
proof
  assume "win_id (win_at c p) \<in> set (tiled_windows c (workspaces (wm c) ! nat w))"
  then obtain q where q: "q \<in> set (windows (workspaces (wm c) ! nat w))" "\<not> floating (win_at c q)"
    "win_id (win_at c q) = win_id (win_at c p)" by (auto simp: tiled_windows_def Let_def)
  have "located (wm c) (nat w) q" using w q(1) by (auto simp: located_def is_ws_valid_def)
  from located_unique [OF ok this p] q(3) have "q = p" by (simp add: win_at_def)
  with q(2) fl show False by simp
qed

lemma floating_steady:
  assumes "calm c c'" "steady c c'" "located (wm c) i p" "floating (win_at c p)"
  shows "located (wm c') i p" "floating (win_at c' p)" "win_id (win_at c' p) = win_id (win_at c p)"
proof -
  have v: "same_view (wm c) (wm c')" using assms(1) by (simp add: calm_def)
  from same_view_nth(1) [OF v] same_view_nth(2) [OF v, of i] assms(3) show "located (wm c') i p" by (simp add: located_def)
  from v have se: "settled (win_at c' p) = settled (win_at c p)" by (simp add: same_view_def win_at_def)
  from settled_fields(5) [OF se] settled_fields(1) [OF se] assms(4)
  show "floating (win_at c' p)" "win_id (win_at c' p) = win_id (win_at c p)" by simp_all
qed

lemma active_valid:
  assumes ok: "core_ok c" and mon: "mon \<in> set (monitors (wm c))" and a: "0 \<le> active_ws mon"
  shows "is_ws_valid (wm c) (active_ws mon)"
proof -
  from mon obtain k where k: "k < length (monitors (wm c))" "mon = monitors (wm c) ! k" by (auto simp: in_set_conv_nth)
  from ok k have act: "active_ws mon = active_ws_of_monitor (wm c) (int k)" by (simp add: core_ok_def synced_def)
  from ok have sz: "sizes_ok (wm c)" and pk: "pools_ok (wm c)" by (simp_all add: core_ok_def wsman_inv_def)
  have m: "is_mon_valid (wm c) (int k)" using k by (simp add: is_mon_valid_def)
  have "monitor_pools (wm c) ! k \<noteq> []"
    using a act by (auto simp: active_ws_of_monitor_def NO_WORKSPACE_def Let_def split: if_splits)
  with active_in_valid_pool [OF sz m] pool_mem_iff [OF sz pk m] act show ?thesis by simp
qed

text \<open>The client side of the layout interface.\<close>

context layout_policy
begin

lemma arrange_monitor_keeps:
  assumes ok: "core_ok c" and cfg: "1 \<le> nmaster (layout_cfg c)" and lay: "layouts c (active_layout c) = Some policy"
    and mon: "mon \<in> set (monitors (wm c))" and p: "located (wm c) i p" "floating (win_at c p)"
  shows "geometry (arrange_monitor mon c) p = geometry c p"
proof (cases "active_ws mon < 0")
  case False
  let ?ws = "workspaces (wm c) ! nat (active_ws mon)"
  have v: "is_ws_valid (wm c) (active_ws mon)" by (rule active_valid [OF ok mon]) (use False in simp)
  have ws: "workspace_at (wm c) (active_ws mon) = ?ws" using v by (auto simp: workspace_at_def is_ws_valid_def)
  have "win_id (win_at c p) \<notin> set (tiled_windows c ?ws)"
    by (rule floating_not_tiled [OF core_ok_windows [OF ok] p v])
  moreover have "1 \<le> nmaster (arrange_config c)" using cfg by (simp add: arrange_config_def)
  ultimately have "win_id (win_at c p) \<notin> set (map fst (policy (tiled_windows c ?ws) mon (arrange_config c)))"
    using places_given by blast
  from places_geometry [OF core_ok_ids [OF ok] this] show ?thesis
    using False by (simp add: arrange_monitor_def Let_def lay ws)
qed (simp add: arrange_monitor_def)

lemma arrange_keeps:
  assumes ok: "core_ok c" and cfg: "1 \<le> nmaster (layout_cfg c)" and lay: "layouts c (active_layout c) = Some policy"
    and p: "located (wm c) i p" "floating (win_at c p)"
  shows "geometry (arrange c) p = geometry c p"
proof -
  have "set mons \<subseteq> set (monitors (wm c)) \<Longrightarrow> geometry (fold arrange_monitor mons c) p = geometry c p" for mons
    using ok cfg lay p
  proof (induction mons arbitrary: c)
    case (Cons mon mons)
    let ?d = "arrange_monitor mon c"
    have st: "steady c ?d" by (rule steady_arrange_monitor)
    have cm: "calm c ?d" by (rule calm_arrange_monitor)
    from cm have mo: "monitors (wm ?d) = monitors (wm c)" by (simp add: calm_def same_view_def)
    have "geometry (fold arrange_monitor mons ?d) p = geometry ?d p"
    proof (rule Cons.IH)
      show "set mons \<subseteq> set (monitors (wm ?d))" using Cons.prems(1) mo by simp
      show "core_ok ?d" by (rule steady_core_ok [OF st Cons.prems(2)])
      show "1 \<le> nmaster (layout_cfg ?d)" "layouts ?d (active_layout ?d) = Some policy"
        using st Cons.prems(3,4) by (simp_all add: steady_def same_config_def)
      show "located (wm ?d) i p" "floating (win_at ?d p)" using floating_steady [OF cm st Cons.prems(5,6)] by blast+
    qed
    also have "\<dots> = geometry c p" by (rule arrange_monitor_keeps) (use Cons.prems in auto)
    finally show ?case by simp
  qed simp
  then show ?thesis using lay by (simp add: arrange_def)
qed

end

section \<open>The round trip\<close>

lemma focus_settled:
  assumes "core_ok c"
  shows "settled (win_at (focus v c) q) = settled (win_at c q)"
proof -
  have "settled (heap (snd (focus_window t s)) q) = settled (heap s q)" for t s
    by (auto simp: focus_window_def Let_def frame_simps heap_upd_win split: option.splits)
  with focus_view [OF assms, of v] show ?thesis by (auto simp: same_view_def win_at_def split: if_splits)
qed

lemma calm_settled: "calm c c' \<Longrightarrow> settled (win_at c' q) = settled (win_at c q)"
  by (simp add: calm_def same_view_def win_at_def)

lemma win_at_set_win [simp]: "win_at (set_win p f c) p = f (win_at c p)"
  by (simp add: win_at_def upd_win_def)

lemma win_at_outputs [simp]:
  "win_at (mark_window_dirty win bits c) p = win_at c p" "win_at (post e c) p = win_at c p"
  "win_at (emit_backend_effect k win c) p = win_at c p"
  by (simp_all add: win_at_def)

text \<open>The geometry part of entering fullscreen, and the rest of the handler after it.\<close>

definition fullscreen_entered :: "window_id \<Rightarrow> bool \<Rightarrow> wptr \<Rightarrow> core \<Rightarrow> core" where
  "fullscreen_entered win pg p c =
     (case fullscreen_monitor c (workspace_of_window (wm c) win) of
        Some m \<Rightarrow> if \<not> pg
                  then mark_window_dirty win DIRTY_GEOMETRY (set_win p (\<lambda>x. x\<lparr>win_pos := fst (physical m), win_size := snd (physical m)\<rparr>)
                         (mark_window_dirty win DIRTY_BORDER_WIDTH (set_win p enter_fullscreen c)))
                  else mark_window_dirty win DIRTY_BORDER_WIDTH (set_win p enter_fullscreen c)
      | None \<Rightarrow> mark_window_dirty win DIRTY_BORDER_WIDTH (set_win p enter_fullscreen c))"

lemma enter_settled:
  assumes ok: "core_ok c" and p: "window_index (wm c) win = Some p"
  shows "settled (win_at (snd (dispatch_SetWindowFullscreen win True pg c)) p) = settled (enter_fullscreen (win_at c p))"
proof -
  let ?w = "workspace_of_window (wm c) win" and ?c2 = "fullscreen_entered win pg p c"
  let ?c3 = "post EvRaiseDocks (arrange ?c2)"
  have id: "win_id (enter_fullscreen x) = win_id x" for x by (simp add: enter_fullscreen_def Let_def)
  let ?c1 = "mark_window_dirty win DIRTY_BORDER_WIDTH (set_win p enter_fullscreen c)"
  have s1: "steady c ?c1" by (rule steady_set_mark [OF id p])
  have p1: "window_index (wm ?c1) win = Some p" by (simp add: frame_simps p)
  have "steady ?c1 (mark_window_dirty win DIRTY_GEOMETRY (set_win p (\<lambda>x. x\<lparr>win_pos := fst (physical m), win_size := snd (physical m)\<rparr>) ?c1))"
    for m by (rule steady_set_mark [OF _ p1]) simp
  with s1 have "steady c ?c2" by (auto simp: fullscreen_entered_def intro: steady_trans split: option.splits)
  then have "steady c ?c3" by (blast intro: steady_more steady_trans steady_arrange)
  then have ok3: "core_ok ?c3" by (rule steady_core_ok [OF _ ok])
  have "settled (win_at ?c2 p) = settled (enter_fullscreen (win_at c p))"
    by (auto simp: fullscreen_entered_def split: option.splits)
  then have s3: "settled (win_at ?c3 p) = settled (enter_fullscreen (win_at c p))"
    using calm_settled [OF calm_arrange] by simp
  have r: "snd (dispatch_SetWindowFullscreen win True pg c) =
    (if ?w \<ge> 0 \<and> is_workspace_visible ?c3 ?w \<and> is_visible (win_at ?c3 p) then focus win ?c3
     else if ?w \<ge> 0 then evaluate_workspace_fullscreen ?w ?c3 else ?c3)"
    unfolding dispatch_SetWindowFullscreen_def with_window_def find_window_in_all_def p option.case snd_conv Let_def if_True
      fullscreen_entered_def ..
  show ?thesis
    unfolding r using s3 focus_settled [OF ok3] calm_settled [OF calm_evaluate] by simp
qed

lemma evaluate_geometry:
  assumes "\<not> is_fs (win_at c p)"
  shows "geometry (evaluate_workspace_fullscreen w c) p = geometry c p"
proof -
  have u: "heap (wm (update_ws_mode w c)) = heap (wm c)"
    by (auto simp: update_ws_mode_def Let_def set_ws_mode_def frame_simps)
  have low: "geometry (fold (lower_fullscreen f) ps d) p = geometry d p" for f ps d
    by (induction ps arbitrary: d) (simp_all add: lower_fullscreen_def Let_def)
  have pin: "geometry (pin_fullscreen_to_monitor q w d) p = geometry d p" if "q \<noteq> p" for q d
    using that by (auto simp: pin_fullscreen_to_monitor_def Let_def split: prod.splits)
  have gu: "geometry (update_ws_mode w c) p = geometry c p" by (simp add: geometry_def win_at_def u)
  have "q \<noteq> p" if "is_fs (win_at (update_ws_mode w c) q)" for q using that assms by (auto simp: win_at_def u)
  then show ?thesis
    by (auto simp: evaluate_workspace_fullscreen_def Let_def low pin gu split: option.splits)
qed

context layout_policy
begin

lemma leave_fullscreen:
  assumes ok: "core_ok c" and cfg: "1 \<le> nmaster (layout_cfg c)" and lay: "layouts c (active_layout c) = Some policy"
    and p: "window_index (wm c) win = Some p" and st: "floating (win_at c p)" "fullscreen (win_at c p)" "\<not> borderless (win_at c p)"
  shows "geometry (snd (dispatch_SetWindowFullscreen win False pg c)) p =
      (pos_before_fullscreen (win_at c p), size_before_fullscreen (win_at c p))"
    "\<not> fullscreen (win_at (snd (dispatch_SetWindowFullscreen win False pg c)) p)"
proof -
  define c1 where "c1 = mark_window_dirty win DIRTY_BORDER_WIDTH
    (set_win p (\<lambda>x. x\<lparr>fullscreen := False, border_width := border_before_fullscreen x\<rparr>) c)"
  define c2 where "c2 = mark_window_dirty win DIRTY_GEOMETRY
    (set_win p (\<lambda>x. x\<lparr>win_pos := pos_before_fullscreen x, win_size := size_before_fullscreen x\<rparr>) c1)"
  define c3 where "c3 = arrange c2"
  let ?w = "workspace_of_window (wm c) win"
  have r: "snd (dispatch_SetWindowFullscreen win False pg c) =
    post EvRaiseDocks (if ?w \<ge> 0 then evaluate_workspace_fullscreen ?w c3 else c3)"
    using p st by (simp add: dispatch_SetWindowFullscreen_def with_window_def find_window_in_all_def Let_def c1_def c2_def c3_def)
  have s1: "steady c c1" unfolding c1_def by (rule steady_set_mark [OF _ p]) simp
  have "window_index (wm c1) win = Some p" by (simp add: c1_def frame_simps p)
  then have "steady c1 c2" unfolding c2_def by (rule steady_set_mark [rotated]) simp
  with s1 have s2: "steady c c2" by (rule steady_trans)
  from windows_ok_indexD(2) [OF core_ok_windows [OF ok] p] obtain i where "located (wm c) i p" by blast
  then have loc: "located (wm c2) i p" by (simp add: c2_def c1_def located_def frame_simps)
  have w2: "win_at c2 p = (win_at c p)\<lparr>fullscreen := False, border_width := border_before_fullscreen (win_at c p),
      win_pos := pos_before_fullscreen (win_at c p), win_size := size_before_fullscreen (win_at c p)\<rparr>"
    by (simp add: c2_def c1_def)
  have "geometry c3 p = geometry c2 p" unfolding c3_def
    by (rule arrange_keeps [OF steady_core_ok [OF s2 ok] _ _ loc])
      (use s2 cfg lay st w2 in \<open>simp_all add: steady_def same_config_def\<close>)
  then have g3: "geometry c3 p = (pos_before_fullscreen (win_at c p), size_before_fullscreen (win_at c p))"
    by (simp add: geometry_def w2)
  have se: "settled (win_at c3 p) = settled (win_at c2 p)" unfolding c3_def by (rule calm_settled [OF calm_arrange])
  from settled_fields(14) [OF se] st w2 have nf: "\<not> is_fs (win_at c3 p)" by (simp add: is_fs_def)
  show "geometry (snd (dispatch_SetWindowFullscreen win False pg c)) p =
      (pos_before_fullscreen (win_at c p), size_before_fullscreen (win_at c p))"
    unfolding r using g3 evaluate_geometry [OF nf] by simp
  show "\<not> fullscreen (win_at (snd (dispatch_SetWindowFullscreen win False pg c)) p)"
    unfolding r using settled_fields(6) [OF calm_settled [OF calm_evaluate [of c3]], of _ p] settled_fields(6) [OF se] w2 by simp
qed

lemma fullscreen_round_trip:
  assumes inv: "core_inv c" and lay: "layouts c (active_layout c) = Some policy" and p: "window_index (wm c) win = Some p"
    and st: "floating (win_at c p)" "\<not> fullscreen (win_at c p)" "\<not> borderless (win_at c p)"
    and c1: "c1 = snd (dispatch_SetWindowFullscreen win True pg c)" and c2: "c2 = snd (dispatch_SetWindowFullscreen win False pg' c1)"
  shows "geometry c2 p = geometry c p" "fullscreen (win_at c1 p)" "\<not> fullscreen (win_at c2 p)"
proof -
  from inv have ok: "core_ok c" and cfg: "1 \<le> nmaster (layout_cfg c)" by (simp_all add: core_inv_def config_ok_def)
  have s: "steady c c1" unfolding c1 by (rule steady_SetWindowFullscreen)
  have se: "settled (win_at c1 p) = settled (enter_fullscreen (win_at c p))" unfolding c1 by (rule enter_settled [OF ok p])
  note f = settled_fields [OF se]
  show "fullscreen (win_at c1 p)" using f(6) by (simp add: enter_fullscreen_def Let_def)
  have "geometry c2 p = (pos_before_fullscreen (win_at c1 p), size_before_fullscreen (win_at c1 p))" "\<not> fullscreen (win_at c2 p)"
    unfolding c2 by (rule leave_fullscreen [OF steady_core_ok [OF s ok]];
        use s cfg lay p st f in \<open>simp add: steady_def same_config_def same_windows_def enter_fullscreen_def Let_def\<close>)+
  then show "geometry c2 p = geometry c p" "\<not> fullscreen (win_at c2 p)"
    using f(11,12) st(2) by (simp_all add: enter_fullscreen_def Let_def geometry_def)
qed

end

end
