(* ===== verification/Core_Properties.thy ===== *)
theory Core_Properties
  imports Core_Fullscreen Wsman_Properties
begin

text \<open>
  The properties of the core: what holds in every state the core can reach, and what the commands do,
  stated over the definitions of \<open>Core_State\<close> and \<open>Core_Dispatch\<close>.
\<close>

section \<open>Shared lemmas\<close>

definition managed_pointers :: "wsman \<Rightarrow> wptr list" where
  "managed_pointers s = concat (map (\<lambda>i. windows (workspaces s ! i)) [0..<length (workspaces s)])"

lemma all_ids_eq: "all_window_ids c = map (\<lambda>p. win_id (win_at c p)) (managed_pointers (wm c))"
proof -
  have "map windows (workspaces (wm c)) = map (\<lambda>i. windows (workspaces (wm c) ! i)) [0..<length (workspaces (wm c))]"
    by (rule nth_equalityI) simp_all
  then show ?thesis by (simp add: all_window_ids_def managed_pointers_def)
qed

lemma managed_located: "p \<in> set (managed_pointers s) \<longleftrightarrow> (\<exists>i. located s i p)"
  by (auto simp: managed_pointers_def located_def)

lemma all_ids_distinct:
  assumes ok: "windows_ok (wm c)"
  shows "distinct (all_window_ids c)"
proof -
  have "inj_on (\<lambda>p. win_id (win_at c p)) (set (managed_pointers (wm c)))"
  proof (rule inj_onI)
    fix p q assume "p \<in> set (managed_pointers (wm c))" "q \<in> set (managed_pointers (wm c))" "win_id (win_at c p) = win_id (win_at c q)"
    then obtain i j where "located (wm c) i p" "located (wm c) j q" "win_id (heap (wm c) p) = win_id (heap (wm c) q)"
      unfolding managed_located win_at_def by blast
    from located_unique [OF ok this] show "p = q" by simp
  qed
  with distinct_pointers [OF ok] show ?thesis by (simp add: all_ids_eq distinct_map managed_pointers_def)
qed

lemma all_ids_index:
  assumes ok: "windows_ok (wm c)"
  shows "set (all_window_ids c) = dom (window_index (wm c))"
proof (intro equalityI subsetI)
  fix win assume "win \<in> set (all_window_ids c)"
  then obtain p i where "located (wm c) i p" "win = win_id (heap (wm c) p)"
    by (auto simp: all_ids_eq managed_located win_at_def)
  with windows_okD(3) [OF ok] show "win \<in> dom (window_index (wm c))" by blast
next
  fix win assume "win \<in> dom (window_index (wm c))"
  then obtain p where "window_index (wm c) win = Some p" by blast
  from windows_ok_indexD [OF ok this] obtain i where "located (wm c) i p" "win_id (win_at c p) = win" by (auto simp: win_at_def)
  then show "win \<in> set (all_window_ids c)" using managed_located [of p "wm c"] by (auto simp: all_ids_eq)
qed

lemma reachable_windows: "core_reachable c \<Longrightarrow> windows_ok (wm c)"
  using core_reachable_inv by (simp add: core_inv_def core_ok_windows)

section \<open>Reachable states\<close>

text \<open>
  C1. In every state the core can reach, the consistency check that aborts a debug build holds: the two
  window indexes and the workspace lists describe the same windows, no window is on two workspaces, and
  no workspace is in two monitor pools.
\<close>

theorem reachable_consistent:
  assumes "core_reachable c"
  shows "indexes_consistent (wm c) \<and> (\<forall>win. window_is_unique_across_workspaces (wm c) win) \<and>
    monitor_workspace_pools_have_no_duplicates (wm c)"
proof -
  from core_reachable_inv [OF assms] have inv: "wsman_inv (wm c)" by (simp add: core_inv_def core_ok_def)
  with reachable_windows [OF assms] show ?thesis
    by (simp add: windows_ok_consistent windows_ok_unique pools_no_duplicates)
qed

theorem reachable_consistent_witness: "indexes_consistent (wm ex_core)"
  using reachable_consistent [OF ex_reachable(2)] by simp

text \<open>
  C2. Every command, of either layer, keeps the invariant of the core: a state of the workspace manager
  that satisfies its invariant with the cached active workspaces in step, flush masks only for managed
  windows, layout parameters in range and a registered active layout.
\<close>

theorem commands_preserve_invariant:
  assumes "core_inv c"
  shows "core_inv (snd (dispatch_atom a c)) \<and> core_inv (snd (dispatch_composite k c))"
  using core_inv_atom [OF assms] core_inv_composite [OF assms] by simp

theorem commands_preserve_invariant_witness: "core_inv (snd (dispatch_composite Zoom ex_core))"
  using commands_preserve_invariant [OF ex_inv(2)] by blast

section \<open>Focus\<close>

text \<open>
  C14. Focusing a managed visible window whose workspace is on a monitor makes it the focused window of
  the derived focus state: the monitor is the owner of its workspace, that workspace is the active one
  there, and the window is the one under its cursor.
\<close>

theorem focus_takes_focus:
  assumes "core_inv c" "window_index (wm c) win = Some p" "is_visible (win_at c p)"
    "window_workspace (wm c) win = Some w" "monitor_of (wm c) w \<ge> 0"
  shows "get_focus_state (wm (focus win c)) = \<lparr>fs_monitor = monitor_of (wm c) w, fs_ws_id = w, fs_window = win\<rparr>"
  using focus_takes [OF _ assms(2-5)] assms(1) by (simp add: core_inv_def)

theorem focus_takes_focus_witness:
  "get_focus_state (wm (focus 103 ex_core)) = \<lparr>fs_monitor = 1, fs_ws_id = 1, fs_window = 103\<rparr>"
proof -
  have "window_index (wm ex_core) 103 = Some 2" "is_visible (win_at ex_core 2)"
    "window_workspace (wm ex_core) 103 = Some 1" "monitor_of (wm ex_core) 1 = 1" by code_simp+
  then show ?thesis using focus_takes_focus [OF ex_inv(2), of 103 2 1] by simp
qed

text \<open>
  Whatever focus is asked for, exactly one focus request goes to the backend and, with a sink
  attached, exactly one \<open>FocusChanged\<close> event is posted, both naming the same target; it is \<open>NO_WINDOW\<close> or a managed
  visible window. After them come only stacking requests and dock raises.
\<close>

theorem focus_announced_once:
  assumes inv: "core_inv c" and sink: "sink_attached c"
  shows "\<exists>t ev ef. (t = NO_WINDOW \<or> (\<exists>p. window_index (wm c) t = Some p \<and> is_visible (win_at c p))) \<and>
    event_queue (focus win c) = event_queue c @ EvFocusChanged t # ev \<and> set ev \<subseteq> {EvRaiseDocks} \<and>
    pending_backend_effects (focus win c) = pending_backend_effects c @
      \<lparr>eff_kind = (if t = NO_WINDOW then EffFocusRoot else EffFocusWindow), eff_window = t, eff_pos = (0, 0)\<rparr> # ef \<and>
    (\<forall>e\<in>set ef. eff_kind e \<in> {EffUpdateWindow, EffRaiseWindow, EffLowerWindow})"
proof -
  from inv have ok: "core_ok c" by (simp add: core_inv_def)
  from focus_outputs [OF ok, of win] obtain ev ef where
    "event_queue (focus win c) = event_queue c @ EvFocusChanged (focus_target c win) # ev" "set ev \<subseteq> {EvRaiseDocks}"
    "pending_backend_effects (focus win c) = pending_backend_effects c @ focus_request (focus_target c win) # ef"
    "\<forall>e\<in>set ef. stacking_kind e" using sink by (auto simp: post_def)
  then show ?thesis
    using focus_target_cases [OF ok, of win]
    by (intro exI [of _ "focus_target c win"] exI [of _ ev] exI [of _ ef]) (simp add: focus_request_def stacking_kind_def)
qed

theorem focus_announced_once_witness: "\<exists>t ev. event_queue (focus 102 ex_core) = EvFocusChanged t # ev"
proof -
  have "sink_attached ex_core" "event_queue ex_core = []" by code_simp+
  then show ?thesis using focus_announced_once [OF ex_inv(2), of 102] by auto
qed

section \<open>Visibility\<close>

text \<open>
  What synchronising visibility does to a window on workspace \<open>i\<close>: it ends hidden by its workspace
  exactly when no monitor shows the workspace, and visible exactly when a monitor shows it, the window is
  not hidden explicitly, and it was mapped or hidden by its workspace before. The workspaces keep their
  windows, and a second pass changes nothing and sends nothing.
\<close>

theorem sync_visibility_pointwise:
  assumes inv: "core_inv c" and i: "i < length (workspaces (wm c))" and p: "p \<in> set (windows (workspaces (wm c) ! i))"
  shows "let c' = sync_workspace_visibility c; w = win_at c p; w' = win_at c' p; shown = is_workspace_visible c (int i) in
    hidden_by_workspace w' = (\<not> shown) \<and>
    is_visible w' = (shown \<and> \<not> hidden_explicitly w \<and> (mapped w \<or> hidden_by_workspace w)) \<and>
    map windows (workspaces (wm c')) = map windows (workspaces (wm c)) \<and> sync_workspace_visibility c' = c'"
proof -
  have ok: "windows_ok (wm c)" using inv by (simp add: core_inv_def core_ok_windows)
  have "located (wm c) i p" using i p by (simp add: located_def)
  then have "win_at (sync_workspace_visibility c) p = vis_window (is_workspace_visible c (int i)) (win_at c p)"
    using vis_heap_placed [OF ok] by (simp add: win_at_def sync_eq [OF ok] visible_iff_active)
  then show ?thesis
    using ok by (auto simp: Let_def sync_idempotent is_visible_def vis_window_def)
qed

theorem sync_visibility_pointwise_witness:
  "hidden_by_workspace (win_at (sync_workspace_visibility ex_core) 0) = False"
proof -
  have "0 < length (workspaces (wm ex_core))" "0 \<in> set (windows (workspaces (wm ex_core) ! 0))"
    "is_workspace_visible ex_core (int 0)" by code_simp+
  then show ?thesis using sync_visibility_pointwise [OF ex_inv(2), of 0 0] by (simp add: Let_def)
qed

text \<open>
  C12. After a successful change of the monitors, switch of a workspace or move of a window to a workspace, each window is
  hidden by its workspace exactly when no monitor shows that workspace.
\<close>

theorem workspace_commands_settle_visibility:
  assumes inv: "core_inv c" and cmd: "cmd = ApplyMonitorTopology mons \<or> cmd = SwitchWorkspace w mi \<or> cmd = MoveWindowToWorkspace win w"
    and fin: "dispatch_atom cmd c = (True, c')" and i: "i < length (workspaces (wm c'))" and p: "p \<in> set (windows (workspaces (wm c') ! i))"
  shows "hidden_by_workspace (win_at c' p) = (\<not> is_workspace_visible c' (int i))"
proof -
  from inv have ok: "core_ok c" by (simp add: core_inv_def)
  from cmd have "hiding_ok c'"
  proof (elim disjE)
    assume "cmd = MoveWindowToWorkspace win w"
    with fin have r: "dispatch_MoveWindowToWorkspace win w c = (True, c')" by simp
    then have "is_ws_valid (wm c) w" by (auto simp: dispatch_MoveWindowToWorkspace_def workspace_count_def is_ws_valid_def split: if_splits)
    moreover from r obtain q where "window_index (wm c) win = Some q"
      by (auto simp: dispatch_MoveWindowToWorkspace_def find_window_in_all_def split: if_splits option.splits)
    ultimately show "hiding_ok c'" using MoveWindowToWorkspace_spec(4) [OF ok _ _ r] by blast
  next
    assume "cmd = ApplyMonitorTopology mons"
    with fin ApplyMonitorTopology_hiding [OF ok, of mons] show "hiding_ok c'" by simp
  next
    assume "cmd = SwitchWorkspace w mi"
    with fin SwitchWorkspace_shows(2) [OF ok, of w mi] show "hiding_ok c'" by simp
  qed
  with i p show ?thesis by (simp add: hiding_ok_def)
qed

theorem workspace_commands_settle_visibility_witness:
  "hidden_by_workspace (win_at (snd (dispatch_atom (ApplyMonitorTopology []) ex_core)) 0)"
proof -
  let ?c = "snd (dispatch_atom (ApplyMonitorTopology []) ex_core)"
  have "0 < length (workspaces (wm ?c))" "0 \<in> set (windows (workspaces (wm ?c) ! 0))" "\<not> is_workspace_visible ?c (int 0)"
    by code_simp+
  then show ?thesis
    using workspace_commands_settle_visibility [OF ex_inv(2), of "ApplyMonitorTopology []" "[]" undefined undefined undefined ?c 0 0]
    by (simp add: dispatch_ApplyMonitorTopology_def)
qed

section \<open>Commands\<close>

text \<open>
  Switching to a workspace succeeds exactly when the workspace exists and there is a monitor. Then
  some monitor shows it, and the last event posted is its \<open>WorkspaceSwitched\<close>.
\<close>

theorem switch_workspace_shows:
  assumes inv: "core_inv c" and r: "dispatch_SwitchWorkspace w mi c = (ok, c')"
  shows "(ok \<longleftrightarrow> is_ws_valid (wm c) w \<and> monitors (wm c) \<noteq> []) \<and>
    (ok \<longrightarrow> is_workspace_visible c' w \<and> (sink_attached c \<longrightarrow> last (event_queue c') = EvWorkspaceSwitched w)) \<and>
    (\<not> ok \<longrightarrow> c' = c)"
proof -
  from inv have co: "core_ok c" by (simp add: core_inv_def)
  have "ok \<longleftrightarrow> is_ws_valid (wm c) w \<and> monitors (wm c) \<noteq> []" "\<not> ok \<Longrightarrow> c' = c"
    using r by (auto simp: dispatch_SwitchWorkspace_def Let_def switch_to_def split: if_splits prod.splits)
  moreover have "is_workspace_visible c' w \<and> (sink_attached c \<longrightarrow> last (event_queue c') = EvWorkspaceSwitched w)" if ok
    using SwitchWorkspace_shows [OF co, of w mi] r that by simp
  ultimately show ?thesis by blast
qed

theorem switch_workspace_shows_witness: "is_workspace_visible (snd (dispatch_SwitchWorkspace 2 None ex_core)) 2"
proof -
  have "is_ws_valid (wm ex_core) 2" "monitors (wm ex_core) \<noteq> []" by code_simp+
  then show ?thesis using switch_workspace_shows [OF ex_inv(2), of 2 None "fst (dispatch_SwitchWorkspace 2 None ex_core)"
    "snd (dispatch_SwitchWorkspace 2 None ex_core)"] by simp
qed

text \<open>
  C13. Moving a window to a workspace succeeds exactly when both exist. The window then belongs to that
  workspace, every other window stays on its own, and no window appears or disappears.
\<close>

theorem move_window_command:
  assumes inv: "core_inv c" and r: "dispatch_MoveWindowToWorkspace win w c = (ok, c')"
  shows "(ok \<longleftrightarrow> is_ws_valid (wm c) w \<and> window_index (wm c) win \<noteq> None) \<and>
    (ok \<longrightarrow> window_workspace (wm c') = (window_workspace (wm c))(win \<mapsto> w) \<and> window_index (wm c') = window_index (wm c)) \<and>
    (\<not> ok \<longrightarrow> c' = c)"
proof (cases "is_ws_valid (wm c) w \<and> window_index (wm c) win \<noteq> None")
  case True
  then obtain p where "window_index (wm c) win = Some p" by blast
  from MoveWindowToWorkspace_spec [OF _ this _ r] True inv show ?thesis by (simp add: core_inv_def)
next
  case False
  then have "dispatch_MoveWindowToWorkspace win w c = (False, c)"
    by (auto simp: dispatch_MoveWindowToWorkspace_def workspace_count_def is_ws_valid_def find_window_in_all_def)
  with r False show ?thesis by auto
qed

theorem move_window_command_witness:
  "window_workspace (wm (snd (dispatch_MoveWindowToWorkspace 101 3 ex_core))) = (window_workspace (wm ex_core))(101 \<mapsto> 3)"
proof -
  have "is_ws_valid (wm ex_core) 3" "window_index (wm ex_core) 101 = Some 0" by code_simp+
  then show ?thesis using move_window_command [OF ex_inv(2), of 101 3 "fst (dispatch_MoveWindowToWorkspace 101 3 ex_core)"
    "snd (dispatch_MoveWindowToWorkspace 101 3 ex_core)"] by simp
qed

text \<open>What the evaluation of the fullscreen mode leaves alone: windows that are not fullscreen, and pending changes.\<close>

definition flush_kept :: "window_flush option \<Rightarrow> window_flush option \<Rightarrow> bool" where
  "flush_kept f f' \<longleftrightarrow> (\<forall>x. f = Some x \<longrightarrow> (\<exists>y. f' = Some y \<and> dirty y OR dirty x = dirty y))"

lemma flush_kept_refl [simp]: "flush_kept f f"
  by (simp add: flush_kept_def)

lemma flush_kept_dirty: "flush_kept (pending_window_flushes c v) (pending_window_flushes (mark_window_dirty win bits c) v)"
proof -
  have "(a OR b) OR a = a OR b" for a b :: dirty_mask by (simp add: bit_eq_iff bit_or_iff) blast
  then show ?thesis by (auto simp: flush_kept_def mark_window_dirty_def ensure_window_flush_def)
qed

lemma evaluate_keeps:
  shows "flush_kept (pending_window_flushes c v) (pending_window_flushes (evaluate_workspace_fullscreen w c) v)"
    and "\<not> is_fs (win_at c q) \<Longrightarrow> win_at (evaluate_workspace_fullscreen w c) q = win_at c q"
proof -
  let ?u = "update_ws_mode w c"
  have u: "pending_window_flushes ?u = pending_window_flushes c" "heap (wm ?u) = heap (wm c)"
    by (auto simp: update_ws_mode_def Let_def set_ws_mode_def frame_simps)
  have l: "pending_window_flushes (fold (lower_fullscreen f) ps d) = pending_window_flushes d"
    "wm (fold (lower_fullscreen f) ps d) = wm d" for f ps d
    by (induction ps arbitrary: d) (auto simp: lower_fullscreen_def Let_def)
  have "flush_kept (pending_window_flushes d v) (pending_window_flushes (pin_fullscreen_to_monitor p w d) v)" for p d
    using flush_kept_dirty [of "set_win p _ d"] by (auto simp: pin_fullscreen_to_monitor_def Let_def split: prod.splits)
  then show "flush_kept (pending_window_flushes c v) (pending_window_flushes (evaluate_workspace_fullscreen w c) v)"
    by (auto simp: evaluate_workspace_fullscreen_def Let_def u l split: option.splits simp flip: u(1))
  have "heap (wm (pin_fullscreen_to_monitor p w d)) q = heap (wm d) q" if "p \<noteq> q" for p d
    using that by (auto simp: pin_fullscreen_to_monitor_def Let_def win_at_def upd_win_def split: prod.splits)
  moreover have "p \<noteq> q" if "is_fs (heap (wm c) p)" "\<not> is_fs (win_at c q)" for p using that by (auto simp: win_at_def)
  ultimately show "win_at (evaluate_workspace_fullscreen w c) q = win_at c q" if "\<not> is_fs (win_at c q)"
    using that by (auto simp: evaluate_workspace_fullscreen_def Let_def u l win_at_def split: option.splits)
qed

text \<open>
  C16. Removing a window forgets it everywhere: it is on no workspace, in no index, and has no flush pending. Every other
  window stays managed and on its workspace and loses none of its pending changes, and its state is unchanged unless it
  is fullscreen or borderless, in which case it may be fitted to its monitor again.
\<close>

theorem remove_window_forgets:
  assumes inv: "core_inv c" and c': "c' = snd (dispatch_RemoveWindowFromAllWorkspaces win c)"
  shows "window_index (wm c') = (window_index (wm c))(win := None) \<and>
    window_workspace (wm c') = (window_workspace (wm c))(win := None) \<and>
    win \<notin> set (all_window_ids c') \<and> set (all_window_ids c') = set (all_window_ids c) - {win} \<and>
    take_window_flush win c' = (None, c') \<and>
    (\<forall>v. v \<noteq> win \<longrightarrow> flush_kept (pending_window_flushes c v) (pending_window_flushes c' v)) \<and>
    (\<forall>q. \<not> is_fs (win_at c q) \<longrightarrow> win_at c' q = win_at c q)"
proof -
  from inv have ok: "core_ok c" and wi: "wsman_inv (wm c)" by (simp_all add: core_inv_def core_ok_def)
  let ?c1 = "upd_wm (remove_window_from_all win) c"
  let ?c2 = "?c1\<lparr>pending_window_flushes := (pending_window_flushes ?c1)(win := None)\<rparr>"
  have st: "steady ?c2 c'"
    by (auto simp: c' dispatch_RemoveWindowFromAllWorkspaces_def Let_def)
  from core_inv_Remove [OF inv, of win] c' have ok': "core_ok c'" by (simp add: core_inv_def)
  have ix: "window_index (wm c') = (window_index (wm c))(win := None)"
    using st remove_window_from_all_index [OF wi] by (simp add: steady_def same_windows_def upd_wm_def)
  have ws: "window_workspace (wm c') = (window_workspace (wm c))(win := None)"
    using st remove_window_from_all_workspace [OF wi] by (simp add: steady_def same_windows_def upd_wm_def)
  have ids: "set (all_window_ids c') = set (all_window_ids c) - {win}"
    using all_ids_index [OF core_ok_windows [OF ok]] all_ids_index [OF core_ok_windows [OF ok']] ix by auto
  have "pending_window_flushes c' win = None"
    using ok' ix by (auto simp: core_ok_def flush_ok_def) (metis fun_upd_same not_None_eq)
  moreover have "flush_kept (pending_window_flushes c v) (pending_window_flushes c' v)" if "v \<noteq> win" for v
    using that evaluate_keeps(1) [of ?c2 v] by (auto simp: c' dispatch_RemoveWindowFromAllWorkspaces_def Let_def)
  moreover have "win_at c' q = win_at c q" if "\<not> is_fs (win_at c q)" for q
  proof -
    have "win_at ?c2 q = win_at c q"
      by (simp add: win_at_def remove_window_from_all_def unindex_window_def take_from_all_def ws_take_def frame_simps split: option.splits)
    then show ?thesis using that evaluate_keeps(2) [of ?c2 q] by (auto simp: c' dispatch_RemoveWindowFromAllWorkspaces_def Let_def)
  qed
  ultimately show ?thesis using ix ws ids by (simp add: take_window_flush_def)
qed

theorem remove_window_forgets_witness:
  "101 \<notin> set (all_window_ids (snd (dispatch_RemoveWindowFromAllWorkspaces 101 ex_core)))"
  using remove_window_forgets [OF ex_inv(2) refl, of 101] by simp

text \<open>
  C15. Fullscreen on and off again gives a floating, non-borderless window back its position and size,
  for any active layout that keeps the layout interface. In between it is fullscreen.
\<close>

theorem fullscreen_restores_geometry:
  assumes "core_inv c" "layouts c (active_layout c) = Some f" "layout_policy f" "window_index (wm c) win = Some p"
    "floating (win_at c p)" "\<not> fullscreen (win_at c p)" "\<not> borderless (win_at c p)"
    "c1 = snd (dispatch_SetWindowFullscreen win True pg c)" "c2 = snd (dispatch_SetWindowFullscreen win False pg' c1)"
  shows "win_pos (win_at c2 p) = win_pos (win_at c p) \<and> win_size (win_at c2 p) = win_size (win_at c p) \<and>
    fullscreen (win_at c1 p) \<and> \<not> fullscreen (win_at c2 p)"
  using layout_policy.fullscreen_round_trip [OF assms(3,1,2,4-9)] by (simp add: geometry_def)

theorem fullscreen_restores_geometry_witness:
  "let c = snd (dispatch_atom (SetWindowGeometry 101 (10, 20) (300, 200)) (snd (dispatch_atom (SetWindowFloating 101 True) ex_core))) in
   win_pos (win_at (snd (dispatch_SetWindowFullscreen 101 False False (snd (dispatch_SetWindowFullscreen 101 True False c)))) 0) = (10, 20)"
proof -
  define c where "c = snd (dispatch_atom (SetWindowGeometry 101 (10, 20) (300, 200)) (snd (dispatch_atom (SetWindowFloating 101 True) ex_core)))"
  have inv: "core_inv c" unfolding c_def by (intro core_inv_atom ex_inv)
  have "layouts ex_core (active_layout ex_core) = Some tile" by (simp add: ex_core_code ex_boot_code)
  moreover have "window_index (wm ex_core) 101 = Some 0" "\<not> fullscreen (win_at ex_core 0)" "\<not> borderless (win_at ex_core 0)"
    by code_simp+
  ultimately have "window_index (wm c) 101 = Some 0" "floating (win_at c 0)" "\<not> fullscreen (win_at c 0)" "\<not> borderless (win_at c 0)"
    "layouts c (active_layout c) = Some tile" "win_pos (win_at c 0) = (10, 20)"
    by (simp_all add: c_def set_window_geometry_def dispatch_SetWindowFloating_def with_window_def find_window_in_all_def
        win_at_def frame_simps set_win_def upd_wm_def upd_win_def mark_window_dirty_def emit_backend_effect_def)
  with fullscreen_restores_geometry [OF inv _ tile_layout.layout_policy_axioms _ _ _ _ refl refl, of 101 0 False False]
  have "win_pos (win_at (snd (dispatch_SetWindowFullscreen 101 False False (snd (dispatch_SetWindowFullscreen 101 True False c)))) 0) = (10, 20)"
    by simp
  then show ?thesis unfolding c_def Let_def .
qed

text \<open>
  After the stacking of an existing workspace is evaluated, its mode is fullscreen exactly when it has
  a visible fullscreen or borderless window, and the focus state is as before.
\<close>

theorem fullscreen_mode_tracks_windows:
  assumes "is_ws_valid (wm c) w"
  shows "(ws_mode (workspaces (wm (evaluate_workspace_fullscreen w c)) ! nat w) = ModeFullscreen \<longleftrightarrow>
      has_fullscreen_window (heap (wm c)) (workspaces (wm c) ! nat w)) \<and>
    get_focus_state (wm (evaluate_workspace_fullscreen w c)) = get_focus_state (wm c)"
  using evaluate_mode [OF assms] calm_evaluate [of c w] same_view_focus_state by (simp add: calm_def)

theorem fullscreen_mode_tracks_windows_witness:
  "ws_mode (workspaces (wm (evaluate_workspace_fullscreen 0 ex_core)) ! 0) \<noteq> ModeFullscreen"
proof -
  have "is_ws_valid (wm ex_core) 0" "\<not> has_fullscreen_window (heap (wm ex_core)) (workspaces (wm ex_core) ! 0)" by code_simp+
  then show ?thesis using fullscreen_mode_tracks_windows [of ex_core 0] by simp
qed

end
