(* ===== verification/Core_Geometry.thy ===== *)
theory Core_Geometry
  imports Core_Properties
begin

text \<open>
  Properties of window geometry: size hints, pending flushes and configure notifications, reserved
  monitor areas, transient windows, and the tiling layout.
\<close>

section \<open>Size hints\<close>

lemma div_grid: "0 \<le> a \<Longrightarrow> 0 < inc \<Longrightarrow> 0 \<le> a div inc * inc \<and> a div inc * inc \<le> (a :: int)"
  by (simp add: minus_mod_eq_div_mult [symmetric] zmod_le_nonneg_dividend)

lemma sdiv_grid:
  fixes r b inc :: int
  assumes inc: "1 < inc"
  shows "b + ((r - b) sdiv inc) * inc \<le> max r b"
proof (cases "b \<le> r")
  case True
  then have "(r - b) sdiv inc = (r - b) div inc" using inc by (simp add: sdiv_int_nonneg)
  with div_grid [of "r - b" inc] True inc show ?thesis by simp
next
  case False
  then have "(r - b) sdiv inc = - ((b - r) div inc)" using inc by (simp add: signed_divide_int_def sgn_if)
  with div_grid [of "b - r" inc] False inc show ?thesis by simp
qed

definition hint_base :: "int \<Rightarrow> int \<Rightarrow> int" where
  "hint_base mn base = (if base > 0 then base else if mn > 0 then mn else 0)"

text \<open>The hints a client may set: sizes are not negative, and a maximum is not below the minimum or the base.\<close>

definition hints_sane :: "int \<Rightarrow> int \<Rightarrow> int \<Rightarrow> int \<Rightarrow> bool" where
  "hints_sane mn mx inc base \<longleftrightarrow> 0 \<le> mn \<and> 0 \<le> mx \<and> 0 \<le> inc \<and> 0 \<le> base \<and> (mx > 0 \<longrightarrow> mn \<le> mx \<and> base \<le> mx)"

lemma apply_hint_bounds:
  assumes "hints_sane mn mx inc base"
  shows "0 < mn \<longrightarrow> mn \<le> apply_hint mn mx inc base req" "0 < mx \<longrightarrow> apply_hint mn mx inc base req \<le> mx"
proof -
  define r2 where "r2 = (let r1 = (if mn > 0 then max req mn else req) in if mx > 0 then min r1 mx else r1)"
  have r2: "0 < mx \<Longrightarrow> r2 \<le> mx" "0 < mn \<Longrightarrow> mn \<le> r2" using assms by (auto simp: r2_def hints_sane_def Let_def)
  have e: "apply_hint mn mx inc base req =
    (if inc > 1 then (let b = hint_base mn base; r3 = b + ((r2 - b) sdiv inc) * inc in if mn > 0 then max r3 mn else r3) else r2)"
    by (simp add: apply_hint_def r2_def hint_base_def Let_def)
  show "0 < mn \<longrightarrow> mn \<le> apply_hint mn mx inc base req" using r2 by (auto simp: e Let_def)
  have b: "0 < mx \<Longrightarrow> hint_base mn base \<le> mx" using assms by (auto simp: hint_base_def hints_sane_def)
  show "0 < mx \<longrightarrow> apply_hint mn mx inc base req \<le> mx"
  proof (cases "1 < inc \<and> 0 < mx")
    case True
    then have "hint_base mn base + ((r2 - hint_base mn base) sdiv inc) * inc \<le> mx"
      using sdiv_grid [of inc "hint_base mn base" r2] r2(1) b by simp
    then show ?thesis using True assms by (auto simp: e Let_def hints_sane_def)
  qed (use r2 in \<open>auto simp: e\<close>)
qed

lemma apply_hint_grid:
  assumes "1 < inc"
  shows "apply_hint mn mx inc base req = mn \<and> 0 < mn \<or> inc dvd (apply_hint mn mx inc base req - hint_base mn base)"
  using assms by (auto simp: apply_hint_def hint_base_def Let_def max_def)

text \<open>
  Size hints, for sane hints in each dimension: the size stays between the minimum and the maximum
  the client set, and with a resize increment it is the base size plus a whole number of increments or
  exactly the minimum.
\<close>

theorem size_hints_respected:
  assumes "hints_sane (fst (size_min w)) (fst (size_max w)) (fst (size_inc w)) (fst (size_base w))"
    "hints_sane (snd (size_min w)) (snd (size_max w)) (snd (size_inc w)) (snd (size_base w))"
  shows "(0 < fst (size_min w) \<longrightarrow> fst (size_min w) \<le> fst (apply_size_hints w req)) \<and>
    (0 < snd (size_min w) \<longrightarrow> snd (size_min w) \<le> snd (apply_size_hints w req)) \<and>
    (0 < fst (size_max w) \<longrightarrow> fst (apply_size_hints w req) \<le> fst (size_max w)) \<and>
    (0 < snd (size_max w) \<longrightarrow> snd (apply_size_hints w req) \<le> snd (size_max w)) \<and>
    (1 < fst (size_inc w) \<longrightarrow> fst (apply_size_hints w req) = fst (size_min w) \<or>
       fst (size_inc w) dvd (fst (apply_size_hints w req) - hint_base (fst (size_min w)) (fst (size_base w)))) \<and>
    (1 < snd (size_inc w) \<longrightarrow> snd (apply_size_hints w req) = snd (size_min w) \<or>
       snd (size_inc w) dvd (snd (apply_size_hints w req) - hint_base (snd (size_min w)) (snd (size_base w))))"
  unfolding apply_size_hints_def fst_conv snd_conv
  using apply_hint_bounds [OF assms(1), of "fst req"] apply_hint_bounds [OF assms(2), of "snd req"]
    apply_hint_grid [of "fst (size_inc w)"] apply_hint_grid [of "snd (size_inc w)"] by blast

theorem size_hints_respected_witness:
  "let w = (mk_window 7)\<lparr>size_min := (100, 50), size_max := (800, 600), size_inc := (9, 18), size_base := (4, 4)\<rparr> in
   100 \<le> fst (apply_size_hints w (20, 1000)) \<and> snd (apply_size_hints w (20, 1000)) \<le> 600"
proof -
  define w where "w = (mk_window 7)\<lparr>size_min := (100, 50), size_max := (800, 600), size_inc := (9, 18), size_base := (4, 4)\<rparr>"
  have "hints_sane (fst (size_min w)) (fst (size_max w)) (fst (size_inc w)) (fst (size_base w))"
    "hints_sane (snd (size_min w)) (snd (size_max w)) (snd (size_inc w)) (snd (size_base w))"
    by (simp_all add: w_def hints_sane_def)
  from size_hints_respected [OF this, of "(20, 1000)"] show ?thesis by (simp add: w_def [symmetric] Let_def) (simp add: w_def)
qed

section \<open>Flushes and notifications\<close>

lemma dirty_bits:
  "DIRTY_POSITION OR DIRTY_SIZE = DIRTY_GEOMETRY" "DIRTY_POSITION AND DIRTY_X = DIRTY_X" "DIRTY_POSITION AND DIRTY_Y = DIRTY_Y"
  "DIRTY_X \<noteq> 0" "DIRTY_Y \<noteq> 0" "DIRTY_GEOMETRY \<noteq> 0" "DIRTY_POSITION \<noteq> 0"
  by (simp_all add: dirty_defs)

lemma mark_flush:
  "pending_window_flushes (mark_window_dirty win bits c) win =
     Some \<lparr>flush_window = win, dirty = dirty (ensure_window_flush win c) OR bits\<rparr>"
  "v \<noteq> win \<Longrightarrow> pending_window_flushes (mark_window_dirty win bits c) v = pending_window_flushes c v"
  by (simp_all add: mark_window_dirty_def emit_backend_effect_def ensure_window_flush_def split: option.splits)

lemma or_absorb: "(a OR b) AND b = (b :: 'a :: len word)"
  by (simp add: bit_eq_iff bit_simps)

lemma or_nonzero: "(b :: 'a :: len word) \<noteq> 0 \<Longrightarrow> a OR b \<noteq> 0"
  by (metis or_absorb and_zero_eq and.commute)

text \<open>
  Changes of a window collect in one flush: after its position and then its size were set, the next
  flush of the window carries all four geometry bits besides what was pending, the flushes of other
  windows are as before, and the flush is handed out once.
\<close>

theorem flush_collects_changes:
  assumes p: "window_index (wm c) win = Some p"
    and c': "c' = snd (set_window_size win sz (snd (set_window_position win pos c)))"
  shows "\<exists>d. fst (take_window_flush win c') = Some \<lparr>flush_window = win, dirty = d\<rparr> \<and> d AND DIRTY_GEOMETRY = DIRTY_GEOMETRY \<and>
    dirty (ensure_window_flush win c) OR d = d \<and>
    take_window_flush win (snd (take_window_flush win c')) = (None, snd (take_window_flush win c')) \<and>
    (\<forall>v. v \<noteq> win \<longrightarrow> fst (take_window_flush v (snd (take_window_flush win c'))) = fst (take_window_flush v c))"
proof -
  let ?old = "dirty (ensure_window_flush win c)"
  have f: "pending_window_flushes c' win = Some \<lparr>flush_window = win, dirty = ?old OR DIRTY_GEOMETRY\<rparr>"
    and o: "v \<noteq> win \<Longrightarrow> pending_window_flushes c' v = pending_window_flushes c v" for v
    using p by (simp_all add: c' set_window_size_def set_window_position_def with_window_def find_window_in_all_def frame_simps
        mark_flush ensure_window_flush_def or.assoc dirty_bits)
  have "?old OR DIRTY_GEOMETRY \<noteq> 0" by (rule or_nonzero) (rule dirty_bits)
  then show ?thesis
    using o by (intro exI [of _ "?old OR DIRTY_GEOMETRY"]) (simp add: take_window_flush_def f has_config_changes_def or_absorb split: option.splits)
qed

theorem flush_collects_changes_witness:
  "\<exists>d. fst (take_window_flush 101 (snd (set_window_size 101 (5, 6) (snd (set_window_position 101 (7, 8) ex_core))))) =
     Some \<lparr>flush_window = 101, dirty = d\<rparr> \<and> d AND DIRTY_GEOMETRY = DIRTY_GEOMETRY"
proof -
  have "window_index (wm ex_core) 101 = Some 0" by code_simp
  from flush_collects_changes [OF this refl, of "(5, 6)" "(7, 8)"] show ?thesis by blast
qed

text \<open>
  A position the window manager has set but not flushed is not overwritten by a configure
  notification, which may report an older request; once it is flushed, the next notification is taken
  over in every field.
\<close>

theorem configure_notify_keeps_pending:
  assumes p: "window_index (wm c) win = Some p"
    and c1: "c1 = snd (set_window_position win pos c)" and c2: "c2 = snd (sync_window_from_configure_notify win pos' sz' b' c1)"
    and c3: "c3 = snd (sync_window_from_configure_notify win pos' sz' b' (snd (take_window_flush win c2)))"
  shows "win_pos (win_at c2 p) = pos \<and>
    win_pos (win_at c3 p) = pos' \<and> win_size (win_at c3 p) = sz' \<and> border_width (win_at c3 p) = b'"
proof -
  let ?old = "dirty (ensure_window_flush win c)"
  have w1: "win_pos (win_at c1 p) = pos" and p1: "window_index (wm c1) win = Some p"
    and f1: "pending_window_flushes c1 win = Some \<lparr>flush_window = win, dirty = ?old OR DIRTY_POSITION\<rparr>"
    using p by (simp_all add: c1 set_window_position_def with_window_def find_window_in_all_def frame_simps mark_flush
        ensure_window_flush_def)
  have "(?old OR DIRTY_POSITION) AND DIRTY_X \<noteq> 0" "(?old OR DIRTY_POSITION) AND DIRTY_Y \<noteq> 0"
    by (simp_all add: bit.conj_disj_distrib2 dirty_bits or_nonzero)
  then have "\<not> field_free DIRTY_X win c1" "\<not> field_free DIRTY_Y win c1" by (simp_all add: field_free_def f1)
  then have w2: "win_pos (win_at c2 p) = pos"
    using p1 w1 by (simp add: c2 sync_window_from_configure_notify_def with_window_def find_window_in_all_def)
  have p2: "window_index (wm c2) win = Some p"
    using p1 by (simp add: c2 sync_window_from_configure_notify_def with_window_def find_window_in_all_def frame_simps)
  let ?d = "snd (take_window_flush win c2)"
  have "pending_window_flushes ?d win = None" "wm ?d = wm c2" by (auto simp: take_window_flush_def split: option.splits)
  then have "win_pos (win_at c3 p) = pos'" "win_size (win_at c3 p) = sz'" "border_width (win_at c3 p) = b'"
    using p2 by (simp_all add: c3 sync_window_from_configure_notify_def with_window_def find_window_in_all_def field_free_def)
  with w2 show ?thesis by simp
qed

theorem configure_notify_keeps_pending_witness:
  "win_pos (win_at (snd (sync_window_from_configure_notify 101 (0, 0) (640, 480) 1 (snd (set_window_position 101 (7, 8) ex_core)))) 0) = (7, 8)"
proof -
  have "window_index (wm ex_core) 101 = Some 0" by code_simp
  from configure_notify_keeps_pending [OF this refl refl refl] show ?thesis by blast
qed

section \<open>Reserved areas\<close>

definition reserved :: "monitor_edge \<Rightarrow> int \<Rightarrow> monitor \<Rightarrow> monitor" where
  "reserved e px mon = (if px = inset mon e then mon else adjust_inset e (px - inset mon e) mon)"

lemma reserve_monitor:
  assumes "is_mon_valid (wm c) m"
  shows "monitors (wm (snd (dispatch_ReserveMonitorArea m e px c))) =
    (monitors (wm c))[nat m := reserved e px (monitors (wm c) ! nat m)]"
  using assms
  by (simp add: dispatch_ReserveMonitorArea_def reserve_one_def Let_def reserved_def is_mon_valid_def adjust_monitor_inset_def)

lemma reserved_props:
  assumes "reservable e px mon"
  shows "inset (reserved e px mon) e = px" "physical (reserved e px mon) = physical mon"
    "inset mon e = 0 \<Longrightarrow> reserved e 0 (reserved e px mon) = mon"
proof -
  show "inset (reserved e px mon) e = px" by (simp add: reserved_def adjust_inset_sets)
  show "physical (reserved e px mon) = physical mon" using assms by (simp add: reserved_def physical_adjust_inset)
  assume "inset mon e = 0"
  then show "reserved e 0 (reserved e px mon) = mon"
    using assms by (cases e) (auto simp: reserved_def reservable_def intro!: monitor.equality)
qed

text \<open>
  Reserving an area that fits: the monitor's inset at that edge becomes the amount asked for, its
  physical rectangle stays the same, and no other monitor changes. On an edge without a reservation,
  releasing it again gives all monitors back as they were.
\<close>

theorem reserve_area_keeps_physical:
  assumes m: "is_mon_valid (wm c) m" and fits: "reservable e px (monitors (wm c) ! nat m)"
    and c1: "c1 = snd (dispatch_ReserveMonitorArea m e px c)" and c2: "c2 = snd (dispatch_ReserveMonitorArea m e 0 c1)"
  shows "inset (monitors (wm c1) ! nat m) e = px \<and>
    map physical (monitors (wm c1)) = map physical (monitors (wm c)) \<and>
    (\<forall>j. j \<noteq> nat m \<longrightarrow> monitors (wm c1) ! j = monitors (wm c) ! j) \<and>
    (inset (monitors (wm c) ! nat m) e = 0 \<longrightarrow> monitors (wm c2) = monitors (wm c))"
proof -
  note r1 = reserve_monitor [OF m, of e px, folded c1]
  have n: "nat m < length (monitors (wm c))" using m by (auto simp: is_mon_valid_def)
  have m1: "is_mon_valid (wm c1) m" using m r1 by (simp add: is_mon_valid_def)
  note r2 = reserve_monitor [OF m1, of e 0, folded c2]
  have "map physical (monitors (wm c1)) = map physical (monitors (wm c))"
    by (rule nth_equalityI) (use r1 n reserved_props(2) [OF fits] in \<open>auto simp: nth_list_update\<close>)
  moreover have "monitors (wm c2) = monitors (wm c)" if "inset (monitors (wm c) ! nat m) e = 0"
    using r1 r2 n reserved_props(3) [OF fits that] by simp
  ultimately show ?thesis using r1 n reserved_props(1) [OF fits] by simp
qed

theorem reserve_area_keeps_physical_witness:
  "monitors (wm (snd (dispatch_ReserveMonitorArea 0 EdgeTop 0 (snd (dispatch_ReserveMonitorArea 0 EdgeTop 24 ex_core))))) = monitors (wm ex_core)"
proof -
  have "is_mon_valid (wm ex_core) 0" "reservable EdgeTop 24 (monitors (wm ex_core) ! nat 0)" "inset (monitors (wm ex_core) ! nat 0) EdgeTop = 0"
    by code_simp+
  then show ?thesis using reserve_area_keeps_physical [OF _ _ refl refl, of ex_core 0 EdgeTop 24] by blast
qed

section \<open>Transient windows\<close>

lemma handler_simps:
  assumes "window_index (wm c) win = Some p"
  shows "snd (dispatch_SetWindowFloating win b c) = set_win p (\<lambda>x. x\<lparr>floating := b\<rparr>) c"
    "snd (dispatch_SetWindowSuppressFocusOnce win b c) = set_win p (\<lambda>x. x\<lparr>suppress_focus_once := b\<rparr>) c"
    "snd (dispatch_AssignWindowWorkspace win w c) = post (EvWindowAssignedToWorkspace win w) (upd_wm (move_window_to w p) c)"
  using assms by (simp_all add: dispatch_SetWindowFloating_def dispatch_SetWindowSuppressFocusOnce_def
      dispatch_AssignWindowWorkspace_def with_window_def find_window_in_all_def)

lemma move_keeps_heap: "heap (move_window_to w p s) = heap s"
  by (simp add: move_window_to_def Let_def frame_simps take_from_all_def split: option.splits)

lemma route_transient_spec:
  assumes ok: "core_ok c" and p: "window_index (wm c) win = Some p" and par: "window_index (wm c) parent = Some q"
    and w: "window_workspace (wm c) parent = Some w"
  shows "window_workspace (wm (route_transient win parent p c)) = (window_workspace (wm c))(win \<mapsto> w)"
    "window_index (wm (route_transient win parent p c)) = window_index (wm c)"
    "floating (win_at (route_transient win parent p c) p)" "suppress_focus_once (win_at (route_transient win parent p c) p)"
proof -
  from ok have inv: "wsman_inv (wm c)" by (simp add: core_ok_def)
  note wv = windows_ok_workspaceD [OF core_ok_windows [OF ok] w]
  have ne: "parent \<noteq> NO_WINDOW" using indexed_pointer(3) [OF inv par] .
  have pw: "workspace_of_window (wm c) parent = w" "0 \<le> w" using wv ne w by (auto simp: workspace_of_window_def)
  let ?c1 = "set_win p (\<lambda>x. x\<lparr>suppress_focus_once := True\<rparr>) c"
  have inv1: "wsman_inv (wm ?c1)" using inv by (simp add: wsman_inv_upd_win)
  have p1: "window_index (wm ?c1) win = Some p" and v1: "is_ws_valid (wm ?c1) w" using p wv by (auto simp: frame_simps)
  let ?c2 = "post (EvWindowAssignedToWorkspace win w) (upd_wm (move_window_to w p) ?c1)"
  have c2: "window_workspace (wm ?c2) = (window_workspace (wm c))(win \<mapsto> w)" "window_index (wm ?c2) = window_index (wm c)"
    "suppress_focus_once (win_at ?c2 p)"
    using move_window_to_workspace(1) [OF inv1 p1 v1] move_window_to_index [OF inv1 p1, of w]
    by (simp_all add: frame_simps win_at_def move_keeps_heap upd_win_def)
  have r: "route_transient win parent p c = (if floating (win_at ?c2 p) then ?c2 else set_win p (\<lambda>x. x\<lparr>floating := True\<rparr>) ?c2)"
    using ne pw c2(2) p by (simp add: route_transient_def handler_simps [OF p] handler_simps [OF p1] handler_simps(1) [of ?c2 win p] Let_def)
  show "window_workspace (wm (route_transient win parent p c)) = (window_workspace (wm c))(win \<mapsto> w)"
    "window_index (wm (route_transient win parent p c)) = window_index (wm c)"
    "floating (win_at (route_transient win parent p c) p)" "suppress_focus_once (win_at (route_transient win parent p c) p)"
    using c2 by (simp_all add: r frame_simps)
qed

lemma floating_once:
  assumes "window_index (wm c) win = Some p"
  shows "window_workspace (wm (snd (dispatch_SetWindowFloating win True c))) = window_workspace (wm c)"
    "floating (win_at (snd (dispatch_SetWindowFloating win True c)) p)"
    "suppress_focus_once (win_at (snd (dispatch_SetWindowFloating win True c)) p) = suppress_focus_once (win_at c p)"
  using assms by (simp_all add: handler_simps [OF assms] frame_simps)

text \<open>
  Metadata that names a managed window as the parent: the window goes to the parent's workspace,
  floats, and will not take the focus when it is mapped; every other window stays where it is.
\<close>

theorem transient_follows_parent:
  assumes inv: "core_inv c" and p: "window_index (wm c) (md_window md) = Some p"
    and par: "window_index (wm c) (md_transient_for md) = Some q" and w: "window_workspace (wm c) (md_transient_for md) = Some w"
    and c': "c' = snd (dispatch_SetWindowMetadata md c)"
  shows "window_workspace (wm c') = (window_workspace (wm c))(md_window md \<mapsto> w) \<and>
    floating (win_at c' p) \<and> suppress_focus_once (win_at c' p)"
proof -
  let ?c0 = "set_win p (apply_metadata md) c"
  have "steady c ?c0" by (rule steady_set_win) (simp add: apply_metadata_def Let_def)
  with inv have ok0: "core_ok ?c0" by (auto simp: core_inv_def intro: steady_core_ok)
  have f0: "window_index (wm ?c0) = window_index (wm c)" "window_workspace (wm ?c0) = window_workspace (wm c)" by (simp_all add: frame_simps)
  define c1 where "c1 = route_transient (md_window md) (md_transient_for md) p ?c0"
  note r = route_transient_spec [OF ok0, of "md_window md" p "md_transient_for md" q w, unfolded f0, OF p par w, folded c1_def]
  have "c' = c1"
    using r(3) p by (simp add: c' dispatch_SetWindowMetadata_def with_window_def find_window_in_all_def Let_def c1_def)
  with r show ?thesis by simp
qed

definition ex_hints :: window_hints where
  "ex_hints = \<lparr>no_decorations = False, fixed_size = False, never_focus = False, hint_urgent = False, static_gravity = False,
     covers_monitor = False, pre_fullscreen = False, is_xembed = False, hint_size_min = (0, 0), hint_size_max = (0, 0),
     hint_size_inc = (0, 0), hint_size_base = (0, 0)\<rparr>"

theorem transient_follows_parent_witness:
  "let c' = snd (dispatch_SetWindowMetadata \<lparr>md_window = 101, md_wm_instance = [], md_wm_class = [], md_title = [], md_pid = 0,
     md_type = TDialog, md_hints = ex_hints, md_transient_for = 103\<rparr> ex_core)
   in window_workspace (wm c') 101 = Some 1 \<and> floating (win_at c' 0)"
proof -
  have "window_index (wm ex_core) 101 = Some 0" "window_index (wm ex_core) 103 = Some 2" "window_workspace (wm ex_core) 103 = Some 1"
    by code_simp+
  then show ?thesis
    using transient_follows_parent [OF ex_inv(2), of "\<lparr>md_window = 101, md_wm_instance = [], md_wm_class = [], md_title = [], md_pid = 0,
     md_type = TDialog, md_hints = ex_hints, md_transient_for = 103\<rparr>" 0 2 1 _] by (simp add: Let_def)
qed

section \<open>Layouts\<close>

text \<open>
  C21. The tiling layout, when the monitor has room for the windows (every one keeps at least one pixel
  inside its border): it places every window once and in order, every window with its border lies inside the usable area less the gap, and two windows are at
  least a gap apart.
\<close>

theorem tile_partitions_area:
  assumes "tile_room (length wins) mon cfg"
  shows "map fst (tile wins mon cfg) = wins \<and>
    (\<forall>pl\<in>set (tile wins mon cfg). inside (outer (cfg_border cfg) pl) (tile_area mon cfg)) \<and>
    (\<forall>i j. i < j \<and> j < length wins \<longrightarrow>
       apart (cfg_gap cfg) (outer (cfg_border cfg) (tile wins mon cfg ! i)) (outer (cfg_border cfg) (tile wins mon cfg ! j)))"
proof -
  have "1 \<le> nmaster cfg" using assms by (simp add: tile_room_def Let_def case_prod_unfold)
  with tile_wins tile_inside_area [OF assms] tile_apart [OF assms] show ?thesis by fastforce
qed

theorem tile_partitions_area_witness:
  "map fst (tile [101, 102, 103] (mk_monitor 0 ''A'' 0 0 1920 1080) \<lparr>master_factor = 1 / 2, nmaster = 1, cfg_gap = 4, cfg_border = 2\<rparr>) = [101, 102, 103]"
proof -
  have "tile_room (length [101 :: window_id, 102, 103]) (mk_monitor 0 ''A'' 0 0 1920 1080) \<lparr>master_factor = 1 / 2, nmaster = 1, cfg_gap = 4, cfg_border = 2\<rparr>"
    by code_simp
  from tile_partitions_area [OF this] show ?thesis by blast
qed

text \<open>
  In every reachable state the master count is at least one, the master factor is between the two
  binary32 numbers nearest to 0.1 and 0.9, and the active layout is one of the built-in table.
\<close>

theorem layout_parameters_bounded:
  assumes "core_reachable c"
  shows "1 \<le> nmaster (layout_cfg c) \<and> f32_round (1 / 10) \<le> master_factor (layout_cfg c) \<and>
    master_factor (layout_cfg c) \<le> f32_round (9 / 10) \<and> layouts c (active_layout c) \<noteq> None"
  using core_reachable_inv [OF assms] by (simp add: core_inv_def config_ok_def f32_lo_def f32_hi_def)

theorem layout_parameters_bounded_witness: "1 \<le> nmaster (layout_cfg ex_core)"
  using layout_parameters_bounded [OF ex_reachable(2)] by blast

text \<open>Arranging with a built-in layout does not look at the Lua layouts.\<close>

lemma commute_lua_prims:
  "emit_backend_effect k win (c\<lparr>lua_layouts := g\<rparr>) = (emit_backend_effect k win c)\<lparr>lua_layouts := g\<rparr>"
  "mark_window_dirty win bits (c\<lparr>lua_layouts := g\<rparr>) = (mark_window_dirty win bits c)\<lparr>lua_layouts := g\<rparr>"
  "set_win p f (c\<lparr>lua_layouts := g\<rparr>) = (set_win p f c)\<lparr>lua_layouts := g\<rparr>"
  by (simp_all add: mark_window_dirty_def emit_backend_effect_def ensure_window_flush_def set_win_def upd_wm_def)

lemma commute_lua_geometry:
  "snd (set_window_geometry win pos sz (c\<lparr>lua_layouts := g\<rparr>)) = (snd (set_window_geometry win pos sz c))\<lparr>lua_layouts := g\<rparr>"
  "snd (set_window_border_width win b (c\<lparr>lua_layouts := g\<rparr>)) = (snd (set_window_border_width win b c))\<lparr>lua_layouts := g\<rparr>"
  by (cases "find_window_in_all (wm c) win";
      simp add: set_window_geometry_def set_window_border_width_def with_window_def commute_lua_prims)+

lemma commute_lua:
  "place pl (c\<lparr>lua_layouts := g\<rparr>) = (place pl c)\<lparr>lua_layouts := g\<rparr>"
  "border_floating q (c\<lparr>lua_layouts := g\<rparr>) = (border_floating q c)\<lparr>lua_layouts := g\<rparr>"
proof -
  have e: "wm (c\<lparr>lua_layouts := g\<rparr>) = wm c" "win_at (c\<lparr>lua_layouts := g\<rparr>) = win_at c" "theme_border (c\<lparr>lua_layouts := g\<rparr>) = theme_border c"
    by (simp_all add: win_at_def theme_border_def fun_eq_iff)
  show "place pl (c\<lparr>lua_layouts := g\<rparr>) = (place pl c)\<lparr>lua_layouts := g\<rparr>"
    unfolding place_def Let_def e commute_lua_geometry commute_lua_prims case_prod_unfold ..
  show "border_floating q (c\<lparr>lua_layouts := g\<rparr>) = (border_floating q c)\<lparr>lua_layouts := g\<rparr>"
    unfolding border_floating_def Let_def e commute_lua_geometry commute_lua_prims by (simp only: if_distrib [of "lua_layouts_update _"])
qed

lemma fold_commute_lua:
  "(\<And>x c. f x (c\<lparr>lua_layouts := g\<rparr>) = (f x c)\<lparr>lua_layouts := g\<rparr>) \<Longrightarrow>
   fold f xs (c\<lparr>lua_layouts := g\<rparr>) = (fold f xs c)\<lparr>lua_layouts := g\<rparr>"
  by (induction xs arbitrary: c) simp_all

lemma arrange_monitor_commute_lua:
  assumes "layouts c (active_layout c) = Some f"
  shows "arrange_monitor mon (c\<lparr>lua_layouts := g\<rparr>) = (arrange_monitor mon c)\<lparr>lua_layouts := g\<rparr>"
proof -
  let ?d = "c\<lparr>lua_layouts := g\<rparr>"
  have e: "tiled_windows ?d ws = tiled_windows c ws" "arrange_config ?d = arrange_config c" "wm ?d = wm c"
    "layouts ?d (active_layout ?d) = Some f" for ws
    using assms by (simp_all add: tiled_windows_def arrange_config_def win_at_def)
  have "fold border_floating qs (fold place pls ?d) = (fold border_floating qs (fold place pls c))\<lparr>lua_layouts := g\<rparr>" for qs pls
    by (simp only: fold_commute_lua [of place, OF commute_lua(1)] fold_commute_lua [of border_floating, OF commute_lua(2)])
  then show ?thesis
    by (cases "active_ws mon < 0") (simp_all only: arrange_monitor_def Let_def e assms option.case if_True if_False simp_thms)
qed

lemma arrange_commute_lua:
  assumes "layouts c (active_layout c) = Some f"
  shows "arrange (c\<lparr>lua_layouts := g\<rparr>) = (arrange c)\<lparr>lua_layouts := g\<rparr>"
proof -
  have "fold arrange_monitor mons (d\<lparr>lua_layouts := g\<rparr>) = (fold arrange_monitor mons d)\<lparr>lua_layouts := g\<rparr>"
    if "layouts d (active_layout d) = Some f" for mons d
    using that
  proof (induction mons arbitrary: d)
    case (Cons mon mons)
    have "layouts (arrange_monitor mon d) (active_layout (arrange_monitor mon d)) = Some f"
      using steady_arrange_monitor [of d mon] Cons.prems by (simp add: steady_def same_config_def)
    from Cons.IH [OF this] arrange_monitor_commute_lua [OF Cons.prems] show ?case by simp
  qed simp
  with assms show ?thesis by (simp add: arrange_def)
qed

text \<open>
  C30. A layout registered from Lua under a name of its own is never used: the command that selects a
  layout refuses the name, the name is not the active one in any reachable state, and arranging gives the
  same windows and requests whatever Lua layouts are registered.
\<close>

theorem lua_layouts_never_used:
  assumes r: "core_reachable c" and n: "layouts c name = None"
  shows "dispatch_SetLayout name c = (False, c) \<and> active_layout c \<noteq> name \<and>
    wm (arrange (register_lua_layout name f c)) = wm (arrange c) \<and>
    pending_backend_effects (arrange (register_lua_layout name f c)) = pending_backend_effects (arrange c)"
proof -
  from core_reachable_inv [OF r] have a: "layouts c (active_layout c) \<noteq> None" by (simp add: core_inv_def config_ok_def)
  then obtain g where "layouts c (active_layout c) = Some g" by blast
  from arrange_commute_lua [OF this] a n show ?thesis
    by (auto simp: dispatch_SetLayout_def register_lua_layout_def)
qed

theorem lua_layouts_never_used_witness: "dispatch_SetLayout ''spiral'' ex_core = (False, ex_core)"
proof -
  have "layouts ex_core ''spiral'' = None" by (simp add: ex_core_code ex_boot_code)
  from lua_layouts_never_used [OF ex_reachable(2) this] show ?thesis by blast
qed

end
