(* ===== verification/Runtime_Value.thy ===== *)
theory Runtime_Value
  imports Complex_Main Prelude
begin

text \<open>
  \<^verbatim>\<open>RuntimeValue\<close> (\<^verbatim>\<open>core/include/config/runtime_config.hpp\<close>) and its extraction from a Lua value
  (\<^verbatim>\<open>core/src/runtime/runtime_config.cpp\<close>).

  A Lua value is a tree; a table is its raw length and its entries in the order \<^verbatim>\<open>lua_next\<close> visits them.
  Two functions of the Lua library are parameters: \<open>tonum\<close>, the number a string converts to, if any
  (\<^verbatim>\<open>lua_isnumber\<close> and \<^verbatim>\<open>lua_tonumber\<close> accept such strings), and nothing else: a number key is
  accepted by \<^verbatim>\<open>lua_isstring\<close>, but \<^verbatim>\<open>lua_tostring\<close> then rewrites the key in place and the following
  \<^verbatim>\<open>lua_next\<close> has no defined outcome, which the result \<open>Confused\<close> stands for. A \<^verbatim>\<open>double\<close> is the
  rational number it denotes.
\<close>

datatype runtime_value =
    RNull
  | RBool bool
  | RInt int
  | RNum rat
  | RString string
  | RArray "runtime_value list"
  | RObject "(string \<times> runtime_value) list"

datatype value_type = TNull | TBool | TInt | TNumber | TString | TArray | TObject

fun runtime_value_type :: "runtime_value \<Rightarrow> value_type" where
  "runtime_value_type RNull = TNull"
| "runtime_value_type (RBool _) = TBool"
| "runtime_value_type (RInt _) = TInt"
| "runtime_value_type (RNum _) = TNumber"
| "runtime_value_type (RString _) = TString"
| "runtime_value_type (RArray _) = TArray"
| "runtime_value_type (RObject _) = TObject"

fun runtime_value_type_name :: "value_type \<Rightarrow> string" where
  "runtime_value_type_name TNull = ''null''"
| "runtime_value_type_name TBool = ''bool''"
| "runtime_value_type_name TInt = ''int''"
| "runtime_value_type_name TNumber = ''number''"
| "runtime_value_type_name TString = ''string''"
| "runtime_value_type_name TArray = ''array''"
| "runtime_value_type_name TObject = ''object''"

fun as_bool :: "runtime_value \<Rightarrow> bool option" where
  "as_bool (RBool b) = Some b"
| "as_bool _ = None"

fun as_int :: "runtime_value \<Rightarrow> int option" where
  "as_int (RInt i) = Some i"
| "as_int _ = None"

fun as_num :: "runtime_value \<Rightarrow> rat option" where
  "as_num (RNum d) = Some d"
| "as_num _ = None"

fun as_string :: "runtime_value \<Rightarrow> string option" where
  "as_string (RString s) = Some s"
| "as_string _ = None"

fun as_array :: "runtime_value \<Rightarrow> runtime_value list option" where
  "as_array (RArray a) = Some a"
| "as_array _ = None"

fun as_object :: "runtime_value \<Rightarrow> (string \<times> runtime_value) list option" where
  "as_object (RObject ob) = Some ob"
| "as_object _ = None"

section \<open>Lua values\<close>

datatype lua_value =
    LNil
  | LBool bool
  | LInt int
  | LNum rat
  | LString string
  | LTable nat "(lua_value \<times> lua_value) list"
  | LFunction nat
  | LOther

datatype conversion = Converted runtime_value | Unsupported | Confused

text \<open>\<^verbatim>\<open>lua_rawgeti\<close>\<close>

definition raw_geti :: "(lua_value \<times> lua_value) list \<Rightarrow> nat \<Rightarrow> lua_value" where
  "raw_geti es i = (case map_of es (LInt (int i)) of Some v \<Rightarrow> v | None \<Rightarrow> LNil)"

fun array_key :: "nat \<Rightarrow> lua_value \<Rightarrow> bool" where
  "array_key n (LInt k) \<longleftrightarrow> 1 \<le> k \<and> k \<le> int n"
| "array_key n _ \<longleftrightarrow> False"

text \<open>The scan of the keys that decides between array and object.\<close>

definition array_like :: "nat \<Rightarrow> (lua_value \<times> lua_value) list \<Rightarrow> bool" where
  "array_like n es \<longleftrightarrow> list_all (\<lambda>(k, _). array_key n k) es"

definition kMaxRuntimeDepth :: nat where
  "kMaxRuntimeDepth = 32"

lemma size_raw_geti: "2 * size (raw_geti es i) < Suc (2 * size_list (size_prod size size) es)"
proof (cases "map_of es (LInt (int i))")
  case (Some v)
  then have "(LInt (int i), v) \<in> set es" by (rule map_of_SomeD)
  then have "size_prod size size (LInt (int i), v) \<le> size_list (size_prod size size) es"
    by (rule size_list_estimation') simp
  then show ?thesis using Some by (simp add: raw_geti_def)
qed (simp add: raw_geti_def)

text \<open>\<open>emplace\<close> keeps an entry that is already there.\<close>

definition emplace :: "string \<Rightarrow> runtime_value \<Rightarrow> (string \<times> runtime_value) list \<Rightarrow> (string \<times> runtime_value) list" where
  "emplace k v ob = (if k \<in> fst ` set ob then ob else ob @ [(k, v)])"

function (sequential) runtime_value_from_lua_impl :: "(string \<Rightarrow> rat option) \<Rightarrow> lua_value \<Rightarrow> nat \<Rightarrow> conversion"
and array_from_lua ::
  "(string \<Rightarrow> rat option) \<Rightarrow> (lua_value \<times> lua_value) list \<Rightarrow> nat list \<Rightarrow> nat \<Rightarrow> runtime_value list \<Rightarrow> conversion"
and object_from_lua ::
  "(string \<Rightarrow> rat option) \<Rightarrow> (lua_value \<times> lua_value) list \<Rightarrow> nat \<Rightarrow> (string \<times> runtime_value) list \<Rightarrow> conversion"
where
  "runtime_value_from_lua_impl tonum v depth =
     (if depth > kMaxRuntimeDepth then Unsupported
      else case v of
        LNil \<Rightarrow> Converted RNull
      | LBool b \<Rightarrow> Converted (RBool b)
      | LInt i \<Rightarrow> Converted (RInt i)
      | LNum d \<Rightarrow> Converted (RNum d)
      | LString s \<Rightarrow> (case tonum s of Some d \<Rightarrow> Converted (RNum d) | None \<Rightarrow> Converted (RString s))
      | LTable n es \<Rightarrow>
          if array_like n es then array_from_lua tonum es [1..<Suc n] depth []
          else object_from_lua tonum es depth []
      | LFunction _ \<Rightarrow> Unsupported
      | LOther \<Rightarrow> Unsupported)"
| "array_from_lua tonum es [] depth arr = Converted (RArray arr)"
| "array_from_lua tonum es (i # is) depth arr =
     (case runtime_value_from_lua_impl tonum (raw_geti es i) (depth + 1) of
        Converted v \<Rightarrow> array_from_lua tonum es is depth (arr @ [v])
      | Unsupported \<Rightarrow> Unsupported
      | Confused \<Rightarrow> Confused)"
| "object_from_lua tonum [] depth ob = Converted (RObject ob)"
| "object_from_lua tonum ((k, v) # es) depth ob =
     (case k of
        LString key \<Rightarrow>
          (case runtime_value_from_lua_impl tonum v (depth + 1) of
             Converted x \<Rightarrow> object_from_lua tonum es depth (emplace key x ob)
           | Unsupported \<Rightarrow> Unsupported
           | Confused \<Rightarrow> Confused)
      | LInt _ \<Rightarrow>
          (case runtime_value_from_lua_impl tonum v (depth + 1) of
             Converted x \<Rightarrow> Confused | Unsupported \<Rightarrow> Unsupported | Confused \<Rightarrow> Confused)
      | LNum _ \<Rightarrow>
          (case runtime_value_from_lua_impl tonum v (depth + 1) of
             Converted x \<Rightarrow> Confused | Unsupported \<Rightarrow> Unsupported | Confused \<Rightarrow> Confused)
      | _ \<Rightarrow> Unsupported)"
  by pat_completeness auto

termination
  by (relation "measures [
        (\<lambda>x. case x of
           Inl (_, v, _) \<Rightarrow> 2 * size v
         | Inr (Inl (_, es, _, _, _)) \<Rightarrow> 2 * size_list (size_prod size size) es + 1
         | Inr (Inr (_, es, _, _)) \<Rightarrow> 2 * size_list (size_prod size size) es + 1),
        (\<lambda>x. case x of Inl _ \<Rightarrow> 0 | Inr (Inl (_, _, is, _, _)) \<Rightarrow> length is | Inr (Inr _) \<Rightarrow> 0)]")
     (auto simp: size_raw_geti)

declare runtime_value_from_lua_impl.simps [simp del]

definition runtime_value_from_lua :: "(string \<Rightarrow> rat option) \<Rightarrow> lua_value \<Rightarrow> conversion" where
  "runtime_value_from_lua tonum v = runtime_value_from_lua_impl tonum v 0"

end
