(* ===== verification/Config_Parse.thy ===== *)
theory Config_Parse
  imports Runtime_Value Domain_Types Workspace_Manager
begin

text \<open>
  The parsers of the core settings (\<^verbatim>\<open>core/src/runtime/config_runtime.cpp\<close>): from a \<^verbatim>\<open>RuntimeValue\<close> to
  the monitor list, the compose graph, the workspace list and the theme. A parser gives an error message
  (\<open>Inl\<close>) or the parsed value. An object is the association list of its fields; its order only decides
  which of several unknown fields is named in the message.
\<close>

section \<open>Shared helpers\<close>

type_synonym 'a parsed = "string + 'a"

definition and_then :: "'a parsed \<Rightarrow> ('a \<Rightarrow> 'b parsed) \<Rightarrow> 'b parsed" where
  "and_then r f = (case r of Inl e \<Rightarrow> Inl e | Inr x \<Rightarrow> f x)"

lemma and_then_Inl [simp]: "and_then (Inl e) f = Inl e" and and_then_Inr [simp]: "and_then (Inr x) f = f x"
  by (simp_all add: and_then_def)

lemma and_then_eq_Inr: "and_then r f = Inr y \<longleftrightarrow> (\<exists>x. r = Inr x \<and> f x = Inr y)"
  by (cases r) auto

definition require :: "bool \<Rightarrow> string \<Rightarrow> unit parsed" where
  "require b e = (if b then Inr () else Inl e)"

lemma require_eq_Inr [simp]: "require b e = Inr u \<longleftrightarrow> b"
  by (simp add: require_def)

definition lower_ascii_char :: "char \<Rightarrow> char" where
  "lower_ascii_char ch =
     (let n = of_char ch :: nat in if 65 \<le> n \<and> n \<le> 90 then char_of (n - 65 + 97) else ch)"

definition lower_ascii :: "string \<Rightarrow> string" where
  "lower_ascii s = map lower_ascii_char s"

definition is_valid_rotation :: "string \<Rightarrow> bool" where
  "is_valid_rotation rot = (lower_ascii rot \<in> {''normal'', ''left'', ''right'', ''inverted''})"

definition int32 :: "int \<Rightarrow> bool" where
  "int32 i \<longleftrightarrow> - (2 ^ 31) \<le> i \<and> i < 2 ^ 31"

definition to_int32_checked :: "runtime_value \<Rightarrow> int option" where
  "to_int32_checked v = (case as_int v of None \<Rightarrow> None | Some i \<Rightarrow> if int32 i then Some i else None)"

type_synonym rv_object = "(string \<times> runtime_value) list"

definition quoted :: "string \<Rightarrow> string" where
  "quoted s = [CHR 0x27] @ s @ [CHR 0x27]"

definition int_to_string :: "int \<Rightarrow> string" where
  "int_to_string i = (if i < 0 then CHR ''-'' # to_string (nat (- i)) else to_string (nat i))"

definition check_known_fields :: "rv_object \<Rightarrow> string list \<Rightarrow> string \<Rightarrow> unit parsed" where
  "check_known_fields ob allowed origin =
     (case find (\<lambda>(key, _). key \<notin> set allowed) ob of
        Some (key, _) \<Rightarrow> Inl (origin @ '': unknown field '' @ quoted key)
      | None \<Rightarrow> Inr ())"

text \<open>The loop over the entries of an array, which stops at the first error; \<open>i\<close> is the index the
  messages show.\<close>

fun parse_entries :: "(nat \<Rightarrow> runtime_value \<Rightarrow> 'a parsed) \<Rightarrow> nat \<Rightarrow> runtime_value list \<Rightarrow> 'a list parsed" where
  "parse_entries f i [] = Inr []"
| "parse_entries f i (v # vs) =
     and_then (f i v) (\<lambda>x. and_then (parse_entries f (Suc i) vs) (\<lambda>xs. Inr (x # xs)))"

definition entry_origin :: "string \<Rightarrow> nat \<Rightarrow> string" where
  "entry_origin base i = base @ ''['' @ to_string (i + 1) @ '']''"

section \<open>Monitors\<close>

definition read_required ::
  "(runtime_value \<Rightarrow> 'a option) \<Rightarrow> string \<Rightarrow> rv_object \<Rightarrow> string \<Rightarrow> string \<Rightarrow> 'a parsed" where
  "read_required conv type_name ob origin key =
     (case map_of ob key of
        None \<Rightarrow> Inl (origin @ '': '' @ quoted key @ '' is required'')
      | Some v \<Rightarrow>
          (case conv v of
             None \<Rightarrow> Inl (origin @ '': '' @ quoted key @ '' must be '' @ type_name)
           | Some x \<Rightarrow> Inr x))"

definition read_string_required :: "rv_object \<Rightarrow> string \<Rightarrow> string \<Rightarrow> string parsed" where
  "read_string_required = read_required as_string ''a string''"

definition read_int_required :: "rv_object \<Rightarrow> string \<Rightarrow> string \<Rightarrow> int parsed" where
  "read_int_required = read_required to_int32_checked ''an integer''"

definition read_bool_required :: "rv_object \<Rightarrow> string \<Rightarrow> string \<Rightarrow> bool parsed" where
  "read_bool_required = read_required as_bool ''a boolean''"

text \<open>A field that may be missing: the value so far is kept then.\<close>

definition read_optional ::
  "(runtime_value \<Rightarrow> 'a option) \<Rightarrow> string \<Rightarrow> rv_object \<Rightarrow> string \<Rightarrow> string \<Rightarrow> 'a \<Rightarrow> 'a parsed" where
  "read_optional conv type_name ob origin key d =
     (case map_of ob key of
        None \<Rightarrow> Inr d
      | Some v \<Rightarrow>
          (case conv v of
             None \<Rightarrow> Inl (origin @ '': '' @ quoted key @ '' must be '' @ type_name)
           | Some x \<Rightarrow> Inr x))"

definition parse_monitor :: "nat \<Rightarrow> runtime_value \<Rightarrow> monitor_alias parsed" where
  "parse_monitor i v =
     (let origin = entry_origin ''monitors'' i in
      case as_object v of
        None \<Rightarrow> Inl (origin @ '': entry must be an object'')
      | Some ob \<Rightarrow>
          and_then (check_known_fields ob
            [''name'', ''output'', ''width'', ''height'', ''refresh'', ''rate'', ''rotation'', ''enabled''] origin) (\<lambda>_.
          and_then (read_string_required ob origin ''name'') (\<lambda>name.
          and_then (read_string_required ob origin ''output'') (\<lambda>output.
          and_then (read_int_required ob origin ''width'') (\<lambda>width.
          and_then (read_int_required ob origin ''height'') (\<lambda>height.
          and_then (read_string_required ob origin ''rotation'') (\<lambda>rotation.
          and_then (read_bool_required ob origin ''enabled'') (\<lambda>enabled.
          and_then (read_optional to_int32_checked ''an integer'' ob origin ''refresh'' 0) (\<lambda>refresh.
          and_then (read_optional to_int32_checked ''an integer'' ob origin ''rate'' refresh) (\<lambda>rate.
          and_then (require (0 < width \<and> 0 < height)
            (origin @ '': invalid size '' @ int_to_string width @ ''x'' @ int_to_string height)) (\<lambda>_.
          and_then (require (is_valid_rotation rotation)
            (origin @ '': invalid rotation '' @ quoted rotation)) (\<lambda>_.
          Inr \<lparr>ma_alias = name, ma_output = output, ma_width = width, ma_height = height, ma_rate = rate,
               ma_rotation = rotation, ma_enabled = enabled\<rparr>))))))))))))"

definition parse_monitors_runtime :: "runtime_value \<Rightarrow> monitor_alias list parsed" where
  "parse_monitors_runtime v =
     (case as_array v of
        None \<Rightarrow> Inl ''must be an array''
      | Some arr \<Rightarrow> parse_entries parse_monitor 0 arr)"

section \<open>The compose graph\<close>

definition parse_link :: "nat \<Rightarrow> runtime_value \<Rightarrow> monitor_compose_link parsed" where
  "parse_link i v =
     (let origin = entry_origin ''compose_monitors.layout'' i in
      case as_object v of
        None \<Rightarrow> Inl (origin @ '': entry must be an object'')
      | Some ob \<Rightarrow>
          and_then (check_known_fields ob [''monitor'', ''relative_to'', ''anchor'', ''side'', ''shift''] origin) (\<lambda>_.
          and_then (read_string_required ob origin ''monitor'') (\<lambda>mon.
          and_then (read_optional as_string ''a string'' ob origin ''relative_to'' []) (\<lambda>rel.
          and_then (read_optional as_string ''a string'' ob origin ''anchor'' rel) (\<lambda>rel.
          and_then (read_optional (map_option lower_ascii \<circ> as_string) ''a string'' ob origin ''side'' []) (\<lambda>side.
          and_then (read_optional to_int32_checked ''an integer'' ob origin ''shift'' 0) (\<lambda>shift.
          Inr \<lparr>link_monitor = mon, relative_to = rel, link_side = side, link_shift = shift\<rparr>)))))))"

definition parse_compose_runtime :: "runtime_value \<Rightarrow> monitor_compose parsed" where
  "parse_compose_runtime v =
     (case as_object v of
        None \<Rightarrow> Inl ''must be an object''
      | Some ob \<Rightarrow>
          and_then (check_known_fields ob [''primary'', ''layout''] ''compose_monitors'') (\<lambda>_.
          and_then (read_string_required ob ''compose_monitors'' ''primary'') (\<lambda>prim.
          and_then (read_required as_array ''an array'' ob ''compose_monitors'' ''layout'') (\<lambda>arr.
          and_then (parse_entries parse_link 0 arr) (\<lambda>links.
          Inr \<lparr>primary = prim, compose_layout = links, defined = True\<rparr>)))))"

section \<open>Workspaces\<close>

definition parse_workspace :: "nat \<Rightarrow> runtime_value \<Rightarrow> workspace_def parsed" where
  "parse_workspace i v =
     (let origin = entry_origin ''workspaces'' i in
      case as_object v of
        None \<Rightarrow> Inl (origin @ '': entry must be an object'')
      | Some ob \<Rightarrow>
          and_then (check_known_fields ob [''name'', ''monitor''] origin) (\<lambda>_.
          (case map_of ob ''name'' of
             None \<Rightarrow> Inl (origin @ '': '' @ quoted ''name'' @ '' is required'')
           | Some nv \<Rightarrow>
               (case as_string nv of
                  None \<Rightarrow> Inl (origin @ '': '' @ quoted ''name'' @ '' must be a non-empty string'')
                | Some name \<Rightarrow>
                    and_then (require (name \<noteq> [])
                      (origin @ '': '' @ quoted ''name'' @ '' must be a non-empty string'')) (\<lambda>_.
                    and_then (read_optional as_string ''a string'' ob origin ''monitor'' []) (\<lambda>mon.
                    Inr \<lparr>def_name = name, def_monitor = mon\<rparr>))))))"

definition parse_workspaces_runtime :: "runtime_value \<Rightarrow> workspace_def list parsed" where
  "parse_workspaces_runtime v =
     (case as_array v of
        None \<Rightarrow> Inl ''must be an array''
      | Some arr \<Rightarrow> parse_entries parse_workspace 0 arr)"

section \<open>The theme\<close>

text \<open>\<^verbatim>\<open>static_cast<int>\<close> of an \<^verbatim>\<open>int64_t\<close> wraps; of a \<^verbatim>\<open>double\<close> it truncates, and gives the
  least integer where the value does not fit (what the conversion instruction of the x86-64 target does;
  the language leaves it open).\<close>

definition int_of_int64 :: "int \<Rightarrow> int" where
  "int_of_int64 i = (i + 2 ^ 31) mod 2 ^ 32 - 2 ^ 31"

definition int_of_double :: "rat \<Rightarrow> int" where
  "int_of_double d =
     (let t = (if 0 \<le> d then \<lfloor>d\<rfloor> else \<lceil>d\<rceil>) in if int32 t then t else - (2 ^ 31))"

definition theme_int :: "rv_object \<Rightarrow> string \<Rightarrow> int \<Rightarrow> int" where
  "theme_int ob key d =
     (case map_of ob key of
        None \<Rightarrow> d
      | Some v \<Rightarrow>
          (case as_int v of
             Some i \<Rightarrow> int_of_int64 i
           | None \<Rightarrow> (case as_num v of Some r \<Rightarrow> int_of_double r | None \<Rightarrow> d)))"

definition theme_str :: "rv_object \<Rightarrow> string \<Rightarrow> string \<Rightarrow> string" where
  "theme_str ob key d =
     (case map_of ob key of
        None \<Rightarrow> d
      | Some v \<Rightarrow> (case as_string v of Some s \<Rightarrow> s | None \<Rightarrow> d))"

definition default_theme :: theme_config where
  "default_theme =
     \<lparr>dpi = 0, cursor_size = 0, cursor_theme = [], font = [], bg = [], fg = [], alt_bg = [], alt_fg = [],
      accent = [], border_thickness = 1, border_focused = [], border_unfocused = [], gap = 4\<rparr>"

definition parse_theme_runtime :: "runtime_value \<Rightarrow> theme_config parsed" where
  "parse_theme_runtime v =
     (case as_object v of
        None \<Rightarrow> Inl ''must be an object''
      | Some ob \<Rightarrow>
          (let border = (case map_of ob ''border'' of
                           None \<Rightarrow> []
                         | Some b \<Rightarrow> (case as_object b of Some bo \<Rightarrow> bo | None \<Rightarrow> []));
               d = default_theme
           in Inr \<lparr>dpi = theme_int ob ''dpi'' (dpi d), cursor_size = theme_int ob ''cursor_size'' (cursor_size d),
                   cursor_theme = theme_str ob ''cursor_theme'' (cursor_theme d),
                   font = theme_str ob ''font'' (font d), bg = theme_str ob ''bg'' (bg d),
                   fg = theme_str ob ''fg'' (fg d), alt_bg = theme_str ob ''alt_bg'' (alt_bg d),
                   alt_fg = theme_str ob ''alt_fg'' (alt_fg d), accent = theme_str ob ''accent'' (accent d),
                   border_thickness = theme_int border ''thickness'' (border_thickness d),
                   border_focused = theme_str border ''focused'' (border_focused d),
                   border_unfocused = theme_str border ''unfocused'' (border_unfocused d),
                   gap = theme_int ob ''gap'' (gap d)\<rparr>))"

section \<open>What the parsers accept\<close>

definition monitor_ok :: "monitor_alias \<Rightarrow> bool" where
  "monitor_ok m \<longleftrightarrow> 0 < ma_width m \<and> int32 (ma_width m) \<and> 0 < ma_height m \<and> int32 (ma_height m) \<and>
     int32 (ma_rate m) \<and> is_valid_rotation (ma_rotation m)"

definition link_ok :: "monitor_compose_link \<Rightarrow> bool" where
  "link_ok l \<longleftrightarrow> lower_ascii (link_side l) = link_side l \<and> int32 (link_shift l)"

lemma int32_0 [simp]: "int32 0"
  by (simp add: int32_def)

lemma to_int32_checked_SomeD: "to_int32_checked v = Some i \<Longrightarrow> int32 i"
  by (auto simp: to_int32_checked_def split: option.splits if_splits)

lemma read_int_required_range: "read_int_required ob origin key = Inr i \<Longrightarrow> int32 i"
  by (auto simp: read_int_required_def read_required_def split: option.splits dest: to_int32_checked_SomeD)

lemma read_optional_range:
  "read_optional to_int32_checked t ob origin key d = Inr i \<Longrightarrow> int32 d \<Longrightarrow> int32 i"
  by (auto simp: read_optional_def split: option.splits dest: to_int32_checked_SomeD)

lemma parse_monitor_ok: "parse_monitor i v = Inr m \<Longrightarrow> monitor_ok m"
  unfolding parse_monitor_def Let_def monitor_ok_def
  by (auto simp: and_then_eq_Inr split: option.splits
      dest: read_int_required_range intro: read_optional_range [OF _ read_optional_range])

lemma lower_ascii_char_idem: "lower_ascii_char (lower_ascii_char ch) = lower_ascii_char ch"
proof -
  have "of_char (char_of (of_char ch - 65 + 97 :: nat) :: char) = (of_char ch - 65 + 97 :: nat)"
    if "65 \<le> (of_char ch :: nat)" "(of_char ch :: nat) \<le> 90"
    using that by simp
  then show ?thesis by (auto simp: lower_ascii_char_def Let_def)
qed

lemma lower_ascii_idem [simp]: "lower_ascii (lower_ascii s) = lower_ascii s"
  by (simp add: lower_ascii_def lower_ascii_char_idem)

lemma parse_link_ok: "parse_link i v = Inr l \<Longrightarrow> link_ok l"
proof -
  have "read_optional (map_option lower_ascii \<circ> as_string) t ob origin key [] = Inr s \<Longrightarrow> lower_ascii s = s"
    for t ob origin key s
    by (auto simp: read_optional_def lower_ascii_def [of "[]"] split: option.splits)
  then show "parse_link i v = Inr l \<Longrightarrow> link_ok l"
    unfolding parse_link_def Let_def link_ok_def
    by (auto simp: and_then_eq_Inr split: option.splits intro: read_optional_range)
qed

lemma parse_entries_Inr:
  "parse_entries f i vs = Inr xs \<longleftrightarrow>
     length xs = length vs \<and> (\<forall>k<length vs. f (i + k) (vs ! k) = Inr (xs ! k))"
proof (induction vs arbitrary: i xs)
  case (Cons v vs)
  show ?case
    by (cases xs) (auto simp: and_then_eq_Inr Cons.IH nth_Cons' Suc_diff_Suc less_Suc_eq_0_disj)
qed auto

lemma parse_entries_all:
  assumes "parse_entries f i vs = Inr xs" and "\<And>k v x. f k v = Inr x \<Longrightarrow> P x"
  shows "\<forall>x\<in>set xs. P x"
  using assms(1) by (auto simp: parse_entries_Inr in_set_conv_nth) (blast intro: assms(2))

lemma parse_monitors_ok: "parse_monitors_runtime v = Inr ms \<Longrightarrow> \<forall>m\<in>set ms. monitor_ok m"
  by (auto simp: parse_monitors_runtime_def split: option.splits
      dest!: parse_entries_all [where P = monitor_ok] intro: parse_monitor_ok)

section \<open>Writing a configuration and reading it back\<close>

definition encode_monitor :: "monitor_alias \<Rightarrow> runtime_value" where
  "encode_monitor m =
     RObject [(''name'', RString (ma_alias m)), (''output'', RString (ma_output m)),
       (''width'', RInt (ma_width m)), (''height'', RInt (ma_height m)), (''rate'', RInt (ma_rate m)),
       (''rotation'', RString (ma_rotation m)), (''enabled'', RBool (ma_enabled m))]"

definition encode_link :: "monitor_compose_link \<Rightarrow> runtime_value" where
  "encode_link l =
     RObject [(''monitor'', RString (link_monitor l)), (''relative_to'', RString (relative_to l)),
       (''side'', RString (link_side l)), (''shift'', RInt (link_shift l))]"

definition encode_compose :: "monitor_compose \<Rightarrow> runtime_value" where
  "encode_compose c =
     RObject [(''primary'', RString (primary c)), (''layout'', RArray (map encode_link (compose_layout c)))]"

definition encode_workspace :: "workspace_def \<Rightarrow> runtime_value" where
  "encode_workspace d = RObject [(''name'', RString (def_name d)), (''monitor'', RString (def_monitor d))]"

lemmas read_defs = read_string_required_def read_int_required_def read_bool_required_def read_required_def
  read_optional_def check_known_fields_def to_int32_checked_def require_def

lemma parse_encode_monitor: "monitor_ok m \<Longrightarrow> parse_monitor i (encode_monitor m) = Inr m"
  by (simp add: parse_monitor_def encode_monitor_def monitor_ok_def read_defs)

lemma parse_encode_link: "link_ok l \<Longrightarrow> parse_link i (encode_link l) = Inr l"
  by (simp add: parse_link_def encode_link_def link_ok_def read_defs)

lemma parse_encode_workspace: "def_name d \<noteq> [] \<Longrightarrow> parse_workspace i (encode_workspace d) = Inr d"
  by (simp add: parse_workspace_def encode_workspace_def read_defs)

lemma parse_entries_encode:
  "(\<And>i x. x \<in> set xs \<Longrightarrow> f i (e x) = Inr x) \<Longrightarrow> parse_entries f i (map e xs) = Inr xs"
  by (simp add: parse_entries_Inr)

lemma parse_encode_monitors: "\<forall>m\<in>set ms. monitor_ok m \<Longrightarrow> parse_monitors_runtime (RArray (map encode_monitor ms)) = Inr ms"
  by (simp add: parse_monitors_runtime_def parse_entries_encode parse_encode_monitor)

lemma parse_encode_compose:
  "defined c \<Longrightarrow> \<forall>l\<in>set (compose_layout c). link_ok l \<Longrightarrow> parse_compose_runtime (encode_compose c) = Inr c"
  by (simp add: parse_compose_runtime_def encode_compose_def read_defs parse_entries_encode parse_encode_link)

lemma parse_encode_workspaces:
  "\<forall>d\<in>set ds. def_name d \<noteq> [] \<Longrightarrow> parse_workspaces_runtime (RArray (map encode_workspace ds)) = Inr ds"
  by (simp add: parse_workspaces_runtime_def parse_entries_encode parse_encode_workspace)

end
