(* ===== verification/Runtime_Store.thy ===== *)
theory Runtime_Store
  imports Config_Parse "HOL-Library.Char_ord" "HOL-Library.List_Lexorder"
begin

text \<open>
  \<^verbatim>\<open>TypedSetting<T>\<close> and \<^verbatim>\<open>RuntimeStore\<close> (\<^verbatim>\<open>core/include/runtime/runtime_store.hpp\<close>,
  \<^verbatim>\<open>core/src/runtime_store.cpp\<close>): named settings with a transactional reload.

  \<open>'a typed_setting\<close> is the template; \<open>setting\<close> has one constructor for every instance the program
  registers (the core settings and those of the bar and keybindings modules), and its operations are the
  virtual ones of the base class. The store is the ordered map of the registered settings.

  The contract of a transaction is the locale \<open>transactional\<close>: whatever happens between \<open>snapshot\<close> and
  \<open>rollback\<close>, as long as the saved value is left alone, the value afterwards is the one before.
\<close>

section \<open>A transactional resource\<close>

locale transactional =
  fixes val :: "'s \<Rightarrow> 'v" and saved :: "'s \<Rightarrow> 'v option" and snap :: "'s \<Rightarrow> 's" and roll :: "'s \<Rightarrow> 's"
    and comm :: "'s \<Rightarrow> 's"
  assumes val_snap: "val (snap s) = val s" and saved_snap: "saved (snap s) = Some (val s)"
    and val_roll: "val (roll s) = (case saved s of Some v \<Rightarrow> v | None \<Rightarrow> val s)" and saved_roll: "saved (roll s) = None"
    and val_comm: "val (comm s) = val s" and saved_comm: "saved (comm s) = None"
begin

lemma rollback_restores: "saved t = saved (snap s) \<Longrightarrow> val (roll t) = val s"
  by (simp add: val_roll saved_snap)

lemma rollback_idle: "saved s = None \<Longrightarrow> val (roll s) = val s"
  by (simp add: val_roll)

lemma commit_is_final: "val (roll (comm s)) = val s"
  by (simp add: val_roll val_comm saved_comm)

end

section \<open>One setting\<close>

record 'a typed_setting =
  ts_value :: 'a
  ts_default :: 'a
  ts_snapshot :: "'a option"
  ts_parse :: "(runtime_value \<Rightarrow> 'a parsed) option"
  ts_validate :: "('a \<Rightarrow> string list) option"
  ts_type :: value_type

definition mk_typed_setting :: "'a \<Rightarrow> 'a typed_setting" where
  "mk_typed_setting d =
     \<lparr>ts_value = d, ts_default = d, ts_snapshot = None, ts_parse = None, ts_validate = None, ts_type = TNull\<rparr>"

definition ts_set :: "'a \<Rightarrow> 'a typed_setting \<Rightarrow> 'a typed_setting" where
  "ts_set v s = s\<lparr>ts_value := v\<rparr>"

definition snapshot :: "'a typed_setting \<Rightarrow> 'a typed_setting" where
  "snapshot s = s\<lparr>ts_snapshot := Some (ts_value s)\<rparr>"

definition rollback :: "'a typed_setting \<Rightarrow> 'a typed_setting" where
  "rollback s = (case ts_snapshot s of
     Some v \<Rightarrow> s\<lparr>ts_value := v, ts_snapshot := None\<rparr>
   | None \<Rightarrow> s\<lparr>ts_snapshot := None\<rparr>)"

definition commit :: "'a typed_setting \<Rightarrow> 'a typed_setting" where
  "commit s = s\<lparr>ts_snapshot := None\<rparr>"

definition clear :: "'a typed_setting \<Rightarrow> 'a typed_setting" where
  "clear s = s\<lparr>ts_value := ts_default s\<rparr>"

definition set_parse :: "(runtime_value \<Rightarrow> 'a parsed) \<Rightarrow> value_type \<Rightarrow> 'a typed_setting \<Rightarrow> 'a typed_setting" where
  "set_parse fn type s = s\<lparr>ts_parse := Some fn, ts_type := type\<rparr>"

definition set_validate :: "('a \<Rightarrow> string list) \<Rightarrow> 'a typed_setting \<Rightarrow> 'a typed_setting" where
  "set_validate fn s = s\<lparr>ts_validate := Some fn\<rparr>"

definition apply_runtime_value :: "runtime_value \<Rightarrow> 'a typed_setting \<Rightarrow> string option \<times> 'a typed_setting" where
  "apply_runtime_value rv s =
     (case ts_parse s of
        None \<Rightarrow> (Some ''setting does not support runtime value assignment'', s)
      | Some parse \<Rightarrow>
          (case parse rv of Inl err \<Rightarrow> (Some err, s) | Inr v \<Rightarrow> (None, s\<lparr>ts_value := v\<rparr>)))"

definition validate :: "'a typed_setting \<Rightarrow> string list" where
  "validate s = (case ts_validate s of None \<Rightarrow> [] | Some fn \<Rightarrow> fn (ts_value s))"

interpretation typed_setting: transactional ts_value ts_snapshot snapshot rollback commit
  by unfold_locales (simp_all add: snapshot_def rollback_def commit_def split: option.splits)

text \<open>Everything of a setting except its value.\<close>

definition same_frame :: "'a typed_setting \<Rightarrow> 'a typed_setting \<Rightarrow> bool" where
  "same_frame s t \<longleftrightarrow> (\<exists>v. t = s\<lparr>ts_value := v\<rparr>)"

lemma same_frame_refl: "same_frame s s"
  by (auto simp: same_frame_def intro: exI [of _ "ts_value s"])

lemma same_frame_clear: "same_frame s (clear s)"
  and same_frame_set: "same_frame s (ts_set v s)"
  and same_frame_apply: "same_frame s (snd (apply_runtime_value rv s))"
  by (auto simp: same_frame_def clear_def ts_set_def apply_runtime_value_def split: option.splits sum.splits
      intro: exI [of _ "ts_value s"])

lemma same_frame_trans: "same_frame s t \<Longrightarrow> same_frame t u \<Longrightarrow> same_frame s u"
  by (auto simp: same_frame_def)

lemma rollback_of_frame: "same_frame (snapshot s) t \<Longrightarrow> rollback t = commit s"
  by (auto simp: same_frame_def snapshot_def rollback_def commit_def)

section \<open>The settings of the program\<close>

datatype bar_position = BAR_TOP | BAR_BOTTOM

record bar_colors =
  normal_bg :: string
  normal_fg :: string
  focused_bg :: string
  focused_fg :: string
  bar_bg :: string
  status_fg :: string

datatype bar_slot_kind = SlotTags | SlotTitle | SlotTray | SlotLua

text \<open>A reference into the Lua registry is a token.\<close>

record bar_slot =
  slot_kind :: bar_slot_kind
  slot_widget :: "nat option"
  slot_interval :: int
  has_update :: bool
  cached_text :: string
  slot_ticks :: int

record bar_config =
  bar_font :: string
  bar_height :: int
  bar_colors :: bar_colors
  bar_position :: bar_position
  bar_left :: "bar_slot list"
  bar_center :: "bar_slot list"
  bar_right :: "bar_slot list"

datatype bar_side_state = BarRemove | BarInherit | BarCustom

record bar_side =
  side_state :: bar_side_state
  side_cfg :: bar_config

record monitor_bar_config =
  bar_top :: bar_side
  bar_bottom :: bar_side

record bar_set_config =
  default_cfg :: monitor_bar_config
  per_monitor :: "string \<rightharpoonup> monitor_bar_config"

definition default_bar_config :: bar_config where
  "default_bar_config =
     \<lparr>bar_font = [], bar_height = 0,
      bar_colors = \<lparr>normal_bg = [], normal_fg = [], focused_bg = [], focused_fg = [], bar_bg = [], status_fg = []\<rparr>,
      bar_position = BAR_TOP, bar_left = [], bar_center = [], bar_right = []\<rparr>"

definition resolve_side :: "bar_side \<Rightarrow> bar_side \<Rightarrow> bar_side" where
  "resolve_side override_side default_side =
     (case side_state override_side of
        BarRemove \<Rightarrow> \<lparr>side_state = BarRemove, side_cfg = default_bar_config\<rparr>
      | BarInherit \<Rightarrow> default_side
      | BarCustom \<Rightarrow> override_side)"

definition bar_resolve :: "bar_set_config \<Rightarrow> string \<Rightarrow> monitor_bar_config" where
  "bar_resolve b a =
     (case per_monitor b a of
        None \<Rightarrow> default_cfg b
      | Some ov \<Rightarrow>
          \<lparr>bar_top = resolve_side (bar_top ov) (bar_top (default_cfg b)),
           bar_bottom = resolve_side (bar_bottom ov) (bar_bottom (default_cfg b))\<rparr>)"

datatype mouse_action = MouseNone | MouseMove | MouseResize | MouseFloat

record mouse_binding =
  mb_mods :: "16 word"
  mb_button :: "32 word"
  mb_builtin :: mouse_action
  press_callback :: "nat option"
  release_callback :: "nat option"

datatype setting =
    Monitors_Setting "monitor_alias list typed_setting"
  | Compose_Setting "monitor_compose typed_setting"
  | Workspaces_Setting "workspace_def list typed_setting"
  | Theme_Setting "theme_config typed_setting"
  | Bar_Setting "bar_set_config typed_setting"
  | Modifier_Setting "16 word typed_setting"
  | Mouse_Setting "mouse_binding list typed_setting"

text \<open>The virtual operations.\<close>

fun setting_snapshot :: "setting \<Rightarrow> setting" where
  "setting_snapshot (Monitors_Setting s) = Monitors_Setting (snapshot s)"
| "setting_snapshot (Compose_Setting s) = Compose_Setting (snapshot s)"
| "setting_snapshot (Workspaces_Setting s) = Workspaces_Setting (snapshot s)"
| "setting_snapshot (Theme_Setting s) = Theme_Setting (snapshot s)"
| "setting_snapshot (Bar_Setting s) = Bar_Setting (snapshot s)"
| "setting_snapshot (Modifier_Setting s) = Modifier_Setting (snapshot s)"
| "setting_snapshot (Mouse_Setting s) = Mouse_Setting (snapshot s)"

fun setting_rollback :: "setting \<Rightarrow> setting" where
  "setting_rollback (Monitors_Setting s) = Monitors_Setting (rollback s)"
| "setting_rollback (Compose_Setting s) = Compose_Setting (rollback s)"
| "setting_rollback (Workspaces_Setting s) = Workspaces_Setting (rollback s)"
| "setting_rollback (Theme_Setting s) = Theme_Setting (rollback s)"
| "setting_rollback (Bar_Setting s) = Bar_Setting (rollback s)"
| "setting_rollback (Modifier_Setting s) = Modifier_Setting (rollback s)"
| "setting_rollback (Mouse_Setting s) = Mouse_Setting (rollback s)"

fun setting_commit :: "setting \<Rightarrow> setting" where
  "setting_commit (Monitors_Setting s) = Monitors_Setting (commit s)"
| "setting_commit (Compose_Setting s) = Compose_Setting (commit s)"
| "setting_commit (Workspaces_Setting s) = Workspaces_Setting (commit s)"
| "setting_commit (Theme_Setting s) = Theme_Setting (commit s)"
| "setting_commit (Bar_Setting s) = Bar_Setting (commit s)"
| "setting_commit (Modifier_Setting s) = Modifier_Setting (commit s)"
| "setting_commit (Mouse_Setting s) = Mouse_Setting (commit s)"

fun setting_clear :: "setting \<Rightarrow> setting" where
  "setting_clear (Monitors_Setting s) = Monitors_Setting (clear s)"
| "setting_clear (Compose_Setting s) = Compose_Setting (clear s)"
| "setting_clear (Workspaces_Setting s) = Workspaces_Setting (clear s)"
| "setting_clear (Theme_Setting s) = Theme_Setting (clear s)"
| "setting_clear (Bar_Setting s) = Bar_Setting (clear s)"
| "setting_clear (Modifier_Setting s) = Modifier_Setting (clear s)"
| "setting_clear (Mouse_Setting s) = Mouse_Setting (clear s)"

fun expected_type :: "setting \<Rightarrow> value_type" where
  "expected_type (Monitors_Setting s) = ts_type s"
| "expected_type (Compose_Setting s) = ts_type s"
| "expected_type (Workspaces_Setting s) = ts_type s"
| "expected_type (Theme_Setting s) = ts_type s"
| "expected_type (Bar_Setting s) = ts_type s"
| "expected_type (Modifier_Setting s) = ts_type s"
| "expected_type (Mouse_Setting s) = ts_type s"

fun setting_validate :: "setting \<Rightarrow> string list" where
  "setting_validate (Monitors_Setting s) = validate s"
| "setting_validate (Compose_Setting s) = validate s"
| "setting_validate (Workspaces_Setting s) = validate s"
| "setting_validate (Theme_Setting s) = validate s"
| "setting_validate (Bar_Setting s) = validate s"
| "setting_validate (Modifier_Setting s) = validate s"
| "setting_validate (Mouse_Setting s) = validate s"

fun setting_apply :: "runtime_value \<Rightarrow> setting \<Rightarrow> string option \<times> setting" where
  "setting_apply rv (Monitors_Setting s) = map_prod id Monitors_Setting (apply_runtime_value rv s)"
| "setting_apply rv (Compose_Setting s) = map_prod id Compose_Setting (apply_runtime_value rv s)"
| "setting_apply rv (Workspaces_Setting s) = map_prod id Workspaces_Setting (apply_runtime_value rv s)"
| "setting_apply rv (Theme_Setting s) = map_prod id Theme_Setting (apply_runtime_value rv s)"
| "setting_apply rv (Bar_Setting s) = map_prod id Bar_Setting (apply_runtime_value rv s)"
| "setting_apply rv (Modifier_Setting s) = map_prod id Modifier_Setting (apply_runtime_value rv s)"
| "setting_apply rv (Mouse_Setting s) = map_prod id Mouse_Setting (apply_runtime_value rv s)"

fun same_setting :: "setting \<Rightarrow> setting \<Rightarrow> bool" where
  "same_setting (Monitors_Setting s) (Monitors_Setting t) \<longleftrightarrow> same_frame s t"
| "same_setting (Compose_Setting s) (Compose_Setting t) \<longleftrightarrow> same_frame s t"
| "same_setting (Workspaces_Setting s) (Workspaces_Setting t) \<longleftrightarrow> same_frame s t"
| "same_setting (Theme_Setting s) (Theme_Setting t) \<longleftrightarrow> same_frame s t"
| "same_setting (Bar_Setting s) (Bar_Setting t) \<longleftrightarrow> same_frame s t"
| "same_setting (Modifier_Setting s) (Modifier_Setting t) \<longleftrightarrow> same_frame s t"
| "same_setting (Mouse_Setting s) (Mouse_Setting t) \<longleftrightarrow> same_frame s t"
| "same_setting _ _ \<longleftrightarrow> False"

lemma same_setting_refl [simp]: "same_setting s s"
  by (cases s) (simp_all add: same_frame_refl)

lemma same_setting_trans: "same_setting s t \<Longrightarrow> same_setting t u \<Longrightarrow> same_setting s u"
  by (cases s; cases t; cases u) (auto intro: same_frame_trans)

lemma same_setting_clear: "same_setting s (setting_clear s)"
  by (cases s) (auto intro: same_frame_clear)

lemma same_setting_apply: "same_setting s (snd (setting_apply rv s))"
  by (cases s) (auto intro: same_frame_apply)

lemma setting_rollback_frame: "same_setting (setting_snapshot s) t \<Longrightarrow> setting_rollback t = setting_commit s"
  by (cases s; cases t) (auto intro: rollback_of_frame)

section \<open>The store\<close>

text \<open>\<^verbatim>\<open>std::map\<close> keeps its keys in order. The store holds the settings the program registers: the members
  of \<^verbatim>\<open>CoreConfig\<close> under their four keys and those of the modules.\<close>

type_synonym runtime_store = "(string \<times> setting) list"

fun register_setting :: "string \<Rightarrow> setting \<Rightarrow> runtime_store \<Rightarrow> runtime_store" where
  "register_setting key s [] = [(key, s)]"
| "register_setting key s ((k, t) # st) =
     (if key = k then (k, s) # st
      else if key < k then (key, s) # (k, t) # st
      else (k, t) # register_setting key s st)"

definition store_find :: "runtime_store \<Rightarrow> string \<Rightarrow> setting option" where
  "store_find st key = map_of st key"

definition keys :: "runtime_store \<Rightarrow> string list" where
  "keys st = map fst st"

definition snapshot_all :: "runtime_store \<Rightarrow> runtime_store" where
  "snapshot_all st = map (map_prod id setting_snapshot) st"

definition rollback_all :: "runtime_store \<Rightarrow> runtime_store" where
  "rollback_all st = map (map_prod id setting_rollback) st"

definition commit_all :: "runtime_store \<Rightarrow> runtime_store" where
  "commit_all st = map (map_prod id setting_commit) st"

definition clear_all :: "runtime_store \<Rightarrow> runtime_store" where
  "clear_all st = map (map_prod id setting_clear) st"

definition validate_all :: "runtime_store \<Rightarrow> string list" where
  "validate_all st = concat (map (setting_validate \<circ> snd) st)"

text \<open>\<^verbatim>\<open>apply_from_lua\<close>: \<open>siren\<close> gives the fields of the \<^verbatim>\<open>siren\<close> table. \<open>None\<close> where the conversion has no
  defined outcome.\<close>

fun is_function :: "lua_value \<Rightarrow> bool" where
  "is_function (LFunction _) \<longleftrightarrow> True"
| "is_function _ \<longleftrightarrow> False"

definition apply_key ::
  "(string \<Rightarrow> rat option) \<Rightarrow> (string \<Rightarrow> lua_value) \<Rightarrow> string \<Rightarrow> setting \<Rightarrow> (bool \<times> setting) option" where
  "apply_key tonum siren key s =
     (if expected_type s = TNull \<or> siren key = LNil \<or> is_function (siren key) then Some (True, s)
      else case runtime_value_from_lua tonum (siren key) of
        Confused \<Rightarrow> None
      | Unsupported \<Rightarrow> Some (False, s)
      | Converted rv \<Rightarrow> Some (fst (setting_apply rv s) = None, snd (setting_apply rv s)))"

fun apply_from_lua ::
  "(string \<Rightarrow> rat option) \<Rightarrow> (string \<Rightarrow> lua_value) \<Rightarrow> runtime_store \<Rightarrow> (bool \<times> runtime_store) option" where
  "apply_from_lua tonum siren [] = Some (True, [])"
| "apply_from_lua tonum siren ((key, s) # st) =
     (case apply_key tonum siren key s of
        None \<Rightarrow> None
      | Some (ok, s') \<Rightarrow>
          (case apply_from_lua tonum siren st of
             None \<Rightarrow> None
           | Some (oks, st') \<Rightarrow> Some (ok \<and> oks, (key, s') # st')))"

definition register_core_config :: "runtime_store \<Rightarrow> runtime_store" where
  "register_core_config st =
     register_setting ''theme'' (Theme_Setting (set_parse parse_theme_runtime TObject (mk_typed_setting default_theme)))
     (register_setting ''workspaces'' (Workspaces_Setting (set_parse parse_workspaces_runtime TArray (mk_typed_setting [])))
     (register_setting ''compose_monitors'' (Compose_Setting (set_parse parse_compose_runtime TObject
        (mk_typed_setting \<lparr>primary = [], compose_layout = [], defined = False\<rparr>)))
     (register_setting ''monitors'' (Monitors_Setting (set_parse parse_monitors_runtime TArray (mk_typed_setting []))) st)))"

text \<open>\<^verbatim>\<open>core_config_.monitors.get()\<close> and its siblings, and \<^verbatim>\<open>find_typed<BarSetConfig>\<close>.\<close>

definition cfg_monitors :: "runtime_store \<Rightarrow> monitor_alias list" where
  "cfg_monitors st = (case store_find st ''monitors'' of Some (Monitors_Setting s) \<Rightarrow> ts_value s | _ \<Rightarrow> [])"

definition cfg_compose :: "runtime_store \<Rightarrow> monitor_compose" where
  "cfg_compose st = (case store_find st ''compose_monitors'' of
     Some (Compose_Setting s) \<Rightarrow> ts_value s | _ \<Rightarrow> \<lparr>primary = [], compose_layout = [], defined = False\<rparr>)"

definition cfg_workspaces :: "runtime_store \<Rightarrow> workspace_def list" where
  "cfg_workspaces st = (case store_find st ''workspaces'' of Some (Workspaces_Setting s) \<Rightarrow> ts_value s | _ \<Rightarrow> [])"

definition cfg_theme :: "runtime_store \<Rightarrow> theme_config" where
  "cfg_theme st = (case store_find st ''theme'' of Some (Theme_Setting s) \<Rightarrow> ts_value s | _ \<Rightarrow> default_theme)"

definition find_bar_set :: "runtime_store \<Rightarrow> bar_set_config option" where
  "find_bar_set st = (case store_find st ''bar_set'' of Some (Bar_Setting s) \<Rightarrow> Some (ts_value s) | _ \<Rightarrow> None)"

section \<open>Reload as a transaction\<close>

text \<open>A change of the store that only touches values: what executing a configuration can do to settings
  that are registered already.\<close>

definition same_settings :: "runtime_store \<Rightarrow> runtime_store \<Rightarrow> bool" where
  "same_settings st st' \<longleftrightarrow> list_all2 (\<lambda>(k, s) (k', s'). k = k' \<and> same_setting s s') st st'"

lemma same_settings_refl [simp]: "same_settings st st"
  by (auto simp: same_settings_def intro: list_all2_refl)

lemma same_settings_trans: "same_settings st st' \<Longrightarrow> same_settings st' st'' \<Longrightarrow> same_settings st st''"
  unfolding same_settings_def
  by (erule (1) list_all2_trans [rotated]) (auto intro: same_setting_trans)

lemma same_settings_clear: "same_settings st (clear_all st)"
  by (auto simp: same_settings_def clear_all_def list_all2_map2 same_setting_clear intro: list_all2_refl)

lemma same_setting_apply_key: "apply_key tonum siren key s = Some (ok, s') \<Longrightarrow> same_setting s s'"
  by (auto simp: apply_key_def same_setting_apply split: if_splits conversion.splits)

lemma same_settings_apply: "apply_from_lua tonum siren st = Some (ok, st') \<Longrightarrow> same_settings st st'"
  by (induction tonum siren st arbitrary: ok st' rule: apply_from_lua.induct)
     (auto simp: same_settings_def split: option.splits prod.splits dest: same_setting_apply_key)

lemma rollback_all_restores:
  assumes "same_settings (snapshot_all st) st'"
  shows "rollback_all st' = commit_all st"
  using assms unfolding same_settings_def snapshot_all_def rollback_all_def commit_all_def
  by (induction st arbitrary: st') (auto simp: list_all2_Cons1 intro: setting_rollback_frame)

lemma commit_all_keeps [simp]:
  "cfg_monitors (commit_all st) = cfg_monitors st" "cfg_compose (commit_all st) = cfg_compose st"
  "cfg_workspaces (commit_all st) = cfg_workspaces st" "cfg_theme (commit_all st) = cfg_theme st"
  "find_bar_set (commit_all st) = find_bar_set st" "validate_all (commit_all st) = validate_all st"
proof -
  have find: "store_find (commit_all st) k = map_option setting_commit (store_find st k)" for k
    by (induction st) (auto simp: store_find_def commit_all_def)
  have val: "setting_validate (setting_commit s) = setting_validate s" for s
    by (cases s) (simp_all add: commit_def validate_def split: option.splits)
  show "cfg_monitors (commit_all st) = cfg_monitors st" "cfg_compose (commit_all st) = cfg_compose st"
    "cfg_workspaces (commit_all st) = cfg_workspaces st" "cfg_theme (commit_all st) = cfg_theme st"
    "find_bar_set (commit_all st) = find_bar_set st"
    by (auto simp: cfg_monitors_def cfg_compose_def cfg_workspaces_def cfg_theme_def find_bar_set_def find
        commit_def split: option.splits setting.splits)
  show "validate_all (commit_all st) = validate_all st"
    by (induction st) (auto simp: validate_all_def commit_all_def val)
qed

end
