(* ===== verification/Monitor_Layout.thy ===== *)
theory Monitor_Layout
  imports Prelude Domain_Types
begin

text \<open>
  \<^verbatim>\<open>core/src/monitor_layout.cpp\<close>: the compose graph of the configuration (every monitor is placed on a
  side of another one, the primary monitor at the origin) is resolved to absolute positions.

  \<open>resolve\<close> is the depth-first search of \<^verbatim>\<open>ComposeResolver::resolve\<close> with its colouring (0 unknown, 1
  visiting, 2 finished); the number of aliases that are neither visiting nor finished bounds its
  recursion. The specification is the inductive relation \<open>placed\<close>, which knows nothing of the search:
  the search finds exactly the positions \<open>placed\<close> allows, whatever the order of the aliases and even
  when the graph has cycles or dangling references.
\<close>

section \<open>The code\<close>

definition is_rotated :: "string \<Rightarrow> bool" where
  "is_rotated rotation \<longleftrightarrow> rotation = ''left'' \<or> rotation = ''right''"

definition rotated_size :: "monitor_alias \<Rightarrow> vec2i" where
  "rotated_size a =
     (if is_rotated (ma_rotation a) then ma_height a else ma_width a,
      if is_rotated (ma_rotation a) then ma_width a else ma_height a)"

type_synonym position_map = "string \<rightharpoonup> vec2i"

text \<open>The search's mutable members: the positions found and the colours; \<^verbatim>\<open>state[name]\<close> of an
  \<^verbatim>\<open>unordered_map\<close> reads 0 for a name that was never written.\<close>

record resolver =
  res_pos :: position_map
  res_state :: "string \<Rightarrow> nat"

text \<open>The constructor's indexes: a later entry overwrites an earlier one.\<close>

definition by_alias :: "monitor_alias list \<Rightarrow> string \<rightharpoonup> monitor_alias" where
  "by_alias aliases = map_of (rev (map (\<lambda>a. (ma_alias a, a)) aliases))"

definition by_monitor :: "monitor_compose \<Rightarrow> string \<rightharpoonup> monitor_compose_link" where
  "by_monitor c = map_of (rev (map (\<lambda>l. (link_monitor l, l)) (compose_layout c)))"

definition init_resolver :: resolver where
  "init_resolver = \<lparr>res_pos = Map.empty, res_state = (\<lambda>_. 0)\<rparr>"

definition mark :: "string \<Rightarrow> nat \<Rightarrow> resolver \<Rightarrow> resolver" where
  "mark name v r = r\<lparr>res_state := (res_state r)(name := v)\<rparr>"

definition settle :: "string \<Rightarrow> vec2i \<Rightarrow> resolver \<Rightarrow> resolver" where
  "settle name p r = mark name 2 (r\<lparr>res_pos := (res_pos r)(name \<mapsto> p)\<rparr>)"

text \<open>The position next to a placed monitor; \<open>None\<close> for an invalid side.\<close>

definition beside :: "monitor_compose_link \<Rightarrow> monitor_alias \<Rightarrow> monitor_alias \<Rightarrow> vec2i \<Rightarrow> vec2i option" where
  "beside link self rel p =
     (case (rotated_size self, rotated_size rel, p) of ((self_w, self_h), (rel_w, rel_h), (rel_x, rel_y)) \<Rightarrow>
        if link_side link = ''left'' then Some (rel_x - self_w, rel_y + link_shift link)
        else if link_side link = ''right'' then Some (rel_x + rel_w, rel_y + link_shift link)
        else if link_side link = ''top'' then Some (rel_x + link_shift link, rel_y - self_h)
        else if link_side link = ''bottom'' then Some (rel_x + link_shift link, rel_y + rel_h)
        else None)"

definition unfinished :: "monitor_alias list \<Rightarrow> resolver \<Rightarrow> nat" where
  "unfinished aliases r = length (filter (\<lambda>a. res_state r (ma_alias a) \<notin> {1, 2}) aliases)"

lemma by_alias_SomeD: "by_alias aliases n = Some a \<Longrightarrow> a \<in> set aliases \<and> ma_alias a = n"
  by (auto simp: by_alias_def dest!: map_of_SomeD)

lemma by_alias_ex: "a \<in> set aliases \<Longrightarrow> \<exists>b. by_alias aliases (ma_alias a) = Some b"
  by (auto simp: by_alias_def map_of_eq_None_iff image_image simp flip: not_None_eq)

lemma unfinished_mark:
  assumes "by_alias aliases n = Some a" and "res_state r n \<notin> {1, 2}" and "v \<in> {1, 2}"
  shows "unfinished aliases (mark n v r) < unfinished aliases r"
proof -
  have "a \<in> set aliases" "ma_alias a = n" using by_alias_SomeD [OF assms(1)] by auto
  then have mem: "a \<in> set (filter (\<lambda>a. res_state r (ma_alias a) \<notin> {1, 2}) aliases)" using assms(2) by simp
  have "filter (\<lambda>a. res_state (mark n v r) (ma_alias a) \<notin> {1, 2}) aliases =
        filter (\<lambda>a. ma_alias a \<noteq> n) (filter (\<lambda>a. res_state r (ma_alias a) \<notin> {1, 2}) aliases)"
    using assms(3) by (auto simp: mark_def intro: filter_cong)
  then show ?thesis
    unfolding unfinished_def using length_filter_less [OF mem, of "\<lambda>a. ma_alias a \<noteq> n"] \<open>ma_alias a = n\<close> by simp
qed

function resolve :: "monitor_alias list \<Rightarrow> monitor_compose \<Rightarrow> string \<Rightarrow> resolver \<Rightarrow> bool \<times> resolver" where
  "resolve aliases c name r =
     (if res_state r name = 2 then (True, r)
      else if res_state r name = 1 then (False, r)
      else case by_alias aliases name of
        None \<Rightarrow> (False, r)
      | Some self \<Rightarrow>
          (case by_monitor c name of
             None \<Rightarrow> if name = primary c then (True, settle name (0, 0) r) else (False, r)
           | Some link \<Rightarrow>
               if name = primary c then (True, settle name (0, 0) r)
               else if relative_to link = [] then (False, mark name 2 r)
               else
                 (case resolve aliases c (relative_to link) (mark name 1 r) of (ok, r1) \<Rightarrow>
                    if \<not> ok then (False, mark name 2 r1)
                    else case by_alias aliases (relative_to link) of
                      None \<Rightarrow> (False, mark name 2 r1)
                    | Some rel \<Rightarrow>
                        (case res_pos r1 (relative_to link) of
                           None \<Rightarrow> (False, mark name 2 r1)
                         | Some rp \<Rightarrow>
                             (case beside link self rel rp of
                                None \<Rightarrow> (False, mark name 2 r1)
                              | Some p \<Rightarrow> (True, settle name p r1))))))"
  by pat_completeness auto

termination
  by (relation "measure (\<lambda>(aliases, c, name, r). unfinished aliases r)") (auto intro: unfinished_mark)

declare resolve.simps [simp del]

definition INT_MAX :: int where
  "INT_MAX = 2147483647"

definition enabled_positions :: "monitor_alias list \<Rightarrow> position_map \<Rightarrow> vec2i list" where
  "enabled_positions aliases pos = List.map_filter (\<lambda>a. if ma_enabled a then pos (ma_alias a) else None) aliases"

definition minimum :: "int list \<Rightarrow> int" where
  "minimum xs = fold min xs INT_MAX"

text \<open>The end of \<^verbatim>\<open>compose_positions\<close>: positions are shifted so that no enabled monitor has a negative
  coordinate.\<close>

definition normalise :: "monitor_alias list \<Rightarrow> position_map \<Rightarrow> position_map" where
  "normalise aliases pos =
     (let min_x = minimum (map fst (enabled_positions aliases pos));
          min_y = minimum (map snd (enabled_positions aliases pos));
          shift_x = (if min_x < 0 then - min_x else 0);
          shift_y = (if min_y < 0 then - min_y else 0)
      in if min_x = INT_MAX \<or> min_y = INT_MAX then pos
         else if shift_x \<noteq> 0 \<or> shift_y \<noteq> 0
         then (\<lambda>n. map_option (\<lambda>(x, y). (x + shift_x, y + shift_y)) (pos n))
         else pos)"

definition resolve_all :: "monitor_alias list \<Rightarrow> monitor_compose \<Rightarrow> resolver" where
  "resolve_all aliases c =
     (let r = (if primary c \<noteq> [] then snd (resolve aliases c (primary c) init_resolver) else init_resolver)
      in fold (\<lambda>a r. if ma_enabled a then snd (resolve aliases c (ma_alias a) r) else r) aliases r)"

definition compose_positions :: "monitor_alias list \<Rightarrow> monitor_compose \<Rightarrow> position_map" where
  "compose_positions aliases c = normalise aliases (res_pos (resolve_all aliases c))"

record monitor_layout =
  ml_output :: string
  ml_alias :: string
  ml_enabled :: bool
  ml_pos :: vec2i
  ml_size :: vec2i
  ml_refresh_rate :: int
  ml_rotation :: string
  ml_primary :: bool

definition build :: "monitor_alias list \<Rightarrow> monitor_compose \<Rightarrow> monitor_layout list" where
  "build aliases c =
     (if aliases = [] then []
      else let positions = compose_positions aliases c in
        map (\<lambda>a. \<lparr>ml_output = ma_output a, ml_alias = ma_alias a, ml_enabled = ma_enabled a,
                  ml_pos = (case positions (ma_alias a) of Some p \<Rightarrow> p | None \<Rightarrow> (0, 0)),
                  ml_size = (ma_width a, ma_height a), ml_refresh_rate = ma_rate a,
                  ml_rotation = ma_rotation a, ml_primary = (ma_alias a = primary c)\<rparr>) aliases)"

section \<open>The specification\<close>

inductive placed :: "monitor_alias list \<Rightarrow> monitor_compose \<Rightarrow> string \<Rightarrow> vec2i \<Rightarrow> bool"
  for aliases :: "monitor_alias list" and c :: monitor_compose where
  placed_primary: "by_alias aliases (primary c) = Some a \<Longrightarrow> placed aliases c (primary c) (0, 0)"
| placed_beside:
    "name \<noteq> primary c \<Longrightarrow> by_alias aliases name = Some self \<Longrightarrow> by_monitor c name = Some link \<Longrightarrow>
     relative_to link \<noteq> [] \<Longrightarrow> by_alias aliases (relative_to link) = Some rel \<Longrightarrow>
     placed aliases c (relative_to link) rp \<Longrightarrow> beside link self rel rp = Some p \<Longrightarrow>
     placed aliases c name p"

text \<open>A name is bound to at most one position, and none on a cycle of \<^verbatim>\<open>relative_to\<close> references.\<close>

lemma placed_primary_iff: "placed aliases c (primary c) q \<longleftrightarrow> q = (0, 0) \<and> (\<exists>a. by_alias aliases (primary c) = Some a)"
  by (subst placed.simps) (auto intro: placed.intros)

lemma placed_beside_iff:
  assumes "name \<noteq> primary c" and "by_alias aliases name = Some self" and "by_monitor c name = Some link"
  shows "placed aliases c name p \<longleftrightarrow>
    relative_to link \<noteq> [] \<and> (\<exists>rel rp. by_alias aliases (relative_to link) = Some rel \<and>
      placed aliases c (relative_to link) rp \<and> beside link self rel rp = Some p)"
  using assms by (subst placed.simps) auto

lemma placed_unique: "placed aliases c n p \<Longrightarrow> placed aliases c n q \<Longrightarrow> p = q"
proof (induction arbitrary: q rule: placed.induct)
  case (placed_primary a)
  then show ?case by (simp add: placed_primary_iff)
next
  case (placed_beside name self link rel rp p)
  obtain rp' where "placed aliases c (relative_to link) rp'" "beside link self rel rp' = Some q"
    using placed_beside.prems placed_beside.hyps(5) placed_beside_iff [OF placed_beside.hyps(1-3)] by auto
  with placed_beside.IH [of rp'] placed_beside.hyps(7) show ?case by simp
qed

definition refers :: "monitor_compose \<Rightarrow> string \<Rightarrow> string \<Rightarrow> bool" where
  "refers c n m \<longleftrightarrow> n \<noteq> primary c \<and> (\<exists>link. by_monitor c n = Some link \<and> relative_to link = m)"

lemma refers_functional: "refers c n m \<Longrightarrow> refers c n m' \<Longrightarrow> m = m'"
  by (auto simp: refers_def)

lemma placed_acyclic: "placed aliases c n p \<Longrightarrow> \<not> (refers c)\<^sup>+\<^sup>+ n n"
proof (induction rule: placed.induct)
  case (placed_primary a)
  then show ?case by (auto simp: refers_def dest: tranclpD)
next
  case (placed_beside name self link rel rp p)
  let ?m = "relative_to link"
  have step: "refers c name m \<longleftrightarrow> m = ?m" for m using placed_beside.hyps(1,3) by (auto simp: refers_def)
  show ?case
  proof
    assume "(refers c)\<^sup>+\<^sup>+ name name"
    then have "(refers c)\<^sup>*\<^sup>* ?m name" by (metis step tranclpD)
    moreover have "refers c name ?m" by (simp add: step)
    ultimately have "(refers c)\<^sup>+\<^sup>+ ?m ?m" by (rule rtranclp_into_tranclp1)
    with placed_beside.IH show False by simp
  qed
qed

section \<open>The search finds what is specified\<close>

definition search_ok :: "monitor_alias list \<Rightarrow> monitor_compose \<Rightarrow> resolver \<Rightarrow> bool" where
  "search_ok aliases c r \<longleftrightarrow>
     (\<forall>n. res_state r n = 2 \<longrightarrow> (\<forall>p. res_pos r n = Some p \<longleftrightarrow> placed aliases c n p)) \<and>
     (\<forall>n. res_state r n \<noteq> 2 \<longrightarrow> res_pos r n = None)"

lemma search_okD:
  assumes "search_ok aliases c r"
  shows "res_state r n = 2 \<Longrightarrow> res_pos r n = Some p \<longleftrightarrow> placed aliases c n p"
    and "res_state r n \<noteq> 2 \<Longrightarrow> res_pos r n = None"
  using assms unfolding search_ok_def by blast+

lemma search_ok_init: "search_ok aliases c init_resolver"
  by (simp add: search_ok_def init_resolver_def)

lemma search_ok_visit:
  "search_ok aliases c r \<Longrightarrow> res_state r n \<noteq> 2 \<Longrightarrow> search_ok aliases c (mark n 1 r)"
  by (auto simp: search_ok_def mark_def)

lemma search_ok_settle:
  assumes "search_ok aliases c r" and "placed aliases c n p"
  shows "search_ok aliases c (settle n p r)"
proof -
  have "placed aliases c n q \<longleftrightarrow> p = q" for q using placed_unique [OF assms(2)] assms(2) by blast
  then show ?thesis
    using assms(1) by (simp add: search_ok_def settle_def mark_def del: split_paired_All)
qed

lemma search_ok_fail:
  assumes "search_ok aliases c r" and "res_state r n \<noteq> 2" and "\<nexists>p. placed aliases c n p"
  shows "search_ok aliases c (mark n 2 r)"
  using assms by (auto simp: search_ok_def mark_def)

text \<open>What a call leaves behind: it keeps the names that are being visited, never forgets a finished one,
  and answers whether the name can be placed, except that it also answers yes for a finished name.\<close>

definition search_step ::
  "monitor_alias list \<Rightarrow> monitor_compose \<Rightarrow> string \<Rightarrow> resolver \<Rightarrow> bool \<Rightarrow> resolver \<Rightarrow> bool" where
  "search_step aliases c name r ok r1 \<longleftrightarrow>
     search_ok aliases c r1 \<and> (\<forall>n. res_state r1 n = 1 \<longleftrightarrow> res_state r n = 1) \<and>
     (\<forall>n. res_state r n = 2 \<longrightarrow> res_state r1 n = 2) \<and>
     (ok \<longrightarrow> res_state r1 name = 2) \<and> (\<not> ok \<longrightarrow> (\<nexists>p. placed aliases c name p))"

lemma search_step_settle:
  assumes "search_ok aliases c r" and "res_state r name \<noteq> 1" and "placed aliases c name p"
  shows "search_step aliases c name r True (settle name p r)"
  using search_ok_settle [OF assms(1,3)] assms(2) by (auto simp: search_step_def settle_def mark_def)

lemma search_step_fail:
  assumes "search_ok aliases c r" and "res_state r name \<notin> {1, 2}" and "\<nexists>p. placed aliases c name p"
  shows "search_step aliases c name r False (mark name 2 r)"
  using search_ok_fail [OF assms(1) _ assms(3)] assms(2,3) by (auto simp: search_step_def mark_def)

text \<open>The call for the monitor a link refers to, and what the caller does with its answer.\<close>

lemma search_step_refer:
  assumes rec: "search_step aliases c m (mark name 1 r) ok r1" and un: "res_state r name \<notin> {1, 2}"
    and "search_ok aliases c r1"
  shows "(\<nexists>p. placed aliases c name p) \<Longrightarrow> search_step aliases c name r False (mark name 2 r1)"
    and "placed aliases c name p \<Longrightarrow> search_step aliases c name r True (settle name p r1)"
proof -
  have vis: "res_state r1 name = 1" using rec by (auto simp: search_step_def mark_def)
  have keep: "res_state r1 n = 1 \<longleftrightarrow> n = name \<or> res_state r n = 1"
       "res_state r n = 2 \<Longrightarrow> res_state r1 n = 2" for n
    using rec un by (auto simp: search_step_def mark_def split: if_splits)
  show "search_step aliases c name r False (mark name 2 r1)" if "\<nexists>p. placed aliases c name p"
    using search_ok_fail [OF assms(3) _ that] vis keep un that by (auto simp: search_step_def mark_def)
  show "search_step aliases c name r True (settle name p r1)" if "placed aliases c name p"
    using search_ok_settle [OF assms(3) that] vis keep un by (auto simp: search_step_def settle_def mark_def)
qed

lemma search_step_link:
  assumes other: "name \<noteq> primary c" and self: "by_alias aliases name = Some self"
    and link: "by_monitor c name = Some link" and rel: "relative_to link \<noteq> []"
    and step: "search_step aliases c (relative_to link) (mark name 1 r) ok' r'"
    and un: "res_state r name \<notin> {1, 2}"
    and res: "(if \<not> ok' then (False, mark name 2 r')
      else case by_alias aliases (relative_to link) of
        None \<Rightarrow> (False, mark name 2 r')
      | Some rel \<Rightarrow>
          (case res_pos r' (relative_to link) of
             None \<Rightarrow> (False, mark name 2 r')
           | Some rp \<Rightarrow>
               (case beside link self rel rp of
                  None \<Rightarrow> (False, mark name 2 r')
                | Some p \<Rightarrow> (True, settle name p r')))) = (ok, r1)"
  shows "search_step aliases c name r ok r1"
proof -
  let ?m = "relative_to link"
  have ok: "search_ok aliases c r'" using step by (simp add: search_step_def)
  note post = search_step_refer [OF step un ok] and spec = placed_beside_iff [OF other self link]
  show ?thesis
  proof (cases "\<exists>rel rp p. ok' \<and> by_alias aliases ?m = Some rel \<and> res_pos r' ?m = Some rp \<and>
           beside link self rel rp = Some p")
    case True
    then obtain rel rp p where t: "ok'" "by_alias aliases ?m = Some rel" "res_pos r' ?m = Some rp"
      "beside link self rel rp = Some p" by blast
    have "placed aliases c ?m rp" using search_okD(1) [OF ok] step t(1,3) by (auto simp: search_step_def)
    then have "placed aliases c name p" using spec assms(4) t by blast
    from post(2) [OF this] show ?thesis using res t by auto
  next
    case False
    have "\<not> ok' \<Longrightarrow> \<nexists>rp. placed aliases c ?m rp" "ok' \<Longrightarrow> res_state r' ?m = 2"
      using step by (auto simp: search_step_def)
    then have "\<nexists>p. placed aliases c name p"
      using spec False search_okD(1) [OF ok, of ?m] by metis
    from post(1) [OF this] show ?thesis using res False by (auto split: if_splits option.splits)
  qed
qed

lemma resolve_step:
  assumes "search_ok aliases c r" and "\<And>n. res_state r n = 1 \<Longrightarrow> (refers c)\<^sup>+\<^sup>+ n name"
    and "resolve aliases c name r = (ok, r1)"
  shows "search_step aliases c name r ok r1"
  using assms
proof (induction aliases c name r arbitrary: ok r1 rule: resolve.induct)
  case (1 aliases c name r)
  note res = 1(4) [unfolded resolve.simps [of aliases c name r]]
  consider (finished) "res_state r name = 2" | (visiting) "res_state r name = 1"
    | (unknown) "res_state r name \<notin> {1, 2}" by auto
  then show ?case
  proof cases
    case finished
    then show ?thesis using res 1(2) by (auto simp: search_step_def)
  next
    case visiting
    then have "\<nexists>p. placed aliases c name p" using 1(3) placed_acyclic by blast
    then show ?thesis using res visiting 1(2) by (auto simp: search_step_def)
  next
    case unknown
    show ?thesis
    proof (cases "by_alias aliases name")
      case None
      then have "\<nexists>p. placed aliases c name p" by (subst placed.simps) auto
      then show ?thesis using None res unknown 1(2) by (auto simp: search_step_def)
    next
      case self: (Some self)
      show ?thesis
      proof (cases "name = primary c")
        case True
        then have "placed aliases c name (0, 0)" using self by (simp add: placed_primary_iff)
        moreover have "ok" "r1 = settle name (0, 0) r"
          using res unknown self True by (auto split: option.splits)
        ultimately show ?thesis using search_step_settle [OF 1(2)] unknown by simp
      next
        case other: False
        show ?thesis
        proof (cases "by_monitor c name")
          case None
          then have "\<nexists>p. placed aliases c name p" using other by (subst placed.simps) auto
          then show ?thesis using None res unknown self other 1(2) by (auto simp: search_step_def)
        next
          case link: (Some link)
          let ?m = "relative_to link"
          show ?thesis
          proof (cases "?m = []")
            case True
            then show ?thesis using res unknown self other link search_step_fail [OF 1(2) unknown]
                placed_beside_iff [OF other self link] by auto
          next
            case False
            obtain ok' r' where rec: "resolve aliases c ?m (mark name 1 r) = (ok', r')" by fastforce
            have "(refers c)\<^sup>+\<^sup>+ n ?m" if "res_state (mark name 1 r) n = 1" for n
            proof -
              have "refers c name ?m" using other link by (simp add: refers_def)
              with that 1(3) show ?thesis
                by (cases "n = name") (auto simp: mark_def intro: tranclp.intros)
            qed
            then have step: "search_step aliases c ?m (mark name 1 r) ok' r'"
              using 1(1) [OF _ _ self link other False] unknown rec search_ok_visit [OF 1(2)] by simp
            then show ?thesis
              using search_step_link [OF other self link False _ unknown, of ok' r'] res unknown self other link
                False rec by auto
          qed
        qed
      qed
    qed
  qed
qed

section \<open>The positions of a configuration\<close>

text \<open>Between two calls from outside nothing is being visited, and a name that was asked for is finished
  unless it has no place.\<close>

definition asked_ok :: "monitor_alias list \<Rightarrow> monitor_compose \<Rightarrow> string set \<Rightarrow> resolver \<Rightarrow> bool" where
  "asked_ok aliases c N r \<longleftrightarrow>
     search_ok aliases c r \<and> (\<forall>n. res_state r n \<noteq> 1) \<and>
     (\<forall>n\<in>N. res_state r n = 2 \<or> (\<nexists>p. placed aliases c n p))"

lemma asked_ok_resolve:
  assumes "asked_ok aliases c N r"
  shows "asked_ok aliases c (insert n N) (snd (resolve aliases c n r))"
proof -
  obtain ok r1 where r1: "resolve aliases c n r = (ok, r1)" by fastforce
  have "search_step aliases c n r ok r1"
    using resolve_step [OF _ _ r1] assms by (auto simp: asked_ok_def)
  then show ?thesis using assms r1 unfolding asked_ok_def search_step_def by auto
qed

lemma asked_ok_resolve_fold:
  assumes "asked_ok aliases c N r"
  shows "asked_ok aliases c (N \<union> ma_alias ` {a \<in> set as. ma_enabled a})
           (fold (\<lambda>a r. if ma_enabled a then snd (resolve aliases c (ma_alias a) r) else r) as r)"
  using assms
proof (induction as arbitrary: N r)
  case (Cons a as)
  show ?case
  proof (cases "ma_enabled a")
    case True
    then have "N \<union> ma_alias ` {x \<in> set (a # as). ma_enabled x} =
               insert (ma_alias a) N \<union> ma_alias ` {x \<in> set as. ma_enabled x}" by auto
    with Cons.IH [OF asked_ok_resolve [OF Cons.prems, of "ma_alias a"]] True show ?thesis by simp
  next
    case False
    then have "{x \<in> set (a # as). ma_enabled x} = {x \<in> set as. ma_enabled x}" by auto
    with Cons.IH [OF Cons.prems] False show ?thesis by simp
  qed
qed simp

lemma resolve_all_positions:
  assumes "a \<in> set aliases" and "ma_enabled a"
  shows "res_pos (resolve_all aliases c) (ma_alias a) = Some p \<longleftrightarrow> placed aliases c (ma_alias a) p"
proof -
  let ?r0 = "if primary c \<noteq> [] then snd (resolve aliases c (primary c) init_resolver) else init_resolver"
  have "asked_ok aliases c {} init_resolver"
    by (simp add: asked_ok_def search_ok_init) (simp add: init_resolver_def)
  with asked_ok_resolve [OF this, of "primary c"] have "\<exists>N. asked_ok aliases c N ?r0" by auto
  then obtain N where "asked_ok aliases c N ?r0" ..
  from asked_ok_resolve_fold [OF this, of aliases]
  have ok: "search_ok aliases c (resolve_all aliases c)"
    and fin: "res_state (resolve_all aliases c) (ma_alias a) = 2 \<or> (\<nexists>p. placed aliases c (ma_alias a) p)"
    using assms by (auto simp: asked_ok_def resolve_all_def Let_def)
  show ?thesis
    using fin search_okD [OF ok, of "ma_alias a"] by (metis option.discI)
qed

lemma minimum_le: "x \<in> set xs \<Longrightarrow> minimum xs \<le> x" and minimum_le_INT_MAX: "minimum xs \<le> INT_MAX"
proof -
  have "fold min xs m \<le> m \<and> (\<forall>x\<in>set xs. fold min xs m \<le> x)" for m :: int
    by (induction xs arbitrary: m) (auto, (metis min.boundedE)+)
  then show "x \<in> set xs \<Longrightarrow> minimum xs \<le> x" "minimum xs \<le> INT_MAX" by (auto simp: minimum_def)
qed

lemma enabled_positionsI:
  "a \<in> set aliases \<Longrightarrow> ma_enabled a \<Longrightarrow> pos (ma_alias a) = Some p \<Longrightarrow> p \<in> set (enabled_positions aliases pos)"
  by (force simp: enabled_positions_def List.map_filter_def)

lemma normalise_shift:
  "\<exists>dx dy. 0 \<le> dx \<and> 0 \<le> dy \<and> normalise aliases pos = (\<lambda>n. map_option (\<lambda>(x, y). (x + dx, y + dy)) (pos n))"
proof -
  define dx where "dx = (if minimum (map fst (enabled_positions aliases pos)) < 0
    then - minimum (map fst (enabled_positions aliases pos)) else 0)"
  define dy where "dy = (if minimum (map snd (enabled_positions aliases pos)) < 0
    then - minimum (map snd (enabled_positions aliases pos)) else 0)"
  have id: "pos = (\<lambda>n. map_option (\<lambda>(x, y). (x + 0, y + (0 :: int))) (pos n))"
    by (rule ext, rename_tac n, case_tac "pos n") (auto simp: case_prod_beta)
  have "normalise aliases pos = pos \<or> normalise aliases pos = (\<lambda>n. map_option (\<lambda>(x, y). (x + dx, y + dy)) (pos n))"
    by (simp add: normalise_def Let_def dx_def dy_def)
  moreover have "0 \<le> dx" "0 \<le> dy" by (auto simp: dx_def dy_def)
  ultimately show ?thesis using id by (metis order_refl)
qed

text \<open>The sentinel of the minimum is harmless as soon as one enabled monitor sits at the origin.\<close>

lemma normalise_nonneg:
  assumes "(0, 0) \<in> set (enabled_positions aliases pos)"
    and "a \<in> set aliases" "ma_enabled a" "normalise aliases pos (ma_alias a) = Some (x, y)"
  shows "0 \<le> x \<and> 0 \<le> y"
proof -
  let ?E = "enabled_positions aliases pos"
  obtain px py where p: "pos (ma_alias a) = Some (px, py)"
    using assms(4) by (auto simp: normalise_def Let_def split: if_splits)
  have "(px, py) \<in> set ?E" using enabled_positionsI [of a aliases pos, OF assms(2,3) p] .
  then have "minimum (map fst ?E) \<le> px" "minimum (map snd ?E) \<le> py"
    "minimum (map fst ?E) \<le> 0" "minimum (map snd ?E) \<le> 0"
    using assms(1) by (auto intro!: minimum_le simp: image_iff) (force intro: rev_bexI)+
  then show ?thesis
    using assms(4) p by (auto simp: normalise_def Let_def INT_MAX_def split: if_splits)
qed

end
