(* ===== verification/Settings_Validation.thy ===== *)
theory Settings_Validation
  imports Runtime_Store Monitor_Layout
begin

text \<open>
  \<^verbatim>\<open>Runtime::validate_settings\<close> (\<^verbatim>\<open>core/src/runtime/runtime.cpp\<close>): the checks a configuration has to pass
  before it is applied. Every message the source builds is a constructor of \<open>config_error\<close>; the errors
  are produced in the source's order.

  The main lemma is that the depth-first check of the compose graph is as strong as the search of
  \<open>Monitor_Layout\<close> needs: a configuration with no error places every enabled monitor.
\<close>

datatype config_error =
    SettingError string
  | NoWorkspaces
  | NoMonitors
  | EmptyMonitorName
  | EmptyOutput string
  | BadSize string
  | BadRotation string
  | DuplicateAlias string
  | DuplicateOutput string
  | ComposeUndefined
  | NoPrimary
  | EmptyLinkMonitor
  | UnknownLinkMonitor string
  | DuplicateLink string
  | BadSide string string
  | UnknownPrimary string
  | MissingLink string
  | ComposeCycle string
  | MissingLayoutEntry string
  | PrimaryHasRelative string
  | PrimaryHasSide string
  | NoRelative string
  | NoSide string
  | UnknownRelative string string
  | SelfReference string
  | UnknownWorkspaceMonitor string string
  | BarNeedsFont
  | ThemeRequired string

definition report :: "bool \<Rightarrow> config_error \<Rightarrow> config_error list" where
  "report b e = (if b then [e] else [])"

lemma report_eq_Nil [simp]: "report b e = [] \<longleftrightarrow> \<not> b"
  by (simp add: report_def)

definition has_alias :: "monitor_alias list \<Rightarrow> string \<Rightarrow> bool" where
  "has_alias ms a \<longleftrightarrow> list_ex (\<lambda>m. ma_alias m = a) ms"

section \<open>Monitors\<close>

fun check_monitors :: "string list \<Rightarrow> string list \<Rightarrow> monitor_alias list \<Rightarrow> config_error list" where
  "check_monitors aliases_seen outputs_seen [] = []"
| "check_monitors aliases_seen outputs_seen (m # ms) =
     report (ma_alias m = []) EmptyMonitorName @
     report (ma_output m = []) (EmptyOutput (ma_alias m)) @
     report (ma_width m \<le> 0 \<or> ma_height m \<le> 0) (BadSize (ma_alias m)) @
     report (\<not> is_valid_rotation (ma_rotation m)) (BadRotation (ma_alias m)) @
     report (ma_alias m \<in> set aliases_seen) (DuplicateAlias (ma_alias m)) @
     report (ma_output m \<in> set outputs_seen) (DuplicateOutput (ma_output m)) @
     check_monitors (ma_alias m # aliases_seen) (ma_output m # outputs_seen) ms"

section \<open>The compose graph\<close>

definition valid_side :: "string \<Rightarrow> bool" where
  "valid_side s \<longleftrightarrow> s \<in> {''left'', ''right'', ''top'', ''bottom''}"

fun check_links :: "monitor_alias list \<Rightarrow> string list \<Rightarrow> monitor_compose_link list \<Rightarrow> config_error list" where
  "check_links ms seen [] = []"
| "check_links ms seen (l # ls) =
     report (link_monitor l = []) EmptyLinkMonitor @
     report (\<not> has_alias ms (link_monitor l)) (UnknownLinkMonitor (link_monitor l)) @
     report (link_monitor l \<in> set seen) (DuplicateLink (link_monitor l)) @
     report (link_side l \<noteq> [] \<and> \<not> valid_side (link_side l)) (BadSide (link_monitor l) (link_side l)) @
     check_links ms (link_monitor l # seen) ls"

text \<open>The validator's own \<^verbatim>\<open>by_monitor\<close> keeps the first of several entries for a monitor.\<close>

definition first_link :: "monitor_compose \<Rightarrow> string \<rightharpoonup> monitor_compose_link" where
  "first_link c = map_of (map (\<lambda>l. (link_monitor l, l)) (compose_layout c))"

definition open_links :: "monitor_compose \<Rightarrow> (string \<Rightarrow> nat) \<Rightarrow> nat" where
  "open_links c st = length (filter (\<lambda>l. st (link_monitor l) \<notin> {1, 2}) (compose_layout c))"

lemma open_links_visit:
  assumes "first_link c n = Some l" and "st n \<notin> {1, 2}"
  shows "open_links c (st(n := 1)) < open_links c st"
proof -
  have l: "l \<in> set (compose_layout c)" "link_monitor l = n"
    using assms(1) by (auto simp: first_link_def dest!: map_of_SomeD)
  then have mem: "l \<in> set (filter (\<lambda>l. st (link_monitor l) \<notin> {1, 2}) (compose_layout c))" using assms(2) by simp
  have "filter (\<lambda>l. (st(n := 1)) (link_monitor l) \<notin> {1, 2}) (compose_layout c) =
        filter (\<lambda>l. link_monitor l \<noteq> n) (filter (\<lambda>l. st (link_monitor l) \<notin> {1, 2}) (compose_layout c))"
    by (auto intro: filter_cong)
  then show ?thesis
    unfolding open_links_def using length_filter_less [OF mem, of "\<lambda>l. link_monitor l \<noteq> n"] l(2) by simp
qed

definition link_errors :: "monitor_compose \<Rightarrow> string \<Rightarrow> monitor_compose_link \<Rightarrow> config_error list" where
  "link_errors c name link =
     (if name = primary c
      then report (relative_to link \<noteq> []) (PrimaryHasRelative name) @ report (link_side link \<noteq> []) (PrimaryHasSide name)
      else report (relative_to link = []) (NoRelative name) @ report (link_side link = []) (NoSide name))"

function dfs ::
  "monitor_alias list \<Rightarrow> monitor_compose \<Rightarrow> string \<Rightarrow> (string \<Rightarrow> nat) \<Rightarrow> (string \<Rightarrow> nat) \<times> config_error list" where
  "dfs ms c name st =
     (if st name = 2 then (st, [])
      else if st name = 1 then (st, [ComposeCycle name])
      else case first_link c name of
        None \<Rightarrow> (st(name := 2), report (name \<noteq> primary c) (MissingLayoutEntry name))
      | Some link \<Rightarrow>
          if relative_to link = [] then (st(name := 2), link_errors c name link)
          else if \<not> has_alias ms (relative_to link)
          then (st(name := 2), link_errors c name link @ [UnknownRelative name (relative_to link)])
          else if relative_to link = name
          then (st(name := 2), link_errors c name link @ [SelfReference name])
          else case dfs ms c (relative_to link) (st(name := 1)) of
            (st', errs) \<Rightarrow> (st'(name := 2), link_errors c name link @ errs))"
  by pat_completeness auto

termination
  by (relation "measure (\<lambda>(ms, c, name, st). open_links c st)") (auto intro: open_links_visit [unfolded One_nat_def])

declare dfs.simps [simp del]

fun check_cycles :: "monitor_alias list \<Rightarrow> monitor_compose \<Rightarrow> monitor_alias list \<Rightarrow> (string \<Rightarrow> nat) \<Rightarrow> config_error list" where
  "check_cycles ms c [] st = []"
| "check_cycles ms c (m # rest) st =
     (if ma_enabled m
      then case dfs ms c (ma_alias m) st of (st', errs) \<Rightarrow> errs @ check_cycles ms c rest st'
      else check_cycles ms c rest st)"

definition check_compose :: "monitor_alias list \<Rightarrow> monitor_compose \<Rightarrow> config_error list" where
  "check_compose ms c =
     (if \<not> defined c then [ComposeUndefined]
      else
        report (primary c = []) NoPrimary @
        check_links ms [] (compose_layout c) @
        report (primary c \<noteq> [] \<and> \<not> has_alias ms (primary c)) (UnknownPrimary (primary c)) @
        concat (map (\<lambda>m. report (ma_enabled m \<and> ma_alias m \<noteq> primary c \<and> first_link c (ma_alias m) = None)
                                (MissingLink (ma_alias m))) ms) @
        check_cycles ms c ms (\<lambda>_. 0))"

section \<open>The bar\<close>

definition has_content :: "bar_config \<Rightarrow> bool" where
  "has_content cfg \<longleftrightarrow> bar_left cfg \<noteq> [] \<or> bar_center cfg \<noteq> [] \<or> bar_right cfg \<noteq> []"

definition side_shown :: "bar_side \<Rightarrow> bool" where
  "side_shown side \<longleftrightarrow> side_state side = BarCustom \<and> has_content (side_cfg side)"

definition side_missing_font :: "theme_config \<Rightarrow> bar_side \<Rightarrow> bool" where
  "side_missing_font th side \<longleftrightarrow> side_shown side \<and> bar_font (side_cfg side) = [] \<and> font th = []"

definition bar_sides :: "monitor_alias list \<Rightarrow> bar_set_config \<Rightarrow> bar_side list" where
  "bar_sides ms b = concat (map (\<lambda>m. [bar_top (bar_resolve b (ma_alias m)), bar_bottom (bar_resolve b (ma_alias m))]) ms)"

definition check_bar :: "monitor_alias list \<Rightarrow> theme_config \<Rightarrow> bar_set_config \<Rightarrow> config_error list" where
  "check_bar ms th b =
     report (list_ex (side_missing_font th) (bar_sides ms b)) BarNeedsFont @
     (if list_ex side_shown (bar_sides ms b)
      then report (bg th = []) (ThemeRequired ''bg'') @ report (fg th = []) (ThemeRequired ''fg'') @
           report (alt_bg th = []) (ThemeRequired ''alt_bg'') @ report (alt_fg th = []) (ThemeRequired ''alt_fg'') @
           report (accent th = []) (ThemeRequired ''accent'')
      else [])"

section \<open>All checks\<close>

definition validate_settings :: "runtime_store \<Rightarrow> config_error list" where
  "validate_settings st =
     (let ms = cfg_monitors st; c = cfg_compose st; ws = cfg_workspaces st; th = cfg_theme st in
      map SettingError (validate_all st) @
      report (ws = []) NoWorkspaces @
      (if ms = [] then [NoMonitors] else check_monitors [] [] ms) @
      check_compose ms c @
      concat (map (\<lambda>w. report (def_monitor w \<noteq> [] \<and> \<not> has_alias ms (def_monitor w))
                              (UnknownWorkspaceMonitor (def_name w) (def_monitor w))) ws) @
      (case find_bar_set st of None \<Rightarrow> [] | Some b \<Rightarrow> check_bar ms th b))"

section \<open>A configuration without errors\<close>

lemma check_monitors_NilD:
  "check_monitors as os ms = [] \<Longrightarrow>
     (\<forall>m\<in>set ms. ma_alias m \<noteq> [] \<and> ma_output m \<noteq> [] \<and> 0 < ma_width m \<and> 0 < ma_height m \<and>
        is_valid_rotation (ma_rotation m) \<and> ma_alias m \<notin> set as \<and> ma_output m \<notin> set os) \<and>
     distinct (map ma_alias ms) \<and> distinct (map ma_output ms)"
  by (induction as os ms rule: check_monitors.induct) (auto simp: image_iff)

lemma check_links_NilD:
  "check_links ms seen ls = [] \<Longrightarrow>
     (\<forall>l\<in>set ls. link_monitor l \<noteq> [] \<and> has_alias ms (link_monitor l) \<and> link_monitor l \<notin> set seen \<and>
        (link_side l = [] \<or> valid_side (link_side l))) \<and>
     distinct (map link_monitor ls)"
  by (induction ms seen ls rule: check_links.induct) (auto simp: image_iff)

lemma by_monitor_first: "distinct (map link_monitor (compose_layout c)) \<Longrightarrow> by_monitor c = first_link c"
  unfolding by_monitor_def first_link_def
  by (subst map_of_inject_set) (simp_all add: comp_def rev_map [symmetric])

lemma has_alias_by_alias: "has_alias ms a \<longleftrightarrow> (\<exists>m. by_alias ms a = Some m)"
  by (auto simp: has_alias_def list_ex_iff dest: by_alias_SomeD by_alias_ex)

lemma beside_valid: "valid_side (link_side l) \<Longrightarrow> \<exists>p. beside l self rel rp = Some p"
  by (auto simp: beside_def valid_side_def split: prod.splits)

text \<open>The depth-first check and the relation \<^const>\<open>placed\<close>.\<close>

definition placeable :: "monitor_alias list \<Rightarrow> monitor_compose \<Rightarrow> string \<Rightarrow> bool" where
  "placeable ms c n \<longleftrightarrow> (\<exists>p. placed ms c n p)"

lemma placeableI: "placed ms c n p \<Longrightarrow> placeable ms c n"
  unfolding placeable_def by blast

lemma dfs_places:
  assumes "distinct (map link_monitor (compose_layout c))" and "has_alias ms (primary c)"
    and "\<forall>l\<in>set (compose_layout c). link_side l = [] \<or> valid_side (link_side l)"
    and "dfs ms c name st = (st', [])" and "has_alias ms name" and "\<And>n. st n = 2 \<Longrightarrow> placeable ms c n"
  shows "st' name = 2 \<and> (\<forall>n. st' n = 2 \<longrightarrow> placeable ms c n)"
  using assms
proof (induction ms c name st arbitrary: st' rule: dfs.induct)
  case (1 ms c name st)
  note IH = 1(1) and dist = 1(2) and prim = 1(3) and sides = 1(4) and known = 1(6) and old = 1(7)
  note res = 1(5) [unfolded dfs.simps [of ms c name st]]
  obtain self where self: "by_alias ms name = Some self" using known by (auto simp: has_alias_by_alias)
  have place_primary: "placeable ms c name" if "name = primary c"
    using that placeableI [OF placed_primary] self by blast
  consider (finished) "st name = 2" | (unknown) "st name \<noteq> 2" "st name \<noteq> 1" using res by (auto split: if_splits)
  then show ?case
  proof cases
    case finished
    then show ?thesis using res old by auto
  next
    case unknown
    show ?thesis
    proof (cases "first_link c name")
      case None
      then show ?thesis using res unknown old place_primary by (auto split: if_splits)
    next
      case link: (Some link)
      have "link \<in> set (compose_layout c)" using link by (auto simp: first_link_def dest!: map_of_SomeD)
      then have side: "link_side link = [] \<or> valid_side (link_side link)" using sides by blast
      have errs: "link_errors c name link = []" using res unknown link by (auto split: if_splits prod.splits)
      show ?thesis
      proof (cases "name = primary c")
        case True
        then have "relative_to link = []" using errs by (simp add: link_errors_def)
        then show ?thesis using res unknown link old place_primary [OF True] by (auto split: if_splits)
      next
        case other: False
        then have ne: "relative_to link \<noteq> []" "link_side link \<noteq> []" using errs by (auto simp: link_errors_def)
        obtain st1 where known_rel: "has_alias ms (relative_to link)" "relative_to link \<noteq> name"
          and rec: "dfs ms c (relative_to link) (st(name := 1)) = (st1, [])" "st' = st1(name := 2)"
          using res unknown link ne(1) by (auto split: if_splits prod.splits)
        have "placeable ms c n" if "(st(name := 1)) n = 2" for n using old that by (simp split: if_splits)
        from IH [OF unknown link ne(1) _ known_rel(2) dist prim sides rec(1) known_rel(1) this] known_rel(1)
        have st1: "st1 (relative_to link) = 2 \<and> (\<forall>n. st1 n = 2 \<longrightarrow> placeable ms c n)" by simp
        then obtain rp where rp: "placed ms c (relative_to link) rp" unfolding placeable_def by blast
        obtain rel where "by_alias ms (relative_to link) = Some rel" using known_rel(1) by (auto simp: has_alias_by_alias)
        moreover obtain p where "beside link self rel rp = Some p" using beside_valid side ne(2) by blast
        ultimately have "placeable ms c name"
          using placed_beside_iff [OF other self] link by_monitor_first [OF dist] ne(1) rp
          by (metis placeableI)
        then show ?thesis using rec(2) st1 by (auto split: if_splits)
      qed
    qed
  qed
qed

lemma check_cycles_places:
  assumes "distinct (map link_monitor (compose_layout c))" and "has_alias ms (primary c)"
    and "\<forall>l\<in>set (compose_layout c). link_side l = [] \<or> valid_side (link_side l)"
    and "check_cycles ms c rest st = []" and "set rest \<subseteq> set ms" and "\<And>n. st n = 2 \<Longrightarrow> placeable ms c n"
  shows "\<forall>m\<in>set rest. ma_enabled m \<longrightarrow> placeable ms c (ma_alias m)"
  using assms(4-6)
proof (induction rest arbitrary: st)
  case (Cons m rest)
  show ?case
  proof (cases "ma_enabled m")
    case True
    obtain st' where d: "dfs ms c (ma_alias m) st = (st', [])" and r: "check_cycles ms c rest st' = []"
      using Cons.prems(1) True by (auto split: prod.splits)
    have "has_alias ms (ma_alias m)" using Cons.prems(2) by (auto simp: has_alias_def list_ex_iff)
    from dfs_places [OF assms(1-3) d this Cons.prems(3)] Cons.IH [OF r] Cons.prems(2) show ?thesis by auto
  next
    case False
    then show ?thesis using Cons.IH [of st] Cons.prems by auto
  qed
qed simp

text \<open>What a passed validation promises to the rest of the program.\<close>

definition validated :: "monitor_alias list \<Rightarrow> monitor_compose \<Rightarrow> workspace_def list \<Rightarrow> bool" where
  "validated ms c ws \<longleftrightarrow>
     ws \<noteq> [] \<and> ms \<noteq> [] \<and> distinct (map ma_alias ms) \<and> distinct (map ma_output ms) \<and>
     (\<forall>m\<in>set ms. 0 < ma_width m \<and> 0 < ma_height m \<and> is_valid_rotation (ma_rotation m)) \<and>
     has_alias ms (primary c) \<and> (\<forall>w\<in>set ws. def_monitor w = [] \<or> has_alias ms (def_monitor w)) \<and>
     (\<forall>m\<in>set ms. ma_enabled m \<longrightarrow> placeable ms c (ma_alias m))"

lemma validate_settings_validated:
  assumes "validate_settings st = []"
  shows "validated (cfg_monitors st) (cfg_compose st) (cfg_workspaces st)"
proof -
  let ?ms = "cfg_monitors st" and ?c = "cfg_compose st" and ?ws = "cfg_workspaces st"
  have ne: "?ws \<noteq> []" "?ms \<noteq> []" and mons: "check_monitors [] [] ?ms = []" and comp: "check_compose ?ms ?c = []"
    and ws: "\<forall>w\<in>set ?ws. def_monitor w = [] \<or> has_alias ?ms (def_monitor w)"
    using assms by (auto simp: validate_settings_def Let_def split: if_splits)
  have links: "check_links ?ms [] (compose_layout ?c) = []" and prim: "has_alias ?ms (primary ?c)"
    and cyc: "check_cycles ?ms ?c ?ms (\<lambda>_. 0) = []"
    using comp by (auto simp: check_compose_def split: if_splits)
  have "\<forall>m\<in>set ?ms. ma_enabled m \<longrightarrow> placeable ?ms ?c (ma_alias m)"
    using check_cycles_places [OF _ prim _ cyc] check_links_NilD [OF links] by auto
  then show ?thesis
    unfolding validated_def using ne ws prim check_monitors_NilD [OF mons] by blast
qed

end
