(* ===== verification/Config_Properties.thy ===== *)
theory Config_Properties
  imports Settings_Validation
begin

text \<open>
  The properties of the configuration side: parsing, validation and the monitor layout. Each is
  followed by a witness on a concrete configuration with two monitors.
\<close>

section \<open>Positions\<close>

lemma by_alias_distinct: "distinct (map ma_alias ms) \<Longrightarrow> a \<in> set ms \<Longrightarrow> by_alias ms (ma_alias a) = Some a"
  using by_alias_ex [of a ms] by_alias_SomeD [of ms "ma_alias a"]
  by (metis distinct_map inj_on_def)

definition primary_enabled :: "monitor_alias list \<Rightarrow> monitor_compose \<Rightarrow> bool" where
  "primary_enabled ms c \<longleftrightarrow> list_ex (\<lambda>m. ma_alias m = primary c \<and> ma_enabled m) ms"

lemma enabled_origin:
  assumes "primary_enabled ms c"
  shows "(0, 0) \<in> set (enabled_positions ms (res_pos (resolve_all ms c)))"
proof -
  obtain a where a: "a \<in> set ms" "ma_alias a = primary c" "ma_enabled a"
    using assms by (auto simp: primary_enabled_def list_ex_iff)
  then obtain b where "by_alias ms (primary c) = Some b" using by_alias_ex by metis
  then have "placed ms c (ma_alias a) (0, 0)" using a(2) by (simp add: placed_primary_iff)
  then show ?thesis
    using enabled_positionsI [of a ms "res_pos (resolve_all ms c)"] a(1,3) resolve_all_positions by metis
qed

text \<open>The shift that normalises the positions is the same for all monitors.\<close>

lemma compose_positions_shift:
  obtains dx dy where "0 \<le> dx" "0 \<le> dy"
    "\<And>a x y. a \<in> set ms \<Longrightarrow> ma_enabled a \<Longrightarrow> placed ms c (ma_alias a) (x, y) \<Longrightarrow>
       compose_positions ms c (ma_alias a) = Some (x + dx, y + dy)"
proof -
  obtain dx dy where s: "0 \<le> dx" "0 \<le> dy" "normalise ms (res_pos (resolve_all ms c)) =
      (\<lambda>n. map_option (\<lambda>(x, y). (x + dx, y + dy)) (res_pos (resolve_all ms c) n))"
    using normalise_shift by blast
  then show ?thesis using that resolve_all_positions by (simp add: compose_positions_def)
qed

text \<open>
  C6. A configuration that passes validation has a monitor layout: the search of the compose graph
  finds for every enabled monitor the position that the placement relation assigns to it (the primary
  monitor at the origin, every other one next to the monitor it refers to), all positions are moved by
  one common non-negative offset, and if the primary monitor is enabled, which validation does not require, no
  coordinate is negative.
\<close>
theorem validated_layout:
  assumes "validate_settings st = []"
  shows "\<exists>dx dy. 0 \<le> dx \<and> 0 \<le> dy \<and>
    (\<forall>a\<in>set (cfg_monitors st). ma_enabled a \<longrightarrow>
       (\<exists>x y. placed (cfg_monitors st) (cfg_compose st) (ma_alias a) (x, y) \<and>
          compose_positions (cfg_monitors st) (cfg_compose st) (ma_alias a) = Some (x + dx, y + dy) \<and>
          (primary_enabled (cfg_monitors st) (cfg_compose st) \<longrightarrow> 0 \<le> x + dx \<and> 0 \<le> y + dy)))"
proof -
  let ?ms = "cfg_monitors st" and ?c = "cfg_compose st"
  have v: "validated ?ms ?c (cfg_workspaces st)" by (rule validate_settings_validated [OF assms])
  obtain dx dy where d: "0 \<le> dx" "0 \<le> dy" "\<And>a x y. a \<in> set ?ms \<Longrightarrow> ma_enabled a \<Longrightarrow>
      placed ?ms ?c (ma_alias a) (x, y) \<Longrightarrow> compose_positions ?ms ?c (ma_alias a) = Some (x + dx, y + dy)"
    by (rule compose_positions_shift [of ?ms ?c]) (rule that)
  have "\<exists>x y. placed ?ms ?c (ma_alias a) (x, y) \<and> compose_positions ?ms ?c (ma_alias a) = Some (x + dx, y + dy) \<and>
      (primary_enabled ?ms ?c \<longrightarrow> 0 \<le> x + dx \<and> 0 \<le> y + dy)" if a: "a \<in> set ?ms" "ma_enabled a" for a
  proof -
    obtain x y where p: "placed ?ms ?c (ma_alias a) (x, y)"
      using v a by (auto simp: validated_def placeable_def)
    note q = d(3) [OF a p]
    then have "primary_enabled ?ms ?c \<longrightarrow> 0 \<le> x + dx \<and> 0 \<le> y + dy"
      using normalise_nonneg [OF enabled_origin a] by (simp add: compose_positions_def)
    with p q show ?thesis by blast
  qed
  with d(1,2) show ?thesis by blast
qed

text \<open>A store with two monitors, the second to the left of the first, which is turned.\<close>

definition ex_config :: "string \<Rightarrow> runtime_store" where
  "ex_config rot =
     [(''compose_monitors'', Compose_Setting (mk_typed_setting \<lparr>primary = ''p'', compose_layout =
         [\<lparr>link_monitor = ''q'', relative_to = ''p'', link_side = ''left'', link_shift = 0\<rparr>,
          \<lparr>link_monitor = ''r'', relative_to = ''p'', link_side = ''right'', link_shift = 10\<rparr>], defined = True\<rparr>)),
      (''monitors'', Monitors_Setting (mk_typed_setting
         [\<lparr>ma_alias = ''p'', ma_output = ''A'', ma_width = 1920, ma_height = 1080, ma_rate = 60, ma_rotation = rot, ma_enabled = True\<rparr>,
          \<lparr>ma_alias = ''q'', ma_output = ''B'', ma_width = 1280, ma_height = 1024, ma_rate = 60, ma_rotation = ''normal'', ma_enabled = True\<rparr>,
          \<lparr>ma_alias = ''r'', ma_output = ''C'', ma_width = 800, ma_height = 600, ma_rate = 60, ma_rotation = ''normal'', ma_enabled = True\<rparr>])),
      (''workspaces'', Workspaces_Setting (mk_typed_setting [\<lparr>def_name = ''w'', def_monitor = ''p''\<rparr>]))]"

lemma ex_config_valid: "validate_settings (ex_config ''left'') = []"
  by code_simp

theorem validated_layout_witness:
  "\<exists>dx dy. 0 \<le> dx \<and> 0 \<le> dy \<and>
    (\<forall>a\<in>set (cfg_monitors (ex_config ''left'')). \<exists>x y.
       compose_positions (cfg_monitors (ex_config ''left'')) (cfg_compose (ex_config ''left'')) (ma_alias a) = Some (x + dx, y + dy) \<and>
       0 \<le> x + dx \<and> 0 \<le> y + dy)"
proof -
  have en: "\<forall>a\<in>set (cfg_monitors (ex_config ''left'')). ma_enabled a"
    "primary_enabled (cfg_monitors (ex_config ''left'')) (cfg_compose (ex_config ''left''))" by code_simp+
  obtain dx dy where d: "0 \<le> dx" "0 \<le> dy" and pos: "\<And>a. a \<in> set (cfg_monitors (ex_config ''left'')) \<Longrightarrow> ma_enabled a \<Longrightarrow>
      \<exists>x y. placed (cfg_monitors (ex_config ''left'')) (cfg_compose (ex_config ''left'')) (ma_alias a) (x, y) \<and>
        compose_positions (cfg_monitors (ex_config ''left'')) (cfg_compose (ex_config ''left'')) (ma_alias a) = Some (x + dx, y + dy) \<and>
        (primary_enabled (cfg_monitors (ex_config ''left'')) (cfg_compose (ex_config ''left'')) \<longrightarrow> 0 \<le> x + dx \<and> 0 \<le> y + dy)"
    using validated_layout [OF ex_config_valid] by blast
  show ?thesis
  proof (rule exI [of _ dx], rule exI [of _ dy], intro conjI ballI)
    fix a assume "a \<in> set (cfg_monitors (ex_config ''left''))"
    with pos [of a] en show "\<exists>x y. compose_positions (cfg_monitors (ex_config ''left'')) (cfg_compose (ex_config ''left''))
        (ma_alias a) = Some (x + dx, y + dy) \<and> 0 \<le> x + dx \<and> 0 \<le> y + dy" by metis
  qed (fact d)+
qed

definition overlap :: "vec2i \<Rightarrow> vec2i \<Rightarrow> vec2i \<Rightarrow> vec2i \<Rightarrow> bool" where
  "overlap p sz p' sz' \<longleftrightarrow>
     fst p < fst p' + fst sz' \<and> fst p' < fst p + fst sz \<and> snd p < snd p' + snd sz' \<and> snd p' < snd p + snd sz"

lemma beside_disjoint: "beside l self rel rp = Some p \<Longrightarrow> \<not> overlap p (rotated_size self) rp (rotated_size rel)"
  by (auto simp: beside_def overlap_def split: prod.splits if_splits)

text \<open>
  In the layout of a validated configuration a monitor never covers the monitor it is placed next
  to: the rectangles of two enabled monitors joined by a compose link, with width and height exchanged
  where the monitor is rotated, are disjoint.
\<close>
theorem linked_monitors_disjoint:
  assumes "validate_settings st = []" and "a \<in> set (cfg_monitors st)" and "b \<in> set (cfg_monitors st)"
    and "ma_enabled a" and "ma_enabled b" and "ma_alias a \<noteq> primary (cfg_compose st)"
    and "by_monitor (cfg_compose st) (ma_alias a) = Some l" and "relative_to l = ma_alias b"
  shows "\<exists>p q. compose_positions (cfg_monitors st) (cfg_compose st) (ma_alias a) = Some p \<and>
    compose_positions (cfg_monitors st) (cfg_compose st) (ma_alias b) = Some q \<and>
    \<not> overlap p (rotated_size a) q (rotated_size b)"
proof -
  let ?ms = "cfg_monitors st" and ?c = "cfg_compose st"
  have v: "validated ?ms ?c (cfg_workspaces st)" by (rule validate_settings_validated [OF assms(1)])
  then have dist: "distinct (map ma_alias ?ms)" by (simp add: validated_def)
  obtain x y where p: "placed ?ms ?c (ma_alias a) (x, y)" using v assms(2,4) by (auto simp: validated_def placeable_def)
  obtain rel rp where r: "by_alias ?ms (relative_to l) = Some rel" "placed ?ms ?c (relative_to l) rp" "beside l a rel rp = Some (x, y)"
    using iffD1 [OF placed_beside_iff [OF assms(6) by_alias_distinct [OF dist assms(2)] assms(7)] p] by blast
  have "rel = b" using r(1) by_alias_distinct [OF dist assms(3)] assms(8) by simp
  moreover obtain u w where "rp = (u, w)" by fastforce
  ultimately have q: "placed ?ms ?c (ma_alias b) (u, w)" and n: "beside l a b (u, w) = Some (x, y)"
    using r(2,3) unfolding assms(8) by blast+
  obtain dx dy where "0 \<le> dx" "0 \<le> dy" and d: "\<And>a x y. a \<in> set ?ms \<Longrightarrow> ma_enabled a \<Longrightarrow>
      placed ?ms ?c (ma_alias a) (x, y) \<Longrightarrow> compose_positions ?ms ?c (ma_alias a) = Some (x + dx, y + dy)"
    by (rule compose_positions_shift [of ?ms ?c]) (rule that)
  have "\<not> overlap (x + dx, y + dy) (rotated_size a) (u + dx, w + dy) (rotated_size b)"
    using beside_disjoint [OF n] by (simp add: overlap_def)
  with d [OF assms(2,4) p] d [OF assms(3,5) q] show ?thesis by blast
qed

theorem linked_monitors_disjoint_witness:
  "let st = ex_config ''left''; a = cfg_monitors st ! 1; b = cfg_monitors st ! 0 in
   \<exists>p q. compose_positions (cfg_monitors st) (cfg_compose st) (ma_alias a) = Some p \<and>
    compose_positions (cfg_monitors st) (cfg_compose st) (ma_alias b) = Some q \<and>
    \<not> overlap p (rotated_size a) q (rotated_size b)"
proof -
  let ?st = "ex_config ''left''"
  let ?l = "\<lparr>link_monitor = ''q'', relative_to = ''p'', link_side = ''left'', link_shift = 0\<rparr>"
  have "cfg_monitors ?st ! 1 \<in> set (cfg_monitors ?st)" "cfg_monitors ?st ! 0 \<in> set (cfg_monitors ?st)"
    "ma_enabled (cfg_monitors ?st ! 1)" "ma_enabled (cfg_monitors ?st ! 0)"
    "ma_alias (cfg_monitors ?st ! 1) \<noteq> primary (cfg_compose ?st)"
    "by_monitor (cfg_compose ?st) (ma_alias (cfg_monitors ?st ! 1)) = Some ?l" "relative_to ?l = ma_alias (cfg_monitors ?st ! 0)"
    by code_simp+
  from linked_monitors_disjoint [OF ex_config_valid this] show ?thesis by (simp only: Let_def)
qed

text \<open>
  Rotations are checked without regard to case but used with it: a configuration that spells the
  rotation of the primary monitor \<^verbatim>\<open>Left\<close> passes validation exactly as \<^verbatim>\<open>left\<close> does, yet the monitor is laid
  out as if it were not rotated, so its right neighbour is placed 840 pixels further to the right.
\<close>
theorem rotation_case_ignored:
  "validate_settings (ex_config ''Left'') = [] \<and> validate_settings (ex_config ''left'') = [] \<and>
   map ml_pos (build (cfg_monitors (ex_config ''left'')) (cfg_compose (ex_config ''left''))) =
     [(1280, 0), (0, 0), (2360, 10)] \<and>
   map ml_pos (build (cfg_monitors (ex_config ''Left'')) (cfg_compose (ex_config ''Left''))) =
     [(1280, 0), (0, 0), (3200, 10)]"
  by code_simp

section \<open>Parsing\<close>

text \<open>
  C22. The configuration parsers lose nothing: a monitor list, a compose graph and a workspace list that
  meet the parsers' conditions are read back unchanged from their runtime values, and what the monitor
  parser accepts meets those conditions (sizes positive and within 32 bits, a valid rotation).
\<close>
theorem config_round_trip:
  assumes "\<forall>m\<in>set ms. monitor_ok m" and "defined c" and "\<forall>l\<in>set (compose_layout c). link_ok l"
    and "\<forall>d\<in>set ds. def_name d \<noteq> []"
  shows "parse_monitors_runtime (RArray (map encode_monitor ms)) = Inr ms \<and>
    parse_compose_runtime (encode_compose c) = Inr c \<and>
    parse_workspaces_runtime (RArray (map encode_workspace ds)) = Inr ds \<and>
    (\<forall>v ms'. parse_monitors_runtime v = Inr ms' \<longrightarrow> (\<forall>m\<in>set ms'. monitor_ok m))"
  using assms parse_encode_monitors parse_encode_compose parse_encode_workspaces parse_monitors_ok by auto

theorem config_round_trip_witness:
  "parse_monitors_runtime (RArray (map encode_monitor (cfg_monitors (ex_config ''left'')))) = Inr (cfg_monitors (ex_config ''left'')) \<and>
   parse_compose_runtime (encode_compose (cfg_compose (ex_config ''left''))) = Inr (cfg_compose (ex_config ''left''))"
proof -
  have "\<forall>m\<in>set (cfg_monitors (ex_config ''left'')). monitor_ok m" "defined (cfg_compose (ex_config ''left''))"
    "\<forall>l\<in>set (compose_layout (cfg_compose (ex_config ''left''))). link_ok l"
    "\<forall>d\<in>set (cfg_workspaces (ex_config ''left'')). def_name d \<noteq> []" by code_simp+
  from config_round_trip [OF this] show ?thesis by blast
qed

text \<open>
  A workspace whose name is a string that Lua can read as a number is refused: the conversion tests
  for numbers before strings, so the name arrives as a number and the workspace parser reports that it
  must be a string. Any other non-empty name is accepted.
\<close>
theorem numeric_name_refused:
  "runtime_value_from_lua tonum (LTable 1 [(LInt 1, LTable 0 [(LString ''name'', LString s)])]) =
     Converted (RArray [RObject [(''name'', case tonum s of Some d \<Rightarrow> RNum d | None \<Rightarrow> RString s)]]) \<and>
   parse_workspaces_runtime (RArray [RObject [(''name'', case tonum s of Some d \<Rightarrow> RNum d | None \<Rightarrow> RString s)]]) =
     (if tonum s = None \<and> s \<noteq> [] then Inr [\<lparr>def_name = s, def_monitor = []\<rparr>]
      else Inl (''workspaces[1]: '' @ quoted ''name'' @ '' must be a non-empty string''))"
proof -
  have o: "entry_origin ''workspaces'' 0 = ''workspaces[1]''" by code_simp
  show ?thesis
    by (cases "tonum s") (auto simp: runtime_value_from_lua_def runtime_value_from_lua_impl.simps kMaxRuntimeDepth_def array_like_def
        raw_geti_def emplace_def parse_workspaces_runtime_def parse_workspace_def o read_defs)
qed

end
