(* ===== verification/Restart_State.thy ===== *)
theory Restart_State
  imports Core_Reachable Config_Parse
begin

text \<open>
  The state file that survives an exec-restart: written by \<^verbatim>\<open>Runtime::save_restart_state\<close>
  (\<^verbatim>\<open>core/src/runtime/runtime.cpp\<close>), read by \<^verbatim>\<open>load_restart_state\<close> of the X11 backend
  (\<^verbatim>\<open>backends/x11/src/backend/adopt.cpp\<close>).

  The file is a string. Formatted input is modelled on characters: white space is skipped, a number is an
  optional sign and the longest run of digits, and a failed extraction leaves the stream failed, with the
  value the standard prescribes (0 when there are no digits, the nearest bound when out of range,
  untouched at the end of the input).
\<close>

section \<open>Writing\<close>

definition newline :: char where
  "newline = CHR 0x0A"

definition mon_line :: "int \<Rightarrow> workspace_id \<Rightarrow> string" where
  "mon_line i w = ''MON '' @ int_to_string i @ '' '' @ int_to_string w @ [newline]"

definition flag :: "bool \<Rightarrow> string" where
  "flag b = int_to_string (if b then 1 else 0)"

record restart_win_state =
  rw_ws_id :: int
  rw_floating :: bool
  rw_fullscreen :: bool
  rw_hidden_explicitly :: bool
  rw_borderless :: bool

definition window_line :: "window_id \<Rightarrow> restart_win_state \<Rightarrow> string" where
  "window_line win w =
     ''WINDOW '' @ int_to_string (uint win) @ '' '' @ int_to_string (rw_ws_id w) @ '' '' @ flag (rw_floating w) @
     '' '' @ flag (rw_fullscreen w) @ '' '' @ flag (rw_hidden_explicitly w) @ '' '' @ flag (rw_borderless w) @ [newline]"

text \<open>What is saved of one window; \<open>None\<close> where the loop skips it.\<close>

definition saved_window :: "core \<Rightarrow> window_id \<Rightarrow> restart_win_state option" where
  "saved_window c win =
     (let wsi = workspace_of_window (wm c) win in
      if wsi < 0 then None
      else case find_window_in_all (wm c) win of
        None \<Rightarrow> Some \<lparr>rw_ws_id = wsi, rw_floating = False, rw_fullscreen = False, rw_hidden_explicitly = False,
                      rw_borderless = False\<rparr>
      | Some p \<Rightarrow>
          (let w = win_at c p in
           if borderless w \<and> self_managed w then None
           else Some \<lparr>rw_ws_id = wsi, rw_floating = floating w, rw_fullscreen = fullscreen w,
                      rw_hidden_explicitly = hidden_explicitly w, rw_borderless = borderless w\<rparr>))"

fun window_lines :: "core \<Rightarrow> window_id list \<Rightarrow> window_id list \<Rightarrow> string" where
  "window_lines c seen [] = []"
| "window_lines c seen (win # wins) =
     (if win \<in> set seen then window_lines c seen wins
      else (case saved_window c win of None \<Rightarrow> [] | Some w \<Rightarrow> window_line win w) @ window_lines c (win # seen) wins)"

definition restart_contents :: "core \<Rightarrow> string" where
  "restart_contents c =
     concat (map (\<lambda>i. mon_line (int i) (active_ws (monitors (wm c) ! i))) [0..<length (monitors (wm c))]) @
     window_lines c [] (all_window_ids c)"

text \<open>\<open>creatable\<close> and \<open>writable\<close> are the outcomes of the two opens; the first one truncates the file.\<close>

definition save_restart_state :: "bool \<Rightarrow> bool \<Rightarrow> core \<Rightarrow> string option \<Rightarrow> string option" where
  "save_restart_state creatable writable c file =
     (if \<not> creatable then file else if \<not> writable then Some [] else Some (restart_contents c))"

section \<open>Reading\<close>

definition is_space :: "char \<Rightarrow> bool" where
  "is_space ch \<longleftrightarrow> ch \<in> {CHR '' '', CHR 0x09, CHR 0x0A, CHR 0x0B, CHR 0x0C, CHR 0x0D}"

definition is_digit :: "char \<Rightarrow> bool" where
  "is_digit ch \<longleftrightarrow> 48 \<le> (of_char ch :: nat) \<and> (of_char ch :: nat) \<le> 57"

definition digits_value :: "string \<Rightarrow> nat" where
  "digits_value ds = foldl (\<lambda>n ch. 10 * n + (of_char ch - 48)) 0 ds"

text \<open>\<^verbatim>\<open>in >> token\<close>\<close>

definition read_token :: "string \<Rightarrow> (string \<times> string) option" where
  "read_token s =
     (let s1 = dropWhile is_space s in
      if s1 = [] then None
      else Some (takeWhile (\<lambda>ch. \<not> is_space ch) s1, dropWhile (\<lambda>ch. \<not> is_space ch) s1))"

definition split_sign :: "string \<Rightarrow> bool \<times> string" where
  "split_sign s = (case s of
      [] \<Rightarrow> (False, [])
    | ch # r \<Rightarrow> if ch = CHR ''-'' then (True, r) else if ch = CHR ''+'' then (False, r) else (False, s))"

text \<open>\<^verbatim>\<open>in >> i\<close>: the value written, if any, and the rest of the stream, if it has not failed.\<close>

definition read_number :: "(bool \<Rightarrow> nat \<Rightarrow> int + int) \<Rightarrow> string \<Rightarrow> int option \<times> string option" where
  "read_number conv s =
     (let s1 = dropWhile is_space s in
      if s1 = [] then (None, None)
      else case split_sign s1 of (neg, s2) \<Rightarrow>
        (let ds = takeWhile is_digit s2 in
         if ds = [] then (Some 0, None)
         else case conv neg (digits_value ds) of
           Inl v \<Rightarrow> (Some v, None)
         | Inr v \<Rightarrow> (Some v, Some (dropWhile is_digit s2))))"

definition conv_int :: "bool \<Rightarrow> nat \<Rightarrow> int + int" where
  "conv_int neg n =
     (let v = (if neg then - int n else int n) in
      if v > 2 ^ 31 - 1 then Inl (2 ^ 31 - 1) else if v < - (2 ^ 31) then Inl (- (2 ^ 31)) else Inr v)"

definition conv_uint32 :: "bool \<Rightarrow> nat \<Rightarrow> int + int" where
  "conv_uint32 neg n =
     (if int n > 2 ^ 32 - 1 then Inl (2 ^ 32 - 1)
      else Inr (if neg then (- int n) mod 2 ^ 32 else int n))"

definition read_int :: "string \<Rightarrow> int option \<times> string option" where
  "read_int = read_number conv_int"

definition read_uint32 :: "string \<Rightarrow> int option \<times> string option" where
  "read_uint32 = read_number conv_uint32"

text \<open>An extraction into a variable that keeps its value when the stream has failed already.\<close>

definition next_int :: "int \<times> string option \<Rightarrow> int \<Rightarrow> int \<times> string option" where
  "next_int prev cur =
     (case snd prev of
        None \<Rightarrow> (cur, None)
      | Some s \<Rightarrow> (case read_int s of (w, rest) \<Rightarrow> (case w of Some v \<Rightarrow> v | None \<Rightarrow> cur, rest)))"

definition getline :: "string \<Rightarrow> (string \<times> string) option" where
  "getline s =
     (if s = [] then None
      else Some (takeWhile (\<lambda>ch. ch \<noteq> newline) s, drop 1 (dropWhile (\<lambda>ch. ch \<noteq> newline) s)))"

record restart_state =
  rs_windows :: "window_id \<rightharpoonup> restart_win_state"
  rs_monitor_active_ws :: "monitor_id \<rightharpoonup> workspace_id"
  had_file :: bool

definition parse_window_line :: "string \<Rightarrow> restart_state \<Rightarrow> restart_state" where
  "parse_window_line line st =
     (case read_uint32 line of
        (Some win, Some l1) \<Rightarrow>
          (let ws = next_int (0, Some l1) (- 1); fl = next_int ws 0 in
           if snd fl = None then st
           else
             let fs = next_int fl 0; he = next_int fs 0; bl = next_int he 0 in
             st\<lparr>rs_windows := (rs_windows st)(word_of_int win \<mapsto>
                \<lparr>rw_ws_id = fst ws, rw_floating = (fst fl \<noteq> 0), rw_fullscreen = (fst fs \<noteq> 0),
                 rw_hidden_explicitly = (fst he \<noteq> 0), rw_borderless = (fst bl \<noteq> 0)\<rparr>)\<rparr>)
      | _ \<Rightarrow> st)"

lemma length_dropWhile_token: "read_token s = Some (tok, r) \<Longrightarrow> length r < length s"
proof -
  assume "read_token s = Some (tok, r)"
  then have ne: "dropWhile is_space s \<noteq> []" and r: "r = dropWhile (\<lambda>ch. \<not> is_space ch) (dropWhile is_space s)"
    by (auto simp: read_token_def Let_def split: if_splits)
  from ne obtain ch xs where d: "dropWhile is_space s = ch # xs" by (cases "dropWhile is_space s") auto
  then have "\<not> is_space ch" by (metis dropWhile_eq_Cons_conv)
  then have "length r \<le> length xs" using r d by (simp add: length_dropWhile_le)
  moreover have "length (dropWhile is_space s) \<le> length s" by (rule length_dropWhile_le)
  ultimately show "length r < length s" using d by simp
qed

lemma length_read_number: "read_number conv s = (v, Some r) \<Longrightarrow> length r \<le> length s"
proof -
  assume a: "read_number conv s = (v, Some r)"
  let ?s1 = "dropWhile is_space s"
  have "r = dropWhile is_digit (snd (split_sign ?s1))"
    using a by (auto simp: read_number_def Let_def split: if_splits prod.splits sum.splits)
  then have "length r \<le> length (snd (split_sign ?s1))" by (simp add: length_dropWhile_le)
  also have "\<dots> \<le> length ?s1" by (auto simp: split_sign_def split: list.splits)
  also have "\<dots> \<le> length s" by (rule length_dropWhile_le)
  finally show "length r \<le> length s" .
qed

function load_loop :: "string \<Rightarrow> restart_state \<Rightarrow> restart_state" where
  "load_loop s st =
     (case read_token s of
        None \<Rightarrow> st
      | Some (token, r) \<Rightarrow>
          if token = ''MON'' then
            (case read_int r of
               (Some mon_idx, Some r1) \<Rightarrow>
                 (case read_int r1 of
                    (Some wsi, Some r2) \<Rightarrow>
                      load_loop r2 (st\<lparr>rs_monitor_active_ws := (rs_monitor_active_ws st)(mon_idx \<mapsto> wsi)\<rparr>)
                  | _ \<Rightarrow> st)
             | _ \<Rightarrow> st)
          else if token = ''WINDOW'' then
            (case getline r of
               None \<Rightarrow> st
             | Some (line, r1) \<Rightarrow> load_loop r1 (parse_window_line line st))
          else load_loop r st)"
  by pat_completeness auto

termination
proof (relation "measure (\<lambda>(s, st). length s)", goal_cases)
  case (2 s st tr token r v r1o mon_idx r1 v' r2o wsi r2)
  then show ?case
    using length_dropWhile_token [of s token r]
      length_read_number [of conv_int r "Some mon_idx" r1] length_read_number [of conv_int r1 "Some wsi" r2]
    by (auto simp: read_int_def)
next
  case (3 s st tr token r lr line r1)
  then have "length r1 \<le> length r"
    by (auto simp: getline_def split: if_splits) (metis diff_le_self le_trans length_dropWhile_le length_tl)
  then show ?case using 3 length_dropWhile_token [of s token r] by auto
next
  case (4 s st tr token r)
  then show ?case using length_dropWhile_token [of s token r] by auto
qed simp

declare load_loop.simps [simp del]

text \<open>\<open>None\<close> is a missing file; reading removes the file.\<close>

definition load_restart_state :: "string option \<Rightarrow> restart_state" where
  "load_restart_state file =
     (case file of
        None \<Rightarrow> \<lparr>rs_windows = Map.empty, rs_monitor_active_ws = Map.empty, had_file = False\<rparr>
      | Some s \<Rightarrow> load_loop s \<lparr>rs_windows = Map.empty, rs_monitor_active_ws = Map.empty, had_file = True\<rparr>)"

section \<open>Reading back what was written\<close>

lemma is_digit_char_of: "d < 10 \<Longrightarrow> is_digit (char_of (48 + d :: nat)) \<and> (of_char (char_of (48 + d) :: char) :: nat) = 48 + d"
  by (simp add: is_digit_def)

lemma digits_value_snoc: "digits_value (ds @ [ch]) = 10 * digits_value ds + (of_char ch - 48)"
  by (simp add: digits_value_def)

lemma to_string_digits: "to_string n \<noteq> [] \<and> list_all is_digit (to_string n) \<and> digits_value (to_string n) = n"
proof (induction n rule: to_string.induct)
  case (1 n)
  show ?case
  proof (cases "n < 10")
    case True
    then show ?thesis
      using is_digit_char_of [OF True] by (simp add: to_string.simps [of n] digits_value_def)
  next
    case False
    then have "digits_value (to_string n) = 10 * (n div 10) + n mod 10"
      using 1 is_digit_char_of [of "n mod 10"] by (simp add: to_string.simps [of n] digits_value_snoc)
    then show ?thesis
      using 1 False is_digit_char_of [of "n mod 10"] by (simp add: to_string.simps [of n])
  qed
qed

lemma digit_chars: "is_digit ch \<Longrightarrow> \<not> is_space ch \<and> ch \<noteq> CHR ''-'' \<and> ch \<noteq> CHR ''+'' \<and> ch \<noteq> newline"
  by (auto simp: is_digit_def is_space_def newline_def)

text \<open>Where a number ends.\<close>

definition ends_number :: "string \<Rightarrow> bool" where
  "ends_number r \<longleftrightarrow> (case r of [] \<Rightarrow> True | ch # _ \<Rightarrow> \<not> is_digit ch)"

lemma digits_prefix:
  assumes "list_all is_digit ds" and "ends_number r"
  shows "takeWhile is_digit (ds @ r) = ds" and "dropWhile is_digit (ds @ r) = r"
proof -
  have *: "takeWhile is_digit r = []" "dropWhile is_digit r = r"
    using assms(2) by (cases r, simp_all add: ends_number_def)+
  have "\<forall>x\<in>set ds. is_digit x" using assms(1) by (simp add: list_all_iff)
  then show "takeWhile is_digit (ds @ r) = ds" "dropWhile is_digit (ds @ r) = r"
    by (simp_all add: takeWhile_append2 dropWhile_append2 *)
qed

lemma read_number_nat:
  assumes "ends_number r"
  shows "read_number conv (CHR '' '' # to_string n @ r) =
    (case conv False n of Inl v \<Rightarrow> (Some v, None) | Inr v \<Rightarrow> (Some v, Some r))"
proof -
  obtain ch ds where ds: "to_string n = ch # ds" using to_string_digits [of n] by (cases "to_string n") auto
  then have "is_digit ch" using to_string_digits [of n] by simp
  from digit_chars [OF this] have "dropWhile is_space (CHR '' '' # to_string n @ r) = to_string n @ r"
    "split_sign (to_string n @ r) = (False, to_string n @ r)"
    by (auto simp: ds is_space_def split_sign_def)
  then show ?thesis
    using digits_prefix [of "to_string n", OF _ assms] to_string_digits [of n]
    by (simp add: read_number_def Let_def split: sum.splits)
qed

lemma read_number_neg:
  assumes "ends_number r"
  shows "read_number conv (CHR '' '' # CHR ''-'' # to_string n @ r) =
    (case conv True n of Inl v \<Rightarrow> (Some v, None) | Inr v \<Rightarrow> (Some v, Some r))"
proof -
  have "dropWhile is_space (CHR '' '' # CHR ''-'' # to_string n @ r) = CHR ''-'' # to_string n @ r"
    "split_sign (CHR ''-'' # to_string n @ r) = (True, to_string n @ r)"
    by (auto simp: is_space_def split_sign_def)
  then show ?thesis
    using digits_prefix [of "to_string n", OF _ assms] to_string_digits [of n]
    by (simp add: read_number_def Let_def split: sum.splits)
qed

lemma read_int_print:
  "int32 v \<Longrightarrow> ends_number r \<Longrightarrow> read_int (CHR '' '' # int_to_string v @ r) = (Some v, Some r)"
  by (auto simp: int_to_string_def read_int_def read_number_nat read_number_neg conv_int_def int32_def Let_def)

lemma read_uint32_print:
  "0 \<le> v \<Longrightarrow> v < 2 ^ 32 \<Longrightarrow> ends_number r \<Longrightarrow> read_uint32 (CHR '' '' # int_to_string v @ r) = (Some v, Some r)"
  by (auto simp: int_to_string_def read_uint32_def read_number_nat conv_uint32_def)

lemma ends_number_simps [simp]:
  "ends_number []" "ends_number (CHR '' '' # r)" "ends_number (newline # r)"
  by (simp_all add: ends_number_def is_digit_def newline_def)

lemma read_flag [simp]: "ends_number r \<Longrightarrow> read_int (CHR '' '' # flag b @ r) = (Some (if b then 1 else 0), Some r)"
  unfolding flag_def by (rule read_int_print) (auto simp: int32_def)

text \<open>One line at a time.\<close>

lemma load_loop_blank: "load_loop (newline # s) st = load_loop s st"
proof -
  have "read_token (newline # s) = read_token s" by (simp add: read_token_def is_space_def newline_def)
  then show ?thesis by (simp add: load_loop.simps [of "newline # s"] load_loop.simps [of s])
qed

lemma read_token_word:
  "\<forall>ch\<in>set w. \<not> is_space ch \<Longrightarrow> w \<noteq> [] \<Longrightarrow> read_token (w @ CHR '' '' # r) = Some (w, CHR '' '' # r)"
  by (cases w) (auto simp: read_token_def is_space_def takeWhile_append2 dropWhile_append2)

lemma load_loop_mon:
  assumes "int32 i" and "int32 w"
  shows "load_loop (mon_line i w @ s) st =
    load_loop s (st\<lparr>rs_monitor_active_ws := (rs_monitor_active_ws st)(i \<mapsto> w)\<rparr>)"
proof -
  let ?r1 = "CHR '' '' # int_to_string w @ newline # s"
  let ?r = "CHR '' '' # int_to_string i @ ?r1"
  have line: "mon_line i w @ s = ''MON'' @ ?r" by (simp add: mon_line_def)
  have "read_token (''MON'' @ ?r) = Some (''MON'', ?r)" by (rule read_token_word) (auto simp: is_space_def)
  moreover have "read_int ?r = (Some i, Some ?r1)" by (rule read_int_print [OF assms(1)]) simp
  moreover have "read_int ?r1 = (Some w, Some (newline # s))" by (rule read_int_print [OF assms(2)]) simp
  ultimately show ?thesis unfolding line by (subst load_loop.simps) (simp add: load_loop_blank)
qed

lemma no_newline_to_string: "newline \<notin> set (int_to_string i)"
proof -
  have "newline \<notin> set (to_string n)" for n
    using to_string_digits [of n] digit_chars by (auto simp: list_all_iff)
  then show ?thesis by (auto simp: int_to_string_def) (auto simp: newline_def)
qed

lemma getline_line: "newline \<notin> set l \<Longrightarrow> getline (l @ newline # s) = Some (l, s)"
proof -
  assume "newline \<notin> set l"
  then have "takeWhile (\<lambda>ch. ch \<noteq> newline) (l @ newline # s) = l \<and>
             dropWhile (\<lambda>ch. ch \<noteq> newline) (l @ newline # s) = newline # s"
    by (induction l) auto
  then show "getline (l @ newline # s) = Some (l, s)" by (simp add: getline_def)
qed

lemma load_loop_window:
  assumes "int32 (rw_ws_id w)"
  shows "load_loop (window_line win w @ s) st = load_loop s (st\<lparr>rs_windows := (rs_windows st)(win \<mapsto> w)\<rparr>)"
proof -
  let ?f5 = "CHR '' '' # flag (rw_borderless w) @ []"
  let ?f4 = "CHR '' '' # flag (rw_hidden_explicitly w) @ ?f5"
  let ?f3 = "CHR '' '' # flag (rw_fullscreen w) @ ?f4"
  let ?f2 = "CHR '' '' # flag (rw_floating w) @ ?f3"
  let ?f1 = "CHR '' '' # int_to_string (rw_ws_id w) @ ?f2"
  let ?l = "CHR '' '' # int_to_string (uint win) @ ?f1"
  have line: "window_line win w @ s = ''WINDOW'' @ CHR '' '' # (int_to_string (uint win) @ ?f1 @ newline # s)"
    by (simp add: window_line_def)
  have tok: "read_token (window_line win w @ s) = Some (''WINDOW'', ?l @ newline # s)"
    unfolding line by (subst read_token_word) (auto simp: is_space_def)
  have "newline \<notin> set ?l"
    using no_newline_to_string by (auto simp: flag_def) (auto simp: newline_def)
  then have gl: "getline (?l @ newline # s) = Some (?l, s)" by (rule getline_line)
  have "uint win < 2 ^ 32" using uint_lt2p [of win] by simp
  then have "read_uint32 ?l = (Some (uint win), Some ?f1)" by (intro read_uint32_print) simp_all
  moreover have "read_int ?f1 = (Some (rw_ws_id w), Some ?f2)" by (rule read_int_print [OF assms]) simp
  ultimately have "parse_window_line ?l st = st\<lparr>rs_windows := (rs_windows st)(win \<mapsto> w)\<rparr>"
    by (cases w) (auto simp: parse_window_line_def next_int_def Let_def simp del: append_Nil2)
  then show ?thesis using tok gl by (simp add: load_loop.simps [of "window_line win w @ s"])
qed

text \<open>All lines.\<close>

lemma load_loop_mons:
  assumes "\<And>i. i \<in> set is \<Longrightarrow> int32 (int i) \<and> int32 (f i)"
  shows "load_loop (concat (map (\<lambda>i. mon_line (int i) (f i)) is) @ s) st =
    load_loop s (st\<lparr>rs_monitor_active_ws :=
      rs_monitor_active_ws st ++ (\<lambda>m. if m \<in> int ` set is then Some (f (nat m)) else None)\<rparr>)"
  using assms
proof (induction "is" arbitrary: st)
  case (Cons i "is")
  let ?g = "\<lambda>is m. if m \<in> int ` set is then Some (f (nat m)) else None"
  let ?st = "st\<lparr>rs_monitor_active_ws := (rs_monitor_active_ws st)(int i \<mapsto> f i)\<rparr>"
  have eq: "(rs_monitor_active_ws st)(int i \<mapsto> f i) ++ ?g is = rs_monitor_active_ws st ++ ?g (i # is)"
    by (auto simp: map_add_def fun_eq_iff split: option.splits)
  have "load_loop (concat (map (\<lambda>i. mon_line (int i) (f i)) (i # is)) @ s) st =
        load_loop (concat (map (\<lambda>i. mon_line (int i) (f i)) is) @ s) ?st"
    using Cons.prems load_loop_mon [of "int i" "f i"] by simp
  also have "\<dots> = load_loop s (?st\<lparr>rs_monitor_active_ws := rs_monitor_active_ws ?st ++ ?g is\<rparr>)"
    using Cons.prems by (intro Cons.IH) simp
  also have "?st\<lparr>rs_monitor_active_ws := rs_monitor_active_ws ?st ++ ?g is\<rparr> =
             st\<lparr>rs_monitor_active_ws := rs_monitor_active_ws st ++ ?g (i # is)\<rparr>"
    using eq by simp
  finally show ?case .
qed (simp add: map_add_def)

lemma load_loop_windows:
  assumes "\<And>win w. saved_window c win = Some w \<Longrightarrow> int32 (rw_ws_id w)"
  shows "load_loop (window_lines c seen wins @ s) st =
    load_loop s (st\<lparr>rs_windows :=
      rs_windows st ++ (\<lambda>win. if win \<in> set wins - set seen then saved_window c win else None)\<rparr>)"
  using assms
proof (induction c seen wins arbitrary: st rule: window_lines.induct)
  case (1 c seen)
  then show ?case by (simp add: map_add_def)
next
  case (2 c seen win wins)
  let ?g = "\<lambda>seen wins win. if win \<in> set wins - set seen then saved_window c win else None"
  show ?case
  proof (cases "win \<in> set seen")
    case True
    then have "?g seen wins = ?g seen (win # wins)" by (auto simp: fun_eq_iff)
    then show ?thesis using True 2(1) [OF True] 2(3) by simp
  next
    case fresh: False
    show ?thesis
    proof (cases "saved_window c win")
      case None
      then have "?g (win # seen) wins = ?g seen (win # wins)" by (auto simp: fun_eq_iff)
      then show ?thesis using None fresh 2(2) [OF fresh] 2(3) by simp
    next
      case (Some w)
      let ?st = "st\<lparr>rs_windows := (rs_windows st)(win \<mapsto> w)\<rparr>"
      have eq: "rs_windows ?st ++ ?g (win # seen) wins = rs_windows st ++ ?g seen (win # wins)"
        using Some fresh by (auto simp: map_add_def fun_eq_iff split: option.splits)
      have "load_loop (window_lines c seen (win # wins) @ s) st = load_loop (window_lines c (win # seen) wins @ s) ?st"
        using Some fresh load_loop_window [OF 2(3) [OF Some]] by simp
      also have "\<dots> = load_loop s (?st\<lparr>rs_windows := rs_windows ?st ++ ?g (win # seen) wins\<rparr>)"
        using 2(3) by (intro 2(2) [OF fresh])
      also have "?st\<lparr>rs_windows := rs_windows ?st ++ ?g (win # seen) wins\<rparr> =
                 st\<lparr>rs_windows := rs_windows st ++ ?g seen (win # wins)\<rparr>"
        unfolding eq by simp
      finally show ?thesis .
    qed
  qed
qed

theorem load_save_restart_state:
  assumes "\<And>win w. saved_window c win = Some w \<Longrightarrow> int32 (rw_ws_id w)"
    and "int (length (monitors (wm c))) < 2 ^ 31" and "\<And>m. m \<in> set (monitors (wm c)) \<Longrightarrow> int32 (active_ws m)"
  shows "load_restart_state (save_restart_state True True c file) =
    \<lparr>rs_windows = (\<lambda>win. if win \<in> set (all_window_ids c) then saved_window c win else None),
     rs_monitor_active_ws = (\<lambda>m. if is_mon_valid (wm c) m then Some (active_ws (monitors (wm c) ! nat m)) else None),
     had_file = True\<rparr>"
proof -
  let ?n = "length (monitors (wm c))"
  have dom: "int ` set [0..<?n] = {m. is_mon_valid (wm c) m}"
    by (auto simp: is_mon_valid_def image_iff) (metis atLeastLessThan_iff le0 nat_less_iff nat_0_le)
  have "load_loop (restart_contents c @ []) st =
    load_loop [] (st\<lparr>rs_monitor_active_ws := rs_monitor_active_ws st ++
        (\<lambda>m. if m \<in> int ` set [0..<?n] then Some (active_ws (monitors (wm c) ! nat m)) else None),
      rs_windows := rs_windows st ++ (\<lambda>win. if win \<in> set (all_window_ids c) - set [] then saved_window c win else None)\<rparr>)"
    for st
    unfolding restart_contents_def append_assoc
    using assms by (subst load_loop_mons, force simp: int32_def) (subst load_loop_windows, auto)
  then show ?thesis
    unfolding dom by (simp add: load_restart_state_def save_restart_state_def load_loop.simps [of "[]"] read_token_def)
qed

end
