(* ===== verification/Event_Pipeline.thy ===== *)
theory Event_Pipeline
  imports Prelude
begin

text \<open>
  The event pipeline: \<^verbatim>\<open>PointerRegistry\<close> (\<^verbatim>\<open>core/include/runtime/pointer_registry.hpp\<close>), the hook registry
  (\<^verbatim>\<open>hook_registry.hpp\<close>) and \<^verbatim>\<open>EventQueue::drain\<close> (\<^verbatim>\<open>event_queue.hpp\<close>).

  \<open>drain_loop\<close> runs on any state that contains a queue. It need not end, since a delivery may post
  further events: \<open>partial_function\<close> gives \<open>None\<close> then. The locale \<open>fifo_sink\<close> is the queue's contract
  with its clients (a delivery can only append); inside it, delivery is first in first out, and the loop
  ends as soon as the posted events are of a lower rank than the event they react to.
\<close>

section \<open>Registries\<close>

text \<open>Pointers are numbers; the null pointer is 0.\<close>

type_synonym registry = "nat list"

definition registry_add :: "nat \<Rightarrow> registry \<Rightarrow> registry" where
  "registry_add item items =
     (if item = 0 then items else if item \<in> set items then items else items @ [item])"

definition registry_remove :: "nat \<Rightarrow> registry \<Rightarrow> registry" where
  "registry_remove item items = filter (\<lambda>x. x \<noteq> item) items"

definition registry_ok :: "registry \<Rightarrow> bool" where
  "registry_ok items \<longleftrightarrow> distinct items \<and> 0 \<notin> set items"

lemma registry_ok_Nil [simp]: "registry_ok []"
  by (simp add: registry_ok_def)

lemma registry_ok_add [inv_intros]: "registry_ok items \<Longrightarrow> registry_ok (registry_add item items)"
  by (auto simp: registry_ok_def registry_add_def)

lemma registry_ok_remove [inv_intros]: "registry_ok items \<Longrightarrow> registry_ok (registry_remove item items)"
  by (auto simp: registry_ok_def registry_remove_def)

lemma set_registry_add: "item \<noteq> 0 \<Longrightarrow> set (registry_add item items) = insert item (set items)"
  and set_registry_remove: "set (registry_remove item items) = set items - {item}"
  by (auto simp: registry_add_def registry_remove_def)

lemma registry_remove_add: "item \<notin> set items \<Longrightarrow> registry_remove item (registry_add item items) = items"
  by (induction items) (auto simp: registry_add_def registry_remove_def)

text \<open>\<^verbatim>\<open>HookRegistry::invoke\<close>: every receiver in registration order sees, and may change, the arguments and
  the state.\<close>

definition invoke_hook :: "(nat \<Rightarrow> 'h \<Rightarrow> 's \<Rightarrow> 'h \<times> 's) \<Rightarrow> registry \<Rightarrow> 'h \<Rightarrow> 's \<Rightarrow> 'h \<times> 's" where
  "invoke_hook on_hook receivers h s = fold (\<lambda>r (h, s). on_hook r h s) receivers (h, s)"

section \<open>Draining the queue\<close>

partial_function (option) drain_loop ::
  "('s \<Rightarrow> 'e list) \<Rightarrow> ('e list \<Rightarrow> 's \<Rightarrow> 's) \<Rightarrow> ('e \<Rightarrow> 's \<Rightarrow> 's) \<Rightarrow> 's \<Rightarrow> 's option" where
  "drain_loop queue set_queue broadcast s =
     (case queue s of
        [] \<Rightarrow> Some s
      | ev # rest \<Rightarrow> drain_loop queue set_queue broadcast (broadcast ev (set_queue rest s)))"

declare drain_loop.simps [code]

text \<open>A run of the loop with the events it delivered.\<close>

inductive drains ::
  "('s \<Rightarrow> 'e list) \<Rightarrow> ('e list \<Rightarrow> 's \<Rightarrow> 's) \<Rightarrow> ('e \<Rightarrow> 's \<Rightarrow> 's) \<Rightarrow> 's \<Rightarrow> 'e list \<Rightarrow> 's \<Rightarrow> bool"
  for queue set_queue broadcast where
  drains_empty: "queue s = [] \<Longrightarrow> drains queue set_queue broadcast s [] s"
| drains_step:
    "queue s = ev # rest \<Longrightarrow> drains queue set_queue broadcast (broadcast ev (set_queue rest s)) evs t \<Longrightarrow>
     drains queue set_queue broadcast s (ev # evs) t"

lemma drain_loop_iff: "drain_loop queue set_queue broadcast s = Some t \<longleftrightarrow> (\<exists>evs. drains queue set_queue broadcast s evs t)"
proof
  assume "\<exists>evs. drains queue set_queue broadcast s evs t"
  then obtain evs where "drains queue set_queue broadcast s evs t" ..
  then show "drain_loop queue set_queue broadcast s = Some t"
    by induction (simp_all add: drain_loop.simps)
next
  assume "drain_loop queue set_queue broadcast s = Some t"
  then show "\<exists>evs. drains queue set_queue broadcast s evs t"
    by (rule drain_loop.raw_induct [where P = "\<lambda>queue set_queue broadcast s t.
          \<exists>evs. drains queue set_queue broadcast s evs t", rotated])
       (simp split: list.splits, blast intro: drains.intros, meson drains_step)
qed

text \<open>The events a delivery added to the queue, and all those added during a run, in the order in which they
  were posted.\<close>

definition newly_posted :: "('s \<Rightarrow> 'e list) \<Rightarrow> ('e \<Rightarrow> 's \<Rightarrow> 's) \<Rightarrow> 'e \<Rightarrow> 's \<Rightarrow> 'e list" where
  "newly_posted queue broadcast ev s = drop (length (queue s)) (queue (broadcast ev s))"

fun posted_during ::
  "('s \<Rightarrow> 'e list) \<Rightarrow> ('e list \<Rightarrow> 's \<Rightarrow> 's) \<Rightarrow> ('e \<Rightarrow> 's \<Rightarrow> 's) \<Rightarrow> 's \<Rightarrow> 'e list \<Rightarrow> 'e list" where
  "posted_during queue set_queue broadcast s [] = []"
| "posted_during queue set_queue broadcast s (ev # evs) =
     newly_posted queue broadcast ev (set_queue (tl (queue s)) s) @
     posted_during queue set_queue broadcast (broadcast ev (set_queue (tl (queue s)) s)) evs"

locale fifo_sink =
  fixes queue :: "'s \<Rightarrow> 'e list" and set_queue :: "'e list \<Rightarrow> 's \<Rightarrow> 's" and broadcast :: "'e \<Rightarrow> 's \<Rightarrow> 's"
  assumes queue_set: "queue (set_queue q s) = q"
    and queue_broadcast: "queue (broadcast ev s) = queue s @ newly_posted queue broadcast ev s"
begin

abbreviation runs :: "'s \<Rightarrow> 'e list \<Rightarrow> 's \<Rightarrow> bool" where
  "runs \<equiv> drains queue set_queue broadcast"

lemma runs_fifo: "runs s evs t \<Longrightarrow> queue t = [] \<and> evs = queue s @ posted_during queue set_queue broadcast s evs"
proof (induction rule: drains.induct)
  case (drains_step s ev rest evs t)
  then show ?case using queue_broadcast [of ev "set_queue rest s"] by (simp add: queue_set)
qed simp

lemma runs_ends:
  assumes "\<And>ev s p. p \<in> set (newly_posted queue broadcast ev s) \<Longrightarrow> rank p < (rank ev :: nat)"
  shows "\<exists>evs t. runs s evs t"
proof -
  let ?r = "{(p, ev). rank p < rank ev}"
  have "wf ?r" by (rule wf_subset [OF wf_measure [of rank]]) auto
  then have "wf (inv_image (mult1 ?r) (\<lambda>s. mset (queue s)))" by (intro wf_inv_image wf_mult1)
  then show ?thesis
  proof (induction s)
    case (less s)
    show ?case
    proof (cases "queue s")
      case Nil
      then show ?thesis by (blast intro: drains_empty)
    next
      case (Cons ev rest)
      let ?s = "broadcast ev (set_queue rest s)"
      have "(mset rest + mset (newly_posted queue broadcast ev (set_queue rest s)), add_mset ev (mset rest)) \<in> mult1 ?r"
        by (rule mult1I [of _ ev "mset rest"]) (auto intro: assms)
      then have "(mset (queue ?s), mset (queue s)) \<in> mult1 ?r"
        using Cons queue_broadcast [of ev "set_queue rest s"] by (simp add: queue_set)
      from less [of ?s] this show ?thesis using Cons by (auto intro: drains_step)
    qed
  qed
qed

end

end
