(* ===== verification/Runtime.thy ===== *)
theory Runtime
  imports Core_Properties Settings_Validation Restart_State Event_Pipeline
begin

text \<open>
  \<^verbatim>\<open>class Runtime\<close> (\<^verbatim>\<open>core/src/runtime/runtime.cpp\<close>, \<^verbatim>\<open>core/include/runtime/runtime.hpp\<close>,
  \<^verbatim>\<open>runtime_state.hpp\<close>): the lifecycle of the window manager around the core.

  \<open>world\<close> is what callbacks can reach through the public interface: the core (whose \<open>event_queue\<close> is the
  runtime's queue, since the runtime is the core's event sink), the settings store, the modules, the
  request flags and the registries. \<open>runtime\<close> adds the private lifecycle state.

  The backend, the modules, the Lua host and the user's script are the record \<open>env\<close> of callbacks. A
  receiver can only add to the event queue: \<open>on_event\<close> returns the new world and the events it
  posted. Waiting, file descriptors, signals and log output are left out; an operation that can fail to
  return (an assertion, a delivery that never ends, an out-of-range access of
  \<^const>\<open>update_workspace_defs\<close>) gives an \<open>option\<close>.
\<close>

section \<open>Lifecycle states\<close>

datatype runtime_state = Idle | Configured | Starting | Running | Stopping | Stopped

fun runtime_state_index :: "runtime_state \<Rightarrow> nat" where
  "runtime_state_index Idle = 0"
| "runtime_state_index Configured = 1"
| "runtime_state_index Starting = 2"
| "runtime_state_index Running = 3"
| "runtime_state_index Stopping = 4"
| "runtime_state_index Stopped = 5"

definition runtime_transition_table :: "bool list list" where
  "runtime_transition_table =
     [[False, True,  False, False, False, False],
      [False, False, True,  False, False, False],
      [False, False, False, True,  False, False],
      [False, False, False, False, True,  False],
      [False, False, False, False, False, True],
      [False, False, False, False, False, False]]"

definition runtime_transition_allowed :: "runtime_state \<Rightarrow> runtime_state \<Rightarrow> bool" where
  "runtime_transition_allowed a b = runtime_transition_table ! runtime_state_index a ! runtime_state_index b"

section \<open>State and environment\<close>

record module =
  mod_ptr :: nat
  mod_name :: string
  lua_inited :: bool

record world =
  w_core :: core
  w_store :: runtime_store
  w_modules :: "module list"
  w_reload_pending :: bool
  w_soft_restart_pending :: bool
  w_exec_restart_pending :: bool
  w_stop_requested :: bool
  w_receivers :: registry
  w_hook_receivers :: registry
  w_module_windows :: "(window_id \<times> nat) list"
  w_draining :: bool
  w_restart_file :: "string option"

record runtime =
  rt_world :: world
  rt_state :: runtime_state

record existing_window_snapshot =
  snap_window :: window_id
  currently_viewable :: bool
  default_manage :: bool
  from_restart :: bool
  restart_workspace_id :: workspace_id
  restart_floating :: bool
  restart_fullscreen :: bool
  restart_hidden_explicitly :: bool
  restart_borderless :: bool
  has_geometry :: bool
  geo_pos :: vec2i
  geo_size :: vec2i
  snap_wm_instance :: string
  snap_wm_class :: string
  snap_title :: string
  snap_type :: window_type
  snap_hints :: window_hints

record startup_snapshot =
  snap_windows :: "existing_window_snapshot list"
  snap_monitor_active_ws :: "monitor_id \<rightharpoonup> workspace_id"
  snap_focused_window :: window_id

record should_manage_window =
  smw_window :: window_id
  manage :: bool

record window_rules =
  wr_window :: window_id
  wr_from_restart :: bool

record env =
  on_event :: "nat \<Rightarrow> event \<Rightarrow> world \<Rightarrow> world \<times> event list"
  on_should_manage :: "nat \<Rightarrow> should_manage_window \<Rightarrow> world \<Rightarrow> should_manage_window \<times> world"
  on_window_rules :: "nat \<Rightarrow> window_rules \<Rightarrow> world \<Rightarrow> window_rules \<times> world"
  load_script :: "string \<Rightarrow> bool \<Rightarrow> world \<Rightarrow> bool \<times> world"
  check_syntax :: "string \<Rightarrow> bool"
  initial_monitors :: "monitor list"
  get_monitors :: "monitor_layout list \<Rightarrow> monitor list"
  scan_existing_windows :: startup_snapshot
  window_maker :: "window_id \<Rightarrow> window option"
  module_factory :: "string \<rightharpoonup> nat"
  mod_on_init :: "nat \<Rightarrow> world \<Rightarrow> world"
  mod_on_lua_init :: "nat \<Rightarrow> world \<Rightarrow> world"
  mod_on_start :: "nat \<Rightarrow> world \<Rightarrow> world"
  mod_on_stop :: "nat \<Rightarrow> bool \<Rightarrow> world \<Rightarrow> world"
  mod_on_reload :: "nat \<Rightarrow> world \<Rightarrow> world"
  mod_destroy :: "nat \<Rightarrow> world \<Rightarrow> world"
  loop_poll :: "world \<Rightarrow> world"
  pump_events :: "world \<Rightarrow> world"
  be_on_start :: "world \<Rightarrow> world"
  on_reload_applied :: "world \<Rightarrow> world"
  render_frame :: "world \<Rightarrow> world"
  be_shutdown :: "world \<Rightarrow> world"
  file_creatable :: bool
  file_writable :: bool
  lua_host_ptr :: nat
  backend_ptr :: nat

definition upd_core :: "(core \<Rightarrow> core) \<Rightarrow> world \<Rightarrow> world" where
  "upd_core f w = w\<lparr>w_core := f (w_core w)\<rparr>"

definition dispatch :: "command_atom \<Rightarrow> world \<Rightarrow> world" where
  "dispatch cmd = upd_core (\<lambda>c. snd (dispatch_atom cmd c))"

section \<open>Events and hooks\<close>

definition queue :: "world \<Rightarrow> event list" where
  "queue w = event_queue (w_core w)"

definition set_queue :: "event list \<Rightarrow> world \<Rightarrow> world" where
  "set_queue q = upd_core (\<lambda>c. c\<lparr>event_queue := q\<rparr>)"

definition post_event :: "event \<Rightarrow> world \<Rightarrow> world" where
  "post_event ev w = set_queue (queue w @ [ev]) w"

definition add_receiver :: "nat \<Rightarrow> world \<Rightarrow> world" where
  "add_receiver r w = w\<lparr>w_receivers := registry_add r (w_receivers w)\<rparr>"

definition remove_receiver :: "nat \<Rightarrow> world \<Rightarrow> world" where
  "remove_receiver r w = w\<lparr>w_receivers := registry_remove r (w_receivers w)\<rparr>"

definition add_hook_receiver :: "nat \<Rightarrow> world \<Rightarrow> world" where
  "add_hook_receiver r w = w\<lparr>w_hook_receivers := registry_add r (w_hook_receivers w)\<rparr>"

definition deliver :: "env \<Rightarrow> event \<Rightarrow> nat \<Rightarrow> world \<Rightarrow> world" where
  "deliver E ev r w = (case on_event E r ev w of (w', evs) \<Rightarrow> set_queue (queue w @ evs) w')"

definition broadcast :: "env \<Rightarrow> event \<Rightarrow> world \<Rightarrow> world" where
  "broadcast E ev w =
     (let w1 = fold (\<lambda>m. deliver E ev (mod_ptr m)) (w_modules w) w;
          w2 = deliver E ev (lua_host_ptr E) w1
      in fold (deliver E ev) (w_receivers w2) w2)"

definition drain_events :: "env \<Rightarrow> world \<Rightarrow> world option" where
  "drain_events E w =
     (if w_draining w then None
      else map_option (\<lambda>w. w\<lparr>w_draining := False\<rparr>)
             (drain_loop queue set_queue (broadcast E) (w\<lparr>w_draining := True\<rparr>)))"

section \<open>Modules\<close>

definition use_module :: "env \<Rightarrow> string \<Rightarrow> runtime \<Rightarrow> runtime" where
  "use_module E name r =
     (if runtime_state_index (rt_state r) \<ge> runtime_state_index Starting then r
      else if list_ex (\<lambda>m. mod_name m = name) (w_modules (rt_world r)) then r
      else case module_factory E name of
        None \<Rightarrow> r
      | Some p \<Rightarrow>
          (let w = mod_on_init E p (rt_world r)
           in r\<lparr>rt_world := w\<lparr>w_modules := w_modules w @ [\<lparr>mod_ptr = p, mod_name = name, lua_inited = False\<rparr>]\<rparr>\<rparr>))"

definition get_module_by_name :: "string \<Rightarrow> world \<Rightarrow> nat option" where
  "get_module_by_name name w = map_option mod_ptr (find (\<lambda>m. mod_name m = name) (w_modules w))"

definition set_lua_inited :: "nat \<Rightarrow> bool \<Rightarrow> world \<Rightarrow> world" where
  "set_lua_inited p b w = w\<lparr>w_modules := map (\<lambda>m. if mod_ptr m = p then m\<lparr>lua_inited := b\<rparr> else m) (w_modules w)\<rparr>"

definition lua_init_once :: "env \<Rightarrow> module \<Rightarrow> world \<Rightarrow> world" where
  "lua_init_once E m w =
     (if list_ex (\<lambda>x. mod_ptr x = mod_ptr m \<and> lua_inited x) (w_modules w) then w
      else mod_on_lua_init E (mod_ptr m) (set_lua_inited (mod_ptr m) True w))"

definition emit_lua_init :: "env \<Rightarrow> world \<Rightarrow> world" where
  "emit_lua_init E w = fold (lua_init_once E) (w_modules w) w"

definition reset_lua_init :: "world \<Rightarrow> world" where
  "reset_lua_init w = w\<lparr>w_modules := map (\<lambda>m. m\<lparr>lua_inited := False\<rparr>) (w_modules w)\<rparr>"

definition reload_modules :: "env \<Rightarrow> world \<Rightarrow> world" where
  "reload_modules E w = fold (\<lambda>m. mod_on_reload E (mod_ptr m)) (w_modules w) w"

section \<open>Configuration\<close>

definition build_core_settings :: "runtime_store \<Rightarrow> core_settings" where
  "build_core_settings st =
     \<lparr>monitor_aliases = cfg_monitors st, cs_monitor_compose = cfg_compose st, workspace_defs = cfg_workspaces st,
      theme = cfg_theme st\<rparr>"

definition load_config :: "env \<Rightarrow> string \<Rightarrow> world \<Rightarrow> (bool \<times> world) option" where
  "load_config E cfg_path w =
     (case load_script E cfg_path True w of (ok, w1) \<Rightarrow>
        if \<not> ok then Some (False, w1)
        else if validate_settings (w_store w1) \<noteq> [] then Some (False, w1)
        else map_option (\<lambda>c. (True, w1\<lparr>w_core := c\<rparr>))
               (apply_settings (build_core_settings (w_store w1)) (w_core w1)))"

definition apply_and_refresh_monitors :: "env \<Rightarrow> world \<Rightarrow> world" where
  "apply_and_refresh_monitors E w =
     dispatch (ApplyMonitorTopology (get_monitors E (build (cfg_monitors (w_store w)) (cfg_compose (w_store w))))) w"

definition dispatch_display_change :: "env \<Rightarrow> world \<Rightarrow> world" where
  "dispatch_display_change E w = post_event EvDisplayTopologyChanged (apply_and_refresh_monitors E w)"

text \<open>A reload that fails after the script ran puts back the store and what
  \<^const>\<open>snapshot_reload_state\<close> recorded of the core.\<close>

definition reload_runtime_config :: "env \<Rightarrow> world \<Rightarrow> (bool \<times> world) option" where
  "reload_runtime_config E w =
     (let cfg_path = config_path (w_core w) in
      if cfg_path = [] then Some (False, w)
      else if \<not> check_syntax E cfg_path then Some (False, w)
      else
        let w1 = w\<lparr>w_store := snapshot_all (w_store w)\<rparr>;
            backup = snapshot_reload_state (w_core w1);
            restore = (\<lambda>w. w\<lparr>w_store := rollback_all (w_store w), w_core := restore_reload_state backup (w_core w)\<rparr>);
            w2 = w1\<lparr>w_store := clear_all (w_store w1), w_core := clear_reloadable_runtime_state (w_core w1)\<rparr>
        in case load_script E cfg_path False w2 of (ok, w3) \<Rightarrow>
             if \<not> ok then Some (False, restore w3)
             else if validate_settings (w_store w3) \<noteq> [] then Some (False, restore w3)
             else
               let w4 = w3\<lparr>w_store := commit_all (w_store w3)\<rparr> in
               map_option (\<lambda>c. (True, reload_modules E (w4\<lparr>w_core := c\<rparr>)))
                 (apply_settings (build_core_settings (w_store w4)) (w_core w4)))"

definition request_reload :: "world \<Rightarrow> world" where
  "request_reload w = w\<lparr>w_reload_pending := True\<rparr>"

definition request_soft_restart :: "world \<Rightarrow> world" where
  "request_soft_restart w = w\<lparr>w_reload_pending := False, w_soft_restart_pending := True\<rparr>"

definition request_stop :: "world \<Rightarrow> world" where
  "request_stop w = w\<lparr>w_stop_requested := True\<rparr>"

definition request_exec_restart :: "env \<Rightarrow> world \<Rightarrow> world" where
  "request_exec_restart E w =
     (let cfg_path = config_path (w_core w) in
      if cfg_path \<noteq> [] \<and> \<not> check_syntax E cfg_path then w
      else request_stop (w\<lparr>w_restart_file := save_restart_state (file_creatable E) (file_writable E) (w_core w) (w_restart_file w),
                           w_exec_restart_pending := True\<rparr>))"

definition consume_exec_restart_request :: "world \<Rightarrow> bool \<times> world" where
  "consume_exec_restart_request w = (w_exec_restart_pending w, w\<lparr>w_exec_restart_pending := False\<rparr>)"

datatype reload_request = NoReload | ReloadConfig | SoftRestart

definition consume_reload_request :: "world \<Rightarrow> reload_request \<times> world" where
  "consume_reload_request w =
     (if w_soft_restart_pending w then (SoftRestart, w\<lparr>w_soft_restart_pending := False\<rparr>)
      else if w_reload_pending w then (ReloadConfig, w\<lparr>w_soft_restart_pending := False, w_reload_pending := False\<rparr>)
      else (NoReload, w\<lparr>w_soft_restart_pending := False, w_reload_pending := False\<rparr>))"

text \<open>The loop that shows the workspaces again that were active before the topology changed.\<close>

fun restore_active :: "workspace_id list \<Rightarrow> int \<Rightarrow> world \<Rightarrow> bool \<times> world" where
  "restore_active [] i w = (False, w)"
| "restore_active (v # vs) i w =
     (if i < int (length (monitors (wm (w_core w)))) then
        (if 0 \<le> v \<and> v < workspace_count (w_core w)
         then (True, snd (restore_active vs (i + 1) (dispatch (SwitchWorkspace v (Some i)) w)))
         else restore_active vs (i + 1) w)
      else (False, w))"

definition process_pending_reload :: "env \<Rightarrow> world \<Rightarrow> (bool \<times> world) option" where
  "process_pending_reload E w =
     (case consume_reload_request w of (req, w1) \<Rightarrow>
        if req = NoReload then Some (False, w1)
        else case reload_runtime_config E w1 of
          None \<Rightarrow> None
        | Some (reload_ok, w2) \<Rightarrow>
            if \<not> reload_ok then Some (True, w2)
            else
              let saved_ws = map active_ws (monitors (wm (w_core w2)));
                  w3 = dispatch_display_change E w2;
                  r = restore_active saved_ws 0 w3;
                  w4 = (if fst r then snd r else dispatch ReconcileNow (snd r))
              in Some (True, post_event EvConfigReloaded w4))"

section \<open>Adopting existing windows\<close>

definition adopt_hints :: "window_hints \<Rightarrow> window_hints" where
  "adopt_hints h =
     \<lparr>no_decorations = no_decorations h, fixed_size = fixed_size h, never_focus = False, hint_urgent = False,
      static_gravity = False, covers_monitor = False, pre_fullscreen = False, is_xembed = False,
      hint_size_min = (0, 0), hint_size_max = (0, 0), hint_size_inc = (0, 0), hint_size_base = (0, 0)\<rparr>"

text \<open>The commands for one window: those every window gets, those that restore its state after a restart,
  and its geometry. \<open>n_ws\<close> is the number of workspaces, which no command changes.\<close>

definition adopt_commands :: "existing_window_snapshot \<Rightarrow> int \<Rightarrow> command_atom list" where
  "adopt_commands snap n_ws =
     (let win = snap_window snap; restore_ws = (if from_restart snap then restart_workspace_id snap else NO_WORKSPACE) in
      [EnsureWindow win restore_ws,
       SetWindowMetadata \<lparr>md_window = win, md_wm_instance = snap_wm_instance snap, md_wm_class = snap_wm_class snap,
         md_title = snap_title snap, md_pid = 0, md_type = snap_type snap, md_hints = adopt_hints (snap_hints snap),
         md_transient_for = NO_WINDOW\<rparr>,
       SetWindowMapped win (currently_viewable snap),
       SetWindowHiddenByWorkspace win True] @
      (if from_restart snap then
         (if 0 \<le> restore_ws \<and> restore_ws < n_ws then [AssignWindowWorkspace win restore_ws] else []) @
         [SetWindowFloating win (restart_floating snap)] @
         (if restart_fullscreen snap then [SetWindowFullscreen win True False] else []) @
         (if restart_borderless snap then [SetWindowBorderless win True, FocusWindow win] else []) @
         (if restart_hidden_explicitly snap then [HideWindow win] else [])
       else []) @
      (if has_geometry snap then [SetWindowGeometry win (geo_pos snap) (geo_size snap)] else []))"

definition adopt_window :: "env \<Rightarrow> existing_window_snapshot \<Rightarrow> bool \<times> bool \<times> world \<Rightarrow> bool \<times> bool \<times> world" where
  "adopt_window E snap acc = (case acc of (adopted, any_restart, w) \<Rightarrow>
     if snap_window snap = NO_WINDOW then acc
     else if \<not> from_restart snap \<and> \<not> default_manage snap then acc
     else case invoke_hook (on_should_manage E) (w_hook_receivers w)
                 \<lparr>smw_window = snap_window snap, manage = True\<rparr> w of
       (h, w1) \<Rightarrow>
         if \<not> manage h then (adopted, any_restart, w1)
         else
           let w2 = fold dispatch (adopt_commands snap (workspace_count (w_core w1))) w1;
               w3 = snd (invoke_hook (on_window_rules E) (w_hook_receivers w2)
                      \<lparr>wr_window = snap_window snap, wr_from_restart = from_restart snap\<rparr> w2);
               w4 = post_event (EvWindowAdopted (snap_window snap) (currently_viewable snap))
                      (post_event (EvWindowMapped (snap_window snap)) w3)
           in (True, any_restart \<or> from_restart snap, w4))"

text \<open>The workspace to show on monitor \<open>i\<close> after a restart.\<close>

definition restart_ws :: "(monitor_id \<rightharpoonup> workspace_id) \<Rightarrow> world \<Rightarrow> nat \<Rightarrow> workspace_id" where
  "restart_ws mon_ws w i =
     (case mon_ws (int i) of
        Some v \<Rightarrow> if 0 \<le> v \<and> v < workspace_count (w_core w) then v else active_ws (monitors (wm (w_core w)) ! i)
      | None \<Rightarrow> active_ws (monitors (wm (w_core w)) ! i))"

definition switch_restored :: "(monitor_id \<rightharpoonup> workspace_id) \<Rightarrow> nat \<Rightarrow> bool \<times> world \<Rightarrow> bool \<times> world" where
  "switch_restored mon_ws i acc = (case acc of (any_switched, w) \<Rightarrow>
     if 0 \<le> restart_ws mon_ws w i
     then (True, dispatch (SwitchWorkspace (restart_ws mon_ws w i) (Some (int i))) w)
     else acc)"

definition adopt_existing_windows :: "env \<Rightarrow> world \<Rightarrow> world" where
  "adopt_existing_windows E w =
     (let startup = scan_existing_windows E in
      if snap_windows startup = [] then w
      else case fold (adopt_window E) (snap_windows startup) (False, False, w) of
        (adopted, any_restart, w1) \<Rightarrow>
          if \<not> adopted then w1
          else
            let fmon = focused_monitor (wm (w_core w1));
                r = (if any_restart
                     then fold (switch_restored (snap_monitor_active_ws startup)) [0..<length (monitors (wm (w_core w1)))]
                            (False, w1)
                     else
                       let shown = (if 0 \<le> fmon \<and> fmon < int (length (monitors (wm (w_core w1))))
                                    then active_ws (monitors (wm (w_core w1)) ! nat fmon) else NO_WORKSPACE)
                       in if 0 \<le> shown then (True, dispatch (SwitchWorkspace shown None) w1) else (False, w1))
            in if fst r then snd r else dispatch ReconcileNow (snd r))"

section \<open>Module windows\<close>

text \<open>\<^verbatim>\<open>create_render_window\<close>: the backend made the window \<open>ptr\<close> with the given id, or none.\<close>

definition create_render_window :: "(nat \<times> window_id) option \<Rightarrow> world \<Rightarrow> nat option \<times> world" where
  "create_render_window made w =
     (case made of
        None \<Rightarrow> (None, w)
      | Some (ptr, win) \<Rightarrow>
          if win \<in> fst ` set (w_module_windows w) then (None, w)
          else (Some ptr, w\<lparr>w_module_windows := (win, ptr) # w_module_windows w\<rparr>))"

definition unregister_module_window :: "nat \<Rightarrow> window_id \<Rightarrow> world \<Rightarrow> world" where
  "unregister_module_window ptr win w =
     (case map_of (w_module_windows w) win of
        None \<Rightarrow> w
      | Some p \<Rightarrow>
          if p \<noteq> ptr then w
          else w\<lparr>w_module_windows := filter (\<lambda>(k, _). k \<noteq> win) (w_module_windows w)\<rparr>)"

section \<open>The lifecycle\<close>

definition reap_children :: "(int \<times> int option) list \<Rightarrow> world \<Rightarrow> world" where
  "reap_children exited w =
     fold (\<lambda>(pid, status). post_event (EvChildExited pid (case status of Some code \<Rightarrow> code | None \<Rightarrow> 1))) exited w"

definition start :: "env \<Rightarrow> world \<Rightarrow> world option" where
  "start E w =
     (let w1 = upd_core (set_event_sink True) w;
          w2 = add_hook_receiver (backend_ptr E) (add_hook_receiver (lua_host_ptr E) (add_receiver (backend_ptr E) w1));
          w3 = upd_core (core_init (initial_monitors E)) w2;
          w4 = upd_core (mark_runtime_started True) (upd_core (set_window_factory (window_maker E)) w3);
          w5 = apply_and_refresh_monitors E w4;
          w6 = fold (\<lambda>m. mod_on_start E (mod_ptr m)) (w_modules w5) w5
      in case drain_events E w6 of
           None \<Rightarrow> None
         | Some w7 \<Rightarrow>
             (case drain_events E (adopt_existing_windows E (be_on_start E w7)) of
                None \<Rightarrow> None
              | Some w8 \<Rightarrow> drain_events E (post_event EvRuntimeStarted w8)))"

text \<open>\<^verbatim>\<open>stop\<close>; windows that modules still own abort a debug build and are dropped by a release build, which
  is what is modelled.\<close>

definition stop :: "env \<Rightarrow> bool \<Rightarrow> world \<Rightarrow> world option" where
  "stop E is_exec_restart w =
     (case drain_events E (post_event (EvRuntimeStopping is_exec_restart) w) of
        None \<Rightarrow> None
      | Some w1 \<Rightarrow>
          let w2 = upd_core (set_event_sink False) (remove_receiver (backend_ptr E) w1);
              w3 = fold (\<lambda>m. mod_on_stop E (mod_ptr m) is_exec_restart) (rev (w_modules w2)) w2
          in if w_draining w3 then None
             else
               let w4 = set_queue [] w3;
                   w5 = (fold (\<lambda>m. mod_destroy E (mod_ptr m)) (w_modules w4) w4)\<lparr>w_modules := []\<rparr>;
                   w6 = w5\<lparr>w_module_windows := [], w_hook_receivers := [], w_receivers := []\<rparr>
               in Some (upd_core (mark_runtime_started False) (be_shutdown E w6)))"

definition tick :: "env \<Rightarrow> world \<Rightarrow> world option" where
  "tick E w =
     (case process_pending_reload E (pump_events E (loop_poll E w)) of
        None \<Rightarrow> None
      | Some (reloaded, w1) \<Rightarrow>
          let w2 = (if reloaded then post_event EvRaiseDocks (on_reload_applied E w1) else w1)
          in map_option (render_frame E) (drain_events E w2))"

partial_function (option) run_loop :: "env \<Rightarrow> world \<Rightarrow> world option" where
  "run_loop E w =
     (if w_stop_requested w then Some w
      else case tick E w of None \<Rightarrow> None | Some w' \<Rightarrow> run_loop E w')"

text \<open>One turn of the loop of \<^verbatim>\<open>run\<close>; \<open>transition\<close> and the two states that must not be seen there abort.
  \<open>None\<close> stands for an operation that does not return.\<close>

datatype 'a outcome = Aborted | Ended 'a | Again 'a

definition transition :: "runtime_state \<Rightarrow> runtime_state \<Rightarrow> runtime \<Rightarrow> runtime option" where
  "transition src dst r =
     (if \<not> runtime_transition_allowed src dst then None
      else if rt_state r \<noteq> src then None
      else Some (r\<lparr>rt_state := dst\<rparr>))"

definition transitions :: "runtime_state \<Rightarrow> runtime_state \<Rightarrow> runtime \<Rightarrow> runtime outcome" where
  "transitions src dst r = (case transition src dst r of None \<Rightarrow> Aborted | Some r' \<Rightarrow> Again r')"

definition run_step :: "env \<Rightarrow> string \<Rightarrow> string \<Rightarrow> runtime \<Rightarrow> runtime outcome option" where
  "run_step E cfg_path fallback r =
     (case rt_state r of
        Idle \<Rightarrow>
          (case load_config E cfg_path (rt_world r) of
             None \<Rightarrow> None
           | Some (ok, w) \<Rightarrow>
               if ok then Some (transitions Idle Configured (r\<lparr>rt_world := w\<rparr>))
               else if fallback \<noteq> [] then
                 (case load_config E fallback w of
                    None \<Rightarrow> None
                  | Some (ok2, w2) \<Rightarrow>
                      if ok2 then Some (transitions Idle Configured (r\<lparr>rt_world := w2\<rparr>))
                      else Some (Again (r\<lparr>rt_world := w2, rt_state := Stopped\<rparr>)))
               else Some (Again (r\<lparr>rt_world := w, rt_state := Stopped\<rparr>)))
      | Configured \<Rightarrow>
          (case transition Configured Starting r of
             None \<Rightarrow> Some Aborted
           | Some r1 \<Rightarrow>
               (case start E (rt_world r1) of
                  None \<Rightarrow> None
                | Some w \<Rightarrow> Some (transitions Starting Running (r1\<lparr>rt_world := w\<rparr>))))
      | Starting \<Rightarrow> Some Aborted
      | Running \<Rightarrow>
          (case run_loop E ((rt_world r)\<lparr>w_stop_requested := False\<rparr>) of
             None \<Rightarrow> None
           | Some w \<Rightarrow>
               (case transition Running Stopping (r\<lparr>rt_world := w\<rparr>) of
                  None \<Rightarrow> Some Aborted
                | Some r1 \<Rightarrow>
                    (case stop E (w_exec_restart_pending w) w of
                       None \<Rightarrow> None
                     | Some w2 \<Rightarrow> Some (transitions Stopping Stopped (r1\<lparr>rt_world := w2\<rparr>)))))
      | Stopping \<Rightarrow> Some Aborted
      | Stopped \<Rightarrow> Some (Ended r))"

partial_function (option) run_runtime :: "env \<Rightarrow> string \<Rightarrow> string \<Rightarrow> runtime \<Rightarrow> runtime outcome option" where
  "run_runtime E cfg_path fallback r =
     (case run_step E cfg_path fallback r of
        None \<Rightarrow> None
      | Some (Again r') \<Rightarrow> run_runtime E cfg_path fallback r'
      | Some x \<Rightarrow> Some x)"

definition init_runtime :: runtime where
  "init_runtime =
     \<lparr>rt_world = \<lparr>w_core = init_core \<lparr>monitor_aliases = [], cs_monitor_compose = \<lparr>primary = [], compose_layout = [], defined = False\<rparr>,
                     workspace_defs = [], theme = default_theme\<rparr>,
                 w_store = register_core_config [], w_modules = [], w_reload_pending = False,
                 w_soft_restart_pending = False, w_exec_restart_pending = False, w_stop_requested = False,
                 w_receivers = [], w_hook_receivers = [], w_module_windows = [], w_draining = False,
                 w_restart_file = None\<rparr>,
      rt_state = Idle\<rparr>"

end
