(* ===== verification/Runtime_Invariant.thy ===== *)
theory Runtime_Invariant
  imports Runtime
begin

text \<open>
  What the runtime keeps. \<open>moves w w'\<close> says that the core got from one world to the other through its own
  public interface (\<^const>\<open>core_run\<close>); \<open>env_ok\<close> is the contract of the callbacks, which is exactly that.
  Every operation of the started runtime is then itself such a move, so a core that was reachable stays
  reachable and keeps every property proved of reachable cores. The event queue of the runtime is an
  instance of \<open>fifo_sink\<close> for any environment.
\<close>

section \<open>The queue\<close>

lemma queue_set_queue [simp]: "queue (set_queue q w) = q"
  by (simp add: queue_def set_queue_def upd_core_def)

lemma queue_deliver: "queue (deliver E ev r w) = queue w @ snd (on_event E r ev w)"
  by (simp add: deliver_def split: prod.splits)

lemma queue_fold_deliver:
  assumes "\<And>r w. set (snd (on_event E r ev w)) \<subseteq> P"
  shows "\<exists>evs. queue (fold (\<lambda>x. deliver E ev (f x)) rs w) = queue w @ evs \<and> set evs \<subseteq> P"
proof (induction rs arbitrary: w)
  case (Cons r rs)
  obtain evs where "queue (fold (\<lambda>x. deliver E ev (f x)) rs (deliver E ev (f r) w)) = queue (deliver E ev (f r) w) @ evs"
    and "set evs \<subseteq> P"
    using Cons by blast
  then show ?case using assms [of "f r" w] by (simp add: queue_deliver)
qed simp

lemma queue_broadcast_append:
  assumes "\<And>r w. set (snd (on_event E r ev w)) \<subseteq> P"
  shows "\<exists>evs. queue (broadcast E ev w) = queue w @ evs \<and> set evs \<subseteq> P"
proof -
  let ?w1 = "fold (\<lambda>m. deliver E ev (mod_ptr m)) (w_modules w) w"
  let ?w2 = "deliver E ev (lua_host_ptr E) ?w1"
  obtain a where a: "queue ?w1 = queue w @ a" "set a \<subseteq> P" using queue_fold_deliver [OF assms] by blast
  obtain b where "queue (fold (deliver E ev) (w_receivers ?w2) ?w2) = queue ?w2 @ b" "set b \<subseteq> P"
    using queue_fold_deliver [OF assms, of "\<lambda>x. x"] by blast
  then show ?thesis using a assms [of "lua_host_ptr E" ?w1] by (simp add: broadcast_def Let_def queue_deliver)
qed

lemma newly_posted_subset:
  "(\<And>r w. set (snd (on_event E r ev w)) \<subseteq> P) \<Longrightarrow> set (newly_posted queue (broadcast E) ev w) \<subseteq> P"
  using queue_broadcast_append [of E ev P w] by (auto simp: newly_posted_def)

interpretation rt_queue: fifo_sink queue set_queue "broadcast E" for E
proof
  show "queue (set_queue q s) = q" for q s by simp
  show "queue (broadcast E ev s) = queue s @ newly_posted queue (broadcast E) ev s" for ev s
    using queue_broadcast_append [of E ev UNIV s] by (auto simp: newly_posted_def)
qed

section \<open>The core moves through its interface\<close>

definition moves :: "world \<Rightarrow> world \<Rightarrow> bool" where
  "moves w w' \<longleftrightarrow> core_run (w_core w) (w_core w')"

definition env_ok :: "env \<Rightarrow> bool" where
  "env_ok E \<longleftrightarrow>
     (\<forall>r ev w. moves w (fst (on_event E r ev w))) \<and>
     (\<forall>r h w. moves w (snd (on_should_manage E r h w))) \<and> (\<forall>r h w. moves w (snd (on_window_rules E r h w))) \<and>
     (\<forall>cfg b w. moves w (snd (load_script E cfg b w))) \<and> (\<forall>m w. moves w (mod_on_reload E m w)) \<and>
     (\<forall>w. moves w (loop_poll E w)) \<and> (\<forall>w. moves w (pump_events E w)) \<and> (\<forall>w. moves w (on_reload_applied E w)) \<and>
     (\<forall>w. moves w (render_frame E w))"

lemma moves_refl [simp]: "moves w w"
  by (simp add: moves_def run_refl)

lemma moves_trans [trans]: "moves w w' \<Longrightarrow> moves w' w'' \<Longrightarrow> moves w w''"
  unfolding moves_def using core_run_trans by blast

lemma moves_same_core: "w_core w' = w_core w \<Longrightarrow> moves w w'"
  by (simp add: moves_def run_refl)

lemma moves_step: "core_step (w_core w) (w_core w') \<Longrightarrow> moves w w'"
  unfolding moves_def by (rule run_step [OF run_refl])

lemma moves_dispatch [intro]: "moves w (dispatch cmd w)"
  by (rule moves_step) (simp add: dispatch_def upd_core_def core_step.atom)

lemma moves_set_queue [intro]: "moves w (set_queue q w)"
  by (rule moves_step) (simp add: set_queue_def upd_core_def core_step.events)

lemma moves_post_event [intro]: "moves w (post_event ev w)"
  by (auto simp: post_event_def)

lemma moves_fold: "(\<And>x w. moves w (f x w)) \<Longrightarrow> moves w (fold f xs w)"
  by (induction xs arbitrary: w) (auto intro: moves_trans)

lemma moves_fold_part: "(\<And>x s. moves (g s) (g (f x s))) \<Longrightarrow> moves (g s) (g (fold f xs s))"
  by (induction xs arbitrary: s) (auto intro: moves_trans)

lemma moves_deliver: "env_ok E \<Longrightarrow> moves w (deliver E ev r w)"
proof -
  assume ok: "env_ok E"
  then have "moves w (fst (on_event E r ev w))" by (simp add: env_ok_def)
  also have "moves (fst (on_event E r ev w)) (deliver E ev r w)" by (auto simp: deliver_def split: prod.splits)
  finally show ?thesis .
qed

lemma moves_broadcast: "env_ok E \<Longrightarrow> moves w (broadcast E ev w)"
  unfolding broadcast_def Let_def
  by (rule moves_trans [OF moves_trans [OF moves_fold moves_deliver] moves_fold]) (simp_all add: moves_deliver)

lemma moves_drains: "drains queue set_queue (broadcast E) w evs w' \<Longrightarrow> env_ok E \<Longrightarrow> moves w w'"
proof (induction rule: drains.induct)
  case (drains_step w ev rest evs t)
  have "moves w (broadcast E ev (set_queue rest w))"
    by (rule moves_trans [OF moves_set_queue moves_broadcast [OF drains_step.prems]])
  then show ?case using drains_step by (blast intro: moves_trans)
qed simp

lemma moves_drain_events:
  assumes ok: "env_ok E" and d: "drain_events E w = Some w'"
  shows "moves w w'"
proof -
  obtain evs t where "drains queue set_queue (broadcast E) (w\<lparr>w_draining := True\<rparr>) evs t" "w' = t\<lparr>w_draining := False\<rparr>"
    using d by (auto simp: drain_events_def drain_loop_iff split: if_splits)
  with moves_drains [OF this(1) ok] show ?thesis by (simp add: moves_def)
qed

lemma moves_invoke_hook:
  assumes "\<And>r h w. moves w (snd (on_hook r h w))"
  shows "moves w (snd (invoke_hook on_hook rs h w))"
  using moves_fold_part [of snd "\<lambda>r (h, s). on_hook r h s" "(h, w)" rs] assms
  by (simp add: invoke_hook_def split_beta)

section \<open>Adoption\<close>

lemma moves_adopt_window:
  assumes ok: "env_ok E"
  shows "moves w (snd (snd (adopt_window E snap (a, b, w))))"
proof -
  let ?h = "invoke_hook (on_should_manage E) (w_hook_receivers w) \<lparr>smw_window = snap_window snap, manage = True\<rparr> w"
  obtain h w1 where h: "?h = (h, w1)" by fastforce
  have m1: "moves w w1" using moves_invoke_hook [of "on_should_manage E"] ok h by (metis env_ok_def snd_conv)
  define w2 where "w2 = fold dispatch (adopt_commands snap (workspace_count (w_core w1))) w1"
  have "moves w1 w2" unfolding w2_def by (rule moves_fold) auto
  moreover have "moves w2 (snd (invoke_hook (on_window_rules E) rs r w2))" for rs r
    by (rule moves_invoke_hook) (use ok in \<open>simp add: env_ok_def\<close>)
  ultimately have "moves w (post_event e2 (post_event e1 (snd (invoke_hook (on_window_rules E) rs r w2))))" for e1 e2 rs r
    using m1 by (blast intro: moves_trans)
  then show ?thesis
    using m1 h by (simp add: adopt_window_def Let_def w2_def [symmetric])
qed

lemma moves_switch_restored: "moves w (snd (switch_restored mw i (a, w)))"
  by (auto simp: switch_restored_def)

lemma moves_adopt:
  assumes ok: "env_ok E"
  shows "moves w (adopt_existing_windows E w)"
proof -
  let ?st = "scan_existing_windows E"
  obtain a b w1 where f: "fold (adopt_window E) (snap_windows ?st) (False, False, w) = (a, b, w1)" by (metis prod_cases3)
  have "moves w (snd (snd (fold (adopt_window E) (snap_windows ?st) (False, False, w))))"
    using moves_fold_part [of "\<lambda>x. snd (snd x)" "adopt_window E" "(False, False, w)"] moves_adopt_window [OF ok]
    by (simp add: split_paired_all)
  then have m: "moves w w1" by (simp add: f)
  have "moves w1 (snd (fold (switch_restored mw) is (False, w1)))" for mw "is"
    using moves_fold_part [of snd "switch_restored mw" "(False, w1)"] moves_switch_restored
    by (simp add: split_paired_all)
  then have "moves w (snd (fold (switch_restored mw) is (False, w1)))" "moves w (dispatch cmd w1)"
    "moves w (dispatch cmd (snd (fold (switch_restored mw) is (False, w1))))" for mw "is" cmd
    using m by (blast intro: moves_trans)+
  then show ?thesis
    using m by (simp add: adopt_existing_windows_def Let_def f)
qed

section \<open>Reload\<close>

lemma moves_apply_and_refresh [intro]: "moves w (apply_and_refresh_monitors E w)"
  by (auto simp: apply_and_refresh_monitors_def)

lemma moves_restore_active: "moves w (snd (restore_active vs i w))"
  by (induction vs i w rule: restore_active.induct) (auto intro: moves_trans)

lemma moves_reload_modules: "env_ok E \<Longrightarrow> moves w (reload_modules E w)"
  unfolding reload_modules_def by (rule moves_fold) (simp add: env_ok_def)

lemma moves_reload:
  assumes ok: "env_ok E" and started: "runtime_started (w_core w)" and r: "reload_runtime_config E w = Some (b, w')"
  shows "moves w w'"
proof -
  define w2 where "w2 = w\<lparr>w_store := clear_all (snapshot_all (w_store w)), w_core := clear_reloadable_runtime_state (w_core w)\<rparr>"
  obtain s w3 where l: "load_script E (config_path (w_core w)) False w2 = (s, w3)" by fastforce
  have "moves w w2" by (rule moves_step) (simp add: w2_def core_step.clear)
  also have "moves w2 w3" using ok l by (metis env_ok_def snd_conv)
  finally have run: "core_run (w_core w) (w_core w3)" by (simp add: moves_def)
  have rest: "core_run (w_core w) (restore_reload_state (snapshot_reload_state (w_core w)) (w_core w3))"
    by (rule run_rollback [OF run_refl run])
  have app: "core_run (w_core w) c" if "apply_settings st (w_core w3) = Some c" for st c
    by (rule run_step [OF run apply_cfg [OF core_run_started [OF run started] that]])
  have "moves w (reload_modules E (w3\<lparr>w_store := s, w_core := c\<rparr>))" if "core_run (w_core w) c" for s c
    using moves_trans [OF _ moves_reload_modules [OF ok]] that by (simp add: moves_def)
  then show ?thesis
    using r rest app l unfolding moves_def
    by (auto simp: reload_runtime_config_def Let_def w2_def [symmetric] run_refl split: if_splits)
qed

lemma moves_process_pending_reload:
  assumes ok: "env_ok E" and started: "runtime_started (w_core w)" and r: "process_pending_reload E w = Some (b, w')"
  shows "moves w w'"
proof -
  obtain req w1 where q: "consume_reload_request w = (req, w1)" by fastforce
  then have c: "w_core w1 = w_core w" by (auto simp: consume_reload_request_def split: if_splits)
  have *: "moves w w2" if "reload_runtime_config E w1 = Some (k, w2)" for k w2
    using moves_reload [OF ok _ that] started c by (simp add: moves_def)
  show ?thesis
  proof (cases "req = NoReload")
    case True
    then show ?thesis using r q moves_same_core [OF c] by (simp add: process_pending_reload_def)
  next
    case False
    then obtain k w2 where k: "reload_runtime_config E w1 = Some (k, w2)"
      using r q by (auto simp: process_pending_reload_def split: option.splits)
    define w3 where "w3 = restore_active (map active_ws (monitors (wm (w_core w2)))) 0 (dispatch_display_change E w2)"
    have "moves w2 (dispatch_display_change E w2)"
      unfolding dispatch_display_change_def using moves_apply_and_refresh moves_post_event by (rule moves_trans)
    also have "moves \<dots> (snd w3)" unfolding w3_def by (rule moves_restore_active)
    finally have m3: "moves w (snd w3)" by (rule moves_trans [OF * [OF k]])
    have "w' = w2 \<or> w' = post_event EvConfigReloaded (snd w3) \<or> w' = post_event EvConfigReloaded (dispatch ReconcileNow (snd w3))"
      using r q False k by (simp add: process_pending_reload_def Let_def w3_def [symmetric] split: if_splits)
    then show ?thesis
      using * [OF k] moves_trans [OF m3 moves_post_event] moves_trans [OF moves_trans [OF m3 moves_dispatch] moves_post_event]
      by blast
  qed
qed

section \<open>The loop\<close>

lemma moves_tick:
  assumes ok: "env_ok E" and started: "runtime_started (w_core w)" and t: "tick E w = Some w'"
  shows "moves w w'"
proof -
  have "moves w (loop_poll E w)" "moves (loop_poll E w) (pump_events E (loop_poll E w))" using ok by (simp_all add: env_ok_def)
  then have p: "moves w (pump_events E (loop_poll E w))" by (rule moves_trans)
  then have st: "runtime_started (w_core (pump_events E (loop_poll E w)))"
    using core_run_started started by (simp add: moves_def)
  obtain b w1 where r: "process_pending_reload E (pump_events E (loop_poll E w)) = Some (b, w1)"
    using t by (auto simp: tick_def split: option.splits)
  define w2 where "w2 = (if b then post_event EvRaiseDocks (on_reload_applied E w1) else w1)"
  have m1: "moves w w1" using moves_trans [OF p moves_process_pending_reload [OF ok st r]] .
  have "moves w1 (on_reload_applied E w1)" using ok by (simp add: env_ok_def)
  then have m2: "moves w w2" using m1 unfolding w2_def by (auto intro: moves_trans)
  obtain w3 where d: "drain_events E w2 = Some w3" "w' = render_frame E w3"
    using t r by (auto simp: tick_def Let_def w2_def)
  have "moves w3 w'" using ok d(2) by (simp add: env_ok_def)
  then show ?thesis using moves_trans [OF m2 moves_trans [OF moves_drain_events [OF ok d(1)]]] by blast
qed

lemma moves_run_loop:
  assumes "run_loop E w = Some w'" and "env_ok E" and "runtime_started (w_core w)"
  shows "moves w w'"
proof -
  have "env_ok E \<longrightarrow> runtime_started (w_core w) \<longrightarrow> moves w w'"
    using assms(1)
  proof (rule run_loop.raw_induct [where P = "\<lambda>E w w'. env_ok E \<longrightarrow> runtime_started (w_core w) \<longrightarrow> moves w w'", rotated], intro impI)
    fix loop E w w'
    assume IH: "\<And>E w w'. loop E w = Some w' \<Longrightarrow> env_ok E \<longrightarrow> runtime_started (w_core w) \<longrightarrow> moves w w'"
      and b: "(if w_stop_requested w then Some w else case tick E w of None \<Rightarrow> None | Some v \<Rightarrow> loop E v) = Some w'"
      and ok: "env_ok E" and st: "runtime_started (w_core w)"
    show "moves w w'"
    proof (cases "w_stop_requested w")
      case False
      then obtain v where v: "tick E w = Some v" "loop E v = Some w'" using b by (auto split: option.splits)
      have m: "moves w v" by (rule moves_tick [OF ok st v(1)])
      then have "runtime_started (w_core v)" using core_run_started st by (simp add: moves_def)
      then show ?thesis using IH [OF v(2)] ok m by (blast intro: moves_trans)
    qed (use b in simp)
  qed
  with assms(2,3) show ?thesis by blast
qed

end
