(* ===== verification/Runtime_Properties.thy ===== *)
theory Runtime_Properties
  imports Runtime_Invariant Config_Properties
begin

text \<open>
  The properties of the runtime: what it keeps of the core, its event delivery, the reload transaction,
  the lifecycle and the restart file. The witnesses use a quiet environment, in which no callback does
  anything, and a world built around the example core.
\<close>

section \<open>A concrete environment\<close>

definition ex_adopt_hints :: window_hints where
  "ex_adopt_hints = \<lparr>no_decorations = False, fixed_size = False, never_focus = False, hint_urgent = False, static_gravity = False,
     covers_monitor = False, pre_fullscreen = False, is_xembed = False, hint_size_min = (0, 0), hint_size_max = (0, 0),
     hint_size_inc = (0, 0), hint_size_base = (0, 0)\<rparr>"

definition ex_snap :: existing_window_snapshot where
  "ex_snap = \<lparr>snap_window = 200, currently_viewable = True, default_manage = True, from_restart = True,
     restart_workspace_id = 1, restart_floating = True, restart_fullscreen = False, restart_hidden_explicitly = False,
     restart_borderless = False, has_geometry = True, geo_pos = (10, 20), geo_size = (300, 200), snap_wm_instance = ''x'',
     snap_wm_class = ''X'', snap_title = [], snap_type = TNormal, snap_hints = ex_adopt_hints\<rparr>"

definition ex_env :: env where
  "ex_env = \<lparr>on_event = (\<lambda>_ _ w. (w, [])), on_should_manage = (\<lambda>_ h w. (h, w)), on_window_rules = (\<lambda>_ h w. (h, w)),
     load_script = (\<lambda>_ _ w. (False, w)), check_syntax = (\<lambda>_. True), initial_monitors = ex_monitors,
     get_monitors = (\<lambda>_. ex_monitors),
     scan_existing_windows = \<lparr>snap_windows = [ex_snap], snap_monitor_active_ws = [0 \<mapsto> 0], snap_focused_window = NO_WINDOW\<rparr>,
     window_maker = (\<lambda>win. Some (mk_window win)), module_factory = Map.empty, mod_on_init = (\<lambda>_ w. w), mod_on_lua_init = (\<lambda>_ w. w),
     mod_on_start = (\<lambda>_ w. w), mod_on_stop = (\<lambda>_ _ w. w), mod_on_reload = (\<lambda>_ w. w), mod_destroy = (\<lambda>_ w. w),
     loop_poll = (\<lambda>w. w), pump_events = (\<lambda>w. w), be_on_start = (\<lambda>w. w), on_reload_applied = (\<lambda>w. w), render_frame = (\<lambda>w. w),
     be_shutdown = (\<lambda>w. w), file_creatable = True, file_writable = True, lua_host_ptr = 1, backend_ptr = 2\<rparr>"

definition ex_world :: world where
  "ex_world = (rt_world init_runtime)\<lparr>w_core := set_config_path ''init.lua'' ex_core, w_store := ex_config ''left'',
     w_receivers := [2], w_hook_receivers := [1, 2]\<rparr>"

lemma ex_env_ok: "env_ok ex_env"
  by (simp add: env_ok_def ex_env_def)

lemma ex_world_core: "core_reachable (w_core ex_world)" "runtime_started (w_core ex_world)"
proof -
  have "core_run ex_core (set_config_path ''init.lua'' ex_core)" by (rule run_step [OF run_refl core_step.path])
  then show "core_reachable (w_core ex_world)" using core_reachable_run ex_reachable(2) by (simp add: ex_world_def)
  show "runtime_started (w_core ex_world)" by (simp add: ex_world_def set_config_path_def ex_core_code ex_boot_code)
qed

section \<open>The core under the runtime\<close>

text \<open>
  C4. The runtime drives the core only through the core's own interface: provided that backend, modules
  and the user's script do so too, adopting the windows that exist at start-up, one turn of the main
  loop (with a pending reload, successful or not) and the whole main loop lead from a reachable core to a
  reachable core. All properties of reachable cores therefore hold throughout a session.
\<close>
theorem runtime_keeps_core_reachable:
  assumes "env_ok E" and "core_reachable (w_core w)" and "runtime_started (w_core w)"
  shows "core_reachable (w_core (adopt_existing_windows E w)) \<and>
    (\<forall>w'. tick E w = Some w' \<longrightarrow> core_reachable (w_core w')) \<and>
    (\<forall>w'. run_loop E w = Some w' \<longrightarrow> core_reachable (w_core w'))"
  using core_reachable_run [OF assms(2)] moves_adopt [OF assms(1), of w] moves_tick [OF assms(1,3)] moves_run_loop [OF _ assms(1,3)]
  by (simp add: moves_def)

theorem runtime_keeps_core_reachable_witness:
  "core_reachable (w_core (adopt_existing_windows ex_env ex_world)) \<and>
   core_inv (w_core (adopt_existing_windows ex_env ex_world))"
  using runtime_keeps_core_reachable [OF ex_env_ok ex_world_core] core_reachable_inv by blast

section \<open>Events\<close>

text \<open>
  C17. Events are delivered first in, first out: when receivers react to an event only with events of a
  lower rank, draining the queue ends, leaves it empty, and has delivered the queued events in their
  order and after them those posted during the delivery, in the order in which they were posted.
\<close>
theorem drain_delivers_fifo:
  assumes "\<not> w_draining w" and "\<And>r ev v p. p \<in> set (snd (on_event E r ev v)) \<Longrightarrow> rank p < (rank ev :: nat)"
  shows "\<exists>evs t. drain_events E w = Some (t\<lparr>w_draining := False\<rparr>) \<and> queue t = [] \<and>
    drains queue set_queue (broadcast E) (w\<lparr>w_draining := True\<rparr>) evs t \<and>
    evs = queue w @ posted_during queue set_queue (broadcast E) (w\<lparr>w_draining := True\<rparr>) evs"
proof -
  have "rank p < rank ev" if "p \<in> set (newly_posted queue (broadcast E) ev v)" for p ev v
    using newly_posted_subset [of E ev "{p. rank p < rank ev}" v] assms(2) that by blast
  then obtain evs t where run: "drains queue set_queue (broadcast E) (w\<lparr>w_draining := True\<rparr>) evs t"
    using rt_queue.runs_ends by blast
  have "queue (w\<lparr>w_draining := True\<rparr>) = queue w" by (simp add: queue_def)
  then have "queue t = []" "evs = queue w @ posted_during queue set_queue (broadcast E) (w\<lparr>w_draining := True\<rparr>) evs"
    using rt_queue.runs_fifo [OF run] by simp_all
  moreover have "drain_events E w = Some (t\<lparr>w_draining := False\<rparr>)"
    using assms(1) run by (auto simp: drain_events_def drain_loop_iff)
  ultimately show ?thesis using run by blast
qed

text \<open>Receivers that answer a workspace switch with a request to raise the docks.\<close>

definition ex_reacting :: env where
  "ex_reacting = ex_env\<lparr>on_event := (\<lambda>r ev w. (w, case ev of EvWorkspaceSwitched _ \<Rightarrow> [EvRaiseDocks] | _ \<Rightarrow> []))\<rparr>"

definition ex_rank :: "event \<Rightarrow> nat" where
  "ex_rank ev = (case ev of EvWorkspaceSwitched _ \<Rightarrow> 1 | _ \<Rightarrow> 0)"

theorem drain_delivers_fifo_witness:
  "let w = set_queue [EvWorkspaceSwitched 1, EvFocusChanged 101] ex_world in
   \<exists>evs t. drain_events ex_reacting w = Some t \<and> queue t = [] \<and> evs = [EvWorkspaceSwitched 1, EvFocusChanged 101] @
     posted_during queue set_queue (broadcast ex_reacting) (w\<lparr>w_draining := True\<rparr>) evs"
proof -
  let ?w = "set_queue [EvWorkspaceSwitched 1, EvFocusChanged 101] ex_world"
  have "\<not> w_draining ?w" by (simp add: set_queue_def upd_core_def ex_world_def init_runtime_def)
  moreover have "ex_rank p < ex_rank ev" if "p \<in> set (snd (on_event ex_reacting r ev v))" for r ev v p
    using that by (auto simp: ex_reacting_def ex_rank_def split: event.splits)
  ultimately obtain evs t where t: "drain_events ex_reacting ?w = Some (t\<lparr>w_draining := False\<rparr>)" "queue t = []"
    "evs = queue ?w @ posted_during queue set_queue (broadcast ex_reacting) (?w\<lparr>w_draining := True\<rparr>) evs"
    using drain_delivers_fifo [of ?w ex_reacting ex_rank] by blast
  have "queue (t\<lparr>w_draining := False\<rparr>) = []" using t(2) by (simp add: queue_def)
  then show ?thesis using t(1,3) by (simp only: Let_def queue_set_queue) blast
qed

section \<open>Configuration transactions\<close>

lemma validated_apply: "validate_settings st = [] \<Longrightarrow> apply_settings (build_core_settings st) c \<noteq> None"
  using validate_settings_validated [of st]
  by (auto simp: validated_def apply_settings_def build_core_settings_def update_workspace_defs_eq split: option.splits)

lemma build_commit: "build_core_settings (commit_all st) = build_core_settings st"
  by (simp add: build_core_settings_def)

lemma load_config_returns: "load_config E cfg w \<noteq> None"
  using validated_apply by (auto simp: load_config_def split: prod.splits)

lemma reload_returns: "reload_runtime_config E w \<noteq> None"
  using validated_apply by (auto simp: reload_runtime_config_def Let_def build_commit split: prod.splits)

text \<open>
  C19. Loading and reloading always return: the workspace update, which would read past the end of an
  empty definition list, is only reached with settings that passed validation, and those define a
  workspace. This needs nothing of the script, the backend or the modules.
\<close>
theorem configuration_never_stuck:
  "load_config E cfg w \<noteq> None \<and> reload_runtime_config E w \<noteq> None \<and> process_pending_reload E w \<noteq> None"
  by (auto simp: load_config_returns reload_returns process_pending_reload_def Let_def split: prod.splits option.splits)

text \<open>
  C8. A reload that fails leaves the previous configuration in force: if the script can only assign
  values to settings, every setting of the store has its old value, and the core has its old settings,
  key bindings, layout parameters and active layout. The layouts the configuration had defined in Lua
  are lost, though: they are cleared before the script runs and are not part of the snapshot, so after a
  script that fails without defining any there are none.
\<close>
theorem failed_reload_restores:
  assumes "\<And>cfg b v. same_settings (w_store v) (w_store (snd (load_script E cfg b v)))"
    and "commit_all (w_store w) = w_store w" and "reload_runtime_config E w = Some (False, w')"
  shows "w_store w' = w_store w \<and> settings (w_core w') = settings (w_core w) \<and>
    keybindings (w_core w') = keybindings (w_core w) \<and> layout_cfg (w_core w') = layout_cfg (w_core w) \<and>
    active_layout (w_core w') = active_layout (w_core w) \<and>
    (config_path (w_core w) \<noteq> [] \<and> check_syntax E (config_path (w_core w)) \<and>
       (\<forall>cfg b v. lua_layouts (w_core (snd (load_script E cfg b v))) = lua_layouts (w_core v)) \<longrightarrow>
     lua_layouts (w_core w') = Map.empty)"
proof -
  define w2 where "w2 = w\<lparr>w_store := clear_all (snapshot_all (w_store w)), w_core := clear_reloadable_runtime_state (w_core w)\<rparr>"
  obtain s w3 where l: "load_script E (config_path (w_core w)) False w2 = (s, w3)" by fastforce
  have "same_settings (snapshot_all (w_store w)) (w_store w2)" by (simp add: w2_def same_settings_clear)
  moreover have "same_settings (w_store w2) (w_store w3)" using assms(1) l by (metis snd_conv)
  ultimately have roll: "rollback_all (w_store w3) = w_store w"
    using rollback_all_restores same_settings_trans assms(2) by metis
  let ?r = "w3\<lparr>w_store := rollback_all (w_store w3), w_core := restore_reload_state (snapshot_reload_state (w_core w)) (w_core w3)\<rparr>"
  have cases: "w' = w \<and> (config_path (w_core w) = [] \<or> \<not> check_syntax E (config_path (w_core w))) \<or> w' = ?r"
    using assms(3) l by (auto simp: reload_runtime_config_def Let_def w2_def [symmetric] split: if_splits)
  have "lua_layouts (w_core ?r) = lua_layouts (w_core w3)" by (simp add: restore_reload_state_def)
  moreover have "lua_layouts (w_core w2) = Map.empty" by (simp add: w2_def clear_reloadable_runtime_state_def)
  ultimately have "(\<forall>cfg b v. lua_layouts (w_core (snd (load_script E cfg b v))) = lua_layouts (w_core v)) \<Longrightarrow>
      lua_layouts (w_core ?r) = Map.empty"
    using l by (metis snd_conv)
  with cases roll show ?thesis
    by (elim disjE) (auto simp: restore_reload_state_def snapshot_reload_state_def)
qed

definition ex_scripted :: world where
  "ex_scripted = upd_core (register_lua_layout ''spiral'' tile) ex_world"

theorem failed_reload_restores_witness:
  "let w' = snd (the (reload_runtime_config ex_env ex_scripted)) in
   w_store w' = w_store ex_scripted \<and> settings (w_core w') = settings (w_core ex_scripted) \<and>
   lua_layouts (w_core ex_scripted) ''spiral'' \<noteq> None \<and> lua_layouts (w_core w') = Map.empty"
proof -
  have path: "config_path (w_core ex_scripted) = ''init.lua''"
    by (simp add: ex_scripted_def upd_core_def register_lua_layout_def ex_world_def set_config_path_def)
  have c: "commit_all (w_store ex_scripted) = w_store ex_scripted"
    by (simp add: ex_scripted_def upd_core_def ex_world_def ex_config_def commit_all_def commit_def mk_typed_setting_def)
  have s: "same_settings (w_store v) (w_store (snd (load_script ex_env cfg b v)))" for cfg b v by (simp add: ex_env_def)
  have r: "reload_runtime_config ex_env ex_scripted = Some (False, snd (the (reload_runtime_config ex_env ex_scripted)))"
    by (simp add: reload_runtime_config_def Let_def path) (simp add: ex_env_def)
  have "lua_layouts (w_core ex_scripted) ''spiral'' \<noteq> None"
    by (simp add: ex_scripted_def upd_core_def register_lua_layout_def)
  moreover have "check_syntax ex_env ''init.lua''"
    "\<forall>cfg b v. lua_layouts (w_core (snd (load_script ex_env cfg b v))) = lua_layouts (w_core v)" by (simp_all add: ex_env_def)
  ultimately show ?thesis
    using failed_reload_restores [of ex_env, OF s c r] path by (simp only: Let_def) blast
qed

section \<open>Lifecycle\<close>

definition settled_state :: "runtime \<Rightarrow> bool" where
  "settled_state r \<longleftrightarrow> rt_state r \<in> {Idle, Configured, Running, Stopped}"

lemmas transition_simps = transitions_def transition_def runtime_transition_allowed_def runtime_transition_table_def

lemma run_step_advances:
  assumes "settled_state r" and "run_step E cfg fb r = Some x"
  shows "(x = Ended r \<and> rt_state r = Stopped) \<or>
    (\<exists>r'. x = Again r' \<and> settled_state r' \<and> runtime_state_index (rt_state r) < runtime_state_index (rt_state r'))"
proof (cases "rt_state r")
  case Idle
  then show ?thesis
    using assms by (auto simp: run_step_def transition_simps settled_state_def split: option.splits if_splits prod.splits)
next
  case Running
  then show ?thesis
    using assms by (auto simp: run_step_def transition_simps settled_state_def split: option.splits)
next
  case Configured
  then show ?thesis
    using assms by (auto simp: run_step_def transition_simps settled_state_def split: option.splits)
qed (use assms in \<open>auto simp: run_step_def settled_state_def\<close>)

lemma run_ends_stopped:
  assumes "run_runtime E cfg fb r = Some x" and "settled_state r"
  shows "\<exists>r'. x = Ended r' \<and> rt_state r' = Stopped"
proof -
  have "settled_state r \<longrightarrow> (\<exists>r'. x = Ended r' \<and> rt_state r' = Stopped)"
    using assms(1)
  proof (rule run_runtime.raw_induct [where P = "\<lambda>E cfg fb r x. settled_state r \<longrightarrow> (\<exists>r'. x = Ended r' \<and> rt_state r' = Stopped)",
        rotated], intro impI)
    fix rec E cfg fb r x
    assume IH: "\<And>E cfg fb r x. rec E cfg fb r = Some x \<Longrightarrow> settled_state r \<longrightarrow> (\<exists>r'. x = Ended r' \<and> rt_state r' = Stopped)"
      and b: "(case run_step E cfg fb r of None \<Rightarrow> None | Some Aborted \<Rightarrow> Some Aborted | Some (Ended x) \<Rightarrow> Some (Ended x)
        | Some (Again r') \<Rightarrow> rec E cfg fb r') = Some x" and st: "settled_state r"
    then obtain y where y: "run_step E cfg fb r = Some y" by (auto split: option.splits)
    from run_step_advances [OF st y] show "\<exists>r'. x = Ended r' \<and> rt_state r' = Stopped"
      using b y IH by auto
  qed
  with assms(2) show ?thesis by blast
qed

lemma run_returns:
  assumes "\<And>v. settled_state v \<Longrightarrow> runtime_state_index (rt_state r) \<le> runtime_state_index (rt_state v) \<Longrightarrow> P v \<Longrightarrow>
      \<exists>x. run_step E cfg fb v = Some x \<and> (\<forall>v'. x = Again v' \<longrightarrow> P v')"
    and "settled_state r" and "P r"
  shows "run_runtime E cfg fb r \<noteq> None"
  using assms
proof (induction "5 - runtime_state_index (rt_state r)" arbitrary: r rule: less_induct)
  case less
  obtain x where x: "run_step E cfg fb r = Some x" "\<And>v'. x = Again v' \<Longrightarrow> P v'" using less.prems by blast
  from run_step_advances [OF less.prems(2) x(1)] show ?case
  proof (elim disjE exE conjE)
    fix r' assume r': "x = Again r'" "settled_state r'" "runtime_state_index (rt_state r) < runtime_state_index (rt_state r')"
    have "runtime_state_index (rt_state r') \<le> 5" by (cases "rt_state r'") simp_all
    then have "run_runtime E cfg fb r' \<noteq> None"
      using less.hyps [of r'] less.prems(1) r' x(2) by (simp add: less_imp_le order.trans)
    then show ?case using x(1) r'(1) by (simp add: run_runtime.simps [of E cfg fb r])
  qed (use x(1) in \<open>simp add: run_runtime.simps [of E cfg fb r]\<close>)
qed

text \<open>
  C18. The lifecycle is driven to its end: started in \<^verbatim>\<open>Idle\<close>, a run never aborts on an illegal
  transition, and if it returns it has ended in \<^verbatim>\<open>Stopped\<close>. It does return when start-up, the main loop
  and the shutdown return, and also, whatever those do, when no configuration can be loaded.
\<close>
theorem lifecycle_ends_stopped:
  assumes "rt_state r = Idle"
  shows "(\<forall>x. run_runtime E cfg fb r = Some x \<longrightarrow> (\<exists>r'. x = Ended r' \<and> rt_state r' = Stopped)) \<and>
    ((\<forall>w. start E w \<noteq> None) \<and> (\<forall>w. run_loop E w \<noteq> None) \<and> (\<forall>b w. stop E b w \<noteq> None) \<longrightarrow>
       run_runtime E cfg fb r \<noteq> None) \<and>
    ((\<forall>path w. \<not> fst (load_script E path True w)) \<longrightarrow> run_runtime E cfg fb r \<noteq> None)"
proof (intro conjI impI)
  have st: "settled_state r" using assms by (simp add: settled_state_def)
  then show "\<forall>x. run_runtime E cfg fb r = Some x \<longrightarrow> (\<exists>r'. x = Ended r' \<and> rt_state r' = Stopped)"
    using run_ends_stopped by blast
  show "run_runtime E cfg fb r \<noteq> None"
    if stages: "(\<forall>w. start E w \<noteq> None) \<and> (\<forall>w. run_loop E w \<noteq> None) \<and> (\<forall>b w. stop E b w \<noteq> None)"
  proof (rule run_returns [where P = "\<lambda>_. True", OF _ st TrueI])
    fix v :: runtime
    have "start E w = None \<longleftrightarrow> False" "run_loop E w = None \<longleftrightarrow> False" "stop E b w = None \<longleftrightarrow> False" for w b using stages by auto
    note ends = this
    have "run_step E cfg fb v \<noteq> None"
      by (cases "rt_state v") (simp_all add: run_step_def load_config_returns ends split: option.splits prod.splits)
    then show "\<exists>x. run_step E cfg fb v = Some x \<and> (\<forall>v'. x = Again v' \<longrightarrow> True)" by auto
  qed
  show "run_runtime E cfg fb r \<noteq> None" if fails: "\<forall>path w. \<not> fst (load_script E path True w)"
  proof (rule run_returns [where P = "\<lambda>v. rt_state v \<in> {Idle, Stopped}", OF _ st])
    fix v :: runtime assume v: "rt_state v \<in> {Idle, Stopped}"
    have no: "load_config E path w = Some (False, snd (load_script E path True w))" for path w
      using fails by (simp add: load_config_def split_beta)
    show "\<exists>x. run_step E cfg fb v = Some x \<and> (\<forall>v'. x = Again v' \<longrightarrow> rt_state v' \<in> {Idle, Stopped})"
      using v by (auto simp: run_step_def no)
  qed (use assms in simp)
qed

theorem lifecycle_ends_stopped_witness:
  "\<exists>r'. run_runtime ex_env ''init.lua'' ''fallback.lua'' init_runtime = Some (Ended r') \<and> rt_state r' = Stopped"
proof -
  have "rt_state init_runtime = Idle" "\<forall>path w. \<not> fst (load_script ex_env path True w)" by (simp_all add: init_runtime_def ex_env_def)
  with lifecycle_ends_stopped [of init_runtime ex_env "''init.lua''" "''fallback.lua''"] show ?thesis by blast
qed

section \<open>The restart file\<close>

lemma saved_window_unmanaged:
  assumes "windows_ok (wm c)" and "win \<notin> dom (window_index (wm c))"
  shows "saved_window c win = None"
proof -
  have "window_workspace (wm c) win = None" using windows_ok_dom [OF assms(1)] assms(2) by blast
  then show ?thesis by (simp add: saved_window_def workspace_of_window_def NO_WORKSPACE_def)
qed

lemma active_ws_range:
  assumes "wsman_inv s" and "synced s" and "m \<in> set (monitors s)"
  shows "- 1 \<le> active_ws m \<and> active_ws m < max 0 (int (length (workspaces s)))"
proof -
  obtain i where i: "i < length (monitors s)" "m = monitors s ! i" using assms(3) by (auto simp: in_set_conv_nth)
  have a: "active_ws m = active_ws_of_monitor s (int i)" using assms(2) i by (simp add: synced_def)
  have v: "is_mon_valid s (int i)" using i by (simp add: is_mon_valid_def)
  have sz: "sizes_ok s" and pk: "pools_ok s" using assms(1) by (simp_all add: wsman_inv_def)
  show ?thesis
  proof (cases "monitor_pools s ! i = []")
    case True
    then show ?thesis using a v sz by (simp add: active_ws_of_monitor_def NO_WORKSPACE_def)
  next
    case False
    then have "active_ws m \<in> set (monitor_pools s ! nat (int i))" using active_in_valid_pool [OF sz v] a by simp
    then have "is_ws_valid s (active_ws m)" using pool_mem_iff [OF sz pk v] by blast
    then show ?thesis by (simp add: is_ws_valid_def)
  qed
qed

lemma load_saved_state:
  assumes "core_inv c" and "int (length (workspaces (wm c))) < 2 ^ 31" and "int (length (monitors (wm c))) < 2 ^ 31"
  shows "load_restart_state (save_restart_state True True c old_file) =
    \<lparr>rs_windows = saved_window c,
     rs_monitor_active_ws = (\<lambda>m. if is_mon_valid (wm c) m then Some (active_ws (monitors (wm c) ! nat m)) else None),
     had_file = True\<rparr>"
proof -
  have inv: "wsman_inv (wm c)" "synced (wm c)" and ok: "windows_ok (wm c)"
    using assms(1) by (simp_all add: core_inv_def core_ok_def core_ok_windows wsman_inv_def)
  have "int32 (rw_ws_id w)" if "saved_window c win = Some w" for win w
  proof -
    have "0 \<le> rw_ws_id w" "rw_ws_id w = workspace_of_window (wm c) win"
      using that by (auto simp: saved_window_def Let_def split: if_splits option.splits)
    then show ?thesis
      using assms(2) by (auto simp: workspace_of_window_def is_ws_valid_def NO_WORKSPACE_def int32_def split: if_splits option.splits)
  qed
  moreover have "int32 (active_ws m)" if "m \<in> set (monitors (wm c))" for m
    using active_ws_range [OF inv that] assms(2) by (auto simp: int32_def)
  moreover have "(\<lambda>win. if win \<in> set (all_window_ids c) then saved_window c win else None) = saved_window c"
    using saved_window_unmanaged [OF ok] all_ids_index [OF ok] by auto
  ultimately show ?thesis using load_save_restart_state [of c old_file] assms(3) by simp
qed

text \<open>What is written for a window, in terms of the core: managed windows only, with the state they are in.\<close>

lemma saved_window_managed:
  assumes "core_inv c"
  shows "saved_window c win = (case window_index (wm c) win of None \<Rightarrow> None | Some p \<Rightarrow>
     if borderless (win_at c p) \<and> self_managed (win_at c p) then None
     else Some \<lparr>rw_ws_id = the (window_workspace (wm c) win), rw_floating = floating (win_at c p), rw_fullscreen = fullscreen (win_at c p),
                rw_hidden_explicitly = hidden_explicitly (win_at c p), rw_borderless = borderless (win_at c p)\<rparr>)"
proof -
  have ok: "windows_ok (wm c)" using assms by (simp add: core_inv_def core_ok_def core_ok_windows wsman_inv_def)
  show ?thesis
  proof (cases "window_index (wm c) win")
    case None
    then show ?thesis using saved_window_unmanaged [OF ok] by (simp add: domIff)
  next
    case (Some p)
    obtain i where "located (wm c) i p" "win_id (heap (wm c) p) = win" "window_workspace (wm c) win = Some (int i)"
      using windows_ok_indexD [OF ok Some] by blast
    then have "win \<noteq> NO_WINDOW" "workspace_of_window (wm c) win = int i" "window_workspace (wm c) win = Some (int i)"
      using ok by (auto simp: windows_ok_def workspace_of_window_def located_def is_ws_valid_def)
    then show ?thesis using Some by (simp add: saved_window_def Let_def find_window_in_all_def)
  qed
qed

text \<open>
  C7. Reading the restart file that was written from a consistent core gives back, for every monitor, its active workspace,
  and for every managed window the workspace it is on and whether it is floating, fullscreen, hidden explicitly and
  borderless. Left out, and absent from what is read, are exactly the windows the core does not manage and the borderless
  windows that manage themselves.
\<close>
theorem restart_round_trip:
  assumes "core_inv c" and "int (length (workspaces (wm c))) < 2 ^ 31" and "int (length (monitors (wm c))) < 2 ^ 31"
  shows "let st = load_restart_state (save_restart_state True True c old_file) in
    had_file st \<and>
    (\<forall>m. rs_monitor_active_ws st m = (if is_mon_valid (wm c) m then Some (active_ws (monitors (wm c) ! nat m)) else None)) \<and>
    (\<forall>win. rs_windows st win = (case window_index (wm c) win of None \<Rightarrow> None | Some p \<Rightarrow>
       if borderless (win_at c p) \<and> self_managed (win_at c p) then None
       else Some \<lparr>rw_ws_id = the (window_workspace (wm c) win), rw_floating = floating (win_at c p), rw_fullscreen = fullscreen (win_at c p),
                  rw_hidden_explicitly = hidden_explicitly (win_at c p), rw_borderless = borderless (win_at c p)\<rparr>))"
  by (simp add: load_saved_state [OF assms] saved_window_managed [OF assms(1)])

theorem restart_round_trip_witness:
  "let st = load_restart_state (save_restart_state True True ex_core None) in
   rs_windows st 103 = Some \<lparr>rw_ws_id = 1, rw_floating = False, rw_fullscreen = False, rw_hidden_explicitly = False, rw_borderless = False\<rparr> \<and>
   rs_windows st 999 = None \<and> rs_monitor_active_ws st 1 = Some 1"
proof -
  have "int (length (workspaces (wm ex_core))) < 2 ^ 31" "int (length (monitors (wm ex_core))) < 2 ^ 31" by code_simp+
  note r = restart_round_trip [OF ex_inv(2) this, of None]
  have "window_index (wm ex_core) 103 = Some 2" "window_workspace (wm ex_core) 103 = Some 1" "window_index (wm ex_core) 999 = None"
    "\<not> borderless (win_at ex_core 2) \<and> \<not> floating (win_at ex_core 2) \<and> \<not> fullscreen (win_at ex_core 2) \<and> \<not> hidden_explicitly (win_at ex_core 2)"
    "is_mon_valid (wm ex_core) 1" "active_ws (monitors (wm ex_core) ! nat 1) = 1" by code_simp+
  then show ?thesis using r by (simp add: Let_def)
qed

end
