(* ===== verification/Core_Access.thy ===== *)
theory Core_Access
  imports Runtime_Invariant
begin

text \<open>
  What the backends and modules use of \<^verbatim>\<open>class Core\<close> (\<^verbatim>\<open>core/include/domain/core.hpp\<close>) beside the atom commands: the
  lookups of window states and the composite commands, on the runtime's world.
\<close>

definition window_state :: "core \<Rightarrow> window_id \<Rightarrow> window option" where
  "window_state c win = map_option (win_at c) (find_window (wm c) win NO_WORKSPACE)"

definition window_state_any :: "core \<Rightarrow> window_id \<Rightarrow> window option" where
  "window_state_any c win = map_option (win_at c) (find_window_in_all (wm c) win)"

definition composite :: "command_composite \<Rightarrow> world \<Rightarrow> world" where
  "composite cmd = upd_core (\<lambda>c. snd (dispatch_composite cmd c))"

lemma moves_composite [intro]: "moves w (composite cmd w)"
  by (rule moves_step) (simp add: composite_def upd_core_def core_step.composite)

end
