(* ===== verification/Ipc.thy ===== *)
theory Ipc
  imports Prelude "HOL-Library.Monad_Syntax"
begin

text \<open>
  The wire format and the transport of the control connection between the window manager and its display
  server (\<^verbatim>\<open>libipc/include/swm/ipc\<close>, \<^verbatim>\<open>libipc/src\<close>).

  A message is a header followed by a plain C struct, copied byte by byte. Every struct of the protocol is
  made of 32-bit integers and of character arrays whose size is a multiple of four, so there is no padding;
  integers are little-endian, as on the hosts the program is built for. Signed and unsigned 32-bit fields
  are both \<^typ>\<open>32 word\<close>: the reader of a field decides how to look at it.

  System calls are a parameter: the record \<open>sys\<close> holds the calls the channel makes, as functions on an
  abstract state of the operating system.
\<close>

unbundle bit_operations_syntax

type_synonym byte = "8 word"

section \<open>Integers in memory\<close>

definition u32_bytes :: "32 word \<Rightarrow> byte list" where
  "u32_bytes w = [ucast w, ucast (drop_bit 8 w), ucast (drop_bit 16 w), ucast (drop_bit 24 w)]"

definition u16_bytes :: "16 word \<Rightarrow> byte list" where
  "u16_bytes w = [ucast w, ucast (drop_bit 8 w)]"

fun take_u32 :: "byte list \<Rightarrow> (32 word \<times> byte list) option" where
  "take_u32 (a # b # c # d # r) =
     Some (ucast a OR push_bit 8 (ucast b) OR push_bit 16 (ucast c) OR push_bit 24 (ucast d), r)"
| "take_u32 _ = None"

fun take_u16 :: "byte list \<Rightarrow> (16 word \<times> byte list) option" where
  "take_u16 (a # b # r) = Some (ucast a OR push_bit 8 (ucast b), r)"
| "take_u16 _ = None"

definition take_chars :: "nat \<Rightarrow> byte list \<Rightarrow> (byte list \<times> byte list) option" where
  "take_chars n bs = (if n \<le> length bs then Some (take n bs, drop n bs) else None)"

text \<open>
  What a field of a message promises: writing and reading are inverse to each other, whatever follows in the
  buffer, and the size is fixed.
\<close>

locale wire =
  fixes put :: "'a \<Rightarrow> byte list"
    and get :: "byte list \<Rightarrow> ('a \<times> byte list) option"
    and ok :: "'a \<Rightarrow> bool"
    and sz :: nat
  assumes get_put: "ok x \<Longrightarrow> get (put x @ r) = Some (x, r)"
    and put_get: "get bs = Some (x, r) \<Longrightarrow> bs = put x @ r \<and> ok x"
    and length_put: "ok x \<Longrightarrow> length (put x) = sz"
begin

lemma get_put_exact: "ok x \<Longrightarrow> get (put x) = Some (x, [])"
  using get_put [of x "[]"] by simp

lemma put_inject: "ok x \<Longrightarrow> ok y \<Longrightarrow> put x @ r = put y @ s \<Longrightarrow> x = y \<and> r = s"
  by (metis get_put option.inject prod.inject)

lemma get_length: "get bs = Some (x, r) \<Longrightarrow> length bs = sz + length r"
  by (metis put_get length_put length_append)

end

lemma no_high_bit [simp]: "\<not> bit (b :: byte) (8 + n)" "\<not> bit b (16 + n)" "\<not> bit b (24 + n)"
  by (auto dest: bit_imp_le_length)

lemma bytes_of_u32:
  "(ucast (ucast (w :: 32 word) :: byte) :: 32 word) OR push_bit 8 (ucast (ucast (drop_bit 8 w) :: byte)) OR
   push_bit 16 (ucast (ucast (drop_bit 16 w) :: byte)) OR push_bit 24 (ucast (ucast (drop_bit 24 w) :: byte)) = w"
proof (rule bit_word_eqI)
  fix n assume "n < LENGTH(32)"
  moreover have "n - 16 < 8 \<or> 24 + (n - 24) = n" by linarith
  ultimately show "bit ((ucast (ucast w :: byte) :: 32 word) OR push_bit 8 (ucast (ucast (drop_bit 8 w) :: byte)) OR
    push_bit 16 (ucast (ucast (drop_bit 16 w) :: byte)) OR push_bit 24 (ucast (ucast (drop_bit 24 w) :: byte))) n = bit w n"
    by (auto simp: bit_simps)
qed

lemma bytes_of_u16:
  "(ucast (ucast (w :: 16 word) :: byte) :: 16 word) OR push_bit 8 (ucast (ucast (drop_bit 8 w) :: byte)) = w"
  by (rule bit_word_eqI) (auto simp: bit_simps)

lemma u32_of_bytes:
  "u32_bytes (ucast a OR push_bit 8 (ucast b) OR push_bit 16 (ucast c) OR push_bit 24 (ucast d)) = [a, b, c, d]"
  unfolding u32_bytes_def by (simp, intro conjI; rule bit_word_eqI; auto simp: bit_simps)

lemma u16_of_bytes: "u16_bytes (ucast a OR push_bit 8 (ucast b)) = [a, b]"
  unfolding u16_bytes_def by (simp, intro conjI; rule bit_word_eqI; auto simp: bit_simps)

interpretation u32: wire u32_bytes take_u32 "\<lambda>_. True" 4
proof
  show "take_u32 (u32_bytes x @ r) = Some (x, r)" for x r by (simp add: u32_bytes_def bytes_of_u32)
  show "bs = u32_bytes x @ r \<and> True" if "take_u32 bs = Some (x, r)" for bs x r
    using that by (cases bs rule: take_u32.cases) (auto simp: u32_of_bytes)
qed (simp add: u32_bytes_def)

interpretation u16: wire u16_bytes take_u16 "\<lambda>_. True" 2
proof
  show "take_u16 (u16_bytes x @ r) = Some (x, r)" for x r by (simp add: u16_bytes_def bytes_of_u16)
  show "bs = u16_bytes x @ r \<and> True" if "take_u16 bs = Some (x, r)" for bs x r
    using that by (cases bs rule: take_u16.cases) (auto simp: u16_of_bytes)
qed (simp add: u16_bytes_def)

interpretation chars: wire "\<lambda>bs. bs" "take_chars n" "\<lambda>bs. length bs = n" n
  by unfold_locales (auto simp: take_chars_def split: if_splits)

section \<open>The protocol\<close>

definition kBackendProtocolMagic :: "32 word" where "kBackendProtocolMagic = 0x53495043"
definition kBackendProtocolVersion :: "16 word" where "kBackendProtocolVersion = 1"
definition kMaxOutputNameBytes :: nat where "kMaxOutputNameBytes = 64"
definition kMaxSurfaceAppIdBytes :: nat where "kMaxSurfaceAppIdBytes = 96"
definition kMaxSurfaceTitleBytes :: nat where "kMaxSurfaceTitleBytes = 160"
definition kMaxKeyIntercepts :: nat where "kMaxKeyIntercepts = 64"

lemmas protocol_consts = kMaxOutputNameBytes_def kMaxSurfaceAppIdBytes_def kMaxSurfaceTitleBytes_def
  kMaxKeyIntercepts_def

text \<open>
  \<^verbatim>\<open>FixedString<N>::assign\<close> on a fresh buffer, from the C string of \<open>s\<close> (which ends at its first null), and the
  conversion of the buffer back to a \<^verbatim>\<open>std::string\<close>.
\<close>

definition byte_of :: "char \<Rightarrow> byte" where
  "byte_of ch = word_of_nat (of_char ch)"

definition char_of_byte :: "byte \<Rightarrow> char" where
  "char_of_byte b = char_of (unat b)"

definition c_str :: "string \<Rightarrow> byte list" where
  "c_str s = takeWhile (\<lambda>b. b \<noteq> 0) (map byte_of s)"

definition fixed_assign :: "nat \<Rightarrow> string \<Rightarrow> byte list" where
  "fixed_assign n s =
     (let len = min (length (c_str s)) (n - 1)
      in take len (c_str s) @ replicate (n - len) 0)"

definition fixed_string :: "byte list \<Rightarrow> string" where
  "fixed_string bs = map char_of_byte (takeWhile (\<lambda>b. b \<noteq> 0) bs)"

text \<open>The intercept array of \<^verbatim>\<open>SetKeyboardIntercepts\<close>: pairs of keysym and modifiers.\<close>

definition intercept_bytes :: "(32 word \<times> 32 word) list \<Rightarrow> byte list" where
  "intercept_bytes ks = concat (map (\<lambda>(k, m). u32_bytes k @ u32_bytes m) ks)"

fun take_intercepts :: "nat \<Rightarrow> byte list \<Rightarrow> ((32 word \<times> 32 word) list \<times> byte list) option" where
  "take_intercepts 0 bs = Some ([], bs)"
| "take_intercepts (Suc n) bs =
     do { (k, r) \<leftarrow> take_u32 bs; (m, s) \<leftarrow> take_u32 r; (ks, t) \<leftarrow> take_intercepts n s; Some ((k, m) # ks, t) }"

datatype message_type =
    T_Hello
  | T_SnapshotRequest
  | T_SnapshotBegin
  | T_SnapshotEnd
  | T_OutputAdded
  | T_OutputRemoved
  | T_SurfaceCreated
  | T_SurfaceMapped
  | T_SurfaceUnmapped
  | T_SurfaceDestroyed
  | T_SurfaceCommitted
  | T_SurfaceTitleChanged
  | T_SurfaceAppIdChanged
  | T_Key
  | T_Button
  | T_PointerMotion
  | T_PointerEnter
  | T_ConfigureSurface
  | T_SetSurfaceVisible
  | T_SetSurfaceBorder
  | T_SetSurfaceActivated
  | T_SetSurfaceStacking
  | T_CloseSurface
  | T_WarpPointer
  | T_SetKeyboardIntercepts
  | T_GrabPointer
  | T_UngrabPointer
  | T_CreateOverlay
  | T_UpdateOverlay
  | T_DestroyOverlay
  | T_OverlayExpose
  | T_OverlayButton
  | T_OverlayReleased

text \<open>One constructor per struct of the protocol, with its fields in order.\<close>

datatype payload =
    Hello "32 word" "32 word"
  | SnapshotRequest "32 word"
  | SnapshotBegin "32 word"
  | SnapshotEnd "32 word"
  | OutputAdded "32 word" "byte list" "32 word" "32 word" "32 word" "32 word" "32 word"
  | OutputRemoved "32 word"
  | SurfaceCreated "32 word" "byte list" "byte list" "32 word"
  | SurfaceMapped "32 word"
  | SurfaceUnmapped "32 word"
  | SurfaceDestroyed "32 word"
  | SurfaceCommitted "32 word" "32 word" "32 word"
  | SurfaceTitleChanged "32 word" "byte list"
  | SurfaceAppIdChanged "32 word" "byte list"
  | Key "32 word" "32 word" "32 word" "32 word"
  | Button "32 word" "32 word" "32 word" "32 word" "32 word" "32 word"
  | PointerMotion "32 word" "32 word" "32 word" "32 word"
  | PointerEnter "32 word"
  | ConfigureSurface "32 word" "32 word" "32 word" "32 word" "32 word"
  | SetSurfaceVisible "32 word" "32 word"
  | SetSurfaceBorder "32 word" "32 word" "32 word"
  | SetSurfaceActivated "32 word" "32 word"
  | SetSurfaceStacking "32 word" "32 word"
  | CloseSurface "32 word"
  | WarpPointer "32 word" "32 word"
  | SetKeyboardIntercepts "32 word" "(32 word \<times> 32 word) list"
  | GrabPointer "32 word"
  | UngrabPointer "32 word"
  | CreateOverlay "32 word" "32 word" "32 word" "32 word" "32 word"
  | UpdateOverlay "32 word" "32 word"
  | DestroyOverlay "32 word"
  | OverlayExpose "32 word"
  | OverlayButton "32 word" "32 word" "32 word" "32 word" "32 word"
  | OverlayReleased "32 word" "32 word"

fun payload_type :: "payload \<Rightarrow> message_type" where
  "payload_type (Hello _ _) = T_Hello"
| "payload_type (SnapshotRequest _) = T_SnapshotRequest"
| "payload_type (SnapshotBegin _) = T_SnapshotBegin"
| "payload_type (SnapshotEnd _) = T_SnapshotEnd"
| "payload_type (OutputAdded _ _ _ _ _ _ _) = T_OutputAdded"
| "payload_type (OutputRemoved _) = T_OutputRemoved"
| "payload_type (SurfaceCreated _ _ _ _) = T_SurfaceCreated"
| "payload_type (SurfaceMapped _) = T_SurfaceMapped"
| "payload_type (SurfaceUnmapped _) = T_SurfaceUnmapped"
| "payload_type (SurfaceDestroyed _) = T_SurfaceDestroyed"
| "payload_type (SurfaceCommitted _ _ _) = T_SurfaceCommitted"
| "payload_type (SurfaceTitleChanged _ _) = T_SurfaceTitleChanged"
| "payload_type (SurfaceAppIdChanged _ _) = T_SurfaceAppIdChanged"
| "payload_type (Key _ _ _ _) = T_Key"
| "payload_type (Button _ _ _ _ _ _) = T_Button"
| "payload_type (PointerMotion _ _ _ _) = T_PointerMotion"
| "payload_type (PointerEnter _) = T_PointerEnter"
| "payload_type (ConfigureSurface _ _ _ _ _) = T_ConfigureSurface"
| "payload_type (SetSurfaceVisible _ _) = T_SetSurfaceVisible"
| "payload_type (SetSurfaceBorder _ _ _) = T_SetSurfaceBorder"
| "payload_type (SetSurfaceActivated _ _) = T_SetSurfaceActivated"
| "payload_type (SetSurfaceStacking _ _) = T_SetSurfaceStacking"
| "payload_type (CloseSurface _) = T_CloseSurface"
| "payload_type (WarpPointer _ _) = T_WarpPointer"
| "payload_type (SetKeyboardIntercepts _ _) = T_SetKeyboardIntercepts"
| "payload_type (GrabPointer _) = T_GrabPointer"
| "payload_type (UngrabPointer _) = T_UngrabPointer"
| "payload_type (CreateOverlay _ _ _ _ _) = T_CreateOverlay"
| "payload_type (UpdateOverlay _ _) = T_UpdateOverlay"
| "payload_type (DestroyOverlay _) = T_DestroyOverlay"
| "payload_type (OverlayExpose _) = T_OverlayExpose"
| "payload_type (OverlayButton _ _ _ _ _) = T_OverlayButton"
| "payload_type (OverlayReleased _ _) = T_OverlayReleased"

definition message_types :: "message_type list" where
  "message_types =
     [T_Hello, T_SnapshotRequest, T_SnapshotBegin, T_SnapshotEnd, T_OutputAdded,
      T_OutputRemoved, T_SurfaceCreated, T_SurfaceMapped, T_SurfaceUnmapped, T_SurfaceDestroyed,
      T_SurfaceCommitted, T_SurfaceTitleChanged, T_SurfaceAppIdChanged, T_Key, T_Button,
      T_PointerMotion, T_PointerEnter, T_ConfigureSurface, T_SetSurfaceVisible, T_SetSurfaceBorder,
      T_SetSurfaceActivated, T_SetSurfaceStacking, T_CloseSurface, T_WarpPointer, T_SetKeyboardIntercepts,
      T_GrabPointer, T_UngrabPointer, T_CreateOverlay, T_UpdateOverlay, T_DestroyOverlay,
      T_OverlayExpose, T_OverlayButton, T_OverlayReleased]"

text \<open>The values of \<^verbatim>\<open>enum class BackendMessageType\<close> and the sizes of the structs.\<close>

fun type_code :: "message_type \<Rightarrow> 16 word" where
  "type_code T_Hello = 1"
| "type_code T_SnapshotRequest = 2"
| "type_code T_SnapshotBegin = 3"
| "type_code T_SnapshotEnd = 4"
| "type_code T_OutputAdded = 5"
| "type_code T_OutputRemoved = 6"
| "type_code T_SurfaceCreated = 7"
| "type_code T_SurfaceMapped = 8"
| "type_code T_SurfaceUnmapped = 9"
| "type_code T_SurfaceDestroyed = 10"
| "type_code T_SurfaceCommitted = 11"
| "type_code T_SurfaceTitleChanged = 12"
| "type_code T_SurfaceAppIdChanged = 13"
| "type_code T_Key = 14"
| "type_code T_Button = 15"
| "type_code T_PointerMotion = 16"
| "type_code T_PointerEnter = 17"
| "type_code T_ConfigureSurface = 18"
| "type_code T_SetSurfaceVisible = 19"
| "type_code T_SetSurfaceBorder = 20"
| "type_code T_SetSurfaceActivated = 21"
| "type_code T_SetSurfaceStacking = 22"
| "type_code T_CloseSurface = 23"
| "type_code T_WarpPointer = 24"
| "type_code T_SetKeyboardIntercepts = 25"
| "type_code T_GrabPointer = 26"
| "type_code T_UngrabPointer = 27"
| "type_code T_CreateOverlay = 28"
| "type_code T_UpdateOverlay = 29"
| "type_code T_DestroyOverlay = 30"
| "type_code T_OverlayExpose = 31"
| "type_code T_OverlayButton = 32"
| "type_code T_OverlayReleased = 33"

fun payload_size :: "message_type \<Rightarrow> nat" where
  "payload_size T_Hello = 8"
| "payload_size T_SnapshotRequest = 4"
| "payload_size T_SnapshotBegin = 4"
| "payload_size T_SnapshotEnd = 4"
| "payload_size T_OutputAdded = 88"
| "payload_size T_OutputRemoved = 4"
| "payload_size T_SurfaceCreated = 264"
| "payload_size T_SurfaceMapped = 4"
| "payload_size T_SurfaceUnmapped = 4"
| "payload_size T_SurfaceDestroyed = 4"
| "payload_size T_SurfaceCommitted = 12"
| "payload_size T_SurfaceTitleChanged = 164"
| "payload_size T_SurfaceAppIdChanged = 100"
| "payload_size T_Key = 16"
| "payload_size T_Button = 24"
| "payload_size T_PointerMotion = 16"
| "payload_size T_PointerEnter = 4"
| "payload_size T_ConfigureSurface = 20"
| "payload_size T_SetSurfaceVisible = 8"
| "payload_size T_SetSurfaceBorder = 12"
| "payload_size T_SetSurfaceActivated = 8"
| "payload_size T_SetSurfaceStacking = 8"
| "payload_size T_CloseSurface = 4"
| "payload_size T_WarpPointer = 8"
| "payload_size T_SetKeyboardIntercepts = 516"
| "payload_size T_GrabPointer = 4"
| "payload_size T_UngrabPointer = 4"
| "payload_size T_CreateOverlay = 20"
| "payload_size T_UpdateOverlay = 8"
| "payload_size T_DestroyOverlay = 4"
| "payload_size T_OverlayExpose = 4"
| "payload_size T_OverlayButton = 20"
| "payload_size T_OverlayReleased = 8"

fun payload_bytes :: "payload \<Rightarrow> byte list" where
  "payload_bytes (Hello a b) = u32_bytes a @ u32_bytes b"
| "payload_bytes (SnapshotRequest a) = u32_bytes a"
| "payload_bytes (SnapshotBegin a) = u32_bytes a"
| "payload_bytes (SnapshotEnd a) = u32_bytes a"
| "payload_bytes (OutputAdded a b c d e f g) = u32_bytes a @ b @ u32_bytes c @ u32_bytes d @ u32_bytes e @ u32_bytes f @ u32_bytes g"
| "payload_bytes (OutputRemoved a) = u32_bytes a"
| "payload_bytes (SurfaceCreated a b c d) = u32_bytes a @ b @ c @ u32_bytes d"
| "payload_bytes (SurfaceMapped a) = u32_bytes a"
| "payload_bytes (SurfaceUnmapped a) = u32_bytes a"
| "payload_bytes (SurfaceDestroyed a) = u32_bytes a"
| "payload_bytes (SurfaceCommitted a b c) = u32_bytes a @ u32_bytes b @ u32_bytes c"
| "payload_bytes (SurfaceTitleChanged a b) = u32_bytes a @ b"
| "payload_bytes (SurfaceAppIdChanged a b) = u32_bytes a @ b"
| "payload_bytes (Key a b c d) = u32_bytes a @ u32_bytes b @ u32_bytes c @ u32_bytes d"
| "payload_bytes (Button a b c d e f) = u32_bytes a @ u32_bytes b @ u32_bytes c @ u32_bytes d @ u32_bytes e @ u32_bytes f"
| "payload_bytes (PointerMotion a b c d) = u32_bytes a @ u32_bytes b @ u32_bytes c @ u32_bytes d"
| "payload_bytes (PointerEnter a) = u32_bytes a"
| "payload_bytes (ConfigureSurface a b c d e) = u32_bytes a @ u32_bytes b @ u32_bytes c @ u32_bytes d @ u32_bytes e"
| "payload_bytes (SetSurfaceVisible a b) = u32_bytes a @ u32_bytes b"
| "payload_bytes (SetSurfaceBorder a b c) = u32_bytes a @ u32_bytes b @ u32_bytes c"
| "payload_bytes (SetSurfaceActivated a b) = u32_bytes a @ u32_bytes b"
| "payload_bytes (SetSurfaceStacking a b) = u32_bytes a @ u32_bytes b"
| "payload_bytes (CloseSurface a) = u32_bytes a"
| "payload_bytes (WarpPointer a b) = u32_bytes a @ u32_bytes b"
| "payload_bytes (SetKeyboardIntercepts a b) = u32_bytes a @ intercept_bytes b"
| "payload_bytes (GrabPointer a) = u32_bytes a"
| "payload_bytes (UngrabPointer a) = u32_bytes a"
| "payload_bytes (CreateOverlay a b c d e) = u32_bytes a @ u32_bytes b @ u32_bytes c @ u32_bytes d @ u32_bytes e"
| "payload_bytes (UpdateOverlay a b) = u32_bytes a @ u32_bytes b"
| "payload_bytes (DestroyOverlay a) = u32_bytes a"
| "payload_bytes (OverlayExpose a) = u32_bytes a"
| "payload_bytes (OverlayButton a b c d e) = u32_bytes a @ u32_bytes b @ u32_bytes c @ u32_bytes d @ u32_bytes e"
| "payload_bytes (OverlayReleased a b) = u32_bytes a @ u32_bytes b"

fun payload_ok :: "payload \<Rightarrow> bool" where
  "payload_ok (OutputAdded _ b _ _ _ _ _) \<longleftrightarrow> length b = kMaxOutputNameBytes"
| "payload_ok (SurfaceCreated _ b c _) \<longleftrightarrow> length b = kMaxSurfaceAppIdBytes \<and> length c = kMaxSurfaceTitleBytes"
| "payload_ok (SurfaceTitleChanged _ b) \<longleftrightarrow> length b = kMaxSurfaceTitleBytes"
| "payload_ok (SurfaceAppIdChanged _ b) \<longleftrightarrow> length b = kMaxSurfaceAppIdBytes"
| "payload_ok (SetKeyboardIntercepts _ b) \<longleftrightarrow> length b = kMaxKeyIntercepts"
| "payload_ok _ \<longleftrightarrow> True"

fun take_payload :: "message_type \<Rightarrow> byte list \<Rightarrow> (payload \<times> byte list) option" where
  "take_payload T_Hello bs = do { (a, r0) \<leftarrow> take_u32 bs; (b, r1) \<leftarrow> take_u32 r0; Some (Hello a b, r1) }"
| "take_payload T_SnapshotRequest bs = do { (a, r0) \<leftarrow> take_u32 bs; Some (SnapshotRequest a, r0) }"
| "take_payload T_SnapshotBegin bs = do { (a, r0) \<leftarrow> take_u32 bs; Some (SnapshotBegin a, r0) }"
| "take_payload T_SnapshotEnd bs = do { (a, r0) \<leftarrow> take_u32 bs; Some (SnapshotEnd a, r0) }"
| "take_payload T_OutputAdded bs = do { (a, r0) \<leftarrow> take_u32 bs; (b, r1) \<leftarrow> take_chars kMaxOutputNameBytes r0; (c, r2) \<leftarrow> take_u32 r1; (d, r3) \<leftarrow> take_u32 r2; (e, r4) \<leftarrow> take_u32 r3; (f, r5) \<leftarrow> take_u32 r4; (g, r6) \<leftarrow> take_u32 r5; Some (OutputAdded a b c d e f g, r6) }"
| "take_payload T_OutputRemoved bs = do { (a, r0) \<leftarrow> take_u32 bs; Some (OutputRemoved a, r0) }"
| "take_payload T_SurfaceCreated bs = do { (a, r0) \<leftarrow> take_u32 bs; (b, r1) \<leftarrow> take_chars kMaxSurfaceAppIdBytes r0; (c, r2) \<leftarrow> take_chars kMaxSurfaceTitleBytes r1; (d, r3) \<leftarrow> take_u32 r2; Some (SurfaceCreated a b c d, r3) }"
| "take_payload T_SurfaceMapped bs = do { (a, r0) \<leftarrow> take_u32 bs; Some (SurfaceMapped a, r0) }"
| "take_payload T_SurfaceUnmapped bs = do { (a, r0) \<leftarrow> take_u32 bs; Some (SurfaceUnmapped a, r0) }"
| "take_payload T_SurfaceDestroyed bs = do { (a, r0) \<leftarrow> take_u32 bs; Some (SurfaceDestroyed a, r0) }"
| "take_payload T_SurfaceCommitted bs = do { (a, r0) \<leftarrow> take_u32 bs; (b, r1) \<leftarrow> take_u32 r0; (c, r2) \<leftarrow> take_u32 r1; Some (SurfaceCommitted a b c, r2) }"
| "take_payload T_SurfaceTitleChanged bs = do { (a, r0) \<leftarrow> take_u32 bs; (b, r1) \<leftarrow> take_chars kMaxSurfaceTitleBytes r0; Some (SurfaceTitleChanged a b, r1) }"
| "take_payload T_SurfaceAppIdChanged bs = do { (a, r0) \<leftarrow> take_u32 bs; (b, r1) \<leftarrow> take_chars kMaxSurfaceAppIdBytes r0; Some (SurfaceAppIdChanged a b, r1) }"
| "take_payload T_Key bs = do { (a, r0) \<leftarrow> take_u32 bs; (b, r1) \<leftarrow> take_u32 r0; (c, r2) \<leftarrow> take_u32 r1; (d, r3) \<leftarrow> take_u32 r2; Some (Key a b c d, r3) }"
| "take_payload T_Button bs = do { (a, r0) \<leftarrow> take_u32 bs; (b, r1) \<leftarrow> take_u32 r0; (c, r2) \<leftarrow> take_u32 r1; (d, r3) \<leftarrow> take_u32 r2; (e, r4) \<leftarrow> take_u32 r3; (f, r5) \<leftarrow> take_u32 r4; Some (Button a b c d e f, r5) }"
| "take_payload T_PointerMotion bs = do { (a, r0) \<leftarrow> take_u32 bs; (b, r1) \<leftarrow> take_u32 r0; (c, r2) \<leftarrow> take_u32 r1; (d, r3) \<leftarrow> take_u32 r2; Some (PointerMotion a b c d, r3) }"
| "take_payload T_PointerEnter bs = do { (a, r0) \<leftarrow> take_u32 bs; Some (PointerEnter a, r0) }"
| "take_payload T_ConfigureSurface bs = do { (a, r0) \<leftarrow> take_u32 bs; (b, r1) \<leftarrow> take_u32 r0; (c, r2) \<leftarrow> take_u32 r1; (d, r3) \<leftarrow> take_u32 r2; (e, r4) \<leftarrow> take_u32 r3; Some (ConfigureSurface a b c d e, r4) }"
| "take_payload T_SetSurfaceVisible bs = do { (a, r0) \<leftarrow> take_u32 bs; (b, r1) \<leftarrow> take_u32 r0; Some (SetSurfaceVisible a b, r1) }"
| "take_payload T_SetSurfaceBorder bs = do { (a, r0) \<leftarrow> take_u32 bs; (b, r1) \<leftarrow> take_u32 r0; (c, r2) \<leftarrow> take_u32 r1; Some (SetSurfaceBorder a b c, r2) }"
| "take_payload T_SetSurfaceActivated bs = do { (a, r0) \<leftarrow> take_u32 bs; (b, r1) \<leftarrow> take_u32 r0; Some (SetSurfaceActivated a b, r1) }"
| "take_payload T_SetSurfaceStacking bs = do { (a, r0) \<leftarrow> take_u32 bs; (b, r1) \<leftarrow> take_u32 r0; Some (SetSurfaceStacking a b, r1) }"
| "take_payload T_CloseSurface bs = do { (a, r0) \<leftarrow> take_u32 bs; Some (CloseSurface a, r0) }"
| "take_payload T_WarpPointer bs = do { (a, r0) \<leftarrow> take_u32 bs; (b, r1) \<leftarrow> take_u32 r0; Some (WarpPointer a b, r1) }"
| "take_payload T_SetKeyboardIntercepts bs = do { (a, r0) \<leftarrow> take_u32 bs; (b, r1) \<leftarrow> take_intercepts kMaxKeyIntercepts r0; Some (SetKeyboardIntercepts a b, r1) }"
| "take_payload T_GrabPointer bs = do { (a, r0) \<leftarrow> take_u32 bs; Some (GrabPointer a, r0) }"
| "take_payload T_UngrabPointer bs = do { (a, r0) \<leftarrow> take_u32 bs; Some (UngrabPointer a, r0) }"
| "take_payload T_CreateOverlay bs = do { (a, r0) \<leftarrow> take_u32 bs; (b, r1) \<leftarrow> take_u32 r0; (c, r2) \<leftarrow> take_u32 r1; (d, r3) \<leftarrow> take_u32 r2; (e, r4) \<leftarrow> take_u32 r3; Some (CreateOverlay a b c d e, r4) }"
| "take_payload T_UpdateOverlay bs = do { (a, r0) \<leftarrow> take_u32 bs; (b, r1) \<leftarrow> take_u32 r0; Some (UpdateOverlay a b, r1) }"
| "take_payload T_DestroyOverlay bs = do { (a, r0) \<leftarrow> take_u32 bs; Some (DestroyOverlay a, r0) }"
| "take_payload T_OverlayExpose bs = do { (a, r0) \<leftarrow> take_u32 bs; Some (OverlayExpose a, r0) }"
| "take_payload T_OverlayButton bs = do { (a, r0) \<leftarrow> take_u32 bs; (b, r1) \<leftarrow> take_u32 r0; (c, r2) \<leftarrow> take_u32 r1; (d, r3) \<leftarrow> take_u32 r2; (e, r4) \<leftarrow> take_u32 r3; Some (OverlayButton a b c d e, r4) }"
| "take_payload T_OverlayReleased bs = do { (a, r0) \<leftarrow> take_u32 bs; (b, r1) \<leftarrow> take_u32 r0; Some (OverlayReleased a b, r1) }"


definition type_of_code :: "16 word \<Rightarrow> message_type option" where
  "type_of_code c = find (\<lambda>t. type_code t = c) message_types"

lemma type_of_code_code [simp]: "type_of_code (type_code t) = Some t"
  by (cases t) (simp_all add: type_of_code_def message_types_def)

lemma type_of_code_Some: "type_of_code c = Some t \<Longrightarrow> type_code t = c"
  by (auto simp: type_of_code_def find_Some_iff)

lemma fixed_assign_length: "0 < n \<Longrightarrow> length (fixed_assign n s) = n"
  by (auto simp: fixed_assign_def Let_def)

lemma fixed_assign_lengths [simp]:
  "length (fixed_assign kMaxOutputNameBytes s) = kMaxOutputNameBytes"
  "length (fixed_assign kMaxSurfaceAppIdBytes s) = kMaxSurfaceAppIdBytes"
  "length (fixed_assign kMaxSurfaceTitleBytes s) = kMaxSurfaceTitleBytes"
  by (simp_all add: fixed_assign_length protocol_consts)

lemma unat_byte_of: "unat (byte_of ch) = of_char ch"
proof -
  have "unat (byte_of ch) = of_char ch mod 256" by (simp add: byte_of_def unat_of_nat)
  then show ?thesis by simp
qed

lemma char_of_byte_of [simp]: "char_of_byte (byte_of ch) = ch"
  by (simp add: char_of_byte_def unat_byte_of)

lemma byte_of_inject [simp]: "byte_of a = byte_of b \<longleftrightarrow> a = b"
  by (metis char_of_byte_of)

lemma byte_of_0 [simp]: "byte_of ch = 0 \<longleftrightarrow> ch = CHR 0x00"
proof -
  have "byte_of (CHR 0x00) = 0" by (simp add: byte_of_def)
  then show ?thesis using byte_of_inject [of ch "CHR 0x00"] by simp
qed

lemma byte_of_0' [simp]: "0 = byte_of ch \<longleftrightarrow> ch = CHR 0x00"
  by (metis byte_of_0)

lemma c_str_nul_free: "CHR 0x00 \<notin> set s \<Longrightarrow> c_str s = map byte_of s"
  by (auto simp: c_str_def takeWhile_eq_all_conv)

lemma fixed_string_assign:
  assumes "CHR 0x00 \<notin> set s" "0 < n"
  shows "fixed_string (fixed_assign n s) = take (n - 1) s"
proof -
  define bs where "bs = take (n - 1) (map byte_of s)"
  have pos: "\<forall>b\<in>set bs. b \<noteq> 0" using assms(1) by (auto simp: bs_def take_map dest: in_set_takeD)
  have "fixed_assign n s = bs @ 0 # replicate (n - 1 - length bs) 0"
    using assms(2) by (auto simp: fixed_assign_def c_str_nul_free [OF assms(1)] bs_def Let_def min_def
        simp flip: replicate_Suc intro!: arg_cong [where f = "\<lambda>k. replicate k 0"])
  then have "takeWhile (\<lambda>b. b \<noteq> 0) (fixed_assign n s) = bs"
    using pos by (simp add: takeWhile_append)
  then show ?thesis by (simp add: fixed_string_def bs_def take_map comp_def)
qed

section \<open>Messages as bytes\<close>

lemma take_intercepts_bytes: "take_intercepts (length ks) (intercept_bytes ks @ r) = Some (ks, r)"
  by (induction ks) (auto simp: intercept_bytes_def u32.get_put)

lemma take_intercepts_Some:
  "take_intercepts n bs = Some (ks, r) \<Longrightarrow> bs = intercept_bytes ks @ r \<and> length ks = n"
proof (induction n arbitrary: bs ks r)
  case (Suc n)
  then show ?case
    by (auto simp: intercept_bytes_def bind_eq_Some_conv split: prod.splits dest!: u32.put_get)
qed (simp add: intercept_bytes_def)

lemma length_intercept_bytes: "length (intercept_bytes ks) = 8 * length ks"
  by (induction ks) (auto simp: intercept_bytes_def u32_bytes_def)

interpretation intercepts: wire intercept_bytes "take_intercepts n" "\<lambda>ks. length ks = n" "8 * n"
  by unfold_locales (auto simp: take_intercepts_bytes length_intercept_bytes dest: take_intercepts_Some)

lemmas field_get_put = u32.get_put u16.get_put chars.get_put intercepts.get_put

lemma take_payload_bytes: "payload_ok p \<Longrightarrow> take_payload (payload_type p) (payload_bytes p @ r) = Some (p, r)"
  by (cases p) (simp_all add: field_get_put)

lemma take_payload_Some:
  "take_payload t bs = Some (p, r) \<Longrightarrow> bs = payload_bytes p @ r \<and> payload_type p = t \<and> payload_ok p"
  by (cases t) (auto simp: bind_eq_Some_conv split: prod.splits dest!: u32.put_get chars.put_get intercepts.put_get)

lemma length_payload_bytes: "payload_ok p \<Longrightarrow> length (payload_bytes p) = payload_size (payload_type p)"
  by (cases p) (simp_all add: u32_bytes_def length_intercept_bytes protocol_consts)

interpretation payload: wire payload_bytes "take_payload t" "\<lambda>p. payload_type p = t \<and> payload_ok p" "payload_size t"
  by unfold_locales (auto simp: take_payload_bytes length_payload_bytes dest: take_payload_Some)

record message_header =
  magic :: "32 word"
  version :: "16 word"
  msg_type :: "16 word"
  msg_size :: "32 word"

definition header_bytes :: "message_header \<Rightarrow> byte list" where
  "header_bytes h = u32_bytes (magic h) @ u16_bytes (version h) @ u16_bytes (msg_type h) @ u32_bytes (msg_size h)"

definition take_header :: "byte list \<Rightarrow> (message_header \<times> byte list) option" where
  "take_header bs =
     do { (m, r) \<leftarrow> take_u32 bs; (v, r1) \<leftarrow> take_u16 r; (t, r2) \<leftarrow> take_u16 r1; (s, r3) \<leftarrow> take_u32 r2;
          Some (\<lparr>magic = m, version = v, msg_type = t, msg_size = s\<rparr>, r3) }"

interpretation header: wire header_bytes take_header "\<lambda>_. True" 12
proof
  show "take_header (header_bytes h @ r) = Some (h, r)" for h r
    by (simp add: take_header_def header_bytes_def field_get_put)
  show "bs = header_bytes h @ r \<and> True" if "take_header bs = Some (h, r)" for bs h r
    using that by (auto simp: take_header_def header_bytes_def bind_eq_Some_conv split: prod.splits
        dest!: u32.put_get u16.put_get)
qed (simp add: header_bytes_def u32_bytes_def u16_bytes_def)

text \<open>\<^verbatim>\<open>make_message\<close> and the buffer \<^verbatim>\<open>send_message\<close> fills.\<close>

definition make_header :: "payload \<Rightarrow> message_header" where
  "make_header p =
     \<lparr>magic = kBackendProtocolMagic, version = kBackendProtocolVersion, msg_type = type_code (payload_type p),
      msg_size = word_of_nat (payload_size (payload_type p))\<rparr>"

definition message_bytes :: "payload \<Rightarrow> byte list" where
  "message_bytes p = header_bytes (make_header p) @ payload_bytes p"

definition wire_size :: "message_type \<Rightarrow> nat" where
  "wire_size t = 12 + payload_size t"

lemma payload_size_bound: "payload_size t \<le> 516"
  by (cases t) simp_all

lemma length_message_bytes: "payload_ok p \<Longrightarrow> length (message_bytes p) = wire_size (payload_type p)"
  by (simp add: message_bytes_def wire_size_def header.length_put length_payload_bytes)

section \<open>Channels\<close>

text \<open>
  The system calls of the control connection. A packet arrives with control messages; descriptors come as
  \<^verbatim>\<open>SCM_RIGHTS\<close>. \<^verbatim>\<open>poll\<close> answers whether the descriptor is readable, hung up or in error within the timeout.
\<close>

datatype cmsg = Rights "int list" | OtherCmsg

record 'os sys =
  sys_socket :: "'os \<Rightarrow> int \<times> 'os"
  sys_connect :: "int \<Rightarrow> string \<Rightarrow> 'os \<Rightarrow> bool \<times> 'os"
  sys_unlink :: "string \<Rightarrow> 'os \<Rightarrow> 'os"
  sys_bind :: "int \<Rightarrow> string \<Rightarrow> 'os \<Rightarrow> bool \<times> 'os"
  sys_listen :: "int \<Rightarrow> int \<Rightarrow> 'os \<Rightarrow> bool \<times> 'os"
  sys_accept :: "int \<Rightarrow> 'os \<Rightarrow> int \<times> bool \<times> 'os"
  sys_close :: "int \<Rightarrow> 'os \<Rightarrow> 'os"
  sys_getfl :: "int \<Rightarrow> 'os \<Rightarrow> int"
  sys_setfl :: "int \<Rightarrow> int \<Rightarrow> 'os \<Rightarrow> bool \<times> 'os"
  sys_poll :: "int \<Rightarrow> int \<Rightarrow> 'os \<Rightarrow> bool \<times> 'os"
  sys_send :: "int \<Rightarrow> byte list \<Rightarrow> int option \<Rightarrow> 'os \<Rightarrow> int \<times> 'os"
  sys_recv :: "int \<Rightarrow> nat \<Rightarrow> 'os \<Rightarrow> (int \<times> byte list \<times> cmsg list) \<times> 'os"

definition SUN_PATH_SIZE :: nat where
  "SUN_PATH_SIZE = 108"

text \<open>\<^verbatim>\<open>make_sockaddr\<close>: the length of the address, or nothing for a path that is empty or too long.\<close>

definition make_sockaddr :: "string \<Rightarrow> nat option" where
  "make_sockaddr path =
     (if path = [] \<or> length path \<ge> SUN_PATH_SIZE then None else Some (2 + length path + 1))"

definition connect_seqpacket :: "'os sys \<Rightarrow> string \<Rightarrow> 'os \<Rightarrow> int \<times> 'os" where
  "connect_seqpacket S path os =
     (let (fd, os1) = sys_socket S os in
      if fd < 0 then (-1, os1)
      else if make_sockaddr path = None then (-1, sys_close S fd os1)
      else
        (let (okay, os2) = sys_connect S fd path os1 in
         if okay then (fd, os2) else (-1, sys_close S fd os2)))"

definition listen_seqpacket :: "'os sys \<Rightarrow> string \<Rightarrow> int \<Rightarrow> 'os \<Rightarrow> int \<times> 'os" where
  "listen_seqpacket S path backlog os =
     (let (fd, os1) = sys_socket S os in
      if fd < 0 then (-1, os1)
      else if make_sockaddr path = None then (-1, sys_close S fd os1)
      else
        (let (bound, os2) = sys_bind S fd path (sys_unlink S path os1) in
         if \<not> bound then (-1, sys_close S fd os2)
         else
           (let (okay, os3) = sys_listen S fd backlog os2 in
            if okay then (fd, os3) else (-1, sys_close S fd os3))))"

text \<open>\<^verbatim>\<open>accept\<close>; the second result says whether \<^verbatim>\<open>errno\<close> is \<^verbatim>\<open>EAGAIN\<close> or \<^verbatim>\<open>EWOULDBLOCK\<close> after a failure.\<close>

definition accept :: "'os sys \<Rightarrow> int \<Rightarrow> 'os \<Rightarrow> int \<times> bool \<times> 'os" where
  "accept S fd os =
     (if fd < 0 then (-1, False, os)
      else (let (c, again, os1) = sys_accept S fd os in (if c < 0 then -1 else c, again, os1)))"

definition close_channel :: "'os sys \<Rightarrow> int \<Rightarrow> 'os \<Rightarrow> int \<times> 'os" where
  "close_channel S fd os = (if fd \<ge> 0 then (-1, sys_close S fd os) else (fd, os))"

definition O_NONBLOCK :: int where
  "O_NONBLOCK = 0x800"

definition set_nonblocking :: "'os sys \<Rightarrow> int \<Rightarrow> bool \<Rightarrow> 'os \<Rightarrow> bool \<times> 'os" where
  "set_nonblocking S fd enabled os =
     (if fd < 0 then (False, os)
      else
        (let flags = sys_getfl S fd os in
         if flags < 0 then (False, os)
         else sys_setfl S fd (if enabled then flags OR O_NONBLOCK else flags AND NOT O_NONBLOCK) os))"

definition send_bytes :: "'os sys \<Rightarrow> int \<Rightarrow> byte list \<Rightarrow> int \<Rightarrow> 'os \<Rightarrow> int \<times> 'os" where
  "send_bytes S fd data send_fd os =
     (if fd < 0 then (-1, os) else sys_send S fd data (if send_fd < 0 then None else Some send_fd) os)"

text \<open>The loop over the control messages: the first \<^verbatim>\<open>SCM_RIGHTS\<close> decides.\<close>

fun first_right :: "cmsg list \<Rightarrow> int" where
  "first_right [] = -1"
| "first_right (OtherCmsg # ms) = first_right ms"
| "first_right (Rights [] # ms) = -1"
| "first_right (Rights (fd # _) # ms) = fd"

definition receive_bytes :: "'os sys \<Rightarrow> int \<Rightarrow> nat \<Rightarrow> 'os \<Rightarrow> (int \<times> byte list \<times> int) \<times> 'os" where
  "receive_bytes S fd capacity os =
     (if fd < 0 then ((-1, [], -1), os)
      else
        (let ((rc, data, ctl), os1) = sys_recv S fd capacity os in
         if rc \<le> 0 then ((rc, [], -1), os1) else ((rc, data, first_right ctl), os1)))"

definition send_message :: "'os sys \<Rightarrow> int \<Rightarrow> payload \<Rightarrow> int \<Rightarrow> 'os \<Rightarrow> bool \<times> 'os" where
  "send_message S fd p send_fd os =
     (let (rc, os1) = send_bytes S fd (message_bytes p) send_fd os
      in (rc = int (length (message_bytes p)), os1))"

text \<open>
  \<^verbatim>\<open>receive_message<Payload>\<close>: the payload of the envelope, if the call reports success, and the descriptor.
\<close>

definition receive_message :: "'os sys \<Rightarrow> int \<Rightarrow> message_type \<Rightarrow> 'os \<Rightarrow> (payload option \<times> int) \<times> 'os" where
  "receive_message S fd t os =
     (let ((rc, data, rfd), os1) = receive_bytes S fd (wire_size t) os in
      if rc \<noteq> int (wire_size t) then ((None, rfd), os1)
      else
        (case take_header data of
           None \<Rightarrow> ((None, rfd), os1)
         | Some (h, r) \<Rightarrow>
             ((if magic h = kBackendProtocolMagic \<and> version h = kBackendProtocolVersion \<and> msg_type h = type_code t \<and>
                  msg_size h = word_of_nat (payload_size t)
               then map_option fst (take_payload t r) else None, rfd), os1)))"

definition poll_readable :: "'os sys \<Rightarrow> int \<Rightarrow> int \<Rightarrow> 'os \<Rightarrow> bool \<times> 'os" where
  "poll_readable S fd timeout os = (if fd < 0 then (False, os) else sys_poll S fd timeout os)"

section \<open>Dispatch\<close>

text \<open>
  \<^verbatim>\<open>dispatch_backend_message\<close>: the switch over the message type, the check of the size and the call of the
  handler. A handler answers whether it accepts the message; a message type it has no overload for is
  refused. \<open>bytes\<close> is the buffer behind the header; it is longer than every payload at the two call sites.
\<close>

definition read_message_payload :: "message_header \<Rightarrow> message_type \<Rightarrow> byte list \<Rightarrow> payload option" where
  "read_message_payload h t bytes =
     (if msg_type h \<noteq> type_code t \<or> unat (msg_size h) \<noteq> payload_size t then None
      else map_option fst (take_payload t bytes))"

definition dispatch_backend_message ::
  "message_header \<Rightarrow> byte list \<Rightarrow> int \<Rightarrow> (payload \<Rightarrow> int \<Rightarrow> 's \<Rightarrow> bool \<times> 's) \<Rightarrow> 's \<Rightarrow> bool \<times> 's" where
  "dispatch_backend_message h bytes rfd handler s =
     (case type_of_code (msg_type h) of
        None \<Rightarrow> (False, s)
      | Some t \<Rightarrow>
          (case read_message_payload h t bytes of
             None \<Rightarrow> (False, s)
           | Some p \<Rightarrow> handler p rfd s))"

lemma unat_payload_size: "unat (word_of_nat (payload_size t) :: 32 word) = payload_size t"
  using payload_size_bound [of t] by (simp add: unat_of_nat)

lemma dispatch_message_bytes:
  "payload_ok p \<Longrightarrow>
   dispatch_backend_message (make_header p) (payload_bytes p @ r) rfd handler s = handler p rfd s"
  by (simp add: dispatch_backend_message_def make_header_def read_message_payload_def unat_payload_size take_payload_bytes)

lemma dispatch_only_messages:
  assumes "dispatch_backend_message h bytes rfd handler s \<noteq> (False, s)"
  obtains p r where "payload_ok p" "bytes = payload_bytes p @ r" "msg_type h = type_code (payload_type p)"
    "unat (msg_size h) = payload_size (payload_type p)"
    "dispatch_backend_message h bytes rfd handler s = handler p rfd s"
proof -
  from assms obtain t p where t: "type_of_code (msg_type h) = Some t" and p: "read_message_payload h t bytes = Some p"
    by (auto simp: dispatch_backend_message_def split: option.splits)
  from p obtain r where "take_payload t bytes = Some (p, r)" and s: "unat (msg_size h) = payload_size t"
    by (auto simp: read_message_payload_def split: if_splits)
  then have "bytes = payload_bytes p @ r" "payload_type p = t" "payload_ok p" using take_payload_Some by blast+
  with t p s show ?thesis by (intro that [of p r]) (auto simp: dispatch_backend_message_def dest: type_of_code_Some)
qed

section \<open>Packet sockets\<close>

text \<open>
  What the program relies on from a connected pair of \<^verbatim>\<open>SOCK_SEQPACKET\<close> sockets: \<open>inbox os fd\<close> is the queue of
  packets waiting at \<open>fd\<close>. A send that reports the full length has queued its packet, with its descriptor, at
  the peer \<open>b\<close> of \<open>a\<close>; receiving takes the first packet, cut to the capacity, with a fresh descriptor for the
  one sent along; a descriptor with a waiting packet is readable, and polling changes no queue.
\<close>

definition packets_sent :: "'os sys \<Rightarrow> ('os \<Rightarrow> int \<Rightarrow> (byte list \<times> bool) list) \<Rightarrow> int \<Rightarrow> int \<Rightarrow> bool" where
  "packets_sent S inbox a b \<longleftrightarrow>
     (\<forall>data f os. fst (sys_send S a data f os) = int (length data) \<longrightarrow>
        inbox (snd (sys_send S a data f os)) b = inbox os b @ [(data, f \<noteq> None)])"

definition packets_received :: "'os sys \<Rightarrow> ('os \<Rightarrow> int \<Rightarrow> (byte list \<times> bool) list) \<Rightarrow> int \<Rightarrow> bool" where
  "packets_received S inbox b \<longleftrightarrow>
     (\<forall>cap os data f rest. inbox os b = (data, f) # rest \<and> data \<noteq> [] \<longrightarrow>
        (\<exists>rfd os'. sys_recv S b cap os =
            ((int (min cap (length data)), take cap data, if f then [Rights [rfd]] else []), os') \<and>
          rfd \<ge> 0 \<and> inbox os' b = rest)) \<and>
     (\<forall>t os data f rest. inbox os b = (data, f) # rest \<and> data \<noteq> [] \<longrightarrow>
        fst (sys_poll S b t os) \<and> inbox (snd (sys_poll S b t os)) b = inbox os b)"

lemma send_message_inbox:
  assumes S: "packets_sent S inbox a b" and snd: "send_message S a p f os = (True, os')"
  shows "inbox os' b = inbox os b @ [(message_bytes p, f \<ge> 0)]"
proof -
  let ?f = "if f < 0 then None else Some f"
  have "a \<ge> 0" using snd by (auto simp: send_message_def send_bytes_def split: if_splits)
  with snd have "fst (sys_send S a (message_bytes p) ?f os) = int (length (message_bytes p))"
    and os': "os' = snd (sys_send S a (message_bytes p) ?f os)"
    by (auto simp: send_message_def send_bytes_def split: prod.splits)
  with S have "inbox os' b = inbox os b @ [(message_bytes p, ?f \<noteq> None)]"
    unfolding packets_sent_def by blast
  then show ?thesis by (cases "f < 0") simp_all
qed

lemma message_bytes_nonempty [simp]: "message_bytes p \<noteq> []"
  by (simp add: message_bytes_def header_bytes_def u32_bytes_def)

lemma receive_bytes_message:
  assumes R: "packets_received S inbox b" and i: "inbox os b = (message_bytes p, f) # rest" and b: "b \<ge> 0"
    and cap: "length (message_bytes p) \<le> cap"
  obtains rfd os' where "receive_bytes S b cap os = ((int (length (message_bytes p)), message_bytes p, rfd), os')"
    "inbox os' b = rest" "if f then rfd \<ge> 0 else rfd = -1"
proof -
  obtain rfd os' where r: "sys_recv S b cap os =
      ((int (min cap (length (message_bytes p))), take cap (message_bytes p), if f then [Rights [rfd]] else []), os')"
    and "rfd \<ge> 0" "inbox os' b = rest"
    using R i unfolding packets_received_def by (metis message_bytes_nonempty)
  moreover have "0 < length (message_bytes p)" using message_bytes_nonempty [of p] by (rule length_greater_0_conv [THEN iffD2])
  ultimately show ?thesis
    using b cap by (intro that [of "if f then rfd else -1" os']) (simp_all add: receive_bytes_def min_absorb2)
qed

section \<open>Shared buffers and socket paths\<close>

text \<open>
  \<^verbatim>\<open>SharedBuffer\<close>: the descriptor, the mapped bytes (absent for a null pointer) and the size. The results of
  \<^verbatim>\<open>memfd_create\<close>, \<^verbatim>\<open>ftruncate\<close> and \<^verbatim>\<open>mmap\<close> are arguments; closed descriptors are collected.
\<close>

record shared_buffer =
  sb_fd :: int
  sb_data :: "byte list option"
  sb_size :: nat

definition make_shared_buffer :: "int \<Rightarrow> bool \<Rightarrow> bool \<Rightarrow> nat \<Rightarrow> shared_buffer \<times> int list" where
  "make_shared_buffer memfd truncated mapped n =
     (if memfd < 0 then (\<lparr>sb_fd = memfd, sb_data = None, sb_size = n\<rparr>, [])
      else if \<not> truncated then (\<lparr>sb_fd = -1, sb_data = None, sb_size = n\<rparr>, [memfd])
      else if \<not> mapped then (\<lparr>sb_fd = -1, sb_data = None, sb_size = n\<rparr>, [memfd])
      else (\<lparr>sb_fd = memfd, sb_data = Some (replicate n 0), sb_size = n\<rparr>, []))"

definition write_shared_buffer :: "byte list \<Rightarrow> shared_buffer \<Rightarrow> shared_buffer" where
  "write_shared_buffer src b =
     (case sb_data b of
        None \<Rightarrow> b
      | Some d \<Rightarrow> if length src \<le> sb_size b then b\<lparr>sb_data := Some (src @ drop (length src) d)\<rparr> else b)"

definition release_fd :: "shared_buffer \<Rightarrow> int \<times> shared_buffer" where
  "release_fd b = (sb_fd b, b\<lparr>sb_fd := -1\<rparr>)"

definition destroy_shared_buffer :: "shared_buffer \<Rightarrow> shared_buffer \<times> int list" where
  "destroy_shared_buffer b =
     (\<lparr>sb_fd = -1, sb_data = None, sb_size = 0\<rparr>, if sb_fd b \<ge> 0 then [sb_fd b] else [])"

definition move_assign_shared_buffer :: "shared_buffer \<Rightarrow> shared_buffer \<Rightarrow> (shared_buffer \<times> shared_buffer) \<times> int list" where
  "move_assign_shared_buffer dst src =
     ((src, \<lparr>sb_fd = -1, sb_data = None, sb_size = 0\<rparr>), snd (destroy_shared_buffer dst))"

text \<open>\<^verbatim>\<open>endpoint.cpp\<close>: environment variables and the user id are arguments; the \<^verbatim>\<open>mkdir\<close> of the fallback is left out.\<close>

definition set_variable :: "(string \<rightharpoonup> string) \<Rightarrow> string \<Rightarrow> string option" where
  "set_variable env k = (case env k of Some (c # cs) \<Rightarrow> Some (c # cs) | _ \<Rightarrow> None)"

definition runtime_dir :: "(string \<rightharpoonup> string) \<Rightarrow> string \<Rightarrow> string" where
  "runtime_dir env uid =
     (case set_variable env ''XDG_RUNTIME_DIR'' of Some xdg \<Rightarrow> xdg | None \<Rightarrow> ''/tmp/sirenwm-runtime-'' @ uid)"

definition backend_socket_path :: "(string \<rightharpoonup> string) \<Rightarrow> string \<Rightarrow> string \<Rightarrow> string" where
  "backend_socket_path env uid wayland_display =
     (if wayland_display = [] then [] else runtime_dir env uid @ ''/'' @ wayland_display @ ''.sirenwm-ipc'')"

definition backend_socket_path_from_env :: "(string \<rightharpoonup> string) \<Rightarrow> string \<Rightarrow> string" where
  "backend_socket_path_from_env env uid =
     (case set_variable env ''SIRENWM_IPC_SOCKET'' of
        Some socket \<Rightarrow> socket
      | None \<Rightarrow>
          (case set_variable env ''WAYLAND_DISPLAY'' of
             Some d \<Rightarrow> backend_socket_path env uid d
           | None \<Rightarrow> []))"

text \<open>A buffer that was filled and handed over is closed once, by the receiver of its descriptor.\<close>

lemma shared_buffer_closed_once:
  assumes "make_shared_buffer memfd t m n = (b, closed)"
  shows "(sb_data b = None \<longrightarrow> closed = (if memfd < 0 then [] else [memfd]) \<and> snd (destroy_shared_buffer b) = []) \<and>
         (sb_data b \<noteq> None \<longrightarrow>
            closed = [] \<and> snd (destroy_shared_buffer b) = [memfd] \<and>
            snd (destroy_shared_buffer (snd (release_fd (write_shared_buffer src b)))) = [] \<and>
            fst (release_fd (write_shared_buffer src b)) = memfd)"
  using assms by (auto simp: make_shared_buffer_def destroy_shared_buffer_def release_fd_def write_shared_buffer_def
      split: if_splits)

end
