(* ===== verification/Display_Server.thy ===== *)
theory Display_Server
  imports Ipc "HOL-Library.AList"
begin

text \<open>
  The display server's side of the control connection: the table of surfaces, outputs and overlays
  (\<^verbatim>\<open>libwlserver/src/runtime/display_state.cpp\<close>, \<^verbatim>\<open>overlay_manager.cpp\<close>), the server end of the protocol
  (\<^verbatim>\<open>libwlserver/src/ipc/backend_control_server.cpp\<close>) and the order in which one turn of the main loop serves
  its descriptors (\<^verbatim>\<open>display_server.cpp\<close>).

  The three objects refer to each other, so one record holds them all. An unordered map is an association
  list with distinct keys: its order stands for the order of iteration. A command the display state passes on
  to the protocol objects (the listener) is appended to \<open>forwarded\<close>; the calls of the overlays' change callback
  are counted. Every descriptor the program closes is appended to \<open>closed_fds\<close>. Log output is left out.
\<close>

section \<open>State\<close>

record display_surface =
  ds_id :: "32 word"
  ds_toplevel_id :: "32 word"
  ds_wl_surface_id :: "32 word"
  ds_app_id :: string
  ds_title :: string
  ds_pid :: "32 word"
  ds_mapped :: bool
  ds_visible :: bool
  ds_x :: "32 word"
  ds_y :: "32 word"
  ds_width :: "32 word"
  ds_height :: "32 word"
  ds_stacking :: "32 word"
  ds_border_width :: "32 word"
  ds_border_color :: "32 word"

record output_info =
  oi_id :: "32 word"
  oi_name :: string
  oi_x :: "32 word"
  oi_y :: "32 word"
  oi_w :: "32 word"
  oi_h :: "32 word"
  oi_refresh :: "32 word"

record overlay =
  ov_id :: "32 word"
  ov_x :: "32 word"
  ov_y :: "32 word"
  ov_width :: "32 word"
  ov_height :: "32 word"
  ov_visible :: bool
  ov_pixels :: "byte list"

record 'os server =
  srv_os :: 'os
  listener :: int
  client :: int
  socket_path :: string
  snapshot_generation :: "32 word"
  handler_attached :: bool
  next_surface_id :: "32 word"
  srv_surfaces :: "(32 word \<times> display_surface) list"
  srv_overlays :: "(32 word \<times> overlay) list"
  srv_intercepts :: "(32 word \<times> 32 word) list"
  srv_outputs :: "(32 word \<times> output_info) list"
  forwarded :: "payload list"
  change_notifications :: nat
  closed_fds :: "int list"

definition fresh_surface :: "32 word \<Rightarrow> display_surface" where
  "fresh_surface i =
     \<lparr>ds_id = i, ds_toplevel_id = 0, ds_wl_surface_id = 0, ds_app_id = [], ds_title = [], ds_pid = 0, ds_mapped = False,
      ds_visible = False, ds_x = 0, ds_y = 0, ds_width = 0, ds_height = 0, ds_stacking = 0, ds_border_width = 0,
      ds_border_color = 0\<rparr>"

definition close_fd :: "'os sys \<Rightarrow> int \<Rightarrow> 'os server \<Rightarrow> 'os server" where
  "close_fd S fd s = s\<lparr>srv_os := sys_close S fd (srv_os s), closed_fds := closed_fds s @ [fd]\<rparr>"

definition close_received :: "'os sys \<Rightarrow> int \<Rightarrow> 'os server \<Rightarrow> 'os server" where
  "close_received S fd s = (if fd \<ge> 0 then close_fd S fd s else s)"

section \<open>Commands to the protocol objects\<close>

definition dispatch_command :: "payload \<Rightarrow> 'os server \<Rightarrow> 'os server" where
  "dispatch_command p s = s\<lparr>forwarded := forwarded s @ [p]\<rparr>"

definition with_surface :: "32 word \<Rightarrow> (display_surface \<Rightarrow> display_surface) \<Rightarrow> 'os server \<Rightarrow> 'os server" where
  "with_surface i f s = s\<lparr>srv_surfaces := AList.map_entry i f (srv_surfaces s)\<rparr>"

definition has_surface :: "'os server \<Rightarrow> 32 word \<Rightarrow> bool" where
  "has_surface s i \<longleftrightarrow> map_of (srv_surfaces s) i \<noteq> None"

definition bool32 :: "bool \<Rightarrow> 32 word" where
  "bool32 b = (if b then 1 else 0)"

definition srv_configure_surface :: "32 word \<Rightarrow> 32 word \<Rightarrow> 32 word \<Rightarrow> 32 word \<Rightarrow> 32 word \<Rightarrow> 'os server \<Rightarrow> 'os server" where
  "srv_configure_surface i x y w h s =
     (if \<not> has_surface s i then s
      else dispatch_command (ConfigureSurface i x y w h)
             (with_surface i (\<lambda>d. d\<lparr>ds_x := x, ds_y := y, ds_width := w, ds_height := h\<rparr>) s))"

definition srv_set_surface_activated :: "32 word \<Rightarrow> bool \<Rightarrow> 'os server \<Rightarrow> 'os server" where
  "srv_set_surface_activated i activated s = dispatch_command (SetSurfaceActivated i (bool32 activated)) s"

definition srv_set_surface_visible :: "32 word \<Rightarrow> bool \<Rightarrow> 'os server \<Rightarrow> 'os server" where
  "srv_set_surface_visible i visible s =
     dispatch_command (SetSurfaceVisible i (bool32 visible)) (with_surface i (\<lambda>d. d\<lparr>ds_visible := visible\<rparr>) s)"

definition srv_set_surface_stacking :: "32 word \<Rightarrow> 32 word \<Rightarrow> 'os server \<Rightarrow> 'os server" where
  "srv_set_surface_stacking i mode s =
     dispatch_command (SetSurfaceStacking i mode) (with_surface i (\<lambda>d. d\<lparr>ds_stacking := mode\<rparr>) s)"

definition srv_close_surface :: "32 word \<Rightarrow> 'os server \<Rightarrow> 'os server" where
  "srv_close_surface i s = dispatch_command (CloseSurface i) s"

definition srv_set_keyboard_intercepts :: "(32 word \<times> 32 word) list \<Rightarrow> 'os server \<Rightarrow> 'os server" where
  "srv_set_keyboard_intercepts ks s = s\<lparr>srv_intercepts := ks\<rparr>"

definition srv_warp_pointer :: "32 word \<Rightarrow> 32 word \<Rightarrow> 'os server \<Rightarrow> 'os server" where
  "srv_warp_pointer x y s = dispatch_command (WarpPointer x y) s"

definition srv_grab_pointer :: "'os server \<Rightarrow> 'os server" where
  "srv_grab_pointer s = dispatch_command (GrabPointer 0) s"

definition srv_ungrab_pointer :: "'os server \<Rightarrow> 'os server" where
  "srv_ungrab_pointer s = dispatch_command (UngrabPointer 0) s"

definition srv_set_surface_border :: "32 word \<Rightarrow> 32 word \<Rightarrow> 32 word \<Rightarrow> 'os server \<Rightarrow> 'os server" where
  "srv_set_surface_border i w c s =
     dispatch_command (SetSurfaceBorder i w c)
       (with_surface i (\<lambda>d. d\<lparr>ds_border_width := w, ds_border_color := c\<rparr>) s)"

section \<open>Events to the control client\<close>

definition disconnect_client :: "'os sys \<Rightarrow> 'os server \<Rightarrow> 'os server" where
  "disconnect_client S s =
     (if client s < 0 then s
      else (close_fd S (client s) (srv_ungrab_pointer (srv_set_keyboard_intercepts [] s)))\<lparr>client := -1\<rparr>)"

definition send_event :: "'os sys \<Rightarrow> payload \<Rightarrow> 'os server \<Rightarrow> bool \<times> 'os server" where
  "send_event S p s =
     (if client s < 0 then (True, s)
      else
        (let (okay, os1) = send_message S (client s) p (-1) (srv_os s); s1 = s\<lparr>srv_os := os1\<rparr>
         in if okay then (True, s1) else (False, disconnect_client S s1)))"

definition emit_event :: "'os sys \<Rightarrow> payload \<Rightarrow> 'os server \<Rightarrow> 'os server" where
  "emit_event S p s = (if handler_attached s then snd (send_event S p s) else s)"

definition surface_created :: "display_surface \<Rightarrow> payload" where
  "surface_created d =
     SurfaceCreated (ds_id d) (fixed_assign kMaxSurfaceAppIdBytes (ds_app_id d))
       (fixed_assign kMaxSurfaceTitleBytes (ds_title d)) (ds_pid d)"

definition output_added_msg :: "output_info \<Rightarrow> payload" where
  "output_added_msg oi =
     OutputAdded (oi_id oi) (fixed_assign kMaxOutputNameBytes (oi_name oi)) (oi_x oi) (oi_y oi) (oi_w oi) (oi_h oi)
       (oi_refresh oi)"

text \<open>
  \<^verbatim>\<open>add_surface\<close>: the counter wraps around, and \<^verbatim>\<open>emplace\<close> keeps a surface that already has the number; the
  message describes the entry of the table.
\<close>

definition add_surface :: "'os sys \<Rightarrow> string \<Rightarrow> string \<Rightarrow> 32 word \<Rightarrow> 32 word \<Rightarrow> 'os server \<Rightarrow> 32 word \<times> 'os server" where
  "add_surface S app_id title pid toplevel_id s =
     (let i = next_surface_id s;
          d = (fresh_surface i)\<lparr>ds_toplevel_id := toplevel_id, ds_app_id := app_id, ds_title := title, ds_pid := pid\<rparr>;
          s1 = s\<lparr>next_surface_id := i + 1,
                 srv_surfaces := (if has_surface s i then srv_surfaces s else srv_surfaces s @ [(i, d)])\<rparr>;
          entry = the (map_of (srv_surfaces s1) i)
      in (i, emit_event S (surface_created entry) s1))"

definition surface_id_from_toplevel :: "'os server \<Rightarrow> 32 word \<Rightarrow> 32 word" where
  "surface_id_from_toplevel s tid =
     (case find (\<lambda>(i, d). ds_toplevel_id d = tid) (srv_surfaces s) of Some (i, d) \<Rightarrow> i | None \<Rightarrow> 0)"

definition set_wl_surface_id :: "32 word \<Rightarrow> 32 word \<Rightarrow> 'os server \<Rightarrow> 'os server" where
  "set_wl_surface_id i sid s = with_surface i (\<lambda>d. d\<lparr>ds_wl_surface_id := sid\<rparr>) s"

definition surface_mapped :: "'os sys \<Rightarrow> 32 word \<Rightarrow> 'os server \<Rightarrow> 'os server" where
  "surface_mapped S i s =
     (if \<not> has_surface s i then s
      else emit_event S (SurfaceMapped i) (with_surface i (\<lambda>d. d\<lparr>ds_mapped := True\<rparr>) s))"

definition surface_unmapped :: "'os sys \<Rightarrow> 32 word \<Rightarrow> 'os server \<Rightarrow> 'os server" where
  "surface_unmapped S i s =
     (if \<not> has_surface s i then s
      else emit_event S (SurfaceUnmapped i) (with_surface i (\<lambda>d. d\<lparr>ds_mapped := False\<rparr>) s))"

definition surface_destroyed :: "'os sys \<Rightarrow> 32 word \<Rightarrow> 'os server \<Rightarrow> 'os server" where
  "surface_destroyed S i s =
     (if \<not> has_surface s i then s
      else (let s1 = emit_event S (SurfaceDestroyed i) s in s1\<lparr>srv_surfaces := AList.delete i (srv_surfaces s1)\<rparr>))"

definition destroy_surface_for_toplevel :: "'os sys \<Rightarrow> 32 word \<Rightarrow> 'os server \<Rightarrow> 'os server" where
  "destroy_surface_for_toplevel S tid s =
     (let i = surface_id_from_toplevel s tid in if i \<noteq> 0 then surface_destroyed S i s else s)"

definition surface_title_changed :: "'os sys \<Rightarrow> 32 word \<Rightarrow> string \<Rightarrow> 'os server \<Rightarrow> 'os server" where
  "surface_title_changed S i title s =
     (if \<not> has_surface s i then s
      else emit_event S (SurfaceTitleChanged i (fixed_assign kMaxSurfaceTitleBytes title))
             (with_surface i (\<lambda>d. d\<lparr>ds_title := title\<rparr>) s))"

definition surface_app_id_changed :: "'os sys \<Rightarrow> 32 word \<Rightarrow> string \<Rightarrow> 'os server \<Rightarrow> 'os server" where
  "surface_app_id_changed S i app_id s =
     (if \<not> has_surface s i then s
      else emit_event S (SurfaceAppIdChanged i (fixed_assign kMaxSurfaceAppIdBytes app_id))
             (with_surface i (\<lambda>d. d\<lparr>ds_app_id := app_id\<rparr>) s))"

definition surface_committed :: "'os sys \<Rightarrow> 32 word \<Rightarrow> 32 word \<Rightarrow> 32 word \<Rightarrow> 'os server \<Rightarrow> 'os server" where
  "surface_committed S i w h s =
     (if \<not> has_surface s i then s
      else emit_event S (SurfaceCommitted i w h) (with_surface i (\<lambda>d. d\<lparr>ds_width := w, ds_height := h\<rparr>) s))"

definition output_added :: "'os sys \<Rightarrow> output_info \<Rightarrow> 'os server \<Rightarrow> 'os server" where
  "output_added S oi s =
     emit_event S (output_added_msg oi) (s\<lparr>srv_outputs := AList.update (oi_id oi) oi (srv_outputs s)\<rparr>)"

definition output_removed :: "'os sys \<Rightarrow> 32 word \<Rightarrow> 'os server \<Rightarrow> 'os server" where
  "output_removed S i s = emit_event S (OutputRemoved i) (s\<lparr>srv_outputs := AList.delete i (srv_outputs s)\<rparr>)"

definition key_press :: "'os sys \<Rightarrow> 32 word \<Rightarrow> 32 word \<Rightarrow> 32 word \<Rightarrow> 'os server \<Rightarrow> 'os server" where
  "key_press S keycode keysym mods s = emit_event S (Key keycode keysym mods 1) s"

definition button_press ::
  "'os sys \<Rightarrow> 32 word \<Rightarrow> 32 word \<Rightarrow> 32 word \<Rightarrow> 32 word \<Rightarrow> 32 word \<Rightarrow> bool \<Rightarrow> 'os server \<Rightarrow> 'os server" where
  "button_press S i x y button mods released s = emit_event S (Button i x y button mods (bool32 released)) s"

definition pointer_motion :: "'os sys \<Rightarrow> 32 word \<Rightarrow> 32 word \<Rightarrow> 32 word \<Rightarrow> 32 word \<Rightarrow> 'os server \<Rightarrow> 'os server" where
  "pointer_motion S i x y mods s = emit_event S (PointerMotion i x y mods) s"

definition pointer_enter :: "'os sys \<Rightarrow> 32 word \<Rightarrow> 'os server \<Rightarrow> 'os server" where
  "pointer_enter S i s = emit_event S (PointerEnter i) s"

definition overlay_button :: "'os sys \<Rightarrow> 32 word \<Rightarrow> 32 word \<Rightarrow> 32 word \<Rightarrow> 32 word \<Rightarrow> bool \<Rightarrow> 'os server \<Rightarrow> 'os server" where
  "overlay_button S i x y button released s = emit_event S (OverlayButton i x y button (bool32 released)) s"

text \<open>The key filter: caps lock and num lock are ignored, and a held modifier beyond the wanted ones does not matter.\<close>

definition stripped :: "32 word \<Rightarrow> 32 word" where
  "stripped mods = (mods AND 0xFF) AND NOT (0x02 OR 0x10)"

definition is_intercepted :: "'os server \<Rightarrow> 32 word \<Rightarrow> 32 word \<Rightarrow> bool" where
  "is_intercepted s keysym mods \<longleftrightarrow>
     (\<exists>(k, m) \<in> set (srv_intercepts s). k = keysym \<and> stripped mods AND stripped m = stripped m)"

text \<open>
  \<^verbatim>\<open>surface_at\<close>: among the mapped and visible surfaces under the point the last one of the highest stacking value
  seen, in the order of iteration.
\<close>

definition covers :: "int \<Rightarrow> int \<Rightarrow> display_surface \<Rightarrow> bool" where
  "covers x y d \<longleftrightarrow>
     (let bw = sint (ds_border_width d) in
      ds_mapped d \<and> ds_visible d \<and>
      x \<ge> sint (ds_x d) - bw \<and> x < sint (ds_x d) + sint (ds_width d) + bw \<and>
      y \<ge> sint (ds_y d) - bw \<and> y < sint (ds_y d) + sint (ds_height d) + bw)"

fun surface_at_loop :: "int \<Rightarrow> int \<Rightarrow> 32 word \<Rightarrow> 32 word \<Rightarrow> (32 word \<times> display_surface) list \<Rightarrow> 32 word" where
  "surface_at_loop x y best_id best_stacking [] = best_id"
| "surface_at_loop x y best_id best_stacking ((i, d) # ss) =
     (if covers x y d \<and> (best_id = 0 \<or> ds_stacking d \<ge> best_stacking)
      then surface_at_loop x y i (ds_stacking d) ss
      else surface_at_loop x y best_id best_stacking ss)"

definition surface_at :: "'os server \<Rightarrow> int \<Rightarrow> int \<Rightarrow> 32 word" where
  "surface_at s x y = surface_at_loop x y 0 0 (srv_surfaces s)"

text \<open>The painting order; \<^verbatim>\<open>std::sort\<close> may order surfaces of equal stacking in any way, the model keeps their order.\<close>

definition visible_surfaces_by_stacking :: "'os server \<Rightarrow> display_surface list" where
  "visible_surfaces_by_stacking s =
     sort_key ds_stacking (filter (\<lambda>d. ds_mapped d \<and> ds_visible d) (map snd (srv_surfaces s)))"

section \<open>Overlays\<close>

definition notify :: "'os server \<Rightarrow> 'os server" where
  "notify s = s\<lparr>change_notifications := Suc (change_notifications s)\<rparr>"

definition overlays_create :: "32 word \<Rightarrow> 32 word \<Rightarrow> 32 word \<Rightarrow> 32 word \<Rightarrow> 32 word \<Rightarrow> 'os server \<Rightarrow> 'os server" where
  "overlays_create i x y w h s =
     notify (s\<lparr>srv_overlays := AList.update i
       \<lparr>ov_id = i, ov_x = x, ov_y = y, ov_width = w, ov_height = h, ov_visible = True, ov_pixels = []\<rparr> (srv_overlays s)\<rparr>)"

text \<open>
  \<^verbatim>\<open>OverlayManager::update\<close>; \<open>mmap fd n os\<close> is what mapping \<open>n\<close> bytes of the descriptor shows, if it succeeds.
  Every path closes the descriptor.
\<close>

type_synonym 'os mapper = "int \<Rightarrow> nat \<Rightarrow> 'os \<Rightarrow> byte list option"

definition overlays_update :: "'os sys \<Rightarrow> 'os mapper \<Rightarrow> 32 word \<Rightarrow> int \<Rightarrow> 32 word \<Rightarrow> 'os server \<Rightarrow> bool \<times> 'os server" where
  "overlays_update S mmap i fd sz s =
     (case map_of (srv_overlays s) i of
        None \<Rightarrow> (False, close_fd S fd s)
      | Some ov \<Rightarrow>
          (if sint (ov_width ov) \<le> 0 \<or> sint (ov_height ov) \<le> 0 then (False, close_fd S fd s)
           else
             (let expected = nat (sint (ov_width ov) * sint (ov_height ov) * 4) in
              if unat sz \<noteq> expected then (False, close_fd S fd s)
              else
                (case mmap fd expected (srv_os s) of
                   None \<Rightarrow> (False, close_fd S fd s)
                 | Some data \<Rightarrow>
                     (True, notify ((close_fd S fd s)\<lparr>srv_overlays :=
                        AList.map_entry i (\<lambda>v. v\<lparr>ov_pixels := take expected data\<rparr>) (srv_overlays s)\<rparr>))))))"

definition overlays_destroy :: "32 word \<Rightarrow> 'os server \<Rightarrow> 'os server" where
  "overlays_destroy i s = notify (s\<lparr>srv_overlays := AList.delete i (srv_overlays s)\<rparr>)"

definition overlay_at :: "'os server \<Rightarrow> int \<Rightarrow> int \<Rightarrow> overlay option" where
  "overlay_at s x y =
     find (\<lambda>v. ov_visible v \<and> x \<ge> sint (ov_x v) \<and> x < sint (ov_x v) + sint (ov_width v) \<and>
               y \<ge> sint (ov_y v) \<and> y < sint (ov_y v) + sint (ov_height v)) (map snd (srv_overlays s))"

definition srv_create_overlay ::
  "'os sys \<Rightarrow> 32 word \<Rightarrow> 32 word \<Rightarrow> 32 word \<Rightarrow> 32 word \<Rightarrow> 32 word \<Rightarrow> 'os server \<Rightarrow> 'os server" where
  "srv_create_overlay S i x y w h s = emit_event S (OverlayExpose i) (overlays_create i x y w h s)"

definition srv_update_overlay :: "'os sys \<Rightarrow> 'os mapper \<Rightarrow> 32 word \<Rightarrow> int \<Rightarrow> 32 word \<Rightarrow> 'os server \<Rightarrow> 'os server" where
  "srv_update_overlay S mmap i fd sz s = snd (overlays_update S mmap i fd sz s)"

definition srv_destroy_overlay :: "32 word \<Rightarrow> 'os server \<Rightarrow> 'os server" where
  "srv_destroy_overlay i s = overlays_destroy i s"

section \<open>The Wayland shell's events\<close>

datatype xdg_event =
    XdgToplevelCreated "32 word" "32 word" "32 word"
  | XdgToplevelDestroyed "32 word"
  | XdgToplevelMapped "32 word" "32 word" "32 word"
  | XdgToplevelCommitted "32 word" "32 word" "32 word"
  | XdgTitleChanged "32 word" string
  | XdgAppIdChanged "32 word" string
  | XdgFullscreenRequested "32 word" bool
  | XdgMinSizeChanged "32 word" "32 word" "32 word"
  | XdgMaxSizeChanged "32 word" "32 word" "32 word"

definition on_toplevel :: "32 word \<Rightarrow> (32 word \<Rightarrow> 'os server \<Rightarrow> 'os server) \<Rightarrow> 'os server \<Rightarrow> 'os server" where
  "on_toplevel tid f s = (let i = surface_id_from_toplevel s tid in if i = 0 then s else f i s)"

fun xdg_on :: "'os sys \<Rightarrow> xdg_event \<Rightarrow> 'os server \<Rightarrow> 'os server" where
  "xdg_on S (XdgToplevelCreated tid sid pid) s =
     (let (i, s1) = add_surface S [] [] pid tid s in set_wl_surface_id i sid s1)"
| "xdg_on S (XdgToplevelDestroyed tid) s = destroy_surface_for_toplevel S tid s"
| "xdg_on S (XdgToplevelMapped tid w h) s =
     on_toplevel tid (\<lambda>i s. surface_committed S i w h (surface_mapped S i s)) s"
| "xdg_on S (XdgToplevelCommitted tid w h) s = on_toplevel tid (\<lambda>i. surface_committed S i w h) s"
| "xdg_on S (XdgTitleChanged tid title) s = on_toplevel tid (\<lambda>i. surface_title_changed S i title) s"
| "xdg_on S (XdgAppIdChanged tid app_id) s = on_toplevel tid (\<lambda>i. surface_app_id_changed S i app_id) s"
| "xdg_on S (XdgFullscreenRequested _ _) s = s"
| "xdg_on S (XdgMinSizeChanged _ _ _) s = s"
| "xdg_on S (XdgMaxSizeChanged _ _ _) s = s"

section \<open>The control server\<close>

definition make_server :: "'os sys \<Rightarrow> string \<Rightarrow> 'os server \<Rightarrow> 'os server" where
  "make_server S path s =
     (let (l, os1) = listen_seqpacket S path 4 (srv_os s);
          os2 = (if l \<ge> 0 then snd (set_nonblocking S l True os1) else os1)
      in s\<lparr>srv_os := os2, listener := l, client := -1, socket_path := path, snapshot_generation := 0,
           handler_attached := True\<rparr>)"

definition destroy_server :: "'os sys \<Rightarrow> 'os server \<Rightarrow> 'os server" where
  "destroy_server S s =
     (let s1 = disconnect_client S (s\<lparr>handler_attached := False\<rparr>);
          s2 = (if listener s1 \<ge> 0 then (close_fd S (listener s1) s1)\<lparr>listener := -1\<rparr> else s1)
      in if socket_path s2 = [] then s2 else s2\<lparr>srv_os := sys_unlink S (socket_path s2) (srv_os s2)\<rparr>)"

text \<open>
  \<^verbatim>\<open>accept_pending\<close> takes connections until the queue is empty or an error occurs; each replaces the previous
  client. It may not end, and is then \<^const>\<open>None\<close>.
\<close>

definition take_client :: "'os sys \<Rightarrow> int \<Rightarrow> 'os server \<Rightarrow> 'os server" where
  "take_client S c s =
     (let s1 = s\<lparr>srv_os := snd (set_nonblocking S c True (srv_os s))\<rparr>;
          s2 = (if client s1 \<ge> 0 then disconnect_client S s1 else s1)
      in s2\<lparr>client := c\<rparr>)"

partial_function (option) accept_loop :: "'os sys \<Rightarrow> 'os server \<Rightarrow> 'os server option" where
  "accept_loop S s =
     (let (c, again, os1) = accept S (listener s) (srv_os s); s1 = s\<lparr>srv_os := os1\<rparr>
      in if c < 0 then Some s1 else accept_loop S (take_client S c s1))"

definition accept_pending :: "'os sys \<Rightarrow> 'os server \<Rightarrow> 'os server option" where
  "accept_pending S s = (if listener s < 0 then Some s else accept_loop S s)"

text \<open>The snapshot: outputs and surfaces in the order of their numbers between the two brackets.\<close>

fun send_outputs :: "'os sys \<Rightarrow> output_info list \<Rightarrow> 'os server \<Rightarrow> bool \<times> 'os server" where
  "send_outputs S [] s = (True, s)"
| "send_outputs S (oi # ois) s =
     (let (okay, s1) = send_event S (output_added_msg oi) s
      in if okay then send_outputs S ois s1 else (False, s1))"

fun send_surfaces :: "'os sys \<Rightarrow> display_surface list \<Rightarrow> 'os server \<Rightarrow> bool \<times> 'os server" where
  "send_surfaces S [] s = (True, s)"
| "send_surfaces S (d # ds) s =
     (let s1 = snd (send_event S (surface_created d) s) in
      if client s1 < 0 then (False, s1)
      else
        (let s2 = (if ds_mapped d then snd (send_event S (SurfaceMapped (ds_id d)) s1) else s1) in
         if client s2 < 0 then (False, s2)
         else
           (let s3 = (if sint (ds_width d) > 0 \<or> sint (ds_height d) > 0
                      then snd (send_event S (SurfaceCommitted (ds_id d) (ds_width d) (ds_height d)) s2) else s2)
            in if client s3 < 0 then (False, s3) else send_surfaces S ds s3)))"

definition snapshot_outputs :: "'os server \<Rightarrow> output_info list" where
  "snapshot_outputs s = sort_key oi_id (map snd (srv_outputs s))"

definition snapshot_surfaces :: "'os server \<Rightarrow> display_surface list" where
  "snapshot_surfaces s = sort_key ds_id (map snd (srv_surfaces s))"

definition send_snapshot :: "'os sys \<Rightarrow> 'os server \<Rightarrow> bool \<times> 'os server" where
  "send_snapshot S s =
     (let generation = snapshot_generation s + 1;
          (ok1, s1) = send_event S (SnapshotBegin generation) (s\<lparr>snapshot_generation := generation\<rparr>)
      in if \<not> ok1 then (False, s1)
         else
           (let (ok2, s2) = send_outputs S (snapshot_outputs s1) s1
            in if \<not> ok2 then (False, s2)
               else
                 (let (ok3, s3) = send_surfaces S (snapshot_surfaces s2) s2
                  in if \<not> ok3 then (False, s3) else send_event S (SnapshotEnd generation) s3)))"

definition WmController :: "32 word" where "WmController = 1"
definition DisplayServerHost :: "32 word" where "DisplayServerHost = 2"

text \<open>
  The overloads of \<^verbatim>\<open>BackendControlServer::on\<close> as \<^verbatim>\<open>invoke_handler\<close> selects them. The event messages have
  overloads too, inherited from the event handler interface: a client that sends one gets it echoed.
\<close>

fun server_on :: "'os sys \<Rightarrow> 'os mapper \<Rightarrow> payload \<Rightarrow> int \<Rightarrow> 'os server \<Rightarrow> bool \<times> 'os server" where
  "server_on S mm (Hello role _) rfd s =
     (if role \<noteq> WmController then (False, s) else send_event S (Hello DisplayServerHost 0) s)"
| "server_on S mm (SnapshotRequest _) rfd s = send_snapshot S s"
| "server_on S mm (SnapshotBegin _) rfd s = (False, s)"
| "server_on S mm (SnapshotEnd _) rfd s = (False, s)"
| "server_on S mm (ConfigureSurface i x y w h) rfd s = (True, srv_configure_surface i x y w h s)"
| "server_on S mm (SetSurfaceVisible i v) rfd s = (True, srv_set_surface_visible i (v \<noteq> 0) s)"
| "server_on S mm (SetSurfaceActivated i a) rfd s = (True, srv_set_surface_activated i (a \<noteq> 0) s)"
| "server_on S mm (SetSurfaceStacking i r) rfd s = (True, srv_set_surface_stacking i r s)"
| "server_on S mm (CloseSurface i) rfd s = (True, srv_close_surface i s)"
| "server_on S mm (WarpPointer x y) rfd s = (True, srv_warp_pointer x y s)"
| "server_on S mm (SetKeyboardIntercepts n ks) rfd s =
     (True, srv_set_keyboard_intercepts (take (min (unat n) (length ks)) ks) s)"
| "server_on S mm (GrabPointer _) rfd s = (if rfd \<ge> 0 then (False, s) else (True, srv_grab_pointer s))"
| "server_on S mm (UngrabPointer _) rfd s = (if rfd \<ge> 0 then (False, s) else (True, srv_ungrab_pointer s))"
| "server_on S mm (SetSurfaceBorder i w c) rfd s = (True, srv_set_surface_border i w c s)"
| "server_on S mm (CreateOverlay i x y w h) rfd s = (True, srv_create_overlay S i x y w h s)"
| "server_on S mm (UpdateOverlay i n) rfd s =
     (if rfd < 0 then (False, s) else (True, close_fd S rfd (srv_update_overlay S mm i rfd n s)))"
| "server_on S mm (DestroyOverlay i) rfd s = (True, srv_destroy_overlay i s)"
| "server_on S mm ev rfd s = (True, snd (send_event S ev s))"

definition server_dispatch_message ::
  "'os sys \<Rightarrow> 'os mapper \<Rightarrow> message_header \<Rightarrow> byte list \<Rightarrow> int \<Rightarrow> 'os server \<Rightarrow> bool \<times> 'os server" where
  "server_dispatch_message S mm h bytes rfd s =
     (if rfd \<ge> 0 \<and> msg_type h \<noteq> type_code T_UpdateOverlay then (False, s)
      else dispatch_backend_message h bytes rfd (server_on S mm) s)"

definition RECV_BUFFER :: nat where
  "RECV_BUFFER = 2048"

definition recv_buffer :: "byte list \<Rightarrow> byte list" where
  "recv_buffer data = data @ replicate (RECV_BUFFER - length data) 0"

definition header_valid :: "message_header \<Rightarrow> int \<Rightarrow> bool" where
  "header_valid h rc \<longleftrightarrow>
     magic h = kBackendProtocolMagic \<and> version h = kBackendProtocolVersion \<and> rc = 12 + int (unat (msg_size h))"

definition dispatch_one_message :: "'os sys \<Rightarrow> 'os mapper \<Rightarrow> 'os server \<Rightarrow> bool \<times> 'os server" where
  "dispatch_one_message S mm s =
     (if client s < 0 then (False, s)
      else
        (let ((rc, data, rfd), os1) = receive_bytes S (client s) RECV_BUFFER (srv_os s);
             s1 = s\<lparr>srv_os := os1\<rparr>;
             reject = (\<lambda>s. (False, disconnect_client S (close_received S rfd s)))
         in if rc < 12 then reject s1
            else
              (case take_header (recv_buffer data) of
                 None \<Rightarrow> reject s1
               | Some (h, bytes) \<Rightarrow>
                   if \<not> header_valid h rc then reject s1
                   else
                     (let (okay, s2) = server_dispatch_message S mm h bytes rfd s1
                      in if okay then (True, s2) else reject s2))))"

partial_function (option) dispatch_loop :: "'os sys \<Rightarrow> 'os mapper \<Rightarrow> 'os server \<Rightarrow> 'os server option" where
  "dispatch_loop S mm s =
     (let (okay, s1) = dispatch_one_message S mm s in
      if \<not> okay \<or> client s1 < 0 then Some s1
      else
        (let (readable, os1) = poll_readable S (client s1) 0 (srv_os s1); s2 = s1\<lparr>srv_os := os1\<rparr>
         in if readable then dispatch_loop S mm s2 else Some s2))"

definition dispatch_pending :: "'os sys \<Rightarrow> 'os mapper \<Rightarrow> 'os server \<Rightarrow> 'os server option" where
  "dispatch_pending S mm s = (if client s < 0 then Some s else dispatch_loop S mm s)"

section \<open>One turn of the main loop\<close>

text \<open>
  The descriptors handed to \<^verbatim>\<open>poll\<close> and the calls made for them, as \<^verbatim>\<open>run_display_server\<close> orders them; \<open>ready k\<close>
  says whether \<^verbatim>\<open>fds[k].revents\<close> has \<^verbatim>\<open>POLLIN\<close>. Only the choice of calls is modelled.
\<close>

datatype loop_call = DispatchWayland | PumpOutput | AcceptPending | DispatchPending | DispatchXWayland

definition turn_calls :: "int \<Rightarrow> int \<Rightarrow> (nat \<Rightarrow> bool) \<Rightarrow> loop_call list" where
  "turn_calls client_fd xcb_fd ready =
     (let nfds = 3 + (if client_fd \<ge> 0 then 1 else 0) + (if xcb_fd \<ge> 0 then 1 else 0 :: nat);
          control = client_fd \<ge> 0 \<and> nfds > 3 \<and> ready 3;
          poll_index = (if control then 4 else 3 :: nat)
      in (if ready 0 then [DispatchWayland] else []) @ (if ready 1 then [PumpOutput] else []) @
         (if ready 2 then [AcceptPending] else []) @ (if control then [DispatchPending] else []) @
         (if xcb_fd \<ge> 0 \<and> nfds > poll_index \<and> ready poll_index then [DispatchXWayland] else []))"

text \<open>Where \<^verbatim>\<open>poll\<close> puts the descriptor of the X server.\<close>

definition xcb_index :: "int \<Rightarrow> nat" where
  "xcb_index client_fd = (if client_fd \<ge> 0 then 4 else 3)"

end
