(* ===== verification/Text_Input.thy ===== *)
theory Text_Input
  imports Restart_State
begin

text \<open>
  Reading text with the C++ and C library: the pieces of a string a \<^verbatim>\<open>std::getline\<close> loop yields, and the conversions
  \<^verbatim>\<open>std::stoul\<close>, \<^verbatim>\<open>strtol\<close> and \<^verbatim>\<open>strtoul\<close>. The key bindings, the process registry and the backends use them.
\<close>

text \<open>The pieces a \<^verbatim>\<open>std::getline\<close> loop reads from a string; a delimiter at the end is not followed by a piece.\<close>

function getlines :: "char \<Rightarrow> string \<Rightarrow> string list" where
  "getlines d s =
     (if s = [] then [] else takeWhile (\<lambda>ch. ch \<noteq> d) s # getlines d (tl (dropWhile (\<lambda>ch. ch \<noteq> d) s)))"
  by auto
termination
proof (relation "measure (length \<circ> snd)")
  fix d :: char and s :: string
  assume "s \<noteq> []"
  moreover have "length (dropWhile (\<lambda>ch. ch \<noteq> d) s) \<le> length s" by (rule length_dropWhile_le)
  ultimately have "length (tl (dropWhile (\<lambda>ch. ch \<noteq> d) s)) < length s" by (cases s) auto
  then show "((d, tl (dropWhile (\<lambda>ch. ch \<noteq> d) s)), (d, s)) \<in> measure (length \<circ> snd)" by simp
qed simp

declare getlines.simps [simp del]

fun join :: "char \<Rightarrow> string list \<Rightarrow> string" where
  "join d [] = []"
| "join d [t] = t"
| "join d (t # ts) = t @ d # join d ts"

lemma getlines_Nil [simp]: "getlines d [] = []"
  by (simp add: getlines.simps)

lemma getlines_last: "t \<noteq> [] \<Longrightarrow> d \<notin> set t \<Longrightarrow> getlines d t = [t]"
proof -
  assume t: "t \<noteq> []" "d \<notin> set t"
  then have "takeWhile (\<lambda>ch. ch \<noteq> d) t = t" "dropWhile (\<lambda>ch. ch \<noteq> d) t = []" by auto
  then have "getlines d t = t # getlines d (tl [])" using t by (subst getlines.simps) (simp only: if_False)
  then show ?thesis by simp
qed

lemma getlines_Cons: "d \<notin> set t \<Longrightarrow> getlines d (t @ d # s) = t # getlines d s"
proof -
  assume "d \<notin> set t"
  then have "takeWhile (\<lambda>ch. ch \<noteq> d) (t @ d # s) = t" "dropWhile (\<lambda>ch. ch \<noteq> d) (t @ d # s) = d # s"
    by (induction t) auto
  then show ?thesis by (simp add: getlines.simps [of d "t @ d # s"])
qed

lemma getlines_join:
  "ts \<noteq> [] \<Longrightarrow> last ts \<noteq> [] \<Longrightarrow> \<forall>t\<in>set ts. d \<notin> set t \<Longrightarrow> getlines d (join d ts) = ts"
  by (induction d ts rule: join.induct) (auto simp: getlines_last getlines_Cons)

text \<open>\<^verbatim>\<open>std::stoul\<close>, which throws where the result is \<open>None\<close>.\<close>

definition stoul :: "string \<Rightarrow> 64 word option" where
  "stoul s =
     (let s1 = dropWhile is_space s;
          s2 = (if s1 \<noteq> [] \<and> hd s1 \<in> {CHR ''-'', CHR ''+''} then tl s1 else s1);
          ds = takeWhile is_digit s2
      in if ds = [] \<or> digits_value ds \<ge> 2 ^ 64 then None
         else Some (if hd s1 = CHR ''-'' then - word_of_nat (digits_value ds) else word_of_nat (digits_value ds)))"

text \<open>\<^verbatim>\<open>strtol(s, &end, 10)\<close>: the value, at the nearest bound of \<^verbatim>\<open>long\<close> when out of range, and what \<^verbatim>\<open>end\<close> points to.\<close>

definition strtol10 :: "string \<Rightarrow> int \<times> string" where
  "strtol10 s =
     (case split_sign (dropWhile is_space s) of (neg, s2) \<Rightarrow>
        (let ds = takeWhile is_digit s2; v = (if neg then - int (digits_value ds) else int (digits_value ds))
         in if ds = [] then (0, s) else (max (- (2 ^ 63)) (min (2 ^ 63 - 1) v), drop (length ds) s2)))"

text \<open>The conversion of a \<^verbatim>\<open>long\<close> to a 32-bit \<^verbatim>\<open>int\<close> or \<^verbatim>\<open>pid_t\<close>.\<close>

definition narrow32 :: "int \<Rightarrow> int" where
  "narrow32 i = sint (word_of_int i :: 32 word)"

lemma narrow32_id: "- (2 ^ 31) \<le> i \<Longrightarrow> i < 2 ^ 31 \<Longrightarrow> narrow32 i = i"
  by (simp add: narrow32_def sint_sbintrunc' signed_take_bit_int_eq_self_iff)

lemma strtol10_print: "0 \<le> i \<Longrightarrow> i < 2 ^ 63 \<Longrightarrow> fst (strtol10 (int_to_string i)) = i"
proof -
  assume i: "0 \<le> i" "i < 2 ^ 63"
  obtain ch ds where t: "to_string (nat i) = ch # ds" using to_string_digits by (cases "to_string (nat i)") auto
  from to_string_digits [of "nat i"] have d: "list_all is_digit (ch # ds)" "digits_value (ch # ds) = nat i" by (auto simp: t)
  then have c: "dropWhile is_space (ch # ds) = ch # ds" "split_sign (ch # ds) = (False, ch # ds)"
    using digit_chars [of ch] by (auto simp: split_sign_def)
  have tw: "takeWhile is_digit (ch # ds) = ch # ds" using d(1) by (simp only: takeWhile_eq_all_conv list_all_iff)
  have it: "int_to_string i = ch # ds" using i by (simp add: int_to_string_def t)
  have "strtol10 (int_to_string i) = (max (- (2 ^ 63)) (min (2 ^ 63 - 1) (int (nat i))), drop (length (ch # ds)) (ch # ds))"
    unfolding strtol10_def it c prod.case Let_def tw d(2) by simp
  then show ?thesis using i by simp
qed

section \<open>Hexadecimal numbers\<close>

definition hex_digit :: "char \<Rightarrow> nat option" where
  "hex_digit ch =
     (let n = (of_char ch :: nat) in
      if 48 \<le> n \<and> n \<le> 57 then Some (n - 48)
      else if 65 \<le> n \<and> n \<le> 70 then Some (n - 55)
      else if 97 \<le> n \<and> n \<le> 102 then Some (n - 87) else None)"

definition hex_value :: "string \<Rightarrow> nat" where
  "hex_value ds = fold (\<lambda>ch acc. 16 * acc + the (hex_digit ch)) ds 0"

text \<open>
  \<^verbatim>\<open>strtoul(s, &end, 16)\<close>: white space, a sign, an optional \<^verbatim>\<open>0x\<close> that is followed by a digit, and digits. The
  result is the value modulo the width of \<^verbatim>\<open>unsigned long\<close> and the rest of the string; nothing when there are
  no digits. Overflow needs more digits than the caller passes.
\<close>

definition strtoul16 :: "string \<Rightarrow> (64 word \<times> string) option" where
  "strtoul16 s =
     (let s1 = dropWhile is_space s;
          neg = (s1 \<noteq> [] \<and> hd s1 = CHR ''-'');
          s2 = (if s1 \<noteq> [] \<and> hd s1 \<in> {CHR ''-'', CHR ''+''} then tl s1 else s1);
          s3 = (if take 2 s2 \<in> {''0x'', ''0X''} \<and> drop 2 s2 \<noteq> [] \<and> hex_digit (s2 ! 2) \<noteq> None then drop 2 s2 else s2);
          ds = takeWhile (\<lambda>ch. hex_digit ch \<noteq> None) s3
      in if ds = [] then None
         else Some (if neg then - word_of_nat (hex_value ds) else word_of_nat (hex_value ds), drop (length ds) s3))"

end
