(* ===== verification/Wayland_Backend.thy ===== *)
theory Wayland_Backend
  imports Core_Access Display_Server Text_Input
begin

text \<open>
  The window manager's side of the control connection: \<^verbatim>\<open>class DisplayServerBackend\<close>
  (\<^verbatim>\<open>backends/wayland/src/backend/display_server_backend.cpp\<close>) and its ports (\<^verbatim>\<open>backends/wayland/src/ports\<close>).

  The state holds the runtime's world (the backend calls the core and the event queue through it), the
  operating system's state and the tables mirrored from the display server. Two fields record behaviour:
  \<open>sent\<close> the messages sent so far, \<open>be_closed\<close> the descriptors closed. An operation that may throw returns a
  sum; an exception carries the state at the throw. Drawing with cairo and the log are left out.
\<close>

section \<open>State\<close>

record surface_info =
  si_id :: "32 word"
  si_app_id :: string
  si_title :: string
  si_pid :: "32 word"
  si_mapped :: bool
  si_managed :: bool
  si_x :: "32 word"
  si_y :: "32 word"
  si_width :: "32 word"
  si_height :: "32 word"

record 'os backend =
  be_os :: 'os
  control :: int
  be_surfaces :: "(32 word \<times> surface_info) list"
  be_outputs :: "(32 word \<times> output_info) list"
  prev_focused :: window_id
  focused_border :: "32 word"
  unfocused_border :: "32 word"
  be_started :: bool
  snapshot_complete :: bool
  be_world :: world
  port_intercepts :: "(32 word \<times> 32 word) list"
  next_overlay_id :: "32 word"
  kb_layouts :: "string list"
  kb_group :: nat
  sent :: "payload list"
  be_closed :: "int list"

datatype be_error =
    NoControlSocket
  | ConnectFailed
  | SnapshotTimeout
  | RecvFailed
  | PeerClosed
  | PacketTooShort
  | InvalidPacket
  | MessageRefused "16 word"
  | SendFailed message_type

type_synonym 'os outcome = "be_error \<times> 'os backend + 'os backend"

definition and_then :: "'os outcome \<Rightarrow> ('os backend \<Rightarrow> 'os outcome) \<Rightarrow> 'os outcome" where
  "and_then m f = (case m of Inl e \<Rightarrow> Inl e | Inr b \<Rightarrow> f b)"

lemma and_then_simps [simp]: "and_then (Inl e) f = Inl e" "and_then (Inr b) f = f b"
  by (simp_all add: and_then_def)

definition do_if :: "bool \<Rightarrow> ('os backend \<Rightarrow> 'os outcome) \<Rightarrow> 'os backend \<Rightarrow> 'os outcome" where
  "do_if c f b = (if c then f b else Inr b)"

definition be_core :: "'os backend \<Rightarrow> core" where
  "be_core b = w_core (be_world b)"

definition on_world :: "(world \<Rightarrow> world) \<Rightarrow> 'os backend \<Rightarrow> 'os backend" where
  "on_world f b = b\<lparr>be_world := f (be_world b)\<rparr>"

definition close_be :: "'os sys \<Rightarrow> int \<Rightarrow> 'os backend \<Rightarrow> 'os backend" where
  "close_be S fd b = (if fd \<ge> 0 then b\<lparr>be_os := sys_close S fd (be_os b), be_closed := be_closed b @ [fd]\<rparr> else b)"

section \<open>Colours\<close>

definition parse_hex_color :: "string \<Rightarrow> 32 word" where
  "parse_hex_color s =
     (if length s = 7 \<and> s ! 0 = CHR ''#''
      then (case strtoul16 (tl s) of
              Some (rgb, []) \<Rightarrow> 0xFF000000 OR ucast rgb
            | _ \<Rightarrow> 0xFF888888)
      else 0xFF888888)"

definition reload_border_colors :: "'os backend \<Rightarrow> 'os backend" where
  "reload_border_colors b =
     (let th = theme (settings (be_core b));
          focused = (if border_focused th = [] then accent th else border_focused th);
          unfocused = (if border_unfocused th = [] then (if alt_bg th = [] then bg th else alt_bg th)
                       else border_unfocused th)
      in b\<lparr>focused_border := parse_hex_color focused, unfocused_border := parse_hex_color unfocused\<rparr>)"

section \<open>Requests\<close>

definition send_control :: "'os sys \<Rightarrow> payload \<Rightarrow> int \<Rightarrow> 'os backend \<Rightarrow> 'os outcome" where
  "send_control S p fd b =
     (let (okay, os1) = send_message S (control b) p fd (be_os b); b1 = b\<lparr>be_os := os1\<rparr>
      in if okay then Inr (b1\<lparr>sent := sent b1 @ [p]\<rparr>) else Inl (SendFailed (payload_type p), b1))"

definition as_int32 :: "int \<Rightarrow> 32 word" where
  "as_int32 = word_of_int"

definition configure_surface :: "'os sys \<Rightarrow> window_id \<Rightarrow> vec2i \<Rightarrow> vec2i \<Rightarrow> 'os backend \<Rightarrow> 'os outcome" where
  "configure_surface S win pos sz =
     send_control S (ConfigureSurface win (as_int32 (fst pos)) (as_int32 (snd pos)) (as_int32 (fst sz)) (as_int32 (snd sz))) (-1)"

definition set_surface_activated :: "'os sys \<Rightarrow> window_id \<Rightarrow> 32 word \<Rightarrow> 'os backend \<Rightarrow> 'os outcome" where
  "set_surface_activated S win a = send_control S (SetSurfaceActivated win a) (-1)"

definition set_surface_visible :: "'os sys \<Rightarrow> window_id \<Rightarrow> 32 word \<Rightarrow> 'os backend \<Rightarrow> 'os outcome" where
  "set_surface_visible S win v = send_control S (SetSurfaceVisible win v) (-1)"

definition set_surface_stacking :: "'os sys \<Rightarrow> window_id \<Rightarrow> 32 word \<Rightarrow> 'os backend \<Rightarrow> 'os outcome" where
  "set_surface_stacking S win r = send_control S (SetSurfaceStacking win r) (-1)"

definition close_surface :: "'os sys \<Rightarrow> window_id \<Rightarrow> 'os backend \<Rightarrow> 'os outcome" where
  "close_surface S win = send_control S (CloseSurface win) (-1)"

definition set_surface_border :: "'os sys \<Rightarrow> window_id \<Rightarrow> 32 word \<Rightarrow> 32 word \<Rightarrow> 'os backend \<Rightarrow> 'os outcome" where
  "set_surface_border S win w c = send_control S (SetSurfaceBorder win w c) (-1)"

definition warp_pointer :: "'os sys \<Rightarrow> vec2i \<Rightarrow> 'os backend \<Rightarrow> 'os outcome" where
  "warp_pointer S pos = send_control S (WarpPointer (as_int32 (fst pos)) (as_int32 (snd pos))) (-1)"

definition grab_pointer :: "'os sys \<Rightarrow> 'os backend \<Rightarrow> 'os outcome" where
  "grab_pointer S = send_control S (GrabPointer 0) (-1)"

definition ungrab_pointer :: "'os sys \<Rightarrow> 'os backend \<Rightarrow> 'os outcome" where
  "ungrab_pointer S = send_control S (UngrabPointer 0) (-1)"

text \<open>The array of the message holds 64 entries; more are cut off.\<close>

definition intercepts_message :: "(32 word \<times> 32 word) list \<Rightarrow> payload" where
  "intercepts_message ks =
     (let n = min (length ks) kMaxKeyIntercepts
      in SetKeyboardIntercepts (word_of_nat n) (take n ks @ replicate (kMaxKeyIntercepts - n) (0, 0)))"

definition set_keyboard_intercepts :: "'os sys \<Rightarrow> (32 word \<times> 32 word) list \<Rightarrow> 'os backend \<Rightarrow> 'os outcome" where
  "set_keyboard_intercepts S ks = send_control S (intercepts_message ks) (-1)"

definition create_overlay :: "'os sys \<Rightarrow> 32 word \<Rightarrow> vec2i \<Rightarrow> vec2i \<Rightarrow> 'os backend \<Rightarrow> 'os outcome" where
  "create_overlay S i pos sz =
     send_control S (CreateOverlay i (as_int32 (fst pos)) (as_int32 (snd pos)) (as_int32 (fst sz)) (as_int32 (snd sz))) (-1)"

definition update_overlay :: "'os sys \<Rightarrow> 32 word \<Rightarrow> int \<Rightarrow> 32 word \<Rightarrow> 'os backend \<Rightarrow> 'os outcome" where
  "update_overlay S i fd bytes b =
     (case send_control S (UpdateOverlay i bytes) fd b of
        Inl (e, b1) \<Rightarrow> Inl (e, close_be S fd b1)
      | Inr b1 \<Rightarrow> Inr (close_be S fd b1))"

definition destroy_overlay :: "'os sys \<Rightarrow> 32 word \<Rightarrow> 'os backend \<Rightarrow> 'os outcome" where
  "destroy_overlay S i = send_control S (DestroyOverlay i) (-1)"

section \<open>Events of the display server\<close>

definition dflt_hints :: window_hints where
  "dflt_hints =
     \<lparr>no_decorations = False, fixed_size = False, never_focus = False, hint_urgent = False, static_gravity = False,
      covers_monitor = False, pre_fullscreen = False, is_xembed = False, hint_size_min = (0, 0),
      hint_size_max = (0, 0), hint_size_inc = (0, 0), hint_size_base = (0, 0)\<rparr>"

definition surface_metadata :: "surface_info \<Rightarrow> window_metadata" where
  "surface_metadata si =
     \<lparr>md_window = si_id si, md_wm_instance = si_app_id si, md_wm_class = si_app_id si, md_title = si_title si,
      md_pid = si_pid si, md_type = TNormal, md_hints = dflt_hints, md_transient_for = NO_WINDOW\<rparr>"

text \<open>The part of \<^verbatim>\<open>manage_surface\<close> that talks to the core, in its order.\<close>

definition manage_commands :: "env \<Rightarrow> surface_info \<Rightarrow> world \<Rightarrow> world" where
  "manage_commands E si w =
     (let wid = si_id si;
          w1 = dispatch (EnsureWindow wid NO_WORKSPACE) w;
          w2 = dispatch (SetWindowMetadata (surface_metadata si)) w1;
          w3 = dispatch (SetWindowGeometry wid (sint (si_x si), sint (si_y si)) (sint (si_width si), sint (si_height si))) w2;
          w4 = snd (invoke_hook (on_window_rules E) (w_hook_receivers w3) \<lparr>wr_window = wid, wr_from_restart = False\<rparr> w3);
          w5 = dispatch (MapWindow wid) w4;
          w6 = post_event (EvWindowMapped wid) w5;
          w7 = dispatch ReconcileNow w6
      in case window_state (w_core w7) wid of
           None \<Rightarrow> w7
         | Some x \<Rightarrow> if is_visible x then dispatch (FocusWindow wid) w7 else w7)"

definition manage_surface :: "env \<Rightarrow> 32 word \<Rightarrow> 'os backend \<Rightarrow> 'os backend" where
  "manage_surface E i b =
     (case map_of (be_surfaces b) i of
        None \<Rightarrow> b
      | Some si \<Rightarrow>
          if si_managed si then b
          else on_world (manage_commands E si)
                 (b\<lparr>be_surfaces := AList.map_entry i (\<lambda>x. x\<lparr>si_managed := True\<rparr>) (be_surfaces b)\<rparr>))"

definition manageable :: "surface_info \<Rightarrow> bool" where
  "manageable si \<longleftrightarrow> si_mapped si \<and> \<not> si_managed si \<and> sint (si_width si) > 0 \<and> sint (si_height si) > 0"

definition manage_if_ready :: "env \<Rightarrow> 32 word \<Rightarrow> 'os backend \<Rightarrow> 'os backend" where
  "manage_if_ready E i b =
     (case map_of (be_surfaces b) i of
        Some si \<Rightarrow> if be_started b \<and> manageable si then manage_surface E i b else b
      | None \<Rightarrow> b)"

definition upd_surface :: "32 word \<Rightarrow> (surface_info \<Rightarrow> surface_info) \<Rightarrow> 'os backend \<Rightarrow> 'os backend" where
  "upd_surface i f b = b\<lparr>be_surfaces := AList.map_entry i f (be_surfaces b)\<rparr>"

definition post_if_started :: "event \<Rightarrow> 'os backend \<Rightarrow> 'os backend" where
  "post_if_started ev b = (if be_started b then on_world (post_event ev) b else b)"

definition forget_focus :: "window_id \<Rightarrow> 'os backend \<Rightarrow> 'os backend" where
  "forget_focus wid b = (if prev_focused b = wid then b\<lparr>prev_focused := NO_WINDOW\<rparr> else b)"

definition focused_is :: "core \<Rightarrow> window_id \<Rightarrow> bool" where
  "focused_is c wid \<longleftrightarrow> (case focused_window_state c of None \<Rightarrow> False | Some p \<Rightarrow> win_id (win_at c p) = wid)"

text \<open>What the destruction of a managed surface does to the core.\<close>

definition destroy_commands :: "window_id \<Rightarrow> world \<Rightarrow> world" where
  "destroy_commands wid w =
     (let c = w_core w;
          was_focused = focused_is c wid;
          ws_id = workspace_of_window (wm c) wid;
          was_visible = (ws_id \<ge> 0 \<and> is_workspace_visible c ws_id);
          w1 = post_event (EvWindowUnmapped wid True)
                 (dispatch (RemoveWindowFromAllWorkspaces wid) (post_event (EvDestroyNotify wid) w))
      in if \<not> was_visible then w1
         else
           (let w2 = dispatch ReconcileNow w1 in
            if \<not> was_focused then w2
            else
              (case focused_window_state (w_core w2) of
                 Some p \<Rightarrow>
                   if is_visible (win_at (w_core w2) p) then dispatch (FocusWindow (win_id (win_at (w_core w2) p))) w2
                   else composite FocusNextWindow w2
               | None \<Rightarrow> composite FocusNextWindow w2)))"

definition surface_destroyed_ev :: "32 word \<Rightarrow> 'os backend \<Rightarrow> 'os backend" where
  "surface_destroyed_ev i b =
     (case map_of (be_surfaces b) i of
        None \<Rightarrow> b
      | Some si \<Rightarrow>
          (let b1 = (if be_started b \<and> si_managed si then on_world (destroy_commands i) b else b);
               b2 = forget_focus i b1
           in b2\<lparr>be_surfaces := AList.delete i (be_surfaces b2)\<rparr>))"

definition int16 :: "32 word \<Rightarrow> int" where
  "int16 w = sint (ucast w :: 16 word)"

definition button_event :: "32 word \<Rightarrow> 32 word \<Rightarrow> 32 word \<Rightarrow> 32 word \<Rightarrow> 32 word \<Rightarrow> 32 word \<Rightarrow> event" where
  "button_event i x y button mods released =
     EvButton i i (int16 x, int16 y) (int16 x, int16 y) 0 (ucast (button - 0x110 + 1)) (ucast mods) (released \<noteq> 0)"

definition focus_if_visible :: "window_id \<Rightarrow> world \<Rightarrow> world" where
  "focus_if_visible wid w =
     (case window_state_any (w_core w) wid of
        Some x \<Rightarrow> if is_visible x then dispatch (FocusWindow wid) w else w
      | None \<Rightarrow> w)"

definition button_ev :: "32 word \<Rightarrow> 32 word \<Rightarrow> 32 word \<Rightarrow> 32 word \<Rightarrow> 32 word \<Rightarrow> 32 word \<Rightarrow> 'os backend \<Rightarrow> 'os backend" where
  "button_ev i x y button mods released b =
     (if \<not> be_started b then b
      else
        (let b1 = (if released = 0 \<and> i \<noteq> 0 then on_world (focus_if_visible i) b else b)
         in on_world (post_event (button_event i x y button mods released)) b1))"

text \<open>
  The overloads of \<^verbatim>\<open>DisplayServerBackend::on\<close>. Requests and \<^verbatim>\<open>OverlayReleased\<close> have none and are refused.
\<close>

fun backend_on :: "env \<Rightarrow> payload \<Rightarrow> int \<Rightarrow> 'os backend \<Rightarrow> bool \<times> 'os backend" where
  "backend_on E (Hello role _) rfd b = (role = DisplayServerHost, b)"
| "backend_on E (SnapshotBegin _) rfd b =
     (True, b\<lparr>snapshot_complete := False, be_surfaces := [], be_outputs := [], prev_focused := NO_WINDOW\<rparr>)"
| "backend_on E (SnapshotEnd _) rfd b = (True, b\<lparr>snapshot_complete := True\<rparr>)"
| "backend_on E (OutputAdded i name x y w h r) rfd b =
     (True, post_if_started EvDisplayTopologyChanged
        (b\<lparr>be_outputs := AList.update i
           \<lparr>oi_id = i, oi_name = fixed_string name, oi_x = x, oi_y = y, oi_w = w, oi_h = h, oi_refresh = r\<rparr> (be_outputs b)\<rparr>))"
| "backend_on E (OutputRemoved i) rfd b =
     (True, post_if_started EvDisplayTopologyChanged (b\<lparr>be_outputs := AList.delete i (be_outputs b)\<rparr>))"
| "backend_on E (SurfaceCreated i app ttl proc) rfd b =
     (True, b\<lparr>be_surfaces := AList.update i
        \<lparr>si_id = i, si_app_id = fixed_string app, si_title = fixed_string ttl, si_pid = proc, si_mapped = False,
         si_managed = False, si_x = 0, si_y = 0, si_width = 0, si_height = 0\<rparr> (be_surfaces b)\<rparr>)"
| "backend_on E (SurfaceMapped i) rfd b =
     (True, manage_if_ready E i (upd_surface i (\<lambda>x. x\<lparr>si_mapped := True\<rparr>) b))"
| "backend_on E (SurfaceUnmapped i) rfd b = (True, upd_surface i (\<lambda>x. x\<lparr>si_mapped := False\<rparr>) b)"
| "backend_on E (SurfaceDestroyed i) rfd b = (True, surface_destroyed_ev i b)"
| "backend_on E (SurfaceCommitted i w h) rfd b =
     (True, manage_if_ready E i (upd_surface i (\<lambda>x. x\<lparr>si_width := w, si_height := h\<rparr>) b))"
| "backend_on E (SurfaceTitleChanged i ttl) rfd b =
     (True,
      (case map_of (be_surfaces b) i of
         None \<Rightarrow> b
       | Some si \<Rightarrow>
           (let b1 = upd_surface i (\<lambda>x. x\<lparr>si_title := fixed_string ttl\<rparr>) b
            in if si_managed si then post_if_started (EvPropertyNotify i 0) b1 else b1)))"
| "backend_on E (SurfaceAppIdChanged i app_id) rfd b =
     (True, upd_surface i (\<lambda>x. x\<lparr>si_app_id := fixed_string app_id\<rparr>) b)"
| "backend_on E (Key keycode keysym mods pressed) rfd b =
     (True, if pressed = 0 then b else post_if_started (EvKeyPress (ucast mods) (ucast keycode) keysym) b)"
| "backend_on E (Button i x y button mods released) rfd b = (True, button_ev i x y button mods released b)"
| "backend_on E (PointerMotion i x y mods) rfd b =
     (True, post_if_started (EvMotion i (int16 x, int16 y) (ucast mods)) b)"
| "backend_on E (PointerEnter i) rfd b = (True, if be_started b then on_world (focus_if_visible i) b else b)"
| "backend_on E (OverlayExpose i) rfd b = (True, post_if_started (EvExposeWindow i) b)"
| "backend_on E (OverlayButton i x y button released) rfd b =
     (True, post_if_started (button_event i x y button 0 released) b)"
| "backend_on E _ rfd b = (False, b)"

section \<open>Receiving\<close>

definition dispatch_control_message :: "env \<Rightarrow> message_header \<Rightarrow> byte list \<Rightarrow> int \<Rightarrow> 'os backend \<Rightarrow> bool \<times> 'os backend" where
  "dispatch_control_message E h bytes rfd b =
     (if rfd \<ge> 0 then (False, b) else dispatch_backend_message h bytes rfd (backend_on E) b)"

text \<open>
  The body of the two receive loops. They differ only in the texts of their exceptions.
\<close>

definition receive_control :: "'os sys \<Rightarrow> env \<Rightarrow> 'os backend \<Rightarrow> 'os outcome" where
  "receive_control S E b =
     (let ((rc, data, rfd), os1) = receive_bytes S (control b) RECV_BUFFER (be_os b);
          b1 = b\<lparr>be_os := os1\<rparr>
      in if rc < 0 then Inl (RecvFailed, close_be S rfd b1)
         else if rc = 0 then Inl (PeerClosed, close_be S rfd b1)
         else if rc < 12 then Inl (PacketTooShort, close_be S rfd b1)
         else
           (case take_header (recv_buffer data) of
              None \<Rightarrow> Inl (PacketTooShort, close_be S rfd b1)
            | Some (h, bytes) \<Rightarrow>
                if \<not> header_valid h rc then Inl (InvalidPacket, close_be S rfd b1)
                else
                  (let (okay, b2) = dispatch_control_message E h bytes rfd b1
                   in if okay then Inr (close_be S rfd b2) else Inl (MessageRefused (msg_type h), close_be S rfd b2))))"

partial_function (option) bootstrap_loop :: "'os sys \<Rightarrow> env \<Rightarrow> 'os backend \<Rightarrow> 'os outcome option" where
  "bootstrap_loop S E b =
     (if snapshot_complete b then Some (Inr b)
      else
        (let (readable, os1) = poll_readable S (control b) 3000 (be_os b); b1 = b\<lparr>be_os := os1\<rparr>
         in if \<not> readable then Some (Inl (SnapshotTimeout, b1))
            else
              (case receive_control S E b1 of
                 Inl e \<Rightarrow> Some (Inl e)
               | Inr b2 \<Rightarrow> bootstrap_loop S E b2)))"

definition bootstrap_snapshot :: "'os sys \<Rightarrow> env \<Rightarrow> 'os backend \<Rightarrow> 'os outcome option" where
  "bootstrap_snapshot S E b = bootstrap_loop S E (b\<lparr>snapshot_complete := False\<rparr>)"

partial_function (option) pump_loop :: "'os sys \<Rightarrow> env \<Rightarrow> nat \<Rightarrow> nat \<Rightarrow> 'os backend \<Rightarrow> 'os outcome option" where
  "pump_loop S E limit processed b =
     (case receive_control S E b of
        Inl e \<Rightarrow> Some (Inl e)
      | Inr b1 \<Rightarrow>
          if control b1 \<ge> 0 \<and> (limit = 0 \<or> Suc processed < limit)
          then
            (let (readable, os2) = poll_readable S (control b1) 0 (be_os b1); b2 = b1\<lparr>be_os := os2\<rparr>
             in if readable then pump_loop S E limit (Suc processed) b2 else Some (Inr b2))
          else Some (Inr b1))"

definition wl_pump_events :: "'os sys \<Rightarrow> env \<Rightarrow> nat \<Rightarrow> 'os backend \<Rightarrow> 'os outcome option" where
  "wl_pump_events S E limit b =
     (if control b < 0 then Some (Inr b)
      else
        (let (readable, os1) = poll_readable S (control b) 0 (be_os b); b1 = b\<lparr>be_os := os1\<rparr>
         in if readable then pump_loop S E limit 0 b1 else Some (Inr b1)))"

section \<open>Lifecycle\<close>

definition wl_shutdown :: "'os sys \<Rightarrow> 'os backend \<Rightarrow> 'os backend" where
  "wl_shutdown S b =
     (let b1 = close_be S (control b) b
      in b1\<lparr>be_started := False, control := -1, be_surfaces := [], be_outputs := [], prev_focused := NO_WINDOW\<rparr>)"

definition fresh_backend :: "'os \<Rightarrow> world \<Rightarrow> 'os backend" where
  "fresh_backend os w =
     \<lparr>be_os = os, control = -1, be_surfaces = [], be_outputs = [], prev_focused = NO_WINDOW,
      focused_border = 0xFF4488CC, unfocused_border = 0xFF333333, be_started = False, snapshot_complete = False,
      be_world = w, port_intercepts = [], next_overlay_id = 0x80000000, kb_layouts = [''us''], kb_group = 0, sent = [],
      be_closed = []\<rparr>"

definition wl_construct ::
  "'os sys \<Rightarrow> env \<Rightarrow> (string \<rightharpoonup> string) \<Rightarrow> string \<Rightarrow> 'os \<Rightarrow> world \<Rightarrow> 'os outcome option" where
  "wl_construct S E vars uid os w =
     (let path = backend_socket_path_from_env vars uid; b = fresh_backend os w in
      if path = [] then Some (Inl (NoControlSocket, b))
      else
        (let (fd, os1) = connect_seqpacket S path os; b1 = b\<lparr>be_os := os1, control := fd\<rparr> in
         if fd < 0 then Some (Inl (ConnectFailed, b1))
         else
           (case and_then (send_control S (Hello WmController 0) (-1) b1) (send_control S (SnapshotRequest 0) (-1)) of
              Inl e \<Rightarrow> Some (Inl e)
            | Inr b2 \<Rightarrow> bootstrap_snapshot S E b2)))"

definition wl_on_start :: "env \<Rightarrow> 'os backend \<Rightarrow> 'os backend" where
  "wl_on_start E b =
     fold (manage_if_ready E) (map fst (be_surfaces b)) ((reload_border_colors b)\<lparr>be_started := True\<rparr>)"

section \<open>Rendering\<close>

definition take_flush :: "window_id \<Rightarrow> 'os backend \<Rightarrow> bool \<times> 'os backend" where
  "take_flush win b =
     (case take_window_flush win (be_core b) of
        (f, c) \<Rightarrow> (f \<noteq> None, on_world (upd_core (\<lambda>_. c)) b))"

definition border_of :: "'os sys \<Rightarrow> window_id \<Rightarrow> 32 word \<Rightarrow> 'os backend \<Rightarrow> 'os outcome" where
  "border_of S win color b =
     (case window_state (be_core b) win of
        None \<Rightarrow> Inr b
      | Some x \<Rightarrow> if border_width x > 0 then set_surface_border S win (border_width x) color b else Inr b)"

fun apply_effect :: "'os sys \<Rightarrow> backend_effect_kind \<Rightarrow> window_id \<Rightarrow> vec2i \<Rightarrow> 'os backend \<Rightarrow> 'os outcome" where
  "apply_effect S EffMapWindow win pos b =
     (case window_state (be_core b) win of
        None \<Rightarrow> Inr b
      | Some x \<Rightarrow>
          and_then (and_then (and_then (configure_surface S win (win_pos x) (win_size x) b) (set_surface_visible S win 1))
            (do_if (border_width x > 0) (\<lambda>b. set_surface_border S win (border_width x) (unfocused_border b) b)))
            (\<lambda>b. Inr (snd (take_flush win b))))"
| "apply_effect S EffUnmapWindow win pos b = set_surface_visible S win 0 b"
| "apply_effect S EffFocusWindow win pos b =
     (let prev = prev_focused b; leaving = (prev \<noteq> NO_WINDOW \<and> prev \<noteq> win) in
      and_then (and_then (and_then
        (do_if leaving (set_surface_activated S prev 0) b)
        (do_if (win \<noteq> NO_WINDOW)
           (\<lambda>b. and_then (and_then (set_surface_activated S win 1 b) (set_surface_border S win 0 0))
                  (\<lambda>b. border_of S win (focused_border b) b))))
        (do_if leaving (\<lambda>b. border_of S prev (unfocused_border b) b)))
        (\<lambda>b. Inr (b\<lparr>prev_focused := win\<rparr>)))"
| "apply_effect S EffFocusRoot win pos b =
     (let prev = prev_focused b in
      if prev = NO_WINDOW then Inr b
      else and_then (and_then (set_surface_activated S prev 0 b) (\<lambda>b. border_of S prev (unfocused_border b) b))
             (\<lambda>b. Inr (b\<lparr>prev_focused := NO_WINDOW\<rparr>)))"
| "apply_effect S EffUpdateWindow win pos b =
     (if win = NO_WINDOW then Inr b
      else
        (let (flushed, b1) = take_flush win b in
         if \<not> flushed then Inr b1
         else
           (case window_state (be_core b1) win of
              None \<Rightarrow> Inr b1
            | Some x \<Rightarrow>
                and_then (configure_surface S win (win_pos x) (win_size x) b1)
                  (\<lambda>b. set_surface_border S win (border_width x)
                         (if win = prev_focused b then focused_border b else unfocused_border b) b))))"
| "apply_effect S EffRaiseWindow win pos b = set_surface_stacking S win 1 b"
| "apply_effect S EffLowerWindow win pos b = set_surface_stacking S win 0 b"
| "apply_effect S EffCloseWindow win pos b = close_surface S win b"
| "apply_effect S EffWarpPointer win pos b = warp_pointer S pos b"

fun apply_effects :: "'os sys \<Rightarrow> backend_effect list \<Rightarrow> 'os backend \<Rightarrow> 'os outcome" where
  "apply_effects S [] b = Inr b"
| "apply_effects S (e # es) b =
     and_then (apply_effect S (eff_kind e) (eff_window e) (eff_pos e) b) (apply_effects S es)"

definition flush_visible :: "'os sys \<Rightarrow> window_id \<Rightarrow> 'os backend \<Rightarrow> 'os outcome" where
  "flush_visible S win b =
     (let (flushed, b1) = take_flush win b in
      if \<not> flushed then Inr b1
      else
        (case window_state (be_core b1) win of
           None \<Rightarrow> Inr b1
         | Some x \<Rightarrow> configure_surface S win (win_pos x) (win_size x) b1))"

fun flush_all :: "'os sys \<Rightarrow> window_id list \<Rightarrow> 'os backend \<Rightarrow> 'os outcome" where
  "flush_all S [] b = Inr b"
| "flush_all S (win # wins) b = and_then (flush_visible S win b) (flush_all S wins)"

definition wl_render_frame :: "'os sys \<Rightarrow> 'os backend \<Rightarrow> 'os outcome" where
  "wl_render_frame S b =
     (case take_backend_effects (be_core b) of
        (effects, c) \<Rightarrow>
          and_then (apply_effects S effects (on_world (upd_core (\<lambda>_. c)) b))
            (\<lambda>b. flush_all S (visible_window_ids (be_core b)) b))"

section \<open>Ports\<close>

definition port_grab_key :: "'os sys \<Rightarrow> 32 word \<Rightarrow> 16 word \<Rightarrow> 'os backend \<Rightarrow> 'os outcome" where
  "port_grab_key S keysym mods b =
     (let b1 = b\<lparr>port_intercepts := port_intercepts b @ [(keysym, ucast mods)]\<rparr>
      in set_keyboard_intercepts S (port_intercepts b1) b1)"

definition port_ungrab_all_keys :: "'os sys \<Rightarrow> 'os backend \<Rightarrow> 'os outcome" where
  "port_ungrab_all_keys S b = set_keyboard_intercepts S [] (b\<lparr>port_intercepts := []\<rparr>)"

text \<open>The grabs of buttons and the flush are empty; moving the pointer relative to a window ignores the window.\<close>

definition port_warp_pointer :: "'os sys \<Rightarrow> window_id \<Rightarrow> vec2i \<Rightarrow> 'os backend \<Rightarrow> 'os outcome" where
  "port_warp_pointer S win pos = warp_pointer S pos"

definition wl_get_monitors :: "'os backend \<Rightarrow> monitor list" where
  "wl_get_monitors b =
     map (\<lambda>(idx, oi). mk_monitor (int idx) (oi_name oi) (sint (oi_x oi)) (sint (oi_y oi)) (sint (oi_w oi)) (sint (oi_h oi)))
       (enumerate 0 (map snd (be_outputs b)))"

definition wl_apply_monitor_layout :: "'a list \<Rightarrow> 'os backend \<Rightarrow> bool" where
  "wl_apply_monitor_layout lay b = False"

definition kb_current_layout :: "'os backend \<Rightarrow> string" where
  "kb_current_layout b = (if kb_group b < length (kb_layouts b) then kb_layouts b ! kb_group b else ''us'')"

definition kb_apply :: "string list \<Rightarrow> 'os backend \<Rightarrow> 'os backend" where
  "kb_apply ls b = (if ls = [] then b else b\<lparr>kb_layouts := ls\<rparr>)\<lparr>kb_group := 0\<rparr>"

definition kb_restore :: "'os backend \<Rightarrow> 'os backend" where
  "kb_restore b = b\<lparr>kb_layouts := [''us''], kb_group := 0\<rparr>"

definition kb_set_group :: "nat \<Rightarrow> 'os backend \<Rightarrow> 'os backend" where
  "kb_set_group g b = (if g < length (kb_layouts b) then b\<lparr>kb_group := g\<rparr> else b)"

text \<open>
  A bar or other window of the program is an overlay of the display server: \<open>create_render\<close> is the factory and the
  constructor, \<open>present\<close> sends the pixels through a shared buffer (\<open>memfd\<close>, \<open>truncated\<close>, \<open>mapok\<close> are the results of
  the system calls, \<open>pixels\<close> the image if there is one), \<open>destroy_render\<close> swallows a failure to send.
\<close>

definition create_render :: "'os sys \<Rightarrow> vec2i \<Rightarrow> vec2i \<Rightarrow> 'os backend \<Rightarrow> 'os outcome" where
  "create_render S pos sz b =
     create_overlay S (next_overlay_id b) pos sz (b\<lparr>next_overlay_id := next_overlay_id b + 1\<rparr>)"

definition present :: "'os sys \<Rightarrow> 32 word \<Rightarrow> vec2i \<Rightarrow> byte list option \<Rightarrow> int \<Rightarrow> bool \<Rightarrow> bool \<Rightarrow> 'os backend \<Rightarrow> 'os outcome" where
  "present S i sz pixels memfd truncated mapok b =
     (case pixels of
        None \<Rightarrow> Inr b
      | Some px \<Rightarrow>
          (let n = nat (fst sz * snd sz * 4);
               (shm, cl) = make_shared_buffer memfd truncated mapok n;
               b1 = fold (close_be S) cl b
           in if sb_data shm = None then Inr b1
              else update_overlay S i (fst (release_fd (write_shared_buffer px shm))) (word_of_nat n) b1))"

definition destroy_render :: "'os sys \<Rightarrow> 32 word \<Rightarrow> 'os backend \<Rightarrow> 'os backend" where
  "destroy_render S i b = (case destroy_overlay S i b of Inl (e, b1) \<Rightarrow> b1 | Inr b1 \<Rightarrow> b1)"

end
