(* ===== verification/Wayland_Invariant.thy ===== *)
theory Wayland_Invariant
  imports Wayland_Backend
begin

text \<open>
  The backend as a part of the runtime: every event it takes over, every frame it renders and its start-up move the
  core through the core's own interface, whatever the display server sends and whatever the system calls return. The
  step an outcome ends in is \<open>final\<close>, also when it is an exception.
\<close>

fun final :: "'os outcome \<Rightarrow> 'os backend" where
  "final (Inl (e, b)) = b"
| "final (Inr b) = b"

definition be_moves :: "'os backend \<Rightarrow> 'os backend \<Rightarrow> bool" where
  "be_moves b b' \<longleftrightarrow> moves (be_world b) (be_world b')"

named_theorems be_moves_intros "operations of the backend move the core through its interface"

lemma be_moves_refl [be_moves_intros]: "be_moves b b"
  by (simp add: be_moves_def)

lemma be_moves_trans [trans]: "be_moves b b1 \<Longrightarrow> be_moves b1 b2 \<Longrightarrow> be_moves b b2"
  unfolding be_moves_def by (rule moves_trans)

lemma be_moves_same: "be_world b' = be_world b \<Longrightarrow> be_moves b b'"
  by (simp add: be_moves_def)

lemma be_moves_on_world: "(\<And>w. moves w (f w)) \<Longrightarrow> be_moves b (on_world f b)"
  by (simp add: be_moves_def on_world_def)

lemma be_moves_same_trans: "be_moves b1 b2 \<Longrightarrow> be_world b1 = be_world b \<Longrightarrow> be_moves b b2"
  by (simp add: be_moves_def)

section \<open>Requests leave the world alone\<close>

definition still :: "'os backend \<Rightarrow> 'os outcome \<Rightarrow> bool" where
  "still b r \<longleftrightarrow> be_world (final r) = be_world b \<and> be_started (final r) = be_started b"

lemma be_world_close [simp]: "be_world (close_be S fd b) = be_world b" "be_started (close_be S fd b) = be_started b"
  by (simp_all add: close_be_def)

lemma still_send [simp]: "still b (send_control S p fd b)"
  by (simp add: still_def send_control_def Let_def split: prod.splits)

lemmas request_defs = configure_surface_def set_surface_activated_def set_surface_visible_def set_surface_stacking_def
  close_surface_def set_surface_border_def warp_pointer_def grab_pointer_def ungrab_pointer_def
  set_keyboard_intercepts_def create_overlay_def destroy_overlay_def

lemma still_moves: "still b r \<Longrightarrow> be_moves b (final r)"
  by (simp add: still_def be_moves_def)

lemma be_moves_and_then:
  assumes "be_moves b (final r)" and "\<And>b1. r = Inr b1 \<Longrightarrow> be_moves b1 (final (f b1))"
  shows "be_moves b (final (and_then r f))"
proof (cases r)
  case (Inr b1)
  then show ?thesis using assms by (auto intro: be_moves_trans)
qed (use assms in auto)

lemma be_moves_send: "be_moves b (final (send_control S p fd b))"
  by (rule still_moves) simp

lemma be_moves_do_if: "(c \<Longrightarrow> be_moves b (final (f b))) \<Longrightarrow> be_moves b (final (do_if c f b))"
  by (simp add: do_if_def be_moves_refl)

lemma be_moves_border: "be_moves b (final (border_of S win color b))"
  by (auto simp: border_of_def request_defs be_moves_send be_moves_refl split: option.splits)

lemma be_moves_take_flush: "be_moves b (snd (take_flush win b))"
proof -
  have "core_step (be_core b) (snd (take_window_flush win (be_core b)))" by (rule core_step.take_flush)
  then show ?thesis
    by (auto simp: take_flush_def be_core_def be_moves_def on_world_def upd_core_def split: prod.splits intro!: moves_step)
qed

lemma be_moves_apply_effect: "be_moves b (final (apply_effect S k win pos b))"
proof (cases k)
  case EffUpdateWindow
  show ?thesis
  proof (cases "take_flush win b")
    case (Pair fl b1)
    then have "be_moves b b1" using be_moves_take_flush [of b win] by simp
    then show ?thesis using Pair EffUpdateWindow
      by (auto simp: be_moves_refl request_defs be_moves_send split: option.splits
          intro!: be_moves_trans [of b b1] be_moves_and_then)
  qed
qed (auto simp: request_defs Let_def be_moves_send be_moves_refl be_moves_border be_moves_take_flush be_moves_same
    split: option.splits intro!: be_moves_and_then be_moves_do_if)

lemma be_moves_apply_effects: "be_moves b (final (apply_effects S es b))"
  by (induction es arbitrary: b) (auto intro!: be_moves_and_then be_moves_apply_effect simp: be_moves_refl)

lemma be_moves_flush_all: "be_moves b (final (flush_all S wins b))"
proof (induction wins arbitrary: b)
  case (Cons win wins)
  have "be_moves b (final (flush_visible S win b))"
  proof (cases "take_flush win b")
    case (Pair fl b1)
    then have "be_moves b b1" using be_moves_take_flush [of b win] by simp
    then show ?thesis using Pair
      by (auto simp: flush_visible_def request_defs split: option.splits intro: be_moves_trans be_moves_send)
  qed
  then show ?case using Cons by (auto intro: be_moves_and_then)
qed (simp add: be_moves_refl)

lemma be_moves_render: "be_moves b (final (wl_render_frame S b))"
proof -
  obtain es c where t: "take_backend_effects (be_core b) = (es, c)" by fastforce
  then have "core_step (be_core b) c" using core_step.take_effects [of "be_core b"] by simp
  then have "be_moves b (on_world (upd_core (\<lambda>_. c)) b)"
    by (auto simp: be_moves_def on_world_def upd_core_def be_core_def intro!: moves_step)
  moreover have "be_moves b1 (final (and_then (apply_effects S es b1) (\<lambda>b. flush_all S (visible_window_ids (be_core b)) b)))" for b1
    by (intro be_moves_and_then be_moves_apply_effects be_moves_flush_all)
  ultimately show ?thesis unfolding wl_render_frame_def t by (auto intro: be_moves_trans)
qed

section \<open>Events\<close>

lemma moves_then:
  "moves w w' \<Longrightarrow> moves w (dispatch cmd w')"
  "moves w w' \<Longrightarrow> moves w (composite cmp w')"
  "moves w w' \<Longrightarrow> moves w (post_event ev w')"
  using moves_trans moves_dispatch moves_composite moves_post_event by blast+

lemma moves_manage_commands:
  assumes "env_ok E"
  shows "moves w (manage_commands E si w)"
proof -
  have h: "moves w w' \<Longrightarrow> moves w (snd (invoke_hook (on_window_rules E) rs h w'))" for rs h w'
    using assms by (rule_tac moves_trans [OF _ moves_invoke_hook]) (auto simp: env_ok_def)
  show ?thesis
    by (auto simp: manage_commands_def Let_def split: option.splits intro!: moves_then h moves_refl)
qed

lemma moves_destroy_commands: "moves w (destroy_commands wid w)"
  by (auto simp: destroy_commands_def Let_def split: option.splits intro!: moves_then)

lemma moves_focus_if_visible: "moves w (focus_if_visible wid w)"
  by (auto simp: focus_if_visible_def split: option.splits)

lemma be_moves_manage_if_ready: "env_ok E \<Longrightarrow> be_moves b (manage_if_ready E i b)"
  by (auto simp: manage_if_ready_def manage_surface_def be_moves_def on_world_def moves_manage_commands split: option.splits)

lemma be_moves_post: "be_moves b (post_if_started ev b)"
  by (auto simp: post_if_started_def be_moves_def on_world_def)

lemma be_world_upd_surface [simp]: "be_world (upd_surface i f b) = be_world b"
  by (simp add: upd_surface_def)

lemma be_moves_backend_on:
  assumes "env_ok E"
  shows "be_moves b (snd (backend_on E p rfd b))"
proof -
  have q: "be_moves b (post_if_started ev b')" if "be_world b' = be_world b" for ev b'
    using be_moves_post that by (rule be_moves_same_trans)
  have m: "be_moves b (manage_if_ready E i b')" if "be_world b' = be_world b" for i b'
    using be_moves_manage_if_ready [OF assms] that by (rule be_moves_same_trans)
  have d: "be_moves b (surface_destroyed_ev i b)" for i
    by (auto simp: surface_destroyed_ev_def be_moves_def forget_focus_def on_world_def Let_def moves_destroy_commands
        split: option.splits)
  have bt: "be_moves b (button_ev i x y bn md rl b)" for i x y bn md rl
    by (auto simp: button_ev_def be_moves_def on_world_def intro!: moves_then moves_focus_if_visible)
  show ?thesis
    by (cases p) (auto simp: q m d bt be_moves_refl be_moves_same be_moves_on_world moves_focus_if_visible Let_def split: option.splits)
qed

lemma be_moves_dispatch_control:
  assumes "env_ok E"
  shows "be_moves b (snd (dispatch_control_message E h bytes rfd b))"
  using be_moves_backend_on [OF assms]
  by (auto simp: dispatch_control_message_def dispatch_backend_message_def be_moves_refl split: option.splits)

lemma be_moves_receive:
  assumes "env_ok E"
  shows "be_moves b (final (receive_control S E b))"
proof -
  have d: "be_moves b b2" if "dispatch_control_message E h bytes rfd (b\<lparr>be_os := os1\<rparr>) = (okay, b2)" for h bytes rfd os1 okay b2
    using be_moves_dispatch_control [OF assms, of "b\<lparr>be_os := os1\<rparr>" h bytes rfd] that
    by (simp add: be_moves_def)
  have c: "be_moves b (close_be S rfd b2)" if "be_moves b b2" for rfd b2
    using that by (simp add: be_moves_def)
  show ?thesis
    by (auto simp: receive_control_def Let_def c be_moves_same dest!: d split: prod.splits option.splits)
qed

lemma be_moves_os: "be_moves (b\<lparr>be_os := os1\<rparr>) b' \<longleftrightarrow> be_moves b b'"
  by (simp add: be_moves_def)

lemma be_moves_received:
  assumes "env_ok E"
  shows "be_moves b (final (receive_control S E (b\<lparr>be_os := os1\<rparr>)))"
  using be_moves_receive [OF assms, of "b\<lparr>be_os := os1\<rparr>"] by (simp add: be_moves_os)

lemma be_moves_received_then:
  assumes "env_ok E" "receive_control S E (b\<lparr>be_os := os1\<rparr>) = Inr b1" "be_moves b1 b2"
  shows "be_moves b b2"
  using be_moves_received [OF assms(1), of b S os1] assms(2,3) be_moves_trans by fastforce

lemma be_moves_bootstrap_loop:
  assumes r: "bootstrap_loop S E b = Some r" and E: "env_ok E"
  shows "be_moves b (final r)"
proof -
  have "env_ok E \<longrightarrow> be_moves b (final r)"
  proof (rule bootstrap_loop.raw_induct [OF _ r, where P = "\<lambda>S E b r. env_ok E \<longrightarrow> be_moves b (final r)"], rule impI)
    fix loop :: "'a sys \<Rightarrow> env \<Rightarrow> 'a backend \<Rightarrow> 'a outcome option" and S E b r
    assume IH: "\<And>S E b r. loop S E b = Some r \<Longrightarrow> env_ok E \<longrightarrow> be_moves b (final r)" and E: "env_ok E"
    assume "(if snapshot_complete b then Some (Inr b)
      else let (readable, os1) = poll_readable S (control b) 3000 (be_os b); b1 = b\<lparr>be_os := os1\<rparr>
        in if \<not> readable then Some (Inl (SnapshotTimeout, b1))
           else case receive_control S E b1 of Inl e \<Rightarrow> Some (Inl e) | Inr b2 \<Rightarrow> loop S E b2) = Some r"
    then show "be_moves b (final r)"
      using E IH [of S E]
      by (auto simp: Let_def be_moves_refl be_moves_same split: if_splits prod.splits sum.splits
          intro: be_moves_received be_moves_received_then)
  qed
  with E show ?thesis by blast
qed

lemma be_moves_pump_loop:
  assumes r: "pump_loop S E limit n b = Some r" and E: "env_ok E"
  shows "be_moves b (final r)"
proof -
  have "env_ok E \<longrightarrow> be_moves b (final r)"
  proof (rule pump_loop.raw_induct [OF _ r, where P = "\<lambda>S E limit n b r. env_ok E \<longrightarrow> be_moves b (final r)"], rule impI)
    fix loop :: "'a sys \<Rightarrow> env \<Rightarrow> nat \<Rightarrow> nat \<Rightarrow> 'a backend \<Rightarrow> 'a outcome option" and S E limit n b r
    assume IH: "\<And>S E limit n b r. loop S E limit n b = Some r \<Longrightarrow> env_ok E \<longrightarrow> be_moves b (final r)" and E: "env_ok E"
    have os: "be_moves b1 (final r)" if "loop S E limit m (b1\<lparr>be_os := x\<rparr>) = Some r" for m b1 x
      using IH [OF that] E by (simp add: be_moves_os)
    have rc: "be_moves b (final (receive_control S E b))" by (rule be_moves_receive [OF E])
    assume "(case receive_control S E b of
        Inl e \<Rightarrow> Some (Inl e)
      | Inr b1 \<Rightarrow>
          if control b1 \<ge> 0 \<and> (limit = 0 \<or> Suc n < limit)
          then let (readable, os2) = poll_readable S (control b1) 0 (be_os b1); b2 = b1\<lparr>be_os := os2\<rparr>
               in if readable then loop S E limit (Suc n) b2 else Some (Inr b2)
          else Some (Inr b1)) = Some r"
    then show "be_moves b (final r)"
    proof (cases "receive_control S E b")
      case (Inr b1)
      with rc have "be_moves b b1" by simp
      moreover have "be_moves b1 (b1\<lparr>be_os := x\<rparr>)" for x by (simp add: be_moves_same)
      ultimately have "be_moves b (b1\<lparr>be_os := x\<rparr>)" for x using be_moves_trans by blast
      moreover assume "(case receive_control S E b of Inl e \<Rightarrow> Some (Inl e) | Inr b1 \<Rightarrow>
          if control b1 \<ge> 0 \<and> (limit = 0 \<or> Suc n < limit)
          then let (readable, os2) = poll_readable S (control b1) 0 (be_os b1); b2 = b1\<lparr>be_os := os2\<rparr>
               in if readable then loop S E limit (Suc n) b2 else Some (Inr b2)
          else Some (Inr b1)) = Some r"
      ultimately show ?thesis using \<open>be_moves b b1\<close> unfolding Inr sum.case
        by (auto simp: Let_def split: if_splits prod.splits intro: be_moves_trans [OF _ os])
    qed (use rc in auto)
  qed
  with E show ?thesis by blast
qed

lemma be_moves_pump:
  assumes "wl_pump_events S E limit b = Some r" and "env_ok E"
  shows "be_moves b (final r)"
proof -
  have "be_moves b (final r)" if "pump_loop S E limit 0 (b\<lparr>be_os := x\<rparr>) = Some r" for x
    using be_moves_pump_loop [OF that assms(2)] by (simp add: be_moves_os)
  with assms(1) show ?thesis
    by (auto simp: wl_pump_events_def Let_def be_moves_refl be_moves_same split: if_splits prod.splits)
qed

lemma be_moves_start:
  assumes "env_ok E"
  shows "be_moves b (wl_on_start E b)"
proof -
  have "be_moves b (fold (manage_if_ready E) is b)" for "is" and b :: "'a backend"
    by (induction "is" arbitrary: b) (auto intro: be_moves_trans be_moves_manage_if_ready [OF assms] simp: be_moves_refl)
  from this [of "(reload_border_colors b)\<lparr>be_started := True\<rparr>"] show ?thesis
    by (simp add: wl_on_start_def be_moves_def reload_border_colors_def Let_def)
qed

end
