(* ===== verification/Wayland_Sync.thy ===== *)
theory Wayland_Sync
  imports Wayland_Invariant
begin

text \<open>
  Server and backend joined by a pair of packet sockets. The server's sends are described by the packets they add to
  the peer's queue, the backend's receive loops by the fold of its handlers over the queued messages; together they
  give the meaning of the snapshot.
\<close>

section \<open>What the server sends\<close>

definition packet :: "payload \<Rightarrow> byte list \<times> bool" where
  "packet p = (message_bytes p, False)"

definition queues ::
  "('os \<Rightarrow> int \<Rightarrow> (byte list \<times> bool) list) \<Rightarrow> int \<Rightarrow> payload list \<Rightarrow> 'os server \<Rightarrow> 'os server \<Rightarrow> bool" where
  "queues inbox b ps s s' \<longleftrightarrow>
     (\<exists>os'. s' = s\<lparr>srv_os := os'\<rparr> \<and> inbox os' b = inbox (srv_os s) b @ map packet ps)"

lemma queues_Nil: "queues inbox b [] s s"
  by (auto simp: queues_def intro!: exI [of _ "srv_os s"])

lemma queues_append: "queues inbox b ps s s1 \<Longrightarrow> queues inbox b qs s1 s2 \<Longrightarrow> queues inbox b (ps @ qs) s s2"
  by (auto simp: queues_def)

lemma queues_client: "queues inbox b ps s s' \<Longrightarrow> client s' = client s"
  by (auto simp: queues_def)

lemma client_disconnect [simp]: "client (disconnect_client S s) < 0"
  by (simp add: disconnect_client_def)

lemma send_event_cases:
  assumes "packets_sent S inbox (client s) b" "client s \<ge> 0"
  shows "(fst (send_event S p s) \<and> queues inbox b [p] s (snd (send_event S p s))) \<or>
         (\<not> fst (send_event S p s) \<and> client (snd (send_event S p s)) < 0)"
proof (cases "send_message S (client s) p (-1) (srv_os s)")
  case (Pair okay os1)
  show ?thesis
  proof (cases okay)
    case True
    then have "inbox os1 b = inbox (srv_os s) b @ [packet p]"
      using send_message_inbox [OF assms(1), of p "-1" "srv_os s" os1] Pair by (simp add: packet_def)
    then show ?thesis using True assms(2) Pair by (auto simp: send_event_def queues_def)
  qed (use Pair assms(2) in \<open>simp add: send_event_def\<close>)
qed

lemma send_event_okay:
  assumes "packets_sent S inbox (client s) b" "client s \<ge> 0" "send_event S p s = (True, s')"
  shows "queues inbox b [p] s s'"
  using send_event_cases [OF assms(1,2), of p] assms(3) by auto

lemma send_event_connected:
  assumes "packets_sent S inbox (client s) b" "client s \<ge> 0" "client (snd (send_event S p s)) \<ge> 0"
  shows "queues inbox b [p] s (snd (send_event S p s))"
  using send_event_cases [OF assms(1,2), of p] assms(3) by auto

lemma send_outputs_queues:
  assumes "packets_sent S inbox c b" "c \<ge> 0" "client s = c" "send_outputs S ois s = (True, s')"
  shows "queues inbox b (map output_added_msg ois) s s'"
  using assms(3,4)
proof (induction ois arbitrary: s)
  case (Cons oi ois)
  from Cons.prems(2) obtain s1 where s1: "send_event S (output_added_msg oi) s = (True, s1)" "send_outputs S ois s1 = (True, s')"
    by (auto split: prod.splits if_splits)
  have q: "queues inbox b [output_added_msg oi] s s1" using send_event_okay assms(1,2) Cons.prems(1) s1(1) by blast
  moreover have "queues inbox b (map output_added_msg ois) s1 s'"
    using Cons.IH s1(2) queues_client [OF q] Cons.prems(1) by simp
  ultimately show ?case using queues_append by fastforce
qed (simp add: queues_Nil)

definition surface_messages :: "display_surface \<Rightarrow> payload list" where
  "surface_messages d =
     surface_created d # (if ds_mapped d then [SurfaceMapped (ds_id d)] else []) @
     (if sint (ds_width d) > 0 \<or> sint (ds_height d) > 0 then [SurfaceCommitted (ds_id d) (ds_width d) (ds_height d)] else [])"

lemma send_if_queues:
  assumes "packets_sent S inbox c b" "c \<ge> 0" "client s = c"
    "client (if cond then snd (send_event S p s) else s) \<ge> 0"
  shows "queues inbox b (if cond then [p] else []) s (if cond then snd (send_event S p s) else s)"
  using assms send_event_connected [of S inbox s b p] by (auto simp: queues_Nil)

lemma send_surfaces_queues:
  assumes "packets_sent S inbox c b" "c \<ge> 0" "client s = c" "send_surfaces S ds s = (True, s')"
  shows "queues inbox b (concat (map surface_messages ds)) s s'"
  using assms(3,4)
proof (induction ds arbitrary: s)
  case (Cons d ds)
  define s1 where "s1 = snd (send_event S (surface_created d) s)"
  define s2 where "s2 = (if ds_mapped d then snd (send_event S (SurfaceMapped (ds_id d)) s1) else s1)"
  define s3 where "s3 = (if sint (ds_width d) > 0 \<or> sint (ds_height d) > 0
    then snd (send_event S (SurfaceCommitted (ds_id d) (ds_width d) (ds_height d)) s2) else s2)"
  have c: "client s1 \<ge> 0" "client s2 \<ge> 0" "client s3 \<ge> 0" "send_surfaces S ds s3 = (True, s')"
    using Cons.prems(2) by (auto simp: Let_def simp flip: s1_def s2_def s3_def split: if_splits)
  have q1: "queues inbox b [surface_created d] s s1"
    using send_event_connected assms(1,2) Cons.prems(1) c(1) unfolding s1_def by blast
  have q2: "queues inbox b (if ds_mapped d then [SurfaceMapped (ds_id d)] else []) s1 s2"
    unfolding s2_def using send_if_queues assms(1,2) queues_client [OF q1] Cons.prems(1) c(2) unfolding s2_def by metis
  have q3: "queues inbox b (if sint (ds_width d) > 0 \<or> sint (ds_height d) > 0
      then [SurfaceCommitted (ds_id d) (ds_width d) (ds_height d)] else []) s2 s3"
    unfolding s3_def using send_if_queues assms(1,2) queues_client [OF q1] queues_client [OF q2] Cons.prems(1) c(3)
    unfolding s3_def by metis
  have "client s3 = c" using queues_client [OF q1] queues_client [OF q2] queues_client [OF q3] Cons.prems(1) by simp
  then have q4: "queues inbox b (concat (map surface_messages ds)) s3 s'" using Cons.IH c(4) by blast
  from queues_append [OF q1 queues_append [OF q2 queues_append [OF q3 q4]]] show ?case
    by (simp add: surface_messages_def [of d])
qed (simp add: queues_Nil)

definition snapshot_messages :: "'os server \<Rightarrow> payload list" where
  "snapshot_messages s =
     [SnapshotBegin (snapshot_generation s + 1)] @ map output_added_msg (snapshot_outputs s) @
     concat (map surface_messages (snapshot_surfaces s)) @ [SnapshotEnd (snapshot_generation s + 1)]"

lemma queues_tables: "queues inbox b ps s s' \<Longrightarrow> snapshot_outputs s' = snapshot_outputs s \<and> snapshot_surfaces s' = snapshot_surfaces s"
  by (auto simp: queues_def snapshot_outputs_def snapshot_surfaces_def)

lemma send_snapshot_queues:
  assumes "packets_sent S inbox (client s) b" "client s \<ge> 0" "send_snapshot S s = (True, s')"
  shows "queues inbox b (snapshot_messages s) (s\<lparr>snapshot_generation := snapshot_generation s + 1\<rparr>) s'"
proof -
  let ?g = "snapshot_generation s + 1" and ?s = "s\<lparr>snapshot_generation := snapshot_generation s + 1\<rparr>"
  from assms(3) obtain s1 s2 s3 where r:
    "send_event S (SnapshotBegin ?g) ?s = (True, s1)" "send_outputs S (snapshot_outputs s1) s1 = (True, s2)"
    "send_surfaces S (snapshot_surfaces s2) s2 = (True, s3)" "send_event S (SnapshotEnd ?g) s3 = (True, s')"
    by (auto simp: send_snapshot_def Let_def split: prod.splits if_splits)
  have q1: "queues inbox b [SnapshotBegin ?g] ?s s1" by (rule send_event_okay [OF _ _ r(1)]) (use assms in auto)
  have q2: "queues inbox b (map output_added_msg (snapshot_outputs s1)) s1 s2"
    by (rule send_outputs_queues [OF assms(1,2) _ r(2)]) (use queues_client [OF q1] in simp)
  have q3: "queues inbox b (concat (map surface_messages (snapshot_surfaces s2))) s2 s3"
    by (rule send_surfaces_queues [OF assms(1,2) _ r(3)]) (use queues_client [OF q1] queues_client [OF q2] in simp)
  have c: "client s3 = client s" using queues_client [OF q1] queues_client [OF q2] queues_client [OF q3] by simp
  have q4: "queues inbox b [SnapshotEnd ?g] s3 s'" by (rule send_event_okay [OF _ _ r(4)]) (use assms c in auto)
  have "snapshot_outputs s1 = snapshot_outputs s" "snapshot_surfaces s2 = snapshot_surfaces s"
    using queues_tables [OF q1] queues_tables [OF q2] by (simp_all add: snapshot_outputs_def snapshot_surfaces_def)
  with queues_append [OF q1 queues_append [OF q2 queues_append [OF q3 q4]]] show ?thesis
    by (simp add: snapshot_messages_def)
qed

section \<open>What the backend makes of it\<close>

lemma backend_on_os: "backend_on E p rfd (b\<lparr>be_os := x\<rparr>) = map_prod id (\<lambda>b. b\<lparr>be_os := x\<rparr>) (backend_on E p rfd b)"
proof -
  have pst: "post_if_started ev (b\<lparr>be_os := x\<rparr>) = (post_if_started ev b)\<lparr>be_os := x\<rparr>" for ev and b :: "'a backend"
    by (simp add: post_if_started_def on_world_def)
  have upd: "upd_surface i f (b\<lparr>be_os := x\<rparr>) = (upd_surface i f b)\<lparr>be_os := x\<rparr>" for i f and b :: "'a backend"
    by (simp add: upd_surface_def)
  have man: "manage_if_ready E i (b\<lparr>be_os := x\<rparr>) = (manage_if_ready E i b)\<lparr>be_os := x\<rparr>" for i and b :: "'a backend"
    by (simp add: manage_if_ready_def manage_surface_def on_world_def split: option.splits)
  have upds: "b\<lparr>be_os := x, be_outputs := v\<rparr> = b\<lparr>be_outputs := v\<rparr>\<lparr>be_os := x\<rparr>" for v and b :: "'a backend" by simp
  have des: "surface_destroyed_ev i (b\<lparr>be_os := x\<rparr>) = (surface_destroyed_ev i b)\<lparr>be_os := x\<rparr>" for i
    by (simp add: surface_destroyed_ev_def forget_focus_def on_world_def Let_def split: option.splits)
  have but: "button_ev i xx y bt md rl (b\<lparr>be_os := x\<rparr>) = (button_ev i xx y bt md rl b)\<lparr>be_os := x\<rparr>" for i xx y bt md rl
    by (simp add: button_ev_def on_world_def Let_def)
  show ?thesis
    by (cases p) (simp_all add: pst upd man des but upds on_world_def Let_def split: option.splits)
qed

lemma backend_on_keeps [simp]:
  "be_os (snd (backend_on E p rfd b)) = be_os b" "control (snd (backend_on E p rfd b)) = control b"
  "be_started (snd (backend_on E p rfd b)) = be_started b"
  by (cases p; auto simp: post_if_started_def on_world_def upd_surface_def manage_if_ready_def manage_surface_def
      surface_destroyed_ev_def forget_focus_def button_ev_def Let_def split: option.splits)+

lemma take_header_message:
  "take_header (recv_buffer (message_bytes p)) = Some (make_header p, payload_bytes p @ replicate (RECV_BUFFER - length (message_bytes p)) 0)"
  unfolding recv_buffer_def by (simp add: message_bytes_def header.get_put)

lemma message_fits: "payload_ok p \<Longrightarrow> length (message_bytes p) \<le> RECV_BUFFER"
  using payload_size_bound [of "payload_type p"] by (simp add: length_message_bytes wire_size_def RECV_BUFFER_def)

lemma header_valid_message: "payload_ok p \<Longrightarrow> header_valid (make_header p) (int (length (message_bytes p)))"
  by (simp add: header_valid_def make_header_def unat_payload_size length_message_bytes wire_size_def)

lemma receive_control_message:
  assumes R: "packets_received S inbox (control b)" and c: "control b \<ge> 0"
    and i: "inbox (be_os b) (control b) = packet p # rest" and p: "payload_ok p" and okay: "fst (backend_on E p (-1) b)"
  obtains os' where "receive_control S E b = Inr ((snd (backend_on E p (-1) b))\<lparr>be_os := os'\<rparr>)" "inbox os' (control b) = rest"
proof -
  obtain rfd os' where r: "receive_bytes S (control b) RECV_BUFFER (be_os b) =
      ((int (length (message_bytes p)), message_bytes p, rfd), os')" "inbox os' (control b) = rest" "rfd = -1"
    by (rule receive_bytes_message [OF R _ c message_fits [OF p], where f = False and rest = rest]) (use i in \<open>auto simp: packet_def\<close>)
  have l: "12 \<le> int (length (message_bytes p))" by (simp add: length_message_bytes [OF p] wire_size_def)
  have d: "dispatch_control_message E (make_header p) (payload_bytes p @ z) (-1) (b\<lparr>be_os := os'\<rparr>) =
      (True, (snd (backend_on E p (-1) b))\<lparr>be_os := os'\<rparr>)" for z
    using okay by (simp add: dispatch_control_message_def dispatch_message_bytes [OF p] backend_on_os map_prod_def split_beta)
  have "receive_control S E b = Inr ((snd (backend_on E p (-1) b))\<lparr>be_os := os'\<rparr>)"
    using l by (simp add: receive_control_def r take_header_message header_valid_message [OF p] d close_be_def)
  with r(2) show ?thesis by (rule that [rotated])
qed

definition handled :: "env \<Rightarrow> payload \<Rightarrow> 'os backend \<Rightarrow> 'os backend" where
  "handled E p b = snd (backend_on E p (-1) b)"

fun awaits :: "env \<Rightarrow> payload list \<Rightarrow> 'os backend \<Rightarrow> bool" where
  "awaits E [] b \<longleftrightarrow> True"
| "awaits E (p # ps) b \<longleftrightarrow>
     \<not> snapshot_complete b \<and> payload_ok p \<and> fst (backend_on E p (-1) b) \<and> awaits E ps (handled E p b)"

lemma handled_keeps [simp]: "control (handled E p b) = control b" "be_started (handled E p b) = be_started b"
  by (simp_all add: handled_def)

lemma handled_os: "handled E p (b\<lparr>be_os := x\<rparr>) = (handled E p b)\<lparr>be_os := x\<rparr>"
  by (simp add: handled_def backend_on_os map_prod_def split_beta)

lemma awaits_os [simp]: "awaits E ps (b\<lparr>be_os := x\<rparr>) = awaits E ps b"
  by (induction ps arbitrary: b) (auto simp: handled_os backend_on_os map_prod_def split_beta)

lemma fold_handled_os: "fold (handled E) ps (b\<lparr>be_os := x\<rparr>) = (fold (handled E) ps b)\<lparr>be_os := x\<rparr>"
  by (induction ps arbitrary: b) (auto simp: handled_os)

lemma awaits_append: "awaits E (ps @ qs) b \<longleftrightarrow> awaits E ps b \<and> awaits E qs (fold (handled E) ps b)"
  by (induction ps arbitrary: b) auto

lemma poll_packet:
  assumes "packets_received S inbox c" "c \<ge> 0" "inbox os c = packet p # rest"
  obtains os1 where "poll_readable S c t os = (True, os1)" "inbox os1 c = inbox os c"
proof -
  have "inbox os c = (message_bytes p, False) # rest \<and> message_bytes p \<noteq> []" using assms(3) by (simp add: packet_def)
  with assms(1) have "fst (sys_poll S c t os) \<and> inbox (snd (sys_poll S c t os)) c = inbox os c"
    unfolding packets_received_def by blast
  then show ?thesis using assms(2) by (intro that [of "snd (sys_poll S c t os)"]) (auto simp: poll_readable_def prod_eq_iff)
qed

lemma bootstrap_loop_runs:
  assumes R: "packets_received S inbox c" and "c \<ge> 0" "control b = c" "inbox (be_os b) c = map packet ps @ rest"
    "awaits E ps b" "snapshot_complete (fold (handled E) ps b)"
  shows "\<exists>os'. bootstrap_loop S E b = Some (Inr ((fold (handled E) ps b)\<lparr>be_os := os'\<rparr>)) \<and> inbox os' c = rest"
  using assms(3-)
proof (induction ps arbitrary: b)
  case Nil
  then show ?case by (auto simp: bootstrap_loop.simps [of S E b] intro!: exI [of _ "be_os b"])
next
  case (Cons p ps)
  obtain os1 where poll: "poll_readable S (control b) 3000 (be_os b) = (True, os1)" "inbox os1 c = inbox (be_os b) c"
    by (rule poll_packet [OF R assms(2), of "be_os b" p "map packet ps @ rest" 3000]) (use Cons.prems(1,2) in auto)
  let ?b1 = "b\<lparr>be_os := os1\<rparr>"
  have ok1: "fst (backend_on E p (-1) ?b1)" using Cons.prems(3) by (simp add: backend_on_os map_prod_def split_beta)
  obtain os2 where rc: "receive_control S E ?b1 = Inr ((handled E p ?b1)\<lparr>be_os := os2\<rparr>)" "inbox os2 c = map packet ps @ rest"
    by (rule receive_control_message [of S inbox ?b1 p "map packet ps @ rest" E])
      (use R assms(2) Cons.prems poll(2) ok1 in \<open>auto simp: handled_def\<close>)
  let ?b2 = "(handled E p b)\<lparr>be_os := os2\<rparr>"
  have "bootstrap_loop S E b = bootstrap_loop S E ?b2"
    using Cons.prems(3) by (simp add: bootstrap_loop.simps [of S E b] poll(1) rc(1) handled_os)
  moreover have "\<exists>os'. bootstrap_loop S E ?b2 = Some (Inr ((fold (handled E) ps ?b2)\<lparr>be_os := os'\<rparr>)) \<and> inbox os' c = rest"
    by (rule Cons.IH) (use Cons.prems rc(2) in \<open>auto simp: fold_handled_os\<close>)
  ultimately show ?case by (simp add: fold_handled_os)
qed

section \<open>The snapshot\<close>

definition server_ok :: "'os server \<Rightarrow> bool" where
  "server_ok s \<longleftrightarrow>
     distinct (map fst (srv_surfaces s)) \<and> (\<forall>(i, d)\<in>set (srv_surfaces s). ds_id d = i) \<and>
     distinct (map fst (srv_outputs s)) \<and> (\<forall>(i, oi)\<in>set (srv_outputs s). oi_id oi = i)"

text \<open>What the backend knows of an output and of a surface: names are cut to the size of their fields.\<close>

definition mirror_output :: "output_info \<Rightarrow> output_info" where
  "mirror_output oi = oi\<lparr>oi_name := fixed_string (fixed_assign kMaxOutputNameBytes (oi_name oi))\<rparr>"

definition mirror_surface :: "display_surface \<Rightarrow> surface_info" where
  "mirror_surface d =
     (let committed = (sint (ds_width d) > 0 \<or> sint (ds_height d) > 0) in
      \<lparr>si_id = ds_id d, si_app_id = fixed_string (fixed_assign kMaxSurfaceAppIdBytes (ds_app_id d)),
       si_title = fixed_string (fixed_assign kMaxSurfaceTitleBytes (ds_title d)), si_pid = ds_pid d,
       si_mapped = ds_mapped d, si_managed = False, si_x = 0, si_y = 0,
       si_width = (if committed then ds_width d else 0), si_height = (if committed then ds_height d else 0)\<rparr>)"

lemma update_fresh: "k \<notin> fst ` set xs \<Longrightarrow> AList.update k v xs = xs @ [(k, v)]"
  by (induction xs) auto

lemma map_entry_last: "k \<notin> fst ` set xs \<Longrightarrow> AList.map_entry k f (xs @ [(k, v)]) = xs @ [(k, f v)]"
  by (induction xs) auto

lemma manage_idle [simp]: "\<not> be_started b \<Longrightarrow> manage_if_ready E i b = b"
  by (simp add: manage_if_ready_def split: option.splits)

lemma outputs_mirrored:
  assumes "\<not> be_started b" "\<not> snapshot_complete b" "distinct (map fst (be_outputs b) @ map oi_id ois)"
  shows "awaits E (map output_added_msg ois) b \<and>
    fold (handled E) (map output_added_msg ois) b = b\<lparr>be_outputs := be_outputs b @ map (\<lambda>oi. (oi_id oi, mirror_output oi)) ois\<rparr>"
  using assms
proof (induction ois arbitrary: b)
  case (Cons oi ois)
  let ?b = "b\<lparr>be_outputs := be_outputs b @ [(oi_id oi, mirror_output oi)]\<rparr>"
  have h: "backend_on E (output_added_msg oi) (-1) b = (True, ?b)"
    using Cons.prems by (simp add: output_added_msg_def post_if_started_def update_fresh mirror_output_def)
  moreover have "payload_ok (output_added_msg oi)" by (simp add: output_added_msg_def)
  moreover have "awaits E (map output_added_msg ois) ?b \<and>
    fold (handled E) (map output_added_msg ois) ?b = ?b\<lparr>be_outputs := be_outputs ?b @ map (\<lambda>oi. (oi_id oi, mirror_output oi)) ois\<rparr>"
    by (rule Cons.IH) (use Cons.prems in auto)
  moreover have "handled E (output_added_msg oi) b = ?b" using h by (simp add: handled_def)
  ultimately show ?case using Cons.prems by simp
qed simp

lemma surface_mirrored:
  assumes "\<not> be_started b" "\<not> snapshot_complete b" "ds_id d \<notin> fst ` set (be_surfaces b)"
  shows "awaits E (surface_messages d) b \<and>
    fold (handled E) (surface_messages d) b = b\<lparr>be_surfaces := be_surfaces b @ [(ds_id d, mirror_surface d)]\<rparr>"
  using assms
  by (auto simp: surface_messages_def surface_created_def handled_def update_fresh map_entry_last upd_surface_def
      mirror_surface_def Let_def)

lemma surfaces_mirrored:
  assumes "\<not> be_started b" "\<not> snapshot_complete b" "distinct (map fst (be_surfaces b) @ map ds_id ds)"
  shows "awaits E (concat (map surface_messages ds)) b \<and>
    fold (handled E) (concat (map surface_messages ds)) b =
      b\<lparr>be_surfaces := be_surfaces b @ map (\<lambda>d. (ds_id d, mirror_surface d)) ds\<rparr>"
  using assms
proof (induction ds arbitrary: b)
  case (Cons d ds)
  let ?b = "b\<lparr>be_surfaces := be_surfaces b @ [(ds_id d, mirror_surface d)]\<rparr>"
  have "awaits E (surface_messages d) b \<and> fold (handled E) (surface_messages d) b = ?b"
    by (rule surface_mirrored) (use Cons.prems in auto)
  moreover have "awaits E (concat (map surface_messages ds)) ?b \<and>
    fold (handled E) (concat (map surface_messages ds)) ?b =
      ?b\<lparr>be_surfaces := be_surfaces ?b @ map (\<lambda>d. (ds_id d, mirror_surface d)) ds\<rparr>"
    by (rule Cons.IH) (use Cons.prems in auto)
  ultimately show ?case by (simp add: awaits_append)
qed simp

lemma sorted_ids:
  assumes "server_ok s"
  shows "distinct (map ds_id (snapshot_surfaces s))" "distinct (map oi_id (snapshot_outputs s))"
proof -
  have "map (ds_id \<circ> snd) (srv_surfaces s) = map fst (srv_surfaces s)"
       "map (oi_id \<circ> snd) (srv_outputs s) = map fst (srv_outputs s)"
    using assms by (auto simp: server_ok_def)
  then have "distinct (map ds_id (map snd (srv_surfaces s)))" "distinct (map oi_id (map snd (srv_outputs s)))"
    using assms unfolding server_ok_def map_map by metis+
  then show "distinct (map ds_id (snapshot_surfaces s))" "distinct (map oi_id (snapshot_outputs s))"
    unfolding snapshot_surfaces_def snapshot_outputs_def
    by (metis (no_types, lifting) distinct_map distinct_sort set_sort)+
qed

lemma map_of_sorted:
  assumes "distinct (map fst al)" "\<forall>(i, d)\<in>set al. f d = i"
  shows "map_of (map (\<lambda>d. (f d, g d)) (sort_key f (map snd al))) = map_option g \<circ> map_of al"
proof -
  have e: "map (\<lambda>d. (f d, g d)) (map snd al) = map (\<lambda>(i, d). (i, g d)) al" using assms(2) by auto
  let ?L = "map (\<lambda>d. (f d, g d)) (sort_key f (map snd al))" and ?R = "map (\<lambda>(i, d). (i, g d)) al"
  have m: "mset ?L = mset ?R"
    unfolding e [symmetric] mset_map mset_sort ..
  have d: "distinct (map fst ?R)" using assms(1) by (simp add: comp_def case_prod_unfold)
  have "mset (map fst ?L) = mset (map fst ?R)" unfolding mset_map [of fst] m ..
  with d have "distinct (map fst ?L)" using mset_eq_imp_distinct_iff by blast
  with d have "map_of ?L = map_of ?R" using map_of_inject_set [of ?L ?R] mset_eq_setD [OF m] by blast
  then show ?thesis by (simp add: map_of_map comp_def)
qed

lemma snapshot_handled:
  assumes "server_ok s" "\<not> be_started b" "\<not> snapshot_complete b"
  shows "awaits E (snapshot_messages s) b \<and>
    fold (handled E) (snapshot_messages s) b =
      b\<lparr>snapshot_complete := True, prev_focused := NO_WINDOW,
        be_outputs := map (\<lambda>oi. (oi_id oi, mirror_output oi)) (snapshot_outputs s),
        be_surfaces := map (\<lambda>d. (ds_id d, mirror_surface d)) (snapshot_surfaces s)\<rparr>"
proof -
  let ?g = "snapshot_generation s + 1"
  let ?b0 = "b\<lparr>snapshot_complete := False, be_surfaces := [], be_outputs := [], prev_focused := NO_WINDOW\<rparr>"
  let ?b1 = "?b0\<lparr>be_outputs := map (\<lambda>oi. (oi_id oi, mirror_output oi)) (snapshot_outputs s)\<rparr>"
  let ?b2 = "?b1\<lparr>be_surfaces := map (\<lambda>d. (ds_id d, mirror_surface d)) (snapshot_surfaces s)\<rparr>"
  have "awaits E (map output_added_msg (snapshot_outputs s)) ?b0 \<and> fold (handled E) (map output_added_msg (snapshot_outputs s)) ?b0 = ?b1"
    using outputs_mirrored [of ?b0 "snapshot_outputs s" E] assms sorted_ids [OF assms(1)] by simp
  moreover have "awaits E (concat (map surface_messages (snapshot_surfaces s))) ?b1 \<and>
      fold (handled E) (concat (map surface_messages (snapshot_surfaces s))) ?b1 = ?b2"
    using surfaces_mirrored [of ?b1 "snapshot_surfaces s" E] assms sorted_ids [OF assms(1)] by simp
  ultimately show ?thesis
    using assms by (simp add: snapshot_messages_def awaits_append handled_def [of E "SnapshotBegin ?g"] handled_def [of E "SnapshotEnd ?g"])
qed

text \<open>Messages that may wait in the queue before the snapshot: the greeting of the server and its events.\<close>

fun early :: "payload \<Rightarrow> bool" where
  "early (Hello role _) \<longleftrightarrow> role = DisplayServerHost"
| "early (OutputAdded _ nm _ _ _ _ _) \<longleftrightarrow> length nm = kMaxOutputNameBytes"
| "early (SurfaceCreated _ app ttl _) \<longleftrightarrow> length app = kMaxSurfaceAppIdBytes \<and> length ttl = kMaxSurfaceTitleBytes"
| "early (SurfaceTitleChanged _ ttl) \<longleftrightarrow> length ttl = kMaxSurfaceTitleBytes"
| "early (SurfaceAppIdChanged _ app) \<longleftrightarrow> length app = kMaxSurfaceAppIdBytes"
| "early p \<longleftrightarrow> payload_type p \<in> {T_OutputRemoved, T_SurfaceMapped, T_SurfaceUnmapped, T_SurfaceDestroyed,
     T_SurfaceCommitted, T_Key, T_Button, T_PointerMotion, T_PointerEnter, T_OverlayExpose, T_OverlayButton}"

lemma early_step:
  assumes "early p" "\<not> be_started b" "\<not> snapshot_complete b"
  shows "payload_ok p \<and> fst (backend_on E p (-1) b) \<and> \<not> snapshot_complete (handled E p b) \<and> be_world (handled E p b) = be_world b"
  using assms
  by (cases p) (auto simp: handled_def post_if_started_def upd_surface_def surface_destroyed_ev_def forget_focus_def button_ev_def
      Let_def split: option.splits)

lemma early_awaits:
  assumes "\<forall>p\<in>set ps. early p" "\<not> be_started b" "\<not> snapshot_complete b"
  shows "awaits E ps b \<and> \<not> snapshot_complete (fold (handled E) ps b) \<and> \<not> be_started (fold (handled E) ps b) \<and>
    be_world (fold (handled E) ps b) = be_world b \<and> control (fold (handled E) ps b) = control b"
  using assms
proof (induction ps arbitrary: b)
  case (Cons p ps)
  have "payload_ok p \<and> fst (backend_on E p (-1) b) \<and> \<not> snapshot_complete (handled E p b) \<and> be_world (handled E p b) = be_world b"
    by (rule early_step) (use Cons.prems in auto)
  with Cons.IH [of "handled E p b"] Cons.prems show ?case by simp
qed simp

lemma bootstrap_mirrors:
  assumes s: "server_ok s" "client s \<ge> 0" "server_on S mm (SnapshotRequest r) rfd s = (True, s')"
    and link: "packets_sent S inbox (client s) (control b)" "packets_received S inbox (control b)" "control b \<ge> 0"
    and q: "inbox (srv_os s) (control b) = map packet ps" "\<forall>p\<in>set ps. early p"
    and b: "be_os b = srv_os s'" "\<not> be_started b"
  shows "\<exists>b'. bootstrap_snapshot S E b = Some (Inr b') \<and>
    map_of (be_surfaces b') = map_option mirror_surface \<circ> map_of (srv_surfaces s) \<and>
    map_of (be_outputs b') = map_option mirror_output \<circ> map_of (srv_outputs s) \<and>
    be_world b' = be_world b \<and> snapshot_complete b' \<and> inbox (be_os b') (control b) = []"
proof -
  let ?b0 = "b\<lparr>snapshot_complete := False\<rparr>"
  have e: "awaits E ps ?b0 \<and> \<not> snapshot_complete (fold (handled E) ps ?b0) \<and> \<not> be_started (fold (handled E) ps ?b0) \<and>
      be_world (fold (handled E) ps ?b0) = be_world ?b0 \<and> control (fold (handled E) ps ?b0) = control ?b0"
    by (rule early_awaits) (use q b in auto)
  define b1 where "b1 = fold (handled E) ps ?b0"
  have sn: "awaits E (snapshot_messages s) b1 \<and>
    fold (handled E) (snapshot_messages s) b1 =
      b1\<lparr>snapshot_complete := True, prev_focused := NO_WINDOW,
        be_outputs := map (\<lambda>oi. (oi_id oi, mirror_output oi)) (snapshot_outputs s),
        be_surfaces := map (\<lambda>d. (ds_id d, mirror_surface d)) (snapshot_surfaces s)\<rparr>" (is "_ \<and> _ = ?b2")
    unfolding b1_def by (rule snapshot_handled) (use e s in auto)
  have "queues inbox (control b) (snapshot_messages s) (s\<lparr>snapshot_generation := snapshot_generation s + 1\<rparr>) s'"
    by (rule send_snapshot_queues [OF link(1) s(2)]) (use s(3) in simp)
  then have i: "inbox (be_os ?b0) (control b) = map packet (ps @ snapshot_messages s) @ []"
    using q(1) b(1) by (auto simp: queues_def)
  have "\<exists>os'. bootstrap_loop S E ?b0 = Some (Inr ((fold (handled E) (ps @ snapshot_messages s) ?b0)\<lparr>be_os := os'\<rparr>)) \<and>
      inbox os' (control b) = []"
    by (rule bootstrap_loop_runs [OF link(2,3) _ i]) (use e sn in \<open>auto simp: awaits_append b1_def\<close>)
  then obtain os' where os': "bootstrap_loop S E ?b0 = Some (Inr (?b2\<lparr>be_os := os'\<rparr>))" "inbox os' (control b) = []"
    using sn by (auto simp: b1_def)
  have "map_of (be_surfaces ?b2) = map_option mirror_surface \<circ> map_of (srv_surfaces s)"
    using s(1) map_of_sorted [of "srv_surfaces s" ds_id mirror_surface] by (simp add: snapshot_surfaces_def server_ok_def)
  moreover have "map_of (be_outputs ?b2) = map_option mirror_output \<circ> map_of (srv_outputs s)"
    using s(1) map_of_sorted [of "srv_outputs s" oi_id mirror_output] by (simp add: snapshot_outputs_def server_ok_def)
  ultimately show ?thesis
    using os' e by (intro exI [of _ "?b2\<lparr>be_os := os'\<rparr>"]) (simp add: bootstrap_snapshot_def b1_def)
qed

section \<open>Example\<close>

text \<open>A kernel with one connection: what is sent on descriptor 4 waits for descriptor 5.\<close>

type_synonym packet_queue = "(byte list \<times> bool) list"

definition queue_sys :: "packet_queue sys" where
  "queue_sys =
     \<lparr>sys_socket = (\<lambda>q. (4, q)), sys_connect = (\<lambda>_ _ q. (True, q)), sys_unlink = (\<lambda>_ q. q), sys_bind = (\<lambda>_ _ q. (True, q)),
      sys_listen = (\<lambda>_ _ q. (True, q)), sys_accept = (\<lambda>_ q. (-1, True, q)), sys_close = (\<lambda>_ q. q), sys_getfl = (\<lambda>_ _. 0),
      sys_setfl = (\<lambda>_ _ q. (True, q)), sys_poll = (\<lambda>_ _ q. (q \<noteq> [], q)),
      sys_send = (\<lambda>fd data f q. (int (length data), if fd = 4 then q @ [(data, f \<noteq> None)] else q)),
      sys_recv = (\<lambda>_ cap q. case q of [] \<Rightarrow> ((-1, [], []), [])
        | (data, f) # r \<Rightarrow> ((int (min cap (length data)), take cap data, if f then [Rights [9]] else []), r))\<rparr>"

definition queue_inbox :: "packet_queue \<Rightarrow> int \<Rightarrow> packet_queue" where
  "queue_inbox q fd = (if fd = 5 then q else [])"

lemma queue_sys_packets: "packets_sent queue_sys queue_inbox 4 5" "packets_received queue_sys queue_inbox 5"
  by (auto simp: packets_sent_def packets_received_def queue_sys_def queue_inbox_def)

definition ex_surface :: display_surface where
  "ex_surface = (fresh_surface 1)\<lparr>ds_app_id := ''term'', ds_mapped := True, ds_visible := True, ds_width := 80, ds_height := 60\<rparr>"

definition ex_output :: output_info where
  "ex_output = \<lparr>oi_id = 1, oi_name = ''X11-1'', oi_x = 0, oi_y = 0, oi_w = 1280, oi_h = 720, oi_refresh = 60000\<rparr>"

definition ex_server :: "packet_queue server" where
  "ex_server =
     \<lparr>srv_os = [packet (Hello DisplayServerHost 0)], listener = 3, client = 4, socket_path = ''s'', snapshot_generation = 0,
      handler_attached = True, next_surface_id = 2, srv_surfaces = [(1, ex_surface)], srv_overlays = [], srv_intercepts = [],
      srv_outputs = [(1, ex_output)], forwarded = [], change_notifications = 0, closed_fds = []\<rparr>"

lemma ex_server_ok: "server_ok ex_server"
  by (simp add: server_ok_def ex_server_def ex_surface_def ex_output_def fresh_surface_def)

end
