(* ===== verification/Display_Server_Properties.thy ===== *)
theory Display_Server_Properties
  imports Wayland_Sync
begin

text \<open>
  Properties of the display server's end of the control connection: only well-formed packets are acted on, the
  surface under the pointer is a topmost one, and two defects of the code, one in the closing of
  descriptors and one in the order of service.
\<close>

section \<open>The tables\<close>

definition same_tables :: "'os server \<Rightarrow> 'os server \<Rightarrow> bool" where
  "same_tables s s' \<longleftrightarrow> srv_surfaces s' = srv_surfaces s \<and> srv_outputs s' = srv_outputs s"

lemma same_tables_refl [simp]: "same_tables s s"
  by (simp add: same_tables_def)

lemma same_tables_trans: "same_tables s s1 \<Longrightarrow> same_tables s1 s2 \<Longrightarrow> same_tables s s2"
  by (simp add: same_tables_def)

lemma same_tables_close [simp]:
  "same_tables s (close_fd S fd s)" "same_tables s (close_received S fd s)" "same_tables s (disconnect_client S s)"
  by (simp_all add: same_tables_def close_fd_def close_received_def disconnect_client_def srv_ungrab_pointer_def
      srv_set_keyboard_intercepts_def dispatch_command_def)

lemma same_tables_send [simp]: "same_tables s (snd (send_event S p s))"
proof -
  have "same_tables s (disconnect_client S (s\<lparr>srv_os := x\<rparr>))" for x
    using same_tables_close(3) [of "s\<lparr>srv_os := x\<rparr>" S] by (simp add: same_tables_def)
  then show ?thesis by (auto simp: send_event_def Let_def same_tables_def split: prod.splits)
qed

lemma same_tables_emit [simp]: "same_tables s (emit_event S p s)"
  by (simp add: emit_event_def)

lemmas server_command_defs = srv_configure_surface_def srv_set_surface_activated_def srv_set_surface_visible_def
  srv_set_surface_stacking_def srv_close_surface_def srv_set_keyboard_intercepts_def srv_warp_pointer_def
  srv_grab_pointer_def srv_ungrab_pointer_def srv_set_surface_border_def srv_create_overlay_def srv_update_overlay_def
  srv_destroy_overlay_def overlays_create_def overlays_destroy_def notify_def dispatch_command_def

section \<open>Properties\<close>

lemma malformed_refused:
  assumes "RECV_BUFFER \<ge> length data" "12 \<le> length data" "take_header (recv_buffer data) = Some (h, bytes)"
    "header_valid h (int (length data))" "\<nexists>p. payload_ok p \<and> data = message_bytes p"
  shows "dispatch_backend_message h bytes rfd handler s = (False, s)"
proof (rule ccontr)
  assume "dispatch_backend_message h bytes rfd handler s \<noteq> (False, s)"
  then obtain p r where p: "payload_ok p" "bytes = payload_bytes p @ r" "msg_type h = type_code (payload_type p)"
    "unat (msg_size h) = payload_size (payload_type p)"
    by (rule dispatch_only_messages)
  have "unat (msg_size h) = unat (msg_size (make_header p))"
    using p(4) by (simp add: make_header_def unat_payload_size)
  then have h: "h = make_header p"
    using p(3) assms(4) by (simp add: make_header_def header_valid_def word_unat_eq_iff)
  have eq: "recv_buffer data = message_bytes p @ r"
    using header.put_get [OF assms(3)] h p(2) by (simp add: message_bytes_def)
  have "length data = length (message_bytes p)"
    using assms(4) p(1,4) by (simp add: header_valid_def length_message_bytes wire_size_def)
  with eq have "data = message_bytes p" unfolding recv_buffer_def by simp
  with p(1) assms(5) show False by blast
qed

text \<open>The loop of \<^const>\<open>surface_at\<close>: it keeps its candidate, or ends on a covering surface no other one exceeds.\<close>

lemma surface_at_loop_spec:
  assumes "\<forall>(i, d)\<in>set ss. i \<noteq> 0"
  shows "(surface_at_loop x y bi bs ss = bi \<and> (\<forall>(j, e)\<in>set ss. covers x y e \<longrightarrow> bi \<noteq> 0 \<and> ds_stacking e < bs)) \<or>
    (\<exists>d. (surface_at_loop x y bi bs ss, d) \<in> set ss \<and> covers x y d \<and> (bi = 0 \<or> bs \<le> ds_stacking d) \<and>
       (\<forall>(j, e)\<in>set ss. covers x y e \<longrightarrow> ds_stacking e \<le> ds_stacking d))"
  using assms
proof (induction ss arbitrary: bi bs)
  case (Cons p ss)
  obtain i d where p: "p = (i, d)" by fastforce
  have nz: "i \<noteq> 0" "\<forall>(i, d)\<in>set ss. i \<noteq> 0" using Cons.prems p by auto
  show ?case
  proof (cases "covers x y d \<and> (bi = 0 \<or> bs \<le> ds_stacking d)")
    case True
    then have l: "surface_at_loop x y bi bs (p # ss) = surface_at_loop x y i (ds_stacking d) ss" by (simp add: p)
    from Cons.IH [OF nz(2), of i "ds_stacking d"] show ?thesis
    proof
      assume a: "surface_at_loop x y i (ds_stacking d) ss = i \<and> (\<forall>(j, e)\<in>set ss. covers x y e \<longrightarrow> i \<noteq> 0 \<and> ds_stacking e < ds_stacking d)"
      then have "\<forall>(j, e)\<in>set (p # ss). covers x y e \<longrightarrow> ds_stacking e \<le> ds_stacking d" using p by auto
      then show ?thesis using a True l p by auto
    next
      assume "\<exists>d'. (surface_at_loop x y i (ds_stacking d) ss, d') \<in> set ss \<and> covers x y d' \<and> (i = 0 \<or> ds_stacking d \<le> ds_stacking d') \<and>
        (\<forall>(j, e)\<in>set ss. covers x y e \<longrightarrow> ds_stacking e \<le> ds_stacking d')"
      then obtain d' where d': "(surface_at_loop x y i (ds_stacking d) ss, d') \<in> set ss" "covers x y d'" "ds_stacking d \<le> ds_stacking d'"
        "\<forall>(j, e)\<in>set ss. covers x y e \<longrightarrow> ds_stacking e \<le> ds_stacking d'" using nz(1) by blast
      have "bi = 0 \<or> bs \<le> ds_stacking d'" using True d'(3) by (metis order_trans)
      moreover have "\<forall>(j, e)\<in>set (p # ss). covers x y e \<longrightarrow> ds_stacking e \<le> ds_stacking d'" using d'(3,4) p by simp
      ultimately show ?thesis using d'(1,2) unfolding l by (intro disjI2 exI [of _ d']) simp
    qed
  next
    case False
    then have l: "surface_at_loop x y bi bs (p # ss) = surface_at_loop x y bi bs ss" by (auto simp: p)
    have n: "covers x y d \<Longrightarrow> bi \<noteq> 0 \<and> ds_stacking d < bs" using False by auto
    from Cons.IH [OF nz(2), of bi bs] show ?thesis
    proof
      assume "\<exists>d'. (surface_at_loop x y bi bs ss, d') \<in> set ss \<and> covers x y d' \<and> (bi = 0 \<or> bs \<le> ds_stacking d') \<and>
        (\<forall>(j, e)\<in>set ss. covers x y e \<longrightarrow> ds_stacking e \<le> ds_stacking d')"
      then obtain d' where d': "(surface_at_loop x y bi bs ss, d') \<in> set ss" "covers x y d'" "bi = 0 \<or> bs \<le> ds_stacking d'"
        "\<forall>(j, e)\<in>set ss. covers x y e \<longrightarrow> ds_stacking e \<le> ds_stacking d'" by blast
      then have "\<forall>(j, e)\<in>set (p # ss). covers x y e \<longrightarrow> ds_stacking e \<le> ds_stacking d'"
        using n p by (auto intro: order_trans less_imp_le)
      with d' show ?thesis unfolding l by (intro disjI2 exI [of _ d']) simp
    qed (use n l p in auto)
  qed
qed simp

text \<open>
  C35. The control server acts on well-formed packets only. A packet that is not the encoding of a message of the
  protocol, whatever its length, its header or the descriptor that came with it, changes nothing but the connection:
  the descriptor is closed once, the client is disconnected, and its key filter is dropped with it. A well-formed
  message without a descriptor reaches its handler, and a message its handler refuses ends the connection.
\<close>
theorem packets_validated:
  assumes "client s \<ge> 0" "receive_bytes S (client s) RECV_BUFFER (srv_os s) = ((rc, data, rfd), os1)"
    "rc = int (length data)" "length data \<le> RECV_BUFFER"
  shows "((\<nexists>p. payload_ok p \<and> data = message_bytes p) \<longrightarrow>
      (let (okay, s') = dispatch_one_message S mm s in
       \<not> okay \<and> client s' = -1 \<and> same_tables s s' \<and> srv_overlays s' = srv_overlays s \<and> srv_intercepts s' = [] \<and>
       closed_fds s' = closed_fds s @ (if rfd \<ge> 0 then [rfd] else []) @ [client s])) \<and>
    (\<forall>p. payload_ok p \<and> data = message_bytes p \<and> rfd < 0 \<longrightarrow>
      dispatch_one_message S mm s =
        (let (okay, s2) = server_on S mm p rfd (s\<lparr>srv_os := os1\<rparr>)
         in if okay then (True, s2) else (False, disconnect_client S s2)))"
proof (intro conjI impI allI)
  let ?s1 = "s\<lparr>srv_os := os1\<rparr>"
  assume bad: "\<nexists>p. payload_ok p \<and> data = message_bytes p"
  have rej: "dispatch_one_message S mm s = (False, disconnect_client S (close_received S rfd ?s1))"
  proof (cases "12 \<le> length data")
    case True
    have m: "dispatch_backend_message h bytes rfd (server_on S mm) ?s1 = (False, ?s1)"
      if "take_header (recv_buffer data) = Some (h, bytes)" "header_valid h (int (length data))" for h bytes
      by (rule malformed_refused [OF assms(4) True that bad])
    show ?thesis
      using assms by (auto simp: dispatch_one_message_def server_dispatch_message_def Let_def m split: option.splits)
  qed (use assms in \<open>simp add: dispatch_one_message_def\<close>)
  show "let (okay, s') = dispatch_one_message S mm s in
       \<not> okay \<and> client s' = -1 \<and> same_tables s s' \<and> srv_overlays s' = srv_overlays s \<and> srv_intercepts s' = [] \<and>
       closed_fds s' = closed_fds s @ (if rfd \<ge> 0 then [rfd] else []) @ [client s]"
    using assms(1) unfolding rej
    by (auto simp: disconnect_client_def close_received_def close_fd_def same_tables_def server_command_defs)
next
  fix p assume p: "payload_ok p \<and> data = message_bytes p \<and> rfd < 0"
  then have "12 \<le> length data" by (simp add: length_message_bytes wire_size_def)
  moreover have "header_valid (make_header p) rc" using p assms(3) header_valid_message by auto
  moreover have "server_dispatch_message S mm (make_header p) (payload_bytes p @ z) rfd s1 = server_on S mm p rfd s1" for z s1
    using p dispatch_message_bytes [of p] by (simp add: server_dispatch_message_def)
  ultimately show "dispatch_one_message S mm s =
        (let (okay, s2) = server_on S mm p rfd (s\<lparr>srv_os := os1\<rparr>)
         in if okay then (True, s2) else (False, disconnect_client S s2))"
    using assms p take_header_message [of p]
    by (auto simp: dispatch_one_message_def close_received_def split: prod.splits)
qed

theorem packets_validated_witness:
  "let (okay, s') = dispatch_one_message queue_sys (\<lambda>_ _ _. None) (ex_server\<lparr>srv_os := [([1, 2, 3], True)]\<rparr>)
   in \<not> okay \<and> client s' = -1 \<and> closed_fds s' = [9, 4]"
proof -
  let ?s = "ex_server\<lparr>srv_os := [([1, 2, 3], True)]\<rparr>"
  have r: "receive_bytes queue_sys (client ?s) RECV_BUFFER (srv_os ?s) = ((3, [1, 2, 3], 9), [])"
    by (simp add: receive_bytes_def queue_sys_def ex_server_def RECV_BUFFER_def)
  have "[1, 2, 3] \<noteq> message_bytes p" if "payload_ok p" for p
  proof
    assume "[1, 2, 3] = message_bytes p"
    then have "length (message_bytes p) = 3" by (metis length_Cons list.size(3) numeral_3_eq_3)
    with that show False by (simp add: length_message_bytes wire_size_def)
  qed
  moreover have "client ?s \<ge> 0" "closed_fds ?s = []" "client ?s = 4" by (simp_all add: ex_server_def)
  ultimately show ?thesis
    using packets_validated [OF _ r, of "\<lambda>_ _ _. None"] by (auto simp: RECV_BUFFER_def)
qed

text \<open>
  C34. The surface under the pointer is a topmost one: when every number is non-zero, \<^const>\<open>surface_at\<close> answers 0
  exactly when no mapped and visible surface, with its border, covers the point, and otherwise names a covering surface
  whose stacking value no covering surface exceeds.
\<close>
theorem surface_at_topmost:
  assumes "\<forall>(i, d)\<in>set (srv_surfaces s). i \<noteq> 0"
  shows "(surface_at s x y = 0 \<longleftrightarrow> (\<forall>(i, d)\<in>set (srv_surfaces s). \<not> covers x y d)) \<and>
    (surface_at s x y \<noteq> 0 \<longrightarrow>
      (\<exists>d. (surface_at s x y, d) \<in> set (srv_surfaces s) \<and> covers x y d \<and>
           (\<forall>(j, e)\<in>set (srv_surfaces s). covers x y e \<longrightarrow> ds_stacking e \<le> ds_stacking d)))"
  using surface_at_loop_spec [OF assms, of x y 0 0] assms unfolding surface_at_def by fastforce

theorem surface_at_topmost_witness:
  "surface_at ex_server 5 5 \<noteq> 0 \<and> (\<exists>d. (surface_at ex_server 5 5, d) \<in> set (srv_surfaces ex_server) \<and> covers 5 5 d)"
proof -
  have c: "covers 5 5 ex_surface" by (simp add: covers_def ex_surface_def fresh_surface_def)
  have "\<forall>(i, d)\<in>set (srv_surfaces ex_server). i \<noteq> 0" by (simp add: ex_server_def)
  from surface_at_topmost [OF this, of 5 5] c show ?thesis by (auto simp: ex_server_def)
qed

text \<open>
  The pixels of an overlay arrive with a descriptor, and the server closes it twice: the overlay table closes it on
  every path, and the message handler closes it again.
\<close>
theorem overlay_descriptor_closed_twice:
  assumes "rfd \<ge> 0"
  shows "fst (server_on S mm (UpdateOverlay i n) rfd s) \<and>
    closed_fds (snd (server_on S mm (UpdateOverlay i n) rfd s)) = closed_fds s @ [rfd, rfd]"
  using assms
  by (auto simp: srv_update_overlay_def overlays_update_def close_fd_def notify_def Let_def split: option.splits)

theorem overlay_descriptor_closed_twice_witness:
  "closed_fds (snd (server_on queue_sys (\<lambda>_ _ _. None) (UpdateOverlay 1 16) 9 ex_server)) = [9, 9]"
  using overlay_descriptor_closed_twice [of 9 queue_sys "\<lambda>_ _ _. None" 1 16 ex_server] by (simp add: ex_server_def)

text \<open>
  With a control client connected, the display server serves its X server only in turns in which the control client
  has sent something too: the index into the poll results is not advanced past a quiet control client, so its entry is
  read in place of the X server's.
\<close>
theorem xwayland_waits_for_client:
  "DispatchXWayland \<in> set (turn_calls client_fd xcb_fd ready) \<longleftrightarrow>
     xcb_fd \<ge> 0 \<and> ready (xcb_index client_fd) \<and> (client_fd < 0 \<or> ready 3)"
  by (auto simp: turn_calls_def xcb_index_def Let_def)

end
