(* ===== verification/Wayland_Properties.thy ===== *)
theory Wayland_Properties
  imports Display_Server_Properties Runtime_Properties
begin

text \<open>
  Properties of the Wayland backend and of its composition with the display server and the runtime.
\<close>

section \<open>Example\<close>

definition ex_backend :: "packet_queue backend" where
  "ex_backend = (fresh_backend [] ex_world)\<lparr>control := 5\<rparr>"

section \<open>Messages\<close>

text \<open>
  C36. A message survives the connection: when a send of a message reports success and the peer's queue was empty, the
  peer receives exactly this message, with a descriptor if and only if one was sent along, and its queue is empty again.
\<close>
theorem message_round_trip:
  assumes "packets_sent S inbox a b" "packets_received S inbox b" "b \<ge> 0" "payload_ok p" "inbox os b = []"
    "send_message S a p f os = (True, os1)"
  shows "\<exists>rfd os2. receive_message S b (payload_type p) os1 = ((Some p, rfd), os2) \<and> (rfd \<ge> 0 \<longleftrightarrow> f \<ge> 0) \<and> inbox os2 b = []"
proof -
  have i: "inbox os1 b = (message_bytes p, f \<ge> 0) # []" using send_message_inbox [OF assms(1,6)] assms(5) by simp
  have cap: "length (message_bytes p) \<le> wire_size (payload_type p)" by (simp add: length_message_bytes [OF assms(4)])
  obtain rfd os2 where r: "receive_bytes S b (wire_size (payload_type p)) os1 =
      ((int (length (message_bytes p)), message_bytes p, rfd), os2)" "inbox os2 b = []" "if f \<ge> 0 then rfd \<ge> 0 else rfd = -1"
    by (rule receive_bytes_message [OF assms(2) i assms(3) cap])
  have "take_header (message_bytes p) = Some (make_header p, payload_bytes p)"
    by (simp add: message_bytes_def header.get_put)
  moreover have "take_payload (payload_type p) (payload_bytes p) = Some (p, [])"
    using take_payload_bytes [OF assms(4), of "[]"] by simp
  ultimately have "receive_message S b (payload_type p) os1 = ((Some p, rfd), os2)"
    using r(1) by (simp add: receive_message_def length_message_bytes [OF assms(4)] make_header_def)
  with r(2,3) show ?thesis by (auto split: if_splits)
qed

theorem message_round_trip_witness:
  "\<exists>rfd os2. receive_message queue_sys 5 T_SurfaceCommitted (snd (send_message queue_sys 4 (SurfaceCommitted 1 80 60) 7 [])) =
     ((Some (SurfaceCommitted 1 80 60), rfd), os2) \<and> rfd \<ge> 0"
proof -
  let ?p = "SurfaceCommitted 1 80 60"
  have "send_message queue_sys 4 ?p 7 [] = (True, snd (send_message queue_sys 4 ?p 7 []))"
    by (simp add: send_message_def send_bytes_def queue_sys_def)
  with message_round_trip [OF queue_sys_packets, of ?p "[]" 7 "snd (send_message queue_sys 4 ?p 7 [])"]
  show ?thesis by (simp add: queue_inbox_def) blast
qed

section \<open>The snapshot\<close>

text \<open>
  C31. The snapshot gives the window manager the display server's tables: when the server has answered a snapshot request
  and the connection held, the backend's start-up loop ends, and it then knows every output and every surface of the
  server and no other, with all their data up to the cutting of long names; greetings and events queued before the
  snapshot are read and leave no trace, and nothing is left in the queue.
\<close>
theorem snapshot_mirrors:
  assumes "server_ok s" "client s \<ge> 0" "server_on S mm (SnapshotRequest r) rfd s = (True, s')"
    and "packets_sent S inbox (client s) (control b)" "packets_received S inbox (control b)" "control b \<ge> 0"
    and "inbox (srv_os s) (control b) = map packet ps" "\<forall>p\<in>set ps. early p"
    and "be_os b = srv_os s'" "\<not> be_started b"
  shows "\<exists>b'. bootstrap_snapshot S E b = Some (Inr b') \<and>
    map_of (be_surfaces b') = map_option mirror_surface \<circ> map_of (srv_surfaces s) \<and>
    map_of (be_outputs b') = map_option mirror_output \<circ> map_of (srv_outputs s) \<and>
    be_world b' = be_world b \<and> snapshot_complete b' \<and> inbox (be_os b') (control b) = []"
  using assms by (rule bootstrap_mirrors)

theorem snapshot_mirrors_witness:
  "\<exists>b'. bootstrap_snapshot queue_sys ex_env
      (ex_backend\<lparr>be_os := srv_os (snd (server_on queue_sys (\<lambda>_ _ _. None) (SnapshotRequest 0) (-1) ex_server))\<rparr>) = Some (Inr b') \<and>
    map_of (be_surfaces b') 1 = Some (mirror_surface ex_surface) \<and> map_of (be_surfaces b') 2 = None \<and>
    map_of (be_outputs b') 1 = Some (mirror_output ex_output)"
proof -
  let ?mm = "\<lambda>_ _ _. None"
  let ?r = "server_on queue_sys ?mm (SnapshotRequest 0) (-1) ex_server"
  let ?b = "ex_backend\<lparr>be_os := srv_os (snd ?r)\<rparr>"
  have send: "send_event queue_sys p s = (True, s\<lparr>srv_os := srv_os s @ [packet p]\<rparr>)" if "client s = 4" for p s
    using that by (simp add: send_event_def send_message_def send_bytes_def queue_sys_def packet_def)
  have "fst ?r"
    by (simp add: send_snapshot_def Let_def snapshot_outputs_def snapshot_surfaces_def send ex_server_def case_prod_unfold)
  then have "?r = (True, snd ?r)" by (metis prod.collapse)
  from snapshot_mirrors [OF ex_server_ok _ this, of queue_inbox ?b "[Hello DisplayServerHost 0]" ex_env]
  have "\<exists>b'. bootstrap_snapshot queue_sys ex_env ?b = Some (Inr b') \<and>
    map_of (be_surfaces b') = map_option mirror_surface \<circ> map_of (srv_surfaces ex_server) \<and>
    map_of (be_outputs b') = map_option mirror_output \<circ> map_of (srv_outputs ex_server) \<and>
    be_world b' = be_world ?b \<and> snapshot_complete b' \<and> queue_inbox (be_os b') (control ?b) = []"
    using queue_sys_packets by (simp add: ex_server_def ex_backend_def fresh_backend_def queue_inbox_def)
  then show ?thesis by (auto simp: ex_server_def)
qed

section \<open>The backend in the runtime\<close>

text \<open>
  Whatever the display server sends and whatever the system calls answer, taking over events, rendering a frame and
  starting up lead from a reachable core to a reachable core, also when they end in an exception.
\<close>
lemma wayland_keeps_core_reachable:
  assumes "env_ok E" "core_reachable (be_core b)"
  shows "core_reachable (be_core (final (wl_render_frame S b))) \<and> core_reachable (be_core (wl_on_start E b)) \<and>
    (\<forall>limit r. wl_pump_events S E limit b = Some r \<longrightarrow> core_reachable (be_core (final r))) \<and>
    (\<forall>r. bootstrap_snapshot S E b = Some r \<longrightarrow> core_reachable (be_core (final r)))"
proof -
  have "core_reachable (be_core b')" if "be_moves b b'" for b'
    using that core_reachable_run [OF assms(2)] by (simp add: be_moves_def moves_def be_core_def)
  moreover have "be_moves b (final r)" if "bootstrap_snapshot S E b = Some r" for r
    using be_moves_bootstrap_loop [OF _ assms(1)] that by (fastforce simp: bootstrap_snapshot_def be_moves_def)
  ultimately show ?thesis
    using be_moves_render be_moves_start [OF assms(1)] be_moves_pump [OF _ assms(1)] by blast
qed

lemma index_dispatch_steady:
  assumes "steady (w_core w) (snd (dispatch_atom cmd (w_core w)))"
  shows "window_index (wm (w_core (dispatch cmd w))) = window_index (wm (w_core w))"
  using assms by (simp add: steady_def same_windows_def dispatch_def upd_core_def)

lemma wm_post [simp]: "wm (w_core (post_event ev w)) = wm (w_core w)"
  by (simp add: post_event_def set_queue_def upd_core_def)

lemma index_remove:
  assumes "wsman_inv (wm (w_core w))"
  shows "window_index (wm (w_core (dispatch (RemoveWindowFromAllWorkspaces win) w))) = (window_index (wm (w_core w)))(win := None)"
proof -
  have "window_index (wm (evaluate_workspace_fullscreen ws c)) = window_index (wm c)" for ws c
    using steady_evaluate [of c ws] by (simp add: steady_def same_windows_def)
  then show ?thesis
    by (simp add: dispatch_def upd_core_def dispatch_RemoveWindowFromAllWorkspaces_def Let_def upd_wm_def
        remove_window_from_all_index [OF assms])
qed

lemma index_destroy_commands:
  assumes "wsman_inv (wm (w_core w))"
  shows "window_index (wm (w_core (destroy_commands win w))) = (window_index (wm (w_core w)))(win := None)"
proof -
  have "wsman_inv (wm (w_core (post_event (EvDestroyNotify win) w)))" using assms by simp
  from index_remove [OF this, of win] have r: "window_index (wm (w_core (dispatch (RemoveWindowFromAllWorkspaces win)
      (post_event (EvDestroyNotify win) w)))) = (window_index (wm (w_core w)))(win := None)" by simp
  have f: "window_index (wm (w_core (dispatch ReconcileNow w))) = window_index (wm (w_core w))"
    "window_index (wm (w_core (dispatch (FocusWindow v) w))) = window_index (wm (w_core w))"
    "window_index (wm (w_core (composite FocusNextWindow w))) = window_index (wm (w_core w))" for w v
    using steady_focus_next(1) [of "w_core w"]
    by (simp_all add: index_dispatch_steady steady_simple_commands dispatch_ReconcileNow_def steady_arrange
        composite_def upd_core_def steady_def [of _ "snd (dispatch_FocusNextWindow _)"] same_windows_def)
  show ?thesis by (simp add: destroy_commands_def Let_def f r split: option.splits)
qed

text \<open>
  C32. A destroyed surface is forgotten: when the display server reports the destruction of a surface the window manager
  manages, the core forgets its window and no other, and the backend forgets the surface and the focus it had.
\<close>
theorem destroyed_surface_forgotten:
  assumes "core_reachable (be_core b)" "be_started b" "map_of (be_surfaces b) i = Some si" "si_managed si"
  shows "let b' = snd (backend_on E (SurfaceDestroyed i) rfd b) in
    window_index (wm (be_core b')) = (window_index (wm (be_core b)))(i := None) \<and>
    map_of (be_surfaces b') = (map_of (be_surfaces b))(i := None) \<and> prev_focused b' = (if prev_focused b = i then NO_WINDOW else prev_focused b)"
proof -
  have "wsman_inv (wm (w_core (be_world b)))"
    using core_reachable_inv [OF assms(1)] by (simp add: core_inv_def core_ok_def be_core_def)
  from index_destroy_commands [OF this, of i] show ?thesis
    using assms(2-4) by (simp add: surface_destroyed_ev_def Let_def forget_focus_def on_world_def be_core_def delete_conv')
qed

theorem destroyed_surface_forgotten_witness:
  "let b = ex_backend\<lparr>be_started := True, prev_focused := 101,
             be_surfaces := [(101, (mirror_surface ex_surface)\<lparr>si_managed := True\<rparr>)]\<rparr>;
       b' = snd (backend_on ex_env (SurfaceDestroyed 101) (-1) b)
   in window_index (wm (be_core b')) 101 = None \<and> map_of (be_surfaces b') 101 = None \<and> prev_focused b' = NO_WINDOW"
proof -
  let ?b = "ex_backend\<lparr>be_started := True, prev_focused := 101,
             be_surfaces := [(101, (mirror_surface ex_surface)\<lparr>si_managed := True\<rparr>)]\<rparr>"
  have "core_reachable (be_core ?b)" using ex_world_core by (simp add: ex_backend_def be_core_def fresh_backend_def)
  from destroyed_surface_forgotten [OF this, of 101 "(mirror_surface ex_surface)\<lparr>si_managed := True\<rparr>" ex_env "-1"]
  show ?thesis by (simp add: Let_def)
qed

section \<open>The key filter\<close>

text \<open>
  The key filter of the display server is the list of the window manager's grabs, cut to 64 entries: after a grab
  that was sent, the server that handles the message filters the first 64 keys grabbed since the last release of all
  grabs, and no others. The 65th key binding is never intercepted.
\<close>
theorem key_filter_is_truncated:
  assumes "port_grab_key S keysym mods b = Inr b'"
  shows "port_intercepts b' = port_intercepts b @ [(keysym, ucast mods)] \<and>
    (\<exists>p. sent b' = sent b @ [p] \<and> payload_ok p \<and>
      srv_intercepts (snd (server_on S mm p rfd s)) = take 64 (port_intercepts b'))"
proof -
  let ?ks = "port_intercepts b @ [(keysym, ucast mods)]" let ?p = "intercepts_message ?ks"
  have "unat (word_of_nat n :: 32 word) = n" if "n \<le> 64" for n using that by (simp add: unat_of_nat)
  then have "srv_intercepts (snd (server_on S mm ?p rfd s)) = take 64 ?ks"
    by (auto simp: intercepts_message_def Let_def srv_set_keyboard_intercepts_def protocol_consts min_def)
  moreover have "payload_ok ?p" by (simp add: intercepts_message_def Let_def)
  moreover have "sent b' = sent b @ [?p] \<and> port_intercepts b' = ?ks"
    using assms by (auto simp: port_grab_key_def set_keyboard_intercepts_def send_control_def Let_def split: prod.splits if_splits)
  ultimately show ?thesis by auto
qed

theorem key_filter_is_truncated_witness:
  "\<exists>p. payload_ok p \<and> srv_intercepts (snd (server_on queue_sys (\<lambda>_ _ _. None) p (-1) ex_server)) = [(0xFF0D, 64)]"
proof -
  obtain b' where "port_grab_key queue_sys 0xFF0D 64 ex_backend = Inr b'"
    by (simp add: port_grab_key_def set_keyboard_intercepts_def send_control_def send_message_def send_bytes_def queue_sys_def
        ex_backend_def fresh_backend_def)
  from key_filter_is_truncated [OF this, of "\<lambda>_ _ _. None" "-1" ex_server] show ?thesis
    by (auto simp: ex_backend_def fresh_backend_def)
qed

end
