(* ===== verification/Keybindings.thy ===== *)
theory Keybindings
  imports Core_Access Text_Input "HOL-Library.AList"
begin

text \<open>
  The key bindings module (\<^verbatim>\<open>modules/keybindings/keybindings.cpp\<close>, \<^verbatim>\<open>keybindings.hpp\<close>) with the modifier names of
  \<^verbatim>\<open>core/include/backend/input_port.hpp\<close>: the parsers of key and mouse specifications, the two lists a
  configuration hands over, the grabs, and the drag of a window with the mouse.

  The module's settings live in the store of the runtime's world, under their keys. Calls on the input port are
  recorded in order. Three things the module calls are parameters: \<^verbatim>\<open>xkb_keysym_from_name\<close>, the text of a Lua
  number, and the Lua functions themselves, which get and return the pending references and the world.
\<close>

section \<open>Modifiers\<close>

definition MOD_SHIFT :: "16 word" where "MOD_SHIFT = 1"
definition MOD_LOCK :: "16 word" where "MOD_LOCK = 2"
definition MOD_CONTROL :: "16 word" where "MOD_CONTROL = 4"
definition MOD_1 :: "16 word" where "MOD_1 = 8"
definition MOD_2 :: "16 word" where "MOD_2 = 16"
definition MOD_3 :: "16 word" where "MOD_3 = 32"
definition MOD_4 :: "16 word" where "MOD_4 = 64"
definition MOD_5 :: "16 word" where "MOD_5 = 128"

definition MOD_STRIP_MASK :: "16 word" where
  "MOD_STRIP_MASK = MOD_2 OR MOD_LOCK"

lemmas mod_defs = MOD_SHIFT_def MOD_LOCK_def MOD_CONTROL_def MOD_1_def MOD_2_def MOD_3_def MOD_4_def MOD_5_def
  MOD_STRIP_MASK_def

definition parse_modifier_name :: "string \<Rightarrow> 16 word" where
  "parse_modifier_name name =
     (if name \<in> {''shift'', ''Shift''} then MOD_SHIFT
      else if name \<in> {''ctrl'', ''control'', ''Control''} then MOD_CONTROL
      else if name \<in> {''alt'', ''mod1'', ''Alt''} then MOD_1
      else if name = ''mod2'' then MOD_2
      else if name = ''mod3'' then MOD_3
      else if name \<in> {''mod4'', ''super'', ''win'', ''Super''} then MOD_4
      else if name = ''mod5'' then MOD_5 else 0)"

definition parse_physical_modifier :: "string \<Rightarrow> 16 word" where
  "parse_physical_modifier name = parse_modifier_name (lower_ascii name)"

definition validate_modifier_value :: "runtime_value \<Rightarrow> string option" where
  "validate_modifier_value v =
     (case as_string v of
        None \<Rightarrow> Some ''must be a string''
      | Some s \<Rightarrow>
          if lower_ascii s = ''mod''
          then Some (quoted ''mod'' @ '' is abstract; use a real modifier (e.g. mod4, alt, ctrl, shift)'')
          else if parse_physical_modifier s = 0 then Some (''unknown modifier '' @ quoted s)
          else None)"

definition parse_binding_modifier_token :: "16 word \<Rightarrow> string \<Rightarrow> 16 word parsed" where
  "parse_binding_modifier_token pm token =
     (let t = lower_ascii token in
      if t = ''mod'' then
        (if pm = 0 then Inl ''primary modifier is not set (set siren.modifier first)'' else Inr pm)
      else
        (let m = parse_physical_modifier t
         in if m = 0 then Inl (''unknown modifier token '' @ quoted token) else Inr m))"

section \<open>Specifications\<close>

record kb_pending =
  pending_binds :: "(nat \<times> lua_value) option"
  pending_mouse :: "(nat \<times> lua_value) option"

record kb_env =
  keysym_from_name :: "string \<Rightarrow> 32 word"
  num_string :: "rat \<Rightarrow> string"
  vm_epoch :: nat
  call_key :: "nat \<Rightarrow> kb_pending \<times> world \<Rightarrow> kb_pending \<times> world"
  call_mouse :: "nat \<Rightarrow> window_id \<Rightarrow> vec2i \<Rightarrow> 8 word \<Rightarrow> kb_pending \<times> world \<Rightarrow> kb_pending \<times> world"

fun parse_key_loop :: "kb_env \<Rightarrow> 16 word \<Rightarrow> string list \<Rightarrow> 16 word \<Rightarrow> 32 word \<Rightarrow> (16 word \<times> 32 word) parsed" where
  "parse_key_loop E pm [] mods keysym = Inr (mods, keysym)"
| "parse_key_loop E pm (token # tokens) mods keysym =
     (case parse_binding_modifier_token pm token of
        Inr m \<Rightarrow> parse_key_loop E pm tokens (mods OR m) keysym
      | Inl mod_err \<Rightarrow>
          if lower_ascii token = ''mod''
          then Inl (if mod_err = [] then ''primary modifier is not set'' else mod_err)
          else
            (let k = (if keysym_from_name E token = 0 then keysym_from_name E (lower_ascii token)
                      else keysym_from_name E token)
             in if k = 0 then Inl (''unknown keysym '' @ quoted token) else parse_key_loop E pm tokens mods k))"

definition parse_key :: "kb_env \<Rightarrow> 16 word \<Rightarrow> string \<Rightarrow> (16 word \<times> 32 word) parsed" where
  "parse_key E pm spec =
     (case parse_key_loop E pm (getlines CHR ''+'' spec) 0 0 of
        Inl e \<Rightarrow> Inl e
      | Inr (mods, keysym) \<Rightarrow>
          if keysym = 0 then Inl (''missing keysym in '' @ quoted spec) else Inr (mods, keysym))"

fun parse_mouse_loop :: "16 word \<Rightarrow> string list \<Rightarrow> 16 word \<Rightarrow> 32 word \<Rightarrow> (16 word \<times> 32 word) parsed" where
  "parse_mouse_loop pm [] mods btn = Inr (mods, btn)"
| "parse_mouse_loop pm (token # tokens) mods btn =
     (let t = lower_ascii token in
      if length t > 6 \<and> take 6 t = ''button'' then
        (case stoul (drop 6 t) of
           None \<Rightarrow> Inl (''invalid button number in '' @ quoted token)
         | Some n \<Rightarrow> parse_mouse_loop pm tokens mods (ucast n))
      else
        (case parse_binding_modifier_token pm token of
           Inl e \<Rightarrow> Inl (if e = [] then ''unknown token '' @ quoted token else e)
         | Inr m \<Rightarrow> parse_mouse_loop pm tokens (mods OR m) btn))"

definition parse_mouse_spec :: "16 word \<Rightarrow> string \<Rightarrow> (16 word \<times> 32 word) parsed" where
  "parse_mouse_spec pm spec =
     (case parse_mouse_loop pm (getlines CHR ''+'' spec) 0 0 of
        Inl e \<Rightarrow> Inl e
      | Inr (mods, btn) \<Rightarrow> if btn = 0 then Inl (''missing button in '' @ quoted spec) else Inr (mods, btn))"

section \<open>Lists of bindings\<close>

fun is_string :: "lua_value \<Rightarrow> bool" where
  "is_string (LString _) \<longleftrightarrow> True"
| "is_string (LInt _) \<longleftrightarrow> True"
| "is_string (LNum _) \<longleftrightarrow> True"
| "is_string _ \<longleftrightarrow> False"

fun is_table :: "lua_value \<Rightarrow> bool" where
  "is_table (LTable _ _) \<longleftrightarrow> True"
| "is_table _ \<longleftrightarrow> False"

fun lua_to_string :: "kb_env \<Rightarrow> lua_value \<Rightarrow> string" where
  "lua_to_string E (LString s) = s"
| "lua_to_string E (LInt i) = int_to_string i"
| "lua_to_string E (LNum d) = num_string E d"
| "lua_to_string E _ = []"

definition get_field :: "(lua_value \<times> lua_value) list \<Rightarrow> string \<Rightarrow> lua_value" where
  "get_field es k = (case map_of es (LString k) of Some v \<Rightarrow> v | None \<Rightarrow> LNil)"

text \<open>The first positional field if it is a non-empty text, else the first of the named fields that is a text.\<close>

definition entry_spec :: "kb_env \<Rightarrow> string list \<Rightarrow> (lua_value \<times> lua_value) list \<Rightarrow> string" where
  "entry_spec E ks es =
     (let s = (if is_string (raw_geti es 1) then lua_to_string E (raw_geti es 1) else []) in
      if s \<noteq> [] then s
      else case find is_string (map (get_field es) ks) of Some v \<Rightarrow> lua_to_string E v | None \<Rightarrow> [])"

text \<open>The second positional field if it is acceptable, else the first acceptable one of the named fields.\<close>

definition entry_handler :: "(lua_value \<Rightarrow> bool) \<Rightarrow> (lua_value \<times> lua_value) list \<Rightarrow> lua_value option" where
  "entry_handler acc es =
     (if acc (raw_geti es 2) then Some (raw_geti es 2)
      else find acc (map (get_field es) [''action'', ''fn'', ''callback'']))"

fun ref_function :: "lua_value \<Rightarrow> nat option" where
  "ref_function (LFunction f) = Some f"
| "ref_function _ = None"

definition register_lua_keybinding ::
  "kb_env \<Rightarrow> 16 word \<Rightarrow> string \<Rightarrow> lua_value \<Rightarrow> string \<Rightarrow> core \<Rightarrow> core parsed" where
  "register_lua_keybinding E pm spec fn origin c =
     (case ref_function fn of
        None \<Rightarrow> Inl (origin @ '': callback must be a function'')
      | Some f \<Rightarrow>
          (case parse_key E pm spec of
             Inl e \<Rightarrow> Inl (if e = [] then origin @ '': invalid key spec'' else origin @ '': '' @ e)
           | Inr (mods, keysym) \<Rightarrow> Inr (register_keybinding mods keysym f c)))"

definition label_of :: "string \<Rightarrow> nat \<Rightarrow> string" where
  "label_of origin i = origin @ ''['' @ int_to_string (int i) @ '']''"

text \<open>
  One entry: the error to mark, if any, the core, and the number of values left on the Lua stack. A callback
  without a specification is not popped.
\<close>

definition load_bind_entry ::
  "kb_env \<Rightarrow> 16 word \<Rightarrow> string \<Rightarrow> nat \<Rightarrow> lua_value \<Rightarrow> core \<Rightarrow> string option \<times> core \<times> nat" where
  "load_bind_entry E pm origin i entry c =
     (case entry of
        LTable n es \<Rightarrow>
          (let spec = entry_spec E [''key'', ''bind'', ''spec''] es; fn = entry_handler is_function es; label = label_of origin i
           in if spec = [] \<or> fn = None
              then (Some (label @ '': expected { '' @ [CHR 0x22] @ ''mod+Key'' @ [CHR 0x22] @
                      '', fn } or { key=..., action=... }''), c, if fn = None then 0 else 1)
              else (case register_lua_keybinding E pm spec (the fn) label c of
                      Inl e \<Rightarrow> (Some (if e = [] then label @ '': invalid binding'' else e), c, 0)
                    | Inr c' \<Rightarrow> (None, c', 0)))
      | _ \<Rightarrow> (Some (label_of origin i @ '': entry must be a table''), c, 0))"

text \<open>\<open>ok\<close> and \<open>first_err\<close>, as \<open>mark_error\<close> changes them.\<close>

definition mark_error :: "string \<Rightarrow> bool \<times> string \<Rightarrow> bool \<times> string" where
  "mark_error msg r = (False, if snd r = [] then msg else snd r)"

definition mark_opt :: "string option \<Rightarrow> bool \<times> string \<Rightarrow> bool \<times> string" where
  "mark_opt e r = (case e of None \<Rightarrow> r | Some msg \<Rightarrow> mark_error msg r)"

fun load_bind_loop ::
  "kb_env \<Rightarrow> 16 word \<Rightarrow> string \<Rightarrow> (lua_value \<times> lua_value) list \<Rightarrow> nat list \<Rightarrow> bool \<times> string \<Rightarrow> core \<Rightarrow> nat \<Rightarrow>
     (bool \<times> string) \<times> core \<times> nat" where
  "load_bind_loop E pm origin es [] r c leaked = (r, c, leaked)"
| "load_bind_loop E pm origin es (i # is) r c leaked =
     (let (e, c1, l) = load_bind_entry E pm origin i (raw_geti es i) c
      in load_bind_loop E pm origin es is (mark_opt e r) c1 (leaked + l))"

definition load_bind_list :: "kb_env \<Rightarrow> 16 word \<Rightarrow> lua_value \<Rightarrow> string \<Rightarrow> core \<Rightarrow> string option \<times> core \<times> nat" where
  "load_bind_list E pm table origin c =
     (case table of
        LTable n es \<Rightarrow>
          (let ((okay, first_err), c1, leaked) = load_bind_loop E pm origin es [1..<Suc n] (True, []) c 0
           in (if okay then None else Some (if first_err = [] then origin @ '': invalid bindings'' else first_err), c1, leaked))
      | _ \<Rightarrow> (Some (origin @ '': expected table''), c, 0))"

text \<open>The handler of a mouse binding: an action by name, a function, or a table with \<^verbatim>\<open>press\<close> and \<^verbatim>\<open>release\<close>.\<close>

definition accepts_handler :: "lua_value \<Rightarrow> bool" where
  "accepts_handler v \<longleftrightarrow> is_function v \<or> is_table v \<or> is_string v"

definition builtin_action :: "string \<Rightarrow> mouse_action option" where
  "builtin_action a =
     (if a = ''move'' then Some MouseMove else if a = ''resize'' then Some MouseResize
      else if a = ''float'' then Some MouseFloat else None)"

fun table_entries :: "lua_value \<Rightarrow> (lua_value \<times> lua_value) list" where
  "table_entries (LTable _ es) = es"
| "table_entries _ = []"

definition attach_handler :: "kb_env \<Rightarrow> string \<Rightarrow> (lua_value \<times> lua_value) list \<Rightarrow> mouse_binding \<Rightarrow> mouse_binding parsed" where
  "attach_handler E label es mb =
     (case entry_handler accepts_handler es of
        Some v \<Rightarrow>
          if is_string v then
            (case builtin_action (lua_to_string E v) of
               Some a \<Rightarrow> Inr (mb\<lparr>mb_builtin := a\<rparr>)
             | None \<Rightarrow> Inl (label @ '': unknown builtin action '' @ quoted (lua_to_string E v) @ '' (use '' @ [CHR 0x22] @ ''move'' @
                 [CHR 0x22] @ '', '' @ [CHR 0x22] @ ''resize'' @ [CHR 0x22] @ '', '' @ [CHR 0x22] @ ''float'' @ [CHR 0x22] @ '')''))
          else if is_function v then Inr (mb\<lparr>press_callback := ref_function v\<rparr>)
          else if \<not> is_table v then Inl (label @ '': callback must be function, string action, or table'')
          else Inr (mb\<lparr>press_callback := ref_function (get_field (table_entries v) ''press''),
                       release_callback := ref_function (get_field (table_entries v) ''release'')\<rparr>)
      | None \<Rightarrow> Inr (mb\<lparr>press_callback := ref_function (get_field es ''press''),
                         release_callback := ref_function (get_field es ''release'')\<rparr>))"

definition load_mouse_entry :: "kb_env \<Rightarrow> 16 word \<Rightarrow> string \<Rightarrow> nat \<Rightarrow> lua_value \<Rightarrow> mouse_binding parsed" where
  "load_mouse_entry E pm origin i entry =
     (let label = label_of origin i in
      case entry of
        LTable n es \<Rightarrow>
          (case parse_mouse_spec pm (entry_spec E [''spec'', ''bind'', ''button''] es) of
             Inl e \<Rightarrow> Inl (label @ '': '' @ e)
           | Inr (mods, btn) \<Rightarrow>
               (case attach_handler E label es
                       \<lparr>mb_mods = mods, mb_button = btn, mb_builtin = MouseNone, press_callback = None, release_callback = None\<rparr> of
                  Inl e \<Rightarrow> Inl e
                | Inr mb \<Rightarrow>
                    if mb_builtin mb = MouseNone \<and> press_callback mb = None \<and> release_callback mb = None
                    then Inl (label @ '': missing callback'') else Inr mb))
      | _ \<Rightarrow> Inl (label @ '': entry must be a table''))"

fun load_mouse_loop ::
  "kb_env \<Rightarrow> 16 word \<Rightarrow> string \<Rightarrow> (lua_value \<times> lua_value) list \<Rightarrow> nat list \<Rightarrow> bool \<times> string \<Rightarrow> mouse_binding list \<Rightarrow>
     (bool \<times> string) \<times> mouse_binding list" where
  "load_mouse_loop E pm origin es [] r mbs = (r, mbs)"
| "load_mouse_loop E pm origin es (i # is) r mbs =
     (case load_mouse_entry E pm origin i (raw_geti es i) of
        Inl e \<Rightarrow> load_mouse_loop E pm origin es is (mark_error e r) mbs
      | Inr mb \<Rightarrow> load_mouse_loop E pm origin es is r (mbs @ [mb]))"

definition load_mouse_bind_list ::
  "kb_env \<Rightarrow> 16 word \<Rightarrow> lua_value \<Rightarrow> string \<Rightarrow> mouse_binding list \<Rightarrow> string option \<times> mouse_binding list" where
  "load_mouse_bind_list E pm table origin mbs =
     (case table of
        LTable n es \<Rightarrow>
          (let ((okay, first_err), mbs1) = load_mouse_loop E pm origin es [1..<Suc n] (True, []) mbs
           in (if okay then None else Some (if first_err = [] then origin @ '': invalid mouse binds'' else first_err), mbs1))
      | _ \<Rightarrow> (Some (origin @ '': expected table''), mbs))"

section \<open>The module\<close>

datatype port_call =
    PGrabKey "32 word" "16 word"
  | PUngrabAllKeys
  | PGrabButton window_id "8 word" "16 word"
  | PUngrabAllButtons window_id
  | PGrabPointer
  | PUngrabPointer
  | PWarpPointerAbs vec2i
  | PFlush

datatype drag_op = DragNone | DragMove | DragResize

record drag_state =
  dr_op :: drag_op
  dr_window :: window_id
  dr_start_root :: vec2i
  dr_win_pos :: vec2i
  dr_win_size :: vec2i

definition no_drag :: drag_state where
  "no_drag = \<lparr>dr_op = DragNone, dr_window = NO_WINDOW, dr_start_root = (0, 0), dr_win_pos = (0, 0), dr_win_size = (0, 0)\<rparr>"

record kb_module =
  km_pending :: kb_pending
  km_drag :: drag_state
  km_calls :: "port_call list"
  km_world :: world

definition km_core :: "kb_module \<Rightarrow> core" where
  "km_core m = w_core (km_world m)"

definition call_port :: "port_call list \<Rightarrow> kb_module \<Rightarrow> kb_module" where
  "call_port ps m = m\<lparr>km_calls := km_calls m @ ps\<rparr>"

definition in_world :: "(world \<Rightarrow> world) \<Rightarrow> kb_module \<Rightarrow> kb_module" where
  "in_world f m = m\<lparr>km_world := f (km_world m)\<rparr>"

definition run_lua :: "(kb_pending \<times> world \<Rightarrow> kb_pending \<times> world) \<Rightarrow> kb_module \<Rightarrow> kb_module" where
  "run_lua f m = (let (p, w) = f (km_pending m, km_world m) in m\<lparr>km_pending := p, km_world := w\<rparr>)"

text \<open>The two settings of the module.\<close>

definition mod_mask :: "world \<Rightarrow> 16 word" where
  "mod_mask w = (case store_find (w_store w) ''modifier'' of Some (Modifier_Setting s) \<Rightarrow> ts_value s | _ \<Rightarrow> 0)"

definition mouse_bindings :: "world \<Rightarrow> mouse_binding list" where
  "mouse_bindings w = (case store_find (w_store w) ''mouse_bindings'' of Some (Mouse_Setting s) \<Rightarrow> ts_value s | _ \<Rightarrow> [])"

fun put_mouse :: "mouse_binding list \<Rightarrow> setting \<Rightarrow> setting" where
  "put_mouse mbs (Mouse_Setting s) = Mouse_Setting (ts_set mbs s)"
| "put_mouse mbs s = s"

definition set_mouse_bindings :: "mouse_binding list \<Rightarrow> world \<Rightarrow> world" where
  "set_mouse_bindings mbs w = w\<lparr>w_store := AList.map_entry ''mouse_bindings'' (put_mouse mbs) (w_store w)\<rparr>"

definition modifier_setting :: setting where
  "modifier_setting =
     Modifier_Setting
       (set_parse
          (\<lambda>v. case as_string v of
                  None \<Rightarrow> Inl ''must be a string''
                | Some s \<Rightarrow> (case validate_modifier_value v of Some e \<Rightarrow> Inl e | None \<Rightarrow> Inr (parse_physical_modifier s))) TString
          (set_validate (\<lambda>v. if v \<noteq> 0 then []
             else [''modifier not set -- use siren.modifier = '' @ quoted ''mod4'' @ '' (or shift/ctrl/alt/mod1..mod5)''])
             (mk_typed_setting 0)))"

definition kb_on_init :: "kb_module \<Rightarrow> kb_module" where
  "kb_on_init = in_world (\<lambda>w. w\<lparr>w_store :=
     register_setting ''mouse_bindings'' (Mouse_Setting (mk_typed_setting []))
       (register_setting ''modifier'' modifier_setting (w_store w))\<rparr>)"

definition no_pending :: kb_pending where
  "no_pending = \<lparr>pending_binds = None, pending_mouse = None\<rparr>"

definition kb_on_lua_init :: "kb_module \<Rightarrow> kb_module" where
  "kb_on_lua_init m = m\<lparr>km_pending := no_pending\<rparr>"

text \<open>\<^verbatim>\<open>__newindex\<close> of the module's table.\<close>

definition kb_newindex :: "kb_env \<Rightarrow> lua_value \<Rightarrow> lua_value \<Rightarrow> kb_module \<Rightarrow> kb_module" where
  "kb_newindex E k v m =
     (if \<not> is_string k \<or> \<not> is_table v then m
      else if lua_to_string E k = ''binds'' then m\<lparr>km_pending := (km_pending m)\<lparr>pending_binds := Some (vm_epoch E, v)\<rparr>\<rparr>
      else if lua_to_string E k = ''mouse'' then m\<lparr>km_pending := (km_pending m)\<lparr>pending_mouse := Some (vm_epoch E, v)\<rparr>\<rparr>
      else m)"

text \<open>A reference into a Lua state that has been replaced cannot be pushed.\<close>

definition push_ref :: "kb_env \<Rightarrow> (nat \<times> lua_value) option \<Rightarrow> lua_value option" where
  "push_ref E r = (case r of Some (ep, v) \<Rightarrow> if ep = vm_epoch E then Some v else None | None \<Rightarrow> None)"

definition apply_binds :: "kb_env \<Rightarrow> kb_module \<Rightarrow> kb_module" where
  "apply_binds E m =
     (case push_ref E (pending_binds (km_pending m)) of
        Some v \<Rightarrow> in_world (\<lambda>w. w\<lparr>w_core := fst (snd (load_bind_list E (mod_mask w) v ''kb.binds'' (w_core w)))\<rparr>) m
      | None \<Rightarrow> m)"

definition apply_mouse :: "kb_env \<Rightarrow> kb_module \<Rightarrow> kb_module" where
  "apply_mouse E m =
     (case push_ref E (pending_mouse (km_pending m)) of
        Some v \<Rightarrow>
          in_world (\<lambda>w. set_mouse_bindings (snd (load_mouse_bind_list E (mod_mask w) v ''kb.mouse'' (mouse_bindings w))) w) m
      | None \<Rightarrow> m)"

definition apply_pending :: "kb_env \<Rightarrow> kb_module \<Rightarrow> kb_module" where
  "apply_pending E m = (apply_mouse E (apply_binds E m))\<lparr>km_pending := no_pending\<rparr>"

section \<open>Grabs\<close>

definition push_unique :: "mouse_binding \<Rightarrow> (8 word \<times> 16 word) list \<Rightarrow> (8 word \<times> 16 word) list" where
  "push_unique mb grabs =
     (let g = (ucast (mb_button mb), mb_mods mb) in if g \<in> set grabs then grabs else grabs @ [g])"

definition mouse_grabs :: "mouse_binding list \<Rightarrow> (8 word \<times> 16 word) list" where
  "mouse_grabs mbs = fold push_unique mbs []"

definition install_mouse_grabs_for_window :: "window_id \<Rightarrow> mouse_binding list \<Rightarrow> port_call list" where
  "install_mouse_grabs_for_window win mbs = map (\<lambda>(b, mods). PGrabButton win b mods) (mouse_grabs mbs)"

definition reinstall_mouse_grabs_for_all_windows :: "core \<Rightarrow> mouse_binding list \<Rightarrow> port_call list" where
  "reinstall_mouse_grabs_for_all_windows c mbs =
     concat (map (\<lambda>win. PUngrabAllButtons win # install_mouse_grabs_for_window win mbs) (all_window_ids c)) @ [PFlush]"

section \<open>Drags\<close>

definition drag_active :: "kb_module \<Rightarrow> bool" where
  "drag_active m \<longleftrightarrow> dr_op (km_drag m) \<noteq> DragNone \<and> dr_window (km_drag m) \<noteq> NO_WINDOW"

definition stop_drag :: "kb_module \<Rightarrow> kb_module" where
  "stop_drag m = (if drag_active m then (call_port [PUngrabPointer] m)\<lparr>km_drag := no_drag\<rparr> else m)"

definition maybe_cancel_drag_for_window :: "window_id \<Rightarrow> kb_module \<Rightarrow> kb_module" where
  "maybe_cancel_drag_for_window win m =
     (if drag_active m \<and> dr_window (km_drag m) = win then stop_drag m else m)"

text \<open>After a move the window goes to the workspace shown on the first monitor that contains its centre.\<close>

definition drop_window :: "window_id \<Rightarrow> world \<Rightarrow> world" where
  "drop_window win w =
     (let c = w_core w in
      case window_state c win of
        None \<Rightarrow> w
      | Some x \<Rightarrow>
          (case find (\<lambda>mon. contains mon (vec2i_center (win_pos x) (win_size x))) (monitors (wm c)) of
             None \<Rightarrow> w
           | Some mon \<Rightarrow>
               (let cur_ws = workspace_of_window (wm c) win; dest_ws = active_ws mon
                in if dest_ws \<ge> 0 \<and> dest_ws \<noteq> cur_ws then dispatch (MoveWindowToWorkspace win dest_ws) w else w)))"

definition find_builtin :: "mouse_binding list \<Rightarrow> 8 word \<Rightarrow> 16 word \<Rightarrow> mouse_action" where
  "find_builtin mbs button mods =
     (case find (\<lambda>mb. mb_builtin mb \<noteq> MouseNone \<and> mb_button mb = ucast button \<and> mb_mods mb = mods) mbs of
        Some mb \<Rightarrow> mb_builtin mb | None \<Rightarrow> MouseNone)"

definition call_mouse_ref :: "kb_env \<Rightarrow> nat option \<Rightarrow> window_id \<Rightarrow> vec2i \<Rightarrow> 8 word \<Rightarrow> kb_module \<Rightarrow> kb_module" where
  "call_mouse_ref E r win pos button m =
     (case r of None \<Rightarrow> m | Some f \<Rightarrow> run_lua (call_mouse E f win pos button) m)"

definition run_mouse_callbacks ::
  "kb_env \<Rightarrow> window_id \<Rightarrow> vec2i \<Rightarrow> 8 word \<Rightarrow> 16 word \<Rightarrow> bool \<Rightarrow> kb_module \<Rightarrow> kb_module" where
  "run_mouse_callbacks E win pos button mods release m =
     fold (\<lambda>mb. if mb_button mb \<noteq> ucast button \<or> mb_mods mb \<noteq> mods then id
                 else call_mouse_ref E (if release then release_callback mb else press_callback mb) win pos button)
       (mouse_bindings (km_world m)) m"

definition warp_corner :: "vec2i \<Rightarrow> vec2i \<Rightarrow> vec2i" where
  "warp_corner pos sz = vec2i16_of (fst pos + fst sz - 1, snd pos + snd sz - 1)"

text \<open>The rest of a press once a move or resize action and a window have been found: a tiled window is made floating,
  and a resize starts at the lower right corner of the window as it then is.\<close>

definition promote_floating :: "window_id \<Rightarrow> window \<Rightarrow> kb_module \<Rightarrow> kb_module" where
  "promote_floating win x m =
     (if floating x then m else in_world (dispatch ReconcileNow \<circ> dispatch (SetWindowFloating win True)) m)"

definition aim_resize :: "kb_module \<Rightarrow> kb_module" where
  "aim_resize m =
     (let d = km_drag m;
          d1 = (case window_state (km_core m) (dr_window d) of
                  Some cur \<Rightarrow> d\<lparr>dr_win_pos := win_pos cur, dr_win_size := win_size cur\<rparr> | None \<Rightarrow> d);
          warp = warp_corner (dr_win_pos d1) (dr_win_size d1)
      in (call_port [PWarpPointerAbs warp] m)\<lparr>km_drag := d1\<lparr>dr_start_root := warp\<rparr>\<rparr>)"

definition begin_drag :: "drag_op \<Rightarrow> window_id \<Rightarrow> vec2i \<Rightarrow> window \<Rightarrow> kb_module \<Rightarrow> kb_module" where
  "begin_drag op win pos x m =
     (let m1 = m\<lparr>km_drag := \<lparr>dr_op = op, dr_window = win, dr_start_root = pos, dr_win_pos = win_pos x, dr_win_size = win_size x\<rparr>\<rparr>;
          m2 = call_port [PGrabPointer] (promote_floating win x m1);
          m3 = (if op = DragResize then aim_resize m2 else m2)
      in in_world (post_event (EvFocusChanged win) \<circ> dispatch (FocusWindow win)) m3)"

definition press_builtin :: "window_id \<Rightarrow> vec2i \<Rightarrow> 8 word \<Rightarrow> 16 word \<Rightarrow> kb_module \<Rightarrow> kb_module" where
  "press_builtin win pos button mods m =
     (let builtin = find_builtin (mouse_bindings (km_world m)) button mods in
      if builtin = MouseNone then m
      else case window_state (km_core m) win of
        None \<Rightarrow> m
      | Some x \<Rightarrow>
          if fullscreen x \<or> borderless x then m
          else if builtin = MouseFloat
          then in_world (dispatch ReconcileNow \<circ> composite (ToggleWindowFloating win)) m
          else begin_drag (if builtin = MouseMove then DragMove else DragResize) win pos x m)"

definition strip_mods :: "16 word \<Rightarrow> 16 word" where
  "strip_mods mods = mods AND NOT MOD_STRIP_MASK"

definition on_button :: "kb_env \<Rightarrow> window_id \<Rightarrow> vec2i \<Rightarrow> 8 word \<Rightarrow> 16 word \<Rightarrow> bool \<Rightarrow> kb_module \<Rightarrow> kb_module" where
  "on_button E win pos button st release m =
     (let mods = strip_mods st; m1 = run_mouse_callbacks E win pos button mods release m
      in if release
         then stop_drag (if drag_active m1 \<and> dr_op (km_drag m1) = DragMove
                         then in_world (drop_window (dr_window (km_drag m1))) m1 else m1)
         else press_builtin win pos button mods m1)"

definition MIN_WIN_SIZE :: int where
  "MIN_WIN_SIZE = 32"

definition on_motion :: "vec2i \<Rightarrow> kb_module \<Rightarrow> kb_module" where
  "on_motion pos m =
     (if \<not> drag_active m then m
      else
        (let d = km_drag m; win = dr_window d;
             dx = fst pos - fst (dr_start_root d); dy = snd pos - snd (dr_start_root d)
         in if dr_op d = DragMove
            then in_world (dispatch (SetWindowPosition win (fst (dr_win_pos d) + dx, snd (dr_win_pos d) + dy))) m
            else case window_state (km_core m) win of
              None \<Rightarrow> m
            | Some x \<Rightarrow>
                in_world (dispatch (SetWindowSize win
                  (max MIN_WIN_SIZE (fst pos - fst (win_pos x)), max MIN_WIN_SIZE (snd pos - snd (win_pos x))))) m))"

section \<open>Events and life cycle\<close>

definition on_key_press :: "kb_env \<Rightarrow> 16 word \<Rightarrow> 32 word \<Rightarrow> kb_module \<Rightarrow> kb_module" where
  "on_key_press E mods keysym m =
     (case find (\<lambda>kb. kb_keysym kb = keysym \<and> kb_mods kb = strip_mods mods) (keybindings (km_core m)) of
        Some kb \<Rightarrow> run_lua (call_key E (kb_handler kb)) m
      | None \<Rightarrow> m)"

definition kb_on_start :: "kb_env \<Rightarrow> kb_module \<Rightarrow> kb_module" where
  "kb_on_start E m =
     (let m1 = apply_pending E m
      in call_port (map (\<lambda>kb. PGrabKey (kb_keysym kb) (kb_mods kb)) (keybindings (km_core m1)) @ [PFlush]) m1)"

definition kb_on_reload :: "kb_env \<Rightarrow> kb_module \<Rightarrow> kb_module" where
  "kb_on_reload E m =
     (let m1 = kb_on_start E (call_port [PUngrabAllKeys] (stop_drag m))
      in call_port (reinstall_mouse_grabs_for_all_windows (km_core m1) (mouse_bindings (km_world m1))) m1)"

definition on_window_mapped :: "window_id \<Rightarrow> kb_module \<Rightarrow> kb_module" where
  "on_window_mapped win m =
     call_port (PUngrabAllButtons win # install_mouse_grabs_for_window win (mouse_bindings (km_world m)) @ [PFlush]) m"

fun kb_on :: "kb_env \<Rightarrow> event \<Rightarrow> kb_module \<Rightarrow> kb_module" where
  "kb_on E (EvKeyPress mods keycode keysym) m = on_key_press E mods keysym m"
| "kb_on E (EvButton win rt root_pos event_pos t button st release) m = on_button E win root_pos button st release m"
| "kb_on E (EvMotion win root_pos st) m = on_motion root_pos m"
| "kb_on E (EvWindowMapped win) m = on_window_mapped win m"
| "kb_on E (EvWindowUnmapped win w) m = maybe_cancel_drag_for_window win m"
| "kb_on E (EvDestroyNotify win) m = maybe_cancel_drag_for_window win m"
| "kb_on E _ m = m"

end
