(* ===== verification/Keybindings_Properties.thy ===== *)
theory Keybindings_Properties
  imports Keybindings Runtime_Properties
begin

text \<open>
  What the key bindings module guarantees: the meaning of a key specification, the pointer grab that the
  module keeps in step with the drag, the core that is moved only through its interface, the geometry of a drag, and the bindings that can never
  fire.
\<close>

section \<open>Key specifications\<close>

text \<open>What a token contributes: a modifier, or a keysym, looked up as written and then in lower case.\<close>

definition modifier_of :: "16 word \<Rightarrow> string \<Rightarrow> 16 word option" where
  "modifier_of pm t = (case parse_binding_modifier_token pm t of Inr m \<Rightarrow> Some m | Inl _ \<Rightarrow> None)"

definition keysym_of :: "kb_env \<Rightarrow> string \<Rightarrow> 32 word" where
  "keysym_of E t =
     (if lower_ascii t = ''mod'' then 0
      else if keysym_from_name E t = 0 then keysym_from_name E (lower_ascii t) else keysym_from_name E t)"

definition key_tokens :: "16 word \<Rightarrow> string list \<Rightarrow> string list" where
  "key_tokens pm ts = filter (\<lambda>t. modifier_of pm t = None) ts"

definition all_mods :: "16 word \<Rightarrow> string list \<Rightarrow> 16 word" where
  "all_mods pm ts = foldr (\<lambda>t m. (case modifier_of pm t of Some x \<Rightarrow> x | None \<Rightarrow> 0) OR m) ts 0"

lemma parse_key_loop_iff:
  "parse_key_loop E pm ts mods k = Inr (mods', k') \<longleftrightarrow>
     (\<forall>t\<in>set (key_tokens pm ts). keysym_of E t \<noteq> 0) \<and> mods' = mods OR all_mods pm ts \<and>
     k' = (if key_tokens pm ts = [] then k else keysym_of E (last (key_tokens pm ts)))"
proof (induction ts arbitrary: mods k)
  case (Cons t ts)
  show ?case
  proof (cases "parse_binding_modifier_token pm t")
    case (Inr m)
    then show ?thesis
      by (simp add: Cons.IH key_tokens_def modifier_of_def all_mods_def or.assoc)
  next
    case (Inl e)
    then show ?thesis
      by (auto simp: Cons.IH key_tokens_def modifier_of_def all_mods_def keysym_of_def Let_def)
  qed
qed (auto simp: key_tokens_def all_mods_def)

text \<open>
  A key specification of \<^verbatim>\<open>+\<close>-separated tokens (none containing a plus, the last not empty) is accepted exactly
  if every token that is not a modifier names a keysym and there is one; the modifiers of all tokens are combined
  and the last keysym is the one bound.
\<close>
theorem key_spec_meaning:
  assumes "ts \<noteq> []" "last ts \<noteq> []" "\<forall>t\<in>set ts. CHR ''+'' \<notin> set t"
  shows "parse_key E pm (join CHR ''+'' ts) = Inr (mods, k) \<longleftrightarrow>
     key_tokens pm ts \<noteq> [] \<and> (\<forall>t\<in>set (key_tokens pm ts). keysym_of E t \<noteq> 0) \<and>
     mods = all_mods pm ts \<and> k = keysym_of E (last (key_tokens pm ts))"
proof -
  have "getlines CHR ''+'' (join CHR ''+'' ts) = ts" using assms by (rule getlines_join)
  moreover have "keysym_of E (last (key_tokens pm ts)) \<noteq> 0"
    if "key_tokens pm ts \<noteq> []" "\<forall>t\<in>set (key_tokens pm ts). keysym_of E t \<noteq> 0" using that last_in_set by blast
  moreover have "parse_key_loop E pm ts 0 0 = Inr (all_mods pm ts, keysym_of E (last (key_tokens pm ts)))"
    if "key_tokens pm ts \<noteq> []" "\<forall>t\<in>set (key_tokens pm ts). keysym_of E t \<noteq> 0"
    using that by (subst parse_key_loop_iff) simp
  ultimately show ?thesis
    by (cases "parse_key_loop E pm ts 0 0")
       (auto simp: parse_key_def parse_key_loop_iff [of E pm ts 0 0] split: if_splits sum.splits)
qed

definition ex_kb_env :: kb_env where
  "ex_kb_env =
     \<lparr>keysym_from_name = (\<lambda>s. if s = ''Return'' then 0xff0d else if s = ''q'' then 0x71 else 0), num_string = (\<lambda>_. []),
      vm_epoch = 1, call_key = (\<lambda>_. id), call_mouse = (\<lambda>_ _ _ _. id)\<rparr>"

theorem key_spec_meaning_witness:
  "parse_key ex_kb_env MOD_4 ''Mod+Shift+Return'' = Inr (MOD_4 OR MOD_SHIFT, 0xff0d)"
proof -
  let ?ts = "[''Mod'', ''Shift'', ''Return'']"
  have "key_tokens MOD_4 ?ts = [''Return'']" "keysym_of ex_kb_env ''Return'' = 0xff0d" "all_mods MOD_4 ?ts = MOD_4 OR MOD_SHIFT"
    by code_simp+
  then show ?thesis using key_spec_meaning [of ?ts ex_kb_env MOD_4 "MOD_4 OR MOD_SHIFT" "0xff0d"] by simp
qed

section \<open>Lists of bindings\<close>

text \<open>What a loop over entries collects: well-formed items, one for every entry that is not in error.\<close>

definition collected :: "('a \<Rightarrow> bool) \<Rightarrow> nat \<Rightarrow> bool \<Rightarrow> bool \<Rightarrow> 'a list \<Rightarrow> bool" where
  "collected ok n before after new \<longleftrightarrow>
     (\<forall>x\<in>set new. ok x) \<and> length new \<le> n \<and> (after \<longleftrightarrow> before \<and> length new = n)"

lemma collected_skip: "collected ok n False after new \<Longrightarrow> collected ok (Suc n) before after new"
  by (auto simp: collected_def)

lemma collected_add: "collected ok n before after new \<Longrightarrow> ok x \<Longrightarrow> collected ok (Suc n) before after (x # new)"
  by (auto simp: collected_def)

definition key_ok :: "keybinding \<Rightarrow> bool" where
  "key_ok kb \<longleftrightarrow> kb_keysym kb \<noteq> 0"

definition mouse_ok :: "mouse_binding \<Rightarrow> bool" where
  "mouse_ok mb \<longleftrightarrow> mb_button mb \<noteq> 0 \<and> (mb_builtin mb \<noteq> MouseNone \<or> press_callback mb \<noteq> None \<or> release_callback mb \<noteq> None)"

lemma parse_key_keysym: "parse_key E pm spec = Inr (mods, k) \<Longrightarrow> k \<noteq> 0"
  by (auto simp: parse_key_def split: sum.splits if_splits)

lemma load_bind_entry_cases:
  obtains (err) e l where "load_bind_entry E pm origin i entry c = (Some e, c, l)"
  | (bound) kb where "load_bind_entry E pm origin i entry c = (None, c\<lparr>keybindings := keybindings c @ [kb]\<rparr>, 0)" "key_ok kb"
proof (cases "load_bind_entry E pm origin i entry c")
  case (fields e c' l)
  then show ?thesis
  proof (cases e)
    case None
    with fields obtain mods k f where "c' = register_keybinding mods k f c" "k \<noteq> 0" "l = 0"
      by (auto simp: load_bind_entry_def register_lua_keybinding_def Let_def dest: parse_key_keysym
          split: lua_value.splits if_splits sum.splits option.splits)
    then show ?thesis using bound fields None by (simp add: register_keybinding_def key_ok_def)
  next
    case (Some msg)
    with fields have "c' = c"
      by (auto simp: load_bind_entry_def Let_def split: lua_value.splits if_splits sum.splits)
    then show ?thesis using err fields Some by simp
  qed
qed

lemma load_bind_loop_collects:
  "load_bind_loop E pm origin es is r c l = (r', c', l') \<Longrightarrow>
   \<exists>new. keybindings c' = keybindings c @ new \<and> collected key_ok (length is) (fst r) (fst r') new"
proof (induction "is" arbitrary: r c l)
  case (Cons i "is")
  show ?case
  proof (cases rule: load_bind_entry_cases [of E pm origin i "raw_geti es i" c])
    case (err e k)
    then have "\<exists>new. keybindings c' = keybindings c @ new \<and> collected key_ok (length is) False (fst r') new"
      using Cons.IH [of "mark_error e r" c "l + k"] Cons.prems by (simp add: mark_opt_def mark_error_def)
    then show ?thesis by (auto dest: collected_skip)
  next
    case (bound kb)
    then obtain new where "keybindings c' = keybindings c @ kb # new" "collected key_ok (length is) (fst r) (fst r') new"
      using Cons.IH [of r "c\<lparr>keybindings := keybindings c @ [kb]\<rparr>" l] Cons.prems by (auto simp: mark_opt_def)
    then show ?thesis using collected_add [of key_ok, OF _ bound(2)] by auto
  qed
qed (simp add: collected_def)

lemma load_mouse_entry_ok: "load_mouse_entry E pm origin i entry = Inr mb \<Longrightarrow> mouse_ok mb"
proof -
  assume a: "load_mouse_entry E pm origin i entry = Inr mb"
  have "mb_button mb' = mb_button mb0" if "attach_handler E label es mb0 = Inr mb'" for label es mb0 mb'
    using that by (auto simp: attach_handler_def split: option.splits if_splits)
  moreover have "btn \<noteq> 0" if "parse_mouse_spec pm spec = Inr (mods, btn)" for spec mods btn
    using that by (auto simp: parse_mouse_spec_def split: sum.splits if_splits)
  ultimately show ?thesis
    using a by (fastforce simp: load_mouse_entry_def Let_def mouse_ok_def split: lua_value.splits sum.splits if_splits)
qed

lemma load_mouse_loop_collects:
  "load_mouse_loop E pm origin es is r mbs = (r', mbs') \<Longrightarrow>
   \<exists>new. mbs' = mbs @ new \<and> collected mouse_ok (length is) (fst r) (fst r') new"
proof (induction "is" arbitrary: r mbs)
  case (Cons i "is")
  show ?case
  proof (cases "load_mouse_entry E pm origin i (raw_geti es i)")
    case (Inl e)
    then have "\<exists>new. mbs' = mbs @ new \<and> collected mouse_ok (length is) False (fst r') new"
      using Cons.IH [of "mark_error e r" mbs] Cons.prems by (simp add: mark_error_def)
    then show ?thesis by (auto dest: collected_skip)
  next
    case (Inr mb)
    then obtain new where "mbs' = mbs @ mb # new" "collected mouse_ok (length is) (fst r) (fst r') new"
      using Cons.IH [of r "mbs @ [mb]"] Cons.prems by auto
    then show ?thesis using collected_add [of mouse_ok, OF _ load_mouse_entry_ok [OF Inr]] by auto
  qed
qed (simp add: collected_def)

text \<open>
  Whatever Lua table the configuration assigns, the bindings that are taken over are well-formed: a key binding has a
  keysym, a mouse binding has a button and an action or a callback. Existing bindings stay, at most one is added
  for each entry, and no error is reported exactly when every entry gave a binding.
\<close>
theorem loaded_bindings_well_formed:
  "(\<exists>new. keybindings (fst (snd (load_bind_list E pm (LTable n es) origin c))) = keybindings c @ new \<and>
      (\<forall>kb\<in>set new. kb_keysym kb \<noteq> 0) \<and> length new \<le> n \<and>
      (fst (load_bind_list E pm (LTable n es) origin c) = None \<longleftrightarrow> length new = n)) \<and>
   (\<exists>new. snd (load_mouse_bind_list E pm (LTable n es) origin mbs) = mbs @ new \<and>
      (\<forall>mb\<in>set new. mb_button mb \<noteq> 0 \<and>
         (mb_builtin mb \<noteq> MouseNone \<or> press_callback mb \<noteq> None \<or> release_callback mb \<noteq> None)) \<and> length new \<le> n \<and>
      (fst (load_mouse_bind_list E pm (LTable n es) origin mbs) = None \<longleftrightarrow> length new = n))"
proof
  obtain r' c' l' where k: "load_bind_loop E pm origin es [1..<Suc n] (True, []) c 0 = (r', c', l')" by (cases rule: prod_cases3)
  from load_bind_loop_collects [OF k]
  obtain new where new: "keybindings c' = keybindings c @ new" "collected key_ok n True (fst r') new"
    by (auto simp del: upt_Suc)
  have "load_bind_list E pm (LTable n es) origin c =
      (if fst r' then None else Some (if snd r' = [] then origin @ '': invalid bindings'' else snd r'), c', l')"
    unfolding load_bind_list_def by (simp only: lua_value.case k Let_def) (simp split: prod.splits)
  then show "\<exists>new. keybindings (fst (snd (load_bind_list E pm (LTable n es) origin c))) = keybindings c @ new \<and>
      (\<forall>kb\<in>set new. kb_keysym kb \<noteq> 0) \<and> length new \<le> n \<and>
      (fst (load_bind_list E pm (LTable n es) origin c) = None \<longleftrightarrow> length new = n)"
    using new by (auto simp: collected_def key_ok_def intro!: exI [of _ new])
next
  obtain r' mbs' where k: "load_mouse_loop E pm origin es [1..<Suc n] (True, []) mbs = (r', mbs')" by fastforce
  from load_mouse_loop_collects [OF k]
  obtain new where new: "mbs' = mbs @ new" "collected mouse_ok n True (fst r') new"
    by (auto simp del: upt_Suc)
  have "load_mouse_bind_list E pm (LTable n es) origin mbs =
      (if fst r' then None else Some (if snd r' = [] then origin @ '': invalid mouse binds'' else snd r'), mbs')"
    unfolding load_mouse_bind_list_def by (simp only: lua_value.case k Let_def) (simp split: prod.splits)
  then show "\<exists>new. snd (load_mouse_bind_list E pm (LTable n es) origin mbs) = mbs @ new \<and>
      (\<forall>mb\<in>set new. mb_button mb \<noteq> 0 \<and>
         (mb_builtin mb \<noteq> MouseNone \<or> press_callback mb \<noteq> None \<or> release_callback mb \<noteq> None)) \<and> length new \<le> n \<and>
      (fst (load_mouse_bind_list E pm (LTable n es) origin mbs) = None \<longleftrightarrow> length new = n)"
    using new by (auto simp: collected_def mouse_ok_def intro!: exI [of _ new])
qed

theorem loaded_bindings_well_formed_witness:
  "length (keybindings (fst (snd (load_bind_list ex_kb_env MOD_4 (LTable 1 []) ''binds'' ex_core)))) \<le> Suc (length (keybindings ex_core)) \<and>
   length (snd (load_mouse_bind_list ex_kb_env MOD_4 (LTable 1 []) ''mouse'' [])) \<le> 1"
  using loaded_bindings_well_formed [of ex_kb_env MOD_4 1 "[]" "''binds''" ex_core]
    loaded_bindings_well_formed [of ex_kb_env MOD_4 1 "[]" "''mouse''" _ "[]"] by (force simp del: load_bind_list_def)

section \<open>Steps of the module\<close>

datatype kb_step = Deliver event | Init | LuaInit | NewIndex lua_value lua_value | Start | Reload | Stop

fun kb_do :: "kb_env \<Rightarrow> kb_step \<Rightarrow> kb_module \<Rightarrow> kb_module" where
  "kb_do E (Deliver ev) m = kb_on E ev m"
| "kb_do E Init m = kb_on_init m"
| "kb_do E LuaInit m = kb_on_lua_init m"
| "kb_do E (NewIndex k v) m = kb_newindex E k v m"
| "kb_do E Start m = kb_on_start E m"
| "kb_do E Reload m = kb_on_reload E m"
| "kb_do E Stop m = stop_drag m"

definition fresh_kb :: "world \<Rightarrow> kb_module" where
  "fresh_kb w = \<lparr>km_pending = no_pending, km_drag = no_drag, km_calls = [], km_world = w\<rparr>"

subsection \<open>The pointer grab\<close>

fun note_grab :: "port_call \<Rightarrow> bool \<Rightarrow> bool" where
  "note_grab PGrabPointer b = True"
| "note_grab PUngrabPointer b = False"
| "note_grab _ b = b"

definition pointer_grabbed :: "kb_module \<Rightarrow> bool" where
  "pointer_grabbed m = fold note_grab (km_calls m) False"

definition quiet :: "port_call list \<Rightarrow> bool" where
  "quiet ps \<longleftrightarrow> PGrabPointer \<notin> set ps \<and> PUngrabPointer \<notin> set ps"

lemma fold_quiet: "quiet ps \<Longrightarrow> fold note_grab ps b = b"
proof (induction ps arbitrary: b)
  case (Cons p ps)
  then show ?case by (cases p) (simp_all add: quiet_def)
qed simp

text \<open>Operations that neither touch the drag nor the pointer.\<close>

definition undragged :: "kb_module \<Rightarrow> kb_module \<Rightarrow> bool" where
  "undragged m m' \<longleftrightarrow> km_drag m' = km_drag m \<and> pointer_grabbed m' = pointer_grabbed m"

named_theorems undraggeds "operations that leave drag and pointer alone"

lemma undragged_refl [undraggeds]: "undragged m m"
  by (simp add: undragged_def)

lemma undragged_trans [trans]: "undragged m m1 \<Longrightarrow> undragged m1 m2 \<Longrightarrow> undragged m m2"
  by (simp add: undragged_def)

lemma undragged_same: "km_drag m' = km_drag m \<Longrightarrow> km_calls m' = km_calls m \<Longrightarrow> undragged m m'"
  by (simp add: undragged_def pointer_grabbed_def)

lemma undragged_port [undraggeds]: "quiet ps \<Longrightarrow> undragged m (call_port ps m)"
  by (simp add: undragged_def call_port_def pointer_grabbed_def fold_quiet)

lemma undragged_world [undraggeds]: "undragged m (in_world f m)"
  by (rule undragged_same) (simp_all add: in_world_def)

lemma undragged_lua [undraggeds]: "undragged m (run_lua f m)"
  by (rule undragged_same) (simp_all add: run_lua_def split: prod.splits)

lemma undragged_fold: "(\<And>x m. undragged m (f x m)) \<Longrightarrow> undragged m (fold f xs m)"
  by (induction xs arbitrary: m) (auto intro: undragged_trans undragged_refl)

lemma undragged_callbacks [undraggeds]: "undragged m (run_mouse_callbacks E win pos button mods release m)"
  unfolding run_mouse_callbacks_def
  by (rule undragged_fold) (auto simp: call_mouse_ref_def undraggeds split: option.splits)

lemma undragged_apply_pending [undraggeds]: "undragged m (apply_pending E m)"
proof -
  have "undragged m (apply_binds E m)" by (auto simp: apply_binds_def undraggeds split: option.splits)
  also have "undragged (apply_binds E m) (apply_mouse E (apply_binds E m))"
    by (auto simp: apply_mouse_def undraggeds split: option.splits)
  also have "undragged (apply_mouse E (apply_binds E m)) (apply_pending E m)"
    by (rule undragged_same) (simp_all add: apply_pending_def)
  finally show ?thesis .
qed

lemma undragged_start [undraggeds]: "undragged m (kb_on_start E m)"
  unfolding kb_on_start_def Let_def
  by (rule undragged_trans [OF undragged_apply_pending undragged_port]) (auto simp: quiet_def)

definition grab_ok :: "kb_module \<Rightarrow> bool" where
  "grab_ok m \<longleftrightarrow> (pointer_grabbed m \<longleftrightarrow> drag_active m) \<and> (\<not> drag_active m \<longrightarrow> km_drag m = no_drag)"

lemma no_drag_inactive [simp]: "\<not> drag_active (m\<lparr>km_drag := no_drag\<rparr>)"
  by (simp add: drag_active_def no_drag_def)

lemma undragged_grab_ok: "undragged m m' \<Longrightarrow> grab_ok m \<Longrightarrow> grab_ok m'"
  by (simp add: undragged_def grab_ok_def drag_active_def)

lemma grab_ok_stop: "grab_ok m \<Longrightarrow> grab_ok (stop_drag m)"
  by (auto simp: grab_ok_def stop_drag_def pointer_grabbed_def call_port_def)

lemma stop_drag_inactive [simp]: "\<not> drag_active (stop_drag m)"
  by (simp add: stop_drag_def)

lemma grab_ok_begin:
  assumes "win \<noteq> NO_WINDOW" "op \<noteq> DragNone"
  shows "grab_ok (begin_drag op win pos x m)"
  using assms
  by (simp add: begin_drag_def promote_floating_def aim_resize_def grab_ok_def drag_active_def pointer_grabbed_def
      call_port_def in_world_def Let_def split: option.splits)

lemma window_state_NO_WINDOW [simp]: "window_state c NO_WINDOW = None"
  by (simp add: window_state_def find_window_def)

lemma grab_ok_press: "grab_ok m \<Longrightarrow> grab_ok (press_builtin win pos button mods m)"
proof (cases "window_state (km_core m) win")
  case (Some x)
  assume ok: "grab_ok m"
  have "win \<noteq> NO_WINDOW" using Some by auto
  then have "grab_ok (begin_drag (if b = MouseMove then DragMove else DragResize) win pos x m)" for b
    by (rule grab_ok_begin) simp
  moreover have "grab_ok (in_world f m)" for f using undragged_grab_ok [OF undragged_world ok] .
  ultimately show ?thesis using Some ok by (simp add: press_builtin_def Let_def)
qed (simp add: press_builtin_def Let_def)

lemma grab_ok_button: "grab_ok m \<Longrightarrow> grab_ok (on_button E win pos button st release m)"
proof -
  assume ok: "grab_ok m"
  define m1 where "m1 = run_mouse_callbacks E win pos button (strip_mods st) release m"
  have m1: "grab_ok m1" unfolding m1_def by (rule undragged_grab_ok [OF undragged_callbacks ok])
  have "grab_ok (in_world f m1)" for f by (rule undragged_grab_ok [OF undragged_world m1])
  then show ?thesis using m1 unfolding on_button_def Let_def m1_def [symmetric]
    by (auto intro: grab_ok_stop grab_ok_press)
qed

lemma undragged_motion [undraggeds]: "undragged m (on_motion pos m)"
  by (auto simp: on_motion_def Let_def undraggeds split: option.splits)

lemma undragged_mapped [undraggeds]: "undragged m (on_window_mapped win m)"
  unfolding on_window_mapped_def
  by (rule undragged_port) (auto simp: quiet_def install_mouse_grabs_for_window_def)

lemma undragged_key [undraggeds]: "undragged m (on_key_press E mods keysym m)"
  by (auto simp: on_key_press_def undraggeds split: option.splits)

lemma grab_ok_on: "grab_ok m \<Longrightarrow> grab_ok (kb_on E ev m)"
  by (cases ev)
     (auto simp: maybe_cancel_drag_for_window_def intro: grab_ok_stop grab_ok_button undragged_grab_ok undraggeds)

lemma undragged_reinstall: "undragged m (call_port (reinstall_mouse_grabs_for_all_windows c mbs) m)"
  by (rule undragged_port) (auto simp: quiet_def reinstall_mouse_grabs_for_all_windows_def install_mouse_grabs_for_window_def)

lemma grab_ok_reload: "grab_ok m \<Longrightarrow> grab_ok (kb_on_reload E m)"
proof -
  assume "grab_ok m"
  then have "grab_ok (stop_drag m)" by (rule grab_ok_stop)
  then have "grab_ok (call_port [PUngrabAllKeys] (stop_drag m))"
    by (rule undragged_grab_ok [OF undragged_port, rotated]) (simp add: quiet_def)
  then have "grab_ok (kb_on_start E (call_port [PUngrabAllKeys] (stop_drag m)))"
    by (rule undragged_grab_ok [OF undragged_start])
  then show ?thesis unfolding kb_on_reload_def Let_def by (rule undragged_grab_ok [OF undragged_reinstall])
qed

lemma grab_ok_do: "grab_ok m \<Longrightarrow> grab_ok (kb_do E st m)"
proof (cases st)
  case (NewIndex k v)
  assume ok: "grab_ok m"
  have "undragged m (kb_newindex E k v m)" by (rule undragged_same) (simp_all add: kb_newindex_def)
  then show ?thesis using NewIndex ok undragged_grab_ok by auto
qed (auto simp: kb_on_init_def kb_on_lua_init_def
    intro: grab_ok_on grab_ok_stop grab_ok_reload undragged_grab_ok undraggeds undragged_grab_ok [OF undragged_same])

lemma grab_ok_fold: "grab_ok m \<Longrightarrow> grab_ok (fold (kb_do E) sts m)"
  by (induction sts arbitrary: m) (auto intro: grab_ok_do)

text \<open>
  Whatever events, reloads and restarts the module sees, its own calls of the input port leave the pointer grabbed exactly
  while a drag is active; a release of any button and the end of the module end the grab. The X11 backend releases
  grabs by itself as well, when a workspace is switched; these calls are not counted here.
\<close>
theorem pointer_grab_follows_drag:
  "let m = fold (kb_do E) sts (fresh_kb w) in
   (pointer_grabbed m \<longleftrightarrow> drag_active m) \<and> \<not> pointer_grabbed (on_button E win pos button st True m) \<and>
   \<not> pointer_grabbed (kb_do E Stop m) \<and> \<not> pointer_grabbed (kb_do E Reload m)"
proof -
  define m where "m = fold (kb_do E) sts (fresh_kb w)"
  have ok: "grab_ok m"
    unfolding m_def
    by (rule grab_ok_fold) (simp add: grab_ok_def fresh_kb_def pointer_grabbed_def drag_active_def no_drag_def)
  have "grab_ok (on_button E win pos button st True m)" using ok by (rule grab_ok_button)
  moreover have "\<not> drag_active (on_button E win pos button st True m)" by (simp add: on_button_def Let_def)
  moreover have "undragged (stop_drag m) (kb_on_reload E m)"
    unfolding kb_on_reload_def Let_def
    by (rule undragged_trans [OF undragged_trans [OF undragged_port undragged_start] undragged_reinstall]) (simp add: quiet_def)
  ultimately show ?thesis
    using ok grab_ok_stop [OF ok] stop_drag_inactive [of m]
    by (simp add: Let_def m_def [symmetric] undragged_def grab_ok_def)
qed

subsection \<open>The core\<close>

text \<open>The contract of the Lua functions is that of all callbacks of the runtime.\<close>

definition kb_env_ok :: "kb_env \<Rightarrow> bool" where
  "kb_env_ok E \<longleftrightarrow> (\<forall>f p w. moves w (snd (call_key E f (p, w)))) \<and>
     (\<forall>f win pos b p w. moves w (snd (call_mouse E f win pos b (p, w))))"

lemma kb_env_okD:
  assumes "kb_env_ok E"
  shows "moves w (snd (call_key E f (p, w)))" "moves w (snd (call_mouse E f win pos b (p, w)))"
  using assms unfolding kb_env_ok_def by blast+

definition km_moves :: "kb_module \<Rightarrow> kb_module \<Rightarrow> bool" where
  "km_moves m m' \<longleftrightarrow> moves (km_world m) (km_world m')"

lemma km_moves_refl [simp]: "km_moves m m"
  by (simp add: km_moves_def)

lemma km_moves_trans [trans]: "km_moves m m1 \<Longrightarrow> km_moves m1 m2 \<Longrightarrow> km_moves m m2"
  unfolding km_moves_def by (rule moves_trans)

lemma km_moves_same: "km_world m' = km_world m \<Longrightarrow> km_moves m m'"
  by (simp add: km_moves_def)

lemma km_moves_world: "(\<And>w. moves w (f w)) \<Longrightarrow> km_moves m (in_world f m)"
  by (simp add: km_moves_def in_world_def)

lemma km_moves_port [simp]: "km_moves m (call_port ps m)"
  by (rule km_moves_same) (simp add: call_port_def)

lemma km_moves_lua: "(\<And>p w. moves w (snd (f (p, w)))) \<Longrightarrow> km_moves m (run_lua f m)"
  by (simp add: km_moves_def run_lua_def case_prod_unfold Let_def)

lemma load_bind_entry_run: "core_run c (fst (snd (load_bind_entry E pm origin i entry c)))"
  by (auto simp: load_bind_entry_def register_lua_keybinding_def Let_def
      intro: run_refl run_step [OF run_refl core_step.key] split: lua_value.splits option.splits sum.splits)

lemma load_bind_loop_run: "core_run c (fst (snd (load_bind_loop E pm origin es is r c leaked)))"
proof (induction "is" arbitrary: r c leaked)
  case (Cons i "is")
  show ?case
    unfolding load_bind_loop.simps Let_def case_prod_unfold by (rule core_run_trans [OF Cons.IH load_bind_entry_run])
qed (simp add: run_refl)

lemma load_bind_list_run: "core_run c (fst (snd (load_bind_list E pm v origin c)))"
  using load_bind_loop_run by (auto simp: load_bind_list_def Let_def case_prod_unfold intro: run_refl split: lua_value.split)

lemma km_moves_start: "km_moves m (kb_on_start E m)"
proof -
  have "km_moves m (apply_binds E m)"
    by (auto simp: apply_binds_def moves_def load_bind_list_run intro!: km_moves_world split: option.splits)
  also have "km_moves (apply_binds E m) (apply_mouse E (apply_binds E m))"
    by (auto simp: apply_mouse_def set_mouse_bindings_def intro!: km_moves_world moves_same_core split: option.splits)
  also have "km_moves (apply_mouse E (apply_binds E m)) (apply_pending E m)"
    by (rule km_moves_same) (simp add: apply_pending_def)
  finally show ?thesis unfolding kb_on_start_def Let_def by (rule km_moves_trans) simp
qed

lemma km_moves_fold: "(\<And>x m. km_moves m (f x m)) \<Longrightarrow> km_moves m (fold f xs m)"
  by (induction xs arbitrary: m) (auto intro: km_moves_trans)

lemma km_moves_callbacks: "kb_env_ok E \<Longrightarrow> km_moves m (run_mouse_callbacks E win pos button mods release m)"
  unfolding run_mouse_callbacks_def
  by (rule km_moves_fold) (auto simp: call_mouse_ref_def intro!: km_moves_lua kb_env_okD split: option.splits)

lemma moves_drop: "moves w (drop_window win w)"
  by (auto simp: drop_window_def Let_def split: option.splits)

lemma km_moves_stop [simp]: "km_moves m (stop_drag m)"
  by (rule km_moves_same) (simp add: stop_drag_def call_port_def)

lemma km_moves_begin: "km_moves m (begin_drag op win pos x m)"
proof -
  define m1 where "m1 = m\<lparr>km_drag := \<lparr>dr_op = op, dr_window = win, dr_start_root = pos, dr_win_pos = win_pos x, dr_win_size = win_size x\<rparr>\<rparr>"
  define m2 where "m2 = call_port [PGrabPointer] (promote_floating win x m1)"
  have "moves w ((dispatch ReconcileNow \<circ> dispatch (SetWindowFloating win True)) w)" for w
    by (auto intro: moves_trans)
  then have "km_moves m1 (promote_floating win x m1)" unfolding promote_floating_def by (auto intro: km_moves_world)
  then have "km_moves m m2" by (simp add: km_moves_def m1_def m2_def call_port_def)
  moreover have "km_moves m2 (if op = DragResize then aim_resize m2 else m2)"
    by (simp add: km_moves_same aim_resize_def Let_def call_port_def)
  moreover have "moves w ((post_event (EvFocusChanged win) \<circ> dispatch (FocusWindow win)) w)" for w
    by (auto intro: moves_trans)
  ultimately show ?thesis
    unfolding begin_drag_def Let_def m1_def [symmetric] m2_def [symmetric]
    by (blast intro: km_moves_trans km_moves_world)
qed

lemma km_moves_press: "km_moves m (press_builtin win pos button mods m)"
proof -
  have "moves w ((dispatch ReconcileNow \<circ> composite (ToggleWindowFloating win)) w)" for w
    by (auto intro: moves_trans)
  then show ?thesis by (auto simp: press_builtin_def Let_def intro: km_moves_world km_moves_begin split: option.splits)
qed

lemma km_moves_button: "kb_env_ok E \<Longrightarrow> km_moves m (on_button E win pos button st release m)"
proof -
  assume ok: "kb_env_ok E"
  define m1 where "m1 = run_mouse_callbacks E win pos button (strip_mods st) release m"
  have 1: "km_moves m m1" unfolding m1_def by (rule km_moves_callbacks [OF ok])
  have drop: "km_moves m1 (in_world (drop_window w) m1)" for w by (rule km_moves_world [OF moves_drop])
  have "km_moves m1 (stop_drag (if b then in_world (drop_window w) m1 else m1))" for b w
    by (cases b) (simp_all add: km_moves_trans [OF drop km_moves_stop])
  then show ?thesis using 1 unfolding on_button_def Let_def m1_def [symmetric]
    by (cases release) (simp_all add: km_moves_trans [OF 1] km_moves_press)
qed

lemma km_moves_do: "kb_env_ok E \<Longrightarrow> km_moves m (kb_do E st m)"
proof -
  assume ok: "kb_env_ok E"
  have "km_moves m (on_key_press E mods keysym m)" for mods keysym
    using ok by (auto simp: on_key_press_def intro!: km_moves_lua kb_env_okD split: option.splits)
  moreover have "km_moves m (on_motion pos m)" for pos
    by (auto simp: on_motion_def Let_def intro: km_moves_world split: option.splits)
  moreover have "km_moves m (maybe_cancel_drag_for_window win m)" for win
    by (simp add: maybe_cancel_drag_for_window_def)
  ultimately have "km_moves m (kb_on E ev m)" for ev
    by (cases ev) (auto simp: on_window_mapped_def km_moves_button [OF ok])
  moreover have "km_moves m (kb_on_reload E m)"
  proof -
    have "km_moves m (call_port [PUngrabAllKeys] (stop_drag m))" by (rule km_moves_trans [OF km_moves_stop km_moves_port])
    also have "km_moves (call_port [PUngrabAllKeys] (stop_drag m)) (kb_on_start E (call_port [PUngrabAllKeys] (stop_drag m)))"
      by (rule km_moves_start)
    finally show ?thesis unfolding kb_on_reload_def Let_def by (rule km_moves_trans) simp
  qed
  ultimately show ?thesis
    by (cases st) (auto simp: km_moves_start kb_on_init_def kb_on_lua_init_def kb_newindex_def moves_same_core
        intro!: km_moves_world intro: km_moves_same)
qed

text \<open>
  The module is a legal client of the core: if the Lua functions it calls are, then whatever it is asked to do,
  from a reachable core it leads to a reachable core.
\<close>
theorem keybindings_keep_core_reachable:
  assumes "kb_env_ok E" "core_reachable (w_core w)"
  shows "core_reachable (km_core (fold (kb_do E) sts (fresh_kb w)))"
proof -
  have "km_moves m (fold (kb_do E) sts m)" for m
    by (induction sts arbitrary: m) (auto intro: km_moves_trans km_moves_do [OF assms(1)])
  from this [of "fresh_kb w"] show ?thesis
    using core_reachable_run [OF assms(2)] by (simp add: km_moves_def moves_def km_core_def fresh_kb_def)
qed

lemma ex_kb_env_ok: "kb_env_ok ex_kb_env"
  by (simp add: kb_env_ok_def ex_kb_env_def)

theorem keybindings_keep_core_reachable_witness:
  "core_inv (km_core (fold (kb_do ex_kb_env) [Init, LuaInit, Start, Deliver (EvMotion 101 (1, 1) 0)] (fresh_kb ex_world)))"
  using keybindings_keep_core_reachable [OF ex_kb_env_ok ex_world_core(1)] core_reachable_inv by blast


section \<open>Dragging\<close>

lemma window_state_index:
  "window_index (wm c) win = Some p \<Longrightarrow> win \<noteq> NO_WINDOW \<Longrightarrow> window_state c win = Some (win_at c p)"
  by (simp add: window_state_def find_window_def find_window_in_all_def is_ws_valid_def NO_WORKSPACE_def)

lemma set_position_window:
  assumes "window_index (wm c) win = Some p"
  shows "window_index (wm (snd (set_window_position win pos c))) = window_index (wm c)"
    "win_at (snd (set_window_position win pos c)) p = (win_at c p)\<lparr>win_pos := pos\<rparr>"
  using assms by (simp_all add: set_window_position_def with_window_def find_window_in_all_def frame_simps)

lemma set_size_window:
  assumes "window_index (wm c) win = Some p"
  shows "window_index (wm (snd (set_window_size win sz c))) = window_index (wm c)"
    "win_at (snd (set_window_size win sz c)) p =
       (win_at c p)\<lparr>win_size := if floating (win_at c p) \<or> borderless (win_at c p) then apply_size_hints (win_at c p) sz else sz\<rparr>"
  using assms by (simp_all add: set_window_size_def with_window_def find_window_in_all_def frame_simps)

lemma move_motion:
  assumes "drag_active m" "dr_op (km_drag m) = DragMove" "window_index (wm (km_core m)) (dr_window (km_drag m)) = Some p"
  shows "km_drag (on_motion pos m) = km_drag m"
    "window_index (wm (km_core (on_motion pos m))) = window_index (wm (km_core m))"
    "win_at (km_core (on_motion pos m)) p = (win_at (km_core m) p)\<lparr>win_pos :=
       (fst (dr_win_pos (km_drag m)) + fst pos - fst (dr_start_root (km_drag m)),
        snd (dr_win_pos (km_drag m)) + snd pos - snd (dr_start_root (km_drag m)))\<rparr>"
  using assms set_position_window [OF assms(3)]
  by (simp_all add: on_motion_def Let_def in_world_def km_core_def dispatch_def upd_core_def algebra_simps)

lemma move_motions:
  assumes "drag_active m" "dr_op (km_drag m) = DragMove" "window_index (wm (km_core m)) (dr_window (km_drag m)) = Some p" "ps \<noteq> []"
  shows "km_drag (fold on_motion ps m) = km_drag m \<and>
    window_index (wm (km_core (fold on_motion ps m))) = window_index (wm (km_core m)) \<and>
    win_at (km_core (fold on_motion ps m)) p = (win_at (km_core m) p)\<lparr>win_pos :=
       (fst (dr_win_pos (km_drag m)) + fst (last ps) - fst (dr_start_root (km_drag m)),
        snd (dr_win_pos (km_drag m)) + snd (last ps) - snd (dr_start_root (km_drag m)))\<rparr>"
  using assms(4)
proof (induction ps rule: rev_induct)
  case (snoc q ps)
  show ?case
  proof (cases "ps = []")
    case True
    then show ?thesis using move_motion [OF assms(1-3)] by simp
  next
    case False
    let ?m = "fold on_motion ps m"
    from snoc.IH [OF False] have d: "km_drag ?m = km_drag m"
      and i: "window_index (wm (km_core ?m)) = window_index (wm (km_core m))"
      and x: "\<exists>v. win_at (km_core ?m) p = (win_at (km_core m) p)\<lparr>win_pos := v\<rparr>" by blast+
    have "drag_active ?m" "dr_op (km_drag ?m) = DragMove" "window_index (wm (km_core ?m)) (dr_window (km_drag ?m)) = Some p"
      using assms d i by (simp_all add: drag_active_def)
    from move_motion [OF this] d i x show ?thesis by auto
  qed
qed simp

text \<open>
  A dragged window follows the pointer without drift: however the pointer travelled, the window stands where it
  stood when the drag began, displaced by as much as the pointer is; nothing else of it changes. During a resize the
  window keeps its position and is never asked to be narrower or lower than 32 pixels.
\<close>
theorem drag_follows_pointer:
  assumes "drag_active m" "dr_window (km_drag m) = win" "window_index (wm (km_core m)) win = Some p"
  shows "(dr_op (km_drag m) = DragMove \<and> ps \<noteq> [] \<longrightarrow>
      window_state (km_core (fold on_motion ps m)) win = Some ((win_at (km_core m) p)\<lparr>win_pos :=
        (fst (dr_win_pos (km_drag m)) + fst (last ps) - fst (dr_start_root (km_drag m)),
         snd (dr_win_pos (km_drag m)) + snd (last ps) - snd (dr_start_root (km_drag m)))\<rparr>)) \<and>
    (dr_op (km_drag m) = DragResize \<longrightarrow>
      (\<exists>w h. w \<ge> 32 \<and> h \<ge> 32 \<and> (w > 32 \<longrightarrow> fst (win_pos (win_at (km_core m) p)) + w = fst pos) \<and>
        (h > 32 \<longrightarrow> snd (win_pos (win_at (km_core m) p)) + h = snd pos) \<and>
        window_state (km_core (on_motion pos m)) win = Some ((win_at (km_core m) p)\<lparr>win_size :=
          if floating (win_at (km_core m) p) \<or> borderless (win_at (km_core m) p)
          then apply_size_hints (win_at (km_core m) p) (w, h) else (w, h)\<rparr>)))"
proof (intro conjI impI)
  have win: "win \<noteq> NO_WINDOW" using assms(1,2) by (auto simp: drag_active_def)
  let ?x = "win_at (km_core m) p"
  { assume "dr_op (km_drag m) = DragMove \<and> ps \<noteq> []"
    with move_motions [of m p ps] assms win show "window_state (km_core (fold on_motion ps m)) win = Some (?x\<lparr>win_pos :=
        (fst (dr_win_pos (km_drag m)) + fst (last ps) - fst (dr_start_root (km_drag m)),
         snd (dr_win_pos (km_drag m)) + snd (last ps) - snd (dr_start_root (km_drag m)))\<rparr>)"
      by (subst window_state_index) auto }
  assume op: "dr_op (km_drag m) = DragResize"
  let ?w = "max 32 (fst pos - fst (win_pos ?x))" let ?h = "max 32 (snd pos - snd (win_pos ?x))"
  have "km_core (on_motion pos m) = snd (set_window_size win (?w, ?h) (km_core m))"
    using assms op window_state_index [OF assms(3) win]
    by (simp add: on_motion_def Let_def in_world_def km_core_def dispatch_def upd_core_def MIN_WIN_SIZE_def)
  then have "window_state (km_core (on_motion pos m)) win = Some (?x\<lparr>win_size :=
      if floating ?x \<or> borderless ?x then apply_size_hints ?x (?w, ?h) else (?w, ?h)\<rparr>)"
    using set_size_window [OF assms(3), of "(?w, ?h)"] assms(3) win by (subst window_state_index) auto
  then show "\<exists>w h. w \<ge> 32 \<and> h \<ge> 32 \<and> (w > 32 \<longrightarrow> fst (win_pos ?x) + w = fst pos) \<and> (h > 32 \<longrightarrow> snd (win_pos ?x) + h = snd pos) \<and>
      window_state (km_core (on_motion pos m)) win = Some (?x\<lparr>win_size :=
        if floating ?x \<or> borderless ?x then apply_size_hints ?x (w, h) else (w, h)\<rparr>)"
    by (intro exI [of _ ?w] exI [of _ ?h]) auto
qed

definition ex_dragging :: kb_module where
  "ex_dragging = (fresh_kb ex_world)\<lparr>km_drag := \<lparr>dr_op = DragMove, dr_window = 101, dr_start_root = (10, 10),
     dr_win_pos = (100, 100), dr_win_size = (300, 200)\<rparr>\<rparr>"

lemma ex_dragging_facts:
  "drag_active ex_dragging" "dr_window (km_drag ex_dragging) = 101" "dr_op (km_drag ex_dragging) = DragMove"
  "wm (km_core ex_dragging) = wm ex_core" "window_index (wm ex_core) 101 = Some 0"
proof -
  show "window_index (wm ex_core) 101 = Some 0" by code_simp
qed (simp_all add: ex_dragging_def drag_active_def NO_WINDOW_def km_core_def fresh_kb_def ex_world_def set_config_path_def)

theorem drag_follows_pointer_witness:
  "\<exists>x. window_state (km_core (fold on_motion [(50, 50), (0, 7), (15, 30)] ex_dragging)) 101 = Some x \<and> win_pos x = (105, 120)"
proof -
  have i: "window_index (wm (km_core ex_dragging)) 101 = Some 0" using ex_dragging_facts by simp
  from drag_follows_pointer [OF ex_dragging_facts(1,2) i, of "[(50, 50), (0, 7), (15, 30)]"]
  show ?thesis using ex_dragging_facts(3) by (simp add: ex_dragging_def)
qed

text \<open>
  C39. A window dropped after a move belongs to the workspace shown where it was dropped: when its centre lies on a monitor
  that shows a workspace, releasing the button, when no callback of the user is bound to that release, puts the window there, leaves every other window where it was, and
  ends the drag.
\<close>
theorem dropped_window_changes_workspace:
  assumes "drag_active m" "dr_op (km_drag m) = DragMove" "dr_window (km_drag m) = win"
    and "core_inv (km_core m)" "window_index (wm (km_core m)) win = Some p"
    and "find (\<lambda>mon. contains mon (vec2i_center (win_pos (win_at (km_core m) p)) (win_size (win_at (km_core m) p))))
           (monitors (wm (km_core m))) = Some mon"
    and "is_ws_valid (wm (km_core m)) (active_ws mon)"
    and "\<forall>mb\<in>set (mouse_bindings (km_world m)). mb_button mb = ucast button \<and> mb_mods mb = strip_mods st \<longrightarrow> release_callback mb = None"
  shows "let m' = on_button E ev_win pos button st True m in
    window_workspace (wm (km_core m')) = (window_workspace (wm (km_core m)))(win \<mapsto> active_ws mon) \<and>
    window_index (wm (km_core m')) = window_index (wm (km_core m)) \<and> \<not> drag_active m'"
proof -
  have win: "win \<noteq> NO_WINDOW" using assms(1,3) by (auto simp: drag_active_def)
  have "fold f mbs m = m" if "\<forall>mb\<in>set mbs. f mb m = m" for f :: "mouse_binding \<Rightarrow> kb_module \<Rightarrow> kb_module" and mbs
    using that by (induction mbs) auto
  then have cb: "run_mouse_callbacks E ev_win pos button (strip_mods st) True m = m"
    unfolding run_mouse_callbacks_def using assms(8) by (auto simp: call_mouse_ref_def)
  have ws: "window_state (km_core m) win = Some (win_at (km_core m) p)" by (rule window_state_index [OF assms(5) win])
  have valid: "active_ws mon \<ge> 0" using assms(7) by (simp add: is_ws_valid_def)
  define cur where "cur = workspace_of_window (wm (km_core m)) win"
  have dw: "drop_window win (km_world m) =
      (if active_ws mon \<noteq> cur then dispatch (MoveWindowToWorkspace win (active_ws mon)) (km_world m) else km_world m)"
    unfolding drop_window_def Let_def cur_def using ws assms(6) valid by (simp add: km_core_def)
  have inv: "core_ok (km_core m)" using assms(4) by (simp add: core_inv_def)
  let ?w = "drop_window win (km_world m)"
  have 1: "window_workspace (wm (w_core ?w)) = (window_workspace (wm (km_core m)))(win \<mapsto> active_ws mon) \<and>
      window_index (wm (w_core ?w)) = window_index (wm (km_core m))"
  proof (cases "active_ws mon = cur")
    case True
    have "window_workspace (wm (km_core m)) win = Some cur"
      using True valid win unfolding cur_def workspace_of_window_def by (auto split: option.splits simp: NO_WORKSPACE_def)
    then show ?thesis using dw True by (simp add: fun_upd_idem km_core_def)
  next
    case False
    obtain ok c' where r: "dispatch_MoveWindowToWorkspace win (active_ws mon) (km_core m) = (ok, c')" by fastforce
    from MoveWindowToWorkspace_spec [OF inv assms(5,7) r] show ?thesis
      using dw False r by (simp add: dispatch_def upd_core_def km_core_def)
  qed
  have "on_button E ev_win pos button st True m = stop_drag (in_world (drop_window win) m)"
    unfolding on_button_def Let_def cb using assms(1-3) by simp
  moreover have "km_core (stop_drag m2) = km_core m2" for m2 by (simp add: stop_drag_def km_core_def call_port_def)
  ultimately show ?thesis using 1 by (simp add: Let_def km_core_def in_world_def)
qed

definition ex_moved :: core where
  "ex_moved = snd (dispatch_atom (SetWindowPosition 101 (2000, 100)) ex_core)"

theorem dropped_window_changes_workspace_witness:
  "window_workspace (wm (km_core (on_button ex_kb_env 101 (0, 0) 1 0 True
     (ex_dragging\<lparr>km_world := ex_world\<lparr>w_core := ex_moved\<rparr>\<rparr>)))) 101 = Some 1"
proof -
  let ?m = "ex_dragging\<lparr>km_world := ex_world\<lparr>w_core := ex_moved\<rparr>\<rparr>"
  have c: "km_core ?m = ex_moved" by (simp add: km_core_def)
  have d: "drag_active ?m" "dr_op (km_drag ?m) = DragMove" "dr_window (km_drag ?m) = 101"
    by (simp_all add: ex_dragging_def drag_active_def NO_WINDOW_def)
  have "core_run ex_core ex_moved" unfolding ex_moved_def by (rule run_step [OF run_refl core_step.atom])
  then have inv: "core_inv (km_core ?m)"
    using core_reachable_run [OF ex_reachable(2)] core_reachable_inv unfolding c by blast
  have "window_index (wm ex_moved) 101 = Some 0" "is_ws_valid (wm ex_moved) 1"
    "map_option active_ws (find (\<lambda>mon. contains mon (vec2i_center (win_pos (win_at ex_moved 0)) (win_size (win_at ex_moved 0))))
       (monitors (wm ex_moved))) = Some 1" by code_simp+
  then obtain mon where mon: "find (\<lambda>mon. contains mon (vec2i_center (win_pos (win_at (km_core ?m) 0)) (win_size (win_at (km_core ?m) 0))))
       (monitors (wm (km_core ?m))) = Some mon" "active_ws mon = 1" "window_index (wm (km_core ?m)) 101 = Some 0"
    "is_ws_valid (wm (km_core ?m)) (active_ws mon)" unfolding c by auto
  have "mouse_bindings (km_world ?m) = []" by (simp add: mouse_bindings_def) code_simp
  then show ?thesis
    using dropped_window_changes_workspace [OF d inv mon(3,1,4), of 1 0 ex_kb_env 101 "(0, 0)"] mon(2) by (simp add: Let_def)
qed

section \<open>Bindings that never fire\<close>

lemma stripped_bit: "strip_mods mods AND MOD_STRIP_MASK = 0"
  by (simp add: strip_mods_def and.assoc)

lemma find_none: "\<forall>x\<in>set xs. \<not> P x \<Longrightarrow> find P xs = None"
  by (simp add: find_None_iff)

lemma mod2_key_accepted:
  assumes q: "keysym_from_name E ''q'' \<noteq> 0"
  shows "parse_key E pm ''mod2+q'' = Inr (MOD_2, keysym_from_name E ''q'')"
proof -
  have "key_tokens pm [''mod2'', ''q''] = [''q'']" "all_mods pm [''mod2'', ''q''] = MOD_2" "keysym_of E ''q'' = keysym_from_name E ''q''"
    using q by (simp_all add: key_tokens_def all_mods_def keysym_of_def modifier_of_def parse_binding_modifier_token_def
        parse_physical_modifier_def parse_modifier_name_def lower_ascii_def lower_ascii_char_def mod_defs)
  then have l: "parse_key_loop E pm [''mod2'', ''q''] 0 0 = Inr (MOD_2, keysym_from_name E ''q'')"
    using q by (subst parse_key_loop_iff) simp
  have g: "getlines CHR ''+'' ''mod2+q'' = [''mod2'', ''q'']" by code_simp
  show ?thesis unfolding parse_key_def g l using q by simp
qed

lemma button257_accepted: "parse_mouse_spec pm ''mod4+button257'' = Inr (MOD_4, 257)"
proof -
  have g: "getlines CHR ''+'' ''mod4+button257'' = [''mod4'', ''button257'']" by code_simp
  have m: "parse_binding_modifier_token pm ''mod4'' = Inr MOD_4"
    by (simp add: parse_binding_modifier_token_def parse_physical_modifier_def parse_modifier_name_def lower_ascii_def
        lower_ascii_char_def mod_defs)
  have l: "lower_ascii ''mod4'' = ''mod4''" "lower_ascii ''button257'' = ''button257''" by code_simp+
  have n: "stoul ''257'' = Some 257" by (simp add: stoul_def is_space_def is_digit_def digits_value_def Let_def)
  show ?thesis unfolding parse_mouse_spec_def g by (simp add: l m n)
qed

text \<open>
  Num lock and caps lock are removed from the state of an event before it is compared, but not from a binding: a key
  or mouse binding that asks for \<^verbatim>\<open>mod2\<close> is accepted and can never fire. Nor can a mouse binding for a button
  beyond 255, of which only the low eight bits are grabbed.
\<close>
theorem stripped_bindings_dead:
  assumes "\<forall>kb\<in>set (keybindings (km_core m)). kb_keysym kb = keysym \<longrightarrow> kb_mods kb AND MOD_STRIP_MASK \<noteq> 0"
    and "\<forall>mb\<in>set (mouse_bindings (km_world m)). mb_mods mb AND MOD_STRIP_MASK \<noteq> 0 \<or> mb_button mb \<ge> 256"
  shows "on_key_press E mods keysym m = m \<and> on_button E win pos button st False m = m \<and>
    (keysym_from_name E ''q'' \<noteq> 0 \<longrightarrow> parse_key E pm ''mod2+q'' = Inr (MOD_2, keysym_from_name E ''q'')) \<and>
    parse_mouse_spec pm ''mod4+button257'' = Inr (MOD_4, 257)"
proof (intro conjI impI)
  have "find (\<lambda>kb. kb_keysym kb = keysym \<and> kb_mods kb = strip_mods mods) (keybindings (km_core m)) = None"
    using assms(1) stripped_bit by (auto simp: find_None_iff)
  then show "on_key_press E mods keysym m = m" by (simp add: on_key_press_def)
  have "unat (ucast button :: 32 word) = unat button" by (simp add: unsigned_ucast_eq take_bit_nat_eq_self_iff unsigned_less [THEN less_le_trans])
  then have "(ucast button :: 32 word) < 256"
    using unsigned_less [of button, where ?'a = nat] by (simp add: word_less_nat_alt)
  then have other: "mb_button mb \<noteq> ucast button \<or> mb_mods mb \<noteq> strip_mods st"
    if "mb \<in> set (mouse_bindings (km_world m))" for mb
    using assms(2) stripped_bit [of st] that by (metis leD)
  then have "find_builtin (mouse_bindings (km_world m)) button (strip_mods st) = MouseNone"
    by (auto simp: find_builtin_def find_none)
  moreover have "fold f mbs m = m" if "\<forall>mb\<in>set mbs. f mb m = m" for f :: "mouse_binding \<Rightarrow> kb_module \<Rightarrow> kb_module" and mbs
    using that by (induction mbs) auto
  then have "run_mouse_callbacks E win pos button (strip_mods st) False m = m"
    unfolding run_mouse_callbacks_def using other by simp
  ultimately show "on_button E win pos button st False m = m" by (simp add: on_button_def press_builtin_def Let_def)
qed (rule mod2_key_accepted button257_accepted; assumption?)+

theorem stripped_bindings_dead_witness:
  "on_key_press ex_kb_env MOD_2 0x71 (fresh_kb (upd_core (register_keybinding MOD_2 0x71 5) ex_world)) =
     fresh_kb (upd_core (register_keybinding MOD_2 0x71 5) ex_world) \<and> parse_key ex_kb_env 0 ''mod2+q'' = Inr (MOD_2, 0x71)"
proof -
  let ?m = "fresh_kb (upd_core (register_keybinding MOD_2 0x71 5) ex_world)"
  have "keybindings (w_core ex_world) = []" by (simp add: ex_world_def set_config_path_def ex_core_code ex_boot_code)
  then have k: "\<forall>kb\<in>set (keybindings (km_core ?m)). kb_keysym kb = 0x71 \<longrightarrow> kb_mods kb AND MOD_STRIP_MASK \<noteq> 0"
    by (simp add: km_core_def fresh_kb_def upd_core_def register_keybinding_def mod_defs)
  have "mouse_bindings ex_world = []" by code_simp
  then have "mouse_bindings (km_world ?m) = []" by (simp add: fresh_kb_def upd_core_def mouse_bindings_def)
  then have "\<forall>mb\<in>set (mouse_bindings (km_world ?m)). mb_mods mb AND MOD_STRIP_MASK \<noteq> 0 \<or> mb_button mb \<ge> 256" by simp
  from stripped_bindings_dead [OF k this, of ex_kb_env MOD_2 0 "(0, 0)" 1 0 0] show ?thesis by (simp add: ex_kb_env_def)
qed

end
