(* ===== verification/Child_Processes.thy ===== *)
theory Child_Processes
  imports Text_Input "HOL-Library.AList"
begin

text \<open>
  The children that survive a restart of the window manager: \<^verbatim>\<open>class ChildProcessRegistry\<close>
  (\<^verbatim>\<open>src/process/child_process_registry.cpp\<close>) and what \<^verbatim>\<open>src/main.cpp\<close> does with it before the runtime starts:
  command line, configuration paths, and the embedded display server.

  What the operating system answers is the record \<open>os_view\<close>: which processes are alive, which paths are sockets, the
  outcome of \<^verbatim>\<open>pipe\<close> and \<^verbatim>\<open>fork\<close>, and for every tick of the wait what the child's output and \<^verbatim>\<open>waitpid\<close> give. The
  processes that get \<^verbatim>\<open>SIGTERM\<close> are recorded in order. An environment is an association list in the order the
  table is traversed.
\<close>

section \<open>Data\<close>

type_synonym environment = "(string \<times> string) list"

record managed_child_spec =
  spec_role :: string
  spec_argv :: "string list"
  required_env_keys :: "string list"
  startup_timeout_ms :: int

record managed_child_info =
  info_pid :: int
  info_owned :: bool
  info_env :: environment

record entry =
  en_role :: string
  en_pid :: int
  en_owned :: bool
  en_env :: environment

definition no_entry :: entry where
  "no_entry = \<lparr>en_role = [], en_pid = -1, en_owned = False, en_env = []\<rparr>"

record child_registry =
  entries :: "entry list"
  state_file :: "string option"
  terminated :: "int list"

record tick =
  tk_readable :: bool
  tk_chunk :: string
  tk_exited :: bool

record os_view =
  process_exists :: "int \<Rightarrow> bool"
  is_socket :: "string \<Rightarrow> bool"
  env_var :: "string \<rightharpoonup> string"
  uid_string :: string
  pipe_ok :: bool
  fork_pid :: int
  ticks :: "nat \<Rightarrow> tick"
  state_writable :: bool

section \<open>The state file\<close>

definition env_line :: "string \<times> string \<Rightarrow> string" where
  "env_line kv = ''env.'' @ fst kv @ ''='' @ snd kv @ [newline]"

definition savable :: "entry \<Rightarrow> bool" where
  "savable e \<longleftrightarrow> en_role e \<noteq> [] \<and> en_pid e > 0"

definition entry_text :: "entry \<Rightarrow> string" where
  "entry_text e =
     ''role='' @ en_role e @ [newline] @ ''pid='' @ int_to_string (en_pid e) @ [newline] @
     ''owned='' @ (if en_owned e then ''1'' else ''0'') @ [newline] @
     concat (map env_line (en_env e)) @ ''---'' @ [newline]"

definition state_text :: "entry list \<Rightarrow> string" where
  "state_text es = concat (map entry_text (filter savable es))"

definition save_state :: "os_view \<Rightarrow> child_registry \<Rightarrow> child_registry" where
  "save_state V R = (if state_writable V then R\<lparr>state_file := Some (state_text (entries R))\<rparr> else R)"

text \<open>One line that is not the separator, applied to the entry being read.\<close>

definition read_line :: "string \<Rightarrow> entry \<Rightarrow> entry" where
  "read_line line e =
     (if take 5 line = ''role='' then e\<lparr>en_role := drop 5 line\<rparr>
      else if take 4 line = ''pid='' then e\<lparr>en_pid := narrow32 (fst (strtol10 (drop 4 line)))\<rparr>
      else if take 6 line = ''owned='' then e\<lparr>en_owned := (drop 6 line = ''1'')\<rparr>
      else if take 4 line = ''env.'' then
        (let rest = drop 4 line; key = takeWhile (\<lambda>ch. ch \<noteq> CHR ''='') rest
         in if CHR ''='' \<notin> set rest \<or> key = [] then e
            else e\<lparr>en_env := AList.update key (drop (length key + 1) rest) (en_env e)\<rparr>)
      else e)"

fun load_lines :: "string list \<Rightarrow> bool \<Rightarrow> entry \<Rightarrow> entry list \<Rightarrow> entry list" where
  "load_lines [] in_entry cur es = (if in_entry \<and> savable cur then es @ [cur] else es)"
| "load_lines (line # lines) in_entry cur es =
     (if line = [] then load_lines lines in_entry cur es
      else if line = ''---'' then load_lines lines False no_entry (if in_entry \<and> savable cur then es @ [cur] else es)
      else load_lines lines True (read_line line cur) es)"

definition load_state :: "string option \<Rightarrow> entry list" where
  "load_state file = (case file of None \<Rightarrow> [] | Some txt \<Rightarrow> load_lines (getlines newline txt) False no_entry [])"

definition construct_registry :: "string option \<Rightarrow> child_registry" where
  "construct_registry file = \<lparr>entries = load_state file, state_file = file, terminated = []\<rparr>"

section \<open>Checks\<close>

definition has_all_keys :: "environment \<Rightarrow> string list \<Rightarrow> bool" where
  "has_all_keys env ks \<longleftrightarrow> list_all (\<lambda>k. case map_of env k of None \<Rightarrow> False | Some v \<Rightarrow> v \<noteq> []) ks"

definition is_process_alive :: "os_view \<Rightarrow> int \<Rightarrow> bool" where
  "is_process_alive V i \<longleftrightarrow> i > 0 \<and> process_exists V i"

definition child_runtime_dir :: "os_view \<Rightarrow> string" where
  "child_runtime_dir V =
     (case env_var V ''XDG_RUNTIME_DIR'' of
        Some xdg \<Rightarrow> if xdg \<noteq> [] then xdg else ''/tmp/sirenwm-runtime-'' @ uid_string V
      | None \<Rightarrow> ''/tmp/sirenwm-runtime-'' @ uid_string V)"

definition wayland_socket_exists :: "os_view \<Rightarrow> string \<Rightarrow> bool" where
  "wayland_socket_exists V d \<longleftrightarrow> d \<noteq> [] \<and> is_socket V (child_runtime_dir V @ ''/'' @ d)"

definition entry_ready :: "os_view \<Rightarrow> entry \<Rightarrow> string list \<Rightarrow> bool" where
  "entry_ready V e ks \<longleftrightarrow>
     en_pid e > 0 \<and> is_process_alive V (en_pid e) \<and> has_all_keys (en_env e) ks \<and>
     (case map_of (en_env e) ''WAYLAND_DISPLAY'' of None \<Rightarrow> True | Some d \<Rightarrow> wayland_socket_exists V d)"

definition find_entry :: "string \<Rightarrow> entry list \<Rightarrow> entry option" where
  "find_entry r es = find (\<lambda>e. en_role e = r) es"

text \<open>A change of the entry \<open>find_entry\<close> points to.\<close>

fun upd_entry :: "string \<Rightarrow> (entry \<Rightarrow> entry) \<Rightarrow> entry list \<Rightarrow> entry list" where
  "upd_entry r f [] = []"
| "upd_entry r f (e # es) = (if en_role e = r then f e # es else e # upd_entry r f es)"

definition drop_child :: "entry \<Rightarrow> entry" where
  "drop_child e = e\<lparr>en_pid := -1, en_env := []\<rparr>"

definition erase_dead :: "entry list \<Rightarrow> entry list" where
  "erase_dead es = filter (\<lambda>e. \<not> en_pid e \<le> 0) es"

definition info_of :: "entry \<Rightarrow> managed_child_info" where
  "info_of e = \<lparr>info_pid = en_pid e, info_owned = en_owned e, info_env = en_env e\<rparr>"

definition adopt :: "os_view \<Rightarrow> string \<Rightarrow> string list \<Rightarrow> child_registry \<Rightarrow> managed_child_info option \<times> child_registry" where
  "adopt V r ks R =
     (case find_entry r (entries R) of
        None \<Rightarrow> (None, R)
      | Some e \<Rightarrow>
          if \<not> entry_ready V e ks
          then (None, save_state V (R\<lparr>entries := erase_dead (upd_entry r drop_child (entries R))\<rparr>))
          else (Some (info_of e), R))"

section \<open>Starting a child\<close>

definition env_key_char :: "char \<Rightarrow> bool" where
  "env_key_char ch \<longleftrightarrow> ch = CHR ''_'' \<or> 65 \<le> (of_char ch :: nat) \<and> (of_char ch :: nat) \<le> 90 \<or> is_digit ch"

definition parse_env_line :: "string \<Rightarrow> (string \<times> string) option" where
  "parse_env_line line =
     (let key = takeWhile (\<lambda>ch. ch \<noteq> CHR ''='') line
      in if CHR ''='' \<notin> set line \<or> key = [] \<or> \<not> list_all env_key_char key then None
         else Some (key, drop (length key + 1) line))"

text \<open>The complete lines of the buffer and what is left of it.\<close>

function take_lines :: "string \<Rightarrow> string list \<times> string" where
  "take_lines s =
     (if newline \<notin> set s then ([], s)
      else (let (ls, r) = take_lines (tl (dropWhile (\<lambda>ch. ch \<noteq> newline) s))
            in (takeWhile (\<lambda>ch. ch \<noteq> newline) s # ls, r)))"
  by auto
termination
proof (relation "measure length")
  fix s :: string
  assume "\<not> newline \<notin> set s"
  moreover have "length (dropWhile (\<lambda>ch. ch \<noteq> newline) s) \<le> length s" by (rule length_dropWhile_le)
  ultimately have "length (tl (dropWhile (\<lambda>ch. ch \<noteq> newline) s)) < length s" by (cases s) auto
  then show "(tl (dropWhile (\<lambda>ch. ch \<noteq> newline) s), s) \<in> measure length" by simp
qed simp

declare take_lines.simps [simp del]

definition add_env_line :: "string \<Rightarrow> environment \<Rightarrow> environment" where
  "add_env_line line env = (case parse_env_line line of Some (k, v) \<Rightarrow> AList.update k v env | None \<Rightarrow> env)"

definition take_chunk :: "tick \<Rightarrow> string \<times> environment \<Rightarrow> string \<times> environment" where
  "take_chunk t be =
     (if tk_readable t \<and> tk_chunk t \<noteq> []
      then (let (ls, r) = take_lines (fst be @ tk_chunk t) in (r, fold add_env_line ls (snd be))) else be)"

fun wait_loop :: "tick list \<Rightarrow> string list \<Rightarrow> string \<times> environment \<Rightarrow> bool \<times> environment" where
  "wait_loop [] ks be = (False, snd be)"
| "wait_loop (t # ts) ks be =
     (let be1 = take_chunk t be in
      if has_all_keys (snd be1) ks then (True, snd be1)
      else if tk_exited t then (False, snd be1)
      else wait_loop ts ks be1)"

definition wait_ticks :: "os_view \<Rightarrow> int \<Rightarrow> tick list" where
  "wait_ticks V timeout_ms = map (ticks V) [0..<nat (max 1 (timeout_ms sdiv 100))]"

definition wait_for_env_lines :: "os_view \<Rightarrow> string list \<Rightarrow> int \<Rightarrow> bool \<times> environment" where
  "wait_for_env_lines V ks timeout_ms = wait_loop (wait_ticks V timeout_ms) ks ([], [])"

datatype child_error = RoleEmpty | ArgvEmpty | PipeFailed | ForkFailed | NotPublished

definition spawn :: "os_view \<Rightarrow> managed_child_spec \<Rightarrow> child_registry \<Rightarrow> (child_error + entry) \<times> child_registry" where
  "spawn V spec R =
     (if \<not> pipe_ok V then (Inl PipeFailed, R)
      else if fork_pid V < 0 then (Inl ForkFailed, R)
      else
        (let (ready, env) = wait_for_env_lines V (required_env_keys spec) (startup_timeout_ms spec) in
         if \<not> ready then (Inl NotPublished, R\<lparr>terminated := terminated R @ [fork_pid V]\<rparr>)
         else (Inr \<lparr>en_role = spec_role spec, en_pid = fork_pid V, en_owned = True, en_env = env\<rparr>, R)))"

definition stop_existing :: "os_view \<Rightarrow> string \<Rightarrow> child_registry \<Rightarrow> child_registry" where
  "stop_existing V r R =
     (case find_entry r (entries R) of
        None \<Rightarrow> R
      | Some e \<Rightarrow>
          (let R1 = (if en_owned e \<and> is_process_alive V (en_pid e) then R\<lparr>terminated := terminated R @ [en_pid e]\<rparr> else R)
           in R1\<lparr>entries := upd_entry r drop_child (entries R1)\<rparr>))"

definition spawn_or_adopt ::
  "os_view \<Rightarrow> managed_child_spec \<Rightarrow> child_registry \<Rightarrow> (child_error + managed_child_info) \<times> child_registry" where
  "spawn_or_adopt V spec R =
     (if spec_role spec = [] then (Inl RoleEmpty, R)
      else if spec_argv spec = [] \<or> hd (spec_argv spec) = [] then (Inl ArgvEmpty, R)
      else
        (case adopt V (spec_role spec) (required_env_keys spec) R of
           (Some info, R1) \<Rightarrow> (Inr info, R1)
         | (None, R1) \<Rightarrow>
             (case spawn V spec (stop_existing V (spec_role spec) R1) of
                (Inl err, R2) \<Rightarrow> (Inl err, R2)
              | (Inr e, R2) \<Rightarrow>
                  (Inr (info_of e),
                   save_state V (R2\<lparr>entries := filter (\<lambda>x. en_role x \<noteq> spec_role spec) (entries R2) @ [e]\<rparr>)))))"

section \<open>Shutting down\<close>

definition shutdown_entry :: "os_view \<Rightarrow> entry \<Rightarrow> bool \<times> int list \<times> entry list \<Rightarrow> bool \<times> int list \<times> entry list" where
  "shutdown_entry V e acc =
     (case acc of (changed, killed, es) \<Rightarrow>
        if \<not> en_owned e \<or> en_pid e \<le> 0 then (changed, killed, es @ [e])
        else if \<not> is_process_alive V (en_pid e) then (True, killed, es @ [drop_child e])
        else (True, killed @ [en_pid e], es @ [drop_child e]))"

definition shutdown_owned :: "os_view \<Rightarrow> child_registry \<Rightarrow> child_registry" where
  "shutdown_owned V R =
     (let (changed, killed, es) = fold (shutdown_entry V) (entries R) (False, [], []);
          R1 = R\<lparr>entries := es, terminated := terminated R @ killed\<rparr>
      in if changed then save_state V (R1\<lparr>entries := erase_dead es\<rparr>) else R1)"

section \<open>The lock\<close>

text \<open>
  \<^verbatim>\<open>flock\<close> locks belong to an open file description. Opening the file makes a new one; a descriptor without
  \<^verbatim>\<open>O_CLOEXEC\<close> keeps its description open across \<^verbatim>\<open>exec\<close>. \<open>None\<close> is a call that waits for a description nobody unlocks.
\<close>

record lock_file =
  next_description :: nat
  lock_holder :: "nat option"

definition lock :: "bool \<Rightarrow> lock_file \<Rightarrow> (nat option \<times> lock_file) option" where
  "lock openable L =
     (if \<not> openable then Some (None, L)
      else if lock_holder L = None
      then Some (Some (next_description L), L\<lparr>next_description := next_description L + 1, lock_holder := Some (next_description L)\<rparr>)
      else None)"

definition unlock :: "nat option \<Rightarrow> lock_file \<Rightarrow> lock_file" where
  "unlock fd L =
     (case fd of None \<Rightarrow> L | Some d \<Rightarrow> if lock_holder L = Some d then L\<lparr>lock_holder := None\<rparr> else L)"

text \<open>The two ways a process that holds the registry ends: \<^verbatim>\<open>main\<close> returns, which destroys it, or calls \<^verbatim>\<open>execvp\<close>.\<close>

definition end_process :: "bool \<Rightarrow> nat option \<Rightarrow> lock_file \<Rightarrow> lock_file" where
  "end_process exec_restart fd L = (if exec_restart then L else unlock fd L)"

section \<open>Before the runtime starts\<close>

text \<open>The pieces between the delimiters, an empty one at the end included.\<close>

fun split_on :: "char \<Rightarrow> string \<Rightarrow> string list" where
  "split_on d [] = [[]]"
| "split_on d (ch # s) = (if ch = d then [] # split_on d s else (ch # hd (split_on d s)) # tl (split_on d s))"

definition try_default :: "(string \<Rightarrow> bool) \<Rightarrow> string \<Rightarrow> string" where
  "try_default exists dir = (let p = dir @ ''/sirenwm/init.lua.default'' in if exists p then p else [])"

fun first_default :: "(string \<Rightarrow> bool) \<Rightarrow> string list \<Rightarrow> string" where
  "first_default exists [] = []"
| "first_default exists (dir # dirs) =
     (let p = try_default exists dir in if p \<noteq> [] then p else first_default exists dirs)"

definition resolve_default_config_path :: "(string \<Rightarrow> bool) \<Rightarrow> (string \<rightharpoonup> string) \<Rightarrow> string" where
  "resolve_default_config_path exists env =
     (let r0 = (case env ''XDG_DATA_DIRS'' of None \<Rightarrow> [] | Some dirs \<Rightarrow> first_default exists (split_on CHR '':'' dirs));
          r1 = (if r0 = [] then try_default exists ''/usr/local/share'' else r0)
      in if r1 = [] then try_default exists ''/usr/share'' else r1)"

definition resolve_user_config_path :: "(string \<rightharpoonup> string) \<Rightarrow> string" where
  "resolve_user_config_path env =
     (case env ''HOME'' of None \<Rightarrow> ''init.lua'' | Some home \<Rightarrow> home @ ''/.config/sirenwm/init.lua'')"

record cli_options =
  display_server_mode :: bool
  display_width :: int
  display_height :: int

definition default_cli :: cli_options where
  "default_cli = \<lparr>display_server_mode = False, display_width = 1280, display_height = 720\<rparr>"

text \<open>\<^verbatim>\<open>%d\<close> of \<^verbatim>\<open>sscanf\<close>.\<close>

definition scan_int :: "string \<Rightarrow> (int \<times> string) option" where
  "scan_int s = (let (v, r) = strtol10 s in if length r = length s then None else Some (narrow32 v, r))"

definition parse_size_arg :: "string \<Rightarrow> (int \<times> int) option" where
  "parse_size_arg spec =
     (case scan_int (takeWhile (\<lambda>ch. ch \<noteq> CHR 0x00) spec) of
        Some (pw, ch # r) \<Rightarrow>
          if ch \<noteq> CHR ''x'' then None
          else (case scan_int r of
                  Some (ph, _) \<Rightarrow> if pw \<le> 0 \<or> ph \<le> 0 then None else Some (pw, ph)
                | None \<Rightarrow> None)
      | _ \<Rightarrow> None)"

definition set_size :: "(int \<times> int) option \<Rightarrow> cli_options \<Rightarrow> cli_options" where
  "set_size wh opts = (case wh of Some (w, h) \<Rightarrow> opts\<lparr>display_width := w, display_height := h\<rparr> | None \<Rightarrow> opts)"

fun parse_cli :: "string list \<Rightarrow> cli_options \<Rightarrow> cli_options" where
  "parse_cli [] opts = opts"
| "parse_cli (arg # args) opts =
     (if arg = ''--display-server'' then parse_cli args (opts\<lparr>display_server_mode := True\<rparr>)
      else if arg = ''--size'' then
        (case args of
           [] \<Rightarrow> opts
         | v # rest \<Rightarrow> if parse_size_arg v \<noteq> None then parse_cli rest (set_size (parse_size_arg v) opts) else parse_cli args opts)
      else if take 7 arg = ''--size='' then parse_cli args (set_size (parse_size_arg (drop 7 arg)) opts)
      else parse_cli args opts)"

definition setenv :: "string \<Rightarrow> string \<Rightarrow> os_view \<Rightarrow> os_view" where
  "setenv k v V = V\<lparr>env_var := (env_var V)(k \<mapsto> v)\<rparr>"

definition unsetenv :: "string \<Rightarrow> os_view \<Rightarrow> os_view" where
  "unsetenv k V = V\<lparr>env_var := (env_var V)(k := None)\<rparr>"

definition export_var :: "string \<Rightarrow> environment \<Rightarrow> os_view \<Rightarrow> os_view" where
  "export_var k env V = (case map_of env k of Some v \<Rightarrow> if v \<noteq> [] then setenv k v V else V | None \<Rightarrow> V)"

definition display_server_spec :: "string \<Rightarrow> managed_child_spec" where
  "display_server_spec exec_path =
     \<lparr>spec_role = ''display-server'', spec_argv = [exec_path, ''--display-server''],
      required_env_keys = [''WAYLAND_DISPLAY'', ''SIRENWM_IPC_SOCKET''], startup_timeout_ms = 10000\<rparr>"

definition adopt_running :: "os_view \<Rightarrow> string \<Rightarrow> child_registry \<Rightarrow> os_view \<times> child_registry" where
  "adopt_running V d R =
     (case adopt V ''display-server'' [''WAYLAND_DISPLAY''] R of
        (Some info, R1) \<Rightarrow>
          (if map_of (info_env info) ''WAYLAND_DISPLAY'' = Some d
           then export_var ''DISPLAY'' (info_env info) (export_var ''SIRENWM_IPC_SOCKET'' (info_env info) V) else V, R1)
      | (None, R1) \<Rightarrow> (V, R1))"

definition publish_endpoints :: "environment \<Rightarrow> string \<Rightarrow> os_view \<Rightarrow> os_view" where
  "publish_endpoints env d V =
     (let V1 = export_var ''SIRENWM_IPC_SOCKET'' env (setenv ''WAYLAND_DISPLAY'' d V)
      in case map_of env ''DISPLAY'' of
           Some x \<Rightarrow> if x \<noteq> [] then setenv ''DISPLAY'' x V1 else unsetenv ''DISPLAY'' V1
         | None \<Rightarrow> unsetenv ''DISPLAY'' V1)"

definition ensure_embedded_display_server ::
  "os_view \<Rightarrow> string \<Rightarrow> child_registry \<Rightarrow> bool \<times> os_view \<times> child_registry" where
  "ensure_embedded_display_server V exec_path R =
     (case env_var V ''WAYLAND_DISPLAY'' of
        Some (ch # d) \<Rightarrow> (case adopt_running V (ch # d) R of (V1, R1) \<Rightarrow> (True, V1, R1))
      | _ \<Rightarrow>
          (case spawn_or_adopt V (display_server_spec exec_path) R of
             (Inl err, R1) \<Rightarrow> (False, V, R1)
           | (Inr info, R1) \<Rightarrow>
               (case map_of (info_env info) ''WAYLAND_DISPLAY'' of
                  Some (ch # d) \<Rightarrow> (True, publish_endpoints (info_env info) (ch # d) V, R1)
                | _ \<Rightarrow> (False, V, R1))))"

end
