(* ===== verification/Child_Processes_Properties.thy ===== *)
theory Child_Processes_Properties
  imports Child_Processes
begin

text \<open>
  What the process registry guarantees: its file gives its entries back, waiting for a child depends on the text the
  child writes and not on how it arrives, children are terminated exactly when they are owned; and where it fails:
  a child that is not ready is forgotten while it runs, and the lock is still held after an exec-restart.
\<close>

section \<open>The state file\<close>

definition key_safe :: "string \<Rightarrow> bool" where
  "key_safe k \<longleftrightarrow> k \<noteq> [] \<and> CHR ''='' \<notin> set k \<and> newline \<notin> set k"

definition text_safe :: "entry \<Rightarrow> bool" where
  "text_safe e \<longleftrightarrow> newline \<notin> set (en_role e) \<and> en_pid e < 2 ^ 31 \<and> distinct (map fst (en_env e)) \<and>
     (\<forall>(k, v)\<in>set (en_env e). key_safe k \<and> newline \<notin> set v)"

definition env_text :: "string \<times> string \<Rightarrow> string" where
  "env_text kv = ''env.'' @ fst kv @ ''='' @ snd kv"

definition lines_of :: "entry \<Rightarrow> string list" where
  "lines_of e = [''role='' @ en_role e, ''pid='' @ int_to_string (en_pid e), ''owned='' @ (if en_owned e then ''1'' else ''0'')] @
     map env_text (en_env e) @ [''---'']"

lemma getlines_text: "\<forall>l\<in>set ls. newline \<notin> set l \<Longrightarrow> getlines newline (concat (map (\<lambda>l. l @ [newline]) ls) @ s) = ls @ getlines newline s"
  by (induction ls) (auto simp: getlines_Cons)

lemma entry_text_lines: "entry_text e = concat (map (\<lambda>l. l @ [newline]) (lines_of e))"
  by (simp add: entry_text_def lines_of_def env_line_def [abs_def] env_text_def [abs_def] comp_def)

lemma lines_of_safe: "text_safe e \<Longrightarrow> \<forall>l\<in>set (lines_of e). newline \<notin> set l"
proof -
  assume e: "text_safe e"
  have "newline \<notin> set (env_text kv)" if "kv \<in> set (en_env e)" for kv
    using e that by (fastforce simp: text_safe_def env_text_def key_safe_def newline_def)
  moreover have "newline \<notin> set (''owned='' @ (if en_owned e then ''1'' else ''0''))" by (simp add: newline_def)
  ultimately show ?thesis
    using e no_newline_to_string [of "en_pid e"] by (auto simp: lines_of_def text_safe_def newline_def)
qed

lemma read_env_text:
  assumes "key_safe (fst kv)" "fst kv \<notin> fst ` set (en_env e)"
  shows "read_line (env_text kv) e = e\<lparr>en_env := en_env e @ [kv]\<rparr>"
proof -
  let ?r = "fst kv @ ''='' @ snd kv"
  have k: "takeWhile (\<lambda>ch. ch \<noteq> CHR ''='') ?r = fst kv"
    using assms(1) by (subst takeWhile_append2) (auto simp: key_safe_def)
  have u: "AList.update (fst kv) (snd kv) xs = xs @ [kv]" if "fst kv \<notin> fst ` set xs" for xs
    using that by (induction xs) auto
  show ?thesis using k u [OF assms(2)] assms(1) by (simp add: read_line_def env_text_def Let_def key_safe_def)
qed

lemma load_env_lines:
  assumes "\<forall>(k, v)\<in>set kvs. key_safe k" "distinct (map fst (en_env cur @ kvs))"
  shows "load_lines (map env_text kvs @ ls) True cur es = load_lines ls True (cur\<lparr>en_env := en_env cur @ kvs\<rparr>) es"
  using assms
proof (induction kvs arbitrary: cur)
  case (Cons kv kvs)
  then have "read_line (env_text kv) cur = cur\<lparr>en_env := en_env cur @ [kv]\<rparr>"
    by (intro read_env_text) (auto simp: case_prod_unfold)
  moreover have "env_text kv \<noteq> []" "env_text kv \<noteq> ''---''" by (simp_all add: env_text_def)
  ultimately show ?case using Cons by simp
qed simp

lemma load_entry:
  assumes "savable e" "text_safe e"
  shows "load_lines (lines_of e @ ls) False no_entry es = load_lines ls False no_entry (es @ [e])"
proof -
  let ?e = "\<lparr>en_role = en_role e, en_pid = en_pid e, en_owned = en_owned e, en_env = []\<rparr>"
  have pid: "narrow32 (fst (strtol10 (int_to_string (en_pid e)))) = en_pid e"
    using assms by (subst strtol10_print) (auto simp: savable_def text_safe_def intro!: narrow32_id)
  have "load_lines (lines_of e @ ls) False no_entry es = load_lines (map env_text (en_env e) @ ''---'' # ls) True ?e es"
    by (simp add: lines_of_def read_line_def no_entry_def pid)
  also have "\<dots> = load_lines (''---'' # ls) True (?e\<lparr>en_env := en_env e\<rparr>) es"
    using assms(2) by (subst load_env_lines) (auto simp: text_safe_def)
  also have "?e\<lparr>en_env := en_env e\<rparr> = e" by simp
  finally show ?thesis using assms(1) by simp
qed

lemma load_entries:
  "\<forall>e\<in>set es. savable e \<and> text_safe e \<Longrightarrow>
   load_lines (concat (map lines_of es)) False no_entry acc = acc @ es"
proof (induction es arbitrary: acc)
  case (Cons e es)
  then show ?case using load_entry [of e "concat (map lines_of es)" acc] by simp
qed simp

lemma all_lines: "concat (map (\<lambda>e. concat (map f (g e))) es) = concat (map f (concat (map g es)))"
  by (induction es) simp_all

lemma load_state_text: "\<forall>e\<in>set es. savable e \<and> text_safe e \<Longrightarrow> load_state (Some (state_text es)) = es"
proof -
  assume ok: "\<forall>e\<in>set es. savable e \<and> text_safe e"
  then have "filter savable es = es" by simp
  then have "state_text es = concat (map (\<lambda>l. l @ [newline]) (concat (map lines_of es)))"
    by (simp add: state_text_def entry_text_lines [abs_def] all_lines)
  moreover have "\<forall>l\<in>set (concat (map lines_of es)). newline \<notin> set l" using ok lines_of_safe by fastforce
  ultimately have "getlines newline (state_text es) = concat (map lines_of es)"
    using getlines_text [of "concat (map lines_of es)" "[]"] by simp
  then show ?thesis using load_entries [OF ok, of "[]"] by (simp add: load_state_def)
qed

section \<open>Waiting for a child\<close>

lemma take_lines_none: "newline \<notin> set s \<Longrightarrow> take_lines s = ([], s)"
  by (simp add: take_lines.simps)

lemma take_lines_line: "newline \<notin> set l \<Longrightarrow> take_lines (l @ newline # s) = (l # fst (take_lines s), snd (take_lines s))"
proof -
  assume "newline \<notin> set l"
  then have "takeWhile (\<lambda>ch. ch \<noteq> newline) (l @ newline # s) = l" "dropWhile (\<lambda>ch. ch \<noteq> newline) (l @ newline # s) = newline # s"
    by (induction l) auto
  then show ?thesis by (subst take_lines.simps) (simp add: case_prod_unfold Let_def)
qed

text \<open>Complete lines do not depend on where the text was cut.\<close>

lemma take_lines_append:
  "take_lines (s @ t) = (fst (take_lines s) @ fst (take_lines (snd (take_lines s) @ t)), snd (take_lines (snd (take_lines s) @ t)))"
proof (induction s rule: take_lines.induct)
  case (1 s)
  show ?case
  proof (cases "newline \<in> set s")
    case True
    then obtain l r where s: "s = l @ newline # r" "newline \<notin> set l" by (metis split_list_first)
    then have "dropWhile (\<lambda>ch. ch \<noteq> newline) s = newline # r" by (induction l arbitrary: s) auto
    with 1 True have "take_lines (r @ t) = (fst (take_lines r) @ fst (take_lines (snd (take_lines r) @ t)), snd (take_lines (snd (take_lines r) @ t)))"
      by simp
    then show ?thesis using s take_lines_line [of l "r @ t"] take_lines_line [of l r] by simp
  qed (simp add: take_lines_none)
qed

text \<open>What the child has written up to a tick, and the variables it has published with it.\<close>

definition received :: "tick list \<Rightarrow> string" where
  "received ts = concat (map (\<lambda>t. if tk_readable t then tk_chunk t else []) ts)"

definition env_of :: "string \<Rightarrow> environment" where
  "env_of s = fold add_env_line (fst (take_lines s)) []"

definition buffered :: "string \<Rightarrow> string \<times> environment" where
  "buffered s = (snd (take_lines s), env_of s)"

lemma received_Nil [simp]: "received [] = []"
  by (simp add: received_def)

lemma take_chunk_buffered: "take_chunk t (buffered s) = buffered (s @ (if tk_readable t then tk_chunk t else []))"
  using take_lines_append [of s "tk_chunk t"]
  by (auto simp: take_chunk_def buffered_def env_of_def case_prod_unfold Let_def)

lemma first_index_Suc:
  "(\<exists>k<Suc n. P k \<and> (\<forall>j<k. Q j)) \<longleftrightarrow> P 0 \<or> (Q 0 \<and> (\<exists>k<n. P (Suc k) \<and> (\<forall>j<k. Q (Suc j))))"
proof
  assume "\<exists>k<Suc n. P k \<and> (\<forall>j<k. Q j)"
  then obtain k where k: "k < Suc n" "P k" "\<forall>j<k. Q j" by blast
  show "P 0 \<or> (Q 0 \<and> (\<exists>k<n. P (Suc k) \<and> (\<forall>j<k. Q (Suc j))))"
  proof (cases k)
    case (Suc k')
    then show ?thesis using k by (intro disjI2 conjI exI [of _ k']) auto
  qed (use k in simp)
next
  assume "P 0 \<or> (Q 0 \<and> (\<exists>k<n. P (Suc k) \<and> (\<forall>j<k. Q (Suc j))))"
  then show "\<exists>k<Suc n. P k \<and> (\<forall>j<k. Q j)"
  proof
    assume "Q 0 \<and> (\<exists>k<n. P (Suc k) \<and> (\<forall>j<k. Q (Suc j)))"
    then obtain k where "k < n" "P (Suc k)" "\<forall>j<Suc k. Q j" by (auto simp: less_Suc_eq_0_disj)
    then show ?thesis by (intro exI [of _ "Suc k"]) simp
  qed auto
qed

definition published :: "string list \<Rightarrow> environment \<Rightarrow> string \<Rightarrow> bool" where
  "published ks env s \<longleftrightarrow> env = env_of s \<and> has_all_keys env ks"

lemma wait_loop_spec:
  "wait_loop ts ks (buffered s) = (True, env) \<longleftrightarrow>
     (\<exists>k<length ts. published ks env (s @ received (take (Suc k) ts)) \<and>
        (\<forall>j<k. \<not> has_all_keys (env_of (s @ received (take (Suc j) ts))) ks \<and> \<not> tk_exited (ts ! j)))"
proof (induction ts arbitrary: s)
  case (Cons t ts)
  define s1 where "s1 = s @ (if tk_readable t then tk_chunk t else [])"
  have r: "s @ received (take (Suc k) (t # ts)) = s1 @ received (take k ts)" for k by (simp add: received_def s1_def)
  have w: "wait_loop (t # ts) ks (buffered s) =
      (if has_all_keys (env_of s1) ks then (True, env_of s1) else if tk_exited t then (False, env_of s1)
       else wait_loop ts ks (buffered s1))"
    by (simp add: take_chunk_buffered s1_def [symmetric] Let_def) (simp add: buffered_def)
  show ?case
    unfolding w r length_Cons first_index_Suc using Cons.IH [of s1]
    by (auto simp: published_def simp del: take_Suc_Cons)
qed simp

text \<open>
  C40. Waiting for the variables a child publishes depends only on the text the child has written, not on how reads cut it
  into pieces: the wait succeeds exactly when, in some tick before the time is up, the complete lines written so far
  define all required variables, and in no earlier tick they did or the child had exited; it then yields exactly
  these variables.
\<close>
theorem wait_ignores_chunks:
  "wait_for_env_lines V ks timeout_ms = (True, env) \<longleftrightarrow>
     (\<exists>k<length (wait_ticks V timeout_ms). published ks env (received (take (Suc k) (wait_ticks V timeout_ms))) \<and>
        (\<forall>j<k. \<not> has_all_keys (env_of (received (take (Suc j) (wait_ticks V timeout_ms)))) ks \<and>
               \<not> tk_exited (wait_ticks V timeout_ms ! j)))"
proof -
  have "buffered [] = ([], [])" by (simp add: buffered_def env_of_def take_lines_none)
  then show ?thesis
    using wait_loop_spec [of "wait_ticks V timeout_ms" ks "[]" env] by (simp add: wait_for_env_lines_def)
qed

section \<open>The registry\<close>

text \<open>The entries can be written and read back, there is one per role, and the file holds them.\<close>

definition reg_ok :: "child_registry \<Rightarrow> bool" where
  "reg_ok R \<longleftrightarrow> (\<forall>e\<in>set (entries R). savable e \<and> text_safe e) \<and> distinct (map en_role (entries R)) \<and>
     load_state (state_file R) = entries R"

lemma reg_ok_save:
  "state_writable V \<Longrightarrow> \<forall>e\<in>set es. savable e \<and> text_safe e \<Longrightarrow> distinct (map en_role es) \<Longrightarrow>
   reg_ok (save_state V (R\<lparr>entries := es\<rparr>))"
  by (simp add: reg_ok_def save_state_def load_state_text)

lemma find_entry_None: "find_entry r es = None \<longleftrightarrow> r \<notin> en_role ` set es"
  by (auto simp: find_entry_def find_None_iff)

lemma erase_dropped:
  "\<forall>e\<in>set es. en_pid e > 0 \<Longrightarrow> distinct (map en_role es) \<Longrightarrow>
   erase_dead (upd_entry r drop_child es) = filter (\<lambda>e. en_role e \<noteq> r) es"
proof (induction es)
  case (Cons e es)
  have "filter (\<lambda>e. \<not> en_pid e \<le> 0) es = filter (\<lambda>e. en_role e \<noteq> r) es" if "en_role e = r"
    using Cons.prems that by (intro filter_cong) (auto simp: image_iff)
  then show ?case using Cons by (auto simp: erase_dead_def drop_child_def)
qed (simp add: erase_dead_def)

lemma reg_okD: "reg_ok R \<Longrightarrow> \<forall>e\<in>set (entries R). en_pid e > 0 \<and> en_role e \<noteq> []" "reg_ok R \<Longrightarrow> distinct (map en_role (entries R))"
  by (auto simp: reg_ok_def savable_def)

lemma distinct_filter_roles: "distinct (map en_role es) \<Longrightarrow> distinct (map en_role (filter P es))"
  by (rule distinct_map_filter)

lemma adopt_cases:
  assumes "reg_ok R" "state_writable V"
  obtains (adopted) e where "find_entry r (entries R) = Some e" "entry_ready V e ks" "adopt V r ks R = (Some (info_of e), R)"
  | (refused) R1 where "adopt V r ks R = (None, R1)" "reg_ok R1" "entries R1 = filter (\<lambda>e. en_role e \<noteq> r) (entries R)"
    "terminated R1 = terminated R"
proof (cases "find_entry r (entries R)")
  case None
  then have "filter (\<lambda>e. en_role e \<noteq> r) (entries R) = entries R" by (auto simp: find_entry_None filter_id_conv image_iff)
  then show ?thesis using refused [of R] None assms by (simp add: adopt_def)
next
  case (Some e)
  let ?es = "erase_dead (upd_entry r drop_child (entries R))"
  have es: "?es = filter (\<lambda>e. en_role e \<noteq> r) (entries R)" using erase_dropped reg_okD [OF assms(1)] by blast
  have "reg_ok (save_state V (R\<lparr>entries := ?es\<rparr>))"
    unfolding es using assms by (intro reg_ok_save distinct_filter_roles) (auto simp: reg_ok_def)
  then show ?thesis
    using refused [of "save_state V (R\<lparr>entries := ?es\<rparr>)"] adopted [OF Some] Some es
    by (cases "entry_ready V e ks") (auto simp: adopt_def save_state_def)
qed

lemma stop_existing_absent: "find_entry r (entries R) = None \<Longrightarrow> stop_existing V r R = R"
  by (simp add: stop_existing_def)

text \<open>The variables taken from the output of a child can be written to the file.\<close>

lemma parse_env_line_safe: "parse_env_line l = Some (k, v) \<Longrightarrow> newline \<notin> set l \<Longrightarrow> key_safe k \<and> newline \<notin> set v"
proof -
  assume p: "parse_env_line l = Some (k, v)" and l: "newline \<notin> set l"
  then have k: "k = takeWhile (\<lambda>ch. ch \<noteq> CHR ''='') l" "k \<noteq> []" "v = drop (length k + 1) l"
    by (auto simp: parse_env_line_def Let_def split: if_splits)
  then have "set k \<subseteq> set l" "set v \<subseteq> set l" using set_takeWhileD set_drop_subset by fast+
  then show ?thesis using k l by (auto simp: key_safe_def dest: set_takeWhileD)
qed

lemma take_lines_no_newline: "l \<in> set (fst (take_lines s)) \<Longrightarrow> newline \<notin> set l"
proof (induction s rule: take_lines.induct)
  case (1 s)
  show ?case
  proof (cases "newline \<in> set s")
    case True
    then obtain a r where s: "s = a @ newline # r" "newline \<notin> set a" by (metis split_list_first)
    then have "dropWhile (\<lambda>ch. ch \<noteq> newline) s = newline # r" by (induction a arbitrary: s) auto
    then show ?thesis using 1 True s take_lines_line [of a r] by auto
  qed (use 1 in \<open>simp add: take_lines_none\<close>)
qed

definition env_safe :: "environment \<Rightarrow> bool" where
  "env_safe env \<longleftrightarrow> distinct (map fst env) \<and> (\<forall>(k, v)\<in>set env. key_safe k \<and> newline \<notin> set v)"

lemma env_safe_add: "env_safe env \<Longrightarrow> newline \<notin> set l \<Longrightarrow> env_safe (add_env_line l env)"
proof (cases "parse_env_line l")
  case (Some kv)
  assume env: "env_safe env" "newline \<notin> set l"
  obtain k v where kv: "kv = (k, v)" by fastforce
  have "key_safe k \<and> newline \<notin> set v" using parse_env_line_safe Some kv env by simp
  moreover have "set (AList.update k v env) \<subseteq> insert (k, v) (set env)" by (induction env) auto
  ultimately show ?thesis using env Some kv by (fastforce simp: add_env_line_def env_safe_def distinct_update)
qed (simp add: add_env_line_def)

lemma env_safe_of: "env_safe (env_of s)"
proof -
  have "env_safe (fold add_env_line ls env)" if "env_safe env" "\<forall>l\<in>set ls. newline \<notin> set l" for ls env
    using that by (induction ls arbitrary: env) (auto intro: env_safe_add)
  moreover have "env_safe []" by (simp add: env_safe_def)
  ultimately show ?thesis unfolding env_of_def using take_lines_no_newline by blast
qed

lemma wait_env_safe: "wait_for_env_lines V ks t = (True, env) \<Longrightarrow> env_safe env \<and> has_all_keys env ks"
proof -
  assume "wait_for_env_lines V ks t = (True, env)"
  then have "wait_loop (wait_ticks V t) ks (buffered []) = (True, env)"
    by (simp add: wait_for_env_lines_def buffered_def env_of_def take_lines_none)
  then show ?thesis unfolding wait_loop_spec using env_safe_of by (auto simp: published_def)
qed

lemma spawn_cases:
  obtains (failed) err ps where "spawn V spec R = (Inl err, R\<lparr>terminated := terminated R @ ps\<rparr>)" "set ps \<subseteq> {fork_pid V}"
  | (started) env where "spawn V spec R = (Inr \<lparr>en_role = spec_role spec, en_pid = fork_pid V, en_owned = True, en_env = env\<rparr>, R)"
      "env_safe env" "has_all_keys env (required_env_keys spec)"
proof (cases "pipe_ok V \<and> \<not> fork_pid V < 0")
  case True
  obtain ready env where w: "wait_for_env_lines V (required_env_keys spec) (startup_timeout_ms spec) = (ready, env)" by fastforce
  show ?thesis
  proof (cases ready)
    case True
    then show ?thesis using started \<open>pipe_ok V \<and> \<not> fork_pid V < 0\<close> w wait_env_safe [of V "required_env_keys spec"] by (simp add: spawn_def)
  next
    case False
    then show ?thesis using failed [of NotPublished "[fork_pid V]"] \<open>pipe_ok V \<and> \<not> fork_pid V < 0\<close> w by (simp add: spawn_def)
  qed
next
  case False
  then show ?thesis
    using failed [of PipeFailed "[]"] failed [of ForkFailed "[]"] by (cases "pipe_ok V") (simp_all add: spawn_def)
qed

text \<open>The processes the operating system can return: a positive 32-bit number in the parent.\<close>

definition fork_ok :: "os_view \<Rightarrow> bool" where
  "fork_ok V \<longleftrightarrow> fork_pid V \<noteq> 0 \<and> fork_pid V < 2 ^ 31"

lemma spawn_or_adopt_cases:
  assumes "reg_ok R" "state_writable V" "fork_ok V" "newline \<notin> set (spec_role spec)"
  obtains (failed) err R1 ps where "spawn_or_adopt V spec R = (Inl err, R1)" "reg_ok R1" "terminated R1 = terminated R @ ps"
      "set ps \<subseteq> {fork_pid V}"
      "spec_role spec = [] \<or> spec_argv spec = [] \<or> hd (spec_argv spec) = [] \<or> spec_role spec \<notin> en_role ` set (entries R1)"
  | (running) e where "spawn_or_adopt V spec R = (Inr (info_of e), R)" "find_entry (spec_role spec) (entries R) = Some e"
      "entry_ready V e (required_env_keys spec)"
  | (started) e R1 where "spawn_or_adopt V spec R = (Inr (info_of e), R1)" "reg_ok R1" "terminated R1 = terminated R"
      "entries R1 = filter (\<lambda>x. en_role x \<noteq> spec_role spec) (entries R) @ [e]" "en_role e = spec_role spec" "en_owned e"
      "en_pid e = fork_pid V" "has_all_keys (en_env e) (required_env_keys spec)"
proof (cases "spec_role spec = [] \<or> spec_argv spec = [] \<or> hd (spec_argv spec) = []")
  case True
  then show ?thesis using failed [of RoleEmpty R "[]"] failed [of ArgvEmpty R "[]"] assms(1)
    by (cases "spec_role spec = []") (auto simp: spawn_or_adopt_def)
next
  case spec: False
  show ?thesis
  proof (rule adopt_cases [OF assms(1,2), of "spec_role spec" "required_env_keys spec"])
    fix e
    assume "find_entry (spec_role spec) (entries R) = Some e" "entry_ready V e (required_env_keys spec)"
      "adopt V (spec_role spec) (required_env_keys spec) R = (Some (info_of e), R)"
    then show thesis using running spec by (simp add: spawn_or_adopt_def)
  next
    fix R1
    assume a: "adopt V (spec_role spec) (required_env_keys spec) R = (None, R1)" and ok: "reg_ok R1"
      and es: "entries R1 = filter (\<lambda>e. en_role e \<noteq> spec_role spec) (entries R)" and t: "terminated R1 = terminated R"
    have absent: "spec_role spec \<notin> en_role ` set (entries R1)" using es by auto
    then have stop: "stop_existing V (spec_role spec) R1 = R1" by (intro stop_existing_absent) (simp add: find_entry_None)
    show thesis
    proof (cases rule: spawn_cases [of V spec R1])
      case (failed err ps)
      then show ?thesis using that(1) [of err "R1\<lparr>terminated := terminated R1 @ ps\<rparr>" ps] a spec stop ok t absent
        by (simp add: spawn_or_adopt_def reg_ok_def)
    next
      case (started env)
      define e where "e = \<lparr>en_role = spec_role spec, en_pid = fork_pid V, en_owned = True, en_env = env\<rparr>"
      have "fork_pid V > 0" using started assms(3) by (auto simp: spawn_def fork_ok_def split: if_splits)
      then have "savable e \<and> text_safe e"
        using spec started(2) assms(3,4) by (auto simp: e_def savable_def text_safe_def env_safe_def fork_ok_def)
      moreover have es1: "filter (\<lambda>x. en_role x \<noteq> spec_role spec) (entries R1) = entries R1" using absent by (force simp: filter_id_conv image_iff)
      ultimately have "reg_ok (save_state V (R1\<lparr>entries := entries R1 @ [e]\<rparr>))"
        using ok absent assms(2) by (intro reg_ok_save) (auto simp: reg_ok_def e_def)
      then show ?thesis
        using that(3) [of e "save_state V (R1\<lparr>entries := entries R1 @ [e]\<rparr>)"] a spec stop started es es1 t assms(2)
        by (simp add: spawn_or_adopt_def e_def save_state_def)
    qed
  qed
qed

text \<open>
  C38. The registry survives a restart of the window manager: as long as the state file can be written, a registry that is
  consistent (one entry for each role, each naming a process and fit for the format of the file, the file holding exactly
  these entries) is consistent again after any request for a child or adoption, so that reading the state file gives
  exactly the entries in memory.
\<close>
theorem registry_survives_restart:
  assumes "reg_ok R" "state_writable V" "fork_ok V" "newline \<notin> set (spec_role spec)"
    and "R' \<in> {snd (spawn_or_adopt V spec R), snd (adopt V r ks R)}"
  shows "entries (construct_registry (state_file R')) = entries R' \<and> distinct (map en_role (entries R')) \<and>
    (\<forall>e\<in>set (entries R'). en_pid e > 0) \<and> reg_ok R'"
proof -
  have "reg_ok (snd (spawn_or_adopt V spec R))"
    by (rule spawn_or_adopt_cases [OF assms(1-4)]) (use assms(1) in simp_all)
  moreover have "reg_ok (snd (adopt V r ks R))" by (rule adopt_cases [OF assms(1,2), of r ks]) (use assms(1) in simp_all)
  ultimately have "reg_ok R'" using assms(5) by blast
  then show ?thesis using reg_okD [of R'] by (auto simp: construct_registry_def reg_ok_def)
qed

definition ex_view :: os_view where
  "ex_view = \<lparr>process_exists = (\<lambda>i. i = 7), is_socket = (\<lambda>_. True), env_var = Map.empty, uid_string = ''1000'', pipe_ok = True,
     fork_pid = 42, ticks = (\<lambda>n. \<lparr>tk_readable = n < 2,
       tk_chunk = (if n = 0 then ''WAYLAND_DIS'' else ''PLAY=w1'' @ [newline] @ ''SIRENWM_IPC_SOCKET=s'' @ [newline]), tk_exited = False\<rparr>),
     state_writable = True\<rparr>"

definition ex_registry :: child_registry where
  "ex_registry = construct_registry None"

lemma ex_registry_ok: "reg_ok ex_registry" "state_writable ex_view" "fork_ok ex_view"
  by (simp_all add: ex_registry_def reg_ok_def construct_registry_def load_state_def ex_view_def fork_ok_def)

theorem wait_ignores_chunks_witness:
  "wait_for_env_lines ex_view [''WAYLAND_DISPLAY''] 300 = (True, [(''WAYLAND_DISPLAY'', ''w1''), (''SIRENWM_IPC_SOCKET'', ''s'')])"
proof -
  let ?ts = "wait_ticks ex_view 300"
  have ts: "?ts = map (ticks ex_view) [0, 1, 2]" by (simp add: wait_ticks_def upt_rec numeral_eq_Suc)
  have first: "\<not> has_all_keys (env_of (received [ticks ex_view 0])) [''WAYLAND_DISPLAY'']"
    "published [''WAYLAND_DISPLAY''] [(''WAYLAND_DISPLAY'', ''w1''), (''SIRENWM_IPC_SOCKET'', ''s'')]
       (received [ticks ex_view 0, ticks ex_view 1])"
    "\<not> tk_exited (ticks ex_view 0)"
    by code_simp+
  show ?thesis
    unfolding wait_ignores_chunks by (rule exI [of _ 1]) (use first in \<open>simp add: ts\<close>)
qed

theorem registry_survives_restart_witness:
  "reg_ok (snd (spawn_or_adopt ex_view (display_server_spec ''siren'') ex_registry))"
  using registry_survives_restart [OF ex_registry_ok, of "display_server_spec ''siren''"]
  by (simp add: display_server_spec_def newline_def)

section \<open>Termination of children\<close>

lemma shutdown_fold:
  "fold (shutdown_entry V) es (c, ks, acc) =
     (c \<or> (\<exists>e\<in>set es. en_owned e \<and> en_pid e > 0),
      ks @ map en_pid (filter (\<lambda>e. en_owned e \<and> is_process_alive V (en_pid e)) es),
      acc @ map (\<lambda>e. if en_owned e \<and> en_pid e > 0 then drop_child e else e) es)"
  by (induction es arbitrary: c ks acc) (auto simp: shutdown_entry_def is_process_alive_def)

lemma shutdown_eq:
  assumes "reg_ok R"
  shows "entries (shutdown_owned V R) = filter (\<lambda>e. \<not> en_owned e) (entries R) \<and>
    terminated (shutdown_owned V R) = terminated R @ map en_pid (filter (\<lambda>e. en_owned e \<and> process_exists V (en_pid e)) (entries R))"
proof -
  have pos: "\<forall>e\<in>set (entries R). en_pid e > 0" using reg_okD [OF assms] by blast
  have "erase_dead (map (\<lambda>e. if en_owned e \<and> en_pid e > 0 then drop_child e else e) es) = filter (\<lambda>e. \<not> en_owned e) es"
    if "\<forall>e\<in>set es. en_pid e > 0" for es
    using that by (induction es) (auto simp: erase_dead_def drop_child_def)
  moreover have "map (\<lambda>e. if en_owned e \<and> en_pid e > 0 then drop_child e else e) es = filter (\<lambda>e. \<not> en_owned e) es"
    if "\<not> (\<exists>e\<in>set es. en_owned e \<and> en_pid e > 0)" "\<forall>e\<in>set es. en_pid e > 0" for es
    using that by (induction es) auto
  moreover have "filter (\<lambda>e. en_owned e \<and> is_process_alive V (en_pid e)) (entries R) =
      filter (\<lambda>e. en_owned e \<and> process_exists V (en_pid e)) (entries R)"
    using pos by (intro filter_cong) (auto simp: is_process_alive_def)
  ultimately show ?thesis
    using pos by (simp add: shutdown_owned_def shutdown_fold Let_def save_state_def)
qed

text \<open>
  At the end of the session exactly the children the window manager started and that still run are terminated, each
  once; children it only adopted keep their entries and keep running. Doing it twice terminates nothing more, and
  the file agrees with what is left.
\<close>
theorem shutdown_terminates_owned:
  assumes "reg_ok R" "state_writable V"
  shows "let R' = shutdown_owned V R in
    terminated R' = terminated R @ map en_pid (filter (\<lambda>e. en_owned e \<and> process_exists V (en_pid e)) (entries R)) \<and>
    entries R' = filter (\<lambda>e. \<not> en_owned e) (entries R) \<and> reg_ok R' \<and> terminated (shutdown_owned V R') = terminated R'"
proof -
  note eq = shutdown_eq [OF assms(1), of V]
  have "reg_ok (shutdown_owned V R)"
  proof (cases "\<exists>e\<in>set (entries R). en_owned e \<and> en_pid e > 0")
    case True
    then have "state_file (shutdown_owned V R) = Some (state_text (entries (shutdown_owned V R)))"
      using assms(2) by (simp add: shutdown_owned_def shutdown_fold Let_def save_state_def)
    then show ?thesis using assms(1) eq load_state_text [of "entries (shutdown_owned V R)"]
      by (auto simp: reg_ok_def intro: distinct_filter_roles)
  next
    case False
    then have "filter (\<lambda>e. \<not> en_owned e) (entries R) = entries R" using reg_okD [OF assms(1)] by (auto simp: filter_id_conv)
    moreover have "state_file (shutdown_owned V R) = state_file R"
      using False by (auto simp: shutdown_owned_def shutdown_fold Let_def)
    ultimately show ?thesis using assms(1) eq by (simp add: reg_ok_def)
  qed
  from shutdown_eq [OF this, of V] eq this show ?thesis by (simp add: Let_def)
qed

theorem shutdown_terminates_owned_witness:
  "let e = \<lparr>en_role = ''d'', en_pid = 7, en_owned = True, en_env = []\<rparr>;
       R = \<lparr>entries = [e], state_file = Some (state_text [e]), terminated = []\<rparr>
   in terminated (shutdown_owned ex_view R) = [7]"
proof -
  let ?e = "\<lparr>en_role = ''d'', en_pid = 7, en_owned = True, en_env = []\<rparr>"
  let ?R = "\<lparr>entries = [?e], state_file = Some (state_text [?e]), terminated = []\<rparr>"
  have "savable ?e" "text_safe ?e" by (simp_all add: savable_def text_safe_def newline_def)
  then have "reg_ok ?R" using load_state_text [of "[?e]"] by (simp add: reg_ok_def)
  from shutdown_terminates_owned [OF this ex_registry_ok(2)] show ?thesis by (simp add: Let_def ex_view_def)
qed

text \<open>
  A running child that is not ready for adoption (a required variable is missing, or its socket is gone) is never
  terminated, although the code has a branch for it: its entry is erased first, so it is forgotten and keeps
  running. Asking for a child terminates at most the process just started.
\<close>
theorem unready_child_orphaned:
  assumes "reg_ok R" "state_writable V" "fork_ok V" "newline \<notin> set (spec_role spec)"
    and "spec_role spec \<noteq> []" "spec_argv spec \<noteq> []" "hd (spec_argv spec) \<noteq> []"
    and "find_entry (spec_role spec) (entries R) = Some e" "\<not> entry_ready V e (required_env_keys spec)"
    and "spawn_or_adopt V spec R = (res, R')" "en_pid e \<noteq> fork_pid V" "en_pid e \<notin> set (terminated R)"
  shows "en_pid e \<notin> set (terminated R') \<and> e \<notin> set (entries R') \<and>
    (\<exists>ps. terminated R' = terminated R @ ps \<and> set ps \<subseteq> {fork_pid V})"
proof (rule spawn_or_adopt_cases [OF assms(1-4)])
  have role: "en_role e = spec_role spec" using assms(8) by (auto simp: find_entry_def find_Some_iff)
  fix err R1 ps
  assume "spawn_or_adopt V spec R = (Inl err, R1)" "terminated R1 = terminated R @ ps" "set ps \<subseteq> {fork_pid V}"
    "spec_role spec = [] \<or> spec_argv spec = [] \<or> hd (spec_argv spec) = [] \<or> spec_role spec \<notin> en_role ` set (entries R1)"
  then show ?thesis using assms(5-7,10-12) role by (force simp: image_iff)
next
  fix d
  assume "find_entry (spec_role spec) (entries R) = Some d" "entry_ready V d (required_env_keys spec)"
  then show ?thesis using assms(8,9) by simp
next
  have role: "en_role e = spec_role spec" using assms(8) by (auto simp: find_entry_def find_Some_iff)
  fix d R1
  assume "spawn_or_adopt V spec R = (Inr (info_of d), R1)" "terminated R1 = terminated R"
    "entries R1 = filter (\<lambda>x. en_role x \<noteq> spec_role spec) (entries R) @ [d]" "en_pid d = fork_pid V"
  then show ?thesis using assms(10-12) role by auto
qed

theorem unready_child_orphaned_witness:
  "let e = \<lparr>en_role = ''display-server'', en_pid = 7, en_owned = True, en_env = []\<rparr>;
       R = \<lparr>entries = [e], state_file = Some (state_text [e]), terminated = []\<rparr>;
       R' = snd (spawn_or_adopt ex_view (display_server_spec ''siren'') R)
   in is_process_alive ex_view 7 \<and> 7 \<notin> set (terminated R') \<and> e \<notin> set (entries R')"
proof -
  let ?e = "\<lparr>en_role = ''display-server'', en_pid = 7, en_owned = True, en_env = []\<rparr>"
  let ?R = "\<lparr>entries = [?e], state_file = Some (state_text [?e]), terminated = []\<rparr>"
  let ?s = "display_server_spec ''siren''"
  have "savable ?e" "text_safe ?e" by (simp_all add: savable_def text_safe_def newline_def)
  then have ok: "reg_ok ?R" using load_state_text [of "[?e]"] by (simp add: reg_ok_def)
  have f: "find_entry (spec_role ?s) (entries ?R) = Some ?e" by (simp add: find_entry_def display_server_spec_def)
  have n: "\<not> entry_ready ex_view ?e (required_env_keys ?s)" by (simp add: entry_ready_def has_all_keys_def display_server_spec_def)
  have s: "newline \<notin> set (spec_role ?s)" "spec_role ?s \<noteq> []" "spec_argv ?s \<noteq> []" "hd (spec_argv ?s) \<noteq> []"
    by (simp_all add: display_server_spec_def newline_def)
  obtain res R' where r: "spawn_or_adopt ex_view ?s ?R = (res, R')" by fastforce
  from unready_child_orphaned [OF ok ex_registry_ok(2,3) s f n r] show ?thesis
    using r by (simp add: Let_def ex_view_def is_process_alive_def)
qed

section \<open>The embedded display server\<close>

lemma has_all_keysD: "has_all_keys env ks \<Longrightarrow> k \<in> set ks \<Longrightarrow> \<exists>v. map_of env k = Some v \<and> v \<noteq> []"
  by (auto simp: has_all_keys_def list_all_iff split: option.splits)

lemma published_vars:
  assumes "map_of env ''SIRENWM_IPC_SOCKET'' = Some s" "s \<noteq> []"
  shows "env_var (publish_endpoints env d V) ''WAYLAND_DISPLAY'' = Some d"
    "env_var (publish_endpoints env d V) ''SIRENWM_IPC_SOCKET'' = Some s"
  using assms by (auto simp: publish_endpoints_def export_var_def setenv_def unsetenv_def Let_def split: option.splits)

text \<open>
  The Wayland backend finds its display server: when the session has none and starting one succeeds, the registry has
  an entry for it, and the two variables the backend connects with name the endpoints this entry published. When it
  does not succeed, the environment is unchanged.
\<close>
theorem display_server_endpoints:
  assumes "reg_ok R" "state_writable V" "fork_ok V" "exec_path \<noteq> []"
    and "env_var V ''WAYLAND_DISPLAY'' \<in> {None, Some []}"
    and "ensure_embedded_display_server V exec_path R = (okay, V', R')"
  shows "(\<not> okay \<longrightarrow> V' = V) \<and>
    (okay \<longrightarrow> (\<exists>e\<in>set (entries R'). en_role e = ''display-server'' \<and>
       (\<exists>d s. d \<noteq> [] \<and> s \<noteq> [] \<and> map_of (en_env e) ''WAYLAND_DISPLAY'' = Some d \<and> map_of (en_env e) ''SIRENWM_IPC_SOCKET'' = Some s \<and>
          env_var V' ''WAYLAND_DISPLAY'' = Some d \<and> env_var V' ''SIRENWM_IPC_SOCKET'' = Some s)))"
proof -
  let ?spec = "display_server_spec exec_path"
  have en: "ensure_embedded_display_server V exec_path R =
      (case spawn_or_adopt V ?spec R of
         (Inl err, R1) \<Rightarrow> (False, V, R1)
       | (Inr info, R1) \<Rightarrow>
           (case map_of (info_env info) ''WAYLAND_DISPLAY'' of
              Some (ch # d) \<Rightarrow> (True, publish_endpoints (info_env info) (ch # d) V, R1)
            | _ \<Rightarrow> (False, V, R1)))"
    using assms(5) by (cases "env_var V ''WAYLAND_DISPLAY''") (simp_all add: ensure_embedded_display_server_def)
  have role: "newline \<notin> set (spec_role ?spec)" by (simp add: display_server_spec_def newline_def)
  have fin: "?thesis" if sp: "spawn_or_adopt V ?spec R = (Inr (info_of e), R1)" "e \<in> set (entries R1)" "en_role e = ''display-server''"
    and ks: "has_all_keys (en_env e) (required_env_keys ?spec)" for e R1
  proof -
    obtain d where d: "map_of (en_env e) ''WAYLAND_DISPLAY'' = Some d" "d \<noteq> []"
      using has_all_keysD [OF ks, of "''WAYLAND_DISPLAY''"] by (auto simp: display_server_spec_def)
    obtain s where s: "map_of (en_env e) ''SIRENWM_IPC_SOCKET'' = Some s" "s \<noteq> []"
      using has_all_keysD [OF ks, of "''SIRENWM_IPC_SOCKET''"] by (auto simp: display_server_spec_def)
    from d obtain ch d' where "d = ch # d'" by (cases d) auto
    then have "ensure_embedded_display_server V exec_path R = (True, publish_endpoints (en_env e) d V, R1)"
      unfolding en sp(1) using d(1) by (simp add: info_of_def)
    with assms(6) have r: "okay" "V' = publish_endpoints (en_env e) d V" "R' = R1" by simp_all
    have "d \<noteq> [] \<and> s \<noteq> [] \<and> map_of (en_env e) ''WAYLAND_DISPLAY'' = Some d \<and> map_of (en_env e) ''SIRENWM_IPC_SOCKET'' = Some s \<and>
          env_var V' ''WAYLAND_DISPLAY'' = Some d \<and> env_var V' ''SIRENWM_IPC_SOCKET'' = Some s"
      unfolding r(2) by (intro conjI d s published_vars [OF s])
    then show ?thesis using r(1,3) sp(2,3) by blast
  qed
  show ?thesis
  proof (rule spawn_or_adopt_cases [OF assms(1-3) role])
    fix err R1
    assume "spawn_or_adopt V ?spec R = (Inl err, R1)"
    then show ?thesis using en assms(6) by simp
  next
    fix e
    assume a: "spawn_or_adopt V ?spec R = (Inr (info_of e), R)" "find_entry (spec_role ?spec) (entries R) = Some e"
      "entry_ready V e (required_env_keys ?spec)"
    have "e \<in> set (entries R)" "en_role e = ''display-server''"
      using a(2) by (auto simp: find_entry_def find_Some_iff display_server_spec_def)
    with a show ?thesis by (intro fin [of e R]) (simp_all add: entry_ready_def)
  next
    fix e R1
    assume a: "spawn_or_adopt V ?spec R = (Inr (info_of e), R1)"
      "entries R1 = filter (\<lambda>x. en_role x \<noteq> spec_role ?spec) (entries R) @ [e]" "en_role e = spec_role ?spec"
      "has_all_keys (en_env e) (required_env_keys ?spec)"
    then show ?thesis by (intro fin [OF a(1) _ _ a(4)]) (simp_all add: display_server_spec_def)
  qed
qed

theorem display_server_endpoints_witness:
  "let (okay, V', R') = ensure_embedded_display_server ex_view ''siren'' ex_registry
   in okay \<and> entries R' \<noteq> [] \<and> env_var V' ''WAYLAND_DISPLAY'' \<noteq> None"
proof -
  obtain okay V' R' where r: "ensure_embedded_display_server ex_view ''siren'' ex_registry = (okay, V', R')"
    by (cases rule: prod_cases3)
  have "fst (ensure_embedded_display_server ex_view ''siren'' ex_registry)" by code_simp
  then have "okay" by (simp add: r)
  moreover have "env_var ex_view ''WAYLAND_DISPLAY'' \<in> {None, Some []}" by (simp add: ex_view_def)
  from display_server_endpoints [OF ex_registry_ok _ this r] have
    "okay \<longrightarrow> entries R' \<noteq> [] \<and> env_var V' ''WAYLAND_DISPLAY'' \<noteq> None" by auto
  ultimately show ?thesis using r by simp
qed

section \<open>The lock\<close>

text \<open>
  The lock file is opened without the close-on-exec flag and is not unlocked before \<^verbatim>\<open>execvp\<close>: the process image that
  replaces the window manager in an exec-restart waits for ever in the constructor of the registry, for a lock only
  its own inherited descriptor holds. A process started after a normal exit gets the lock.
\<close>
theorem exec_restart_blocks_on_lock:
  assumes "lock True L = Some (fd, L1)"
  shows "lock True (end_process True fd L1) = None \<and> lock True (end_process False fd L1) \<noteq> None"
  using assms by (auto simp: lock_def end_process_def unlock_def split: if_splits)

theorem exec_restart_blocks_on_lock_witness:
  "lock True (end_process True (Some 0) \<lparr>next_description = 1, lock_holder = Some 0\<rparr>) = None"
  using exec_restart_blocks_on_lock [of "\<lparr>next_description = 0, lock_holder = None\<rparr>" "Some 0" "\<lparr>next_description = 1, lock_holder = Some 0\<rparr>"]
  by (simp add: lock_def)

end
