(* ===== verification/Xcb_Connection.thy ===== *)
theory Xcb_Connection
  imports Domain_Types Ipc
begin

text \<open>
  The XCB wrapper (\<^verbatim>\<open>libxcb/src\<close>, \<^verbatim>\<open>libxcb/include/xcb\<close>): the requests the window manager sends to the X server, the
  events it takes from it, and how the replies to its queries are read.

  The X server is a parameter. \<open>x_server\<close> holds the answers it gives at one moment, as the raw replies of the XCB
  library; every decoding the wrapper does on top of them is a definition here. A property reply is its format, its
  bytes and, for the one function that reads a C string without a bound, the bytes that follow in memory. Integers are
  little-endian, as on the hosts the program is built for.
\<close>

type_synonym atom = "32 word"

definition XCB_ATOM_NONE :: atom where "XCB_ATOM_NONE = 0"
definition XCB_ATOM_ATOM :: atom where "XCB_ATOM_ATOM = 4"
definition XCB_ATOM_CARDINAL :: atom where "XCB_ATOM_CARDINAL = 6"
definition XCB_ATOM_RESOURCE_MANAGER :: atom where "XCB_ATOM_RESOURCE_MANAGER = 23"
definition XCB_ATOM_STRING :: atom where "XCB_ATOM_STRING = 31"
definition XCB_ATOM_WINDOW :: atom where "XCB_ATOM_WINDOW = 33"
definition XCB_ATOM_WM_HINTS :: atom where "XCB_ATOM_WM_HINTS = 35"
definition XCB_ATOM_WM_NAME :: atom where "XCB_ATOM_WM_NAME = 39"
definition XCB_ATOM_WM_NORMAL_HINTS :: atom where "XCB_ATOM_WM_NORMAL_HINTS = 40"
definition XCB_ATOM_WM_CLASS :: atom where "XCB_ATOM_WM_CLASS = 67"
definition XCB_ATOM_WM_TRANSIENT_FOR :: atom where "XCB_ATOM_WM_TRANSIENT_FOR = 68"

definition XCB_ATOM_ANY :: atom where "XCB_ATOM_ANY = 0"

section \<open>Replies\<close>

record property_reply =
  pr_format :: nat
  pr_value :: "byte list"
  pr_beyond :: "byte list"

record x_attributes =
  xa_override_redirect :: bool
  xa_viewable :: bool
  xa_input_output :: bool

record x_geometry =
  xg_pos :: vec2i
  xg_width :: int
  xg_height :: int
  xg_border :: int

record x_tree =
  xt_root :: window_id
  xt_parent :: window_id
  xt_children :: "window_id list"

record x_server =
  xs_attributes :: "window_id \<Rightarrow> x_attributes option"
  xs_geometry :: "window_id \<Rightarrow> x_geometry option"
  xs_tree :: "window_id \<Rightarrow> x_tree option"
  xs_property :: "window_id \<Rightarrow> atom \<Rightarrow> atom \<Rightarrow> nat \<Rightarrow> property_reply option"
  xs_intern :: "string \<Rightarrow> atom option"
  xs_focus :: "window_id option"
  xs_pointer :: "vec2i option"
  xs_keysyms :: "(8 word \<Rightarrow> 32 word) option"
  xs_layout :: string
  xs_new_id :: "32 word"

definition value_len :: "property_reply \<Rightarrow> nat" where
  "value_len r = (if pr_format r = 0 then 0 else length (pr_value r) div (pr_format r div 8))"

fun words32 :: "byte list \<Rightarrow> 32 word list" where
  "words32 (a # b # c # d # r) = fst (the (take_u32 [a, b, c, d])) # words32 r"
| "words32 _ = []"

lemma words32_bytes: "words32 (concat (map u32_bytes ws)) = ws"
proof (induction ws)
  case (Cons w ws)
  have "take_u32 (u32_bytes w) = Some (w, [])" using u32.get_put_exact by simp
  then show ?case using Cons by (simp add: u32_bytes_def)
qed simp

definition is_words :: "property_reply \<Rightarrow> nat \<Rightarrow> bool" where
  "is_words r n \<longleftrightarrow> pr_format r = 32 \<and> value_len r \<ge> n"

text \<open>A C string that starts in the reply; nothing bounds it but the first zero byte in memory.\<close>

definition c_string :: "byte list \<Rightarrow> string" where
  "c_string bs = map char_of_byte (takeWhile (\<lambda>b. b \<noteq> 0) bs)"

section \<open>Queries\<close>

definition intern_atom :: "x_server \<Rightarrow> string \<Rightarrow> atom" where
  "intern_atom S n = (case xs_intern S n of None \<Rightarrow> XCB_ATOM_NONE | Some a \<Rightarrow> a)"

definition query_tree_children :: "x_server \<Rightarrow> window_id \<Rightarrow> window_id list" where
  "query_tree_children S win = (case xs_tree S win of None \<Rightarrow> [] | Some t \<Rightarrow> xt_children t)"

definition query_parent :: "x_server \<Rightarrow> window_id \<Rightarrow> window_id option" where
  "query_parent S win =
     (case xs_tree S win of
        None \<Rightarrow> None
      | Some t \<Rightarrow> if xt_parent t = NO_WINDOW \<or> xt_parent t = xt_root t then None else Some (xt_parent t))"

definition get_input_focus :: "x_server \<Rightarrow> window_id" where
  "get_input_focus S = (case xs_focus S of None \<Rightarrow> NO_WINDOW | Some w \<Rightarrow> w)"

definition get_transient_for :: "x_server \<Rightarrow> window_id \<Rightarrow> window_id option" where
  "get_transient_for S win =
     (case xs_property S win XCB_ATOM_WM_TRANSIENT_FOR XCB_ATOM_WINDOW 1 of
        None \<Rightarrow> None
      | Some r \<Rightarrow> if is_words r 1 then Some (words32 (pr_value r) ! 0) else None)"

definition get_wm_state_value :: "x_server \<Rightarrow> window_id \<Rightarrow> atom \<Rightarrow> int" where
  "get_wm_state_value S win wm_state_atom =
     (if wm_state_atom = XCB_ATOM_NONE then -1
      else case xs_property S win wm_state_atom XCB_ATOM_ANY 2 of
        None \<Rightarrow> -1
      | Some r \<Rightarrow> if is_words r 1 then sint (words32 (pr_value r) ! 0) else -1)"

record x_size_hints =
  sh_fixed :: bool
  sh_has_min :: bool
  sh_has_max :: bool
  sh_has_inc :: bool
  sh_has_base :: bool
  sh_min :: vec2i
  sh_max :: vec2i
  sh_inc :: vec2i
  sh_base :: vec2i

definition no_size_hints :: x_size_hints where
  "no_size_hints =
     \<lparr>sh_fixed = False, sh_has_min = False, sh_has_max = False, sh_has_inc = False, sh_has_base = False,
      sh_min = (0, 0), sh_max = (0, 0), sh_inc = (0, 0), sh_base = (0, 0)\<rparr>"

definition size_hints_of :: "32 word list \<Rightarrow> nat \<Rightarrow> x_size_hints" where
  "size_hints_of d n =
     (let flags = d ! 0; pair = (\<lambda>i. (sint (d ! i), sint (d ! Suc i)));
          has_min = bit flags 4; has_max = bit flags 5;
          has_inc = (bit flags 6 \<and> n \<ge> 11); has_base = (bit flags 8 \<and> n \<ge> 17);
          mn = (if has_min then pair 5 else (0, 0)); mx = (if has_max then pair 7 else (0, 0))
      in \<lparr>sh_fixed = has_min \<and> has_max \<and> fst mn > 0 \<and> snd mn > 0 \<and> fst mn = fst mx \<and> snd mn = snd mx,
          sh_has_min = has_min, sh_has_max = has_max, sh_has_inc = has_inc, sh_has_base = has_base,
          sh_min = mn, sh_max = mx, sh_inc = (if has_inc then pair 9 else (0, 0)),
          sh_base = (if has_base then pair 15 else (0, 0))\<rparr>)"

definition get_size_hints :: "x_server \<Rightarrow> window_id \<Rightarrow> x_size_hints" where
  "get_size_hints S win =
     (case xs_property S win XCB_ATOM_WM_NORMAL_HINTS XCB_ATOM_ANY 18 of
        None \<Rightarrow> no_size_hints
      | Some r \<Rightarrow> if is_words r 9 then size_hints_of (words32 (pr_value r)) (value_len r) else no_size_hints)"

text \<open>\<^verbatim>\<open>no_input\<close> and \<^verbatim>\<open>urgent\<close>.\<close>

definition get_wm_hints :: "x_server \<Rightarrow> window_id \<Rightarrow> bool \<times> bool" where
  "get_wm_hints S win =
     (case xs_property S win XCB_ATOM_WM_HINTS XCB_ATOM_ANY 9 of
        None \<Rightarrow> (False, False)
      | Some r \<Rightarrow>
          if is_words r 2
          then (let d = words32 (pr_value r) in (bit (d ! 0) 0 \<and> d ! 1 = 0, bit (d ! 0) 8))
          else (False, False))"

definition has_property_32 :: "x_server \<Rightarrow> window_id \<Rightarrow> atom \<Rightarrow> nat \<Rightarrow> bool" where
  "has_property_32 S win prop min_items =
     (if prop = XCB_ATOM_NONE then False
      else case xs_property S win prop XCB_ATOM_ANY min_items of None \<Rightarrow> False | Some r \<Rightarrow> is_words r min_items)"

definition motif_no_decorations_atom :: "x_server \<Rightarrow> window_id \<Rightarrow> atom \<Rightarrow> bool" where
  "motif_no_decorations_atom S win motif_atom =
     (if motif_atom = XCB_ATOM_NONE then False
      else case xs_property S win motif_atom XCB_ATOM_ANY 5 of
        None \<Rightarrow> False
      | Some r \<Rightarrow> is_words r 3 \<and> bit (words32 (pr_value r) ! 0) 1 \<and> words32 (pr_value r) ! 2 = 0)"

text \<open>
  The atom is interned by a pointer and a length. The length given is 16, the name has 15 characters: the terminating
  zero is part of the name that is interned.
\<close>

definition motif_atom_name :: string where
  "motif_atom_name = take 16 (''_MOTIF_WM_HINTS'' @ [char_of_byte 0])"

definition motif_no_decorations :: "x_server \<Rightarrow> window_id \<Rightarrow> bool" where
  "motif_no_decorations S win = motif_no_decorations_atom S win (intern_atom S motif_atom_name)"

definition has_static_gravity :: "x_server \<Rightarrow> window_id \<Rightarrow> bool" where
  "has_static_gravity S win =
     (case xs_property S win XCB_ATOM_WM_NORMAL_HINTS XCB_ATOM_ANY 18 of
        None \<Rightarrow> False
      | Some r \<Rightarrow>
          if \<not> is_words r 1 then False
          else value_len r \<ge> 10 \<and> bit (words32 (pr_value r) ! 0) 9 \<and> words32 (pr_value r) ! 9 = 10)"

definition get_property_u32 :: "x_server \<Rightarrow> window_id \<Rightarrow> atom \<Rightarrow> nat \<Rightarrow> 32 word list" where
  "get_property_u32 S win prop max_items =
     (case xs_property S win prop XCB_ATOM_ANY max_items of
        None \<Rightarrow> []
      | Some r \<Rightarrow> if pr_format r \<noteq> 32 \<or> value_len r = 0 then [] else take (value_len r) (words32 (pr_value r)))"

definition get_atom_list_property :: "x_server \<Rightarrow> window_id \<Rightarrow> atom \<Rightarrow> atom list" where
  "get_atom_list_property S win prop =
     (case xs_property S win prop XCB_ATOM_ATOM 256 of
        None \<Rightarrow> []
      | Some r \<Rightarrow> take (length (pr_value r) div 4) (words32 (pr_value r)))"

definition get_wm_class :: "x_server \<Rightarrow> window_id \<Rightarrow> string \<times> string" where
  "get_wm_class S win =
     (case xs_property S win XCB_ATOM_WM_CLASS XCB_ATOM_STRING 256 of
        None \<Rightarrow> ([], [])
      | Some r \<Rightarrow>
          (let len = length (pr_value r); mem = pr_value r @ pr_beyond r in
           if len = 0 then ([], [])
           else
             (let inst = c_string mem; inst_len = length inst + 1
              in (inst, if inst_len < len then c_string (drop inst_len mem) else []))))"

definition get_text_property :: "x_server \<Rightarrow> window_id \<Rightarrow> atom \<Rightarrow> atom \<Rightarrow> string" where
  "get_text_property S win prop ty =
     (case xs_property S win prop ty 1024 of None \<Rightarrow> [] | Some r \<Rightarrow> c_string (pr_value r))"

text \<open>A client that follows the conventions ends both strings of \<^verbatim>\<open>WM_CLASS\<close> with a zero; they are read back as written.\<close>

lemma c_string_bytes:
  assumes "CHR 0x00 \<notin> set s"
  shows "c_string (map byte_of s @ 0 # bs) = s"
proof -
  have inv: "char_of_byte (byte_of ch) = ch" for ch
    by (simp add: char_of_byte_def byte_of_def unat_of_nat take_bit_nat_eq_self)
  have zero: "char_of_byte 0 = CHR 0x00" by code_simp
  have "byte_of ch \<noteq> 0" if "ch \<noteq> CHR 0x00" for ch using inv [of ch] zero that by auto
  then have "takeWhile (\<lambda>b. b \<noteq> 0) (map byte_of s @ 0 # bs) = map byte_of s"
    using assms by (induction s) auto
  then show ?thesis by (simp add: c_string_def o_def inv)
qed

section \<open>Requests\<close>

datatype x_message =
    MsgClient window_id atom "32 word" "32 word"
  | MsgExpose window_id int int
  | MsgConfigureNotify window_id "16 word" "16 word" "16 word" "16 word" "16 word"

datatype x_request =
    MapWin window_id
  | UnmapWin window_id
  | SetInputFocus window_id "32 word"
  | KillClient window_id
  | ConfigureWin window_id "16 word" "32 word list"
  | ChangeAttributes window_id "32 word" "32 word list"
  | CreateWin window_id window_id vec2i vec2i
  | SendEvent window_id "32 word" x_message
  | ChangeProperty window_id atom atom "32 word list"
  | ChangeText window_id atom atom string
  | GrabPtr window_id "32 word"
  | UngrabPtr
  | WarpPtr window_id vec2i
  | GrabKey window_id "8 word" "16 word"
  | UngrabKey "8 word" window_id "16 word"
  | GrabBtn window_id "32 word" "8 word" "16 word"
  | UngrabBtn "8 word" window_id "16 word"
  | CreateBarrier vec2i vec2i nat
  | DestroyBarrier "32 word"
  | FlushOut

definition XCB_CONFIG_WINDOW_X :: "16 word" where "XCB_CONFIG_WINDOW_X = 1"
definition XCB_CONFIG_WINDOW_Y :: "16 word" where "XCB_CONFIG_WINDOW_Y = 2"
definition XCB_CONFIG_WINDOW_WIDTH :: "16 word" where "XCB_CONFIG_WINDOW_WIDTH = 4"
definition XCB_CONFIG_WINDOW_HEIGHT :: "16 word" where "XCB_CONFIG_WINDOW_HEIGHT = 8"
definition XCB_CONFIG_WINDOW_BORDER_WIDTH :: "16 word" where "XCB_CONFIG_WINDOW_BORDER_WIDTH = 16"
definition XCB_CONFIG_WINDOW_SIBLING :: "16 word" where "XCB_CONFIG_WINDOW_SIBLING = 32"
definition XCB_CONFIG_WINDOW_STACK_MODE :: "16 word" where "XCB_CONFIG_WINDOW_STACK_MODE = 64"

lemmas config_masks = XCB_CONFIG_WINDOW_X_def XCB_CONFIG_WINDOW_Y_def XCB_CONFIG_WINDOW_WIDTH_def XCB_CONFIG_WINDOW_HEIGHT_def
  XCB_CONFIG_WINDOW_BORDER_WIDTH_def XCB_CONFIG_WINDOW_SIBLING_def XCB_CONFIG_WINDOW_STACK_MODE_def

section \<open>Events\<close>

text \<open>
  The event structures with the fields the program reads. A release, a focus-out and a leave event share the structure
  of their counterpart; the flag tells them apart. \<open>OtherEvent\<close> is any opcode that the static table does not list, the
  events of extensions among them. The bit that marks events sent by clients is masked out everywhere.
\<close>

record configure_request =
  cr_window :: window_id
  cr_mask :: "16 word"
  cr_x :: int
  cr_y :: int
  cr_width :: int
  cr_height :: int
  cr_border_width :: int
  cr_sibling :: window_id
  cr_stack_mode :: "32 word"

record key_event =
  ke_release :: bool
  ke_detail :: "8 word"
  ke_time :: "32 word"
  ke_root :: vec2i
  ke_state :: "16 word"

record x_button_event =
  bp_release :: bool
  bp_event :: window_id
  bp_root_win :: window_id
  bp_root :: vec2i
  bp_pos :: vec2i
  bp_time :: "32 word"
  bp_detail :: "8 word"
  bp_state :: "16 word"

record crossing_event =
  ce_leave :: bool
  ce_mode_normal :: bool
  ce_detail_inferior :: bool
  ce_event :: window_id
  ce_time :: "32 word"
  ce_root :: vec2i

datatype x_event =
    XError nat
  | KeyEvent key_event
  | ButtonEvent x_button_event
  | MotionNotify window_id vec2i "16 word"
  | CrossingEvent crossing_event
  | FocusEvent bool window_id
  | Expose window_id nat
  | GraphicsExposure
  | NoExposure
  | VisibilityNotify
  | CreateNotify
  | DestroyNotify window_id
  | UnmapNotify window_id
  | MapNotify window_id bool
  | MapRequest window_id
  | ReparentNotify window_id window_id
  | ConfigureNotify window_id vec2i vec2i int bool
  | ConfigureRequest configure_request
  | PropertyNotify window_id atom
  | ClientMessage window_id atom "8 word" "32 word list"
  | GeGeneric
  | OtherEvent nat

fun xcb_opcode :: "x_event \<Rightarrow> nat" where
  "xcb_opcode (XError e) = 0"
| "xcb_opcode (KeyEvent k) = (if ke_release k then 3 else 2)"
| "xcb_opcode (ButtonEvent b) = (if bp_release b then 5 else 4)"
| "xcb_opcode (MotionNotify w p st) = 6"
| "xcb_opcode (CrossingEvent c) = (if ce_leave c then 8 else 7)"
| "xcb_opcode (FocusEvent out w) = (if out then 10 else 9)"
| "xcb_opcode (Expose w n) = 12"
| "xcb_opcode GraphicsExposure = 13"
| "xcb_opcode NoExposure = 14"
| "xcb_opcode VisibilityNotify = 15"
| "xcb_opcode CreateNotify = 16"
| "xcb_opcode (DestroyNotify w) = 17"
| "xcb_opcode (UnmapNotify w) = 18"
| "xcb_opcode (MapNotify w r) = 19"
| "xcb_opcode (MapRequest w) = 20"
| "xcb_opcode (ReparentNotify w p) = 21"
| "xcb_opcode (ConfigureNotify w p s b r) = 22"
| "xcb_opcode (ConfigureRequest r) = 23"
| "xcb_opcode (PropertyNotify w a) = 28"
| "xcb_opcode (ClientMessage w t f d) = 33"
| "xcb_opcode GeGeneric = 35"
| "xcb_opcode (OtherEvent n) = n"

end
