(* ===== verification/X11_Backend.thy ===== *)
theory X11_Backend
  imports Core_Access Xcb_Connection Text_Input
begin

text \<open>
  The X11 backend (\<^verbatim>\<open>class X11Backend\<close>, \<^verbatim>\<open>backends/x11/src/backend\<close>; \<^verbatim>\<open>struct X11Window\<close>,
  \<^verbatim>\<open>backends/x11/include/x11/x11_window.hpp\<close>; \<^verbatim>\<open>backends/x11/src/ports/input_port.cpp\<close>).

  The state holds the runtime's world, the fields of the class, the requests sent so far, in order, and the events the
  server has delivered but the backend not yet taken. What the server answers is a function of the requests sent so
  far. The field an \<^verbatim>\<open>X11Window\<close> adds to a window, its counter of pending unmaps, is a table indexed by the
  pointer of the window; a new window starts at 0. Hooks run over the receivers in order, the backend's own among
  them; a client message that the backend does not consume goes to the modules until one does. The payload of a
  custom event is a token.
\<close>

unbundle bit_operations_syntax

section \<open>State\<close>

datatype ewmh_atom =
    NetSupported | NetWmName | NetWmState | NetWmStateFullscreen | NetWmStateHidden | NetWmStateFocused
  | NetFrameExtents | NetActiveWindow | NetClientList | NetClientListStacking | NetSupportingWmCheck
  | NetWmWindowType | NetWmWindowTypeDock | NetWmWindowTypeDialog | NetWmWindowTypeDesktop
  | NetWmWindowTypeNotification | NetWmWindowTypeTooltip | NetWmWindowTypeDnd | NetWmWindowTypeDropdownMenu
  | NetWmWindowTypePopupMenu | NetWmWindowTypeMenu | NetCloseWindow | NetNumberOfDesktops | NetCurrentDesktop
  | NetDesktopNames | NetDesktopGeometry | NetDesktopViewport | NetWorkarea | NetWmDesktop | Utf8String
  | WmProtocols | WmDeleteWindow | WmTakeFocus | WmState | XembedInfo

fun ewmh_atom_name :: "ewmh_atom \<Rightarrow> string" where
  "ewmh_atom_name NetSupported = ''_NET_SUPPORTED''"
| "ewmh_atom_name NetWmName = ''_NET_WM_NAME''"
| "ewmh_atom_name NetWmState = ''_NET_WM_STATE''"
| "ewmh_atom_name NetWmStateFullscreen = ''_NET_WM_STATE_FULLSCREEN''"
| "ewmh_atom_name NetWmStateHidden = ''_NET_WM_STATE_HIDDEN''"
| "ewmh_atom_name NetWmStateFocused = ''_NET_WM_STATE_FOCUSED''"
| "ewmh_atom_name NetFrameExtents = ''_NET_FRAME_EXTENTS''"
| "ewmh_atom_name NetActiveWindow = ''_NET_ACTIVE_WINDOW''"
| "ewmh_atom_name NetClientList = ''_NET_CLIENT_LIST''"
| "ewmh_atom_name NetClientListStacking = ''_NET_CLIENT_LIST_STACKING''"
| "ewmh_atom_name NetSupportingWmCheck = ''_NET_SUPPORTING_WM_CHECK''"
| "ewmh_atom_name NetWmWindowType = ''_NET_WM_WINDOW_TYPE''"
| "ewmh_atom_name NetWmWindowTypeDock = ''_NET_WM_WINDOW_TYPE_DOCK''"
| "ewmh_atom_name NetWmWindowTypeDialog = ''_NET_WM_WINDOW_TYPE_DIALOG''"
| "ewmh_atom_name NetWmWindowTypeDesktop = ''_NET_WM_WINDOW_TYPE_DESKTOP''"
| "ewmh_atom_name NetWmWindowTypeNotification = ''_NET_WM_WINDOW_TYPE_NOTIFICATION''"
| "ewmh_atom_name NetWmWindowTypeTooltip = ''_NET_WM_WINDOW_TYPE_TOOLTIP''"
| "ewmh_atom_name NetWmWindowTypeDnd = ''_NET_WM_WINDOW_TYPE_DND''"
| "ewmh_atom_name NetWmWindowTypeDropdownMenu = ''_NET_WM_WINDOW_TYPE_DROPDOWN_MENU''"
| "ewmh_atom_name NetWmWindowTypePopupMenu = ''_NET_WM_WINDOW_TYPE_POPUP_MENU''"
| "ewmh_atom_name NetWmWindowTypeMenu = ''_NET_WM_WINDOW_TYPE_MENU''"
| "ewmh_atom_name NetCloseWindow = ''_NET_CLOSE_WINDOW''"
| "ewmh_atom_name NetNumberOfDesktops = ''_NET_NUMBER_OF_DESKTOPS''"
| "ewmh_atom_name NetCurrentDesktop = ''_NET_CURRENT_DESKTOP''"
| "ewmh_atom_name NetDesktopNames = ''_NET_DESKTOP_NAMES''"
| "ewmh_atom_name NetDesktopGeometry = ''_NET_DESKTOP_GEOMETRY''"
| "ewmh_atom_name NetDesktopViewport = ''_NET_DESKTOP_VIEWPORT''"
| "ewmh_atom_name NetWorkarea = ''_NET_WORKAREA''"
| "ewmh_atom_name NetWmDesktop = ''_NET_WM_DESKTOP''"
| "ewmh_atom_name Utf8String = ''UTF8_STRING''"
| "ewmh_atom_name WmProtocols = ''WM_PROTOCOLS''"
| "ewmh_atom_name WmDeleteWindow = ''WM_DELETE_WINDOW''"
| "ewmh_atom_name WmTakeFocus = ''WM_TAKE_FOCUS''"
| "ewmh_atom_name WmState = ''WM_STATE''"
| "ewmh_atom_name XembedInfo = ''_XEMBED_INFO''"

record x_env =
  server :: "x_request list \<Rightarrow> x_server"
  on_client_message :: "nat \<Rightarrow> event \<Rightarrow> world \<Rightarrow> bool \<times> world"
  icon_token :: "window_id \<Rightarrow> nat"
  layout_token :: "string \<Rightarrow> nat"

record x11 =
  x_world :: world
  x_log :: "x_request list"
  x_dirty :: bool
  x_input :: "x_event list"
  x_root :: window_id
  x_atoms :: "ewmh_atom \<Rightarrow> atom"
  atoms_resolved :: bool
  ewmh_wm_window :: window_id
  key_down :: "8 word \<Rightarrow> bool"
  key_syms :: "(8 word \<Rightarrow> 32 word) option"
  border_focused_pixel :: "32 word"
  border_unfocused_pixel :: "32 word"
  border_painted_focused :: window_id
  last_event_time :: "32 word"
  last_pointer :: vec2i
  first_configure_pos :: "window_id \<rightharpoonup> vec2i"
  pending_wm_unmaps :: "wptr \<Rightarrow> int"
  barriers :: "32 word list"
  barrier_window :: window_id
  barrier_mon_idx :: monitor_id
  extension_event_base :: int
  xkb_event_type :: int

definition x_core :: "x11 \<Rightarrow> core" where
  "x_core s = w_core (x_world s)"

definition on_xw :: "(world \<Rightarrow> world) \<Rightarrow> x11 \<Rightarrow> x11" where
  "on_xw f s = s\<lparr>x_world := f (x_world s)\<rparr>"

definition ask :: "x_env \<Rightarrow> x11 \<Rightarrow> x_server" where
  "ask X s = server X (x_log s)"

definition x_req :: "x_request \<Rightarrow> x11 \<Rightarrow> x11" where
  "x_req r s = s\<lparr>x_log := x_log s @ [r], x_dirty := True\<rparr>"

text \<open>A request through Xlib, which does not mark the connection as having something to flush.\<close>

definition x_lib_req :: "x_request \<Rightarrow> x11 \<Rightarrow> x11" where
  "x_lib_req r s = s\<lparr>x_log := x_log s @ [r]\<rparr>"

definition x_flush :: "x11 \<Rightarrow> x11" where
  "x_flush s = (if x_dirty s then s\<lparr>x_log := x_log s @ [FlushOut], x_dirty := False\<rparr> else s)"

definition x_dispatch :: "command_atom \<Rightarrow> x11 \<Rightarrow> x11" where
  "x_dispatch cmd = on_xw (dispatch cmd)"

definition x_post :: "event \<Rightarrow> x11 \<Rightarrow> x11" where
  "x_post ev = on_xw (post_event ev)"

definition x_focus :: "window_id \<Rightarrow> x11 \<Rightarrow> x11" where
  "x_focus win = on_xw (upd_core (focus win))"

definition x_pointer_at :: "vec2i \<Rightarrow> x11 \<Rightarrow> x11" where
  "x_pointer_at p = on_xw (upd_core (\<lambda>c. snd (core_focus_monitor_at_point (fst p) (snd p) c)))"

section \<open>Windows\<close>

definition x11_window :: "x11 \<Rightarrow> window_id \<Rightarrow> wptr option" where
  "x11_window s win = (if win = NO_WINDOW then None else find_window_in_all (wm (x_core s)) win)"

definition xw_state :: "x11 \<Rightarrow> wptr \<Rightarrow> window" where
  "xw_state s p = win_at (x_core s) p"

definition xw_id :: "x11 \<Rightarrow> wptr \<Rightarrow> window_id" where
  "xw_id s p = win_id (xw_state s p)"

text \<open>\<^verbatim>\<open>if (auto* xw = x11_window(win)) ...\<close>\<close>

definition with_xw :: "window_id \<Rightarrow> (wptr \<Rightarrow> x11 \<Rightarrow> x11) \<Rightarrow> x11 \<Rightarrow> x11" where
  "with_xw win f s = (case x11_window s win of None \<Rightarrow> s | Some p \<Rightarrow> f p s)"

definition xw_set_border_color :: "32 word \<Rightarrow> wptr \<Rightarrow> x11 \<Rightarrow> x11" where
  "xw_set_border_color pixel p s = x_req (ChangeAttributes (xw_id s p) 8 [pixel]) s"

definition xw_set_wm_state :: "32 word \<Rightarrow> wptr \<Rightarrow> x11 \<Rightarrow> x11" where
  "xw_set_wm_state st p s =
     (if x_atoms s WmState \<noteq> XCB_ATOM_NONE
      then x_req (ChangeProperty (xw_id s p) (x_atoms s WmState) (x_atoms s WmState) [st, 0]) s else s)"

definition xw_set_wm_state_normal :: "wptr \<Rightarrow> x11 \<Rightarrow> x11" where
  "xw_set_wm_state_normal = xw_set_wm_state 1"

definition xw_wm_states :: "x_env \<Rightarrow> wptr \<Rightarrow> x11 \<Rightarrow> atom list" where
  "xw_wm_states X p s = get_atom_list_property (ask X s) (xw_id s p) (x_atoms s NetWmState)"

definition xw_set_wm_state_atom :: "x_env \<Rightarrow> atom \<Rightarrow> bool \<Rightarrow> wptr \<Rightarrow> x11 \<Rightarrow> x11" where
  "xw_set_wm_state_atom X a enabled p s =
     x_req (ChangeProperty (xw_id s p) (x_atoms s NetWmState) XCB_ATOM_ATOM
       (filter (\<lambda>b. b \<noteq> a) (xw_wm_states X p s) @ (if enabled then [a] else []))) s"

definition xw_set_fullscreen_state :: "x_env \<Rightarrow> bool \<Rightarrow> wptr \<Rightarrow> x11 \<Rightarrow> x11" where
  "xw_set_fullscreen_state X enabled p s = xw_set_wm_state_atom X (x_atoms s NetWmStateFullscreen) enabled p s"

definition xw_has_fullscreen_state :: "x_env \<Rightarrow> wptr \<Rightarrow> x11 \<Rightarrow> bool" where
  "xw_has_fullscreen_state X p s \<longleftrightarrow> x_atoms s NetWmStateFullscreen \<in> set (xw_wm_states X p s)"

definition xw_set_frame_extents :: "32 word \<Rightarrow> wptr \<Rightarrow> x11 \<Rightarrow> x11" where
  "xw_set_frame_extents bw p s =
     (if x_atoms s NetFrameExtents \<noteq> XCB_ATOM_NONE
      then x_req (ChangeProperty (xw_id s p) (x_atoms s NetFrameExtents) XCB_ATOM_CARDINAL [bw, bw, bw, bw]) s else s)"

definition xw_set_desktop :: "32 word \<Rightarrow> wptr \<Rightarrow> x11 \<Rightarrow> x11" where
  "xw_set_desktop ws p s =
     (if x_atoms s NetWmDesktop \<noteq> XCB_ATOM_NONE
      then x_req (ChangeProperty (xw_id s p) (x_atoms s NetWmDesktop) XCB_ATOM_CARDINAL [ws]) s else s)"

definition xw_protocols :: "x_env \<Rightarrow> wptr \<Rightarrow> x11 \<Rightarrow> atom list" where
  "xw_protocols X p s = get_atom_list_property (ask X s) (xw_id s p) (x_atoms s WmProtocols)"

definition xw_supports_delete :: "x_env \<Rightarrow> wptr \<Rightarrow> x11 \<Rightarrow> bool" where
  "xw_supports_delete X p s \<longleftrightarrow> x_atoms s WmDeleteWindow \<in> set (xw_protocols X p s)"

definition xw_send_delete_message :: "wptr \<Rightarrow> x11 \<Rightarrow> x11" where
  "xw_send_delete_message p s =
     x_req (SendEvent (xw_id s p) 0 (MsgClient (xw_id s p) (x_atoms s WmProtocols) (x_atoms s WmDeleteWindow) 0)) s"

definition xw_send_take_focus :: "x_env \<Rightarrow> 32 word \<Rightarrow> wptr \<Rightarrow> x11 \<Rightarrow> x11" where
  "xw_send_take_focus X timestamp p s =
     (if x_atoms s WmTakeFocus = XCB_ATOM_NONE then s
      else if x_atoms s WmTakeFocus \<in> set (xw_protocols X p s)
      then x_req (SendEvent (xw_id s p) 0 (MsgClient (xw_id s p) (x_atoms s WmProtocols) (x_atoms s WmTakeFocus) timestamp)) s
      else s)"

definition xw_focus :: "x_env \<Rightarrow> 32 word \<Rightarrow> wptr \<Rightarrow> x11 \<Rightarrow> x11" where
  "xw_focus X timestamp p s =
     xw_send_take_focus X timestamp p
       (if \<not> no_input_focus (xw_state s p) then x_req (SetInputFocus (xw_id s p) timestamp) s else s)"

definition note_wm_unmap :: "wptr \<Rightarrow> x11 \<Rightarrow> x11" where
  "note_wm_unmap p s = s\<lparr>pending_wm_unmaps := (pending_wm_unmaps s)(p := pending_wm_unmaps s p + 2)\<rparr>"

definition consume_wm_unmap :: "wptr \<Rightarrow> x11 \<Rightarrow> bool \<times> x11" where
  "consume_wm_unmap p s =
     (if pending_wm_unmaps s p \<le> 0 then (False, s)
      else (True, s\<lparr>pending_wm_unmaps := (pending_wm_unmaps s)(p := pending_wm_unmaps s p - 1)\<rparr>))"

definition xw_map :: "wptr \<Rightarrow> x11 \<Rightarrow> x11" where
  "xw_map p s = x_req (MapWin (xw_id s p)) s"

definition xw_unmap :: "wptr \<Rightarrow> x11 \<Rightarrow> x11" where
  "xw_unmap p s = x_req (UnmapWin (xw_id s p)) s"

definition xw_configure :: "16 word \<Rightarrow> 32 word list \<Rightarrow> wptr \<Rightarrow> x11 \<Rightarrow> x11" where
  "xw_configure m vs p s = x_req (ConfigureWin (xw_id s p) m vs) s"

text \<open>\<^verbatim>\<open>raise\<close> and \<^verbatim>\<open>lower\<close>: the stacking mode \<^verbatim>\<open>ABOVE\<close> is 0, \<^verbatim>\<open>BELOW\<close> is 1.\<close>

definition xw_restack :: "32 word \<Rightarrow> wptr \<Rightarrow> x11 \<Rightarrow> x11" where
  "xw_restack mode = xw_configure XCB_CONFIG_WINDOW_STACK_MODE [mode]"

definition xw_kill :: "wptr \<Rightarrow> x11 \<Rightarrow> x11" where
  "xw_kill p s = x_req (KillClient (xw_id s p)) s"

definition xw_send_expose :: "x_env \<Rightarrow> wptr \<Rightarrow> x11 \<Rightarrow> x11" where
  "xw_send_expose X p s =
     (let g = xs_geometry (ask X s) (xw_id s p)
      in x_req (SendEvent (xw_id s p) 32768
           (MsgExpose (xw_id s p) (case g of None \<Rightarrow> 1 | Some g \<Rightarrow> xg_width g) (case g of None \<Rightarrow> 1 | Some g \<Rightarrow> xg_height g))) s)"

definition xw_send_configure_notify :: "vec2i \<Rightarrow> vec2i \<Rightarrow> int \<Rightarrow> wptr \<Rightarrow> x11 \<Rightarrow> x11" where
  "xw_send_configure_notify pos sz bw p s =
     x_req (SendEvent (xw_id s p) 131072
       (MsgConfigureNotify (xw_id s p) (word_of_int (fst pos)) (word_of_int (snd pos)) (word_of_int (fst sz))
          (word_of_int (snd sz)) (word_of_int bw))) s"

section \<open>EWMH\<close>

definition parse_color_hex :: "string \<Rightarrow> 32 word" where
  "parse_color_hex s =
     (if length s = 7 \<and> s ! 0 = CHR ''#''
      then (case strtoul16 (tl s) of Some (rgb, []) \<Rightarrow> ucast rgb | _ \<Rightarrow> 0)
      else 0)"

definition x_reload_border_colors :: "x11 \<Rightarrow> x11" where
  "x_reload_border_colors s =
     (let th = theme (settings (x_core s));
          foc = (if border_focused th = [] then accent th else border_focused th);
          unf = (if border_unfocused th = [] then (if alt_bg th = [] then bg th else alt_bg th) else border_unfocused th)
      in s\<lparr>border_focused_pixel := parse_color_hex foc, border_unfocused_pixel := parse_color_hex unf\<rparr>)"

definition set_root_property :: "ewmh_atom \<Rightarrow> atom \<Rightarrow> 32 word list \<Rightarrow> x11 \<Rightarrow> x11" where
  "set_root_property a ty vs s = x_req (ChangeProperty (x_root s) (x_atoms s a) ty vs) s"

definition x_focus_window :: "x_env \<Rightarrow> window_id \<Rightarrow> x11 \<Rightarrow> x11" where
  "x_focus_window X win =
     with_xw win (\<lambda>p s.
       let s1 = xw_focus X (last_event_time s) p s
       in if \<not> no_input_focus (xw_state s1 p) then set_root_property NetActiveWindow XCB_ATOM_WINDOW [win] s1 else s1)"

definition ewmh_update_client_list :: "x11 \<Rightarrow> x11" where
  "ewmh_update_client_list s =
     (let wins = all_window_ids (x_core s)
      in set_root_property NetClientListStacking XCB_ATOM_WINDOW wins (set_root_property NetClientList XCB_ATOM_WINDOW wins s))"

definition ewmh_apply_fullscreen :: "x_env \<Rightarrow> window_id \<Rightarrow> bool \<Rightarrow> x11 \<Rightarrow> x11" where
  "ewmh_apply_fullscreen X win enabled s =
     with_xw win (xw_set_fullscreen_state X enabled) (x_dispatch (SetWindowFullscreen win enabled False) s)"

definition ewmh_has_fullscreen_state :: "x_env \<Rightarrow> window_id \<Rightarrow> x11 \<Rightarrow> bool" where
  "ewmh_has_fullscreen_state X win s =
     (case x11_window s win of None \<Rightarrow> False | Some p \<Rightarrow> xw_has_fullscreen_state X p s)"

definition should_apply_fullscreen_now :: "x11 \<Rightarrow> window_id \<Rightarrow> bool" where
  "should_apply_fullscreen_now s win =
     (let c = x_core s in
      case window_state_any c win of
        None \<Rightarrow> False
      | Some w \<Rightarrow>
          if hidden_by_workspace w then False
          else (let wsi = workspace_of_window (wm c) win in \<not> (wsi \<ge> 0 \<and> \<not> is_workspace_visible c wsi)))"

definition desktop_names :: "core \<Rightarrow> string" where
  "desktop_names c = concat (map (\<lambda>ws. ws_name ws @ [CHR 0x00]) (workspaces (wm c)))"

definition ewmh_update_desktop_props :: "x_env \<Rightarrow> x11 \<Rightarrow> x11" where
  "ewmh_update_desktop_props X s =
     (let n = length (workspaces (wm (x_core s))) in
      if n = 0 then s
      else
        (let s1 = set_root_property NetNumberOfDesktops XCB_ATOM_CARDINAL [word_of_nat n] s;
             s2 = x_req (ChangeText (x_root s1) (x_atoms s1 NetDesktopNames) (x_atoms s1 Utf8String) (desktop_names (x_core s1))) s1;
             g = xs_geometry (ask X s2) (x_root s2);
             w = (case g of None \<Rightarrow> 1280 | Some g \<Rightarrow> word_of_int (xg_width g));
             h = (case g of None \<Rightarrow> 720 | Some g \<Rightarrow> word_of_int (xg_height g));
             s3 = set_root_property NetDesktopGeometry XCB_ATOM_CARDINAL [w, h] s2;
             s4 = set_root_property NetDesktopViewport XCB_ATOM_CARDINAL (replicate (2 * n) 0) s3
         in set_root_property NetWorkarea XCB_ATOM_CARDINAL (concat (replicate n [0, 0, w, h])) s4))"

definition has_atom :: "atom list \<Rightarrow> atom \<Rightarrow> bool" where
  "has_atom as needle \<longleftrightarrow> needle \<noteq> XCB_ATOM_NONE \<and> needle \<in> set as"

definition skipped_types :: "ewmh_atom list" where
  "skipped_types =
     [NetWmWindowTypeDock, NetWmWindowTypeDesktop, NetWmWindowTypeNotification, NetWmWindowTypeTooltip, NetWmWindowTypeDnd,
      NetWmWindowTypeDropdownMenu, NetWmWindowTypePopupMenu, NetWmWindowTypeMenu]"

text \<open>\<^verbatim>\<open>on_hook(hook::ShouldManageWindow&)\<close>: only queries, so it leaves the state alone.\<close>

definition x_should_manage :: "x_env \<Rightarrow> x11 \<Rightarrow> should_manage_window \<Rightarrow> should_manage_window" where
  "x_should_manage X s h =
     (let S = ask X s; win = smw_window h in
      if x_atoms s NetWmWindowType = XCB_ATOM_NONE then h
      else
        (let types = get_atom_list_property S win (x_atoms s NetWmWindowType) in
         if list_ex (\<lambda>a. has_atom types (x_atoms s a)) skipped_types then h\<lparr>manage := False\<rparr>
         else if has_property_32 S win (x_atoms s XembedInfo) 2 then
           (let cls = get_wm_class S win;
                ttl = get_text_property S win (x_atoms s NetWmName) (x_atoms s Utf8String);
                sz = (case xs_geometry S win of None \<Rightarrow> (0, 0) | Some g \<Rightarrow> (xg_width g, xg_height g));
                identifiable = (fst cls \<noteq> [] \<or> snd cls \<noteq> [] \<or> ttl \<noteq> []);
                tray_like_size = (fst sz > 0 \<and> snd sz > 0 \<and> fst sz \<le> 128 \<and> snd sz \<le> 128)
            in if \<not> identifiable \<or> tray_like_size then h\<lparr>manage := False\<rparr> else h)
         else h))"

definition x_close_hook :: "x_env \<Rightarrow> window_id \<Rightarrow> x11 \<Rightarrow> x11" where
  "x_close_hook X win s =
     x_flush (with_xw win (\<lambda>p s. if xw_supports_delete X p s then xw_send_delete_message p s else xw_kill p s) s)"

text \<open>The hooks over all receivers; no other receiver of the program overrides the hook for closing.\<close>

definition invoke_should_manage :: "x_env \<Rightarrow> env \<Rightarrow> window_id \<Rightarrow> x11 \<Rightarrow> bool \<times> x11" where
  "invoke_should_manage X E win s =
     (let (h, w) = invoke_hook
            (\<lambda>r h w. if r = backend_ptr E then (x_should_manage X (s\<lparr>x_world := w\<rparr>) h, w) else on_should_manage E r h w)
            (w_hook_receivers (x_world s)) \<lparr>smw_window = win, manage = True\<rparr> (x_world s)
      in (manage h, s\<lparr>x_world := w\<rparr>))"

definition invoke_close :: "x_env \<Rightarrow> env \<Rightarrow> window_id \<Rightarrow> x11 \<Rightarrow> x11" where
  "invoke_close X E win s =
     fold (\<lambda>r s. if r = backend_ptr E then x_close_hook X win s else s) (w_hook_receivers (x_world s)) s"

definition invoke_rules :: "env \<Rightarrow> window_id \<Rightarrow> world \<Rightarrow> world" where
  "invoke_rules E win w =
     snd (invoke_hook (on_window_rules E) (w_hook_receivers w) \<lparr>wr_window = win, wr_from_restart = False\<rparr> w)"

definition ewmh_on_window_mapped :: "x_env \<Rightarrow> window_id \<Rightarrow> x11 \<Rightarrow> x11" where
  "ewmh_on_window_mapped X win =
     with_xw win (\<lambda>p s.
       let s1 = (if win \<noteq> border_painted_focused s then xw_set_border_color (border_unfocused_pixel s) p s else s);
           s2 = (case window_state_any (x_core s1) win of
                   None \<Rightarrow> s1 | Some w \<Rightarrow> if \<not> hidden_by_workspace w then xw_set_wm_state_normal p s1 else s1);
           ws = workspace_of_window (wm (x_core s2)) win;
           s3 = (if ws \<ge> 0 then xw_set_desktop (word_of_int ws) p s2 else s2);
           s4 = ewmh_update_client_list s3;
           s5 = (if x_atoms s4 NetWmStateHidden \<noteq> XCB_ATOM_NONE
                 then with_xw win (xw_set_wm_state_atom X (x_atoms s4 NetWmStateHidden) False) s4 else s4);
           w = window_state_any (x_core s5) win;
           skip_fullscreen = (case w of None \<Rightarrow> False | Some w \<Rightarrow> borderless w \<and> \<not> self_managed w);
           self = (case w of None \<Rightarrow> False | Some w \<Rightarrow> is_self_managed w);
           s6 = (if \<not> skip_fullscreen \<and> ewmh_has_fullscreen_state X win s5 \<and> should_apply_fullscreen_now s5 win
                 then (if self then x_dispatch (SetWindowFullscreen win True True) s5 else ewmh_apply_fullscreen X win True s5)
                 else s5)
       in with_xw win (xw_set_frame_extents 0) s6)"

definition ewmh_on_window_unmapped :: "x_env \<Rightarrow> window_id \<Rightarrow> bool \<Rightarrow> x11 \<Rightarrow> x11" where
  "ewmh_on_window_unmapped X win withdrawn s =
     ewmh_update_client_list
       (with_xw win (\<lambda>p s.
          let s1 = xw_set_wm_state (if withdrawn then 0 else 3) p s
          in if withdrawn then xw_set_wm_state_atom X (x_atoms s1 NetWmStateHidden) False p s1 else s1) s)"

section \<open>Pointer barriers and focus\<close>

definition clear_pointer_barriers :: "x11 \<Rightarrow> x11" where
  "clear_pointer_barriers s =
     (if barrier_window s = NO_WINDOW then s
      else (fold (\<lambda>b s. if b \<noteq> 0 then x_lib_req (DestroyBarrier b) s else s) (barriers s) s)
             \<lparr>barriers := [0, 0, 0, 0], barrier_window := NO_WINDOW, barrier_mon_idx := NO_MONITOR\<rparr>)"

text \<open>The identifier of a new barrier is the server's answer before the request; the directions are the constants of XFixes.\<close>

definition create_barrier :: "x_env \<Rightarrow> vec2i \<Rightarrow> vec2i \<Rightarrow> nat \<Rightarrow> x11 \<Rightarrow> x11" where
  "create_barrier X a b dir s =
     x_lib_req (CreateBarrier a b dir) (s\<lparr>barriers := barriers s @ [xs_new_id (ask X s)]\<rparr>)"

definition set_pointer_barriers :: "x_env \<Rightarrow> window_id \<Rightarrow> monitor_id \<Rightarrow> x11 \<Rightarrow> x11" where
  "set_pointer_barriers X win mon_idx s =
     (if barrier_window s = win \<and> barrier_mon_idx s = mon_idx then s
      else
        (let s1 = clear_pointer_barriers s; mons = monitors (wm (x_core s1)) in
         if mon_idx < 0 \<or> mon_idx \<ge> int (length mons) then s1
         else
           (let (pos, sz) = physical (mons ! nat mon_idx);
                x1 = fst pos; y1 = snd pos; x2 = fst pos + fst sz; y2 = snd pos + snd sz;
                s2 = create_barrier X (x1, y2) (x2, y2) 8
                       (create_barrier X (x1, y1) (x2, y1) 2
                         (create_barrier X (x2, y1) (x2, y2) 4
                           (create_barrier X (x1, y1) (x1, y2) 1 (s1\<lparr>barriers := []\<rparr>))))
            in s2\<lparr>barrier_window := win, barrier_mon_idx := mon_idx\<rparr>)))"

definition update_focus :: "x_env \<Rightarrow> window_id \<Rightarrow> x11 \<Rightarrow> x11" where
  "update_focus X win s =
     (let s1 = set_root_property NetActiveWindow XCB_ATOM_WINDOW [win] s;
          old = border_painted_focused s1; leaving = (old \<noteq> NO_WINDOW \<and> old \<noteq> win); foc = x_atoms s1 NetWmStateFocused;
          s2 = (if foc \<noteq> XCB_ATOM_NONE
                then (let s' = (if leaving then with_xw old (xw_set_wm_state_atom X foc False) s1 else s1)
                      in if win \<noteq> NO_WINDOW then with_xw win (xw_set_wm_state_atom X foc True) s' else s')
                else s1);
          s3 = (if leaving then with_xw old (xw_set_border_color (border_unfocused_pixel s2)) s2 else s2);
          s4 = (if win \<noteq> NO_WINDOW then with_xw win (xw_set_border_color (border_focused_pixel s3)) s3 else s3);
          s5 = s4\<lparr>border_painted_focused := win\<rparr>;
          c = x_core s5;
          w = (if win \<noteq> NO_WINDOW then window_state_any c win else None)
      in if (case w of None \<Rightarrow> False | Some w \<Rightarrow> borderless w)
         then (let mon_idx = monitor_of (wm c) (workspace_of_window (wm c) win)
               in if mon_idx \<ge> 0 then set_pointer_barriers X win mon_idx s5 else s5)
         else if barrier_window s5 \<noteq> NO_WINDOW then clear_pointer_barriers (x_req UngrabPtr s5)
         else s5)"

section \<open>Events of the runtime\<close>

definition apply_deferred_fullscreen :: "x_env \<Rightarrow> wptr \<Rightarrow> x11 \<Rightarrow> x11" where
  "apply_deferred_fullscreen X p s =
     (let w = xw_state s p in
      if hidden_by_workspace w \<or> is_self_managed w \<or> borderless w \<and> \<not> self_managed w then s
      else if \<not> fullscreen w \<and> ewmh_has_fullscreen_state X (win_id w) s then ewmh_apply_fullscreen X (win_id w) True s
      else s)"

definition ewmh_on_workspace_switched :: "x_env \<Rightarrow> workspace_id \<Rightarrow> x11 \<Rightarrow> x11" where
  "ewmh_on_workspace_switched X wsi s =
     (let s1 = set_root_property NetCurrentDesktop XCB_ATOM_CARDINAL [word_of_int wsi] (ewmh_update_desktop_props X s)
      in case workspace_state (x_core s1) wsi of
           None \<Rightarrow> s1
         | Some ws \<Rightarrow> fold (apply_deferred_fullscreen X) (windows ws) s1)"

definition relocated_pos :: "monitor \<Rightarrow> vec2i \<Rightarrow> vec2i" where
  "relocated_pos mon sz =
     (if fst sz \<ge> fst (mon_size mon) \<or> snd sz \<ge> snd (mon_size mon) then mon_pos mon
      else (fst (mon_pos mon) + (fst (mon_size mon) - fst sz) sdiv 2, snd (mon_pos mon) + (snd (mon_size mon) - snd sz) sdiv 2))"

definition x_on_assigned :: "window_id \<Rightarrow> workspace_id \<Rightarrow> x11 \<Rightarrow> x11" where
  "x_on_assigned win wsi s =
     (let s1 = (if \<not> is_workspace_visible (x_core s) wsi then x_flush (x_req UngrabPtr s) else s);
          c = x_core s1; mon_idx = monitor_of (wm c) wsi; mons = monitors (wm c);
          s2 = (case window_state_any c win of
                  None \<Rightarrow> s1
                | Some w \<Rightarrow>
                    if floating w \<and> mon_idx \<ge> 0 \<and> mon_idx < int (length mons)
                    then (let mon = mons ! nat mon_idx;
                              already = (fst (win_size w) > 0 \<and> snd (win_size w) > 0 \<and> contains mon (win_pos w))
                          in if \<not> already
                             then x_dispatch (SetWindowGeometry win (relocated_pos mon (win_size w)) (win_size w)) s1 else s1)
                    else s1)
      in with_xw win (xw_set_desktop (word_of_int wsi)) s2)"

text \<open>The overrides of \<^verbatim>\<open>IEventReceiver::on\<close>; the backend ignores every other event.\<close>

fun x_on_event :: "x_env \<Rightarrow> event \<Rightarrow> x11 \<Rightarrow> x11" where
  "x_on_event X (EvFocusChanged win) s = update_focus X win s"
| "x_on_event X (EvWorkspaceSwitched wsi) s = ewmh_on_workspace_switched X wsi (x_flush (x_req UngrabPtr s))"
| "x_on_event X (EvWindowAssignedToWorkspace win wsi) s = x_on_assigned win wsi s"
| "x_on_event X (EvWindowAdopted win currently_visible) s =
     (let s1 = ewmh_on_window_mapped X win s
      in if \<not> currently_visible then ewmh_on_window_unmapped X win False s1 else s1)"
| "x_on_event X _ s = s"

section \<open>Client messages\<close>

definition net_wm_state_message :: "x_env \<Rightarrow> window_id \<Rightarrow> 32 word list \<Rightarrow> x11 \<Rightarrow> x11" where
  "net_wm_state_message X win data s =
     (let full = x_atoms s NetWmStateFullscreen in
      if data ! 1 \<noteq> full \<and> data ! 2 \<noteq> full then s
      else case window_state_any (x_core s) win of
        None \<Rightarrow> s
      | Some w \<Rightarrow>
          if data ! 0 > 2 then s
          else
            (let enable = (if data ! 0 = 0 then False else if data ! 0 = 1 then True else \<not> fullscreen w);
                 pinned = (is_self_managed w \<or> borderless w \<and> \<not> self_managed w)
             in if enable
                then (if \<not> pinned \<and> should_apply_fullscreen_now s win then ewmh_apply_fullscreen X win True s
                      else with_xw win (xw_set_fullscreen_state X True) s)
                else (if \<not> pinned then ewmh_apply_fullscreen X win False s
                      else with_xw win (xw_set_fullscreen_state X False) s)))"

text \<open>\<^verbatim>\<open>X11Backend::handle(event::ClientMessageEv)\<close>, with the result whether the message is consumed.\<close>

definition x_handle_message :: "x_env \<Rightarrow> env \<Rightarrow> window_id \<Rightarrow> atom \<Rightarrow> 32 word list \<Rightarrow> x11 \<Rightarrow> bool \<times> x11" where
  "x_handle_message X E win ty data s =
     (let c = x_core s; wsi = sint (data ! 0); ws_ok = (0 \<le> wsi \<and> wsi < workspace_count c) in
      if ty = x_atoms s NetWmState then (True, net_wm_state_message X win data s)
      else if ty = x_atoms s NetActiveWindow then
        (case window_state_any c win of
           None \<Rightarrow> (False, s)
         | Some w \<Rightarrow>
             (True,
              if \<not> is_visible w then s
              else (let ws = workspace_of_window (wm c) win
                    in if ws \<ge> 0 \<and> \<not> is_workspace_visible c ws then s else x_dispatch (FocusWindow win) s)))
      else if ty = x_atoms s NetCurrentDesktop then (True, if ws_ok then x_dispatch (SwitchWorkspace wsi None) s else s)
      else if ty = x_atoms s NetWmDesktop then
        (True, if ws_ok \<and> window_state_any c win \<noteq> None then x_dispatch (MoveWindowToWorkspace win wsi) s else s)
      else if ty = x_atoms s NetCloseWindow then (True, invoke_close X E win s)
      else (False, s))"

fun emit_until_handled :: "(nat \<Rightarrow> event \<Rightarrow> world \<Rightarrow> bool \<times> world) \<Rightarrow> event \<Rightarrow> nat list \<Rightarrow> world \<Rightarrow> bool \<times> world" where
  "emit_until_handled f ev [] w = (False, w)"
| "emit_until_handled f ev (m # ms) w =
     (let (handled, w1) = f m ev w in if handled then (True, w1) else emit_until_handled f ev ms w1)"

definition handle_client_message :: "x_env \<Rightarrow> env \<Rightarrow> window_id \<Rightarrow> atom \<Rightarrow> 8 word \<Rightarrow> 32 word list \<Rightarrow> x11 \<Rightarrow> x11" where
  "handle_client_message X E win ty fmt data s =
     (let (handled, s1) = x_handle_message X E win ty data s in
      if handled then s1
      else on_xw (\<lambda>w. snd (emit_until_handled (on_client_message X) (EvClientMessage win ty fmt data) (map mod_ptr (w_modules w)) w)) s1)"

section \<open>Mapping\<close>

definition window_type_of :: "x_server \<Rightarrow> window_id \<Rightarrow> window_type" where
  "window_type_of S win =
     (let types = get_atom_list_property S win (intern_atom S ''_NET_WM_WINDOW_TYPE'');
          has = (\<lambda>n. has_atom types (intern_atom S n)) in
      if has ''_NET_WM_WINDOW_TYPE_MODAL'' then TModal
      else if has ''_NET_WM_WINDOW_TYPE_DIALOG'' then TDialog
      else if has ''_NET_WM_WINDOW_TYPE_UTILITY'' then TUtility
      else if has ''_NET_WM_WINDOW_TYPE_SPLASH'' then TSplash
      else TNormal)"

definition window_title :: "x_server \<Rightarrow> window_id \<Rightarrow> string" where
  "window_title S win =
     (let t = get_text_property S win (intern_atom S ''_NET_WM_NAME'') (intern_atom S ''UTF8_STRING'')
      in if t = [] then get_text_property S win XCB_ATOM_WM_NAME XCB_ATOM_STRING else t)"

definition window_pid :: "x_server \<Rightarrow> window_id \<Rightarrow> 32 word" where
  "window_pid S win =
     (let a = intern_atom S ''_NET_WM_PID''; vals = (if a \<noteq> XCB_ATOM_NONE then get_property_u32 S win a 1 else [])
      in if vals \<noteq> [] then vals ! 0 else 0)"

definition read_window_metadata :: "x_server \<Rightarrow> window_id \<Rightarrow> window_metadata" where
  "read_window_metadata S win =
     (let cls = get_wm_class S win; sz = get_size_hints S win; wmh = get_wm_hints S win in
      \<lparr>md_window = win, md_wm_instance = fst cls, md_wm_class = snd cls, md_title = window_title S win,
       md_pid = window_pid S win, md_type = window_type_of S win,
       md_hints =
         \<lparr>no_decorations = motif_no_decorations S win, fixed_size = sh_fixed sz, never_focus = fst wmh,
          hint_urgent = snd wmh, static_gravity = has_static_gravity S win, covers_monitor = False, pre_fullscreen = False,
          is_xembed = False, hint_size_min = sh_min sz, hint_size_max = sh_max sz, hint_size_inc = sh_inc sz,
          hint_size_base = sh_base sz\<rparr>,
       md_transient_for = NO_WINDOW\<rparr>)"

definition monitor_for_visible_workspace :: "core \<Rightarrow> workspace_id \<Rightarrow> int" where
  "monitor_for_visible_workspace c wsi =
     (if wsi < 0 then -1
      else case find (\<lambda>i. active_ws (monitors (wm c) ! i) = wsi) [0..<length (monitors (wm c))] of
        None \<Rightarrow> -1 | Some i \<Rightarrow> int i)"

text \<open>\<^verbatim>\<open>std::clamp\<close>; the caller keeps the bounds in order.\<close>

definition clamp :: "int \<Rightarrow> int \<Rightarrow> int \<Rightarrow> int" where
  "clamp v lo hi = (if v < lo then lo else if hi < v then hi else v)"

text \<open>Where \<^verbatim>\<open>place_window_on_monitor\<close> puts a window of the given geometry, unless it is there already.\<close>

definition placed_rect :: "monitor \<Rightarrow> bool \<Rightarrow> x_geometry \<Rightarrow> (vec2i \<times> vec2i) option" where
  "placed_rect mon prefer_center g =
     (let (gx, gy) = xg_pos g; gw = max 1 (xg_width g); gh = max 1 (xg_height g);
          (mx, my) = mon_pos mon; (mw, mh) = mon_size mon;
          nw = min gw mw; nh = min gh mh;
          nx = (if prefer_center then mx + (mw - nw) sdiv 2 else clamp gx mx (mx + mw - nw));
          ny = (if prefer_center then my + (mh - nh) sdiv 2 else clamp gy my (my + mh - nh));
          crosses = (gx < mx \<or> gy < my \<or> gx + gw > mx + mw \<or> gy + gh > my + mh);
          resized = (nw \<noteq> gw \<or> nh \<noteq> gh); moved = (nx \<noteq> gx \<or> ny \<noteq> gy)
      in if \<not> crosses \<and> \<not> resized \<and> \<not> moved then None else Some ((nx, ny), (nw, nh)))"

definition place_window_on_monitor :: "x_env \<Rightarrow> window_id \<Rightarrow> monitor \<Rightarrow> bool \<Rightarrow> x11 \<Rightarrow> x11" where
  "place_window_on_monitor X win mon prefer_center s =
     (if win = NO_WINDOW \<or> fst (mon_size mon) \<le> 0 \<or> snd (mon_size mon) \<le> 0 then s
      else case xs_geometry (ask X s) win of
        None \<Rightarrow> s
      | Some g \<Rightarrow>
          (case placed_rect mon prefer_center g of
             None \<Rightarrow> s
           | Some (pos, sz) \<Rightarrow> on_xw (upd_core (update_window win)) (x_dispatch (SetWindowGeometry win pos sz) s)))"

definition place_on_index :: "x_env \<Rightarrow> window_id \<Rightarrow> int \<Rightarrow> bool \<Rightarrow> x11 \<Rightarrow> x11" where
  "place_on_index X win target prefer_center s =
     (let mons = monitors (wm (x_core s)) in
      if 0 \<le> target \<and> target < int (length mons) then place_window_on_monitor X win (mons ! nat target) prefer_center s else s)"

definition covers_some_monitor :: "core \<Rightarrow> x_geometry \<Rightarrow> bool" where
  "covers_some_monitor c g \<longleftrightarrow>
     (\<exists>mon\<in>set (monitors (wm c)).
        xg_width g + 2 * xg_border g \<ge> fst (mon_size mon) \<and>
        xg_height g + 2 * xg_border g \<ge> snd (mon_size mon) - max 0 (top_inset mon) - max 0 (bottom_inset mon))"

definition map_metadata :: "x_env \<Rightarrow> window_id \<Rightarrow> x11 \<Rightarrow> window_metadata" where
  "map_metadata X win s =
     (let S = ask X s; md = read_window_metadata S win;
          pre = (x_atoms s NetWmStateFullscreen \<in> set (get_atom_list_property S win (x_atoms s NetWmState)))
      in md\<lparr>md_hints := (md_hints md)
              \<lparr>covers_monitor := (case xs_geometry S win of None \<Rightarrow> False | Some g \<Rightarrow> covers_some_monitor (x_core s) g),
               pre_fullscreen := pre, is_xembed := pre \<and> has_property_32 S win (x_atoms s XembedInfo) 2\<rparr>,
            md_transient_for := (case get_transient_for S win of None \<Rightarrow> NO_WINDOW | Some t \<Rightarrow> t)\<rparr>)"

definition workspace_hint :: "x_env \<Rightarrow> window_id \<Rightarrow> window_hints \<Rightarrow> x11 \<Rightarrow> workspace_id" where
  "workspace_hint X win h s =
     (if pre_fullscreen h \<or> covers_monitor h then
        (case first_configure_pos s win of
           None \<Rightarrow> -1
         | Some (x0, y0) \<Rightarrow>
             (let (x, y) = (case xs_geometry (ask X s) win of
                              None \<Rightarrow> (x0, y0) | Some g \<Rightarrow> (x0 + xg_width g sdiv 2, y0 + xg_height g sdiv 2))
              in if x = -32000 \<and> y = -32000 then -1 else active_workspace_at_point (x_core s) x y))
      else -1)"

definition managed_event_mask :: "32 word" where
  "managed_event_mask = push_bit 17 1 OR push_bit 4 1 OR push_bit 21 1 OR push_bit 22 1"

definition select_managed_events :: "window_id \<Rightarrow> x11 \<Rightarrow> x11" where
  "select_managed_events win = x_req (ChangeAttributes win 2048 [managed_event_mask])"

text \<open>The first half of \<^verbatim>\<open>handle_map_request\<close>: the window becomes known to the core and the rules run.\<close>

definition map_manage :: "x_env \<Rightarrow> env \<Rightarrow> window_id \<Rightarrow> x11 \<Rightarrow> x11" where
  "map_manage X E win s =
     (let md = map_metadata X win s; hint = workspace_hint X win (md_hints md) s;
          s1 = s\<lparr>first_configure_pos := (first_configure_pos s)(win := None)\<rparr>;
          s2 = x_dispatch (SetWindowMetadata md) (x_dispatch (EnsureWindow win hint) s1);
          s3 = select_managed_events win s2;
          parent = (case get_transient_for (ask X s3) win of None \<Rightarrow> NO_WINDOW | Some t \<Rightarrow> t);
          managed_transient = (parent \<noteq> NO_WINDOW \<and> workspace_of_window (wm (x_core s3)) parent \<ge> 0)
      in if \<not> managed_transient then on_xw (invoke_rules E win) s3 else s3)"

definition physical_of_workspace :: "x11 \<Rightarrow> workspace_id \<Rightarrow> (vec2i \<times> vec2i) option" where
  "physical_of_workspace s wsi =
     (let m = monitor_of (wm (x_core s)) wsi; mons = monitors (wm (x_core s)) in
      if 0 \<le> m \<and> m < int (length mons) then Some (physical (mons ! nat m)) else None)"

definition map_borderless :: "window_id \<Rightarrow> workspace_id \<Rightarrow> wptr \<Rightarrow> x11 \<Rightarrow> x11" where
  "map_borderless win wsi p s =
     (let w = xw_state s p in
      if promote_to_borderless w \<and> \<not> borderless w \<and> \<not> floating w then
        (case physical_of_workspace s wsi of
           None \<Rightarrow> s
         | Some (pos, sz) \<Rightarrow>
             (let s1 = x_dispatch (SetWindowBorderless win True) s in
              if \<not> self_managed (xw_state s1 p)
              then x_dispatch (SetWindowGeometry win pos sz)
                     (with_xw win (xw_configure XCB_CONFIG_WINDOW_BORDER_WIDTH [0]) (x_dispatch (SetWindowBorderWidth win 0) s1))
              else s1))
      else if borderless w \<and> \<not> self_managed w then
        (case physical_of_workspace s wsi of
           None \<Rightarrow> s
         | Some (pos, sz) \<Rightarrow> x_dispatch (SetWindowGeometry win pos sz) s)
      else s)"

definition map_place :: "x_env \<Rightarrow> window_id \<Rightarrow> workspace_id \<Rightarrow> bool \<Rightarrow> wptr \<Rightarrow> x11 \<Rightarrow> x11" where
  "map_place X win wsi ws_visible p s =
     (let w = xw_state s p; c = x_core s in
      if \<not> floating w then s
      else
        (let parent = (case get_transient_for (ask X s) win of None \<Rightarrow> NO_WINDOW | Some t \<Rightarrow> t);
             t1 = (if parent \<noteq> NO_WINDOW then monitor_for_visible_workspace c (workspace_of_window (wm c) parent) else -1);
             t2 = (if t1 < 0 \<and> \<not> ws_visible then monitor_of (wm c) wsi else t1);
             t3 = (if t2 < 0 then monitor_for_visible_workspace c wsi else t2);
             t4 = (if t3 < 0 then focused_monitor (wm c) else t3)
         in place_on_index X win t4 (is_dialog w \<or> size_locked w) s))"

definition map_hidden :: "x_env \<Rightarrow> window_id \<Rightarrow> x11 \<Rightarrow> x11" where
  "map_hidden X win s =
     x_dispatch (SetWindowMapped win False) (x_dispatch (SetWindowHiddenByWorkspace win True)
       (with_xw win (\<lambda>p s.
          xw_unmap p (note_wm_unmap p (ewmh_on_window_unmapped X win False
            (xw_map p (xw_configure XCB_CONFIG_WINDOW_X [word_of_int (-32000)] p s))))) s))"

definition map_finish :: "x_env \<Rightarrow> window_id \<Rightarrow> bool \<Rightarrow> wptr option \<Rightarrow> x11 \<Rightarrow> x11" where
  "map_finish X win ws_visible mw s =
     (let s1 = (if ws_visible then x_dispatch (MapWindow win) (x_dispatch (SetWindowHiddenByWorkspace win False) s)
                else map_hidden X win s);
          s2 = x_dispatch ReconcileNow (x_post (EvWindowMapped win) (ewmh_on_window_mapped X win s1));
          (suppress, c) = consume_window_suppress_focus_once win (x_core s2);
          s3 = on_xw (upd_core (\<lambda>_. c)) s2
      in if \<not> suppress \<and> ws_visible \<and> (case mw of None \<Rightarrow> False | Some p \<Rightarrow> is_visible (xw_state s3 p))
         then x_dispatch (FocusWindow win) s3 else x_focus NO_WINDOW s3)"

definition map_managed :: "x_env \<Rightarrow> env \<Rightarrow> window_id \<Rightarrow> x11 \<Rightarrow> x11" where
  "map_managed X E win s =
     (let s1 = map_manage X E win s; c = x_core s1;
          mw = find_window_in_all (wm c) win; wsi = workspace_of_window (wm c) win;
          ws_visible = (wsi \<ge> 0 \<and> is_workspace_visible c wsi);
          s2 = (case mw of None \<Rightarrow> s1 | Some p \<Rightarrow> map_place X win wsi ws_visible p (map_borderless win wsi p s1))
      in map_finish X win ws_visible mw s2)"

definition handle_map_request :: "x_env \<Rightarrow> env \<Rightarrow> window_id \<Rightarrow> x11 \<Rightarrow> x11" where
  "handle_map_request X E win s =
     (if (case xs_attributes (ask X s) win of None \<Rightarrow> False | Some a \<Rightarrow> xa_override_redirect a) then x_req (MapWin win) s
      else
        (let (manage, s1) = invoke_should_manage X E win s
         in if \<not> manage then x_req (MapWin win) s1 else map_managed X E win s1))"

end
