(* ===== verification/X11_Events.thy ===== *)
theory X11_Events
  imports X11_Backend
begin

text \<open>
  The X11 backend, continued: the handlers of the other X events (\<^verbatim>\<open>backend/events.cpp\<close>), the event pump and the
  frame (\<^verbatim>\<open>backend/loop.cpp\<close>), start-up (\<^verbatim>\<open>backend/x11_backend.cpp\<close>, \<^verbatim>\<open>ewmh_init\<close>), the scan for existing windows
  (\<^verbatim>\<open>backend/adopt.cpp\<close>) and the input port.

  A key release looks at the next event of the connection and handles it at once, so the handlers are one recursive
  function; it ends because each round takes an event from the input.
\<close>

section \<open>Visibility of windows\<close>

definition handle_map_notify :: "window_id \<Rightarrow> bool \<Rightarrow> x11 \<Rightarrow> x11" where
  "handle_map_notify win override_redirect s =
     (if win = x_root s then s
      else
        (let pending = (case x11_window s win of None \<Rightarrow> False | Some p \<Rightarrow> pending_wm_unmaps s p > 0);
             s1 = x_dispatch (SetWindowMapped win (\<not> pending)) s; c = x_core s1; wsi = workspace_of_window (wm c) win;
             s2 = (if \<not> pending \<and> wsi \<ge> 0 \<and> is_workspace_visible c wsi
                   then x_dispatch (SetWindowHiddenByWorkspace win False) s1 else s1)
         in if \<not> override_redirect then x_post EvRaiseDocks s2 else s2))"

definition handle_reparent_notify :: "x_env \<Rightarrow> window_id \<Rightarrow> window_id \<Rightarrow> x11 \<Rightarrow> x11" where
  "handle_reparent_notify X win parent s =
     (if win = x_root s \<or> window_state_any (x_core s) win \<noteq> None then s
      else if has_property_32 (ask X s) win (intern_atom (ask X s) ''_XEMBED_INFO'') 2 \<and> parent = x_root s
      then x_post (EvCustomEvent (icon_token X win)) s else s)"

definition workspace_shown :: "core \<Rightarrow> window_id \<Rightarrow> bool" where
  "workspace_shown c win \<longleftrightarrow> (let wsi = workspace_of_window (wm c) win in wsi \<ge> 0 \<and> is_workspace_visible c wsi)"

text \<open>A client has withdrawn a managed window.\<close>

definition withdraw_window :: "x_env \<Rightarrow> bool \<Rightarrow> window_id \<Rightarrow> x11 \<Rightarrow> x11" where
  "withdraw_window X ws_visible win s =
     (let s1 = s\<lparr>first_configure_pos := (first_configure_pos s)(win := None)\<rparr>;
          s2 = x_dispatch (RemoveWindowFromAllWorkspaces win) s1;
          s3 = x_post (EvWindowUnmapped win True) (ewmh_on_window_unmapped X win True s2)
      in if ws_visible then x_dispatch ReconcileNow s3 else s3)"

definition handle_unmap_notify :: "x_env \<Rightarrow> window_id \<Rightarrow> x11 \<Rightarrow> x11" where
  "handle_unmap_notify X win s =
     (if win = x_root s then s
      else
        (let ws_visible = workspace_shown (x_core s) win in
         case window_state_any (x_core s) win of
           None \<Rightarrow> x_post (EvWindowUnmapped win True) (ewmh_on_window_unmapped X win True s)
         | Some w \<Rightarrow>
             (let (ours, s1) = (case x11_window s win of None \<Rightarrow> (False, s) | Some p \<Rightarrow> consume_wm_unmap p s) in
              if ours then ewmh_on_window_unmapped X win False s1
              else
                (let s2 = x_dispatch (SetWindowMapped win False) s1 in
                 if borderless w \<or> fullscreen w then withdraw_window X ws_visible win s2
                 else if hidden_by_workspace w
                 then x_post (EvWindowUnmapped win False) (ewmh_on_window_unmapped X win False s2)
                 else withdraw_window X ws_visible win s2))))"

definition handle_destroy_notify :: "window_id \<Rightarrow> x11 \<Rightarrow> x11" where
  "handle_destroy_notify win s =
     (let s1 = s\<lparr>first_configure_pos := (first_configure_pos s)(win := None),
                 border_painted_focused := (if border_painted_focused s = win then NO_WINDOW else border_painted_focused s)\<rparr>
      in if window_state_any (x_core s1) win = None then x_post (EvDestroyNotify win) s1
         else
           (let ws_visible = workspace_shown (x_core s1) win;
                s2 = x_dispatch (RemoveWindowFromAllWorkspaces win) (x_post (EvDestroyNotify win) s1);
                s3 = ewmh_update_client_list (x_post (EvWindowUnmapped win True) s2)
            in if ws_visible then x_dispatch ReconcileNow s3 else s3))"

section \<open>Properties\<close>

definition motif_changed :: "window_id \<Rightarrow> window_metadata \<Rightarrow> wptr \<Rightarrow> x11 \<Rightarrow> x11" where
  "motif_changed win md p s =
     (let w = xw_state s p in
      if no_decorations (md_hints md) \<and> \<not> borderless w then
        (if self_managed w
         then x_dispatch ReconcileNow (x_post EvRaiseDocks
                (x_dispatch (SetWindowBorderWidth win 0) (x_dispatch (SetWindowBorderless win True) s)))
         else
           (case physical_of_workspace s (workspace_of_window (wm (x_core s)) win) of
              None \<Rightarrow> s
            | Some (pos, sz) \<Rightarrow>
                x_dispatch ReconcileNow (x_post EvRaiseDocks (x_dispatch (SetWindowGeometry win pos sz)
                  (x_dispatch (SetWindowBorderWidth win 0) (x_dispatch (SetWindowBorderless win True) s))))))
      else s)"

definition refreshed_atoms :: "x_server \<Rightarrow> atom list" where
  "refreshed_atoms S =
     [XCB_ATOM_WM_CLASS, intern_atom S ''_NET_WM_WINDOW_TYPE'', XCB_ATOM_WM_NORMAL_HINTS, XCB_ATOM_WM_HINTS,
      intern_atom S ''_MOTIF_WM_HINTS'', XCB_ATOM_WM_NAME, intern_atom S ''_NET_WM_NAME'']"

definition refresh_metadata :: "x_env \<Rightarrow> window_id \<Rightarrow> atom \<Rightarrow> wptr \<Rightarrow> x11 \<Rightarrow> x11" where
  "refresh_metadata X win a p s =
     (let S = ask X s; md0 = read_window_metadata S win; w = xw_state s p;
          md = md0\<lparr>md_hints := (md_hints md0)\<lparr>pre_fullscreen := self_managed w, covers_monitor := self_managed w \<or> borderless w\<rparr>\<rparr>;
          s1 = (if a = intern_atom S ''_MOTIF_WM_HINTS'' then motif_changed win md p s else s)
      in x_dispatch (SetWindowMetadata md) s1)"

definition transient_changed :: "x_env \<Rightarrow> window_id \<Rightarrow> x11 \<Rightarrow> x11" where
  "transient_changed X win s =
     (let trans = (case get_transient_for (ask X s) win of None \<Rightarrow> NO_WINDOW | Some t \<Rightarrow> t) in
      if trans \<noteq> NO_WINDOW \<and> window_state_any (x_core s) trans \<noteq> None then
        (let parent_ws = workspace_of_window (wm (x_core s)) trans;
             s1 = (if parent_ws \<ge> 0
                   then x_dispatch (MoveWindowToWorkspace win parent_ws) (x_dispatch (SetWindowSuppressFocusOnce win True) s) else s);
             s2 = x_dispatch (SetWindowFloating win True) s1; c = x_core s2; wsi = workspace_of_window (wm c) win;
             t1 = monitor_for_visible_workspace c (workspace_of_window (wm c) trans);
             t2 = (if t1 < 0 then monitor_for_visible_workspace c wsi else t1);
             t3 = (if t2 < 0 then focused_monitor (wm c) else t2);
             s3 = (if wsi \<ge> 0 \<and> is_workspace_visible c wsi then place_on_index X win t3 True s2 else s2)
         in x_dispatch ReconcileNow s3)
      else s)"

definition handle_property_notify :: "x_env \<Rightarrow> window_id \<Rightarrow> atom \<Rightarrow> x11 \<Rightarrow> x11" where
  "handle_property_notify X win a s =
     x_post (EvPropertyNotify win a)
       (case find_window_in_all (wm (x_core s)) win of
          None \<Rightarrow> s
        | Some p \<Rightarrow>
            (let s1 = (if a \<in> set (refreshed_atoms (ask X s)) then refresh_metadata X win a p s else s)
             in if a = XCB_ATOM_WM_TRANSIENT_FOR \<and> \<not> floating (xw_state s1 p) then transient_changed X win s1 else s1))"

section \<open>Configuration\<close>

definition has_flag :: "16 word \<Rightarrow> 16 word \<Rightarrow> bool" where
  "has_flag m f \<longleftrightarrow> m AND f \<noteq> 0"

definition SIZE_FLAGS :: "16 word" where
  "SIZE_FLAGS = XCB_CONFIG_WINDOW_WIDTH OR XCB_CONFIG_WINDOW_HEIGHT"

definition put_value :: "16 word \<Rightarrow> 16 word \<Rightarrow> 32 word \<Rightarrow> 16 word \<times> 32 word list \<Rightarrow> 16 word \<times> 32 word list" where
  "put_value m f v acc = (if has_flag m f then (fst acc OR f, snd acc @ [v]) else acc)"

definition configure_patch :: "configure_request \<Rightarrow> 16 word \<times> 32 word list" where
  "configure_patch r =
     (let m = cr_mask r in
      put_value m XCB_CONFIG_WINDOW_STACK_MODE (cr_stack_mode r)
        (put_value m XCB_CONFIG_WINDOW_SIBLING (cr_sibling r)
          (put_value m XCB_CONFIG_WINDOW_BORDER_WIDTH (word_of_int (cr_border_width r))
            (put_value m XCB_CONFIG_WINDOW_HEIGHT (word_of_int (cr_height r))
              (put_value m XCB_CONFIG_WINDOW_WIDTH (word_of_int (cr_width r))
                (put_value m XCB_CONFIG_WINDOW_Y (word_of_int (cr_y r))
                  (put_value m XCB_CONFIG_WINDOW_X (word_of_int (cr_x r)) (0, []))))))))"

text \<open>
  A window the core does not know is moved to the monitor under the pointer when it asks for a position and a size; a
  size that is exactly that of some monitor becomes the size of the target monitor.
\<close>

definition steered :: "core \<Rightarrow> vec2i \<Rightarrow> configure_request \<Rightarrow> configure_request" where
  "steered c ptr r =
     (case find (\<lambda>m. contains m ptr) (monitors (wm c)) of
        None \<Rightarrow> r
      | Some m \<Rightarrow>
          (let (tgt_pos, tgt_size) = physical m; pos16 = vec2i16_of tgt_pos;
               rw = (if has_flag (cr_mask r) XCB_CONFIG_WINDOW_WIDTH then cr_width r else 0);
               rh = (if has_flag (cr_mask r) XCB_CONFIG_WINDOW_HEIGHT then cr_height r else 0);
               r1 = r\<lparr>cr_x := fst pos16, cr_y := snd pos16\<rparr>
           in if \<exists>m\<in>set (monitors (wm c)). snd (physical m) = (rw, rh)
              then r1\<lparr>cr_width := take_bit 16 (fst tgt_size), cr_height := take_bit 16 (snd tgt_size),
                      cr_mask := cr_mask r1 OR SIZE_FLAGS\<rparr>
              else r1))"

definition configure_unmanaged :: "configure_request \<Rightarrow> x11 \<Rightarrow> x11" where
  "configure_unmanaged r s =
     (let steer = (has_flag (cr_mask r) SIZE_FLAGS \<and> has_flag (cr_mask r) (XCB_CONFIG_WINDOW_X OR XCB_CONFIG_WINDOW_Y));
          r1 = (if steer then steered (x_core s) (last_pointer s) r else r);
          s1 = (if steer \<and> first_configure_pos s (cr_window r) = None
                then s\<lparr>first_configure_pos := (first_configure_pos s)(cr_window r \<mapsto> (cr_x r1, cr_y r1))\<rparr> else s);
          (m, vs) = configure_patch r1
      in x_req (ConfigureWin (cr_window r) m vs) s1)"

definition restack_request :: "configure_request \<Rightarrow> wptr \<Rightarrow> x11 \<Rightarrow> x11" where
  "restack_request r p s =
     (if \<not> has_flag (cr_mask r) XCB_CONFIG_WINDOW_STACK_MODE then s
      else if fullscreen (xw_state s p) then x_post EvRaiseDocks s
      else with_xw (cr_window r)
             (if has_flag (cr_mask r) XCB_CONFIG_WINDOW_SIBLING
              then xw_configure (XCB_CONFIG_WINDOW_STACK_MODE OR XCB_CONFIG_WINDOW_SIBLING) [cr_sibling r, cr_stack_mode r]
              else xw_configure XCB_CONFIG_WINDOW_STACK_MODE [cr_stack_mode r]) s)"

text \<open>A tiled window that asks for the size of its monitor may become borderless; the request is then rewritten.\<close>

definition promote_request :: "configure_request \<Rightarrow> wptr \<Rightarrow> x11 \<Rightarrow> bool \<times> configure_request \<times> x11" where
  "promote_request r p s =
     (let w = xw_state s p;
          d = evaluate_fullscreen_like_request (x_core s) (cr_window r) (cr_width r, cr_height r) True in
      if \<not> floating w \<and> \<not> borderless w \<and> \<not> preserve_position w \<and> has_flag (cr_mask r) SIZE_FLAGS \<and> promote d
      then (True,
            r\<lparr>cr_x := clamp (fst (fld_pos d)) (-32768) 32767, cr_y := clamp (snd (fld_pos d)) (-32768) 32767,
              cr_width := take_bit 16 (min (fst (fld_size d)) 65535), cr_height := take_bit 16 (min (snd (fld_size d)) 65535),
              cr_mask := cr_mask r OR XCB_CONFIG_WINDOW_X OR XCB_CONFIG_WINDOW_Y OR SIZE_FLAGS\<rparr>,
            x_post EvRaiseDocks (x_dispatch (SetWindowBorderless (cr_window r) True) s))
      else (False, r, s))"

definition requested_rect :: "configure_request \<Rightarrow> window \<Rightarrow> vec2i \<times> vec2i" where
  "requested_rect r w =
     (let m = cr_mask r in
      ((if has_flag m XCB_CONFIG_WINDOW_X then cr_x r else fst (win_pos w),
        if has_flag m XCB_CONFIG_WINDOW_Y then cr_y r else snd (win_pos w)),
       (if has_flag m XCB_CONFIG_WINDOW_WIDTH then cr_width r else fst (win_size w),
        if has_flag m XCB_CONFIG_WINDOW_HEIGHT then cr_height r else snd (win_size w))))"

definition keep_on_monitor :: "x11 \<Rightarrow> window_id \<Rightarrow> vec2i \<Rightarrow> vec2i \<Rightarrow> vec2i" where
  "keep_on_monitor s win sz pos =
     (let c = x_core s; m = monitor_of (wm c) (workspace_of_window (wm c) win); mons = monitors (wm c) in
      if 0 \<le> m \<and> m < int (length mons) then
        (let mon = mons ! nat m; mx = fst (mon_pos mon) + fst (mon_size mon) - fst sz;
             my = snd (mon_pos mon) + snd (mon_size mon) - snd sz
         in (clamp (fst pos) (fst (mon_pos mon)) (max (fst (mon_pos mon)) mx),
             clamp (snd pos) (snd (mon_pos mon)) (max (snd (mon_pos mon)) my)))
      else pos)"

definition answer_current :: "window_id \<Rightarrow> wptr \<Rightarrow> x11 \<Rightarrow> x11" where
  "answer_current win p s =
     (let w = xw_state s p in with_xw win (xw_send_configure_notify (win_pos w) (win_size w) (sint (border_width w))) s)"

definition accept_request :: "configure_request \<Rightarrow> bool \<Rightarrow> bool \<Rightarrow> wptr \<Rightarrow> x11 \<Rightarrow> x11" where
  "accept_request r static_grav borderless_fs p s =
     (let w = xw_state s p; win = cr_window r; (pos0, sz) = requested_rect r w;
          out_bw = (if has_flag (cr_mask r) XCB_CONFIG_WINDOW_BORDER_WIDTH then cr_border_width r else sint (border_width w));
          d = (if static_grav \<and> out_bw > 0 then out_bw else 0);
          pos1 = (fst pos0 - d, snd pos0 - d);
          pos2 = (if \<not> borderless_fs \<and> size_locked w \<and> \<not> preserve_position w then keep_on_monitor s win sz pos1 else pos1);
          s1 = x_dispatch (SetWindowGeometry win pos2 sz) s;
          s2 = (if borderless_fs then x_dispatch ReconcileNow s1 else s1)
      in with_xw win (xw_send_configure_notify (fst pos2 + d, snd pos2 + d) sz out_bw) s2)"

definition configure_managed :: "configure_request \<Rightarrow> wptr \<Rightarrow> x11 \<Rightarrow> x11" where
  "configure_managed r0 p s =
     (let win = cr_window r0; w0 = xw_state s p;
          s1 = (if has_flag (cr_mask r0) XCB_CONFIG_WINDOW_BORDER_WIDTH \<and> \<not> borderless w0 \<and> \<not> is_self_managed w0
                then x_dispatch (SetWindowBorderWidth win (word_of_int (cr_border_width r0))) s else s);
          s2 = restack_request r0 p s1;
          (borderless_fs, r, s3) = promote_request r0 p s2;
          w = xw_state s3 p
      in if floating w0 \<or> borderless w0 \<or> borderless_fs \<or> preserve_position w0 then
           (if fullscreen w \<and> \<not> borderless_fs \<or> borderless w \<and> \<not> borderless_fs \<and> \<not> self_managed w
            then answer_current win p s3
            else accept_request r (preserve_position w0) borderless_fs p s3)
         else answer_current win p s3)"

definition handle_configure_request :: "configure_request \<Rightarrow> x11 \<Rightarrow> x11" where
  "handle_configure_request r s =
     (case find_window_in_all (wm (x_core s)) (cr_window r) of
        None \<Rightarrow> configure_unmanaged r s
      | Some p \<Rightarrow> configure_managed r p s)"

definition handle_configure_notify :: "window_id \<Rightarrow> vec2i \<Rightarrow> vec2i \<Rightarrow> int \<Rightarrow> bool \<Rightarrow> x11 \<Rightarrow> x11" where
  "handle_configure_notify win pos sz bw override_redirect s =
     (let s1 = x_post (EvConfigureNotify win pos sz) s in
      if window_state_any (x_core s1) win = None \<or> override_redirect then s1
      else x_dispatch (SyncWindowFromConfigureNotify win pos sz (word_of_int bw)) s1)"

section \<open>Input\<close>

definition handle_focus_event :: "bool \<Rightarrow> window_id \<Rightarrow> x11 \<Rightarrow> x11" where
  "handle_focus_event out win s =
     (if out then s\<lparr>key_down := (\<lambda>_. False)\<rparr>
      else if win = x_root s then s
      else case focused_window_state (x_core s) of
        None \<Rightarrow> s
      | Some p \<Rightarrow> if win \<noteq> xw_id s p then x_req (SetInputFocus (xw_id s p) 0) s else s)"

definition handle_button_event :: "x_button_event \<Rightarrow> x11 \<Rightarrow> x11" where
  "handle_button_event b s =
     (let s1 = s\<lparr>last_event_time := bp_time b, last_pointer := bp_root b\<rparr>;
          s2 = (if \<not> bp_release b then x_pointer_at (bp_root b) s1 else s1)
      in x_post (EvButton (bp_event b) (bp_root_win b) (bp_root b) (bp_pos b) (bp_time b) (bp_detail b) (bp_state b) (bp_release b)) s2)"

definition handle_motion_notify :: "window_id \<Rightarrow> vec2i \<Rightarrow> 16 word \<Rightarrow> x11 \<Rightarrow> x11" where
  "handle_motion_notify win pos st s =
     (let s1 = s\<lparr>last_pointer := pos\<rparr>; s2 = (if win = x_root s1 then x_pointer_at pos s1 else s1)
      in x_post (EvMotion win pos st) s2)"

definition handle_enter_notify :: "crossing_event \<Rightarrow> x11 \<Rightarrow> x11" where
  "handle_enter_notify e s =
     (if ce_leave e \<or> \<not> ce_mode_normal e \<or> ce_detail_inferior e then s
      else
        (let s1 = s\<lparr>last_event_time := ce_time e, last_pointer := ce_root e\<rparr> in
         case window_state_any (x_core s1) (ce_event e) of
           None \<Rightarrow> s1
         | Some w \<Rightarrow> if is_visible w then x_dispatch (FocusWindow (ce_event e)) s1 else s1))"

definition key_symbols :: "x_env \<Rightarrow> x11 \<Rightarrow> x11" where
  "key_symbols X s = (if key_syms s = None then s\<lparr>key_syms := xs_keysyms (ask X s)\<rparr> else s)"

definition press_key :: "x_env \<Rightarrow> key_event \<Rightarrow> x11 \<Rightarrow> x11" where
  "press_key X k s =
     (if key_down s (ke_detail k) then s
      else
        (let s1 = key_symbols X (s\<lparr>key_down := (key_down s)(ke_detail k := True)\<rparr>);
             keysym = (case key_syms s1 of None \<Rightarrow> 0 | Some f \<Rightarrow> f (ke_detail k))
         in x_post (EvKeyPress (ke_state k) (ke_detail k) keysym) s1))"

fun is_repeat :: "key_event \<Rightarrow> x_event \<Rightarrow> bool" where
  "is_repeat k (KeyEvent n) \<longleftrightarrow> \<not> ke_release n \<and> ke_detail n = ke_detail k \<and> ke_time n = ke_time k"
| "is_repeat k _ \<longleftrightarrow> False"

definition lift_key :: "8 word \<Rightarrow> x11 \<Rightarrow> x11" where
  "lift_key code s = s\<lparr>key_down := (key_down s)(code := False)\<rparr>"

section \<open>Dispatch\<close>

definition x_display_change :: "env \<Rightarrow> x11 \<Rightarrow> x11" where
  "x_display_change E = on_xw (dispatch_display_change E)"

definition handle_ge_generic :: "env \<Rightarrow> x11 \<Rightarrow> x11" where
  "handle_ge_generic E s =
     (if extension_event_base s < 0 then s
      else if int (xcb_opcode GeGeneric) = extension_event_base s then x_display_change E s else s)"

definition handle_extension_event :: "x_env \<Rightarrow> env \<Rightarrow> nat \<Rightarrow> x11 \<Rightarrow> x11" where
  "handle_extension_event X E ty s =
     (let base = extension_event_base s in
      if base \<ge> 0 \<and> (int ty = base \<or> int ty = base + 1) then x_display_change E s
      else if xkb_event_type s \<ge> 0 \<and> int ty = xkb_event_type s mod 256
      then x_post (EvCustomEvent (layout_token X (xs_layout (ask X s)))) s
      else s)"

text \<open>The handlers of every event but a key event.\<close>

fun handle_event :: "x_env \<Rightarrow> env \<Rightarrow> x_event \<Rightarrow> x11 \<Rightarrow> x11" where
  "handle_event X E (MapRequest win) s = handle_map_request X E win s"
| "handle_event X E (MapNotify win r) s = handle_map_notify win r s"
| "handle_event X E (ReparentNotify win par) s = handle_reparent_notify X win par s"
| "handle_event X E (UnmapNotify win) s = handle_unmap_notify X win s"
| "handle_event X E (DestroyNotify win) s = handle_destroy_notify win s"
| "handle_event X E (ConfigureRequest r) s = handle_configure_request r s"
| "handle_event X E (ConfigureNotify win pos sz bw r) s = handle_configure_notify win pos sz bw r s"
| "handle_event X E (FocusEvent out win) s = handle_focus_event out win s"
| "handle_event X E (ButtonEvent b) s = handle_button_event b s"
| "handle_event X E (MotionNotify win pos st) s = handle_motion_notify win pos st s"
| "handle_event X E (ClientMessage win ty fmt data) s = handle_client_message X E win ty fmt data s"
| "handle_event X E (PropertyNotify win a) s = handle_property_notify X win a s"
| "handle_event X E (Expose win n) s = x_post (EvExposeWindow win) s"
| "handle_event X E GeGeneric s = handle_ge_generic E s"
| "handle_event X E (CrossingEvent e) s = handle_enter_notify e s"
| "handle_event X E (OtherEvent ty) s = handle_extension_event X E ty s"
| "handle_event X E _ s = s"

text \<open>
  \<^verbatim>\<open>handle_generic_event\<close> with \<^verbatim>\<open>handle_key_event\<close> unfolded. A release is only taken as one if the next event is not the
  press of an automatic repeat.
\<close>

function handle_generic_event :: "x_env \<Rightarrow> env \<Rightarrow> x_event \<Rightarrow> x11 \<Rightarrow> x11" where
  "handle_generic_event X E ev s =
     (case ev of
        KeyEvent k \<Rightarrow>
          (let s1 = x_pointer_at (ke_root k) s in
           if ke_release k then
             (case x_input s1 of
                next # rest \<Rightarrow>
                  (let s2 = s1\<lparr>x_input := rest\<rparr>
                   in handle_generic_event X E next (if is_repeat k next then s2 else lift_key (ke_detail k) s2))
              | [] \<Rightarrow> lift_key (ke_detail k) s1)
           else press_key X k s1)
      | _ \<Rightarrow> handle_event X E ev s)"
  by pat_completeness auto
termination
  by (relation "measure (\<lambda>(X, E, ev, s). length (x_input s))")
     (auto simp: x_pointer_at_def on_xw_def lift_key_def)

declare handle_generic_event.simps [simp del]

lemma handle_generic_event_other: "(\<And>k. ev \<noteq> KeyEvent k) \<Longrightarrow> handle_generic_event X E ev s = handle_event X E ev s"
  by (subst handle_generic_event.simps) (cases ev; auto)

lemmas handle_key_simps = handle_generic_event.simps [of _ _ "KeyEvent k" for k, simplified]

section \<open>The event pump\<close>

definition is_randr_event_type :: "x11 \<Rightarrow> nat \<Rightarrow> bool" where
  "is_randr_event_type s ty \<longleftrightarrow>
     (let base = extension_event_base s in base \<ge> 0 \<and> (int ty = base mod 256 \<or> int ty = (base + 1) mod 256))"

record burst =
  latest_motion :: "x_event option"
  pending_exposes :: "x_event list"
  randr_dirty :: bool

definition no_burst :: burst where
  "no_burst = \<lparr>latest_motion = None, pending_exposes = [], randr_dirty = False\<rparr>"

fun expose_window :: "x_event \<Rightarrow> window_id option" where
  "expose_window (Expose win n) = Some win"
| "expose_window _ = None"

fun add_expose :: "x_event \<Rightarrow> x_event list \<Rightarrow> x_event list" where
  "add_expose e [] = [e]"
| "add_expose e (x # xs) = (if expose_window x = expose_window e then e # xs else x # add_expose e xs)"

text \<open>One round of the loop, with the event already taken from the connection.\<close>

definition pump_one :: "x_env \<Rightarrow> env \<Rightarrow> x_event \<Rightarrow> burst \<times> x11 \<Rightarrow> burst \<times> x11" where
  "pump_one X E ev bs =
     (case bs of (b, s) \<Rightarrow>
        if is_randr_event_type s (xcb_opcode ev) then (b\<lparr>randr_dirty := True\<rparr>, s)
        else if xcb_opcode ev = 6 then (b\<lparr>latest_motion := Some ev\<rparr>, s)
        else if xcb_opcode ev = 12 then (b\<lparr>pending_exposes := add_expose ev (pending_exposes b)\<rparr>, s)
        else (b, handle_generic_event X E ev s))"

fun x_pump_loop :: "x_env \<Rightarrow> env \<Rightarrow> nat \<Rightarrow> burst \<times> x11 \<Rightarrow> burst \<times> x11" where
  "x_pump_loop X E 0 bs = bs"
| "x_pump_loop X E (Suc n) bs =
     (case x_input (snd bs) of
        [] \<Rightarrow> bs
      | ev # rest \<Rightarrow> x_pump_loop X E n (pump_one X E ev (fst bs, (snd bs)\<lparr>x_input := rest\<rparr>)))"

definition finish_burst :: "x_env \<Rightarrow> env \<Rightarrow> burst \<times> x11 \<Rightarrow> x11" where
  "finish_burst X E bs =
     (case bs of (b, s) \<Rightarrow>
        (let s1 = (case latest_motion b of None \<Rightarrow> s | Some ev \<Rightarrow> handle_generic_event X E ev s);
             s2 = fold (handle_generic_event X E) (pending_exposes b) s1
         in if randr_dirty b then x_display_change E s2 else s2))"

definition x_pump_events :: "x_env \<Rightarrow> env \<Rightarrow> nat \<Rightarrow> x11 \<Rightarrow> x11" where
  "x_pump_events X E max_events s = finish_burst X E (x_pump_loop X E max_events (no_burst, s))"

section \<open>A frame\<close>

definition flush_patch :: "dirty_mask \<Rightarrow> window \<Rightarrow> 16 word \<times> 32 word list" where
  "flush_patch d w =
     (let put = (\<lambda>f m v acc. if d AND f \<noteq> 0 then (fst acc OR m, snd acc @ [v]) else acc) in
      put DIRTY_BORDER_WIDTH XCB_CONFIG_WINDOW_BORDER_WIDTH (border_width w)
        (put DIRTY_HEIGHT XCB_CONFIG_WINDOW_HEIGHT (word_of_int (snd (win_size w)))
          (put DIRTY_WIDTH XCB_CONFIG_WINDOW_WIDTH (word_of_int (fst (win_size w)))
            (put DIRTY_Y XCB_CONFIG_WINDOW_Y (word_of_int (snd (win_pos w)))
              (put DIRTY_X XCB_CONFIG_WINDOW_X (word_of_int (fst (win_pos w))) (0, []))))))"

definition apply_window_flush :: "window_flush \<Rightarrow> wptr \<Rightarrow> x11 \<Rightarrow> x11" where
  "apply_window_flush f p s =
     (if \<not> has_config_changes f then s
      else (let (m, vs) = flush_patch (dirty f) (xw_state s p) in if vs \<noteq> [] then xw_configure m vs p s else s))"

definition take_and_flush :: "window_id \<Rightarrow> (window_flush \<Rightarrow> x11 \<Rightarrow> x11) \<Rightarrow> x11 \<Rightarrow> x11" where
  "take_and_flush win g s =
     (case take_window_flush win (x_core s) of
        (f, c) \<Rightarrow> (let s1 = on_xw (upd_core (\<lambda>_. c)) s in case f of None \<Rightarrow> s1 | Some f \<Rightarrow> g f s1))"

definition map_effect :: "x_env \<Rightarrow> window_id \<Rightarrow> wptr \<Rightarrow> x11 \<Rightarrow> x11" where
  "map_effect X win p s =
     (let w = xw_state s p;
          s1 = (if borderless w \<and> \<not> is_self_managed w
                then (case physical_of_workspace s (workspace_of_window (wm (x_core s)) win) of
                        None \<Rightarrow> s
                      | Some (pos, sz) \<Rightarrow>
                          take_and_flush win (\<lambda>f. apply_window_flush f p) (x_dispatch (SetWindowGeometry win pos sz) s))
                else s)
      in ewmh_on_window_mapped X win (xw_send_expose X p (xw_map p (xw_set_wm_state_normal p (select_managed_events win s1)))))"

definition unmap_effect :: "x_env \<Rightarrow> window_id \<Rightarrow> wptr \<Rightarrow> x11 \<Rightarrow> x11" where
  "unmap_effect X win p s =
     (let s1 = (if win = barrier_window s then clear_pointer_barriers (x_req UngrabPtr s) else s)
      in xw_unmap p (note_wm_unmap p (ewmh_on_window_unmapped X win False s1)))"

definition warp_pointer_abs :: "vec2i \<Rightarrow> x11 \<Rightarrow> x11" where
  "warp_pointer_abs pos s = x_req (WarpPtr (x_root s) pos) s"

fun x_apply_effect :: "x_env \<Rightarrow> backend_effect_kind \<Rightarrow> window_id \<Rightarrow> vec2i \<Rightarrow> x11 \<Rightarrow> x11" where
  "x_apply_effect X EffMapWindow win pos s = with_xw win (map_effect X win) s"
| "x_apply_effect X EffUnmapWindow win pos s = with_xw win (unmap_effect X win) s"
| "x_apply_effect X EffFocusWindow win pos s = (if win \<noteq> NO_WINDOW then x_focus_window X win s else s)"
| "x_apply_effect X EffFocusRoot win pos s = (if x_root s \<noteq> NO_WINDOW then x_req (SetInputFocus (x_root s) 0) s else s)"
| "x_apply_effect X EffUpdateWindow win pos s =
     (if win = NO_WINDOW then s else take_and_flush win (\<lambda>f. with_xw win (apply_window_flush f)) s)"
| "x_apply_effect X EffWarpPointer win pos s = warp_pointer_abs pos s"
| "x_apply_effect X EffRaiseWindow win pos s = with_xw win (xw_restack 0) s"
| "x_apply_effect X EffLowerWindow win pos s = with_xw win (xw_restack 1) s"
| "x_apply_effect X EffCloseWindow win pos s =
     with_xw win (\<lambda>p s. x_flush (if xw_supports_delete X p s then xw_send_delete_message p s else xw_kill p s)) s"

definition apply_core_backend_effects :: "x_env \<Rightarrow> x11 \<Rightarrow> x11" where
  "apply_core_backend_effects X s =
     (case take_backend_effects (x_core s) of
        (effects, c) \<Rightarrow>
          fold (\<lambda>e. x_apply_effect X (eff_kind e) (eff_window e) (eff_pos e)) effects (on_xw (upd_core (\<lambda>_. c)) s))"

definition x_render_frame :: "x_env \<Rightarrow> x11 \<Rightarrow> x11" where
  "x_render_frame X s =
     (let s1 = apply_core_backend_effects X s
      in x_flush (fold (\<lambda>win. take_and_flush win (\<lambda>f. with_xw win (apply_window_flush f))) (visible_window_ids (x_core s1)) s1))"

definition x_on_reload_applied :: "x11 \<Rightarrow> x11" where
  "x_on_reload_applied s =
     x_flush (x_focus NO_WINDOW (x_post EvRaiseDocks (x_reload_border_colors (s\<lparr>key_down := (\<lambda>_. False)\<rparr>))))"

section \<open>Start-up\<close>

text \<open>
  The attempts to become the window manager: the redirection of the root window is requested until the server grants
  it, at most twenty times. The result is the error the constructor looks at afterwards.
\<close>

fun claim_root :: "(nat \<Rightarrow> bool) \<Rightarrow> nat \<Rightarrow> nat \<Rightarrow> bool" where
  "claim_root granted attempt 0 = False"
| "claim_root granted attempt (Suc n) = (if granted attempt then False else claim_root granted (Suc attempt) n)"

definition x_intern_atoms :: "x_env \<Rightarrow> x11 \<Rightarrow> x11" where
  "x_intern_atoms X s =
     (if atoms_resolved s then s else s\<lparr>x_atoms := (\<lambda>a. intern_atom (ask X s) (ewmh_atom_name a)), atoms_resolved := True\<rparr>)"

definition supported_atoms :: "ewmh_atom list" where
  "supported_atoms =
     [NetSupported, NetWmName, NetActiveWindow, NetClientList, NetClientListStacking, NetSupportingWmCheck, NetWmState,
      NetWmStateFullscreen, NetWmStateHidden, NetWmStateFocused, NetFrameExtents, NetWmWindowType, NetWmWindowTypeDock,
      NetWmWindowTypeDialog, NetCloseWindow, NetNumberOfDesktops, NetCurrentDesktop, NetDesktopNames, NetDesktopGeometry,
      NetDesktopViewport, NetWorkarea, NetWmDesktop]"

definition ewmh_init :: "x_env \<Rightarrow> x11 \<Rightarrow> x11" where
  "ewmh_init X s =
     (let s1 = x_intern_atoms X s; win = xs_new_id (ask X s1);
          s2 = x_req (CreateWin win (x_root s1) (-1, -1) (1, 1)) (s1\<lparr>ewmh_wm_window := win\<rparr>);
          s3 = x_req (ChangeProperty win (x_atoms s2 NetSupportingWmCheck) XCB_ATOM_WINDOW [win]) s2;
          s4 = x_req (ChangeText win (x_atoms s3 NetWmName) (x_atoms s3 Utf8String) ''SirenWM'') s3;
          s5 = set_root_property NetSupportingWmCheck XCB_ATOM_WINDOW [win] s4;
          s6 = set_root_property NetSupported XCB_ATOM_ATOM (map (x_atoms s5) supported_atoms) s5;
          s7 = ewmh_update_client_list (ewmh_update_desktop_props X (set_root_property NetCurrentDesktop XCB_ATOM_CARDINAL [0] s6))
      in x_flush (set_root_property NetActiveWindow XCB_ATOM_WINDOW [NO_WINDOW] s7))"

definition xresources :: "theme_config \<Rightarrow> string" where
  "xresources th =
     (if dpi th > 0 then ''Xft.dpi: '' @ int_to_string (dpi th) @ [newline] else []) @
     (if cursor_size th > 0 then ''Xcursor.size: '' @ int_to_string (cursor_size th) @ [newline] else []) @
     (if cursor_theme th \<noteq> [] then ''Xcursor.theme: '' @ cursor_theme th @ [newline] else [])"

definition apply_xresources :: "x11 \<Rightarrow> x11" where
  "apply_xresources s =
     (let th = theme (settings (x_core s)) in
      if dpi th = 0 \<and> cursor_size th = 0 \<and> cursor_theme th = [] then s
      else x_flush (x_req (ChangeText (x_root s) XCB_ATOM_RESOURCE_MANAGER XCB_ATOM_STRING (xresources th)) s))"

definition x_on_start :: "x_env \<Rightarrow> x11 \<Rightarrow> x11" where
  "x_on_start X s =
     (let s1 = x_reload_border_colors (apply_xresources (ewmh_update_desktop_props X s))
      in case xs_pointer (ask X s1) of None \<Rightarrow> s1 | Some p \<Rightarrow> x_pointer_at p s1)"

section \<open>Existing windows\<close>

text \<open>The window types a scan does not take over; the list is shorter than that of the hook.\<close>

definition unsupported_type :: "x_server \<Rightarrow> window_id \<Rightarrow> bool" where
  "unsupported_type S win \<longleftrightarrow>
     (let types = get_atom_list_property S win (intern_atom S ''_NET_WM_WINDOW_TYPE'')
      in list_ex (\<lambda>n. has_atom types (intern_atom S n))
           [''_NET_WM_WINDOW_TYPE_DOCK'', ''_NET_WM_WINDOW_TYPE_DESKTOP'', ''_NET_WM_WINDOW_TYPE_NOTIFICATION'',
            ''_NET_WM_WINDOW_TYPE_TOOLTIP'', ''_NET_WM_WINDOW_TYPE_DND''])"

definition scan_hints :: "x_server \<Rightarrow> window_id \<Rightarrow> window_hints" where
  "scan_hints S win =
     \<lparr>no_decorations = motif_no_decorations S win, fixed_size = sh_fixed (get_size_hints S win), never_focus = False,
      hint_urgent = False, static_gravity = False, covers_monitor = False, pre_fullscreen = False, is_xembed = False,
      hint_size_min = (0, 0), hint_size_max = (0, 0), hint_size_inc = (0, 0), hint_size_base = (0, 0)\<rparr>"

text \<open>The geometry is asked for after the events are selected, by \<open>g\<close>.\<close>

definition scan_window :: "x_server \<Rightarrow> x_geometry option \<Rightarrow> restart_state \<Rightarrow> x_attributes \<Rightarrow> window_id \<Rightarrow> existing_window_snapshot" where
  "scan_window S g rst a win =
     (let rw = rs_windows rst win; cls = get_wm_class S win; ttl = window_title S win;
          identifiable = (fst cls \<noteq> [] \<or> snd cls \<noteq> [] \<or> ttl \<noteq> []);
          iconic = (get_wm_state_value S win (intern_atom S ''WM_STATE'') = 3)
      in \<lparr>snap_window = win, currently_viewable = xa_viewable a,
          default_manage = (rw \<noteq> None \<or> (xa_viewable a \<or> iconic) \<and> \<not> unsupported_type S win \<and> identifiable),
          from_restart = (rw \<noteq> None),
          restart_workspace_id = (case rw of None \<Rightarrow> -1 | Some r \<Rightarrow> rw_ws_id r),
          restart_floating = (case rw of None \<Rightarrow> False | Some r \<Rightarrow> rw_floating r),
          restart_fullscreen = (case rw of None \<Rightarrow> False | Some r \<Rightarrow> rw_fullscreen r),
          restart_hidden_explicitly = (case rw of None \<Rightarrow> False | Some r \<Rightarrow> rw_hidden_explicitly r),
          restart_borderless = (case rw of None \<Rightarrow> False | Some r \<Rightarrow> rw_borderless r),
          has_geometry = (g \<noteq> None), geo_pos = (case g of None \<Rightarrow> (0, 0) | Some g \<Rightarrow> xg_pos g),
          geo_size = (case g of None \<Rightarrow> (0, 0) | Some g \<Rightarrow> (xg_width g, xg_height g)),
          snap_wm_instance = fst cls, snap_wm_class = snd cls, snap_title = ttl, snap_type = window_type_of S win,
          snap_hints = scan_hints S win\<rparr>)"

definition scan_one :: "x_env \<Rightarrow> restart_state \<Rightarrow> window_id \<Rightarrow> existing_window_snapshot list \<times> x11 \<Rightarrow> existing_window_snapshot list \<times> x11" where
  "scan_one X rst win acc =
     (case acc of (out, s) \<Rightarrow>
        if win = x_root s then acc
        else case xs_attributes (ask X s) win of
          None \<Rightarrow> acc
        | Some a \<Rightarrow>
            if xa_override_redirect a \<or> \<not> xa_input_output a then acc
            else
              (let s1 = (if default_manage (scan_window (ask X s) None rst a win) then select_managed_events win s else s)
               in (out @ [scan_window (ask X s) (xs_geometry (ask X s1) win) rst a win], s1)))"

text \<open>The window that has the input focus, followed up to a child of the root window, at most eight steps.\<close>

fun focus_toplevel :: "x_server \<Rightarrow> window_id list \<Rightarrow> nat \<Rightarrow> window_id \<Rightarrow> window_id" where
  "focus_toplevel S children 0 win = NO_WINDOW"
| "focus_toplevel S children (Suc depth) win =
     (if win \<in> set children then win
      else case query_parent S win of None \<Rightarrow> NO_WINDOW | Some p \<Rightarrow> focus_toplevel S children depth p)"

definition x_scan_existing_windows :: "x_env \<Rightarrow> x11 \<Rightarrow> startup_snapshot \<times> x11" where
  "x_scan_existing_windows X s =
     (if x_root s = NO_WINDOW
      then (\<lparr>snap_windows = [], snap_monitor_active_ws = Map.empty, snap_focused_window = NO_WINDOW\<rparr>, s)
      else
        (let children = query_tree_children (ask X s) (x_root s);
             rst = load_restart_state (w_restart_file (x_world s));
             s1 = on_xw (\<lambda>w. w\<lparr>w_restart_file := None\<rparr>) s;
             (out, s2) = fold (scan_one X rst) children ([], s1);
             foc = get_input_focus (ask X s2)
         in (\<lparr>snap_windows = out, snap_monitor_active_ws = (if had_file rst then rs_monitor_active_ws rst else Map.empty),
              snap_focused_window =
                (if foc \<noteq> NO_WINDOW \<and> foc \<noteq> x_root s2 then focus_toplevel (ask X s2) children 8 foc else NO_WINDOW)\<rparr>, s2)))"

section \<open>The input port\<close>

definition lock_variants :: "16 word \<Rightarrow> 16 word list" where
  "lock_variants mods = [mods, mods OR 16, mods OR 2, mods OR 16 OR 2]"

text \<open>\<open>codes\<close> are the key codes XCB gives for the symbol, if any.\<close>

definition x_grab_key :: "8 word list \<Rightarrow> 16 word \<Rightarrow> x11 \<Rightarrow> x11" where
  "x_grab_key codes mods s =
     fold (\<lambda>kc s. fold (\<lambda>v s. x_req (GrabKey (x_root s) kc v) s) (lock_variants mods) s) codes s"

definition x_ungrab_all_keys :: "x11 \<Rightarrow> x11" where
  "x_ungrab_all_keys s = x_req (UngrabKey 0 (x_root s) 0x8000) s"

definition x_grab_button :: "window_id \<Rightarrow> 8 word \<Rightarrow> 16 word \<Rightarrow> x11 \<Rightarrow> x11" where
  "x_grab_button win button mods s =
     fold (\<lambda>v s. x_req (GrabBtn win (push_bit 2 1 OR push_bit 3 1 OR push_bit 6 1) button v) s) (lock_variants mods) s"

definition x_ungrab_all_buttons :: "window_id \<Rightarrow> x11 \<Rightarrow> x11" where
  "x_ungrab_all_buttons win = x_req (UngrabBtn 0 win 0x8000)"

definition x_grab_pointer :: "x11 \<Rightarrow> x11" where
  "x_grab_pointer = x_req (GrabPtr NO_WINDOW (push_bit 3 1 OR push_bit 6 1))"

definition x_ungrab_pointer :: "x11 \<Rightarrow> x11" where
  "x_ungrab_pointer = x_req UngrabPtr"

definition x_warp_pointer :: "window_id \<Rightarrow> vec2i \<Rightarrow> x11 \<Rightarrow> x11" where
  "x_warp_pointer win pos = x_req (WarpPtr win pos)"

end
