(* ===== verification/X11_Invariant.thy ===== *)
theory X11_Invariant
  imports X11_Events
begin

text \<open>
  The X11 backend as a part of the runtime: whatever the X server sends and answers, every event it handles, every
  frame it renders and its start-up move the core through the core's own interface.

  The locale \<open>x_closed\<close> is what a relation between states has to promise so that every operation of the backend
  respects it: it is kept by the primitive steps (a move of the core, a request, an assignment to a field). The lemmas
  inside follow the structure of the definitions: each peels off one operation, one \<open>let\<close> or one case distinction, so
  the proofs walk through a handler in its own order. \<open>x_closed_input\<close> adds that events may be taken from the input.
  The first is interpreted for the fields that no handler changes, the second for the moves of the core.
\<close>

text \<open>The contract of what the backend calls: the environment's, and that of the modules that see client messages.\<close>

definition x_env_ok :: "x_env \<Rightarrow> env \<Rightarrow> bool" where
  "x_env_ok X E \<longleftrightarrow> env_ok E \<and> (\<forall>m ev w. moves w (snd (on_client_message X m ev w)))"

lemma moves_upd_core: "core_step (w_core w) (f (w_core w)) \<Longrightarrow> moves w (upd_core f w)"
  by (rule moves_step) (simp add: upd_core_def)

lemma moves_display_change: "moves w (dispatch_display_change E w)"
  unfolding dispatch_display_change_def by (rule moves_trans [OF moves_apply_and_refresh moves_post_event])

lemma moves_rules: "x_env_ok X E \<Longrightarrow> moves w (invoke_rules E win w)"
  unfolding invoke_rules_def by (intro moves_invoke_hook) (simp add: x_env_ok_def env_ok_def)

lemma moves_until_handled: "x_env_ok X E \<Longrightarrow> moves w (snd (emit_until_handled (on_client_message X) ev ms w))"
proof (induction ms arbitrary: w)
  case (Cons m ms)
  obtain b w1 where f: "on_client_message X m ev w = (b, w1)" by fastforce
  then have "moves w w1" using Cons.prems by (metis snd_conv x_env_ok_def)
  then show ?case using f Cons.IH [of w1] Cons.prems by (auto intro: moves_trans)
qed simp

lemma moves_should_manage:
  assumes "x_env_ok X E"
  shows "moves (x_world s) (x_world (snd (invoke_should_manage X E win s)))"
proof -
  let ?f = "\<lambda>r h w. if r = backend_ptr E then (x_should_manage X (s\<lparr>x_world := w\<rparr>) h, w) else on_should_manage E r h w"
  have "moves w (snd (?f r h w))" for r h w using assms by (simp add: x_env_ok_def env_ok_def)
  then have "moves w (snd (invoke_hook ?f rs h w))" for rs h w by (rule moves_invoke_hook)
  then show ?thesis by (simp add: invoke_should_manage_def Let_def split_beta)
qed

locale x_closed =
  fixes R :: "x11 \<Rightarrow> x11 \<Rightarrow> bool"
  assumes R_refl: "R s s"
    and R_trans: "R s s1 \<Longrightarrow> R s1 s2 \<Longrightarrow> R s s2"
    and R_world: "moves (x_world s) w \<Longrightarrow> R s (s\<lparr>x_world := w\<rparr>)"
    and R_request: "R s (s\<lparr>x_log := l, x_dirty := d\<rparr>)"
    and R_position: "R s (s\<lparr>first_configure_pos := q\<rparr>)" "R s (s\<lparr>last_pointer := v\<rparr>)" "R s (s\<lparr>last_event_time := t\<rparr>)"
    and R_colour: "R s (s\<lparr>border_painted_focused := win\<rparr>)" "R s (s\<lparr>border_focused_pixel := px\<rparr>)"
      "R s (s\<lparr>border_unfocused_pixel := px\<rparr>)"
    and R_keys: "R s (s\<lparr>key_down := kd\<rparr>)" "R s (s\<lparr>key_syms := ks\<rparr>)"
    and R_unmaps: "R s (s\<lparr>pending_wm_unmaps := n\<rparr>)"
    and R_barrier: "R s (s\<lparr>barriers := bs\<rparr>)" "R s (s\<lparr>barrier_window := win\<rparr>)" "R s (s\<lparr>barrier_mon_idx := m\<rparr>)"
    and R_init: "R s (s\<lparr>x_atoms := ats, atoms_resolved := r\<rparr>)" "R s (s\<lparr>ewmh_wm_window := win\<rparr>)"
begin

section \<open>Structure\<close>

lemma R_lets:
  fixes f :: "x11 \<Rightarrow> x11"
  shows "R s v \<Longrightarrow> (\<And>s1. R s s1 \<Longrightarrow> R s (f s1)) \<Longrightarrow> R s (Let v f)"
  by (simp add: Let_def)

lemma R_let: "(\<And>y. R s (f y)) \<Longrightarrow> R s (Let v f)"
  by (simp add: Let_def)

lemma R_pairs:
  fixes v :: "'a \<times> x11"
  shows "R s (snd v) \<Longrightarrow> (\<And>a s1. R s s1 \<Longrightarrow> R s (f a s1)) \<Longrightarrow> R s (case v of (a, s1) \<Rightarrow> f a s1)"
  by (cases v) simp

lemma R_let_pairs:
  fixes v :: "'a \<times> x11"
  shows "R s (snd v) \<Longrightarrow> (\<And>a s1. R s s1 \<Longrightarrow> R s (f a s1)) \<Longrightarrow>
    R s (let (a, s1) = v in f a s1)"
  by (cases v) simp

lemma R_let_triples:
  fixes v :: "'a \<times> 'b \<times> x11"
  shows "R s (snd (snd v)) \<Longrightarrow> (\<And>a b s1. R s s1 \<Longrightarrow> R s (f a b s1)) \<Longrightarrow>
    R s (let (a, b, s1) = v in f a b s1)"
  by (cases v) simp

lemma R_splits:
  "(c \<Longrightarrow> R s a) \<Longrightarrow> (\<not> c \<Longrightarrow> R s b) \<Longrightarrow> R s (if c then a else b)"
  "(m = None \<Longrightarrow> R s a) \<Longrightarrow> (\<And>x. m = Some x \<Longrightarrow> R s (g x)) \<Longrightarrow> R s (case m of None \<Rightarrow> a | Some x \<Rightarrow> g x)"
  "(\<And>x y. q = (x, y) \<Longrightarrow> R s (h x y)) \<Longrightarrow> R s (case q of (x, y) \<Rightarrow> h x y)"
  "(c \<Longrightarrow> R s (e p s1)) \<Longrightarrow> (\<not> c \<Longrightarrow> R s (g' p s1)) \<Longrightarrow> R s ((if c then e else g') p s1)"
  by (auto split: option.splits prod.splits)

lemma R_with:
  "R s0 s \<Longrightarrow> (\<And>p s1. R s0 s1 \<Longrightarrow> R s0 (f p s1)) \<Longrightarrow> R s0 (with_xw win f s)"
  by (auto simp: with_xw_def split: option.splits)

lemma R_fold:
  "R s0 s \<Longrightarrow> (\<And>x s1. R s0 s1 \<Longrightarrow> R s0 (f x s1)) \<Longrightarrow> R s0 (fold f xs s)"
  by (induction xs arbitrary: s) auto

lemma R_updates:
  assumes "R s0 s"
  shows "R s0 (s\<lparr>first_configure_pos := q\<rparr>)" "R s0 (s\<lparr>border_painted_focused := win\<rparr>)"
    "R s0 (s\<lparr>last_event_time := t\<rparr>)" "R s0 (s\<lparr>last_pointer := v\<rparr>)" "R s0 (s\<lparr>key_down := d\<rparr>)"
    "R s0 (s\<lparr>key_syms := k\<rparr>)" "R s0 (s\<lparr>pending_wm_unmaps := n\<rparr>)" "R s0 (s\<lparr>barriers := bs\<rparr>)"
    "R s0 (s\<lparr>barrier_window := win\<rparr>)" "R s0 (s\<lparr>barrier_mon_idx := m\<rparr>)" "R s0 (s\<lparr>border_focused_pixel := px\<rparr>)"
    "R s0 (s\<lparr>border_unfocused_pixel := px\<rparr>)" "R s0 (s\<lparr>x_atoms := ats, atoms_resolved := r\<rparr>)" "R s0 (s\<lparr>ewmh_wm_window := win\<rparr>)"
  by (rule R_trans [OF assms], rule R_position R_colour R_keys R_unmaps R_barrier R_init)+

lemma R_requests:
  assumes "R s0 s"
  shows "R s0 (x_req r s)" "R s0 (x_flush s)" "R s0 (x_lib_req r s)"
proof -
  show "R s0 (x_req r s)" "R s0 (x_flush s)" using R_trans [OF assms R_request] assms by (simp_all add: x_req_def x_flush_def)
  have "x_lib_req r s = s\<lparr>x_log := x_log s @ [r], x_dirty := x_dirty s\<rparr>" by (simp add: x_lib_req_def)
  then show "R s0 (x_lib_req r s)" using R_trans [OF assms R_request] by metis
qed

lemma R_on_xw: "R s0 s \<Longrightarrow> (\<And>w. moves w (f w)) \<Longrightarrow> R s0 (on_xw f s)"
  unfolding on_xw_def by (rule R_trans [OF _ R_world]) auto

lemma R_core:
  assumes "R s0 s"
  shows "R s0 (x_dispatch cmd s)" "R s0 (x_post ev s)" "R s0 (x_focus win s)" "R s0 (x_pointer_at v s)"
    "R s0 (on_xw (upd_core (update_window win)) s)" "R s0 (x_display_change E s)"
  unfolding x_dispatch_def x_post_def x_focus_def x_pointer_at_def x_display_change_def
  using assms
  by (auto intro!: R_on_xw moves_upd_core core_step.refocus core_step.pointer core_step.upd
      moves_display_change)

lemma R_taken:
  assumes "R s0 s"
  shows "consume_window_suppress_focus_once win (x_core s) = (b, c) \<Longrightarrow> R s0 (on_xw (upd_core (\<lambda>_. c)) s)"
    "take_window_flush win (x_core s) = (f, c) \<Longrightarrow> R s0 (on_xw (upd_core (\<lambda>_. c)) s)"
    "take_backend_effects (x_core s) = (es, c) \<Longrightarrow> R s0 (on_xw (upd_core (\<lambda>_. c)) s)"
proof -
  have *: "R s0 (on_xw (upd_core (\<lambda>_. c)) s)" if "core_step (x_core s) c"
    unfolding on_xw_def
    by (rule R_trans [OF assms R_world]) (use that in \<open>auto simp: x_core_def upd_core_def intro: moves_step\<close>)
  show "R s0 (on_xw (upd_core (\<lambda>_. c)) s)" if "consume_window_suppress_focus_once win (x_core s) = (b, c)"
    using that core_step.consume [of "x_core s" win] by (intro *) simp
  show "R s0 (on_xw (upd_core (\<lambda>_. c)) s)" if "take_window_flush win (x_core s) = (f, c)"
    using that core_step.take_flush [of "x_core s" win] by (intro *) simp
  show "R s0 (on_xw (upd_core (\<lambda>_. c)) s)" if "take_backend_effects (x_core s) = (es, c)"
    using that core_step.take_effects [of "x_core s"] by (intro *) simp
qed

lemmas R_rules = R_lets R_let_pairs R_pairs R_let_triples R_let R_splits R_with
  R_fold R_updates R_requests R_core

section \<open>Windows and properties\<close>

lemma R_window_ops:
  assumes "R s0 s"
  shows "R s0 (xw_set_border_color px p s)" "R s0 (xw_set_wm_state st p s)" "R s0 (xw_set_wm_state_normal p s)"
    "R s0 (xw_set_wm_state_atom X a b p s)" "R s0 (xw_set_fullscreen_state X b p s)"
    "R s0 (xw_set_frame_extents fe p s)" "R s0 (xw_set_desktop d p s)" "R s0 (xw_send_delete_message p s)"
    "R s0 (xw_focus X t p s)" "R s0 (note_wm_unmap p s)" "R s0 (snd (consume_wm_unmap p s))"
    "R s0 (xw_map p s)" "R s0 (xw_unmap p s)" "R s0 (xw_configure m vs p s)" "R s0 (xw_restack mode p s)"
    "R s0 (xw_kill p s)" "R s0 (xw_send_expose X p s)" "R s0 (xw_send_configure_notify pos sz bw p s)"
    "R s0 (set_root_property ea ty vs s)" "R s0 (select_managed_events win s)" "R s0 (create_barrier X u v dir s)"
    "R s0 (lift_key code s)" "R s0 (key_symbols X s)" "R s0 (x_reload_border_colors s)"
  unfolding xw_set_border_color_def xw_set_wm_state_def xw_set_wm_state_normal_def xw_set_wm_state_atom_def
    xw_set_fullscreen_state_def xw_set_frame_extents_def xw_set_desktop_def xw_send_delete_message_def xw_focus_def
    xw_send_take_focus_def note_wm_unmap_def consume_wm_unmap_def xw_map_def xw_unmap_def xw_configure_def xw_restack_def
    xw_kill_def xw_send_expose_def xw_send_configure_notify_def set_root_property_def select_managed_events_def
    create_barrier_def lift_key_def key_symbols_def x_reload_border_colors_def
  by (auto simp: Let_def intro!: R_requests R_updates assms)

lemmas x_walk = R_rules R_window_ops

lemma R_ewmh:
  assumes "R s0 s"
  shows "R s0 (x_focus_window X win s)" "R s0 (ewmh_update_client_list s)" "R s0 (ewmh_apply_fullscreen X win b s)"
    "R s0 (ewmh_update_desktop_props X s)" "R s0 (x_close_hook X win s)" "R s0 (clear_pointer_barriers s)"
  unfolding x_focus_window_def ewmh_update_client_list_def ewmh_apply_fullscreen_def ewmh_update_desktop_props_def
    x_close_hook_def clear_pointer_barriers_def
  by (rule assms x_walk | assumption)+

lemma R_mapped:
  assumes "R s0 s"
  shows "R s0 (ewmh_on_window_mapped X win s)" "R s0 (ewmh_on_window_unmapped X win b s)"
  unfolding ewmh_on_window_mapped_def ewmh_on_window_unmapped_def
  by (rule assms x_walk R_ewmh | assumption)+

lemma R_barriers:
  assumes "R s0 s"
  shows "R s0 (set_pointer_barriers X win m s)"
  unfolding set_pointer_barriers_def by (rule assms x_walk R_ewmh | assumption)+

lemma R_runtime_events:
  assumes "R s0 s"
  shows "R s0 (update_focus X win s)" "R s0 (ewmh_on_workspace_switched X i s)" "R s0 (x_on_assigned win i s)"
  unfolding update_focus_def ewmh_on_workspace_switched_def apply_deferred_fullscreen_def [abs_def] x_on_assigned_def
  by (rule assms x_walk R_ewmh R_barriers | assumption)+

lemma R_on_event: "R s (x_on_event X ev s)"
  by (cases ev) (auto intro!: R_refl R_runtime_events R_mapped R_requests simp: Let_def)

section \<open>Handlers\<close>

lemma R_should_manage:
  assumes "x_env_ok X E" "R s0 s"
  shows "R s0 (snd (invoke_should_manage X E win s))"
proof -
  have w: "snd (invoke_should_manage X E win s) = s\<lparr>x_world := x_world (snd (invoke_should_manage X E win s))\<rparr>"
    by (simp add: invoke_should_manage_def Let_def split_beta)
  show ?thesis by (subst w) (rule R_trans [OF assms(2) R_world [OF moves_should_manage [OF assms(1)]]])
qed

lemma R_close: "R s0 s \<Longrightarrow> R s0 (invoke_close X E win s)"
  unfolding invoke_close_def by (rule x_walk R_ewmh | assumption)+

lemma R_message: "x_env_ok X E \<Longrightarrow> R s0 s \<Longrightarrow> R s0 (handle_client_message X E win ty fmt data s)"
proof -
  assume ok: "x_env_ok X E" and s: "R s0 s"
  have n: "R s0 (net_wm_state_message X win data s)"
    unfolding net_wm_state_message_def by (rule s x_walk R_ewmh | assumption)+
  have "R s0 (snd (x_handle_message X E win ty data s))"
    unfolding x_handle_message_def Let_def
    by (auto intro!: n s R_close R_core split: option.splits)
  then show ?thesis
    unfolding handle_client_message_def by (rule R_let_pairs) (rule x_walk | assumption | rule R_on_xw moves_until_handled [OF ok])+
qed

lemma R_placement:
  assumes "R s0 s"
  shows "R s0 (place_window_on_monitor X win mon b s)" "R s0 (place_on_index X win i b s)"
    "R s0 (map_borderless win wsi p s)" "R s0 (map_hidden X win s)"
  unfolding place_on_index_def place_window_on_monitor_def map_borderless_def map_hidden_def
  by (rule assms x_walk R_mapped | assumption)+

lemma R_map_finish: "R s0 s \<Longrightarrow> R s0 (map_finish X win v mw s)"
proof -
  assume s: "R s0 s"
  have *: "R s0 (let (suppress, c) = consume_window_suppress_focus_once win (x_core s2); s3 = on_xw (upd_core (\<lambda>_. c)) s2 in
      if Q suppress s3 then x_dispatch (FocusWindow win) s3 else x_focus NO_WINDOW s3)" if "R s0 s2" for s2 Q
    using R_taken(1) [OF that, of win] by (auto simp: Let_def split: prod.splits intro!: R_core)
  have shown: "R s0 (if v then x_dispatch (MapWindow win) (x_dispatch (SetWindowHiddenByWorkspace win False) s)
      else map_hidden X win s)"
    by (rule s x_walk R_placement | assumption)+
  have announced: "R s0 s1 \<Longrightarrow> R s0 (x_dispatch ReconcileNow (x_post (EvWindowMapped win) (ewmh_on_window_mapped X win s1)))" for s1
    by (rule x_walk R_mapped | assumption)+
  show ?thesis
    unfolding map_finish_def by (rule R_lets [OF shown], rule R_lets [OF announced], assumption, rule *)
qed

lemma R_map_request: "x_env_ok X E \<Longrightarrow> R s0 s \<Longrightarrow> R s0 (handle_map_request X E win s)"
proof -
  assume ok: "x_env_ok X E" and s: "R s0 s"
  have manage: "R s0 s1 \<Longrightarrow> R s0 (map_manage X E win s1)" for s1
    unfolding map_manage_def by (rule x_walk R_on_xw moves_rules [OF ok] | assumption)+
  have place: "R s0 s1 \<Longrightarrow> R s0 (map_place X win wsi v p s1)" for wsi v p s1
    unfolding map_place_def by (rule x_walk R_placement | assumption)+
  have managed: "R s0 s1 \<Longrightarrow> R s0 (map_managed X E win s1)" for s1
    unfolding map_managed_def by (rule manage place R_map_finish x_walk R_placement | assumption)+
  show ?thesis
    unfolding handle_map_request_def by (rule s managed x_walk R_should_manage [OF ok] | assumption)+
qed

lemma R_map_events:
  assumes "R s0 s"
  shows "R s0 (handle_map_notify win b s)" "R s0 (handle_reparent_notify X win par s)"
    "R s0 (withdraw_window X v win s)" "R s0 (handle_destroy_notify win s)"
  unfolding handle_map_notify_def handle_reparent_notify_def withdraw_window_def handle_destroy_notify_def
  by (rule assms x_walk R_mapped R_ewmh | assumption)+

lemma R_unmap: "R s0 s \<Longrightarrow> R s0 (handle_unmap_notify X win s)"
proof -
  assume s: "R s0 s"
  have c: "R s0 (snd (case x11_window s win of None \<Rightarrow> (False, s) | Some p \<Rightarrow> consume_wm_unmap p s))"
    using s R_window_ops(11) by (auto split: option.splits)
  show ?thesis
    unfolding handle_unmap_notify_def by (rule s c x_walk R_mapped R_map_events | assumption)+
qed

lemma R_property: "R s0 s \<Longrightarrow> R s0 (handle_property_notify X win a s)"
proof -
  assume s: "R s0 s"
  have m: "R s0 s1 \<Longrightarrow> R s0 (motif_changed win md p s1)" for md p s1
    unfolding motif_changed_def by (rule x_walk | assumption)+
  have r: "R s0 s1 \<Longrightarrow> R s0 (refresh_metadata X win a p s1)" for p s1
    unfolding refresh_metadata_def by (rule m x_walk | assumption)+
  have t: "R s0 s1 \<Longrightarrow> R s0 (transient_changed X win s1)" for s1
    unfolding transient_changed_def by (rule x_walk R_placement | assumption)+
  show ?thesis unfolding handle_property_notify_def by (rule s r t x_walk | assumption)+
qed

lemma R_configure: "R s0 s \<Longrightarrow> R s0 (handle_configure_request r s)"
proof -
  assume s: "R s0 s"
  have u: "R s0 s1 \<Longrightarrow> R s0 (configure_unmanaged r s1)" for s1
    unfolding configure_unmanaged_def by (rule x_walk | assumption)+
  have rs: "R s0 s1 \<Longrightarrow> R s0 (restack_request q p s1)" for q p s1
    unfolding restack_request_def by (rule x_walk | assumption)+
  have pr: "R s0 s1 \<Longrightarrow> R s0 (snd (snd (promote_request q p s1)))" for q p s1
    by (auto simp: promote_request_def Let_def intro!: R_core)
  have an: "R s0 s1 \<Longrightarrow> R s0 (answer_current win p s1)" for win p s1
    unfolding answer_current_def by (rule x_walk | assumption)+
  have ac: "R s0 s1 \<Longrightarrow> R s0 (accept_request q st fs p s1)" for q st fs p s1
    unfolding accept_request_def by (rule x_walk | assumption)+
  have m: "R s0 s1 \<Longrightarrow> R s0 (configure_managed r p s1)" for p s1
    unfolding configure_managed_def by (rule rs pr an ac x_walk | assumption)+
  show ?thesis unfolding handle_configure_request_def by (rule s u m x_walk | assumption)+
qed

lemma R_input_events:
  assumes "R s0 s"
  shows "R s0 (handle_configure_notify win pos sz bw b s)" "R s0 (handle_focus_event b win s)"
    "R s0 (handle_button_event bp s)" "R s0 (handle_motion_notify win pos st s)"
    "R s0 (handle_enter_notify e s)" "R s0 (handle_ge_generic E s)" "R s0 (handle_extension_event X E n s)"
    "R s0 (press_key X k s)"
  unfolding handle_configure_notify_def handle_focus_event_def handle_button_event_def handle_motion_notify_def
    handle_enter_notify_def handle_ge_generic_def handle_extension_event_def press_key_def
  by (rule assms x_walk | assumption)+

lemma R_handle_event: "x_env_ok X E \<Longrightarrow> R s0 s \<Longrightarrow> R s0 (handle_event X E ev s)"
  by (cases ev) (simp_all add: R_map_request R_map_events R_unmap R_configure R_input_events R_message
      R_property R_core)

lemma R_flush_window: "R s0 s \<Longrightarrow> R s0 (apply_window_flush f p s)"
  unfolding apply_window_flush_def by (rule x_walk | assumption)+

lemma R_take:
  "R s0 s \<Longrightarrow> (\<And>f s1. R s0 s1 \<Longrightarrow> R s0 (g f s1)) \<Longrightarrow> R s0 (take_and_flush win g s)"
  using R_taken(2) [of s0 s win] by (auto simp: take_and_flush_def Let_def split: prod.splits option.splits)

lemma R_effect: "R s0 s \<Longrightarrow> R s0 (x_apply_effect X k win pos s)"
proof -
  assume s: "R s0 s"
  have m: "R s0 s1 \<Longrightarrow> R s0 (map_effect X win p s1)" for p s1
    unfolding map_effect_def by (rule R_take R_flush_window x_walk R_mapped | assumption)+
  have u: "R s0 s1 \<Longrightarrow> R s0 (unmap_effect X win p s1)" for p s1
    unfolding unmap_effect_def by (rule x_walk R_mapped R_ewmh | assumption)+
  show ?thesis
    by (cases k; simp only: x_apply_effect.simps warp_pointer_abs_def;
        (rule s m u R_take R_flush_window x_walk R_ewmh | assumption)+)
qed

lemma R_render: "R s0 s \<Longrightarrow> R s0 (x_render_frame X s)"
proof -
  assume s: "R s0 s"
  obtain es c where t: "take_backend_effects (x_core s) = (es, c)" by fastforce
  have a: "R s0 (apply_core_backend_effects X s)"
    unfolding apply_core_backend_effects_def t prod.case by (rule R_fold R_taken(3) [OF s t] R_effect | assumption)+
  show ?thesis
    unfolding x_render_frame_def by (rule a R_take R_flush_window x_walk | assumption)+
qed

lemma R_scan: "R s0 s \<Longrightarrow> R s0 (snd (x_scan_existing_windows X s))"
proof -
  assume s: "R s0 s"
  have one: "R s0 (snd acc) \<Longrightarrow> R s0 (snd (scan_one X rst win acc))" for rst win acc
    by (auto simp: scan_one_def Let_def select_managed_events_def intro!: R_requests split: prod.splits option.splits)
  have "R s0 (snd acc) \<Longrightarrow> R s0 (snd (fold (scan_one X rst) wins acc))" for rst wins acc
    by (induction wins arbitrary: acc) (simp_all add: one)
  moreover have "R s0 (on_xw (\<lambda>w. w\<lparr>w_restart_file := None\<rparr>) s)"
    by (rule R_on_xw [OF s]) (simp add: moves_def run_refl)
  ultimately show ?thesis using s by (simp add: x_scan_existing_windows_def Let_def split_beta)
qed

lemma R_start:
  assumes "R s0 s"
  shows "R s0 (x_on_start X s)" "R s0 (x_on_reload_applied s)" "R s0 (ewmh_init X s)"
  unfolding x_on_start_def apply_xresources_def x_on_reload_applied_def ewmh_init_def x_intern_atoms_def
  by (rule assms x_walk R_ewmh | assumption)+

end

section \<open>Taking events\<close>

locale x_closed_input = x_closed +
  assumes R_input: "R s (s\<lparr>x_input := i\<rparr>)"
begin

lemma R_then_input: "R s0 s \<Longrightarrow> R s0 (s\<lparr>x_input := i\<rparr>)"
  by (rule R_trans [OF _ R_input])

lemma R_generic: "x_env_ok X E \<Longrightarrow> R s0 s \<Longrightarrow> R s0 (handle_generic_event X E ev s)"
proof (induction X E ev s rule: handle_generic_event.induct)
  case (1 X E ev s)
  show ?case
  proof (cases "\<exists>k. ev = KeyEvent k")
    case True
    then obtain k where k: "ev = KeyEvent k" ..
    let ?s = "x_pointer_at (ke_root k) s"
    have s1: "R s0 ?s" by (rule R_core(4) [OF "1.prems"(2)])
    then have s2: "R s0 (?s\<lparr>x_input := rest\<rparr>)" "R s0 (lift_key (ke_detail k) (?s\<lparr>x_input := rest\<rparr>))" for rest
      by (auto intro: R_then_input R_window_ops)
    show ?thesis
    proof (cases "ke_release k \<and> x_input ?s \<noteq> []")
      case True
      then obtain nxt rest where n: "x_input ?s = nxt # rest" by (cases "x_input ?s") auto
      show ?thesis
        unfolding k handle_generic_event.simps [of X E "KeyEvent k"]
        using "1.IH" [OF k refl _ n refl "1.prems"(1)] True n s2 by (cases "is_repeat k nxt") simp_all
    next
      case False
      then show ?thesis
        unfolding k handle_generic_event.simps [of X E "KeyEvent k"]
        using s1 by (auto simp: Let_def intro: R_input_events R_window_ops)
    qed
  next
    case False
    then show ?thesis using "1.prems" by (simp add: handle_generic_event_other R_handle_event)
  qed
qed

lemma R_pump_one: "x_env_ok X E \<Longrightarrow> R s0 s \<Longrightarrow> R s0 (snd (pump_one X E ev (b, s)))"
  by (simp add: pump_one_def R_generic)

lemma R_pump_loop: "x_env_ok X E \<Longrightarrow> R s0 (snd bs) \<Longrightarrow> R s0 (snd (x_pump_loop X E n bs))"
proof (induction n arbitrary: bs)
  case (Suc n)
  then show ?case
    using R_pump_one [OF Suc.prems(1) R_then_input] by (auto split: list.splits)
qed simp

lemma R_pump: "x_env_ok X E \<Longrightarrow> R s0 s \<Longrightarrow> R s0 (x_pump_events X E n s)"
proof -
  assume ok: "x_env_ok X E" and s: "R s0 s"
  have "R s0 s1 \<Longrightarrow> R s0 (finish_burst X E (b, s1))" for b s1
    unfolding finish_burst_def prod.case by (rule R_generic [OF ok] x_walk | assumption)+
  then show ?thesis
    using R_pump_loop [OF ok, of s0 "(no_burst, s)" n] s
    by (cases "x_pump_loop X E n (no_burst, s)") (simp add: x_pump_events_def)
qed

end

section \<open>The core moves through its interface\<close>

definition x_moves :: "x11 \<Rightarrow> x11 \<Rightarrow> bool" where
  "x_moves s s' \<longleftrightarrow> moves (x_world s) (x_world s')"

interpretation x_run: x_closed_input x_moves
  by unfold_locales (auto simp: x_moves_def intro: moves_trans)

section \<open>What no handler changes\<close>

definition x_kept :: "x11 \<Rightarrow> x11 \<Rightarrow> bool" where
  "x_kept s s' \<longleftrightarrow> x_input s' = x_input s \<and> x_root s' = x_root s \<and> extension_event_base s' = extension_event_base s \<and>
     xkb_event_type s' = xkb_event_type s"

interpretation x_same: x_closed x_kept
  by unfold_locales (auto simp: x_kept_def)

end
