(* ===== verification/X11_Properties.thy ===== *)
theory X11_Properties
  imports X11_Invariant Wayland_Properties
begin

text \<open>
  Properties of the X11 backend: it is a legal part of the runtime, the requests it sends are well-formed, the place it
  chooses for a window is inside the monitor, and one hint is never read.
\<close>

section \<open>Example\<close>

text \<open>A server without windows that interns every name by its length, and a backend on it.\<close>

definition ex_x_server :: x_server where
  "ex_x_server = \<lparr>xs_attributes = Map.empty, xs_geometry = Map.empty, xs_tree = Map.empty,
     xs_property = (\<lambda>_ _ _ _. None), xs_intern = (\<lambda>n. Some (100 + word_of_nat (length n))), xs_focus = None,
     xs_pointer = Some (5, 5), xs_keysyms = Some (\<lambda>k. ucast k), xs_layout = ''us'', xs_new_id = 900\<rparr>"

definition ex_x_env :: x_env where
  "ex_x_env = \<lparr>server = (\<lambda>_. ex_x_server), on_client_message = (\<lambda>_ _ w. (False, w)), icon_token = unat, layout_token = length\<rparr>"

definition ex_x11 :: x11 where
  "ex_x11 = \<lparr>x_world = ex_world, x_log = [], x_dirty = False, x_input = [], x_root = 1, x_atoms = (\<lambda>_. 0), atoms_resolved = False,
     ewmh_wm_window = NO_WINDOW, key_down = (\<lambda>_. False), key_syms = None, border_focused_pixel = 0,
     border_unfocused_pixel = 0, border_painted_focused = NO_WINDOW, last_event_time = 0, last_pointer = (0, 0),
     first_configure_pos = Map.empty, pending_wm_unmaps = (\<lambda>_. 0), barriers = [0, 0, 0, 0], barrier_window = NO_WINDOW,
     barrier_mon_idx = NO_MONITOR, extension_event_base = 89, xkb_event_type = 85\<rparr>"

lemma ex_x_env_ok: "x_env_ok ex_x_env ex_env"
  by (simp add: x_env_ok_def ex_env_ok ex_x_env_def)

section \<open>The backend in the runtime\<close>

text \<open>What the runtime and the event loop call, and events that arrive in between.\<close>

datatype x_step = XArrive "x_event list" | XPump nat | XDeliver event | XRender | XReload | XStart | XScan

fun x_do :: "x_env \<Rightarrow> env \<Rightarrow> x_step \<Rightarrow> x11 \<Rightarrow> x11" where
  "x_do X E (XArrive evs) s = s\<lparr>x_input := x_input s @ evs\<rparr>"
| "x_do X E (XPump n) s = x_pump_events X E n s"
| "x_do X E (XDeliver ev) s = x_on_event X ev s"
| "x_do X E XRender s = x_render_frame X s"
| "x_do X E XReload s = x_on_reload_applied s"
| "x_do X E XStart s = x_on_start X (ewmh_init X s)"
| "x_do X E XScan s = snd (x_scan_existing_windows X s)"

lemma x_moves_do: "x_env_ok X E \<Longrightarrow> x_moves s (x_do X E st s)"
proof (cases st)
  case XStart
  then show ?thesis using x_run.R_start [OF x_run.R_start(3) [OF x_run.R_refl]] by simp
qed (auto intro: x_run.R_input x_run.R_pump x_run.R_on_event x_run.R_render x_run.R_start x_run.R_scan x_run.R_refl)

text \<open>
  Whatever events the server sends, in whatever order, and whatever it answers, every sequence of pumping events,
  delivering events of the runtime, rendering frames, reloading, starting and scanning leads from a reachable core to a
  reachable core.
\<close>
lemma x11_keeps_core_reachable:
  assumes "x_env_ok X E" "core_reachable (x_core s)"
  shows "core_reachable (x_core (fold (x_do X E) steps s))"
  using assms(2)
proof (induction steps arbitrary: s)
  case (Cons st steps)
  have "core_reachable (x_core (x_do X E st s))"
    using x_moves_do [OF assms(1), of s st] core_reachable_run [OF Cons.prems] by (simp add: x_moves_def moves_def x_core_def)
  then show ?case using Cons.IH by simp
qed simp

section \<open>Requests\<close>

text \<open>
  The protocol wants the values of a request to configure a window in the order of the bits of its mask, one for each bit.
\<close>

definition aligned :: "16 word \<Rightarrow> 32 word list \<Rightarrow> (nat \<Rightarrow> 32 word) \<Rightarrow> bool" where
  "aligned m vs f \<longleftrightarrow> vs = map f (filter (bit m) [0..<16])"

text \<open>The patch after the first \<open>i\<close> fields.\<close>

definition patched :: "16 word \<Rightarrow> (nat \<Rightarrow> 32 word) \<Rightarrow> nat \<Rightarrow> 16 word \<times> 32 word list" where
  "patched m f i = (take_bit i m, map f (filter (bit m) [0..<i]))"

lemma put_patched:
  assumes "i < 16"
  shows "put_value m (2 ^ i) (f i) (patched m f i) = patched m f (Suc i)"
proof -
  have "take_bit (Suc i) m = (if bit m i then take_bit i m OR 2 ^ i else take_bit i m)"
    using assms by (intro bit_word_eqI) (auto simp: bit_simps less_Suc_eq)
  then show ?thesis by (simp add: put_value_def patched_def has_flag_def and_exp_eq_0_iff_not_bit)
qed

lemma aligned_patched: "n \<le> 16 \<Longrightarrow> aligned (fst (patched m f n)) (snd (patched m f n)) f"
proof -
  assume n: "n \<le> 16"
  have "filter (bit (take_bit n m)) [n..<16] = []" by (simp add: filter_empty_conv bit_simps)
  moreover have "filter (bit (take_bit n m)) [0..<n] = filter (bit m) [0..<n]" by (rule filter_cong) (auto simp: bit_simps)
  ultimately show ?thesis using upt_add_eq_append [of 0 n "16 - n"] n by (simp add: aligned_def patched_def)
qed

lemma fold_patched: "n \<le> 16 \<Longrightarrow> fold (\<lambda>i. put_value m (2 ^ i) (f i)) [0..<n] (0, []) = patched m f n"
proof (induction n)
  case (Suc n)
  then show ?case using put_patched [of n m f] by simp
qed (simp add: patched_def)

lemma configure_patch_patched:
  "configure_patch r = patched (cr_mask r)
     (\<lambda>i. [word_of_int (cr_x r), word_of_int (cr_y r), word_of_int (cr_width r), word_of_int (cr_height r),
           word_of_int (cr_border_width r), cr_sibling r, cr_stack_mode r] ! i) 7" (is "_ = patched ?m ?f 7")
proof -
  have "[0..<7] = [0, 1, 2, 3, 4, 5, 6 :: nat]" by code_simp
  then have "configure_patch r = fold (\<lambda>i. put_value ?m (2 ^ i) (?f i)) [0..<7] (0, [])"
    by (simp add: configure_patch_def Let_def config_masks)
  also have "\<dots> = patched ?m ?f 7" by (rule fold_patched) simp
  finally show ?thesis .
qed

lemma flush_patch_patched:
  "flush_patch d w = patched (ucast d)
     (\<lambda>i. [word_of_int (fst (win_pos w)), word_of_int (snd (win_pos w)), word_of_int (fst (win_size w)),
           word_of_int (snd (win_size w)), border_width w] ! i) 5" (is "_ = patched ?m ?f 5")
proof -
  have flag: "has_flag ?m (2 ^ i) \<longleftrightarrow> d AND 2 ^ i \<noteq> 0" if "i < 8" for i
    using that by (simp add: has_flag_def and_exp_eq_0_iff_not_bit bit_ucast_iff)
  have "[0..<5] = [0, 1, 2, 3, 4 :: nat]" by code_simp
  then have "flush_patch d w = fold (\<lambda>i. put_value ?m (2 ^ i) (?f i)) [0..<5] (0, [])"
    using flag [of 0] flag [of 1] flag [of 2] flag [of 3] flag [of 4]
    by (simp add: flush_patch_def put_value_def Let_def config_masks dirty_defs)
  also have "\<dots> = patched ?m ?f 5" by (rule fold_patched) simp
  finally show ?thesis .
qed

text \<open>
  C26. The requests to configure a window are well-formed: when a request of a client is passed on, and when the pending
  changes of a window are sent, the mask holds exactly the bits asked for and the values are those of the request, or of the
  window, in the order of the bits and one for each bit.
\<close>
theorem value_lists_aligned:
  "aligned (fst (configure_patch r)) (snd (configure_patch r))
     (\<lambda>i. [word_of_int (cr_x r), word_of_int (cr_y r), word_of_int (cr_width r), word_of_int (cr_height r),
           word_of_int (cr_border_width r), cr_sibling r, cr_stack_mode r] ! i) \<and>
   fst (configure_patch r) = cr_mask r AND 127 \<and>
   aligned (fst (flush_patch d w)) (snd (flush_patch d w))
     (\<lambda>i. [word_of_int (fst (win_pos w)), word_of_int (snd (win_pos w)), word_of_int (fst (win_size w)),
           word_of_int (snd (win_size w)), border_width w] ! i) \<and>
   fst (flush_patch d w) = ucast (d AND 31)"
proof -
  have "take_bit 7 (cr_mask r) = cr_mask r AND 127" by (simp add: take_bit_eq_mask mask_numeral)
  moreover have "take_bit 5 d = d AND 31" by (simp add: take_bit_eq_mask mask_numeral)
  moreover have "take_bit 5 (ucast d :: 16 word) = ucast (take_bit 5 d)"
    by (intro bit_word_eqI) (auto simp: bit_take_bit_iff bit_ucast_iff)
  ultimately have "fst (patched (cr_mask r) f 7) = cr_mask r AND 127" "fst (patched (ucast d) g 5) = ucast (d AND 31)" for f g
    by (simp_all only: patched_def fst_conv)
  then show ?thesis
    unfolding configure_patch_patched flush_patch_patched by (intro conjI aligned_patched) simp_all
qed

section \<open>Placement\<close>

text \<open>
  C27. The rectangle that is chosen for a window placed on a monitor lies inside the monitor's rectangle and is no larger than
  the window was; a rectangle is chosen unless the window is where it would be put, in which case it is inside already,
  and for the rectangle chosen the choice would be to leave it. This is the rectangle the backend asks the core for; the
  core may still enlarge it to the minimum size the window demands.
\<close>
theorem placed_inside:
  assumes "fst (mon_size mon) > 0" "snd (mon_size mon) > 0" "xg_width g > 0" "xg_height g > 0"
  shows "case placed_rect mon centre g of
     None \<Rightarrow> fst (mon_pos mon) \<le> fst (xg_pos g) \<and> snd (mon_pos mon) \<le> snd (xg_pos g) \<and>
       fst (xg_pos g) + xg_width g \<le> fst (mon_pos mon) + fst (mon_size mon) \<and>
       snd (xg_pos g) + xg_height g \<le> snd (mon_pos mon) + snd (mon_size mon)
   | Some ((x, y), w, h) \<Rightarrow> fst (mon_pos mon) \<le> x \<and> snd (mon_pos mon) \<le> y \<and> 0 < w \<and> 0 < h \<and> w \<le> xg_width g \<and> h \<le> xg_height g \<and>
       x + w \<le> fst (mon_pos mon) + fst (mon_size mon) \<and> y + h \<le> snd (mon_pos mon) + snd (mon_size mon) \<and>
       placed_rect mon centre (g\<lparr>xg_pos := (x, y), xg_width := w, xg_height := h\<rparr>) = None"
proof -
  obtain gx gy where gp: "xg_pos g = (gx, gy)" by fastforce
  obtain mx my where mp: "mon_pos mon = (mx, my)" by fastforce
  obtain mw mh where ms: "mon_size mon = (mw, mh)" by fastforce
  define ax where "ax m M x w = (if centre then m + (M - min w M) sdiv 2 else clamp x m (m + M - min w M))" for m M x w :: int
  have half: "x sdiv 2 = x div 2" if "x \<ge> 0" for x :: int
    using that by (cases "x = 0") (simp_all add: signed_divide_int_def)
  have ax: "m \<le> ax m M x w \<and> ax m M x w + min w M \<le> m + M \<and> ax m M (ax m M x w) (min w M) = ax m M x w"
    if "0 < M" "0 < w" for m M x w
    using that by (auto simp: ax_def half clamp_def min_def)
  have r: "placed_rect mon centre h = (let (x, y) = xg_pos h; w = xg_width h; v = xg_height h in
      if \<not> (x < mx \<or> y < my \<or> x + w > mx + mw \<or> y + v > my + mh) \<and> min w mw = w \<and> min v mh = v \<and> ax mx mw x w = x \<and> ax my mh y v = y
      then None else Some ((ax mx mw x w, ax my mh y v), min w mw, min v mh))" if "0 < xg_width h" "0 < xg_height h" for h
    using that by (auto simp: placed_rect_def mp ms Let_def ax_def split: prod.splits)
  have M: "0 < mw" "0 < mh" using assms by (simp_all add: ms)
  show ?thesis
    using assms M ax [OF M(1) assms(3), of mx gx] ax [OF M(2) assms(4), of my gy] by (auto simp: r gp mp ms Let_def)
qed

theorem placed_inside_witness:
  "let mon = mk_monitor 0 ''A'' 0 0 1920 1080;
       g = \<lparr>xg_pos = (1900, -20), xg_width = 640, xg_height = 2000, xg_border = 0\<rparr>
   in placed_rect mon False g = Some ((1280, 0), 640, 1080) \<and>
      placed_rect mon False (g\<lparr>xg_pos := (1280, 0), xg_width := 640, xg_height := 1080\<rparr>) = None"
proof -
  let ?mon = "mk_monitor 0 ''A'' 0 0 1920 1080"
  let ?g = "\<lparr>xg_pos = (1900, -20), xg_width = 640, xg_height = 2000, xg_border = 0\<rparr>"
  have r: "placed_rect ?mon False ?g = Some ((1280, 0), 640, 1080)" by code_simp
  have "mon_size ?mon = (1920, 1080)" by (simp add: mk_monitor_def)
  then show ?thesis using placed_inside [of ?mon ?g False] r by simp
qed

section \<open>Window hints\<close>

text \<open>
  C28. The hint of a window that it wants no decorations is never read: on a server on which no other name has
  the atom of the hint, what a client stores under the name of the hint has no influence on the result, and a client that stores nothing
  under the misspelt name is always taken to want decorations.
\<close>
theorem motif_hint_never_read:
  assumes "\<And>n. xs_intern S n = Some a \<longleftrightarrow> n = ''_MOTIF_WM_HINTS''"
    and other: "\<And>w b ty n. b \<noteq> a \<Longrightarrow> xs_property S' w b ty n = xs_property S w b ty n" "xs_intern S' = xs_intern S"
  shows "motif_no_decorations S' win = motif_no_decorations S win \<and>
    ((\<forall>ty n. xs_property S win (intern_atom S motif_atom_name) ty n = None) \<longrightarrow> \<not> motif_no_decorations S' win)"
proof -
  have "motif_atom_name \<noteq> ''_MOTIF_WM_HINTS''" by code_simp
  then have "xs_intern S motif_atom_name \<noteq> Some a" using assms(1) by simp
  then have "intern_atom S motif_atom_name \<noteq> a \<or> intern_atom S motif_atom_name = XCB_ATOM_NONE"
    by (auto simp: intern_atom_def split: option.splits)
  then show ?thesis using other
    by (auto simp: motif_no_decorations_def motif_no_decorations_atom_def intern_atom_def [of S'] intern_atom_def [of S])
qed

theorem motif_hint_never_read_witness:
  "let no_deco = \<lparr>pr_format = 32, pr_value = concat (map u32_bytes [2, 0, 0, 0, 0]), pr_beyond = []\<rparr>;
       S = ex_x_server\<lparr>xs_intern := (\<lambda>n. Some (if n = ''_MOTIF_WM_HINTS'' then 7 else 8)),
             xs_property := (\<lambda>_ a _ _. if a = 7 then Some no_deco else None)\<rparr>
   in motif_no_decorations_atom S 101 7 \<and> \<not> motif_no_decorations S 101"
proof -
  let ?i = "\<lambda>n. Some (if n = ''_MOTIF_WM_HINTS'' then 7 else 8 :: 32 word)"
  let ?no_deco = "\<lparr>pr_format = 32, pr_value = concat (map u32_bytes [2, 0, 0, 0, 0]), pr_beyond = []\<rparr>"
  let ?P = "\<lambda>(_ :: window_id) a (_ :: atom) (_ :: nat). if a = 7 then Some ?no_deco else None"
  have i: "xs_intern (ex_x_server\<lparr>xs_intern := ?i\<rparr>) n = Some 7 \<longleftrightarrow> n = ''_MOTIF_WM_HINTS''" for n by simp
  have len: "length (concat (map u32_bytes [2, 0, 0, 0, 0])) = 20" by (simp add: u32_bytes_def)
  have none: "xs_property ex_x_server = (\<lambda>_ _ _ _. None)" by (simp add: ex_x_server_def)
  have "\<not> motif_no_decorations (ex_x_server\<lparr>xs_intern := ?i, xs_property := ?P\<rparr>) 101"
    using motif_hint_never_read [OF i, of "ex_x_server\<lparr>xs_intern := ?i, xs_property := ?P\<rparr>" 101] none by auto
  moreover have "motif_no_decorations_atom (ex_x_server\<lparr>xs_intern := ?i, xs_property := ?P\<rparr>) 101 7"
    using len by (simp add: motif_no_decorations_atom_def XCB_ATOM_NONE_def is_words_def value_len_def words32_bytes bit_numeral_rec
        del: concat.simps list.map)
  ultimately show ?thesis unfolding Let_def by blast
qed

end
