(* ===== verification/X11_Protocol_Properties.thy ===== *)
theory X11_Protocol_Properties
  imports X11_Properties
begin

text \<open>
  Properties of the X11 backend as a window manager in the sense of the X conventions: unmaps, key repeats, answers to
  requests for a configuration, and bursts of events.
\<close>

text \<open>A request leaves everything but the log alone.\<close>

lemma x_req_simps [simp]:
  "x_core (x_req r s) = x_core s" "x_root (x_req r s) = x_root s" "x_world (x_req r s) = x_world s"
  "pending_wm_unmaps (x_req r s) = pending_wm_unmaps s" "x_log (x_req r s) = x_log s @ [r]" "x_input (x_req r s) = x_input s"
  "x_atoms (x_req r s) = x_atoms s"
  by (simp_all add: x_req_def x_core_def)

lemma x_lib_req_simps [simp]:
  "x_core (x_lib_req r s) = x_core s" "x_root (x_lib_req r s) = x_root s" "pending_wm_unmaps (x_lib_req r s) = pending_wm_unmaps s"
  by (simp_all add: x_lib_req_def x_core_def)

lemma on_xw_simps [simp]:
  "x_core (on_xw f s) = w_core (f (x_world s))" "x_root (on_xw f s) = x_root s"
  "pending_wm_unmaps (on_xw f s) = pending_wm_unmaps s" "x_log (on_xw f s) = x_log s" "x_input (on_xw f s) = x_input s"
  "x_atoms (on_xw f s) = x_atoms s"
  by (simp_all add: on_xw_def x_core_def)

lemma x_core_updates [simp]:
  "x_core (s\<lparr>pending_wm_unmaps := n\<rparr>) = x_core s" "x_core (s\<lparr>first_configure_pos := q\<rparr>) = x_core s"
  "x_core (s\<lparr>x_input := i\<rparr>) = x_core s" "x_core (s\<lparr>key_down := kd\<rparr>) = x_core s" "x_core (s\<lparr>key_syms := ks\<rparr>) = x_core s"
  by (simp_all add: x_core_def)

section \<open>Unmaps\<close>

lemma client_list_quiet [simp]:
  "x_core (ewmh_update_client_list s) = x_core s" "x_root (ewmh_update_client_list s) = x_root s"
  "pending_wm_unmaps (ewmh_update_client_list s) = pending_wm_unmaps s" "x_world (ewmh_update_client_list s) = x_world s"
  by (simp_all add: ewmh_update_client_list_def set_root_property_def Let_def)

lemma unmapped_quiet [simp]:
  "x_core (ewmh_on_window_unmapped X win b s) = x_core s" "x_root (ewmh_on_window_unmapped X win b s) = x_root s"
  "pending_wm_unmaps (ewmh_on_window_unmapped X win b s) = pending_wm_unmaps s" "x_world (ewmh_on_window_unmapped X win b s) = x_world s"
  by (simp_all add: ewmh_on_window_unmapped_def with_xw_def xw_set_wm_state_def xw_set_wm_state_atom_def Let_def split: option.splits)

lemma clear_barriers_quiet [simp]:
  "x_core (clear_pointer_barriers s) = x_core s" "x_root (clear_pointer_barriers s) = x_root s"
  "pending_wm_unmaps (clear_pointer_barriers s) = pending_wm_unmaps s"
proof -
  let ?f = "\<lambda>b s. if b \<noteq> 0 then x_lib_req (DestroyBarrier b) s else s"
  have "x_core (fold ?f bs s) = x_core s \<and> x_root (fold ?f bs s) = x_root s \<and>
    pending_wm_unmaps (fold ?f bs s) = pending_wm_unmaps s" for bs
    by (induction bs arbitrary: s) auto
  then show "x_core (clear_pointer_barriers s) = x_core s" "x_root (clear_pointer_barriers s) = x_root s"
    "pending_wm_unmaps (clear_pointer_barriers s) = pending_wm_unmaps s"
    by (simp_all add: clear_pointer_barriers_def x_core_def)
qed

lemma x11_window_core: "x_core s' = x_core s \<Longrightarrow> x11_window s' win = x11_window s win"
  by (simp add: x11_window_def)

lemma unmap_effect_counts:
  assumes "x11_window s win = Some p"
  shows "x_core (x_apply_effect X EffUnmapWindow win pos s) = x_core s"
    "x_root (x_apply_effect X EffUnmapWindow win pos s) = x_root s"
    "pending_wm_unmaps (x_apply_effect X EffUnmapWindow win pos s) p = pending_wm_unmaps s p + 2"
  using assms by (simp_all add: with_xw_def unmap_effect_def xw_unmap_def note_wm_unmap_def Let_def)

lemma unmap_notify_absorbed:
  assumes "x11_window s win = Some p" "win \<noteq> x_root s" "pending_wm_unmaps s p > 0"
  shows "x_core (handle_unmap_notify X win s) = x_core s" "x_root (handle_unmap_notify X win s) = x_root s"
    "pending_wm_unmaps (handle_unmap_notify X win s) p = pending_wm_unmaps s p - 1"
proof -
  have "window_state_any (x_core s) win \<noteq> None"
    using assms(1) by (simp add: x11_window_def window_state_any_def split: if_splits)
  then show "x_core (handle_unmap_notify X win s) = x_core s" "x_root (handle_unmap_notify X win s) = x_root s"
    "pending_wm_unmaps (handle_unmap_notify X win s) p = pending_wm_unmaps s p - 1"
    using assms by (auto simp: handle_unmap_notify_def consume_wm_unmap_def Let_def)
qed

lemma unmap_effects_count:
  assumes "x11_window s win = Some p"
  shows "x_core ((x_apply_effect X EffUnmapWindow win pos ^^ n) s) = x_core s \<and>
    x_root ((x_apply_effect X EffUnmapWindow win pos ^^ n) s) = x_root s \<and>
    pending_wm_unmaps ((x_apply_effect X EffUnmapWindow win pos ^^ n) s) p = pending_wm_unmaps s p + 2 * int n"
proof (induction n)
  case (Suc n)
  let ?s = "(x_apply_effect X EffUnmapWindow win pos ^^ n) s"
  have "x11_window ?s win = Some p" using x11_window_core [OF Suc [THEN conjunct1], of win] assms by (simp del: x_apply_effect.simps)
  from unmap_effect_counts [OF this, of X pos] Suc show ?case by (simp del: x_apply_effect.simps)
qed simp

lemma unmap_notifies_absorbed:
  assumes "x11_window s win = Some p" "win \<noteq> x_root s" "pending_wm_unmaps s p \<ge> int m"
  shows "x_core ((handle_unmap_notify X win ^^ m) s) = x_core s \<and> x_root ((handle_unmap_notify X win ^^ m) s) = x_root s \<and>
    pending_wm_unmaps ((handle_unmap_notify X win ^^ m) s) p = pending_wm_unmaps s p - int m"
  using assms(3)
proof (induction m)
  case (Suc m)
  let ?s = "(handle_unmap_notify X win ^^ m) s"
  have IH: "x_core ?s = x_core s" "x_root ?s = x_root s" "pending_wm_unmaps ?s p = pending_wm_unmaps s p - int m"
    using Suc by auto
  then have "x11_window ?s win = Some p" "win \<noteq> x_root ?s" "pending_wm_unmaps ?s p > 0"
    using assms Suc.prems x11_window_core [OF IH(1)] by simp_all
  from unmap_notify_absorbed [OF this, of X] IH show ?case by simp
qed simp

lemma index_commands:
  "window_index (wm (w_core (dispatch ReconcileNow w))) = window_index (wm (w_core w))"
  "window_index (wm (w_core (dispatch (SetWindowMapped win b) w))) = window_index (wm (w_core w))"
  by (simp_all add: index_dispatch_steady steady_simple_commands dispatch_ReconcileNow_def steady_arrange)

lemma unmap_notify_withdraws:
  assumes "x11_window s win = Some p" "win \<noteq> x_root s" "pending_wm_unmaps s p \<le> 0" "core_reachable (x_core s)"
    and "\<not> hidden_by_workspace (xw_state s p) \<or> borderless (xw_state s p) \<or> fullscreen (xw_state s p)"
  shows "window_index (wm (x_core (handle_unmap_notify X win s))) = (window_index (wm (x_core s)))(win := None)"
proof -
  let ?w = "dispatch (SetWindowMapped win False) (x_world s)"
  have f: "find_window_in_all (wm (x_core s)) win = Some p" using assms(1) by (simp add: x11_window_def split: if_splits)
  have "core_inv (w_core (x_world s))" using core_reachable_inv [OF assms(4)] by (simp add: x_core_def)
  then have "core_inv (w_core ?w)"
    using steady_core_inv steady_simple_commands(4) by (simp add: dispatch_def upd_core_def) blast
  then have "wsman_inv (wm (w_core ?w))" by (simp add: core_inv_def core_ok_def)
  from index_remove [OF this, of win] have i: "window_index (wm (w_core (dispatch (RemoveWindowFromAllWorkspaces win) ?w))) =
      (window_index (wm (x_core s)))(win := None)" by (simp add: index_commands x_core_def)
  have wd: "window_index (wm (x_core (withdraw_window X v win t))) =
      window_index (wm (w_core (dispatch (RemoveWindowFromAllWorkspaces win) (x_world t))))" for v t
    by (simp add: withdraw_window_def x_dispatch_def x_post_def Let_def index_commands) (simp add: on_xw_def)
  have "handle_unmap_notify X win s = withdraw_window X (workspace_shown (x_core s) win) win (x_dispatch (SetWindowMapped win False) s)"
    using assms f by (auto simp: handle_unmap_notify_def window_state_any_def consume_wm_unmap_def Let_def xw_state_def)
  then show ?thesis using i by (simp add: wd x_dispatch_def on_xw_def)
qed

lemma unmap_notify_hidden:
  assumes "x11_window s win = Some p" "win \<noteq> x_root s" "pending_wm_unmaps s p \<le> 0"
    and "hidden_by_workspace (xw_state s p)" "\<not> borderless (xw_state s p)" "\<not> fullscreen (xw_state s p)"
  shows "window_index (wm (x_core (handle_unmap_notify X win s))) = window_index (wm (x_core s))"
proof -
  have "find_window_in_all (wm (x_core s)) win = Some p" using assms(1) by (simp add: x11_window_def split: if_splits)
  then have "handle_unmap_notify X win s =
      x_post (EvWindowUnmapped win False) (ewmh_on_window_unmapped X win False (x_dispatch (SetWindowMapped win False) s))"
    using assms by (auto simp: handle_unmap_notify_def window_state_any_def consume_wm_unmap_def Let_def xw_state_def)
  then show ?thesis by (simp add: x_post_def x_dispatch_def index_commands) (simp add: on_xw_def x_core_def index_commands)
qed

text \<open>
  C10. The backend tells its own unmaps from those of clients: when it has unmapped a window any number of times, exactly the
  two notifications the server sends for each unmap are absorbed without any effect on the core. The next one, which can
  only come from the client, withdraws the window; only a window that is out of sight with its workspace, and neither
  borderless nor fullscreen, stays managed.
\<close>
theorem own_unmaps_absorbed:
  assumes "x11_window s win = Some p" "win \<noteq> x_root s" "pending_wm_unmaps s p = 0" "core_reachable (x_core s)"
  shows "let notify = handle_event X E (UnmapNotify win); w = xw_state s p;
             s' = (notify ^^ (2 * n)) ((x_apply_effect X EffUnmapWindow win pos ^^ n) s)
    in x_core s' = x_core s \<and>
       window_index (wm (x_core (notify s'))) =
         (if hidden_by_workspace w \<and> \<not> borderless w \<and> \<not> fullscreen w then window_index (wm (x_core s))
          else (window_index (wm (x_core s)))(win := None))"
proof -
  let ?s = "(x_apply_effect X EffUnmapWindow win pos ^^ n) s"
  let ?t = "(handle_unmap_notify X win ^^ (2 * n)) ?s"
  have s: "x_core ?s = x_core s" "x_root ?s = x_root s" "pending_wm_unmaps ?s p = 2 * int n"
    using unmap_effects_count [OF assms(1)] assms(3) by simp_all
  then have "x11_window ?s win = Some p" using assms(1) x11_window_core [OF s(1)] by simp
  from unmap_notifies_absorbed [OF this, of "2 * n" X] s assms(2)
  have t: "x_core ?t = x_core s" "x_root ?t = x_root s" "pending_wm_unmaps ?t p = 0" by simp_all
  then have w: "x11_window ?t win = Some p" "xw_state ?t p = xw_state s p"
    using assms(1) x11_window_core [OF t(1)] by (simp_all add: xw_state_def)
  have "handle_event X E (UnmapNotify win) = handle_unmap_notify X win" by (rule ext) simp
  then show ?thesis
    using t w assms unmap_notify_withdraws [OF w(1), of X] unmap_notify_hidden [OF w(1), of X] by (auto simp: Let_def)
qed


theorem own_unmaps_absorbed_witness:
  "let notify = handle_event ex_x_env ex_env (UnmapNotify 101);
       s' = (notify ^^ 6) ((x_apply_effect ex_x_env EffUnmapWindow 101 (0, 0) ^^ 3) ex_x11)
   in window_index (wm (x_core s')) 101 = Some 0 \<and> window_index (wm (x_core (notify s'))) 101 = None"
proof -
  have c: "window_index (wm ex_core) 101 = Some 0 \<and> \<not> hidden_by_workspace (win_at ex_core 0)" by code_simp
  have core: "x_core ex_x11 = set_config_path ''init.lua'' ex_core" by (simp add: ex_x11_def x_core_def ex_world_def)
  have w: "x11_window ex_x11 101 = Some 0" "\<not> hidden_by_workspace (xw_state ex_x11 0)"
    using c by (simp_all add: x11_window_def xw_state_def core set_config_path_def find_window_in_all_def NO_WINDOW_def win_at_def)
  have r: "core_reachable (x_core ex_x11)" "(101 :: window_id) \<noteq> x_root ex_x11" "pending_wm_unmaps ex_x11 0 = 0"
    using ex_world_core by (simp_all add: ex_x11_def x_core_def)
  have "window_index (wm (x_core ex_x11)) 101 = Some 0" using c by (simp add: core set_config_path_def)
  with own_unmaps_absorbed [OF w(1) r(2,3,1), of ex_x_env ex_env 3 "(0, 0)"] w(2) show ?thesis
    by (simp add: Let_def del: x_apply_effect.simps handle_event.simps)
qed

section \<open>Destroyed windows\<close>

lemma destroy_index:
  assumes "core_reachable (x_core s)"
  shows "window_index (wm (x_core (handle_destroy_notify win s))) = (window_index (wm (x_core s)))(win := None)"
proof (cases "window_state_any (x_core s) win")
  case None
  then have "window_index (wm (x_core s)) win = None" by (simp add: window_state_any_def find_window_in_all_def)
  then have "(window_index (wm (x_core s)))(win := None) = window_index (wm (x_core s))" by (rule fun_upd_idem)
  with None show ?thesis by (simp add: handle_destroy_notify_def x_post_def x_core_def on_xw_def Let_def)
next
  case (Some w)
  have "wsman_inv (wm (w_core (post_event (EvDestroyNotify win) (x_world s))))"
    using core_reachable_inv [OF assms] by (simp add: core_inv_def core_ok_def x_core_def)
  note r = index_remove [OF this, of win]
  from Some show ?thesis
    by (simp add: handle_destroy_notify_def x_post_def x_dispatch_def x_core_def on_xw_def Let_def index_commands
        ewmh_update_client_list_def set_root_property_def x_req_def r)
qed

text \<open>
  C9. A destroyed window is forgotten. At any point of a session, whatever events the server sent, in whatever order, and
  whatever it answered, handling the destruction of a window removes it, and no other window, from the core, which stays a
  reachable core, and the backend forgets what it remembered of the window: the position it first asked for and that
  its border was painted as focused. What it remembers of other windows stays.
\<close>
theorem destroyed_window_forgotten:
  assumes "x_env_ok X E" "core_reachable (x_core s)"
  shows "let s1 = fold (x_do X E) steps s; s2 = handle_event X E (DestroyNotify win) s1 in
    core_reachable (x_core s2) \<and>
    window_index (wm (x_core s2)) = (window_index (wm (x_core s1)))(win := None) \<and>
    first_configure_pos s2 = (first_configure_pos s1)(win := None) \<and>
    border_painted_focused s2 = (if border_painted_focused s1 = win then NO_WINDOW else border_painted_focused s1)"
proof -
  define s1 where "s1 = fold (x_do X E) steps s"
  have r: "core_reachable (x_core s1)" unfolding s1_def by (rule x11_keeps_core_reachable [OF assms])
  have "core_reachable (x_core (handle_event X E (DestroyNotify win) s1))"
    using x_run.R_handle_event [OF assms(1) x_run.R_refl, of s1 "DestroyNotify win"] core_reachable_run [OF r]
    by (simp add: x_moves_def moves_def x_core_def)
  moreover have "first_configure_pos (handle_destroy_notify win s1) = (first_configure_pos s1)(win := None)"
    "border_painted_focused (handle_destroy_notify win s1) =
       (if border_painted_focused s1 = win then NO_WINDOW else border_painted_focused s1)"
    by (simp_all add: handle_destroy_notify_def x_post_def x_dispatch_def on_xw_def ewmh_update_client_list_def
        set_root_property_def x_req_def Let_def)
  ultimately show ?thesis using destroy_index [OF r, of win] by (simp add: Let_def s1_def [symmetric])
qed

theorem destroyed_window_forgotten_witness:
  "let s = fold (x_do ex_x_env ex_env) [XArrive [UnmapNotify 103], XRender] ex_x11
   in window_index (wm (x_core (handle_event ex_x_env ex_env (DestroyNotify 102) s))) 102 = None"
proof -
  have "core_reachable (x_core ex_x11)" using ex_world_core by (simp add: ex_x11_def x_core_def)
  from destroyed_window_forgotten [OF ex_x_env_ok this, of "[XArrive [UnmapNotify 103], XRender]" 102] show ?thesis
    by (simp add: Let_def)
qed

section \<open>Key repeats\<close>

fun is_key_press :: "event \<Rightarrow> bool" where
  "is_key_press (EvKeyPress st code keysym) = True"
| "is_key_press _ = False"

definition key_presses :: "x11 \<Rightarrow> event list" where
  "key_presses s = filter is_key_press (event_queue (x_core s))"

lemma key_presses_updates [simp]:
  "key_presses (s\<lparr>x_input := i\<rparr>) = key_presses s" "key_presses (s\<lparr>key_down := kd\<rparr>) = key_presses s"
  "key_presses (s\<lparr>key_syms := ks\<rparr>) = key_presses s" "key_presses (lift_key code s) = key_presses s"
  by (simp_all add: key_presses_def lift_key_def)

lemma post_key [simp]:
  "key_presses (x_post ev s) = key_presses s @ (if is_key_press ev then [ev] else [])" "key_down (x_post ev s) = key_down s"
  "x_input (x_post ev s) = x_input s" "extension_event_base (x_post ev s) = extension_event_base s"
  by (simp_all add: key_presses_def x_post_def on_xw_def x_core_def post_event_def set_queue_def queue_def upd_core_def)

lemma randr_updates [simp]: "is_randr_event_type (s\<lparr>x_input := i\<rparr>) ty = is_randr_event_type s ty"
  by (simp add: is_randr_event_type_def)

lemma focus_no_press: "filter is_key_press (event_queue (focus win c)) = filter is_key_press (event_queue c)"
proof -
  have e: "filter is_key_press (event_queue (emit_focus_changed v d)) = filter is_key_press (event_queue d)" for v d
  proof -
    obtain ev where ev: "event_queue (emit_focus_changed v d) = event_queue (post (EvFocusChanged v) d) @ ev" "set ev \<subseteq> {EvRaiseDocks}"
      using stacks_focus_changed [of v d] by (auto simp: stacks_def)
    then have "filter is_key_press ev = []" by (auto simp: filter_empty_conv)
    then show ?thesis using ev(1) by (simp add: post_def)
  qed
  show ?thesis by (simp add: focus_def Let_def case_prod_unfold e emit_backend_effect_def)
qed

lemma pointer_quiet [simp]:
  "key_presses (x_pointer_at pos s) = key_presses s" "key_down (x_pointer_at pos s) = key_down s"
  "x_input (x_pointer_at pos s) = x_input s" "x_log (x_pointer_at pos s) = x_log s" "key_syms (x_pointer_at pos s) = key_syms s"
  "extension_event_base (x_pointer_at pos s) = extension_event_base s"
  by (simp_all add: key_presses_def x_pointer_at_def upd_core_def core_focus_monitor_at_point_def Let_def case_prod_unfold focus_no_press
      x_core_def on_xw_def)













end
