(* ===== verification/X11_Configure_Properties.thy ===== *)
theory X11_Configure_Properties
  imports X11_Protocol_Properties
begin

text \<open>
  Properties of the X11 backend: its answers to requests for a configuration.
\<close>

definition answer :: "window_id \<Rightarrow> vec2i \<Rightarrow> vec2i \<Rightarrow> int \<Rightarrow> x_request" where
  "answer win pos sz bw = SendEvent win 131072
     (MsgConfigureNotify win (word_of_int (fst pos)) (word_of_int (snd pos)) (word_of_int (fst sz)) (word_of_int (snd sz)) (word_of_int bw))"

text \<open>The window keeps its place in the tables of the core.\<close>

lemma managed_steady:
  assumes "core_inv (x_core s)" "window_index (wm (x_core s)) win = Some p" "steady (x_core s) (x_core t)"
  shows "x11_window t win = Some p" "xw_id t p = win"
proof -
  have i: "window_index (wm (x_core t)) win = Some p" "win_id (heap (wm (x_core t)) p) = win_id (heap (wm (x_core s)) p)"
    using assms(2,3) by (auto simp: steady_def same_windows_def)
  have ok: "windows_ok (wm (x_core s))" using assms(1) by (simp add: core_inv_def core_ok_def wsman_inv_def)
  from windows_ok_indexD [OF this assms(2)] obtain k where id: "win_id (heap (wm (x_core s)) p) = win" and l: "located (wm (x_core s)) k p"
    by blast
  have "win \<noteq> NO_WINDOW" using windows_okD(2) [OF ok l] id by simp
  then show "x11_window t win = Some p" "xw_id t p = win"
    using i id by (simp_all add: x11_window_def find_window_in_all_def xw_id_def xw_state_def win_at_def)
qed

lemma x_steady:
  "steady (x_core s) (x_core (x_dispatch (SetWindowBorderWidth win b) s))"
  "steady (x_core s) (x_core (x_dispatch (SetWindowBorderless win e) s))"
  "steady (x_core s) (x_core (x_dispatch (SetWindowGeometry win pos sz) s))"
  "steady (x_core s) (x_core (x_dispatch ReconcileNow s))" "steady (x_core s) (x_core (x_post ev s))"
proof -
  have "steady c (c\<lparr>event_queue := q\<rparr>)" for c q
    by (simp add: steady_def same_config_def same_windows_def core_ok_def flush_ok_def)
  then show "steady (x_core s) (x_core (x_post ev s))"
    by (simp add: x_post_def on_xw_def x_core_def post_event_def set_queue_def upd_core_def)
qed (simp_all add: x_dispatch_def x_core_def on_xw_def dispatch_def upd_core_def steady_geometry steady_simple_commands
    dispatch_ReconcileNow_def steady_arrange)

lemma x_dispatch_log [simp]: "x_log (x_dispatch cmd s) = x_log s" "x_log (x_post ev s) = x_log s"
  by (simp_all add: x_dispatch_def x_post_def)

text \<open>Each phase of the handler: what it adds to the log, and that the window stays managed.\<close>

lemma restack_logs:
  assumes "core_inv (x_core s)" "window_index (wm (x_core s)) win = Some p" "cr_window r = win"
  shows "\<exists>pre. x_log (restack_request r p s) = x_log s @ pre \<and> steady (x_core s) (x_core (restack_request r p s)) \<and>
    win_at (x_core (restack_request r p s)) p = win_at (x_core s) p \<and>
    (\<forall>q\<in>set pre. \<exists>m vs. q = ConfigureWin win m vs \<and> m AND 31 = 0)"
proof -
  have w: "x11_window s win = Some p" "xw_id s p = win" using managed_steady [OF assms(1,2) steady_refl] by simp_all
  have post: "win_at (x_core (x_post EvRaiseDocks s)) p = win_at (x_core s) p"
    by (simp add: x_post_def x_core_def on_xw_def win_at_def)
  have m: "(XCB_CONFIG_WINDOW_STACK_MODE OR XCB_CONFIG_WINDOW_SIBLING) AND 31 = 0" "XCB_CONFIG_WINDOW_STACK_MODE AND 31 = 0"
    by (simp_all add: config_masks)
  show ?thesis
    using w m post x_steady(5) [of s EvRaiseDocks]
    by (auto simp: restack_request_def with_xw_def xw_configure_def assms(3))
qed

lemma border_window:
  assumes "window_index (wm (x_core s)) win = Some p"
  shows "xw_state (x_dispatch (SetWindowBorderWidth win b) s) p = (xw_state s p)\<lparr>border_width := b\<rparr>"
  using assms by (simp add: xw_state_def x_dispatch_def on_xw_def dispatch_def upd_core_def x_core_def set_window_border_width_def with_window_def
      find_window_in_all_def frame_simps)

lemma geometry_window:
  assumes "window_index (wm (x_core s)) win = Some p"
  shows "xw_state (x_dispatch (SetWindowGeometry win pos sz) s) p =
    (xw_state s p)\<lparr>win_pos := pos, win_size := (if floating (xw_state s p) then apply_size_hints (xw_state s p) sz else sz)\<rparr>"
  using assms by (simp add: xw_state_def x_dispatch_def on_xw_def dispatch_def upd_core_def x_core_def set_window_geometry_def with_window_def
      find_window_in_all_def frame_simps)

lemma promote_size_locked:
  assumes "window_index (wm (x_core s)) (cr_window r) = Some p" "\<not> size_locked (xw_state s p)"
  shows "promote_request r p s = (False, r, s)"
  using assms by (simp add: promote_request_def evaluate_fullscreen_like_request_def find_window_in_all_def xw_state_def Let_def)

lemma promote_logs:
  "x_log (snd (snd (promote_request r p s))) = x_log s \<and> steady (x_core s) (x_core (snd (snd (promote_request r p s)))) \<and>
   cr_window (fst (snd (promote_request r p s))) = cr_window r"
  by (auto simp: promote_request_def Let_def intro: steady_trans [OF x_steady(2) x_steady(5)])

lemma accept_eq:
  "\<exists>pos q. accept_request r g fs p s = with_xw (cr_window r) (xw_send_configure_notify pos (snd (requested_rect r (xw_state s p)))
     (if has_flag (cr_mask r) XCB_CONFIG_WINDOW_BORDER_WIDTH then cr_border_width r else sint (border_width (xw_state s p))))
     (if fs then x_dispatch ReconcileNow (x_dispatch (SetWindowGeometry (cr_window r) q (snd (requested_rect r (xw_state s p)))) s)
      else x_dispatch (SetWindowGeometry (cr_window r) q (snd (requested_rect r (xw_state s p)))) s)"
  unfolding accept_request_def Let_def split_beta by (intro exI) (rule refl)

lemma accept_answers:
  assumes "core_inv (x_core s0)" "window_index (wm (x_core s0)) win = Some p" "steady (x_core s0) (x_core s)" "cr_window r = win"
  shows "\<exists>pos. x_log (accept_request r g fs p s) = x_log s @ [answer win pos (snd (requested_rect r (xw_state s p)))
    (if has_flag (cr_mask r) XCB_CONFIG_WINDOW_BORDER_WIDTH then cr_border_width r else sint (border_width (xw_state s p)))]"
proof -
  let ?sz = "snd (requested_rect r (xw_state s p))"
  let ?bw = "if has_flag (cr_mask r) XCB_CONFIG_WINDOW_BORDER_WIDTH then cr_border_width r else sint (border_width (xw_state s p))"
  let ?t = "\<lambda>q. if fs then x_dispatch ReconcileNow (x_dispatch (SetWindowGeometry win q ?sz) s) else x_dispatch (SetWindowGeometry win q ?sz) s"
  obtain pos q where a: "accept_request r g fs p s = with_xw win (xw_send_configure_notify pos ?sz ?bw) (?t q)"
    using accept_eq [of r g fs p s] unfolding assms(4) by blast
  have "steady (x_core s) (x_core (?t q))" by (auto intro: steady_trans [OF x_steady(3) x_steady(4)] x_steady)
  from managed_steady [OF assms(1,2) steady_trans [OF assms(3) this]]
  have "accept_request r g fs p s = x_req (answer win pos ?sz ?bw) (?t q)"
    unfolding a by (simp only: with_xw_def option.case xw_send_configure_notify_def answer_def)
  moreover have "x_log (?t q) = x_log s" by simp
  ultimately show ?thesis by (intro exI [of _ pos]) simp
qed

lemma current_answers:
  assumes "core_inv (x_core s0)" "window_index (wm (x_core s0)) win = Some p" "steady (x_core s0) (x_core s)"
  shows "x_log (answer_current win p s) = x_log s @ [answer win (win_pos (xw_state s p)) (win_size (xw_state s p)) (sint (border_width (xw_state s p)))]"
  using managed_steady [OF assms]
  by (simp add: answer_current_def Let_def with_xw_def xw_send_configure_notify_def answer_def)


text \<open>
  C25. Every request of a managed window for a configuration is answered: the last thing the handler sends is a
  configuration notification for that window; before it there is at most a change of the stacking order, so nothing but
  the core decides where a managed window is. A tiled window that is neither
  borderless, locked in size nor keeping its position is told the position and size it has.
\<close>
theorem configure_request_answered:
  assumes "core_inv (x_core s)" "find_window_in_all (wm (x_core s)) (cr_window r) = Some p"
  shows "\<exists>pre pos sz bw. x_log (handle_event X E (ConfigureRequest r) s) = x_log s @ pre @ [answer (cr_window r) pos sz bw] \<and>
    (\<forall>q\<in>set pre. \<exists>m vs. q = ConfigureWin (cr_window r) m vs \<and> m AND 31 = 0) \<and>
    (let w = xw_state s p in \<not> floating w \<and> \<not> borderless w \<and> \<not> preserve_position w \<and> \<not> size_locked w \<longrightarrow>
       pos = win_pos w \<and> sz = win_size w)"
proof -
  let ?win = "cr_window r"
  have i: "window_index (wm (x_core s)) ?win = Some p" using assms(2) by (simp add: find_window_in_all_def)
  let ?w = "xw_state s p"
  define s1 where "s1 = (if has_flag (cr_mask r) XCB_CONFIG_WINDOW_BORDER_WIDTH \<and> \<not> borderless ?w \<and> \<not> is_self_managed ?w
     then x_dispatch (SetWindowBorderWidth ?win (word_of_int (cr_border_width r))) s else s)"
  have st1: "steady (x_core s) (x_core s1)" "x_log s1 = x_log s" by (simp_all add: s1_def x_steady)
  have w1: "\<exists>b. xw_state s1 p = ?w\<lparr>border_width := b\<rparr>"
    using border_window [OF i] by (auto simp: s1_def intro: exI [of _ "border_width ?w"])
  have i1: "core_inv (x_core s1)" "window_index (wm (x_core s1)) ?win = Some p"
    using steady_core_inv [OF st1(1) assms(1)] st1(1) i by (simp_all add: steady_def same_windows_def)
  from restack_logs [OF i1 refl] obtain pre where
    r2: "x_log (restack_request r p s1) = x_log s @ pre" "steady (x_core s1) (x_core (restack_request r p s1))"
      "win_at (x_core (restack_request r p s1)) p = win_at (x_core s1) p"
    and pre: "\<forall>q\<in>set pre. \<exists>m vs. q = ConfigureWin ?win m vs \<and> m AND 31 = 0" using st1(2) by auto
  let ?s2 = "restack_request r p s1"
  obtain fs r3 s3 where p3: "promote_request r p ?s2 = (fs, r3, s3)" by (cases "promote_request r p ?s2")
  from promote_logs [of r p ?s2] have r3: "x_log s3 = x_log s @ pre" "cr_window r3 = ?win" and "steady (x_core ?s2) (x_core s3)"
    using r2(1) by (simp_all add: p3)
  with st1(1) r2(2) have st3: "steady (x_core s) (x_core s3)" by (blast intro: steady_trans)
  have h: "handle_event X E (ConfigureRequest r) s =
      (if floating ?w \<or> borderless ?w \<or> fs \<or> preserve_position ?w then
         (if fullscreen (xw_state s3 p) \<and> \<not> fs \<or> borderless (xw_state s3 p) \<and> \<not> fs \<and> \<not> self_managed (xw_state s3 p)
          then answer_current ?win p s3 else accept_request r3 (preserve_position ?w) fs p s3)
       else answer_current ?win p s3)"
    using assms(2) by (simp add: handle_configure_request_def configure_managed_def Let_def s1_def [symmetric] p3)
  have x2: "\<exists>b. xw_state ?s2 p = ?w\<lparr>border_width := b\<rparr>" using w1 r2(3) by (simp add: xw_state_def)
  have i2: "window_index (wm (x_core ?s2)) ?win = Some p" using r2(2) i1(2) by (simp add: steady_def same_windows_def)
  have np: "fs = False \<and> s3 = ?s2" if "\<not> size_locked ?w"
    using promote_size_locked [OF i2] x2 that p3 by auto
  have tiled: "win_pos (xw_state s3 p) = win_pos ?w \<and> win_size (xw_state s3 p) = win_size ?w" if "\<not> size_locked ?w"
    using np [OF that] x2 by auto
  let ?take = "(floating ?w \<or> borderless ?w \<or> fs \<or> preserve_position ?w) \<and>
    \<not> (fullscreen (xw_state s3 p) \<and> \<not> fs \<or> borderless (xw_state s3 p) \<and> \<not> fs \<and> \<not> self_managed (xw_state s3 p))"
  show ?thesis
  proof (cases ?take)
    case True
    then have "handle_event X E (ConfigureRequest r) s = accept_request r3 (preserve_position ?w) fs p s3" unfolding h by auto
    with accept_answers [OF assms(1) i st3 r3(2), of "preserve_position ?w" fs] obtain pos sz bw
      where "x_log (handle_event X E (ConfigureRequest r) s) = x_log s3 @ [answer ?win pos sz bw]" by metis
    then have "x_log (handle_event X E (ConfigureRequest r) s) = x_log s @ pre @ [answer ?win pos sz bw]" using r3(1) by simp
    moreover have "floating ?w \<or> borderless ?w \<or> preserve_position ?w \<or> size_locked ?w" using True np by blast
    ultimately show ?thesis using pre unfolding Let_def by blast
  next
    case False
    then have "handle_event X E (ConfigureRequest r) s = answer_current ?win p s3" unfolding h by auto
    with current_answers [OF assms(1) i st3] have "x_log (handle_event X E (ConfigureRequest r) s) =
      x_log s @ pre @ [answer ?win (win_pos (xw_state s3 p)) (win_size (xw_state s3 p)) (sint (border_width (xw_state s3 p)))]"
      using r3(1) by simp
    then show ?thesis using pre tiled unfolding Let_def by blast
  qed
qed


theorem configure_request_answered_witness:
  "let r = \<lparr>cr_window = 101, cr_mask = 0x4C, cr_x = 0, cr_y = 0, cr_width = 700, cr_height = 500, cr_border_width = 0,
             cr_sibling = 0, cr_stack_mode = 0\<rparr>
   in \<exists>bw. last (x_log (handle_event ex_x_env ex_env (ConfigureRequest r) ex_x11)) = answer 101 (0, 0) (0, 0) bw"
proof -
  let ?r = "\<lparr>cr_window = 101, cr_mask = 0x4C, cr_x = 0, cr_y = 0, cr_width = 700, cr_height = 500, cr_border_width = 0,
             cr_sibling = 0, cr_stack_mode = 0\<rparr>"
  have c: "window_index (wm ex_core) 101 = Some 0 \<and> (let w = win_at ex_core 0 in \<not> floating w \<and> \<not> borderless w \<and> \<not> preserve_position w \<and>
    \<not> size_locked w \<and> win_pos w = (0, 0) \<and> win_size w = (0, 0))" by code_simp
  have core: "x_core ex_x11 = set_config_path ''init.lua'' ex_core" by (simp add: ex_x11_def x_core_def ex_world_def)
  have f: "find_window_in_all (wm (x_core ex_x11)) (cr_window ?r) = Some 0" "xw_state ex_x11 0 = win_at ex_core 0"
    using c by (simp_all add: core set_config_path_def find_window_in_all_def xw_state_def win_at_def)
  have "core_inv (x_core ex_x11)" using ex_world_core core_reachable_inv by (simp add: ex_x11_def x_core_def)
  from configure_request_answered [OF this f(1), of ex_x_env ex_env] c f(2) show ?thesis
    by (auto simp: Let_def simp del: handle_event.simps)
qed

text \<open>
  C29. The size in the answer is the one asked for, even when the core does not grant it: for a floating window the core
  applies the window's own size hints, the answer ignores them.
\<close>
theorem answer_ignores_size_hints:
  assumes "core_inv (x_core s)" "find_window_in_all (wm (x_core s)) (cr_window r) = Some p"
    and "floating (xw_state s p)" "\<not> borderless (xw_state s p)" "\<not> fullscreen (xw_state s p)"
    and "cr_mask r = SIZE_FLAGS"
  shows "let s' = handle_event X E (ConfigureRequest r) s in
    (\<exists>pos bw. last (x_log s') = answer (cr_window r) pos (cr_width r, cr_height r) bw) \<and>
    win_size (xw_state s' p) = apply_size_hints (xw_state s p) (cr_width r, cr_height r)"
proof -
  let ?win = "cr_window r" and ?sz = "(cr_width r, cr_height r)"
  have i: "window_index (wm (x_core s)) ?win = Some p" using assms(2) by (simp add: find_window_in_all_def)
  have m: "\<not> has_flag (cr_mask r) XCB_CONFIG_WINDOW_BORDER_WIDTH" "\<not> has_flag (cr_mask r) XCB_CONFIG_WINDOW_STACK_MODE"
    "has_flag (cr_mask r) XCB_CONFIG_WINDOW_WIDTH" "has_flag (cr_mask r) XCB_CONFIG_WINDOW_HEIGHT"
    by (simp_all add: assms(6) has_flag_def SIZE_FLAGS_def config_masks)
  then have sz: "snd (requested_rect r (xw_state s p)) = ?sz" by (simp add: requested_rect_def Let_def)
  have "promote_request r p s = (False, r, s)" using assms(3) by (simp add: promote_request_def Let_def)
  then have h: "handle_event X E (ConfigureRequest r) s = accept_request r (preserve_position (xw_state s p)) False p s"
    using assms(2-5) m by (simp add: handle_configure_request_def configure_managed_def restack_request_def Let_def)
  obtain pos q bw where a: "accept_request r (preserve_position (xw_state s p)) False p s =
      with_xw ?win (xw_send_configure_notify pos ?sz bw) (x_dispatch (SetWindowGeometry ?win q ?sz) s)"
    using accept_eq [of r "preserve_position (xw_state s p)" False p s] unfolding sz by auto
  let ?t = "x_dispatch (SetWindowGeometry ?win q ?sz) s"
  from managed_steady [OF assms(1) i x_steady(3)]
  have "handle_event X E (ConfigureRequest r) s = x_req (answer ?win pos ?sz bw) ?t"
    unfolding h a by (simp only: with_xw_def option.case xw_send_configure_notify_def answer_def)
  moreover have "xw_state (x_req a t) p = xw_state t p" for a t by (simp add: xw_state_def)
  ultimately have "last (x_log (handle_event X E (ConfigureRequest r) s)) = answer ?win pos ?sz bw"
    "win_size (xw_state (handle_event X E (ConfigureRequest r) s) p) = apply_size_hints (xw_state s p) ?sz"
    using geometry_window [OF i, of q ?sz] assms(3) by (simp_all del: handle_event.simps)
  then show ?thesis unfolding Let_def by blast
qed


definition ex_small :: x11 where
  "ex_small = ex_x11\<lparr>x_world := upd_core (set_win 0 (\<lambda>x. x\<lparr>floating := True, size_max := (600, 400)\<rparr>)) ex_world\<rparr>"

theorem answer_ignores_size_hints_witness:
  "let r = \<lparr>cr_window = 101, cr_mask = 12, cr_x = 0, cr_y = 0, cr_width = 1000, cr_height = 1000, cr_border_width = 0,
             cr_sibling = 0, cr_stack_mode = 0\<rparr>;
       s' = handle_event ex_x_env ex_env (ConfigureRequest r) ex_small
   in (\<exists>pos bw. last (x_log s') = answer 101 pos (1000, 1000) bw) \<and> win_size (xw_state s' 0) = (600, 400)"
proof -
  let ?r = "\<lparr>cr_window = 101, cr_mask = 12, cr_x = 0, cr_y = 0, cr_width = 1000, cr_height = 1000, cr_border_width = 0,
             cr_sibling = 0, cr_stack_mode = 0\<rparr>"
  let ?w = "(win_at ex_core 0)\<lparr>floating := True, size_max := (600, 400)\<rparr>"
  have c: "window_index (wm ex_core) 101 = Some 0 \<and> \<not> borderless ?w \<and> \<not> fullscreen ?w \<and> apply_size_hints ?w (1000, 1000) = (600, 400)"
    by code_simp
  have core: "x_core ex_small = set_win 0 (\<lambda>x. x\<lparr>floating := True, size_max := (600, 400)\<rparr>) (w_core ex_world)"
    by (simp add: ex_small_def x_core_def upd_core_def)
  have "core_inv (w_core ex_world)" using ex_world_core core_reachable_inv by simp
  moreover have "steady (w_core ex_world) (x_core ex_small)" unfolding core by (rule steady_set_win) simp
  ultimately have inv: "core_inv (x_core ex_small)" using steady_core_inv by blast
  have f: "find_window_in_all (wm (x_core ex_small)) (cr_window ?r) = Some 0" "xw_state ex_small 0 = ?w"
    using c by (simp_all add: core xw_state_def find_window_in_all_def frame_simps) (simp_all add: ex_world_def set_config_path_def win_at_def)
  from answer_ignores_size_hints [OF inv f(1), of ex_x_env ex_env] c show ?thesis
    unfolding f(2) by (simp add: Let_def SIZE_FLAGS_def config_masks del: handle_event.simps)
qed

end
