(* ===== verification/X11_Burst_Properties.thy ===== *)
theory X11_Burst_Properties
  imports X11_Configure_Properties
begin

text \<open>
  Properties of the X11 backend: what a burst of events amounts to, and how the restart file and the scan of the existing
  windows work together.
\<close>

section \<open>Bursts\<close>

text \<open>
  The reference: every event is handled in the order it arrived, but moves of the pointer, exposures and changes of the
  display are put off; of these the last move, the last exposure of every window, in the order the windows first appear, and
  one change of the display follow.
\<close>

definition display_event :: "x11 \<Rightarrow> x_event \<Rightarrow> bool" where
  "display_event s ev \<longleftrightarrow> is_randr_event_type s (xcb_opcode ev)"

definition moves_of :: "x11 \<Rightarrow> x_event list \<Rightarrow> x_event list" where
  "moves_of s evs = filter (\<lambda>ev. \<not> display_event s ev \<and> xcb_opcode ev = 6) evs"

definition exposures_of :: "x11 \<Rightarrow> x_event list \<Rightarrow> x_event list" where
  "exposures_of s evs = filter (\<lambda>ev. \<not> display_event s ev \<and> xcb_opcode ev = 12) evs"

definition put_off :: "x11 \<Rightarrow> x_event \<Rightarrow> bool" where
  "put_off s ev \<longleftrightarrow> display_event s ev \<or> xcb_opcode ev = 6 \<or> xcb_opcode ev = 12"

fun in_order :: "x_env \<Rightarrow> env \<Rightarrow> x_event list \<Rightarrow> x11 \<Rightarrow> x11" where
  "in_order X E [] s = s"
| "in_order X E (ev # evs) s =
     in_order X E evs (let s1 = s\<lparr>x_input := evs\<rparr> in if put_off s1 ev then s1 else handle_event X E ev s1)"

definition last_of_each :: "x_event list \<Rightarrow> x_event list" where
  "last_of_each evs =
     map (\<lambda>w. last (filter (\<lambda>ev. expose_window ev = w) evs)) (rev (remdups (rev (map expose_window evs))))"

definition burst_spec :: "x_env \<Rightarrow> env \<Rightarrow> x_event list \<Rightarrow> x11 \<Rightarrow> x11" where
  "burst_spec X E evs s =
     (let s1 = in_order X E evs s;
          s2 = (if moves_of s evs = [] then s1 else handle_event X E (last (moves_of s evs)) s1);
          s3 = fold (handle_event X E) (last_of_each (exposures_of s evs)) s2
      in if list_ex (display_event s) evs then x_display_change E s3 else s3)"

lemma add_expose_last: "fold add_expose evs [] = last_of_each evs"
proof (induction evs rule: rev_induct)
  case (snoc ev evs)
  let ?ws = "rev (remdups (rev (map expose_window evs)))"
  let ?l = "\<lambda>w. last (filter (\<lambda>ev. expose_window ev = w) evs)"
  let ?l' = "\<lambda>w. last (filter (\<lambda>ev. expose_window ev = w) (evs @ [ev]))"
  have ew: "expose_window (?l w) = w" if "w \<in> expose_window ` set evs" for w
  proof -
    have "filter (\<lambda>ev. expose_window ev = w) evs \<noteq> []" using that by (auto simp: filter_empty_conv)
    from last_in_set [OF this] show ?thesis by simp
  qed
  have add: "add_expose ev (map ?l ws) = map ?l' (if expose_window ev \<in> set ws then ws else ws @ [expose_window ev])"
    if "distinct ws" "set ws \<subseteq> expose_window ` set evs" for ws
    using that
  proof (induction ws)
    case (Cons w ws)
    have w: "expose_window (?l w) = w" using Cons.prems ew by simp
    have "map ?l ws = map ?l' ws" if "expose_window ev \<notin> set ws" using that by (auto intro!: map_cong)
    then show ?case using w Cons by (cases "w = expose_window ev") auto
  qed simp
  have "rev (remdups (rev (map expose_window (evs @ [ev])))) =
      (if expose_window ev \<in> set ?ws then ?ws else ?ws @ [expose_window ev])"
    by simp
  then show ?case using snoc add [of ?ws] by (simp add: last_of_each_def)
qed (simp add: last_of_each_def)


lemma pump_burst:
  assumes "x_env_ok X E" "n \<ge> length (x_input s)" "\<And>ev k. ev \<in> set (x_input s) \<Longrightarrow> ev \<noteq> KeyEvent k"
    and "extension_event_base s = extension_event_base s0"
  shows "x_pump_loop X E n (b, s) =
    (\<lparr>latest_motion = (if moves_of s0 (x_input s) = [] then latest_motion b else Some (last (moves_of s0 (x_input s)))),
      pending_exposes = fold add_expose (exposures_of s0 (x_input s)) (pending_exposes b),
      randr_dirty = (randr_dirty b \<or> list_ex (display_event s0) (x_input s))\<rparr>, in_order X E (x_input s) s)"
  using assms(2-)
proof (induction "x_input s" arbitrary: s n b)
  case Nil
  then show ?case by (cases n) (simp_all add: moves_of_def exposures_of_def)
next
  case (Cons ev evs)
  obtain m where n: "n = Suc m" "m \<ge> length evs" using Cons(3) by (cases n) (auto simp: Cons(2) [symmetric])
  let ?s = "s\<lparr>x_input := evs\<rparr>"
  have d: "is_randr_event_type ?s = is_randr_event_type s0" using Cons.prems(3) by (auto simp: is_randr_event_type_def)
  let ?b = "if display_event s0 ev then b\<lparr>randr_dirty := True\<rparr> else if xcb_opcode ev = 6 then b\<lparr>latest_motion := Some ev\<rparr>
    else if xcb_opcode ev = 12 then b\<lparr>pending_exposes := add_expose ev (pending_exposes b)\<rparr> else b"
  let ?t = "if put_off ?s ev then ?s else handle_event X E ev ?s"
  have "\<And>k. ev \<noteq> KeyEvent k" using Cons.prems(2) Cons(2) by (metis list.set_intros(1))
  then have one: "pump_one X E ev (b, ?s) = (?b, ?t)"
    by (simp add: pump_one_def handle_generic_event_other d display_event_def put_off_def)
  have "x_kept ?s ?t" using x_same.R_handle_event [OF assms(1) x_same.R_refl] x_same.R_refl by simp
  then have t: "x_input ?t = evs" "extension_event_base ?t = extension_event_base s0" using Cons.prems(3) by (simp_all add: x_kept_def)
  have "x_pump_loop X E n (b, s) = x_pump_loop X E m (?b, ?t)" using one by (simp add: n Cons(2) [symmetric])
  also have "\<dots> = (\<lparr>latest_motion = (if moves_of s0 evs = [] then latest_motion ?b else Some (last (moves_of s0 evs))),
      pending_exposes = fold add_expose (exposures_of s0 evs) (pending_exposes ?b),
      randr_dirty = (randr_dirty ?b \<or> list_ex (display_event s0) evs)\<rparr>, in_order X E evs ?t)"
    using Cons(1) [of ?t m ?b] t n Cons.prems(2) Cons(2) by (metis list.set_intros(2))
  also have "in_order X E evs ?t = in_order X E (x_input s) s" by (simp add: Cons(2) [symmetric])
  finally show ?case by (auto simp: Cons(2) [symmetric] moves_of_def exposures_of_def)
qed

text \<open>
  C23. A burst of events is condensed without changing what it means: if none of the waiting events is a key event, taking them
  all amounts to handling them in the order they arrived, except that of the moves of the pointer only the last is handled,
  of the exposures of a window only the last, after everything else, and that any number of changes of the display
  lead to one update of the monitors at the end.
\<close>
theorem burst_condensed:
  assumes "x_env_ok X E" "n \<ge> length (x_input s)" "\<And>ev k. ev \<in> set (x_input s) \<Longrightarrow> ev \<noteq> KeyEvent k"
  shows "x_pump_events X E n s = burst_spec X E (x_input s) s"
proof -
  have g: "handle_generic_event X E ev t = handle_event X E ev t" if "ev \<in> set (x_input s)" for ev t
    using assms(3) [OF that] by (intro handle_generic_event_other) blast
  have m: "last (moves_of s (x_input s)) \<in> set (x_input s)" if "moves_of s (x_input s) \<noteq> []"
    using last_in_set [OF that] by (simp add: moves_of_def)
  have l: "set (last_of_each evs) \<subseteq> set evs" for evs
  proof -
    have "last (filter (\<lambda>ev. expose_window ev = w) evs) \<in> set evs" if "w \<in> expose_window ` set evs" for w
    proof -
      have "filter (\<lambda>ev. expose_window ev = w) evs \<noteq> []" using that by (auto simp: filter_empty_conv)
      from last_in_set [OF this] show ?thesis by simp
    qed
    then show ?thesis by (auto simp: last_of_each_def)
  qed
  have "set (exposures_of s (x_input s)) \<subseteq> set (x_input s)" by (auto simp: exposures_of_def)
  with l have "set (last_of_each (exposures_of s (x_input s))) \<subseteq> set (x_input s)" by blast
  then have f: "fold (handle_generic_event X E) (last_of_each (exposures_of s (x_input s))) t =
      fold (handle_event X E) (last_of_each (exposures_of s (x_input s))) t" for t
    using g by (intro fold_cong) (auto simp: fun_eq_iff)
  show ?thesis
    using g m f pump_burst [OF assms refl, of no_burst]
    by (auto simp: x_pump_events_def finish_burst_def burst_spec_def no_burst_def add_expose_last Let_def simp del: handle_event.simps)
qed


theorem burst_condensed_witness:
  "let evs = [MotionNotify 1 (1, 1) 0, Expose 101 1, OtherEvent 89, MotionNotify 1 (9, 9) 0, Expose 102 0, Expose 101 0, UnmapNotify 103];
       s = ex_x11\<lparr>x_input := evs\<rparr>
   in x_pump_events ex_x_env ex_env 20 s = burst_spec ex_x_env ex_env evs s \<and> list_ex (display_event s) evs \<and>
      last (moves_of s evs) = MotionNotify 1 (9, 9) 0 \<and> last_of_each (exposures_of s evs) = [Expose 101 0, Expose 102 0]"
proof -
  let ?evs = "[MotionNotify 1 (1, 1) 0, Expose 101 1, OtherEvent 89, MotionNotify 1 (9, 9) 0, Expose 102 0, Expose 101 0, UnmapNotify 103]"
  let ?s = "ex_x11\<lparr>x_input := ?evs\<rparr>"
  have b: "extension_event_base ex_x11 = 89" by (simp add: ex_x11_def)
  have "x_pump_events ex_x_env ex_env 20 ?s = burst_spec ex_x_env ex_env ?evs ?s"
    using burst_condensed [OF ex_x_env_ok, of ?s 20] by auto
  moreover have "list_ex (display_event ?s) ?evs" "last (moves_of ?s ?evs) = MotionNotify 1 (9, 9) 0"
    "last_of_each (exposures_of ?s ?evs) = [Expose 101 0, Expose 102 0]"
    by (simp_all add: display_event_def moves_of_def exposures_of_def last_of_each_def is_randr_event_type_def b)
  ultimately show ?thesis unfolding Let_def by blast
qed


section \<open>Restart\<close>

text \<open>A snapshot carries what the restart file says of its window.\<close>

definition carries :: "existing_window_snapshot \<Rightarrow> restart_win_state \<Rightarrow> bool" where
  "carries snap rw \<longleftrightarrow> default_manage snap \<and> from_restart snap \<and> restart_workspace_id snap = rw_ws_id rw \<and>
     restart_floating snap = rw_floating rw \<and> restart_fullscreen snap = rw_fullscreen rw \<and>
     restart_hidden_explicitly snap = rw_hidden_explicitly rw \<and> restart_borderless snap = rw_borderless rw"

lemma scan_keeps:
  "set (fst acc) \<subseteq> set (fst (fold (scan_one X rst) wins acc)) \<and> x_root (snd (fold (scan_one X rst) wins acc)) = x_root (snd acc) \<and>
   x_world (snd (fold (scan_one X rst) wins acc)) = x_world (snd acc)"
proof (induction wins arbitrary: acc)
  case (Cons w wins)
  have "set (fst acc) \<subseteq> set (fst (scan_one X rst w acc)) \<and> x_root (snd (scan_one X rst w acc)) = x_root (snd acc) \<and>
    x_world (snd (scan_one X rst w acc)) = x_world (snd acc)"
    by (auto simp: scan_one_def Let_def select_managed_events_def split: prod.splits option.splits)
  with Cons [of "scan_one X rst w acc"] show ?case by auto
qed simp

lemma scan_finds:
  assumes "win \<in> set wins" "win \<noteq> x_root (snd acc)" "rs_windows rst win = Some rw"
    and "\<And>l. \<exists>a. xs_attributes (server X l) win = Some a \<and> \<not> xa_override_redirect a \<and> xa_input_output a"
  shows "\<exists>snap\<in>set (fst (fold (scan_one X rst) wins acc)). snap_window snap = win \<and> carries snap rw"
proof -
  from split_list [OF assms(1)] obtain us vs where w: "wins = us @ win # vs" by blast
  let ?acc = "fold (scan_one X rst) us acc"
  have "win \<noteq> x_root (snd ?acc)" using scan_keeps [of acc X rst us] assms(2) by simp
  moreover obtain a where "xs_attributes (ask X (snd ?acc)) win = Some a" "\<not> xa_override_redirect a" "xa_input_output a"
    using assms(4) by (auto simp: ask_def)
  ultimately have "\<exists>g. scan_window (ask X (snd ?acc)) g rst a win \<in> set (fst (scan_one X rst win ?acc))"
    by (cases ?acc) (auto simp: scan_one_def Let_def)
  moreover have "snap_window (scan_window S g rst a win) = win \<and> carries (scan_window S g rst a win) rw" for S g
    using assms(3) by (simp add: carries_def scan_window_def Let_def)
  ultimately show ?thesis using scan_keeps [of "scan_one X rst win ?acc" X rst vs] unfolding w by auto
qed

text \<open>
  C11. A restart of the window manager under X11 finds its windows again: when the restart file was written from a
  consistent core, the scan of the new process reports every window that was managed, is not borderless and managing
  itself, and still exists on the server as one to take over, with the workspace it was on and the floating, fullscreen,
  hidden and borderless state it had, together with the active workspaces of the monitors, and the file is used up.
\<close>
theorem scan_after_restart:
  assumes "core_inv c" "int (length (workspaces (wm c))) < 2 ^ 31" "int (length (monitors (wm c))) < 2 ^ 31"
    and "w_restart_file (x_world s) = save_restart_state True True c old_file" "x_root s \<noteq> NO_WINDOW"
    and "win \<in> set (query_tree_children (ask X s) (x_root s))" "win \<noteq> x_root s"
    and "window_index (wm c) win = Some p" "\<not> (borderless (win_at c p) \<and> self_managed (win_at c p))"
    and "\<And>l. \<exists>a. xs_attributes (server X l) win = Some a \<and> \<not> xa_override_redirect a \<and> xa_input_output a"
  shows "let (snap, s') = x_scan_existing_windows X s in
    (\<exists>x\<in>set (snap_windows snap). snap_window x = win \<and> default_manage x \<and> from_restart x \<and>
       restart_workspace_id x = the (window_workspace (wm c) win) \<and> restart_floating x = floating (win_at c p) \<and>
       restart_fullscreen x = fullscreen (win_at c p) \<and> restart_hidden_explicitly x = hidden_explicitly (win_at c p) \<and>
       restart_borderless x = borderless (win_at c p)) \<and>
    (\<forall>m. is_mon_valid (wm c) m \<longrightarrow> snap_monitor_active_ws snap m = Some (active_ws (monitors (wm c) ! nat m))) \<and>
    w_restart_file (x_world s') = None"
proof -
  let ?rst = "load_restart_state (w_restart_file (x_world s))" and ?wins = "query_tree_children (ask X s) (x_root s)"
  let ?s1 = "on_xw (\<lambda>w. w\<lparr>w_restart_file := None\<rparr>) s"
  note l = load_saved_state [OF assms(1-3), of old_file, folded assms(4)]
  define rw where "rw = \<lparr>rw_ws_id = the (window_workspace (wm c) win), rw_floating = floating (win_at c p),
    rw_fullscreen = fullscreen (win_at c p), rw_hidden_explicitly = hidden_explicitly (win_at c p), rw_borderless = borderless (win_at c p)\<rparr>"
  have "rs_windows ?rst win = Some rw" using assms(8,9) by (simp add: l saved_window_managed [OF assms(1)] rw_def)
  moreover have "win \<noteq> x_root (snd ([], ?s1))" using assms(7) by simp
  ultimately have "\<exists>x\<in>set (fst (fold (scan_one X ?rst) ?wins ([], ?s1))). snap_window x = win \<and> carries x rw"
    using scan_finds assms(6,10) by metis
  moreover have "x_world (snd (fold (scan_one X ?rst) ?wins ([], ?s1))) = x_world ?s1" using scan_keeps by auto
  ultimately show ?thesis
    using assms(5) l by (simp add: x_scan_existing_windows_def Let_def split_beta on_xw_def carries_def rw_def)
qed


definition ex_scan_env :: x_env where
  "ex_scan_env = ex_x_env\<lparr>server := (\<lambda>_. ex_x_server
     \<lparr>xs_attributes := (\<lambda>_. Some \<lparr>xa_override_redirect = False, xa_viewable = False, xa_input_output = True\<rparr>),
      xs_tree := (\<lambda>_. Some \<lparr>xt_root = 1, xt_parent = NO_WINDOW, xt_children = [102, 103]\<rparr>)\<rparr>)\<rparr>"

definition ex_restarted :: x11 where
  "ex_restarted = ex_x11\<lparr>x_world := ex_world\<lparr>w_restart_file := save_restart_state True True ex_core None\<rparr>\<rparr>"

theorem scan_after_restart_witness:
  "\<exists>x\<in>set (snap_windows (fst (x_scan_existing_windows ex_scan_env ex_restarted))). snap_window x = 103 \<and> restart_workspace_id x = 1"
proof -
  have n: "int (length (workspaces (wm ex_core))) < 2 ^ 31" "int (length (monitors (wm ex_core))) < 2 ^ 31"
    and w: "window_index (wm ex_core) 103 = Some 2" "\<not> (borderless (win_at ex_core 2) \<and> self_managed (win_at ex_core 2))"
      "window_workspace (wm ex_core) 103 = Some 1" by code_simp+
  have s: "w_restart_file (x_world ex_restarted) = save_restart_state True True ex_core None" "x_root ex_restarted = 1"
    by (simp_all add: ex_restarted_def ex_x11_def)
  have q: "103 \<in> set (query_tree_children (ask ex_scan_env ex_restarted) 1)"
    by (simp add: ask_def ex_scan_env_def query_tree_children_def)
  have a: "\<exists>a. xs_attributes (server ex_scan_env l) 103 = Some a \<and> \<not> xa_override_redirect a \<and> xa_input_output a" for l
    by (simp add: ex_scan_env_def)
  from scan_after_restart [OF ex_inv(2) n s(1), of 103 ex_scan_env 2] s(2) q w a show ?thesis
    by (auto simp: NO_WINDOW_def split: prod.splits)
qed

end
