(* ===== verification/Randr.thy ===== *)
theory Randr
  imports Monitor_Layout Config_Parse Xcb_Connection Float32
begin

text \<open>
  The monitor port of the X11 backend (\<^verbatim>\<open>backends/x11/src/ports/monitor_port.cpp\<close>) and the RandR wrapper under it
  (\<^verbatim>\<open>libxcb/include/xcb/randr.hpp\<close>, \<^verbatim>\<open>XConnection::get_monitors\<close>): how the resolved layout of the configuration is put
  into effect with \<^verbatim>\<open>SetCrtcConfig\<close> requests, and how the monitors of the core are read back.

  The X server is a parameter: what it answers is a function of the requests sent so far (\<open>rr_ask\<close>). The reply to
  \<^verbatim>\<open>SetCrtcConfig\<close> is the answer after that request. Requests made through the raw XCB connection do not mark the
  wrapper's connection as having something to flush, as in the source. A \<^verbatim>\<open>double\<close> is the rational it stands for, with
  every inexact operation rounded by \<open>f64_round\<close>; an \<^verbatim>\<open>unordered_set\<close> is a set.
\<close>

section \<open>Double precision\<close>

definition f64_ulp :: "rat \<Rightarrow> rat" where
  "f64_ulp q = 2 powi (max (binade \<bar>q\<bar> - 52) (- 1074))"

definition f64_round :: "rat \<Rightarrow> rat" where
  "f64_round q = (if q = 0 then 0 else of_int (round_half_even (q / f64_ulp q)) * f64_ulp q)"

section \<open>The server\<close>

type_synonym crtc_id = "32 word"
type_synonym output_id = "32 word"
type_synonym mode_id = "32 word"

definition XCB_NONE :: "32 word" where "XCB_NONE = 0"

record mode_info =
  mi_id :: mode_id
  mi_width :: "16 word"
  mi_height :: "16 word"
  mi_dot_clock :: "32 word"
  mi_htotal :: "16 word"
  mi_vtotal :: "16 word"

record screen_resources =
  sr_crtcs :: "crtc_id list"
  sr_outputs :: "output_id list"
  sr_modes :: "mode_info list"

record randr_output =
  ro_name :: string
  ro_connected :: bool
  ro_crtc :: crtc_id
  ro_crtcs :: "crtc_id list"
  ro_modes :: "mode_id list"

record crtc_info =
  ci_x :: "16 word"
  ci_y :: "16 word"
  ci_mode :: mode_id
  ci_rotation :: "16 word"
  ci_outputs :: "output_id list"

record randr_monitor =
  rm_name :: atom
  rm_x :: "16 word"
  rm_y :: "16 word"
  rm_width :: "16 word"
  rm_height :: "16 word"

record randr_server =
  rs_resources :: "screen_resources option"
  rs_output_info :: "output_id \<Rightarrow> randr_output option"
  rs_crtc_info :: "crtc_id \<Rightarrow> crtc_info option"
  rs_config_status :: "8 word option"
  rs_primary :: "output_id option"
  rs_monitors :: "randr_monitor list option"
  rs_atom_name :: "atom \<Rightarrow> string option"
  rs_root_size :: "(int \<times> int) option"
  rs_first_event :: "8 word option"

datatype randr_request =
    SetCrtcConfig crtc_id "16 word" "16 word" mode_id "16 word" "output_id list"
  | SetOutputPrimary window_id output_id
  | SetScreenSize window_id "16 word" "16 word" "16 word" "16 word"
  | RandrSelectInput window_id "16 word"
  | RandrFlush

type_synonym randr_env = "randr_request list \<Rightarrow> randr_server"

text \<open>The connection as the port uses it; the sizes of the screen are those of the connection set-up.\<close>

record randr_port =
  rp_log :: "randr_request list"
  rp_dirty :: bool
  rp_root :: window_id
  rp_screen_pixels :: "16 word \<times> 16 word"
  rp_screen_mm :: "16 word \<times> 16 word"
  rp_event_base :: int

definition rr_ask :: "randr_env \<Rightarrow> randr_port \<Rightarrow> randr_server" where
  "rr_ask X s = X (rp_log s)"

definition rr_req :: "randr_request \<Rightarrow> randr_port \<Rightarrow> randr_port" where
  "rr_req r s = s\<lparr>rp_log := rp_log s @ [r]\<rparr>"

definition rr_force_flush :: "randr_port \<Rightarrow> randr_port" where
  "rr_force_flush s = s\<lparr>rp_log := rp_log s @ [RandrFlush], rp_dirty := False\<rparr>"

definition rr_flush :: "randr_port \<Rightarrow> randr_port" where
  "rr_flush s = (if rp_dirty s then rr_force_flush s else s)"

section \<open>CRTCs\<close>

definition ROTATE_0 :: "16 word" where "ROTATE_0 = 1"
definition ROTATE_90 :: "16 word" where "ROTATE_90 = 2"
definition ROTATE_180 :: "16 word" where "ROTATE_180 = 4"
definition ROTATE_270 :: "16 word" where "ROTATE_270 = 8"

definition crtc_valid :: "crtc_id \<Rightarrow> bool" where
  "crtc_valid c \<longleftrightarrow> c \<noteq> XCB_NONE"

definition output_count :: "randr_server \<Rightarrow> crtc_id \<Rightarrow> int" where
  "output_count S c = (case rs_crtc_info S c of None \<Rightarrow> -1 | Some i \<Rightarrow> int (length (ci_outputs i)))"

definition crtc_x :: "randr_server \<Rightarrow> crtc_id \<Rightarrow> 16 word" where
  "crtc_x S c = (case rs_crtc_info S c of None \<Rightarrow> 0 | Some i \<Rightarrow> ci_x i)"

definition crtc_y :: "randr_server \<Rightarrow> crtc_id \<Rightarrow> 16 word" where
  "crtc_y S c = (case rs_crtc_info S c of None \<Rightarrow> 0 | Some i \<Rightarrow> ci_y i)"

definition crtc_mode :: "randr_server \<Rightarrow> crtc_id \<Rightarrow> mode_id" where
  "crtc_mode S c = (case rs_crtc_info S c of None \<Rightarrow> XCB_NONE | Some i \<Rightarrow> ci_mode i)"

definition crtc_rotation :: "randr_server \<Rightarrow> crtc_id \<Rightarrow> 16 word" where
  "crtc_rotation S c = (case rs_crtc_info S c of None \<Rightarrow> ROTATE_0 | Some i \<Rightarrow> ci_rotation i)"

definition configure_status ::
  "randr_env \<Rightarrow> crtc_id \<Rightarrow> 16 word \<Rightarrow> 16 word \<Rightarrow> mode_id \<Rightarrow> 16 word \<Rightarrow> output_id \<Rightarrow> randr_port \<Rightarrow> 8 word \<times> randr_port" where
  "configure_status X c x y m rot out s =
     (let s1 = rr_req (SetCrtcConfig c x y m rot [out]) s
      in (case rs_config_status (rr_ask X s1) of None \<Rightarrow> 255 | Some st \<Rightarrow> st, s1))"

definition crtc_disable :: "crtc_id \<Rightarrow> randr_port \<Rightarrow> randr_port" where
  "crtc_disable c s = rr_req (SetCrtcConfig c 0 0 XCB_NONE ROTATE_0 []) s"

definition parse_rotation :: "string \<Rightarrow> 16 word" where
  "parse_rotation r =
     (if r = ''right'' then ROTATE_90 else if r = ''inverted'' then ROTATE_180 else if r = ''left'' then ROTATE_270 else ROTATE_0)"

section \<open>Outputs\<close>

definition output_connected :: "randr_server \<Rightarrow> output_id \<Rightarrow> bool" where
  "output_connected S out = (case rs_output_info S out of None \<Rightarrow> False | Some i \<Rightarrow> ro_connected i)"

definition output_crtc :: "randr_server \<Rightarrow> output_id \<Rightarrow> crtc_id" where
  "output_crtc S out = (case rs_output_info S out of None \<Rightarrow> XCB_NONE | Some i \<Rightarrow> ro_crtc i)"

definition possible_crtcs :: "randr_server \<Rightarrow> output_id \<Rightarrow> crtc_id list" where
  "possible_crtcs S out = (case rs_output_info S out of None \<Rightarrow> [] | Some i \<Rightarrow> ro_crtcs i)"

record randr_mode =
  md_id :: mode_id
  md_width :: "16 word"
  md_height :: "16 word"
  md_rate :: rat

definition mode_rate :: "mode_info \<Rightarrow> rat" where
  "mode_rate i =
     (if mi_htotal i \<noteq> 0 \<and> mi_vtotal i \<noteq> 0
      then f64_round (of_int (uint (mi_dot_clock i)) / (of_int (uint (mi_htotal i)) * of_int (uint (mi_vtotal i))))
      else 0)"

definition output_modes :: "randr_server \<Rightarrow> output_id \<Rightarrow> randr_mode list" where
  "output_modes S out =
     (case (rs_resources S, rs_output_info S out) of
        (Some res, Some oi) \<Rightarrow>
          List.map_filter
            (\<lambda>m. map_option (\<lambda>i. \<lparr>md_id = m, md_width = mi_width i, md_height = mi_height i, md_rate = mode_rate i\<rparr>)
                   (find (\<lambda>i. mi_id i = m) (sr_modes res)))
            (ro_modes oi)
      | _ \<Rightarrow> [])"

definition rate_error :: "int \<Rightarrow> randr_mode \<Rightarrow> rat" where
  "rate_error want m = \<bar>f64_round (md_rate m - of_int want)\<bar>"

definition better_mode :: "int \<Rightarrow> int \<Rightarrow> int \<Rightarrow> randr_mode \<Rightarrow> randr_mode option \<Rightarrow> randr_mode option" where
  "better_mode want_w want_h want_rate m best =
     (if want_w > 0 \<and> (md_width m \<noteq> word_of_int want_w \<or> md_height m \<noteq> word_of_int want_h) then best
      else case best of
        None \<Rightarrow> Some m
      | Some b \<Rightarrow>
          if want_rate > 0 then (if rate_error want_rate m < rate_error want_rate b then Some m else best)
          else if md_rate m > md_rate b then Some m else best)"

definition find_mode :: "randr_server \<Rightarrow> output_id \<Rightarrow> int \<Rightarrow> int \<Rightarrow> int \<Rightarrow> randr_mode option" where
  "find_mode S out want_w want_h want_rate = fold (better_mode want_w want_h want_rate) (output_modes S out) None"

definition output_set_primary :: "output_id \<Rightarrow> randr_port \<Rightarrow> randr_port" where
  "output_set_primary out s = rr_req (SetOutputPrimary (rp_root s) out) s"

text \<open>The CRTC asked for is not tested: for an output without one the request names CRTC 0.\<close>

definition output_disable :: "randr_env \<Rightarrow> output_id \<Rightarrow> randr_port \<Rightarrow> randr_port" where
  "output_disable X out s = crtc_disable (output_crtc (rr_ask X s) out) s"

section \<open>The screen\<close>

definition screen_outputs :: "randr_server \<Rightarrow> (output_id \<times> string) list" where
  "screen_outputs S =
     (case rs_resources S of
        None \<Rightarrow> []
      | Some res \<Rightarrow> List.map_filter (\<lambda>out. map_option (\<lambda>oi. (out, ro_name oi)) (rs_output_info S out)) (sr_outputs res))"

definition find_output :: "randr_server \<Rightarrow> string \<Rightarrow> output_id option" where
  "find_output S name = map_option fst (find (\<lambda>p. snd p = name) (screen_outputs S))"

definition free_crtcs :: "randr_server \<Rightarrow> crtc_id list" where
  "free_crtcs S = (case rs_resources S of None \<Rightarrow> [] | Some res \<Rightarrow> filter (\<lambda>c. output_count S c = 0) (sr_crtcs res))"

record monitor_entry =
  me_id :: int
  me_name :: string
  me_x :: "16 word"
  me_y :: "16 word"
  me_width :: "16 word"
  me_height :: "16 word"

fun number_monitors :: "randr_server \<Rightarrow> int \<Rightarrow> randr_monitor list \<Rightarrow> monitor_entry list" where
  "number_monitors S i [] = []"
| "number_monitors S i (m # ms) =
     \<lparr>me_id = i, me_name = (case rs_atom_name S (rm_name m) of None \<Rightarrow> ''monitor'' @ int_to_string i | Some n \<Rightarrow> n),
      me_x = rm_x m, me_y = rm_y m, me_width = rm_width m, me_height = rm_height m\<rparr> # number_monitors S (i + 1) ms"

definition screen_monitors :: "randr_server \<Rightarrow> monitor_entry list" where
  "screen_monitors S = (case rs_monitors S of None \<Rightarrow> [] | Some ms \<Rightarrow> number_monitors S 0 ms)"

definition monitor_of_entry :: "monitor_entry \<Rightarrow> monitor" where
  "monitor_of_entry m = mk_monitor (me_id m) (me_name m) (sint (me_x m)) (sint (me_y m)) (uint (me_width m)) (uint (me_height m))"

definition x11_get_monitors :: "randr_env \<Rightarrow> randr_port \<Rightarrow> monitor list" where
  "x11_get_monitors X s =
     (let raw = screen_monitors (rr_ask X s) in
      if raw = []
      then [mk_monitor 0 ''default'' 0 0 (uint (fst (rp_screen_pixels s))) (uint (snd (rp_screen_pixels s)))]
      else map monitor_of_entry raw)"

section \<open>Putting a layout into effect\<close>

definition push_crtc :: "crtc_id \<Rightarrow> crtc_id list \<Rightarrow> crtc_id list" where
  "push_crtc c seen = (if c = XCB_NONE then seen else if c \<in> set seen then seen else seen @ [c])"

definition select_crtcs :: "randr_server \<Rightarrow> output_id \<Rightarrow> crtc_id list" where
  "select_crtcs S out =
     fold push_crtc (free_crtcs S) (fold push_crtc (possible_crtcs S out) (push_crtc (output_crtc S out) []))"

definition resolve_mode :: "randr_server \<Rightarrow> output_id \<Rightarrow> monitor_layout \<Rightarrow> mode_id" where
  "resolve_mode S out l =
     (case find_mode S out (fst (ml_size l)) (snd (ml_size l)) (ml_refresh_rate l) of None \<Rightarrow> XCB_NONE | Some m \<Rightarrow> md_id m)"

definition layout_x :: "monitor_layout \<Rightarrow> 16 word" where "layout_x l = word_of_int (fst (ml_pos l))"
definition layout_y :: "monitor_layout \<Rightarrow> 16 word" where "layout_y l = word_of_int (snd (ml_pos l))"

definition already_configured :: "randr_server \<Rightarrow> output_id \<Rightarrow> monitor_layout \<Rightarrow> crtc_id set \<Rightarrow> bool" where
  "already_configured S out l reserved \<longleftrightarrow>
     (let cur = output_crtc S out in
      crtc_valid cur \<and> cur \<notin> reserved \<and> crtc_x S cur = layout_x l \<and> crtc_y S cur = layout_y l \<and>
      crtc_mode S cur = resolve_mode S out l \<and> crtc_rotation S cur = parse_rotation (ml_rotation l))"

text \<open>The loop over the candidates. Falling out of it is a failure, whether or not a CRTC was tried.\<close>

fun try_crtcs ::
  "randr_env \<Rightarrow> monitor_layout \<Rightarrow> output_id \<Rightarrow> mode_id \<Rightarrow> crtc_id list \<Rightarrow> crtc_id set \<Rightarrow> randr_port \<Rightarrow> bool \<times> crtc_id set \<times> randr_port" where
  "try_crtcs X l out m [] reserved s = (False, reserved, s)"
| "try_crtcs X l out m (c # cs) reserved s =
     (if \<not> crtc_valid c then try_crtcs X l out m cs reserved s
      else if c \<in> reserved then try_crtcs X l out m cs reserved s
      else case configure_status X c (layout_x l) (layout_y l) m (parse_rotation (ml_rotation l)) out s of (st, s1) \<Rightarrow>
        if st \<noteq> 0 then try_crtcs X l out m cs reserved s1
        else (True, insert c reserved, if ml_primary l then output_set_primary out s1 else s1))"

definition configure_output ::
  "randr_env \<Rightarrow> monitor_layout \<Rightarrow> crtc_id set \<Rightarrow> randr_port \<Rightarrow> bool \<times> crtc_id set \<times> randr_port" where
  "configure_output X l reserved s =
     (let S = rr_ask X s in
      case find_output S (ml_output l) of
        None \<Rightarrow> (True, reserved, s)
      | Some out \<Rightarrow>
          if \<not> ml_enabled l then (True, reserved, output_disable X out s)
          else if \<not> output_connected S out then (True, reserved, output_disable X out s)
          else
            let crtcs = select_crtcs S out; m = resolve_mode S out l in
            if crtcs = [] then (False, reserved, s)
            else if m = XCB_NONE then (False, reserved, s)
            else if already_configured S out l reserved then
              (True, insert (output_crtc S out) reserved,
               if ml_primary l \<and> rs_primary S \<noteq> Some out then output_set_primary out s else s)
            else try_crtcs X l out m crtcs reserved s)"

definition covered_size :: "monitor_layout \<Rightarrow> vec2i" where
  "covered_size l =
     (if is_rotated (ml_rotation l) then snd (ml_size l) else fst (ml_size l),
      if is_rotated (ml_rotation l) then fst (ml_size l) else snd (ml_size l))"

definition counts_for_screen :: "randr_server \<Rightarrow> monitor_layout \<Rightarrow> bool" where
  "counts_for_screen S l \<longleftrightarrow>
     ml_enabled l \<and> (case find_output S (ml_output l) of None \<Rightarrow> False | Some out \<Rightarrow> output_connected S out) \<and>
     \<not> (fst (ml_size l) \<le> 0 \<or> snd (ml_size l) \<le> 0)"

definition extend_box :: "randr_server \<Rightarrow> monitor_layout \<Rightarrow> int \<times> int \<Rightarrow> int \<times> int" where
  "extend_box S l mx =
     (if counts_for_screen S l
      then (max (fst mx) (fst (ml_pos l) + fst (covered_size l)), max (snd mx) (snd (ml_pos l) + snd (covered_size l)))
      else mx)"

definition expand_screen_size :: "randr_env \<Rightarrow> monitor_layout list \<Rightarrow> randr_port \<Rightarrow> randr_port" where
  "expand_screen_size X layouts s =
     (let S = rr_ask X s in
      case fold (extend_box S) layouts (0, 0) of (max_x, max_y) \<Rightarrow>
        if max_x \<le> 0 \<or> max_y \<le> 0 then s
        else
          let cur = (case rs_root_size S of None \<Rightarrow> (0, 0) | Some g \<Rightarrow> g) in
          if fst cur = max_x \<and> snd cur = max_y then s
          else
            rr_force_flush
              (rr_req (SetScreenSize (rp_root s) (word_of_int max_x) (word_of_int max_y) (fst (rp_screen_mm s)) (snd (rp_screen_mm s))) s))"

fun configure_all ::
  "randr_env \<Rightarrow> monitor_layout list \<Rightarrow> bool \<Rightarrow> crtc_id set \<Rightarrow> randr_port \<Rightarrow> bool \<times> crtc_id set \<times> randr_port" where
  "configure_all X [] ok reserved s = (ok, reserved, s)"
| "configure_all X (l # ls) ok reserved s =
     (case configure_output X l reserved s of (ok1, reserved1, s1) \<Rightarrow> configure_all X ls (ok1 \<and> ok) reserved1 s1)"

definition reset_output :: "randr_env \<Rightarrow> monitor_layout \<Rightarrow> randr_port \<Rightarrow> randr_port" where
  "reset_output X l s =
     (let S = rr_ask X s in
      case find_output S (ml_output l) of
        None \<Rightarrow> s
      | Some out \<Rightarrow> if output_connected S out then output_disable X out s else s)"

definition apply_monitor_layout :: "randr_env \<Rightarrow> monitor_layout list \<Rightarrow> randr_port \<Rightarrow> bool \<times> randr_port" where
  "apply_monitor_layout X layouts s =
     (if layouts = [] then (True, s)
      else case configure_all X layouts True {} (expand_screen_size X layouts s) of (all_ok, _, s1) \<Rightarrow>
        let s2 =
          (if all_ok then s1
           else snd (snd (configure_all X layouts True {}
                  (expand_screen_size X layouts (rr_flush (fold (reset_output X) layouts s1))))))
        in (all_ok, rr_flush s2))"

definition select_change_events :: "randr_env \<Rightarrow> randr_port \<Rightarrow> randr_port" where
  "select_change_events X s =
     (let s1 = rr_flush ((rr_req (RandrSelectInput (rp_root s) (1 OR 4)) s)\<lparr>rp_dirty := True\<rparr>)
      in case rs_first_event (rr_ask X s1) of None \<Rightarrow> s1 | Some e \<Rightarrow> s1\<lparr>rp_event_base := uint e\<rparr>)"

end
