(* ===== verification/Randr_Properties.thy ===== *)
theory Randr_Properties
  imports Randr "HOL-Library.Sublist"
begin

text \<open>
  What the monitor port promises: which mode it chooses, that a layout in effect is left alone (so that the events its
  own requests cause do not make it send requests again), that no CRTC is used for two outputs of a layout, and what
  happens when an output has no mode of the configured size.
\<close>

section \<open>An example\<close>

text \<open>Two outputs that offer the same modes and may use the same two CRTCs; the arguments are the CRTCs they are on.\<close>

definition ex_rr_output :: "string \<Rightarrow> crtc_id \<Rightarrow> randr_output" where
  "ex_rr_output n c = \<lparr>ro_name = n, ro_connected = True, ro_crtc = c, ro_crtcs = [70, 71], ro_modes = [81, 80]\<rparr>"

definition ex_randr :: "crtc_id \<Rightarrow> crtc_id \<Rightarrow> randr_server" where
  "ex_randr a b =
     \<lparr>rs_resources = Some \<lparr>sr_crtcs = [70, 71], sr_outputs = [65, 66],
        sr_modes = [\<lparr>mi_id = 80, mi_width = 1920, mi_height = 1080, mi_dot_clock = 148500000, mi_htotal = 2200, mi_vtotal = 1125\<rparr>,
                    \<lparr>mi_id = 81, mi_width = 1920, mi_height = 1080, mi_dot_clock = 148500000, mi_htotal = 2640, mi_vtotal = 1125\<rparr>]\<rparr>,
      rs_output_info = (\<lambda>out. if out = 65 then Some (ex_rr_output ''eDP-1'' a) else if out = 66 then Some (ex_rr_output ''HDMI-1'' b) else None),
      rs_crtc_info = (\<lambda>c. if c = 70 then Some \<lparr>ci_x = 0, ci_y = 0, ci_mode = 80, ci_rotation = 1, ci_outputs = [65]\<rparr>
         else if c = 71 then Some \<lparr>ci_x = 1920, ci_y = 0, ci_mode = 80, ci_rotation = 1, ci_outputs = [66]\<rparr> else None),
      rs_config_status = Some 0, rs_primary = Some 65, rs_monitors = None, rs_atom_name = (\<lambda>_. None),
      rs_root_size = Some (3840, 1080), rs_first_event = Some 89\<rparr>"

definition ex_rlayout :: "string \<Rightarrow> int \<Rightarrow> vec2i \<Rightarrow> monitor_layout" where
  "ex_rlayout out x wh =
     \<lparr>ml_output = out, ml_alias = out, ml_enabled = True, ml_pos = (x, 0), ml_size = wh, ml_refresh_rate = 60,
      ml_rotation = ''normal'', ml_primary = (x = 0)\<rparr>"

definition ex_port :: randr_port where
  "ex_port = \<lparr>rp_log = [], rp_dirty = False, rp_root = 1, rp_screen_pixels = (3840, 1080), rp_screen_mm = (1016, 286), rp_event_base = -1\<rparr>"

section \<open>Candidates and modes\<close>

lemma set_push_crtc: "set (push_crtc c seen) = set seen \<union> ({c} - {XCB_NONE})"
  by (auto simp: push_crtc_def)

lemma set_fold_push_crtc: "set (fold push_crtc cs seen) = set seen \<union> (set cs - {XCB_NONE})"
  by (induction cs arbitrary: seen) (auto simp: set_push_crtc)

lemma select_crtcs_current: "crtc_valid (output_crtc S out) \<Longrightarrow> select_crtcs S out \<noteq> []"
  using set_fold_push_crtc [of "free_crtcs S"] set_fold_push_crtc [of "possible_crtcs S out"]
  by (fastforce simp: select_crtcs_def crtc_valid_def set_push_crtc simp flip: set_empty)

definition fits :: "int \<Rightarrow> int \<Rightarrow> randr_mode \<Rightarrow> bool" where
  "fits w h m \<longleftrightarrow> w > 0 \<longrightarrow> md_width m = word_of_int w \<and> md_height m = word_of_int h"

definition as_good :: "int \<Rightarrow> randr_mode \<Rightarrow> randr_mode \<Rightarrow> bool" where
  "as_good rate m m' \<longleftrightarrow> (if rate > 0 then rate_error rate m \<le> rate_error rate m' else md_rate m' \<le> md_rate m)"

lemma as_good_trans: "as_good rate a b \<Longrightarrow> as_good rate b c \<Longrightarrow> as_good rate a c"
  by (auto simp: as_good_def split: if_splits)

lemma as_good_refl [simp]: "as_good rate a a"
  by (simp add: as_good_def)

lemma better_mode_eq:
  "better_mode w h rate m best =
     (if fits w h m then (case best of None \<Rightarrow> Some m | Some b \<Rightarrow> if as_good rate b m then Some b else Some m) else best)"
  by (auto simp: better_mode_def fits_def as_good_def split: option.splits)

lemma best_of:
  "(case fold (better_mode w h rate) ms best of
      None \<Rightarrow> best = None \<and> (\<forall>m\<in>set ms. \<not> fits w h m)
    | Some b \<Rightarrow> (best = Some b \<or> b \<in> set ms \<and> fits w h b) \<and> (\<forall>a. best = Some a \<longrightarrow> as_good rate b a) \<and>
        (\<forall>m\<in>set ms. fits w h m \<longrightarrow> as_good rate b m))"
proof (induction ms arbitrary: best)
  case (Cons m ms)
  let ?best = "better_mode w h rate m best"
  have total: "as_good rate a b \<or> as_good rate b a" for a b by (auto simp: as_good_def)
  show ?case
    using Cons [of ?best] total
    by (auto simp: better_mode_eq split: option.splits if_splits dest: as_good_trans)
qed (simp split: option.splits)

lemma word16_of_int_eq: "0 \<le> w \<Longrightarrow> w < 65536 \<Longrightarrow> v = (word_of_int w :: 16 word) \<longleftrightarrow> uint v = w"
  by (auto simp: unsigned_of_int take_bit_int_eq_self_iff)

text \<open>
  The mode chosen for an output has the configured size and no other mode of that size the output offers comes
  closer to the configured rate (has a higher rate, when no rate is configured); there is none exactly when the output
  offers no mode of that size.
\<close>
theorem mode_chosen:
  assumes "0 < w" "w < 65536" "0 < h" "h < 65536"
  shows "case find_mode S out w h rate of
      None \<Rightarrow> \<forall>m\<in>set (output_modes S out). uint (md_width m) \<noteq> w \<or> uint (md_height m) \<noteq> h
    | Some b \<Rightarrow> b \<in> set (output_modes S out) \<and> uint (md_width b) = w \<and> uint (md_height b) = h \<and>
        (\<forall>m\<in>set (output_modes S out). uint (md_width m) = w \<and> uint (md_height m) = h \<longrightarrow>
           (if rate > 0 then rate_error rate b \<le> rate_error rate m else md_rate m \<le> md_rate b))"
proof -
  have "fits w h m \<longleftrightarrow> uint (md_width m) = w \<and> uint (md_height m) = h" for m
    using assms by (simp add: fits_def word16_of_int_eq)
  then show ?thesis
    using best_of [where w = w and h = h and rate = rate and ms = "output_modes S out" and best = None] by (auto simp: find_mode_def as_good_def split: option.splits)
qed

theorem mode_chosen_witness:
  "find_mode (ex_randr 70 71) 65 1920 1080 60 \<noteq> None"
proof -
  have "\<exists>m\<in>set (output_modes (ex_randr 70 71) 65). uint (md_width m) = 1920 \<and> uint (md_height m) = 1080" by code_simp
  then show ?thesis using mode_chosen [of 1920 1080 "ex_randr 70 71" 65 60] by (auto split: option.splits)
qed

section \<open>The log only grows\<close>

lemma prefix_try_crtcs: "prefix (rp_log s) (rp_log (snd (snd (try_crtcs X l out m cs R s))))"
proof (induction cs arbitrary: s)
  case (Cons c cs)
  show ?case
    using Cons [of s] Cons [of "rr_req (SetCrtcConfig c (layout_x l) (layout_y l) m (parse_rotation (ml_rotation l)) [out]) s"]
    by (auto simp: configure_status_def rr_req_def output_set_primary_def Let_def intro: append_prefixD)
qed simp

lemma prefix_configure_output: "prefix (rp_log s) (rp_log (snd (snd (configure_output X l R s))))"
  using prefix_try_crtcs
  by (auto simp: configure_output_def Let_def output_disable_def crtc_disable_def output_set_primary_def rr_req_def split: option.splits)

lemma prefix_configure_all: "prefix (rp_log s) (rp_log (snd (snd (configure_all X ls ok R s))))"
proof (induction ls arbitrary: ok R s)
  case (Cons l ls)
  then show ?case using prefix_configure_output [of s X l R] by (force split: prod.splits intro: prefix_order.trans)
qed simp

lemma prefix_flush [simp]: "prefix (rp_log s) (rp_log (rr_flush s))" "prefix (rp_log s) (rp_log (rr_force_flush s))"
  by (simp_all add: rr_flush_def rr_force_flush_def)

lemma prefix_expand: "prefix (rp_log s) (rp_log (expand_screen_size X ls s))"
  by (auto simp: expand_screen_size_def Let_def rr_force_flush_def rr_req_def split: prod.splits option.splits)

lemma prefix_reset: "prefix (rp_log s) (rp_log (reset_output X l s))"
  by (auto simp: reset_output_def Let_def output_disable_def crtc_disable_def rr_req_def split: option.splits)

lemma prefix_reset_all: "prefix (rp_log s) (rp_log (fold (reset_output X) ls s))"
  by (induction ls arbitrary: s) (auto intro: prefix_order.trans prefix_reset)

section \<open>Screen and monitors\<close>

lemma extend_box_fold: "fst mx \<le> fst (fold (extend_box S) ls mx) \<and> snd mx \<le> snd (fold (extend_box S) ls mx)"
proof (induction ls arbitrary: mx)
  case (Cons l ls)
  show ?case using Cons [of "extend_box S l mx"] by (auto simp: extend_box_def split: if_splits)
qed simp

text \<open>The box covers every output that counts.\<close>

lemma screen_box_covers:
  assumes "l \<in> set ls" and "counts_for_screen S l"
  shows "fst (ml_pos l) + fst (covered_size l) \<le> fst (fold (extend_box S) ls mx) \<and>
    snd (ml_pos l) + snd (covered_size l) \<le> snd (fold (extend_box S) ls mx)"
proof -
  obtain ls1 ls2 where "ls = ls1 @ l # ls2" using assms(1) by (blast dest: split_list)
  then show ?thesis
    using extend_box_fold [of "extend_box S l (fold (extend_box S) ls1 mx)" S ls2] assms(2) by (simp add: extend_box_def)
qed

text \<open>The core is always given a monitor, and the monitors are numbered by their place.\<close>

lemma number_monitors_ids: "map me_id (number_monitors S i ms) = map (\<lambda>k. i + int k) [0..<length ms]"
proof (induction ms arbitrary: i)
  case (Cons m ms)
  have "map (\<lambda>k. i + int k) [0..<Suc (length ms)] = i # map (\<lambda>k. i + 1 + int k) [0..<length ms]"
    by (simp add: upt_conv_Cons o_def algebra_simps flip: map_Suc_upt del: upt_Suc)
  then show ?case using Cons [of "i + 1"] by simp
qed simp

lemma x11_monitors_numbered:
  "x11_get_monitors X s \<noteq> [] \<and> map mon_id (x11_get_monitors X s) = map int [0..<length (x11_get_monitors X s)]"
proof -
  have "length (number_monitors S i ms) = length ms" for S i ms
    using arg_cong [OF number_monitors_ids, of length S i ms] by simp
  then show ?thesis
    using number_monitors_ids [of "rr_ask X s" 0]
    by (auto simp: x11_get_monitors_def screen_monitors_def monitor_of_entry_def mk_monitor_def Let_def o_def split: option.splits)
qed

section \<open>A layout in effect\<close>

text \<open>
  What it means that a layout is in effect, without reference to the algorithm: every output the server knows is
  enabled, connected and shows the chosen mode at its place on a CRTC of its own, the primary one is primary, and the
  screen is the bounding box.
\<close>

definition shown :: "randr_server \<Rightarrow> monitor_layout \<Rightarrow> bool" where
  "shown S l \<longleftrightarrow>
     (case find_output S (ml_output l) of
        None \<Rightarrow> True
      | Some out \<Rightarrow>
          ml_enabled l \<and> output_connected S out \<and> output_crtc S out \<noteq> XCB_NONE \<and> resolve_mode S out l \<noteq> XCB_NONE \<and>
          crtc_x S (output_crtc S out) = layout_x l \<and> crtc_y S (output_crtc S out) = layout_y l \<and>
          crtc_mode S (output_crtc S out) = resolve_mode S out l \<and>
          crtc_rotation S (output_crtc S out) = parse_rotation (ml_rotation l) \<and>
          (ml_primary l \<longrightarrow> rs_primary S = Some out))"

definition shown_on :: "randr_server \<Rightarrow> monitor_layout \<Rightarrow> crtc_id option" where
  "shown_on S l = map_option (output_crtc S) (find_output S (ml_output l))"

definition screen_fits :: "randr_server \<Rightarrow> monitor_layout list \<Rightarrow> bool" where
  "screen_fits S ls \<longleftrightarrow>
     (let box = fold (extend_box S) ls (0, 0) in fst box \<le> 0 \<or> snd box \<le> 0 \<or> rs_root_size S = Some box)"

definition in_effect :: "randr_server \<Rightarrow> monitor_layout list \<Rightarrow> bool" where
  "in_effect S ls \<longleftrightarrow> screen_fits S ls \<and> list_all (shown S) ls \<and> distinct (List.map_filter (shown_on S) ls)"

definition no_request :: "randr_port \<Rightarrow> bool \<times> crtc_id set \<times> randr_port \<Rightarrow> bool" where
  "no_request s r \<longleftrightarrow> fst r \<and> rp_log (snd (snd r)) = rp_log s"

lemma try_crtcs_not_silent: "\<not> no_request s (try_crtcs X l out m cs R s)"
proof (induction cs)
  case (Cons c cs)
  let ?s = "rr_req (SetCrtcConfig c (layout_x l) (layout_y l) m (parse_rotation (ml_rotation l)) [out]) s"
  have "rp_log (snd (snd (try_crtcs X l out m cs R ?s))) \<noteq> rp_log s"
    using prefix_try_crtcs [of ?s X l out m cs R] by (auto simp: rr_req_def prefix_def)
  with Cons show ?case by (auto simp: no_request_def configure_status_def Let_def rr_req_def output_set_primary_def)
qed (simp add: no_request_def)

lemma configure_output_shown:
  assumes "shown (rr_ask X s) l" and "\<And>c. shown_on (rr_ask X s) l = Some c \<Longrightarrow> c \<notin> R"
  shows "configure_output X l R s = (True, R \<union> set_option (shown_on (rr_ask X s) l), s)"
  using assms select_crtcs_current [of "rr_ask X s"]
  by (auto simp: shown_def shown_on_def configure_output_def Let_def already_configured_def crtc_valid_def split: option.splits)

lemma configure_output_quiet:
  assumes "no_request s (configure_output X l R s)"
  shows "shown (rr_ask X s) l \<and> (\<forall>c. shown_on (rr_ask X s) l = Some c \<longrightarrow> c \<notin> R)"
  using assms try_crtcs_not_silent
  by (auto simp: configure_output_def no_request_def shown_def shown_on_def Let_def already_configured_def crtc_valid_def
      output_disable_def crtc_disable_def output_set_primary_def rr_req_def split: option.splits if_splits)

lemma configure_all_ok: "fst (configure_all X ls ok R s) \<Longrightarrow> ok"
proof (induction ls arbitrary: ok R s)
  case (Cons l ls)
  obtain ok1 R1 s1 where "configure_output X l R s = (ok1, R1, s1)" by (cases "configure_output X l R s")
  with Cons.prems have "ok1 \<and> ok" using Cons.IH [of "ok1 \<and> ok" R1 s1] by simp
  then show ?case by simp
qed simp

lemma configure_all_shown:
  assumes "list_all (shown (rr_ask X s)) ls" and "distinct (List.map_filter (shown_on (rr_ask X s)) ls)"
    and "set (List.map_filter (shown_on (rr_ask X s)) ls) \<inter> R = {}"
  shows "\<exists>R'. configure_all X ls ok R s = (ok, R', s)"
  using assms
proof (induction ls arbitrary: R)
  case (Cons l ls)
  let ?R = "R \<union> set_option (shown_on (rr_ask X s) l)"
  have "configure_output X l R s = (True, ?R, s)"
    using Cons.prems by (intro configure_output_shown) (auto simp: map_filter_simps)
  moreover have "\<exists>R'. configure_all X ls ok ?R s = (ok, R', s)"
    using Cons.prems by (intro Cons.IH) (auto simp: map_filter_simps split: option.splits)
  ultimately show ?case by simp
qed simp

lemma configure_all_quiet:
  assumes "no_request s (configure_all X ls ok R s)"
  shows "list_all (shown (rr_ask X s)) ls \<and> distinct (List.map_filter (shown_on (rr_ask X s)) ls) \<and>
    set (List.map_filter (shown_on (rr_ask X s)) ls) \<inter> R = {}"
  using assms
proof (induction ls arbitrary: ok R)
  case (Cons l ls)
  obtain ok1 R1 s1 where c: "configure_output X l R s = (ok1, R1, s1)" by (cases "configure_output X l R s")
  have "no_request s (configure_all X ls (ok1 \<and> ok) R1 s1)" using Cons.prems c by simp
  then have "ok1" and "prefix (rp_log s1) (rp_log s)"
    using configure_all_ok [of X ls "ok1 \<and> ok" R1 s1] prefix_configure_all [of s1 X ls "ok1 \<and> ok" R1] by (auto simp: no_request_def)
  then have q: "rp_log s1 = rp_log s" "ok1"
    using prefix_configure_output [of s X l R] c by (auto intro: prefix_order.antisym)
  then have "no_request s (configure_output X l R s)" using c by (simp add: no_request_def)
  note sh = configure_output_quiet [OF this]
  then have "R1 = R \<union> set_option (shown_on (rr_ask X s) l)" "s1 = s" using configure_output_shown [of X s l R] c by auto
  with Cons.IH [of "ok1 \<and> ok" R1] Cons.prems c sh show ?case
    by (auto simp: map_filter_simps split: option.splits)
qed (simp add: map_filter_simps)

lemma expand_screen_size_quiet: "rp_log (expand_screen_size X ls s) = rp_log s \<longleftrightarrow> screen_fits (rr_ask X s) ls"
  by (auto simp: expand_screen_size_def screen_fits_def Let_def rr_force_flush_def rr_req_def split: prod.splits option.splits)

lemma expand_screen_size_same: "screen_fits (rr_ask X s) ls \<Longrightarrow> expand_screen_size X ls s = s"
  by (auto simp: expand_screen_size_def screen_fits_def Let_def split: prod.splits option.splits)

text \<open>
  C33. The port leaves the server alone exactly when the layout is in effect: applying a layout reports success without a
  single request if and only if every known output is enabled, connected and shows the right mode in the right place on
  a CRTC of its own, and the screen has the size of the bounding box. The change events that the requests of one
  application cause thus lead to an application that sends nothing, as long as all of the layout could be put into
  effect.
\<close>
theorem apply_quiet_iff:
  assumes "\<not> rp_dirty s" and "layouts \<noteq> []"
  shows "apply_monitor_layout X layouts s = (True, s) \<longleftrightarrow> in_effect (rr_ask X s) layouts"
proof
  assume e: "in_effect (rr_ask X s) layouts"
  then obtain R' where "configure_all X layouts True {} s = (True, R', s)"
    using configure_all_shown [of X s layouts "{}" True] by (auto simp: in_effect_def)
  with e show "apply_monitor_layout X layouts s = (True, s)"
    using assms by (simp add: apply_monitor_layout_def expand_screen_size_same in_effect_def rr_flush_def)
next
  assume a: "apply_monitor_layout X layouts s = (True, s)"
  let ?s1 = "expand_screen_size X layouts s"
  obtain ok R t where c: "configure_all X layouts True {} ?s1 = (ok, R, t)" by (cases "configure_all X layouts True {} ?s1")
  with a assms(2) have ok: ok "rr_flush t = s" by (auto simp: apply_monitor_layout_def Let_def)
  have "prefix (rp_log s) (rp_log ?s1)" "prefix (rp_log ?s1) (rp_log t)" "prefix (rp_log t) (rp_log s)"
    using prefix_expand [of s X layouts] prefix_configure_all [of ?s1 X layouts True "{}"] prefix_flush(1) [of t] c ok(2) by simp_all
  then have "rp_log ?s1 = rp_log s" "rp_log t = rp_log s" by (metis prefix_order.antisym prefix_order.trans)+
  then have f: "screen_fits (rr_ask X s) layouts" and "?s1 = s" and "no_request s (configure_all X layouts True {} s)"
    using c ok(1) expand_screen_size_quiet [of X layouts s] expand_screen_size_same [of X s layouts] by (auto simp: no_request_def)
  then show "in_effect (rr_ask X s) layouts"
    using configure_all_quiet [of s X layouts True "{}"] by (simp add: in_effect_def)
qed

theorem apply_quiet_iff_witness:
  "apply_monitor_layout (\<lambda>_. ex_randr 70 71) [ex_rlayout ''eDP-1'' 0 (1920, 1080), ex_rlayout ''HDMI-1'' 1920 (1920, 1080)] ex_port =
     (True, ex_port)"
proof -
  have "in_effect (ex_randr 70 71) [ex_rlayout ''eDP-1'' 0 (1920, 1080), ex_rlayout ''HDMI-1'' 1920 (1920, 1080)]" by code_simp
  then show ?thesis by (simp add: apply_quiet_iff rr_ask_def ex_port_def)
qed

section \<open>One CRTC for one output\<close>

fun names_crtc :: "randr_request \<Rightarrow> crtc_id \<Rightarrow> bool" where
  "names_crtc (SetCrtcConfig c' x y m rot outs) c \<longleftrightarrow> c' = c \<and> outs \<noteq> []"
| "names_crtc _ c \<longleftrightarrow> False"

definition granted :: "randr_env \<Rightarrow> randr_request list \<Rightarrow> nat \<Rightarrow> bool" where
  "granted X L i \<longleftrightarrow> rs_config_status (X (take (Suc i) L)) = Some 0"

text \<open>
  What a part of a pass does to the log and to the reserved CRTCs: it never asks for a reserved CRTC, and what it is
  granted is reserved afterwards.
\<close>

definition pass_ok :: "randr_env \<Rightarrow> crtc_id set \<times> randr_port \<Rightarrow> crtc_id set \<times> randr_port \<Rightarrow> bool" where
  "pass_ok X a b \<longleftrightarrow>
     prefix (rp_log (snd a)) (rp_log (snd b)) \<and> fst a \<subseteq> fst b \<and>
     (\<forall>i<length (rp_log (snd b)). \<forall>c. length (rp_log (snd a)) \<le> i \<longrightarrow> names_crtc (rp_log (snd b) ! i) c \<longrightarrow>
        c \<notin> fst a \<and> (granted X (rp_log (snd b)) i \<longrightarrow> c \<in> fst b))"

lemma pass_ok_refl [simp]: "pass_ok X (R, s) (R, s)"
  by (simp add: pass_ok_def)

lemma granted_prefix: "i < length L \<Longrightarrow> prefix L L' \<Longrightarrow> L' ! i = L ! i \<and> granted X L' i = granted X L i"
  by (auto simp: granted_def prefix_def nth_append)

lemma pass_ok_trans [trans]:
  assumes "pass_ok X a b" and "pass_ok X b c"
  shows "pass_ok X a c"
  unfolding pass_ok_def
proof (intro conjI allI impI)
  let ?La = "rp_log (snd a)" and ?Lb = "rp_log (snd b)" and ?Lc = "rp_log (snd c)"
  show "prefix ?La ?Lc" "fst a \<subseteq> fst c" using assms unfolding pass_ok_def by (blast intro: prefix_order.trans)+
  fix i d
  assume i: "i < length ?Lc" "length ?La \<le> i" and n: "names_crtc (?Lc ! i) d"
  have "d \<notin> fst a \<and> (granted X ?Lc i \<longrightarrow> d \<in> fst c)"
  proof (cases "i < length ?Lb")
    case True
    then show ?thesis using granted_prefix [of i ?Lb ?Lc X] assms i n by (auto simp: pass_ok_def)
  next
    case False
    then show ?thesis using assms i n by (auto simp: pass_ok_def not_less)
  qed
  then show "d \<notin> fst a" "granted X ?Lc i \<Longrightarrow> d \<in> fst c" by blast+
qed

lemma pass_ok_req:
  assumes "\<And>c. names_crtc r c \<Longrightarrow> c \<notin> R \<and> (rs_config_status (rr_ask X (rr_req r s)) = Some 0 \<longrightarrow> c \<in> R')" and "R \<subseteq> R'"
  shows "pass_ok X (R, s) (R', rr_req r s)"
  using assms by (auto simp: pass_ok_def rr_req_def rr_ask_def granted_def nth_append less_Suc_eq)

lemma pass_ok_reserve: "R \<subseteq> R' \<Longrightarrow> pass_ok X (R, s) (R', s)"
  by (auto simp: pass_ok_def)

lemma pass_ok_primary: "pass_ok X (R, s) (R, output_set_primary out s)"
  unfolding output_set_primary_def by (rule pass_ok_req) auto

lemma pass_ok_disable: "pass_ok X (R, s) (R, output_disable X out s)"
  unfolding output_disable_def crtc_disable_def by (rule pass_ok_req) auto

lemma pass_ok_try_crtcs: "pass_ok X (R, s) (snd (try_crtcs X l out m cs R s))"
proof (induction cs arbitrary: s)
  case (Cons c cs)
  define r where "r = SetCrtcConfig c (layout_x l) (layout_y l) m (parse_rotation (ml_rotation l)) [out]"
  define st where "st = (case rs_config_status (rr_ask X (rr_req r s)) of None \<Rightarrow> 255 | Some st \<Rightarrow> st)"
  have cs: "configure_status X c (layout_x l) (layout_y l) m (parse_rotation (ml_rotation l)) out s = (st, rr_req r s)"
    by (simp add: configure_status_def r_def st_def Let_def)
  show ?case
  proof (cases "\<not> crtc_valid c \<or> c \<in> R")
    case True
    then show ?thesis using Cons [of s] by auto
  next
    case free: False
    show ?thesis
    proof (cases "st = 0")
      case True
      have "pass_ok X (R, s) (insert c R, rr_req r s)" using free by (intro pass_ok_req) (auto simp: r_def)
      then show ?thesis
        using free True pass_ok_trans [OF _ pass_ok_primary, of X "(R, s)" "insert c R" "rr_req r s" out] by (simp add: cs)
    next
      case False
      then have "pass_ok X (R, s) (R, rr_req r s)"
        using free by (intro pass_ok_req) (auto simp: st_def r_def)
      then show ?thesis using free False pass_ok_trans [OF _ Cons [of "rr_req r s"]] by (simp add: cs)
    qed
  qed
qed simp

lemma pass_ok_configure_output: "pass_ok X (R, s) (snd (configure_output X l R s))"
proof -
  have "pass_ok X (R, s) (insert c R, output_set_primary out s)" for c out
    by (rule pass_ok_trans [OF pass_ok_reserve pass_ok_primary]) auto
  moreover have "pass_ok X (R, s) (insert c R, s)" for c by (rule pass_ok_reserve) auto
  ultimately show ?thesis
    using pass_ok_try_crtcs pass_ok_disable
    by (auto simp: configure_output_def Let_def split: option.splits)
qed

lemma pass_ok_configure_all: "pass_ok X (R, s) (snd (configure_all X ls ok R s))"
proof (induction ls arbitrary: ok R s)
  case (Cons l ls)
  obtain ok1 R1 s1 where c: "configure_output X l R s = (ok1, R1, s1)" by (cases "configure_output X l R s")
  then have "pass_ok X (R, s) (R1, s1)" using pass_ok_configure_output [of X R s l] by simp
  also have "pass_ok X (R1, s1) (snd (configure_all X ls (ok1 \<and> ok) R1 s1))" by (rule Cons)
  finally show ?case using c by simp
qed simp

lemma try_crtcs_grants:
  assumes "try_crtcs X l out m cs R s = (True, R', s')"
  shows "\<exists>c i. c \<noteq> XCB_NONE \<and> c \<notin> R \<and> R' = insert c R \<and> length (rp_log s) \<le> i \<and> i < length (rp_log s') \<and>
    rp_log s' ! i = SetCrtcConfig c (layout_x l) (layout_y l) m (parse_rotation (ml_rotation l)) [out] \<and> granted X (rp_log s') i"
  using assms
proof (induction cs arbitrary: s)
  case (Cons c cs)
  let ?r = "SetCrtcConfig c (layout_x l) (layout_y l) m (parse_rotation (ml_rotation l)) [out]"
  show ?case
  proof (cases "crtc_valid c \<and> c \<notin> R \<and> rs_config_status (rr_ask X (rr_req ?r s)) = Some 0")
    case True
    then have e: "R' = insert c R" "s' = (if ml_primary l then output_set_primary out (rr_req ?r s) else rr_req ?r s)"
      using Cons.prems by (auto simp: configure_status_def Let_def)
    then have "rp_log s' ! length (rp_log s) = ?r" "granted X (rp_log s') (length (rp_log s))" "length (rp_log s) < length (rp_log s')"
      using True by (auto simp: granted_def output_set_primary_def rr_req_def rr_ask_def nth_append)
    with e(1) True show ?thesis by (auto simp: crtc_valid_def)
  next
    case False
    then have "try_crtcs X l out m cs R s = (True, R', s') \<or> try_crtcs X l out m cs R (rr_req ?r s) = (True, R', s')"
      using Cons.prems by (auto simp: configure_status_def Let_def split: if_splits option.splits)
    moreover have "length (rp_log s) \<le> length (rp_log (rr_req ?r s))" by (simp add: rr_req_def)
    ultimately show ?thesis using Cons.IH by (meson le_trans)
  qed
qed simp

text \<open>
  C37. No CRTC is used for two outputs of a layout: when an enabled, connected output is reported as configured, it has a
  CRTC no earlier output has, either the one it is on already or one it was just granted with the mode, place and
  rotation of the layout, and of all requests of the pass that give this CRTC an output only requests made for
  this output are granted, whatever the server answers.
\<close>
theorem crtc_assigned_once:
  assumes before: "configure_all X ls1 ok {} s = (ok1, R1, s1)" and here: "configure_output X l R1 s1 = (True, R2, s2)"
    and after: "configure_all X ls2 ok2 R2 s2 = (ok3, R3, s3)"
    and out: "find_output (rr_ask X s1) (ml_output l) = Some out" "ml_enabled l" "output_connected (rr_ask X s1) out"
  shows "\<exists>c. c \<noteq> XCB_NONE \<and> c \<notin> R1 \<and> R2 = insert c R1 \<and>
    (already_configured (rr_ask X s1) out l R1 \<and> c = output_crtc (rr_ask X s1) out \<or>
     (\<exists>i. length (rp_log s1) \<le> i \<and> i < length (rp_log s2) \<and> granted X (rp_log s2) i \<and>
        rp_log s2 ! i = SetCrtcConfig c (layout_x l) (layout_y l) (resolve_mode (rr_ask X s1) out l) (parse_rotation (ml_rotation l)) [out])) \<and>
    (\<forall>i<length (rp_log s3). length (rp_log s) \<le> i \<and> names_crtc (rp_log s3 ! i) c \<and> granted X (rp_log s3) i \<longrightarrow>
       length (rp_log s1) \<le> i \<and> i < length (rp_log s2))"
proof -
  let ?S = "rr_ask X s1"
  let ?got = "\<lambda>c. already_configured ?S out l R1 \<and> c = output_crtc ?S out \<or>
     (\<exists>i. length (rp_log s1) \<le> i \<and> i < length (rp_log s2) \<and> granted X (rp_log s2) i \<and>
        rp_log s2 ! i = SetCrtcConfig c (layout_x l) (layout_y l) (resolve_mode ?S out l) (parse_rotation (ml_rotation l)) [out])"
  have "already_configured ?S out l R1 \<and> R2 = insert (output_crtc ?S out) R1 \<or>
      try_crtcs X l out (resolve_mode ?S out l) (select_crtcs ?S out) R1 s1 = (True, R2, s2)"
    using here out by (auto simp: configure_output_def Let_def split: if_splits)
  then obtain c where c: "c \<noteq> XCB_NONE" "c \<notin> R1" "R2 = insert c R1" "?got c"
    using try_crtcs_grants [of X l out _ _ R1 s1 R2 s2] by (auto simp: already_configured_def crtc_valid_def Let_def) blast
  have p: "pass_ok X ({}, s) (R1, s1)" "pass_ok X (R1, s1) (R2, s2)" "pass_ok X (R2, s2) (R3, s3)"
    using pass_ok_configure_all [of X "{}" s ls1 ok] pass_ok_configure_output [of X R1 s1 l] pass_ok_configure_all [of X R2 s2 ls2 ok2]
      before here after by simp_all
  have "length (rp_log s1) \<le> i \<and> i < length (rp_log s2)"
    if i: "i < length (rp_log s3)" "length (rp_log s) \<le> i" "names_crtc (rp_log s3 ! i) c" "granted X (rp_log s3) i" for i
  proof (rule ccontr)
    assume "\<not> ?thesis"
    then consider "i < length (rp_log s1)" | "length (rp_log s2) \<le> i" by linarith
    then show False
    proof cases
      case 1
      have "prefix (rp_log s1) (rp_log s3)" using pass_ok_trans [OF p(2,3)] by (simp add: pass_ok_def)
      with 1 i p(1) have "c \<in> R1" using granted_prefix [of i "rp_log s1" "rp_log s3" X] by (auto simp: pass_ok_def)
      with c(2) show False by simp
    next
      case 2
      then have "c \<notin> R2" using i p(3) by (auto simp: pass_ok_def)
      with c(3) show False by simp
    qed
  qed
  then show ?thesis using c by blast
qed

theorem crtc_assigned_once_witness:
  "\<exists>c R2 s2. configure_output (\<lambda>_. ex_randr 0 0) (ex_rlayout ''eDP-1'' 0 (1920, 1080)) {} ex_port = (True, R2, s2) \<and> c \<in> R2 \<and> c \<noteq> XCB_NONE"
proof -
  let ?X = "\<lambda>_. ex_randr 0 0" and ?l = "ex_rlayout ''eDP-1'' 0 (1920, 1080)" and ?l2 = "ex_rlayout ''HDMI-1'' 1920 (1920, 1080)"
  have ok: "fst (configure_output ?X ?l {} ex_port)" by code_simp
  obtain R2 s2 where c: "configure_output ?X ?l {} ex_port = (True, R2, s2)"
    using ok by (cases "configure_output ?X ?l {} ex_port") simp
  have out: "find_output (rr_ask ?X ex_port) (ml_output ?l) = Some 65" "ml_enabled ?l" "output_connected (rr_ask ?X ex_port) 65"
    by code_simp+
  obtain ok3 R3 s3 where a: "configure_all ?X [?l2] True R2 s2 = (ok3, R3, s3)" by (cases "configure_all ?X [?l2] True R2 s2")
  have b: "configure_all ?X [] True {} ex_port = (True, {}, ex_port)" by simp
  obtain d where "R2 = insert d {}" "d \<noteq> XCB_NONE" using crtc_assigned_once [OF b c a out] by (elim exE conjE)
  then have "d \<in> R2" by simp
  with c \<open>d \<noteq> XCB_NONE\<close> show ?thesis by (intro exI conjI)
qed

section \<open>A mode that does not exist\<close>

lemma configure_all_fails:
  assumes "l \<in> set ls" and "\<And>R s. \<not> fst (configure_output X l R s)"
  shows "\<not> fst (configure_all X ls ok R s)"
  using assms(1)
proof (induction ls arbitrary: ok R s)
  case (Cons l0 ls)
  obtain ok1 R1 s1 where c: "configure_output X l0 R s = (ok1, R1, s1)" by (cases "configure_output X l0 R s")
  show ?case
  proof (cases "l0 = l")
    case True
    then have "\<not> ok1" using assms(2) [of R s] c by simp
    then show ?thesis using configure_all_ok [of X ls "ok1 \<and> ok" R1 s1] c by auto
  next
    case False
    then show ?thesis using Cons.IH [of "ok1 \<and> ok" R1 s1] Cons.prems c by simp
  qed
qed simp

lemma reset_all_disables:
  assumes "l \<in> set ls" and "\<And>L. find_output (X L) (ml_output l) = Some out \<and> output_connected (X L) out"
  shows "\<exists>L1 L2. rp_log (fold (reset_output X) ls s) = L1 @ SetCrtcConfig (output_crtc (X L1) out) 0 0 XCB_NONE ROTATE_0 [] # L2 \<and>
    prefix (rp_log s) L1"
proof -
  obtain ls1 ls2 where ls: "ls = ls1 @ l # ls2" using assms(1) by (blast dest: split_list)
  let ?t = "fold (reset_output X) ls1 s"
  have "rp_log (reset_output X l ?t) = rp_log ?t @ [SetCrtcConfig (output_crtc (X (rp_log ?t)) out) 0 0 XCB_NONE ROTATE_0 []]"
    using assms(2) by (simp add: reset_output_def output_disable_def crtc_disable_def rr_req_def rr_ask_def Let_def)
  moreover have "prefix (rp_log (reset_output X l ?t)) (rp_log (fold (reset_output X) ls s))"
    using prefix_reset_all [of "reset_output X l ?t" X ls2] by (simp add: ls)
  ultimately show ?thesis using prefix_reset_all [of s X ls1] by (fastforce simp: prefix_def)
qed

text \<open>
  One output without a mode of the configured size takes all the others with it: while it is connected, every
  application of the layout fails, and every application switches every connected output of the layout off again,
  whether or not it was already configured. The change events of these requests start the next application.
\<close>
theorem missing_mode_resets_all:
  assumes "l \<in> set layouts" and "ml_enabled l"
    and missing: "\<And>L. find_output (X L) (ml_output l) = Some out \<and> output_connected (X L) out \<and>
      find_mode (X L) out (fst (ml_size l)) (snd (ml_size l)) (ml_refresh_rate l) = None"
    and other: "l' \<in> set layouts" "\<And>L. find_output (X L) (ml_output l') = Some out' \<and> output_connected (X L) out'"
  shows "\<not> fst (apply_monitor_layout X layouts s) \<and>
    (\<exists>L1 L2. rp_log (snd (apply_monitor_layout X layouts s)) =
       L1 @ SetCrtcConfig (output_crtc (X L1) out') 0 0 XCB_NONE ROTATE_0 [] # L2 \<and> prefix (rp_log s) L1)"
proof -
  let ?s1 = "expand_screen_size X layouts s"
  obtain ok R t where c: "configure_all X layouts True {} ?s1 = (ok, R, t)" by (cases "configure_all X layouts True {} ?s1")
  have "\<not> fst (configure_output X l R s)" for R s
    using missing assms(2) by (simp add: configure_output_def resolve_mode_def rr_ask_def Let_def)
  then have "\<not> ok" using configure_all_fails [OF assms(1), of X True "{}" ?s1] c by simp
  let ?r = "fold (reset_output X) layouts t" and ?e = "\<lambda>r. expand_screen_size X layouts (rr_flush r)"
  let ?s' = "rr_flush (snd (snd (configure_all X layouts True {} (?e ?r))))"
  have a: "apply_monitor_layout X layouts s = (False, ?s')"
    using \<open>\<not> ok\<close> assms(1) c by (auto simp: apply_monitor_layout_def Let_def)
  have st: "prefix (rp_log s) (rp_log t)"
    using prefix_expand [of s X layouts] prefix_configure_all [of ?s1 X layouts True "{}"] c by (auto intro: prefix_order.trans)
  have "prefix (rp_log ?r) (rp_log ?s')"
    using prefix_flush(1) [of ?r] prefix_expand [of "rr_flush ?r" X layouts] prefix_configure_all [of "?e ?r" X layouts True "{}"]
      prefix_flush(1) [of "snd (snd (configure_all X layouts True {} (?e ?r)))"]
    by (meson prefix_order.trans)
  then show ?thesis
    using reset_all_disables [where X = X and s = t, OF other] st a by (fastforce simp: prefix_def)
qed

theorem missing_mode_resets_all_witness:
  "\<not> fst (apply_monitor_layout (\<lambda>_. ex_randr 70 71)
     [ex_rlayout ''eDP-1'' 0 (800, 600), ex_rlayout ''HDMI-1'' 1920 (1920, 1080)] ex_port)"
proof -
  let ?S = "ex_randr 70 71" and ?l = "ex_rlayout ''eDP-1'' 0 (800, 600)" and ?l' = "ex_rlayout ''HDMI-1'' 1920 (1920, 1080)"
  have "find_output ?S (ml_output ?l) = Some 65 \<and> output_connected ?S 65 \<and>
      find_mode ?S 65 (fst (ml_size ?l)) (snd (ml_size ?l)) (ml_refresh_rate ?l) = None" by code_simp
  moreover have "find_output ?S (ml_output ?l') = Some 66 \<and> output_connected ?S 66" by code_simp
  moreover have "ml_enabled ?l" by code_simp
  ultimately show ?thesis
    using missing_mode_resets_all [of ?l "[?l, ?l']" "\<lambda>_. ?S" 65 ?l' 66 ex_port] by simp
qed

end
