(* ===== verification/Keyboard.thy ===== *)
theory Keyboard
  imports Keybindings
begin

text \<open>
  Keyboard layouts: the keyboard port of the X11 backend (\<^verbatim>\<open>backends/x11/src/ports/keyboard_port.cpp\<close>), which replaces the
  layouts of the X keyboard and puts the old ones back, and the keyboard module
  (\<^verbatim>\<open>modules/keyboard/keyboard_module.cpp\<close>), which remembers the layout of every window.

  The display is a value of any type; the XKB calls of Xlib and libxkbfile on it are the functions of \<open>xkb\<close>. Rules and
  component names that these calls hand out are tokens. A text that is passed as a C string ends at its first zero
  character.
\<close>

section \<open>XKB\<close>

record var_defs =
  vd_model :: "string option"
  vd_layout :: "string option"
  vd_variant :: "string option"
  vd_options :: "string option"

record 'd xkb =
  get_names_prop :: "'d \<Rightarrow> (string option \<times> var_defs) option"
  load_rules :: "string \<Rightarrow> string option \<Rightarrow> nat option"
  get_components :: "nat \<Rightarrow> var_defs \<Rightarrow> nat option"
  keyboard_by_name :: "nat \<Rightarrow> 'd \<Rightarrow> bool \<times> 'd"
  set_names_prop :: "string \<Rightarrow> var_defs \<Rightarrow> 'd \<Rightarrow> 'd"
  get_xkb_group :: "'d \<Rightarrow> 8 word option"
  lock_group :: "32 word \<Rightarrow> 'd \<Rightarrow> 'd"

definition until_nul :: "string \<Rightarrow> string" where
  "until_nul s = takeWhile (\<lambda>ch. ch \<noteq> CHR 0x00) s"

section \<open>The port\<close>

definition split_layouts :: "string option \<Rightarrow> string list" where
  "split_layouts s = (case s of None \<Rightarrow> [] | Some t \<Rightarrow> getlines CHR '','' t)"

record xkb_snapshot =
  ks_rules :: string
  ks_model :: string
  ks_layouts :: "string list"
  ks_variant :: string
  ks_options :: string

definition text_or_empty :: "string option \<Rightarrow> string" where
  "text_or_empty s = (case s of None \<Rightarrow> [] | Some t \<Rightarrow> t)"

definition read_snapshot :: "'d xkb \<Rightarrow> 'd \<Rightarrow> xkb_snapshot option" where
  "read_snapshot E d =
     map_option (\<lambda>(rules, vd).
       \<lparr>ks_rules = text_or_empty rules, ks_model = text_or_empty (vd_model vd), ks_layouts = split_layouts (vd_layout vd),
        ks_variant = text_or_empty (vd_variant vd), ks_options = text_or_empty (vd_options vd)\<rparr>) (get_names_prop E d)"

definition c_arg :: "string \<Rightarrow> string option" where
  "c_arg s = (if s = [] then None else Some (until_nul s))"

definition snapshot_defs :: "xkb_snapshot \<Rightarrow> var_defs" where
  "snapshot_defs snap =
     \<lparr>vd_model = c_arg (ks_model snap), vd_layout = c_arg (join CHR '','' (ks_layouts snap)),
      vd_variant = c_arg (ks_variant snap), vd_options = c_arg (ks_options snap)\<rparr>"

definition rules_name :: "xkb_snapshot \<Rightarrow> string" where
  "rules_name snap = (if ks_rules snap = [] then ''evdev'' else until_nul (ks_rules snap))"

definition apply_snapshot :: "'d xkb \<Rightarrow> xkb_snapshot \<Rightarrow> 'd \<Rightarrow> 'd" where
  "apply_snapshot E snap d =
     (let vd = snapshot_defs snap; path = ''/usr/share/X11/xkb/rules/'' @ rules_name snap;
          rules = (case load_rules E path (Some ''C'') of None \<Rightarrow> load_rules E path None | Some r \<Rightarrow> Some r)
      in case rules of
           None \<Rightarrow> d
         | Some r \<Rightarrow>
             (case get_components E r vd of
                None \<Rightarrow> d
              | Some names \<Rightarrow>
                  (case keyboard_by_name E names d of (ok, d1) \<Rightarrow>
                     if \<not> ok then d1 else set_names_prop E (take 255 (rules_name snap)) vd d1)))"

record 'd keyboard_port =
  kp_dpy :: "'d option"
  kp_saved :: "xkb_snapshot option"

definition port_current_layout :: "'d xkb \<Rightarrow> 'd keyboard_port \<Rightarrow> string" where
  "port_current_layout E k =
     (case kp_dpy k of
        None \<Rightarrow> []
      | Some d \<Rightarrow>
          (case (get_xkb_group E d, read_snapshot E d) of
             (Some g, Some snap) \<Rightarrow>
               if ks_layouts snap = [] then []
               else if unat g \<ge> length (ks_layouts snap) then ks_layouts snap ! 0 else ks_layouts snap ! unat g
           | _ \<Rightarrow> []))"

definition port_layout_names :: "'d xkb \<Rightarrow> 'd keyboard_port \<Rightarrow> string list" where
  "port_layout_names E k =
     (case kp_dpy k of None \<Rightarrow> [] | Some d \<Rightarrow> (case read_snapshot E d of None \<Rightarrow> [] | Some snap \<Rightarrow> ks_layouts snap))"

definition port_apply :: "'d xkb \<Rightarrow> string list \<Rightarrow> string \<Rightarrow> 'd keyboard_port \<Rightarrow> 'd keyboard_port" where
  "port_apply E ls opts k =
     (case kp_dpy k of
        None \<Rightarrow> k
      | Some d \<Rightarrow>
          if ls = [] then k
          else
            let saved = (case kp_saved k of None \<Rightarrow> read_snapshot E d | Some snap \<Rightarrow> Some snap);
                base = (case saved of
                   Some snap \<Rightarrow> (ks_rules snap, ks_model snap, ks_variant snap)
                 | None \<Rightarrow> (''evdev'', ''pc105'', []));
                snap = \<lparr>ks_rules = fst base, ks_model = fst (snd base), ks_layouts = ls, ks_variant = snd (snd base), ks_options = opts\<rparr>
            in k\<lparr>kp_saved := saved, kp_dpy := Some (apply_snapshot E snap d)\<rparr>)"

definition port_restore :: "'d xkb \<Rightarrow> 'd keyboard_port \<Rightarrow> 'd keyboard_port" where
  "port_restore E k =
     (case (kp_dpy k, kp_saved k) of
        (Some d, Some snap) \<Rightarrow> k\<lparr>kp_dpy := Some (apply_snapshot E snap d), kp_saved := None\<rparr>
      | _ \<Rightarrow> k)"

definition port_get_group :: "'d xkb \<Rightarrow> 'd keyboard_port \<Rightarrow> 32 word" where
  "port_get_group E k =
     (case kp_dpy k of None \<Rightarrow> 0 | Some d \<Rightarrow> (case get_xkb_group E d of None \<Rightarrow> 0 | Some g \<Rightarrow> ucast g))"

definition port_set_group :: "'d xkb \<Rightarrow> 32 word \<Rightarrow> 'd keyboard_port \<Rightarrow> 'd keyboard_port" where
  "port_set_group E g k = k\<lparr>kp_dpy := map_option (lock_group E g) (kp_dpy k)\<rparr>"

section \<open>The module\<close>

definition kLayoutNameMax :: nat where "kLayoutNameMax = 24"

text \<open>The name as a receiver of the message reads it.\<close>

definition layout_message :: "string \<Rightarrow> string" where
  "layout_message s = until_nul (take (min (length s) (kLayoutNameMax - 1)) s @ [CHR 0x00])"

record 'd keyboard_module =
  km_layouts :: "string list"
  km_options :: string
  km_window_groups :: "window_id \<rightharpoonup> 32 word"
  km_focused :: window_id
  km_port :: "'d keyboard_port"
  km_posted :: "string list"

definition parse_setup :: "kb_env \<Rightarrow> lua_value \<Rightarrow> 'd keyboard_module \<Rightarrow> string option \<times> 'd keyboard_module" where
  "parse_setup E v k =
     (case v of
        LTable n es \<Rightarrow>
          (let k1 = k\<lparr>km_layouts := [], km_options := []\<rparr>; lay = get_field es ''layouts''; opt = get_field es ''options'';
               k2 = (if is_string lay then k1\<lparr>km_layouts := filter (\<lambda>t. t \<noteq> []) (getlines CHR '','' (lua_to_string E lay))\<rparr> else k1)
           in if \<not> is_string lay \<and> lay \<noteq> LNil
              then (Some (''keyboard.setup: layouts must be a string (e.g. '' @ [CHR 0x22] @ ''us,ru'' @ [CHR 0x22] @ '')''), k2)
              else if is_string opt then (None, k2\<lparr>km_options := lua_to_string E opt\<rparr>)
              else if opt \<noteq> LNil then (Some ''keyboard.setup: options must be a string'', k2)
              else (None, k2))
      | _ \<Rightarrow> (Some ''keyboard.setup: expected table'', k))"

definition keyboard_newindex :: "kb_env \<Rightarrow> lua_value \<Rightarrow> lua_value \<Rightarrow> 'd keyboard_module \<Rightarrow> 'd keyboard_module" where
  "keyboard_newindex E key v k =
     (if (if is_string key then lua_to_string E key else []) = ''settings'' then snd (parse_setup E v k) else k)"

definition keyboard_apply :: "'d xkb \<Rightarrow> 'd keyboard_module \<Rightarrow> 'd keyboard_module" where
  "keyboard_apply E k =
     (if km_layouts k = [] then k else k\<lparr>km_port := port_apply E (km_layouts k) (km_options k) (km_port k)\<rparr>)"

definition keyboard_on_start :: "'d xkb \<Rightarrow> 'd keyboard_module \<Rightarrow> 'd keyboard_module" where
  "keyboard_on_start E k = keyboard_apply E k"

definition keyboard_on_reload :: "'d xkb \<Rightarrow> 'd keyboard_module \<Rightarrow> 'd keyboard_module" where
  "keyboard_on_reload E k = keyboard_apply E k"

definition keyboard_on_stop :: "'d xkb \<Rightarrow> bool \<Rightarrow> 'd keyboard_module \<Rightarrow> 'd keyboard_module" where
  "keyboard_on_stop E is_exec_restart k = (if is_exec_restart then k else k\<lparr>km_port := port_restore E (km_port k)\<rparr>)"

definition on_focus_changed :: "'d xkb \<Rightarrow> window_id \<Rightarrow> 'd keyboard_module \<Rightarrow> 'd keyboard_module" where
  "on_focus_changed E win k =
     (let groups = (if km_focused k \<noteq> NO_WINDOW then (km_window_groups k)(km_focused k \<mapsto> port_get_group E (km_port k)) else km_window_groups k);
          group = (case groups win of None \<Rightarrow> 0 | Some g \<Rightarrow> g);
          port = port_set_group E group (km_port k)
      in k\<lparr>km_window_groups := groups, km_focused := win, km_port := port,
           km_posted := km_posted k @ [layout_message (port_current_layout E port)]\<rparr>)"

definition on_window_unmapped :: "window_id \<Rightarrow> 'd keyboard_module \<Rightarrow> 'd keyboard_module" where
  "on_window_unmapped win k =
     k\<lparr>km_window_groups := (km_window_groups k)(win := None), km_focused := (if km_focused k = win then NO_WINDOW else km_focused k)\<rparr>"

end
