(* ===== verification/Keyboard_Properties.thy ===== *)
theory Keyboard_Properties
  imports Keyboard
begin

text \<open>
  What the keyboard module promises: every window keeps its layout, and stopping gives the user's layouts back.
\<close>

section \<open>The layout of a window\<close>

text \<open>
  What can happen between two focus changes: the focus moves, a window disappears, and the user or a program does
  something to the keyboard.
\<close>

datatype 'd keyboard_happening = KFocus window_id | KUnmapped window_id | KDisplay "'d \<Rightarrow> 'd"

fun keyboard_step :: "'d xkb \<Rightarrow> 'd keyboard_happening \<Rightarrow> 'd keyboard_module \<Rightarrow> 'd keyboard_module" where
  "keyboard_step E (KFocus win) k = on_focus_changed E win k"
| "keyboard_step E (KUnmapped win) k = on_window_unmapped win k"
| "keyboard_step E (KDisplay f) k = k\<lparr>km_port := (km_port k)\<lparr>kp_dpy := map_option f (kp_dpy (km_port k))\<rparr>\<rparr>"

text \<open>Locking a group the keyboard has makes it the group in force.\<close>

definition group_law :: "'d xkb \<Rightarrow> nat \<Rightarrow> bool" where
  "group_law E n \<longleftrightarrow>
     0 < n \<and> n \<le> 4 \<and> (\<forall>d g. get_xkb_group E d = Some g \<longrightarrow> unat g < n) \<and>
     (\<forall>d g. unat g < n \<longrightarrow> get_xkb_group E (lock_group E g d) = Some (ucast g))"

lemma group_in_range: "group_law E n \<Longrightarrow> unat (port_get_group E k) < n"
  by (auto simp: group_law_def port_get_group_def unsigned_ucast_eq take_bit_word_eq_self split: option.splits
      intro: le_less_trans [OF take_bit_nat_less_eq_self])

lemma set_get_group:
  assumes "group_law E n" and "unat g < n" and "kp_dpy k \<noteq> None"
  shows "port_get_group E (port_set_group E g k) = g"
proof -
  have "unat g < 256" using assms(1,2) by (simp add: group_law_def)
  then have "ucast (ucast g :: 8 word) = g"
    by (simp add: word_unat_eq_iff unsigned_ucast_eq take_bit_word_eq_self unsigned_take_bit_eq take_bit_nat_eq_self)
  then show ?thesis using assms by (auto simp: port_get_group_def port_set_group_def group_law_def)
qed

text \<open>
  A window keeps its layout: whatever happens while the focus is elsewhere, when it comes back to the window the group in
  force is the one that was in force when the window lost the focus, unless the window disappeared in between.
\<close>

definition keeps_group :: "window_id \<Rightarrow> 32 word \<Rightarrow> 'd keyboard_module \<Rightarrow> bool" where
  "keeps_group win g k \<longleftrightarrow> win \<noteq> NO_WINDOW \<and> km_focused k \<noteq> win \<and> km_window_groups k win = Some g \<and> kp_dpy (km_port k) \<noteq> None"

lemma keeps_group_steps:
  assumes "keeps_group win g k" "KFocus win \<notin> set steps" "KUnmapped win \<notin> set steps"
  shows "keeps_group win g (fold (keyboard_step E) steps k)"
  using assms
proof (induction steps arbitrary: k)
  case (Cons st steps)
  have "keeps_group win g (keyboard_step E st k)"
    using Cons.prems by (cases st) (auto simp: keeps_group_def on_focus_changed_def on_window_unmapped_def port_set_group_def Let_def)
  then show ?case using Cons by simp
qed simp

theorem window_keeps_layout:
  assumes law: "group_law E n" and k: "km_focused k = win" "win \<noteq> NO_WINDOW" "kp_dpy (km_port k) \<noteq> None" "other \<noteq> win"
    and steps: "KFocus win \<notin> set steps" "KUnmapped win \<notin> set steps"
  shows "port_get_group E (km_port (fold (keyboard_step E) (KFocus other # steps @ [KFocus win]) k)) = port_get_group E (km_port k)"
proof -
  let ?g = "port_get_group E (km_port k)" and ?k1 = "on_focus_changed E other k"
  define k2 where "k2 = fold (keyboard_step E) steps ?k1"
  have "keeps_group win ?g ?k1" using k by (auto simp: keeps_group_def on_focus_changed_def port_set_group_def Let_def)
  then have "keeps_group win ?g k2" unfolding k2_def by (rule keeps_group_steps) (use steps in auto)
  then have "port_get_group E (km_port (on_focus_changed E win k2)) = ?g"
    using set_get_group [OF law group_in_range [OF law, of "km_port k"], of "km_port k2"]
    by (auto simp: keeps_group_def on_focus_changed_def Let_def)
  then show ?thesis by (simp add: k2_def)
qed

section \<open>Putting the layouts back\<close>

text \<open>What a snapshot carries over when it is applied and read again: texts without a zero, layouts without a comma.\<close>

definition snapshot_safe :: "xkb_snapshot \<Rightarrow> bool" where
  "snapshot_safe snap \<longleftrightarrow>
     (\<forall>t\<in>set (ks_rules snap # ks_model snap # ks_variant snap # ks_options snap # ks_layouts snap). CHR 0x00 \<notin> set t) \<and>
     ks_rules snap \<noteq> [] \<and> length (ks_rules snap) \<le> 255 \<and> ks_layouts snap \<noteq> [] \<and> last (ks_layouts snap) \<noteq> [] \<and>
     (\<forall>t\<in>set (ks_layouts snap). CHR '','' \<notin> set t)"

lemma until_nul_id: "CHR 0x00 \<notin> set t \<Longrightarrow> until_nul t = t"
  by (auto simp: until_nul_def takeWhile_eq_all_conv)

lemma text_c_arg: "CHR 0x00 \<notin> set t \<Longrightarrow> text_or_empty (c_arg t) = t"
  by (simp add: text_or_empty_def c_arg_def until_nul_id)

lemma join_set: "set (join d ts) \<subseteq> \<Union> (set ` set ts) \<union> {d}"
  by (induction d ts rule: join.induct) auto

lemma join_not_empty: "ts \<noteq> [] \<Longrightarrow> last ts \<noteq> [] \<Longrightarrow> join d ts \<noteq> []"
  by (induction d ts rule: join.induct) auto

text \<open>The names that are set can be read back, and loading a keyboard does not touch them.\<close>

definition names_law :: "'d xkb \<Rightarrow> bool" where
  "names_law E \<longleftrightarrow> (\<forall>r vd d. get_names_prop E (set_names_prop E r vd d) = Some (Some r, vd)) \<and>
     (\<forall>path loc. load_rules E path loc \<noteq> None) \<and> (\<forall>r vd. get_components E r vd \<noteq> None) \<and> (\<forall>c d. fst (keyboard_by_name E c d))"

lemma read_applied_snapshot:
  assumes "names_law E" "snapshot_safe snap"
  shows "read_snapshot E (apply_snapshot E snap d) = Some snap"
proof -
  have "CHR 0x00 \<notin> set (join CHR '','' (ks_layouts snap))"
    using join_set [of "CHR '',''" "ks_layouts snap"] assms(2) by (auto simp: snapshot_safe_def)
  then have l: "split_layouts (c_arg (join CHR '','' (ks_layouts snap))) = ks_layouts snap"
    using assms(2) getlines_join [of "ks_layouts snap" "CHR '',''"] join_not_empty [of "ks_layouts snap" "CHR '',''"]
    by (simp add: snapshot_safe_def split_layouts_def c_arg_def until_nul_id)
  have r: "take 255 (rules_name snap) = ks_rules snap"
    using assms(2) by (simp add: snapshot_safe_def rules_name_def until_nul_id)
  have path: "\<exists>rules. load_rules E p (Some loc) = Some rules" for p loc using assms(1) by (auto simp: names_law_def)
  have comp: "\<exists>names. get_components E rules vd = Some names" for rules vd using assms(1) by (auto simp: names_law_def)
  obtain rules where rules: "load_rules E (''/usr/share/X11/xkb/rules/'' @ rules_name snap) (Some ''C'') = Some rules" using path by blast
  obtain names where names: "get_components E rules (snapshot_defs snap) = Some names" using comp by blast
  have "fst (keyboard_by_name E names d)" using assms(1) by (simp add: names_law_def)
  then have "apply_snapshot E snap d = set_names_prop E (ks_rules snap) (snapshot_defs snap) (snd (keyboard_by_name E names d))"
    by (simp add: apply_snapshot_def Let_def rules [simplified] names r split_beta)
  moreover have "get_names_prop E (set_names_prop E (ks_rules snap) (snapshot_defs snap) d1) = Some (Some (ks_rules snap), snapshot_defs snap)" for d1
    using assms(1) by (simp add: names_law_def)
  moreover have "text_or_empty (c_arg (ks_model snap)) = ks_model snap" "text_or_empty (c_arg (ks_variant snap)) = ks_variant snap"
    "text_or_empty (c_arg (ks_options snap)) = ks_options snap"
    using assms(2) by (simp_all add: snapshot_safe_def text_c_arg)
  ultimately show ?thesis using l by (simp add: read_snapshot_def snapshot_defs_def text_or_empty_def [of "Some _"])
qed

text \<open>
  After the layouts were replaced any number of times, stopping the window manager gives the display the names back that
  it had before the first time.
\<close>
lemma restore_after_apply:
  assumes "names_law E" "kp_dpy k = Some d" "kp_saved k = None" "read_snapshot E d = Some snap" "snapshot_safe snap"
    and "applied = fold (\<lambda>(ls, opts). port_apply E ls opts) ((ls, opts) # later) k" "ls \<noteq> []"
  shows "\<exists>d'. kp_dpy (port_restore E applied) = Some d' \<and> read_snapshot E d' = Some snap \<and> kp_saved (port_restore E applied) = None"
proof -
  have step: "\<exists>d'. kp_dpy (port_apply E ls opts k) = Some d' \<and> kp_saved (port_apply E ls opts k) = Some snap"
    if "kp_dpy k = Some d" "kp_saved k = Some snap" for ls opts k and d :: 'a
    using that by (simp add: port_apply_def Let_def)
  have all: "\<exists>d'. kp_dpy (fold (\<lambda>(ls, opts). port_apply E ls opts) later k) = Some d' \<and>
      kp_saved (fold (\<lambda>(ls, opts). port_apply E ls opts) later k) = Some snap"
    if "\<exists>d'. kp_dpy k = Some d'" "kp_saved k = Some snap" for later k
    using that by (induction later arbitrary: k) (use step in \<open>fastforce split: prod.splits\<close>)+
  have "kp_saved (port_apply E ls opts k) = Some snap" "\<exists>d'. kp_dpy (port_apply E ls opts k) = Some d'"
    using assms(2-4,7) by (simp_all add: port_apply_def Let_def)
  from all [OF this(2,1), of later] obtain d' where "kp_dpy applied = Some d'" "kp_saved applied = Some snap" using assms(6) by auto
  then show ?thesis using read_applied_snapshot [OF assms(1,5)] by (simp add: port_restore_def)
qed

end
