(* ===== verification/Spec2Isabelle.thy ===== *)
theory Spec2Isabelle
  imports Wsman_Properties Core_Properties Core_Geometry Config_Properties Runtime_Properties
    Display_Server_Properties Wayland_Properties Keybindings_Properties Child_Processes_Properties
    X11_Burst_Properties Randr_Properties Keyboard_Properties
begin

text \<open>
  \<^bold>\<open>SirenWM: a verification of the window manager's core and runtime\<close>

  \<^bold>\<open>The program.\<close> SirenWM is a tiling window manager. \<^verbatim>\<open>class Core\<close> (\<^verbatim>\<open>core/src/core\<close>,
  \<^verbatim>\<open>core/include/domain\<close>) owns all window management state and changes it only in command handlers; it
  leaves backend effects, flush masks and events behind. \<^verbatim>\<open>class WorkspaceManager\<close> inside it keeps
  monitors, workspaces, windows and their indexes. \<^verbatim>\<open>class Runtime\<close> (\<^verbatim>\<open>core/src/runtime\<close>) owns the core,
  the settings store, the event queue and the modules, loads and reloads the Lua configuration, adopts
  the windows that exist at start-up, and runs the main loop. Backends (X11, Wayland) translate native
  events into commands and effects into native requests; modules draw bars, handle keys and so on. The
  Wayland side is a second process, the display server (\<^verbatim>\<open>libwlserver\<close>), which the Wayland backend drives
  over a socket with the messages of \<^verbatim>\<open>libipc\<close>.

  \<^bold>\<open>Theories\<close>, in the order of their imports.
  \<^item> \<open>Prelude\<close>: counterparts of the C++ idioms (first-match loops, erase, resize, truncating division)
    and the theorem collections \<open>inv_intros\<close> and \<open>frame_simps\<close>.
  \<^item> \<open>Domain_Types\<close>: ids, vectors, monitors, windows, configuration records
    (\<^verbatim>\<open>events.hpp\<close>, \<^verbatim>\<open>monitor.hpp\<close>, \<^verbatim>\<open>window_state.hpp\<close>, \<^verbatim>\<open>config_types.hpp\<close>).
  \<^item> \<open>Workspace\<close>, \<open>Workspace_Manager\<close>: \<^verbatim>\<open>ws.hpp\<close> and \<^verbatim>\<open>workspace_manager.cpp\<close>, one definition for every
    member function. Windows are shared pointers in the source, so the state has a heap and numbers as
    pointers.
  \<^item> \<open>Wsman_Invariant\<close>, \<open>Wsman_Windows\<close>, \<open>Wsman_Monitors\<close>, \<open>Wsman_Defs\<close>, \<open>Wsman_Hotplug\<close>,
    \<open>Wsman_Properties\<close>: the invariant \<^const>\<open>wsman_inv\<close> (lists, indexes, pools and cursors agree), its
    preservation by every operation, closed forms of the pool loops, hot-plug and definition reload.
  \<^item> \<open>Float32\<close>, \<open>Layout\<close>: binary32 rounding and the tile and monocle layouts (\<^verbatim>\<open>layout.hpp\<close>). The locale
    \<open>layout_policy\<close> is what the core relies on of a layout.
  \<^item> \<open>Core_State\<close>, \<open>Core_Dispatch\<close>: \<^verbatim>\<open>core.hpp\<close>, \<^verbatim>\<open>commands.hpp\<close> and \<^verbatim>\<open>core_dispatch.cpp\<close>: the state with
    its outputs, every handler, arrange, focus, visibility, fullscreen.
  \<^item> \<open>Core_Invariant\<close>, \<open>Core_Commands\<close>, \<open>Core_Reachable\<close>: \<^const>\<open>core_inv\<close>, its preservation by every command,
    and the core as a transition system (\<^const>\<open>core_step\<close>, \<^const>\<open>core_run\<close>, \<^const>\<open>core_reachable\<close>) through the
    locales \<open>invariant_system\<close> and \<open>reducer\<close>.
  \<^item> \<open>Core_Effects\<close>, \<open>Core_Visibility\<close>, \<open>Core_Focus\<close>, \<open>Core_Handlers\<close>, \<open>Core_Fullscreen\<close>, \<open>Core_Properties\<close>,
    \<open>Core_Geometry\<close>: what the handlers achieve: visibility, focus, moves, removal, fullscreen, size hints,
    flushes, reservations, transients, tiling.
  \<^item> \<open>Monitor_Layout\<close>: \<^verbatim>\<open>monitor_layout.cpp\<close>; the specification is the inductive relation
    \<^const>\<open>placed\<close>, and the coloured depth-first search finds exactly what it allows.
  \<^item> \<open>Runtime_Value\<close>, \<open>Config_Parse\<close>, \<open>Runtime_Store\<close>: \<^verbatim>\<open>runtime_config.cpp\<close>, \<^verbatim>\<open>config_runtime.cpp\<close>,
    \<^verbatim>\<open>runtime_store.cpp\<close>: Lua values, parsers, settings with snapshot and rollback (locale
    \<open>transactional\<close>).
  \<^item> \<open>Settings_Validation\<close>, \<open>Config_Properties\<close>: \<^verbatim>\<open>Runtime::validate_settings\<close> and what it guarantees.
  \<^item> \<open>Event_Pipeline\<close>: \<^verbatim>\<open>event_queue.hpp\<close>, \<^verbatim>\<open>pointer_registry.hpp\<close>, \<^verbatim>\<open>hook_registry.hpp\<close>; the locale
    \<open>fifo_sink\<close> is the contract between the queue and its clients.
  \<^item> \<open>Restart_State\<close>: the restart file, its writer (\<^verbatim>\<open>runtime.cpp\<close>) and its reader (\<^verbatim>\<open>adopt.cpp\<close> of the X11
    backend).
  \<^item> \<open>Runtime\<close>, \<open>Runtime_Invariant\<close>, \<open>Runtime_Properties\<close>: \<^verbatim>\<open>runtime.cpp\<close>: lifecycle, reload, adoption, main
    loop; the environment is the record \<^typ>\<open>env\<close> of callbacks.
  \<^item> \<open>Ipc\<close>: \<^verbatim>\<open>libipc\<close>: messages and their bytes, channels with descriptor passing, the dispatcher, shared
    buffers, socket paths. The locale \<open>wire\<close> is the contract of a codec; it is interpreted for integers,
    strings, headers and all messages.
  \<^item> \<open>Display_Server\<close>, \<open>Display_Server_Properties\<close>: \<^verbatim>\<open>display_state.cpp\<close>, \<^verbatim>\<open>overlay_manager.cpp\<close>,
    \<^verbatim>\<open>backend_control_server.cpp\<close>: the server's tables, its control connection and one turn of its loop.
  \<^item> \<open>Wayland_Backend\<close>, \<open>Wayland_Invariant\<close>, \<open>Wayland_Sync\<close>, \<open>Wayland_Properties\<close>:
    \<^verbatim>\<open>display_server_backend.cpp\<close> and its ports on top of the runtime's world, and the two processes
    joined by a queue of packets. \<open>Core_Access\<close> has the lookups backends and modules share.
  \<^item> \<open>Keybindings\<close>, \<open>Keybindings_Properties\<close>: \<^verbatim>\<open>modules/keybindings\<close>: the parsers of bindings, grabs, and the
    drag of a window as a state machine over the core's commands.
  \<^item> \<open>Text_Input\<close>, \<open>Child_Processes\<close>, \<open>Child_Processes_Properties\<close>: \<^verbatim>\<open>child_process_registry.cpp\<close> and the start
    of the program in \<^verbatim>\<open>main.cpp\<close>.
  \<^item> \<open>Xcb_Connection\<close>: \<^verbatim>\<open>libxcb\<close>: requests and events as data, and how replies of the X server are decoded. The
    server is a record of raw answers.
  \<^item> \<open>X11_Backend\<close>, \<open>X11_Events\<close>: \<^verbatim>\<open>backends/x11/src/backend\<close>, \<^verbatim>\<open>x11_window.hpp\<close>, \<^verbatim>\<open>input_port.cpp\<close>: windows, EWMH,
    every X event handler, the event pump, the frame, start-up and the scan of existing windows. The state
    records the requests in order; the server's answers are a function of the requests so far.
  \<^item> \<open>X11_Invariant\<close>: the locale \<open>x_closed\<close> states once what a relation must promise so that every operation
    of the backend respects it; it is interpreted for the moves of the core and for the fields that no
    handler touches.
  \<^item> \<open>X11_Properties\<close>, \<open>X11_Protocol_Properties\<close>, \<open>X11_Configure_Properties\<close>, \<open>X11_Burst_Properties\<close>: what follows
    for sessions, requests, unmaps, key repeats, configure requests, bursts and restarts.
  \<^item> \<open>Randr\<close>, \<open>Randr_Properties\<close>: \<^verbatim>\<open>monitor_port.cpp\<close> of the X11 backend with \<^verbatim>\<open>xcb/randr.hpp\<close> and
    \<^verbatim>\<open>xconn.cpp\<close>: the choice of modes and CRTCs, the requests that configure the outputs, the retry, the
    reading of the monitors.
  \<^item> \<open>Keyboard\<close>, \<open>Keyboard_Properties\<close>: \<^verbatim>\<open>keyboard_port.cpp\<close> of the X11 backend and the module
    \<^verbatim>\<open>modules/keyboard\<close> that remembers a layout for every window.
  \<^item> \<open>Examples\<close>: the concrete session the witnesses use.

  \<^bold>\<open>How the model corresponds to the code.\<close> A class is a record and a method a function on it that returns
  the new state; a \<^verbatim>\<open>bool\<close> result comes first in a pair. Window ids are 32-bit words, flush masks 8-bit
  words; other \<^verbatim>\<open>int\<close> values are integers, since signed overflow has no meaning in the source. Divisions
  truncate towards zero. An access out of range, an assertion, or a loop that does not end is \<open>None\<close>.
  Recursion that is not structural carries its measure: the compose search by the aliases not yet
  coloured, the validator's search by the links not yet coloured, the restart reader by the length of the
  input, the Lua conversion by the size of the value. The drain loop, the main loop and the lifecycle loop
  may run forever and are partial functions; that they return is proved under stated conditions. The
  receive loops of the two processes are partial functions as well; system calls are a record of
  functions on a state of the operating system, with their documented behaviour as named hypotheses
  (\<^const>\<open>packets_sent\<close>, \<^const>\<open>packets_received\<close>), and an exception is a value that carries the state it
  leaves behind.

  \<^bold>\<open>What is shown.\<close>
  \<^item> State: every reachable core passes the consistency check of the debug build; every command keeps
    the invariant; the runtime moves the core only through the core's interface, so this holds for a
    whole session, failed reloads included.
  \<^item> Workspaces and monitors: moves relocate exactly one window, a reload of workspace definitions loses
    no window, unplugging and replugging a monitor, with the assignment that follows each of the two changes, leaves
    the workspaces on the monitors the configuration names; every workspace gets an owner.
  \<^item> Commands: focus, visibility, fullscreen, removal, transients, reservations, size hints, flushes and
    tiling behave as specified, on every branch.
  \<^item> Configuration: parsers invert their encoding, a validated configuration has a complete
    monitor layout without overlaps of linked monitors, loading never gets stuck, a failed reload is
    rolled back.
  \<^item> Runtime: events are delivered first in first out, the lifecycle ends in its final state, the restart
    file can be read back without loss.
  \<^item> Wayland: every message survives the socket, a packet with a wrong header changes nothing, the
    snapshot makes the backend's tables an image of the server's, the backend moves the core only through
    its interface, and a destroyed surface is forgotten by the backend's table and by the core; the server
    finds a topmost surface under the pointer.
  \<^item> X11: whatever the server sends and answers, the backend moves the core only through its interface; a
    destroyed window is forgotten by the backend and by the core; the backend's own unmaps are told from
    those of clients, key repeats are filtered over any number of pumps, every configure request of a
    managed window is answered, configure requests are well-formed, a burst of events means what its
    events mean in order, the rectangle chosen for a new window is inside its monitor, and a restart finds
    its windows again.
  \<^item> Outputs: applying a monitor layout sends nothing exactly when the layout is in effect already, a pass over
    the layout grants no CRTC to two outputs, and the mode chosen for an output has the configured size and
    comes closest to the configured rate.
  \<^item> Keyboard layouts: a window gets back the layout that was in force when it lost the focus, and stopping the
    module restores the layouts of the user.
  \<^item> Key bindings: a specification means the union of its modifiers and its last keysym, in
    the module's own calls the pointer is grabbed and released in step with the drag, a dragged window follows
    the pointer without drift and lands on the workspace under it.
  \<^item> Processes: while its file can be written, the registry's file gives its entries back, waiting for a child does not depend on how its
    output is cut into reads, and exactly the owned children are terminated at the end.
  \<^item> Defects: layouts defined in Lua are never used and do not survive a failed reload; rotations are
    validated without regard to case and used with it; workspace names that look like numbers are
    refused; a reload can change the active workspace of a monitor; the display server closes the
    descriptor of an overlay twice, starves XWayland while a window manager is connected and idle, and
    filters only the first 64 grabbed keys; bindings with num lock never fire; a child that cannot be
    adopted is forgotten while it runs; after an exec-restart the registry waits for its own lock; the hint
    for no decorations is read from a misspelt property; a floating X11 window is told a size that the core
    does not grant; one output without a mode of the configured size makes every application of the layout
    switch all outputs off and on again.

  \<^bold>\<open>Not modelled.\<close> Of the X11 backend the render and GL ports and the tray host, which are sequences of calls of
  the X libraries; the Wayland protocol objects and the nested output of
  \<^verbatim>\<open>libwlserver\<close>; the Lua host and the configuration loader, which execute user scripts; drawing modules and
  readers of system files. They are callbacks of the runtime model or inputs of the display server; signals,
  epoll and logging are left out.
\<close>

end
